(* ===== verification/Prelude.thy ===== *)
theory Prelude
  imports Main "HOL-Library.Monad_Syntax"
begin

text \<open>
  Shared vocabulary of the development.

  \<^item> Types: UUIDs and primary keys are numbers, a \<open>datetime\<close> is a number of microseconds since
    the epoch (UTC), JSON documents are a datatype, and a raised Python exception is a value of
    \<open>py_error\<close>, named after the exception class (the text of the message is not modelled).
  \<^item> Python truthiness: \<open>if x:\<close> is false for \<open>None\<close>, for the empty string and for \<open>0\<close>.
  \<^item> Tables: a database table is a list of rows in primary-key order; \<open>put_row\<close> saves one
    row, \<open>put_rows\<close> is a bulk update.
  \<^item> \<open>guarded_transitions\<close>: the interface of every state machine of the application, whose
    operations keep the state of a record or move it along an edge of a transition table.
\<close>

section \<open>Types\<close>

type_synonym uuid = nat
type_synonym datetime = int

datatype json =
    JNull
  | JBool bool
  | JNum int
  | JStr string
  | JList "json list"
  | JObj "(string \<times> json) list"

text \<open>The truth value of a value read from a JSON column.\<close>

fun json_truthy :: "json \<Rightarrow> bool" where
  "json_truthy JNull = False"
| "json_truthy (JBool b) = b"
| "json_truthy (JNum n) = (n \<noteq> 0)"
| "json_truthy (JStr s) = (s \<noteq> [])"
| "json_truthy (JList xs) = (xs \<noteq> [])"
| "json_truthy (JObj fields) = (fields \<noteq> [])"

datatype py_error =
    ValueError
  | TypeError
  | KeyError
  | AttributeError
  | UnboundLocalError
  | GenericException
  | ValidationError
  | PriceValidationError
  | IntegrityError
  | MultipleObjectsReturned
  | HTTPError
  | SubsidyAPIHTTPError
  | ContentPriceNullException
  | MissingAssignment
  | SubsidyAccessPolicyLockAttemptFailed
  | AllocationException
  | FailedCheckoutIntentConflict
  | SlugReservationConflict
  | UnitOfWorkException
  | DoesNotExist
  | APIClientException
  | NotImplementedError
  | NotFound
  | PermissionDenied
  | SubisidyAccessPolicyRequestApprovalError
  | IndexError
  | ConnectionError
  | Timeout
  | JSONDecodeError
  | MissingSchema
  | FetchGroupMembersConflictingParamsException
  | ParseError
  | SerializerError
  | StripeError
  | StripePricingError
  | CreateCheckoutSessionValidationError
  | InvalidOperation
  | CreateCheckoutSessionSlugReservationConflict
  | CreateCheckoutSessionFailedConflict
  | RecordConflictError
  | OperationalError
  | BrazeClientError

type_synonym 'a result = "py_error + 'a"

text \<open>
  Asynchronous work: a call of \<open>delay\<close> on a Celery task is an entry of the outbox, with the task and
  the key of the record it is about.
\<close>

datatype task =
    Update_Course_Info string uuid
  | Create_Pending_Enterprise_Learner uuid
  | Send_Email_For_New_Assignment uuid
  | Send_Cancel_Email uuid
  | Send_Reminder_Email uuid
  | Send_Exec_Ed_Enrollment_Warmer uuid int
  | Send_Assignment_Expired_Email uuid
  | Send_Bnr_Expired_Email uuid
  | Send_Bnr_Approve uuid
  | Send_Bnr_Cancel uuid
  | Send_Bnr_Decline uuid
  | Unlink_Users "uuid option" "int option"
  | Assign_Licenses "uuid list" uuid bool
  | Assign_Coupon_Codes "uuid list" int bool
  | Decline_Requests "uuid list" string bool
  | Send_Request_Notification uuid string string "bool option"
  | Send_Bnr_Admins_Email uuid uuid uuid
  | Send_Bnr_Reminder uuid

named_theorems result_simps \<open>evaluation of the exception monad\<close>
named_theorems table_simps \<open>rows and keys of updated tables\<close>

section \<open>Results\<close>

text \<open>Sequencing: an exception of the first computation skips the second.\<close>

fun rbind :: "'a result \<Rightarrow> ('a \<Rightarrow> 'b result) \<Rightarrow> 'b result" where
  "rbind (Inl e) f = Inl e"
| "rbind (Inr x) f = f x"

lemma rbind_Inr_iff [result_simps]:
  "rbind m f = Inr y \<longleftrightarrow> (\<exists>x. m = Inr x \<and> f x = Inr y)"
  by (cases m) auto

lemma rbind_Inl_iff [result_simps]:
  "rbind m f = Inl e \<longleftrightarrow> m = Inl e \<or> (\<exists>x. m = Inr x \<and> f x = Inl e)"
  by (cases m) auto

text \<open>Eliminations that follow a computation to its success, one statement at a time.\<close>

lemma rbind_InrE:
  assumes "rbind m f = Inr y" and "\<And>x. m = Inr x \<Longrightarrow> f x = Inr y \<Longrightarrow> P"
  shows P
  using assms by (auto simp: rbind_Inr_iff)

lemma case_prod_eqE:
  assumes "(case x of (a, b) \<Rightarrow> f a b) = y" and "\<And>a b. x = (a, b) \<Longrightarrow> f a b = y \<Longrightarrow> P"
  shows P
  using assms by (cases x) auto

lemma refusedE:
  assumes "(if c then Inr (False, r', t') else m) = Inr (True, r, t)" and "\<not> c \<Longrightarrow> m = Inr (True, r, t) \<Longrightarrow> P"
  shows P
  using assms by (cases c) auto

lemma refused_NoneE:
  assumes "(case x of None \<Rightarrow> Inr (False, r', t') | Some a \<Rightarrow> f a) = Inr (True, r, t)"
    and "\<And>a. x = Some a \<Longrightarrow> f a = Inr (True, r, t) \<Longrightarrow> P"
  shows P
  using assms by (cases x) auto

lemmas successE = rbind_InrE case_prod_eqE refusedE refused_NoneE

lemma rbind_assoc: "rbind (rbind m f) g = rbind m (\<lambda>x. rbind (f x) g)"
  by (cases m) simp_all

text \<open>Sequencing of computations that change a state, whose changes survive an exception.\<close>

definition sbind :: "'s \<times> 'a result \<Rightarrow> ('a \<Rightarrow> 's \<Rightarrow> 's \<times> 'b result) \<Rightarrow> 's \<times> 'b result" where
  "sbind m f = (case m of (s, Inl e) \<Rightarrow> (s, Inl e) | (s, Inr x) \<Rightarrow> f x s)"

lemma sbind_simps [simp]:
  "sbind (s, Inl e) f = (s, Inl e)"
  "sbind (s, Inr x) f = f x s"
  by (simp_all add: sbind_def)

lemma sbind_InrE:
  assumes "sbind m f = (t, Inr y)" and "\<And>s x. m = (s, Inr x) \<Longrightarrow> f x s = (t, Inr y) \<Longrightarrow> P"
  shows P
  using assms by (cases m; cases "snd m") (auto simp: sbind_def)

text \<open>What every step of a sequence keeps, the sequence keeps.\<close>

lemma sbind_keeps:
  assumes "P (fst m)" and "\<And>s x. m = (s, Inr x) \<Longrightarrow> P (fst (f x s))"
  shows "P (fst (sbind m f))"
  using assms by (cases m; cases "snd m") (auto simp: sbind_def)

lemma sbind_value_keeps:
  assumes "P s" and "\<And>x. r = Inr x \<Longrightarrow> P (fst (f x s))"
  shows "P (fst (sbind (s, r) f))"
  using assms by (cases r) auto

text \<open>A sequence of guards that raise when they find something.\<close>

lemma raise_if_found:
  "(if xs \<noteq> [] then Inl e else m) = Inr y \<longleftrightarrow> xs = [] \<and> m = Inr y"
  by simp

text \<open>A Python loop whose body may raise: the first exception ends it.\<close>

fun rmap :: "('a \<Rightarrow> 'b result) \<Rightarrow> 'a list \<Rightarrow> 'b list result" where
  "rmap f [] = Inr []"
| "rmap f (x # xs) = rbind (f x) (\<lambda>y. rbind (rmap f xs) (\<lambda>ys. Inr (y # ys)))"

lemma rmap_Inr_length: "rmap f xs = Inr ys \<Longrightarrow> length ys = length xs"
  by (induction xs arbitrary: ys) (auto simp: rbind_Inr_iff)

lemma rmap_Inr_iff: "rmap f xs = Inr ys \<longleftrightarrow> list_all2 (\<lambda>x y. f x = Inr y) xs ys"
  by (induction xs arbitrary: ys) (auto simp: rbind_Inr_iff list_all2_Cons1)

lemma rmap_all_Inr: "(\<And>x. x \<in> set xs \<Longrightarrow> f x = Inr (g x)) \<Longrightarrow> rmap f xs = Inr (map g xs)"
  by (induction xs) auto

lemma rmap_projr:
  assumes "rmap f xs = Inr ys"
  shows "ys = map (\<lambda>x. projr (f x)) xs" and "x \<in> set xs \<Longrightarrow> f x = Inr (projr (f x))"
proof -
  have "ys = map (\<lambda>x. projr (f x)) xs \<and> (\<forall>x \<in> set xs. f x = Inr (projr (f x)))"
    using assms by (induction xs arbitrary: ys) (auto simp: rbind_Inr_iff)
  then show "ys = map (\<lambda>x. projr (f x)) xs" and "x \<in> set xs \<Longrightarrow> f x = Inr (projr (f x))" by auto
qed

section \<open>Python values\<close>

definition truthy :: "string option \<Rightarrow> bool" where
  "truthy s \<longleftrightarrow> s \<noteq> None \<and> s \<noteq> Some []"

lemma truthy_simps [simp]:
  "\<not> truthy None"
  "truthy (Some s) \<longleftrightarrow> s \<noteq> []"
  by (simp_all add: truthy_def)

text \<open>The expression \<open>a or b\<close> on optional strings.\<close>

definition py_or :: "string option \<Rightarrow> string option \<Rightarrow> string option" where
  "py_or a b = (if truthy a then a else b)"

definition truthy_int :: "int option \<Rightarrow> bool" where
  "truthy_int n \<longleftrightarrow> n \<noteq> None \<and> n \<noteq> Some 0"

text \<open>Iteration over a JSON value.\<close>

definition json_iter :: "json \<Rightarrow> json list result" where
  "json_iter v =
     (case v of
        JList xs \<Rightarrow> Inr xs
      | JStr s \<Rightarrow> Inr (map (\<lambda>c. JStr [c]) s)
      | JObj d \<Rightarrow> Inr (map (\<lambda>(k, _). JStr k) d)
      | _ \<Rightarrow> Inl TypeError)"

text \<open>\<open>d[k]\<close>, \<open>d.get(k)\<close> of a response; a response that is no dictionary has no such method.\<close>

definition item :: "json \<Rightarrow> string \<Rightarrow> json result" where
  "item v k = (case v of JObj d \<Rightarrow> (case map_of d k of None \<Rightarrow> Inl KeyError | Some x \<Rightarrow> Inr x) | _ \<Rightarrow> Inl TypeError)"

definition get_item :: "(string \<times> json) list \<Rightarrow> string \<Rightarrow> json" where
  "get_item d k = (case map_of d k of None \<Rightarrow> JNull | Some x \<Rightarrow> x)"

definition is_dict :: "json \<Rightarrow> unit result" where
  "is_dict v = (case v of JObj _ \<Rightarrow> Inr () | _ \<Rightarrow> Inl AttributeError)"

text \<open>The attribute \<open>v.k\<close> of an object whose attributes are the entries of a dictionary, and \<open>getattr\<close>.\<close>

definition attr :: "json \<Rightarrow> string \<Rightarrow> json result" where
  "attr v k = (case v of JObj d \<Rightarrow> (case map_of d k of None \<Rightarrow> Inl AttributeError | Some x \<Rightarrow> Inr x) | _ \<Rightarrow> Inl AttributeError)"

definition getattr :: "json \<Rightarrow> string \<Rightarrow> json \<Rightarrow> json" where
  "getattr v k d = (case attr v k of Inl _ \<Rightarrow> d | Inr x \<Rightarrow> x)"

text \<open>\<open>k in s\<close> on strings.\<close>

fun substring :: "string \<Rightarrow> string \<Rightarrow> bool" where
  "substring k [] \<longleftrightarrow> k = []"
| "substring k (c # s) \<longleftrightarrow> take (length k) (c # s) = k \<or> substring k s"

text \<open>\<open>d.get(k, default)\<close> on a value that may be no dictionary, \<open>k in d\<close>, and indexing with \<open>[0]\<close>.\<close>

definition json_get :: "json \<Rightarrow> string \<Rightarrow> json \<Rightarrow> json result" where
  "json_get v k d = (case v of JObj xs \<Rightarrow> Inr (case map_of xs k of None \<Rightarrow> d | Some x \<Rightarrow> x) | _ \<Rightarrow> Inl AttributeError)"

definition json_contains :: "json \<Rightarrow> string \<Rightarrow> bool result" where
  "json_contains v k =
     (case v of
        JObj d \<Rightarrow> Inr (k \<in> set (map fst d))
      | JList xs \<Rightarrow> Inr (JStr k \<in> set xs)
      | JStr s \<Rightarrow> Inr (substring k s)
      | _ \<Rightarrow> Inl TypeError)"

definition json_first :: "json \<Rightarrow> json result" where
  "json_first v =
     (case v of
        JList xs \<Rightarrow> (case xs of [] \<Rightarrow> Inl IndexError | x # _ \<Rightarrow> Inr x)
      | JStr s \<Rightarrow> (case s of [] \<Rightarrow> Inl IndexError | c # _ \<Rightarrow> Inr (JStr [c]))
      | JObj _ \<Rightarrow> Inl KeyError
      | _ \<Rightarrow> Inl TypeError)"

text \<open>The dictionary union \<open>a | b\<close>: keys of \<open>a\<close> keep their place, \<open>b\<close> wins.\<close>

fun dict_put :: "('k \<times> 'v) list \<Rightarrow> 'k \<Rightarrow> 'v \<Rightarrow> ('k \<times> 'v) list" where
  "dict_put [] k v = [(k, v)]"
| "dict_put ((k', v') # d) k v = (if k' = k then (k, v) # d else (k', v') # dict_put d k v)"

definition dict_union :: "('k \<times> 'v) list \<Rightarrow> ('k \<times> 'v) list \<Rightarrow> ('k \<times> 'v) list" where
  "dict_union a b = fold (\<lambda>(k, v) d. dict_put d k v) b a"

lemma map_of_dict_put [simp]: "map_of (dict_put d k v) = (map_of d)(k \<mapsto> v)"
  by (induction d k v rule: dict_put.induct) auto

lemma set_dict_put: "set (dict_put d k v) \<subseteq> set d \<union> {(k, v)}"
  by (induction d k v rule: dict_put.induct) auto

lemma keys_dict_put: "fst ` set (dict_put d k v) = insert k (fst ` set d)"
  by (induction d k v rule: dict_put.induct) auto

lemma distinct_dict_put: "distinct (map fst d) \<Longrightarrow> distinct (map fst (dict_put d k v))"
proof (induction d k v rule: dict_put.induct)
  case (2 k' v' d k v)
  then show ?case using keys_dict_put [of d k v] by (auto simp: image_iff)
qed simp

text \<open>A dictionary built by a loop: its entries come from the loop, its keys are distinct.\<close>

lemma dict_put_loop:
  "set (fold (\<lambda>(k, v) d. dict_put d k v) ps d) \<subseteq> set d \<union> set ps"
  "distinct (map fst d) \<Longrightarrow> distinct (map fst (fold (\<lambda>(k, v) d. dict_put d k v) ps d))"
proof (induction ps arbitrary: d)
  case (Cons p ps)
  obtain k v where p: "p = (k, v)" by (cases p)
  { case 1
    show ?case using Cons.IH(1) [of "dict_put d k v"] set_dict_put [of d k v] by (auto simp: p)
  next
    case 2
    then show ?case using Cons.IH(2) [OF distinct_dict_put] by (simp add: p) }
qed simp_all

lemma map_of_dict_union: "distinct (map fst b) \<Longrightarrow> map_of (dict_union a b) = map_of a ++ map_of b"
proof (induction b arbitrary: a)
  case Nil
  then show ?case by (simp add: dict_union_def)
next
  case (Cons kv b)
  obtain k v where kv: "kv = (k, v)" by (cases kv)
  from Cons.prems kv have k: "map_of b k = None" by (force simp: map_of_eq_None_iff)
  have "map_of (dict_union a (kv # b)) = (map_of a)(k \<mapsto> v) ++ map_of b"
    using Cons by (simp add: dict_union_def kv)
  also have "\<dots> = map_of a ++ map_of (kv # b)"
    using k by (auto simp: kv map_add_def fun_eq_iff split: option.splits)
  finally show ?case .
qed

text \<open>Decimal rendering of integers, as in an f-string.\<close>

fun digits :: "nat \<Rightarrow> string" where
  "digits n = (if n < 10 then [char_of (n + 48)] else digits (n div 10) @ [char_of (n mod 10 + 48)])"

declare digits.simps [simp del]

definition str_int :: "int \<Rightarrow> string" where
  "str_int i = (if i < 0 then ''-'' @ digits (nat (- i)) else digits (nat i))"

text \<open>The conversion \<open>int(x)\<close> of a quotient truncates towards zero.\<close>

definition trunc_div :: "int \<Rightarrow> int \<Rightarrow> int" where
  "trunc_div a b = sgn a * sgn b * (\<bar>a\<bar> div \<bar>b\<bar>)"

text \<open>ASCII \<open>str.lower()\<close>.\<close>

definition lower_char :: "char \<Rightarrow> char" where
  "lower_char c = (let n = of_char c :: nat in if 65 \<le> n \<and> n \<le> 90 then char_of (n + 32) else c)"

definition lower :: "string \<Rightarrow> string" where
  "lower s = map lower_char s"

lemma lower_char_idem [simp]: "lower_char (lower_char c) = lower_char c"
proof (cases "65 \<le> (of_char c :: nat) \<and> (of_char c :: nat) \<le> 90")
  case True
  then have "(of_char (char_of (of_char c + 32 :: nat)) :: nat) = of_char c + 32"
    by (simp add: of_char_of)
  with True show ?thesis by (simp add: lower_char_def Let_def)
qed (auto simp: lower_char_def Let_def)

lemma lower_idem [simp]: "lower (lower s) = lower s"
  by (simp add: lower_def)

section \<open>Users\<close>

text \<open>The part of \<open>core.models.User\<close> the models read.\<close>

record core_user =
  user_id :: nat
  user_email :: string
  user_lms_user_id :: "int option"

section \<open>Tables\<close>

definition put_row :: "('r \<Rightarrow> 'k) \<Rightarrow> 'r \<Rightarrow> 'r list \<Rightarrow> 'r list" where
  "put_row key r rows = map (\<lambda>x. if key x = key r then r else x) rows"

definition put_rows :: "('r \<Rightarrow> 'k) \<Rightarrow> 'r list \<Rightarrow> 'r list \<Rightarrow> 'r list" where
  "put_rows key rs rows = fold (put_row key) rs rows"

lemma map_key_put_row [simp, table_simps]: "map key (put_row key r rows) = map key rows"
  by (simp add: put_row_def)

lemma length_put_row [simp]: "length (put_row key r rows) = length rows"
  by (simp add: put_row_def)

lemma put_rows_simps [simp]:
  "put_rows key [] rows = rows"
  "put_rows key (r # rs) rows = put_rows key rs (put_row key r rows)"
  by (simp_all add: put_rows_def)

lemma map_key_put_rows [simp, table_simps]: "map key (put_rows key rs rows) = map key rows"
  by (induction rs arbitrary: rows) simp_all

lemma set_put_row:
  "set (put_row key r rows) =
     {x \<in> set rows. key x \<noteq> key r} \<union> (if key r \<in> key ` set rows then {r} else {})"
  by (auto simp: put_row_def image_iff)

lemma find_distinct_key:
  "distinct (map key rows) \<Longrightarrow> r \<in> set rows \<Longrightarrow> find (\<lambda>x. key x = key r) rows = Some r"
  by (induction rows) force+

lemma find_SomeD: "find P xs = Some x \<Longrightarrow> x \<in> set xs \<and> P x"
  by (auto simp: find_Some_iff)

lemma find_NoneD: "find P xs = None \<Longrightarrow> x \<in> set xs \<Longrightarrow> \<not> P x"
  by (auto simp: find_None_iff)

lemma find_key_None: "find (\<lambda>x. key x = k) xs = None \<longleftrightarrow> k \<notin> key ` set xs"
  by (induction xs) auto

lemma first_None_iff: "(case xs of [] \<Rightarrow> None | a # _ \<Rightarrow> Some a) = None \<longleftrightarrow> xs = []"
  by (cases xs) simp_all

text \<open>\<open>QuerySet.get\<close>: exactly one row, or one of two exceptions.\<close>

datatype 'a get_result = Does_Not_Exist | Found 'a | Multiple_Objects

fun get_one :: "'a list \<Rightarrow> 'a get_result" where
  "get_one [] = Does_Not_Exist"
| "get_one [x] = Found x"
| "get_one (x # y # zs) = Multiple_Objects"

lemma get_one_Found: "get_one xs = Found a \<longleftrightarrow> xs = [a]"
  by (cases xs rule: get_one.cases) auto

lemma distinct_singleton:
  assumes "set xs = {a}" and "distinct xs"
  shows "xs = [a]"
proof -
  obtain y ys where xs: "xs = y # ys" using assms(1) by (cases xs) simp_all
  have "z = a" if "z \<in> set xs" for z using that unfolding assms(1) by simp
  then have y: "y = a" and ys: "\<And>z. z \<in> set ys \<Longrightarrow> z = a" unfolding xs by simp_all
  have "ys = []"
  proof (rule ccontr)
    assume "ys \<noteq> []"
    then have "hd ys \<in> set ys" by simp
    then show False using ys [of "hd ys"] assms(2) unfolding xs y by simp
  qed
  then show ?thesis unfolding xs y by simp
qed

lemma filter_singleton:
  assumes "distinct xs" and "a \<in> set xs" and "P a" and "\<And>b. b \<in> set xs \<Longrightarrow> P b \<Longrightarrow> b = a"
  shows "filter P xs = [a]"
proof (rule distinct_singleton)
  show "set (filter P xs) = {a}" unfolding set_filter using assms(2-4) by blast
qed (simp add: assms(1))

lemma distinct_key_inj:
  "distinct (map key rows) \<Longrightarrow> x \<in> set rows \<Longrightarrow> y \<in> set rows \<Longrightarrow> key x = key y \<Longrightarrow> x = y"
  by (auto simp: distinct_map dest: inj_onD)

text \<open>A bulk update with distinct keys, as one pass over the table.\<close>

lemma put_rows_find:
  "distinct (map key rs) \<Longrightarrow>
   put_rows key rs rows = map (\<lambda>x. case find (\<lambda>r. key r = key x) rs of None \<Rightarrow> x | Some r \<Rightarrow> r) rows"
proof (induction rs arbitrary: rows)
  case Nil
  then show ?case by simp
next
  case (Cons r rs)
  have "find (\<lambda>r'. key r' = key r) rs = None"
    using Cons.prems by (auto simp: find_None_iff image_iff)
  then show ?case
    using Cons by (auto simp: put_row_def o_def split: option.splits)
qed

lemma put_rows_map:
  assumes "distinct (map key rows)" and "distinct xs" and "set xs \<subseteq> set rows"
    and key: "\<And>x. key (f x) = key x"
  shows "put_rows key (map f xs) rows = map (\<lambda>x. if x \<in> set xs then f x else x) rows"
proof -
  have inj: "x = y" if "x \<in> set rows" "y \<in> set rows" "key x = key y" for x y
    using distinct_key_inj [OF assms(1)] that by blast
  have "distinct (map key xs)"
    using assms(2,3) by (auto simp: distinct_map intro!: inj_onI dest: inj)
  then have d: "distinct (map key (map f xs))" by (simp add: o_def key)
  have "(case find (\<lambda>r. key r = key x) (map f xs) of None \<Rightarrow> x | Some r \<Rightarrow> r) =
        (if x \<in> set xs then f x else x)" if x: "x \<in> set rows" for x
  proof (cases "find (\<lambda>r. key r = key x) (map f xs)")
    case None
    then have "x \<notin> set xs" by (auto simp: find_None_iff key)
    with None show ?thesis by simp
  next
    case (Some r)
    then obtain y where "y \<in> set xs" "r = f y" "key y = key x"
      by (auto dest!: find_SomeD simp: key)
    moreover from this have "y = x" using inj x assms(3) by blast
    ultimately show ?thesis using Some by simp
  qed
  then show ?thesis by (simp add: put_rows_find [OF d])
qed

lemma distinct_of_keys: "distinct (map key rows) \<Longrightarrow> distinct rows"
  by (simp add: distinct_map)

section \<open>State machines\<close>

text \<open>
  The contract of a state machine: \<open>allowed\<close> is the transition table, \<open>moves\<close> relates a record
  to the record an operation of the code leaves behind (an operation that raises saves nothing),
  and every move keeps the state or follows the table.
\<close>

locale guarded_transitions =
  fixes allowed :: "'s \<Rightarrow> 's \<Rightarrow> bool"
    and state_of :: "'r \<Rightarrow> 's"
    and moves :: "'r \<Rightarrow> 'r \<Rightarrow> bool"
  assumes moves_allowed:
    "moves r r' \<Longrightarrow> state_of r' = state_of r \<or> allowed (state_of r) (state_of r')"
begin

lemma moves_reaches: "moves\<^sup>*\<^sup>* r r' \<Longrightarrow> allowed\<^sup>*\<^sup>* (state_of r) (state_of r')"
proof (induction rule: rtranclp_induct)
  case base
  show ?case by simp
next
  case (step y z)
  have "allowed\<^sup>*\<^sup>* (state_of y) (state_of z)"
    using moves_allowed [OF step.hyps(2)] by auto
  with step.IH show ?case by (rule rtranclp_trans)
qed

text \<open>A set of states the table does not leave is not left by any run.\<close>

lemma moves_closed:
  assumes "\<And>s t. s \<in> S \<Longrightarrow> allowed s t \<Longrightarrow> t \<in> S"
    and "moves\<^sup>*\<^sup>* r r'" and "state_of r \<in> S"
  shows "state_of r' \<in> S"
proof -
  have "allowed\<^sup>*\<^sup>* s t \<Longrightarrow> s \<in> S \<Longrightarrow> t \<in> S" for s t
    by (induction rule: rtranclp_induct) (auto intro: assms(1))
  from this [OF moves_reaches [OF assms(2)] assms(3)] show ?thesis .
qed

text \<open>A state without outgoing edges is final.\<close>

lemma moves_terminal:
  assumes "\<And>t. \<not> allowed s t" and "moves\<^sup>*\<^sup>* r r'" and "state_of r = s"
  shows "state_of r' = s"
  using moves_closed [of "{s}" r r'] assms by auto

end

end
