(* ===== verification/Access_Rules.thy ===== *)
theory Access_Rules
  imports Prelude
begin

text \<open>Role based access control (\<^verbatim>\<open>core/constants.py\<close>,
  \<^verbatim>\<open>core/rules.py\<close>, the role assignments of \<^verbatim>\<open>core/models.py\<close> and the
  role mapping of \<^verbatim>\<open>settings/base.py\<close>): the feature roles, the predicates
  that look a role up in the request's token and in the role assignments, the permissions
  built from them.  The two functions of \<^verbatim>\<open>edx_rbac\<close> that read the token
  and the assignments are fields of the record \<open>access\<close>; \<open>documented_rbac\<close>
  states what that library documents of them.\<close>

section \<open>Roles and permissions\<close>

datatype feature_role =
    REQUESTS_ADMIN_ROLE | REQUESTS_LEARNER_ROLE
  | SUBSIDY_ACCESS_POLICY_OPERATOR_ROLE | SUBSIDY_ACCESS_POLICY_LEARNER_ROLE
  | CONTENT_ASSIGNMENTS_OPERATOR_ROLE | CONTENT_ASSIGNMENTS_ADMIN_ROLE
  | CONTENT_ASSIGNMENTS_LEARNER_ROLE
  | BFF_LEARNER_ROLE | BFF_ADMIN_ROLE | BFF_OPERATOR_ROLE
  | CUSTOMER_BILLING_OPERATOR_ROLE | CUSTOMER_BILLING_ADMIN_ROLE
  | ADMIN_LEARNER_PROFILE_ADMIN_ROLE | PROVISIONING_ADMIN_ROLE
  | STRIPE_EVENT_SUMMARY_ADMIN_ROLE

datatype system_role =
    SYSTEM_ENTERPRISE_ADMIN_ROLE | SYSTEM_ENTERPRISE_LEARNER_ROLE
  | SYSTEM_ENTERPRISE_OPERATOR_ROLE | SYSTEM_ENTERPRISE_PROVISIONING_ADMIN_ROLE

datatype permission =
    REQUESTS_ADMIN_ACCESS_PERMISSION | REQUESTS_ADMIN_LEARNER_ACCESS_PERMISSION
  | SUBSIDY_ACCESS_POLICY_READ_PERMISSION | SUBSIDY_ACCESS_POLICY_WRITE_PERMISSION
  | SUBSIDY_ACCESS_POLICY_REDEMPTION_PERMISSION | SUBSIDY_ACCESS_POLICY_ALLOCATION_PERMISSION
  | CONTENT_ASSIGNMENT_CONFIGURATION_READ_PERMISSION
  | CONTENT_ASSIGNMENT_CONFIGURATION_WRITE_PERMISSION
  | CONTENT_ASSIGNMENT_CONFIGURATION_ACKNOWLEDGE_PERMISSION
  | CONTENT_ASSIGNMENT_ADMIN_READ_PERMISSION | CONTENT_ASSIGNMENT_ADMIN_WRITE_PERMISSION
  | CONTENT_ASSIGNMENT_LEARNER_READ_PERMISSION
  | BFF_READ_PERMISSION
  | CUSTOMER_BILLING_CREATE_PORTAL_SESSION_PERMISSION
  | CHECKOUT_INTENT_READ_WRITE_ALL_PERMISSION
  | ADMIN_LEARNER_PROFILE_READ_PERMISSION
  | PROVISIONING_CREATE_PERMISSION
  | STRIPE_EVENT_SUMMARY_READ_PERMISSION

fun role_name :: "feature_role \<Rightarrow> string" where
  "role_name REQUESTS_ADMIN_ROLE = ''enterprise_access_requests_admin''"
| "role_name REQUESTS_LEARNER_ROLE = ''enterprise_access_requests_learner''"
| "role_name SUBSIDY_ACCESS_POLICY_OPERATOR_ROLE =
     ''enterprise_access_subsidy_access_policy_operator''"
| "role_name SUBSIDY_ACCESS_POLICY_LEARNER_ROLE =
     ''enterprise_access_subsidy_access_policy_learner''"
| "role_name CONTENT_ASSIGNMENTS_OPERATOR_ROLE = ''enterprise_access_content_assignments_operator''"
| "role_name CONTENT_ASSIGNMENTS_ADMIN_ROLE = ''enterprise_access_content_assignments_admin''"
| "role_name CONTENT_ASSIGNMENTS_LEARNER_ROLE = ''enterprise_access_content_assignments_learner''"
| "role_name BFF_LEARNER_ROLE = ''enterprise_access_bff_learner''"
| "role_name BFF_ADMIN_ROLE = ''enterprise_access_bff_admin''"
| "role_name BFF_OPERATOR_ROLE = ''enterprise_access_bff_operator''"
| "role_name CUSTOMER_BILLING_OPERATOR_ROLE = ''enterprise_access_customer_billing_operator''"
| "role_name CUSTOMER_BILLING_ADMIN_ROLE = ''enterprise_access_customer_billing_admin''"
| "role_name ADMIN_LEARNER_PROFILE_ADMIN_ROLE = ''enterprise_access_admin_learner_profile_admin''"
| "role_name PROVISIONING_ADMIN_ROLE = ''provisioning_admin''"
| "role_name STRIPE_EVENT_SUMMARY_ADMIN_ROLE = ''enterprise_access_stripe_event_summary_admin''"

fun system_role_name :: "system_role \<Rightarrow> string" where
  "system_role_name SYSTEM_ENTERPRISE_ADMIN_ROLE = ''enterprise_admin''"
| "system_role_name SYSTEM_ENTERPRISE_LEARNER_ROLE = ''enterprise_learner''"
| "system_role_name SYSTEM_ENTERPRISE_OPERATOR_ROLE = ''enterprise_openedx_operator''"
| "system_role_name SYSTEM_ENTERPRISE_PROVISIONING_ADMIN_ROLE = ''enterprise_provisioning_admin''"

fun permission_name :: "permission \<Rightarrow> string" where
  "permission_name REQUESTS_ADMIN_ACCESS_PERMISSION = ''requests.has_admin_access''"
| "permission_name REQUESTS_ADMIN_LEARNER_ACCESS_PERMISSION =
     ''requests.has_learner_or_admin_access''"
| "permission_name SUBSIDY_ACCESS_POLICY_READ_PERMISSION = ''subsidy_access_policy.has_read_access''"
| "permission_name SUBSIDY_ACCESS_POLICY_WRITE_PERMISSION =
     ''subsidy_access_policy.has_write_access''"
| "permission_name SUBSIDY_ACCESS_POLICY_REDEMPTION_PERMISSION =
     ''subsidy_access_policy.has_redemption_access''"
| "permission_name SUBSIDY_ACCESS_POLICY_ALLOCATION_PERMISSION =
     ''subsidy_access_policy.has_allocation_access''"
| "permission_name CONTENT_ASSIGNMENT_CONFIGURATION_READ_PERMISSION =
     ''content_assignment_configuration.has_read_access''"
| "permission_name CONTENT_ASSIGNMENT_CONFIGURATION_WRITE_PERMISSION =
     ''content_assignment_configuration.has_write_access''"
| "permission_name CONTENT_ASSIGNMENT_CONFIGURATION_ACKNOWLEDGE_PERMISSION =
     ''content_assignment_configuration.has_acknowledge_access''"
| "permission_name CONTENT_ASSIGNMENT_ADMIN_READ_PERMISSION =
     ''content_assignment.has_admin_read_access''"
| "permission_name CONTENT_ASSIGNMENT_ADMIN_WRITE_PERMISSION =
     ''content_assignment.has_admin_write_access''"
| "permission_name CONTENT_ASSIGNMENT_LEARNER_READ_PERMISSION =
     ''content_assignment.has_learner_read_access''"
| "permission_name BFF_READ_PERMISSION = ''bff.has_read_access''"
| "permission_name CUSTOMER_BILLING_CREATE_PORTAL_SESSION_PERMISSION =
     ''customer_billing.create_portal_session''"
| "permission_name CHECKOUT_INTENT_READ_WRITE_ALL_PERMISSION =
     ''customer_billing.checkout_intent_read_write_all''"
| "permission_name ADMIN_LEARNER_PROFILE_READ_PERMISSION =
     ''admin_learner_profile.has_read_access''"
| "permission_name PROVISIONING_CREATE_PERMISSION = ''provisioning.can_create''"
| "permission_name STRIPE_EVENT_SUMMARY_READ_PERMISSION = ''stripe_event_summary.has_read_access''"

definition ALL_ACCESS_CONTEXT :: string where
  "ALL_ACCESS_CONTEXT = ''*''"

text \<open>\<^verbatim>\<open>SYSTEM_TO_FEATURE_ROLE_MAPPING\<close> of the settings.\<close>

fun SYSTEM_TO_FEATURE_ROLE_MAPPING :: "system_role \<Rightarrow> feature_role list" where
  "SYSTEM_TO_FEATURE_ROLE_MAPPING SYSTEM_ENTERPRISE_OPERATOR_ROLE =
     [SUBSIDY_ACCESS_POLICY_OPERATOR_ROLE, CONTENT_ASSIGNMENTS_OPERATOR_ROLE, REQUESTS_ADMIN_ROLE,
      BFF_OPERATOR_ROLE, PROVISIONING_ADMIN_ROLE, CUSTOMER_BILLING_OPERATOR_ROLE,
      ADMIN_LEARNER_PROFILE_ADMIN_ROLE]"
| "SYSTEM_TO_FEATURE_ROLE_MAPPING SYSTEM_ENTERPRISE_ADMIN_ROLE =
     [SUBSIDY_ACCESS_POLICY_LEARNER_ROLE, CONTENT_ASSIGNMENTS_ADMIN_ROLE, REQUESTS_ADMIN_ROLE,
      BFF_ADMIN_ROLE, CUSTOMER_BILLING_ADMIN_ROLE, ADMIN_LEARNER_PROFILE_ADMIN_ROLE,
      STRIPE_EVENT_SUMMARY_ADMIN_ROLE]"
| "SYSTEM_TO_FEATURE_ROLE_MAPPING SYSTEM_ENTERPRISE_LEARNER_ROLE =
     [SUBSIDY_ACCESS_POLICY_LEARNER_ROLE, CONTENT_ASSIGNMENTS_LEARNER_ROLE, REQUESTS_LEARNER_ROLE,
      BFF_LEARNER_ROLE]"
| "SYSTEM_TO_FEATURE_ROLE_MAPPING SYSTEM_ENTERPRISE_PROVISIONING_ADMIN_ROLE =
     [PROVISIONING_ADMIN_ROLE, CUSTOMER_BILLING_OPERATOR_ROLE]"

section \<open>Role assignments\<close>

record assignment_row =
  ra_user :: nat
  ra_role :: string
  ra_enterprise_customer_uuid :: "string option"

definition get_context :: "assignment_row \<Rightarrow> string" where
  "get_context r = (case ra_enterprise_customer_uuid r of
     Some u \<Rightarrow> if u \<noteq> '''' then u else ALL_ACCESS_CONTEXT
   | None \<Rightarrow> ALL_ACCESS_CONTEXT)"

definition user_assignments_for_role_name ::
    "assignment_row list \<Rightarrow> nat \<Rightarrow> string \<Rightarrow> assignment_row list" where
  "user_assignments_for_role_name rows user role =
     filter (\<lambda>r. ra_user r = user \<and> ra_role r = role) rows"

text \<open>What the rules read: the token of the current request, through
  \<^verbatim>\<open>request_user_has_implicit_access_via_jwt\<close>, and the assignments, through
  \<^verbatim>\<open>user_has_access_via_database\<close>, which is given the contexts of the user's
  assignments of the role.\<close>

record access =
  via_jwt :: "string \<Rightarrow> string option \<Rightarrow> bool"
  via_database :: "string list \<Rightarrow> string \<Rightarrow> bool"
  role_assignments :: "assignment_row list"

type_synonym rule = "access \<Rightarrow> nat \<Rightarrow> string option \<Rightarrow> bool"

section \<open>Predicates\<close>

definition has_implicit_access_to_role :: "feature_role \<Rightarrow> rule" where
  "has_implicit_access_to_role role a _ customer = (case customer of
     Some c \<Rightarrow> c \<noteq> '''' \<and> via_jwt a (role_name role) (Some c)
   | None \<Rightarrow> False)"

definition has_explicit_access_to_role :: "feature_role \<Rightarrow> rule" where
  "has_explicit_access_to_role role a user customer = (case customer of
     Some c \<Rightarrow> c \<noteq> '''' \<and> via_database a
       (map get_context (user_assignments_for_role_name (role_assignments a) user (role_name role))) c
   | None \<Rightarrow> False)"

text \<open>The operator \<^verbatim>\<open>|\<close> of the rules library.\<close>

definition rule_or :: "rule \<Rightarrow> rule \<Rightarrow> rule" where
  "rule_or p q a user customer = (p a user customer \<or> q a user customer)"


definition has_implicit_access_to_requests_admin :: rule where
  "has_implicit_access_to_requests_admin = has_implicit_access_to_role REQUESTS_ADMIN_ROLE"

definition has_explicit_access_to_requests_admin :: rule where
  "has_explicit_access_to_requests_admin = has_explicit_access_to_role REQUESTS_ADMIN_ROLE"

definition has_implicit_access_to_requests_learner :: rule where
  "has_implicit_access_to_requests_learner = has_implicit_access_to_role REQUESTS_LEARNER_ROLE"

definition has_explicit_access_to_requests_learner :: rule where
  "has_explicit_access_to_requests_learner = has_explicit_access_to_role REQUESTS_LEARNER_ROLE"

definition has_implicit_access_to_policy_operator :: rule where
  "has_implicit_access_to_policy_operator = has_implicit_access_to_role SUBSIDY_ACCESS_POLICY_OPERATOR_ROLE"

definition has_explicit_access_to_policy_operator :: rule where
  "has_explicit_access_to_policy_operator = has_explicit_access_to_role SUBSIDY_ACCESS_POLICY_OPERATOR_ROLE"

definition has_implicit_access_to_policy_learner :: rule where
  "has_implicit_access_to_policy_learner = has_implicit_access_to_role SUBSIDY_ACCESS_POLICY_LEARNER_ROLE"

definition has_explicit_access_to_policy_learner :: rule where
  "has_explicit_access_to_policy_learner = has_explicit_access_to_role SUBSIDY_ACCESS_POLICY_LEARNER_ROLE"

definition has_implicit_access_to_content_assignments_operator :: rule where
  "has_implicit_access_to_content_assignments_operator = has_implicit_access_to_role CONTENT_ASSIGNMENTS_OPERATOR_ROLE"

definition has_explicit_access_to_content_assignments_operator :: rule where
  "has_explicit_access_to_content_assignments_operator = has_explicit_access_to_role CONTENT_ASSIGNMENTS_OPERATOR_ROLE"

definition has_implicit_access_to_content_assignments_admin :: rule where
  "has_implicit_access_to_content_assignments_admin = has_implicit_access_to_role CONTENT_ASSIGNMENTS_ADMIN_ROLE"

definition has_explicit_access_to_content_assignments_admin :: rule where
  "has_explicit_access_to_content_assignments_admin = has_explicit_access_to_role CONTENT_ASSIGNMENTS_ADMIN_ROLE"

definition has_implicit_access_to_content_assignments_learner :: rule where
  "has_implicit_access_to_content_assignments_learner = has_implicit_access_to_role CONTENT_ASSIGNMENTS_LEARNER_ROLE"

definition has_explicit_access_to_content_assignments_learner :: rule where
  "has_explicit_access_to_content_assignments_learner = has_explicit_access_to_role CONTENT_ASSIGNMENTS_LEARNER_ROLE"

definition has_implicit_access_to_bff_learner :: rule where
  "has_implicit_access_to_bff_learner = has_implicit_access_to_role BFF_LEARNER_ROLE"

definition has_explicit_access_to_bff_learner :: rule where
  "has_explicit_access_to_bff_learner = has_explicit_access_to_role BFF_LEARNER_ROLE"

definition has_implicit_access_to_bff_admin :: rule where
  "has_implicit_access_to_bff_admin = has_implicit_access_to_role BFF_ADMIN_ROLE"

definition has_explicit_access_to_bff_admin :: rule where
  "has_explicit_access_to_bff_admin = has_explicit_access_to_role BFF_ADMIN_ROLE"

definition has_implicit_access_to_bff_operator :: rule where
  "has_implicit_access_to_bff_operator = has_implicit_access_to_role BFF_OPERATOR_ROLE"

definition has_explicit_access_to_bff_operator :: rule where
  "has_explicit_access_to_bff_operator = has_explicit_access_to_role BFF_OPERATOR_ROLE"

text \<open>The one predicate without a customer.\<close>

definition has_implicit_access_to_provisioning_admin :: rule where
  "has_implicit_access_to_provisioning_admin a _ _ =
     via_jwt a (role_name PROVISIONING_ADMIN_ROLE) None"

definition has_implicit_access_to_customer_billing_operator :: rule where
  "has_implicit_access_to_customer_billing_operator = has_implicit_access_to_role CUSTOMER_BILLING_OPERATOR_ROLE"

definition has_explicit_access_to_customer_billing_operator :: rule where
  "has_explicit_access_to_customer_billing_operator = has_explicit_access_to_role CUSTOMER_BILLING_OPERATOR_ROLE"

definition has_implicit_access_to_customer_billing_admin :: rule where
  "has_implicit_access_to_customer_billing_admin = has_implicit_access_to_role CUSTOMER_BILLING_ADMIN_ROLE"

definition has_explicit_access_to_customer_billing_admin :: rule where
  "has_explicit_access_to_customer_billing_admin = has_explicit_access_to_role CUSTOMER_BILLING_ADMIN_ROLE"

definition has_implicit_access_to_admin_learner_profile_admin :: rule where
  "has_implicit_access_to_admin_learner_profile_admin = has_implicit_access_to_role ADMIN_LEARNER_PROFILE_ADMIN_ROLE"

definition has_explicit_access_to_admin_learner_profile_admin :: rule where
  "has_explicit_access_to_admin_learner_profile_admin = has_explicit_access_to_role ADMIN_LEARNER_PROFILE_ADMIN_ROLE"

definition has_implicit_access_to_stripe_event_summary_admin :: rule where
  "has_implicit_access_to_stripe_event_summary_admin = has_implicit_access_to_role STRIPE_EVENT_SUMMARY_ADMIN_ROLE"

definition has_explicit_access_to_stripe_event_summary_admin :: rule where
  "has_explicit_access_to_stripe_event_summary_admin = has_explicit_access_to_role STRIPE_EVENT_SUMMARY_ADMIN_ROLE"

section \<open>Consolidated predicates\<close>

definition has_subsidy_request_admin_access :: rule where
  "has_subsidy_request_admin_access =
     rule_or has_implicit_access_to_requests_admin has_explicit_access_to_requests_admin"

definition has_subsidy_request_learner_access :: rule where
  "has_subsidy_request_learner_access =
     rule_or has_implicit_access_to_requests_learner has_explicit_access_to_requests_learner"

definition has_subsidy_access_policy_operator_access :: rule where
  "has_subsidy_access_policy_operator_access =
     rule_or has_implicit_access_to_policy_operator has_explicit_access_to_policy_operator"

definition has_subsidy_access_policy_learner_access :: rule where
  "has_subsidy_access_policy_learner_access =
     rule_or has_implicit_access_to_policy_learner has_explicit_access_to_policy_learner"

definition has_content_assignments_operator_access :: rule where
  "has_content_assignments_operator_access =
     rule_or has_implicit_access_to_content_assignments_operator has_explicit_access_to_content_assignments_operator"

definition has_content_assignments_admin_access :: rule where
  "has_content_assignments_admin_access =
     rule_or has_implicit_access_to_content_assignments_admin has_explicit_access_to_content_assignments_admin"

definition has_content_assignments_learner_access :: rule where
  "has_content_assignments_learner_access =
     rule_or has_implicit_access_to_content_assignments_learner has_explicit_access_to_content_assignments_learner"

definition has_bff_learner_access :: rule where
  "has_bff_learner_access =
     rule_or has_implicit_access_to_bff_learner has_explicit_access_to_bff_learner"

definition has_bff_admin_access :: rule where
  "has_bff_admin_access =
     rule_or has_implicit_access_to_bff_admin has_explicit_access_to_bff_admin"

definition has_bff_operator_access :: rule where
  "has_bff_operator_access =
     rule_or has_implicit_access_to_bff_operator has_explicit_access_to_bff_operator"

definition has_customer_billing_operator_access :: rule where
  "has_customer_billing_operator_access =
     rule_or has_implicit_access_to_customer_billing_operator has_explicit_access_to_customer_billing_operator"

definition has_customer_billing_admin_access :: rule where
  "has_customer_billing_admin_access =
     rule_or has_implicit_access_to_customer_billing_admin has_explicit_access_to_customer_billing_admin"

definition has_admin_learner_profile_admin_access :: rule where
  "has_admin_learner_profile_admin_access =
     rule_or has_implicit_access_to_admin_learner_profile_admin has_explicit_access_to_admin_learner_profile_admin"

text \<open>As in the source, from the predicates of the requests admin.\<close>

definition has_stripe_event_summary_admin_access :: rule where
  "has_stripe_event_summary_admin_access =
     rule_or has_implicit_access_to_requests_admin has_explicit_access_to_requests_admin"

section \<open>Permissions\<close>

text \<open>The calls of \<^verbatim>\<open>rules.add_perm\<close>.\<close>

fun perm_rule :: "permission \<Rightarrow> rule" where
  "perm_rule REQUESTS_ADMIN_ACCESS_PERMISSION = has_subsidy_request_admin_access"
| "perm_rule REQUESTS_ADMIN_LEARNER_ACCESS_PERMISSION =
     rule_or has_subsidy_request_admin_access has_subsidy_request_learner_access"
| "perm_rule SUBSIDY_ACCESS_POLICY_READ_PERMISSION =
     rule_or has_subsidy_access_policy_operator_access has_subsidy_access_policy_learner_access"
| "perm_rule SUBSIDY_ACCESS_POLICY_WRITE_PERMISSION = has_subsidy_access_policy_operator_access"
| "perm_rule SUBSIDY_ACCESS_POLICY_REDEMPTION_PERMISSION =
     rule_or has_subsidy_access_policy_operator_access has_subsidy_access_policy_learner_access"
| "perm_rule CONTENT_ASSIGNMENT_CONFIGURATION_READ_PERMISSION =
     rule_or has_content_assignments_operator_access has_content_assignments_admin_access"
| "perm_rule CONTENT_ASSIGNMENT_CONFIGURATION_WRITE_PERMISSION =
     has_content_assignments_operator_access"
| "perm_rule CONTENT_ASSIGNMENT_ADMIN_READ_PERMISSION =
     rule_or has_content_assignments_operator_access has_content_assignments_admin_access"
| "perm_rule CONTENT_ASSIGNMENT_ADMIN_WRITE_PERMISSION =
     rule_or has_content_assignments_operator_access has_content_assignments_admin_access"
| "perm_rule CONTENT_ASSIGNMENT_LEARNER_READ_PERMISSION =
     rule_or (rule_or has_content_assignments_operator_access has_content_assignments_admin_access)
       has_content_assignments_learner_access"
| "perm_rule SUBSIDY_ACCESS_POLICY_ALLOCATION_PERMISSION =
     rule_or (rule_or has_content_assignments_operator_access has_content_assignments_admin_access)
       has_subsidy_access_policy_operator_access"
| "perm_rule CONTENT_ASSIGNMENT_CONFIGURATION_ACKNOWLEDGE_PERMISSION =
     rule_or (rule_or has_content_assignments_operator_access has_content_assignments_admin_access)
       has_content_assignments_learner_access"
| "perm_rule BFF_READ_PERMISSION =
     rule_or (rule_or has_bff_learner_access has_bff_admin_access) has_bff_operator_access"
| "perm_rule PROVISIONING_CREATE_PERMISSION = has_implicit_access_to_provisioning_admin"
| "perm_rule CUSTOMER_BILLING_CREATE_PORTAL_SESSION_PERMISSION =
     rule_or has_customer_billing_operator_access has_customer_billing_admin_access"
| "perm_rule CHECKOUT_INTENT_READ_WRITE_ALL_PERMISSION = has_customer_billing_operator_access"
| "perm_rule ADMIN_LEARNER_PROFILE_READ_PERMISSION = has_admin_learner_profile_admin_access"
| "perm_rule STRIPE_EVENT_SUMMARY_READ_PERMISSION = has_stripe_event_summary_admin_access"

section \<open>Names\<close>

text \<open>Distinct constants have distinct names, so that the roles and permissions may be told
  apart by their constructors and \<^verbatim>\<open>rules.add_perm\<close>, which refuses a name twice,
  accepts every call.\<close>

lemma role_name_inj: "role_name r = role_name r' \<longleftrightarrow> r = r'"
  by (cases r; cases r'; simp)

lemma permission_name_inj: "permission_name p = permission_name p' \<longleftrightarrow> p = p'"
  by (cases p; cases p'; simp)

section \<open>Which roles grant a permission\<close>

definition has_role :: "feature_role \<Rightarrow> rule" where
  "has_role role = rule_or (has_implicit_access_to_role role) (has_explicit_access_to_role role)"

fun granting_roles :: "permission \<Rightarrow> feature_role list" where
  "granting_roles REQUESTS_ADMIN_ACCESS_PERMISSION = [REQUESTS_ADMIN_ROLE]"
| "granting_roles REQUESTS_ADMIN_LEARNER_ACCESS_PERMISSION =
     [REQUESTS_ADMIN_ROLE, REQUESTS_LEARNER_ROLE]"
| "granting_roles SUBSIDY_ACCESS_POLICY_READ_PERMISSION =
     [SUBSIDY_ACCESS_POLICY_OPERATOR_ROLE, SUBSIDY_ACCESS_POLICY_LEARNER_ROLE]"
| "granting_roles SUBSIDY_ACCESS_POLICY_WRITE_PERMISSION = [SUBSIDY_ACCESS_POLICY_OPERATOR_ROLE]"
| "granting_roles SUBSIDY_ACCESS_POLICY_REDEMPTION_PERMISSION =
     [SUBSIDY_ACCESS_POLICY_OPERATOR_ROLE, SUBSIDY_ACCESS_POLICY_LEARNER_ROLE]"
| "granting_roles SUBSIDY_ACCESS_POLICY_ALLOCATION_PERMISSION =
     [CONTENT_ASSIGNMENTS_OPERATOR_ROLE, CONTENT_ASSIGNMENTS_ADMIN_ROLE,
      SUBSIDY_ACCESS_POLICY_OPERATOR_ROLE]"
| "granting_roles CONTENT_ASSIGNMENT_CONFIGURATION_READ_PERMISSION =
     [CONTENT_ASSIGNMENTS_OPERATOR_ROLE, CONTENT_ASSIGNMENTS_ADMIN_ROLE]"
| "granting_roles CONTENT_ASSIGNMENT_CONFIGURATION_WRITE_PERMISSION =
     [CONTENT_ASSIGNMENTS_OPERATOR_ROLE]"
| "granting_roles CONTENT_ASSIGNMENT_CONFIGURATION_ACKNOWLEDGE_PERMISSION =
     [CONTENT_ASSIGNMENTS_OPERATOR_ROLE, CONTENT_ASSIGNMENTS_ADMIN_ROLE,
      CONTENT_ASSIGNMENTS_LEARNER_ROLE]"
| "granting_roles CONTENT_ASSIGNMENT_ADMIN_READ_PERMISSION =
     [CONTENT_ASSIGNMENTS_OPERATOR_ROLE, CONTENT_ASSIGNMENTS_ADMIN_ROLE]"
| "granting_roles CONTENT_ASSIGNMENT_ADMIN_WRITE_PERMISSION =
     [CONTENT_ASSIGNMENTS_OPERATOR_ROLE, CONTENT_ASSIGNMENTS_ADMIN_ROLE]"
| "granting_roles CONTENT_ASSIGNMENT_LEARNER_READ_PERMISSION =
     [CONTENT_ASSIGNMENTS_OPERATOR_ROLE, CONTENT_ASSIGNMENTS_ADMIN_ROLE,
      CONTENT_ASSIGNMENTS_LEARNER_ROLE]"
| "granting_roles BFF_READ_PERMISSION = [BFF_LEARNER_ROLE, BFF_ADMIN_ROLE, BFF_OPERATOR_ROLE]"
| "granting_roles CUSTOMER_BILLING_CREATE_PORTAL_SESSION_PERMISSION =
     [CUSTOMER_BILLING_OPERATOR_ROLE, CUSTOMER_BILLING_ADMIN_ROLE]"
| "granting_roles CHECKOUT_INTENT_READ_WRITE_ALL_PERMISSION = [CUSTOMER_BILLING_OPERATOR_ROLE]"
| "granting_roles ADMIN_LEARNER_PROFILE_READ_PERMISSION = [ADMIN_LEARNER_PROFILE_ADMIN_ROLE]"
| "granting_roles PROVISIONING_CREATE_PERMISSION = []"
| "granting_roles STRIPE_EVENT_SUMMARY_READ_PERMISSION = [REQUESTS_ADMIN_ROLE]"

lemmas implicit_rules =
  has_implicit_access_to_requests_admin_def has_implicit_access_to_requests_learner_def
  has_implicit_access_to_policy_operator_def has_implicit_access_to_policy_learner_def
  has_implicit_access_to_content_assignments_operator_def
  has_implicit_access_to_content_assignments_admin_def
  has_implicit_access_to_content_assignments_learner_def
  has_implicit_access_to_bff_learner_def has_implicit_access_to_bff_admin_def
  has_implicit_access_to_bff_operator_def has_implicit_access_to_customer_billing_operator_def
  has_implicit_access_to_customer_billing_admin_def
  has_implicit_access_to_admin_learner_profile_admin_def

lemmas explicit_rules =
  has_explicit_access_to_requests_admin_def has_explicit_access_to_requests_learner_def
  has_explicit_access_to_policy_operator_def has_explicit_access_to_policy_learner_def
  has_explicit_access_to_content_assignments_operator_def
  has_explicit_access_to_content_assignments_admin_def
  has_explicit_access_to_content_assignments_learner_def
  has_explicit_access_to_bff_learner_def has_explicit_access_to_bff_admin_def
  has_explicit_access_to_bff_operator_def has_explicit_access_to_customer_billing_operator_def
  has_explicit_access_to_customer_billing_admin_def
  has_explicit_access_to_admin_learner_profile_admin_def

lemmas consolidated_rules =
  has_subsidy_request_admin_access_def has_subsidy_request_learner_access_def
  has_subsidy_access_policy_operator_access_def has_subsidy_access_policy_learner_access_def
  has_content_assignments_operator_access_def has_content_assignments_admin_access_def
  has_content_assignments_learner_access_def has_bff_learner_access_def has_bff_admin_access_def
  has_bff_operator_access_def has_customer_billing_operator_access_def
  has_customer_billing_admin_access_def has_admin_learner_profile_admin_access_def
  has_stripe_event_summary_admin_access_def

lemma perm_rule_roles:
  "perm_rule p a user customer \<longleftrightarrow>
     (\<exists>r\<in>set (granting_roles p). has_role r a user customer) \<or>
     p = PROVISIONING_CREATE_PERMISSION \<and>
       has_implicit_access_to_provisioning_admin a user customer"
  by (cases p)
    (simp_all add: consolidated_rules implicit_rules explicit_rules has_role_def rule_or_def)

lemma role_names_customer:
  "has_role r a user customer \<Longrightarrow> \<exists>c. customer = Some c \<and> c \<noteq> []"
  by (auto simp: has_role_def rule_or_def has_implicit_access_to_role_def
      has_explicit_access_to_role_def split: option.splits)

text \<open>The hierarchy of the permissions, whatever the token and the assignments say.\<close>

lemma granted_with:
  assumes "set (granting_roles p) \<subseteq> set (granting_roles q)" "p \<noteq> PROVISIONING_CREATE_PERMISSION"
    "perm_rule p a user customer"
  shows "perm_rule q a user customer"
  using assms by (auto simp: perm_rule_roles)

section \<open>What the rbac library documents\<close>

text \<open>The token holds pairs of a system role and a context; a feature role is granted when the
  settings map some system role of the token to it, for the customers its context names, all of
  them when it is \<open>*\<close>; without a customer the context is not looked at.  An assignment
  grants its role for its context.\<close>

definition covers :: "string \<Rightarrow> string \<Rightarrow> bool" where
  "covers ctx c \<longleftrightarrow> ctx = c \<or> ctx = ALL_ACCESS_CONTEXT"

definition feature_names :: "system_role \<Rightarrow> string list" where
  "feature_names s = map role_name (SYSTEM_TO_FEATURE_ROLE_MAPPING s)"

definition documented_rbac :: "access \<Rightarrow> (system_role \<times> string) list \<Rightarrow> bool" where
  "documented_rbac a token \<longleftrightarrow>
     (\<forall>f. via_jwt a f None \<longleftrightarrow> (\<exists>(s, ctx)\<in>set token. f \<in> set (feature_names s))) \<and>
     (\<forall>f c. via_jwt a f (Some c) \<longleftrightarrow>
        (\<exists>(s, ctx)\<in>set token. f \<in> set (feature_names s) \<and> covers ctx c)) \<and>
     (\<forall>cs c. via_database a cs c \<longleftrightarrow> (\<exists>ctx\<in>set cs. covers ctx c))"

lemma role_name_mem: "role_name r \<in> role_name ` A \<longleftrightarrow> r \<in> A"
  by (auto simp: role_name_inj)

lemma documented_role:
  assumes "documented_rbac a token" "c \<noteq> ''''"
  shows "has_role r a user (Some c) \<longleftrightarrow>
    (\<exists>(s, ctx)\<in>set token. r \<in> set (SYSTEM_TO_FEATURE_ROLE_MAPPING s) \<and> covers ctx c) \<or>
    (\<exists>row\<in>set (role_assignments a). ra_user row = user \<and> ra_role row = role_name r \<and>
       covers (get_context row) c)"
  using assms
  by (auto simp: has_role_def rule_or_def has_implicit_access_to_role_def
      has_explicit_access_to_role_def documented_rbac_def feature_names_def role_name_mem
      user_assignments_for_role_name_def)

lemma documented_provisioning:
  assumes "documented_rbac a token"
  shows "has_implicit_access_to_provisioning_admin a user customer \<longleftrightarrow>
    (\<exists>(s, ctx)\<in>set token. PROVISIONING_ADMIN_ROLE \<in> set (SYSTEM_TO_FEATURE_ROLE_MAPPING s))"
  using assms
  by (simp add: has_implicit_access_to_provisioning_admin_def documented_rbac_def
      feature_names_def role_name_mem split_beta del: role_name.simps)

text \<open>A concrete library that is as documented, for the witnesses.\<close>

definition rbac_of :: "(system_role \<times> string) list \<Rightarrow> assignment_row list \<Rightarrow> access" where
  "rbac_of token rows = \<lparr>
     via_jwt = (\<lambda>f c. list_ex (\<lambda>(s, ctx). f \<in> set (feature_names s) \<and>
        (case c of None \<Rightarrow> True | Some d \<Rightarrow> covers ctx d)) token),
     via_database = (\<lambda>cs c. list_ex (\<lambda>ctx. covers ctx c) cs),
     role_assignments = rows\<rparr>"

lemma rbac_of_documented: "documented_rbac (rbac_of token rows) token"
  by (simp add: documented_rbac_def rbac_of_def list_ex_iff split_beta)

lemma rbac_of_assignments [simp]: "role_assignments (rbac_of token rows) = rows"
  by (simp add: rbac_of_def)

section \<open>Properties\<close>

text \<open>The permissions of a token with one system role.\<close>

fun granted_by :: "system_role \<Rightarrow> permission list" where
  "granted_by SYSTEM_ENTERPRISE_LEARNER_ROLE =
     [REQUESTS_ADMIN_LEARNER_ACCESS_PERMISSION, SUBSIDY_ACCESS_POLICY_READ_PERMISSION,
      SUBSIDY_ACCESS_POLICY_REDEMPTION_PERMISSION,
      CONTENT_ASSIGNMENT_CONFIGURATION_ACKNOWLEDGE_PERMISSION,
      CONTENT_ASSIGNMENT_LEARNER_READ_PERMISSION, BFF_READ_PERMISSION]"
| "granted_by SYSTEM_ENTERPRISE_ADMIN_ROLE =
     [REQUESTS_ADMIN_ACCESS_PERMISSION, REQUESTS_ADMIN_LEARNER_ACCESS_PERMISSION,
      SUBSIDY_ACCESS_POLICY_READ_PERMISSION, SUBSIDY_ACCESS_POLICY_REDEMPTION_PERMISSION,
      SUBSIDY_ACCESS_POLICY_ALLOCATION_PERMISSION,
      CONTENT_ASSIGNMENT_CONFIGURATION_READ_PERMISSION,
      CONTENT_ASSIGNMENT_CONFIGURATION_ACKNOWLEDGE_PERMISSION,
      CONTENT_ASSIGNMENT_ADMIN_READ_PERMISSION, CONTENT_ASSIGNMENT_ADMIN_WRITE_PERMISSION,
      CONTENT_ASSIGNMENT_LEARNER_READ_PERMISSION, BFF_READ_PERMISSION,
      CUSTOMER_BILLING_CREATE_PORTAL_SESSION_PERMISSION, ADMIN_LEARNER_PROFILE_READ_PERMISSION,
      STRIPE_EVENT_SUMMARY_READ_PERMISSION]"
| "granted_by SYSTEM_ENTERPRISE_OPERATOR_ROLE =
     [REQUESTS_ADMIN_ACCESS_PERMISSION, REQUESTS_ADMIN_LEARNER_ACCESS_PERMISSION,
      SUBSIDY_ACCESS_POLICY_READ_PERMISSION, SUBSIDY_ACCESS_POLICY_WRITE_PERMISSION,
      SUBSIDY_ACCESS_POLICY_REDEMPTION_PERMISSION, SUBSIDY_ACCESS_POLICY_ALLOCATION_PERMISSION,
      CONTENT_ASSIGNMENT_CONFIGURATION_READ_PERMISSION,
      CONTENT_ASSIGNMENT_CONFIGURATION_WRITE_PERMISSION,
      CONTENT_ASSIGNMENT_CONFIGURATION_ACKNOWLEDGE_PERMISSION,
      CONTENT_ASSIGNMENT_ADMIN_READ_PERMISSION, CONTENT_ASSIGNMENT_ADMIN_WRITE_PERMISSION,
      CONTENT_ASSIGNMENT_LEARNER_READ_PERMISSION, BFF_READ_PERMISSION,
      CUSTOMER_BILLING_CREATE_PORTAL_SESSION_PERMISSION,
      CHECKOUT_INTENT_READ_WRITE_ALL_PERMISSION, ADMIN_LEARNER_PROFILE_READ_PERMISSION,
      PROVISIONING_CREATE_PERMISSION, STRIPE_EVENT_SUMMARY_READ_PERMISSION]"
| "granted_by SYSTEM_ENTERPRISE_PROVISIONING_ADMIN_ROLE =
     [CUSTOMER_BILLING_CREATE_PORTAL_SESSION_PERMISSION,
      CHECKOUT_INTENT_READ_WRITE_ALL_PERMISSION, PROVISIONING_CREATE_PERMISSION]"

lemma granted_by_iff:
  "p \<in> set (granted_by s) \<longleftrightarrow>
     (\<exists>r\<in>set (granting_roles p). r \<in> set (SYSTEM_TO_FEATURE_ROLE_MAPPING s)) \<or>
     p = PROVISIONING_CREATE_PERMISSION \<and>
       PROVISIONING_ADMIN_ROLE \<in> set (SYSTEM_TO_FEATURE_ROLE_MAPPING s)"
  by (cases p; cases s; simp)

text \<open>C26. The permissions of a request, in full.  For a named customer a permission is
  granted exactly when the token holds a system role that \<open>granted_by\<close> lists it under, in
  the context of that customer or of all, or the user has an assignment of a granting role for
  that customer or without a customer.  \<^verbatim>\<open>provisioning.can_create\<close> alone is
  granted whatever the context of the role.  The rules library and the token are as the rbac
  library documents them.\<close>

theorem permissions_of_a_request:
  assumes "documented_rbac a token" "c \<noteq> ''''"
  shows "perm_rule p a user (Some c) \<longleftrightarrow>
    (\<exists>(s, ctx)\<in>set token. p \<in> set (granted_by s) \<and>
       (covers ctx c \<or> p = PROVISIONING_CREATE_PERMISSION)) \<or>
    (\<exists>row\<in>set (role_assignments a). ra_user row = user \<and> covers (get_context row) c \<and>
       ra_role row \<in> role_name ` set (granting_roles p))"
proof (cases "p = PROVISIONING_CREATE_PERMISSION")
  case True
  then show ?thesis
    by (simp add: perm_rule_roles documented_provisioning [OF assms(1)] granted_by_iff)
next
  case False
  then show ?thesis
    by (simp add: perm_rule_roles documented_role [OF assms] granted_by_iff) blast
qed

theorem permissions_of_a_request_witness:
  "perm_rule REQUESTS_ADMIN_LEARNER_ACCESS_PERMISSION
     (rbac_of [(SYSTEM_ENTERPRISE_LEARNER_ROLE, ''acme'')] []) 1 (Some ''acme'') \<and>
   \<not> perm_rule REQUESTS_ADMIN_LEARNER_ACCESS_PERMISSION
     (rbac_of [(SYSTEM_ENTERPRISE_LEARNER_ROLE, ''acme'')] []) 1 (Some ''other'')"
  by (simp add: permissions_of_a_request [OF rbac_of_documented] covers_def ALL_ACCESS_CONTEXT_def
      del: perm_rule.simps)

text \<open>The role of the Stripe event summaries gives access to nothing: a user whose
  assignments are all of that role has no permission for any customer, while the permission to
  read the summaries is that of the requests admin, for every token and every assignment.\<close>

theorem stripe_role_grants_nothing:
  "(\<forall>a user customer. perm_rule STRIPE_EVENT_SUMMARY_READ_PERMISSION a user customer =
      perm_rule REQUESTS_ADMIN_ACCESS_PERMISSION a user customer) \<and>
   \<not> perm_rule p (rbac_of [] (map (\<lambda>(user, uuid).
        \<lparr>ra_user = user, ra_role = role_name STRIPE_EVENT_SUMMARY_ADMIN_ROLE,
         ra_enterprise_customer_uuid = uuid\<rparr>) holders)) user customer"
  (is "_ \<and> \<not> perm_rule p ?a user customer")
proof
  show "\<forall>a user customer. perm_rule STRIPE_EVENT_SUMMARY_READ_PERMISSION a user customer =
      perm_rule REQUESTS_ADMIN_ACCESS_PERMISSION a user customer"
    by (simp add: perm_rule_roles del: perm_rule.simps)
  have "\<not> has_role r ?a user customer" if "r \<in> set (granting_roles p)" for r
  proof
    assume role: "has_role r ?a user customer"
    then obtain c where "customer = Some c" "c \<noteq> []"
      using role_names_customer by blast
    with role have "r = STRIPE_EVENT_SUMMARY_ADMIN_ROLE"
      by (auto simp: documented_role [OF rbac_of_documented] role_name_inj simp del: role_name.simps)
    with that show False by (cases p) auto
  qed
  then show "\<not> perm_rule p ?a user customer"
    by (simp add: perm_rule_roles documented_provisioning [OF rbac_of_documented]
        del: perm_rule.simps)
qed

text \<open>The order of the permissions.\<close>

definition permission_order :: "(permission \<times> permission) list" where
  "permission_order =
     [(SUBSIDY_ACCESS_POLICY_WRITE_PERMISSION, SUBSIDY_ACCESS_POLICY_READ_PERMISSION),
      (SUBSIDY_ACCESS_POLICY_WRITE_PERMISSION, SUBSIDY_ACCESS_POLICY_ALLOCATION_PERMISSION),
      (CONTENT_ASSIGNMENT_CONFIGURATION_WRITE_PERMISSION,
       CONTENT_ASSIGNMENT_CONFIGURATION_READ_PERMISSION),
      (CONTENT_ASSIGNMENT_ADMIN_WRITE_PERMISSION, CONTENT_ASSIGNMENT_ADMIN_READ_PERMISSION),
      (CONTENT_ASSIGNMENT_ADMIN_READ_PERMISSION, CONTENT_ASSIGNMENT_LEARNER_READ_PERMISSION),
      (REQUESTS_ADMIN_ACCESS_PERMISSION, REQUESTS_ADMIN_LEARNER_ACCESS_PERMISSION),
      (CHECKOUT_INTENT_READ_WRITE_ALL_PERMISSION,
       CUSTOMER_BILLING_CREATE_PORTAL_SESSION_PERMISSION)]"

lemma permission_order_roles:
  "(p, q) \<in> set permission_order \<Longrightarrow>
     set (granting_roles p) \<subseteq> set (granting_roles q) \<and> p \<noteq> PROVISIONING_CREATE_PERMISSION"
  by (auto simp: permission_order_def)

text \<open>A permission to write carries the permission to read the same thing, and no
  permission but that of provisioning is granted without a customer, whatever the token and the
  assignments say.\<close>

theorem permission_hierarchy:
  assumes "perm_rule p a user customer"
  shows "(p = PROVISIONING_CREATE_PERMISSION \<or> (\<exists>c. customer = Some c \<and> c \<noteq> [])) \<and>
    (\<forall>q. (p, q) \<in> set permission_order \<longrightarrow> perm_rule q a user customer)"
proof (intro conjI allI impI)
  show "p = PROVISIONING_CREATE_PERMISSION \<or> (\<exists>c. customer = Some c \<and> c \<noteq> [])"
    using assms role_names_customer by (auto simp: perm_rule_roles simp del: perm_rule.simps)
next
  fix q assume "(p, q) \<in> set permission_order"
  then show "perm_rule q a user customer"
    using permission_order_roles granted_with assms by blast
qed

theorem permission_hierarchy_witness:
  "perm_rule SUBSIDY_ACCESS_POLICY_READ_PERMISSION
     (rbac_of [(SYSTEM_ENTERPRISE_OPERATOR_ROLE, ''*'')] []) 1 (Some ''acme'')"
proof -
  have "perm_rule SUBSIDY_ACCESS_POLICY_WRITE_PERMISSION
     (rbac_of [(SYSTEM_ENTERPRISE_OPERATOR_ROLE, ''*'')] []) 1 (Some ''acme'')"
    by code_simp
  from permission_hierarchy [OF this] show ?thesis by (simp add: permission_order_def)
qed

end
