(* ===== verification/Content_Assignment.thy ===== *)
theory Content_Assignment
  imports Prelude
begin

text \<open>
  Learner content assignments, \<open>content_assignments/models.py\<close> and \<open>constants.py\<close>.

  The tables of assignments and of their actions are lists of rows. The methods of the models that
  read the action table take it as an argument; those that add an action return the new table.
  E-mail addresses are compared case-insensitively, as \<open>iexact\<close> lookups and the collation of the
  database do. Clock readings and the nonce of a retired address are arguments.
\<close>

section \<open>Constants\<close>

datatype assignment_state =
    ALLOCATED
  | ACCEPTED
  | CANCELLED
  | ERRORED
  | EXPIRED
  | REVERSED

definition reallocate_states :: "assignment_state list" where
  "reallocate_states = [CANCELLED, ERRORED, EXPIRED, REVERSED]"

definition cancelable_states :: "assignment_state list" where
  "cancelable_states = [ALLOCATED, ERRORED]"

definition remindable_states :: "assignment_state list" where
  "remindable_states = [ALLOCATED]"

definition expirable_states :: "assignment_state list" where
  "expirable_states = [ALLOCATED]"

definition reversible_states :: "assignment_state list" where
  "reversible_states = [ACCEPTED]"

datatype assignment_action_type =
    LEARNER_LINKED
  | NOTIFIED
  | REMINDED
  | REDEEMED
  | CANCELLED_ACTION
  | CANCELLED_ACKNOWLEDGED
  | EXPIRED_ACTION
  | EXPIRED_ACKNOWLEDGED
  | REVERSED_ACTION

datatype assignment_action_error =
    EMAIL_ERROR
  | INTERNAL_API_ERROR
  | ENROLLMENT_ERROR

datatype recent_action_type =
    ASSIGNED
  | RECENTLY_REMINDED

datatype assignment_learner_state =
    NOTIFYING
  | WAITING
  | FAILED
  | LEARNER_EXPIRED

definition learner_state_sort_orders :: "assignment_learner_state list" where
  "learner_state_sort_orders = [NOTIFYING, WAITING, LEARNER_EXPIRED, FAILED]"

definition days :: "int \<Rightarrow> int" where
  "days n = n * 86400000000"

definition num_days_before_auto_expiration :: int where
  "num_days_before_auto_expiration = 90"

definition retired_email_address :: "string \<Rightarrow> string" where
  "retired_email_address nonce = ''retired_user'' @ nonce @ ''@retired.invalid''"

section \<open>Records\<close>

record assignment_configuration =
  ac_uuid :: uuid
  ac_enterprise_customer_uuid :: uuid
  ac_active :: bool

record learner_content_assignment =
  lca_uuid :: uuid
  lca_assignment_configuration :: "uuid option"
  lca_learner_email :: string
  lca_lms_user_id :: "int option"
  lca_content_key :: string
  lca_parent_content_key :: "string option"
  lca_is_assigned_course_run :: bool
  lca_content_title :: "string option"
  lca_content_quantity :: int
  lca_preferred_course_run_key :: "string option"
  lca_state :: assignment_state
  lca_allocated_at :: datetime
  lca_accepted_at :: "datetime option"
  lca_cancelled_at :: "datetime option"
  lca_expired_at :: "datetime option"
  lca_errored_at :: "datetime option"
  lca_reversed_at :: "datetime option"
  lca_transaction_uuid :: "uuid option"
  lca_allocation_batch_id :: "uuid option"
  lca_admin_lms_user_id :: "int option"
  lca_modified :: datetime

record assignment_action =
  aa_assignment :: uuid
  aa_action_type :: assignment_action_type
  aa_completed_at :: "datetime option"
  aa_error_reason :: "assignment_action_error option"
  aa_traceback :: "string option"

type_synonym assignments = "learner_content_assignment list"
type_synonym actions = "assignment_action list"

text \<open>The soft delete of a configuration.\<close>

definition delete_configuration :: "assignment_configuration \<Rightarrow> assignment_configuration" where
  "delete_configuration self = (if ac_active self then self\<lparr>ac_active := False\<rparr> else self)"

section \<open>Actions\<close>

text \<open>\<open>order_by('-completed_at')\<close>: newest first, rows without a time last.\<close>

definition newest_first :: "actions \<Rightarrow> actions" where
  "newest_first xs =
     sort_key (\<lambda>a. - the (aa_completed_at a)) (filter (\<lambda>a. aa_completed_at a \<noteq> None) xs)
     @ filter (\<lambda>a. aa_completed_at a = None) xs"

definition last_successful ::
    "assignment_action_type \<Rightarrow> actions \<Rightarrow> learner_content_assignment \<Rightarrow> assignment_action option" where
  "last_successful ty actions self =
     (case newest_first (filter (\<lambda>a. aa_assignment a = lca_uuid self \<and> aa_action_type a = ty \<and>
                                     aa_error_reason a = None) actions) of
        [] \<Rightarrow> None | a # _ \<Rightarrow> Some a)"

definition get_last_successful_linked_action where
  "get_last_successful_linked_action = last_successful LEARNER_LINKED"

definition get_last_successful_notified_action where
  "get_last_successful_notified_action = last_successful NOTIFIED"

definition get_last_successful_reminded_action where
  "get_last_successful_reminded_action = last_successful REMINDED"

definition get_last_successful_cancel_action where
  "get_last_successful_cancel_action = last_successful CANCELLED_ACTION"

definition get_last_successful_expiration_action where
  "get_last_successful_expiration_action = last_successful EXPIRED_ACTION"

definition get_last_successful_redeemed_action where
  "get_last_successful_redeemed_action = last_successful REDEEMED"

definition get_last_successful_acknowledged_cancelled_action where
  "get_last_successful_acknowledged_cancelled_action = last_successful CANCELLED_ACKNOWLEDGED"

definition get_last_successful_acknowledged_expired_action where
  "get_last_successful_acknowledged_expired_action = last_successful EXPIRED_ACKNOWLEDGED"

definition create_assignment_action ::
    "assignment_action_type \<Rightarrow> assignment_action_error option \<Rightarrow> string option \<Rightarrow> datetime option
       \<Rightarrow> learner_content_assignment \<Rightarrow> actions \<Rightarrow> actions" where
  "create_assignment_action ty err tb completed self actions =
     actions @ [\<lparr>aa_assignment = lca_uuid self, aa_action_type = ty, aa_completed_at = completed,
                 aa_error_reason = err, aa_traceback = tb\<rparr>]"

definition add_successful_linked_action where
  "add_successful_linked_action now = create_assignment_action LEARNER_LINKED None None (Some now)"

definition add_errored_linked_action where
  "add_errored_linked_action tb =
     create_assignment_action LEARNER_LINKED (Some INTERNAL_API_ERROR) (Some tb) None"

definition add_successful_notified_action where
  "add_successful_notified_action now = create_assignment_action NOTIFIED None None (Some now)"

definition add_errored_notified_action where
  "add_errored_notified_action tb = create_assignment_action NOTIFIED (Some EMAIL_ERROR) (Some tb) None"

definition add_successful_reminded_action where
  "add_successful_reminded_action now = create_assignment_action REMINDED None None (Some now)"

definition add_errored_reminded_action where
  "add_errored_reminded_action tb = create_assignment_action REMINDED (Some EMAIL_ERROR) (Some tb) None"

definition add_successful_cancel_action where
  "add_successful_cancel_action now = create_assignment_action CANCELLED_ACTION None None (Some now)"

definition add_errored_cancel_action where
  "add_errored_cancel_action tb =
     create_assignment_action CANCELLED_ACTION (Some EMAIL_ERROR) (Some tb) None"

definition add_successful_expiration_action where
  "add_successful_expiration_action now = create_assignment_action EXPIRED_ACTION None None (Some now)"

definition add_errored_expiration_action where
  "add_errored_expiration_action tb =
     create_assignment_action EXPIRED_ACTION (Some EMAIL_ERROR) (Some tb) None"

definition add_successful_redeemed_action where
  "add_successful_redeemed_action now = create_assignment_action REDEEMED None None (Some now)"

definition add_errored_redeemed_action where
  "add_errored_redeemed_action tb =
     create_assignment_action REDEEMED (Some ENROLLMENT_ERROR) (Some tb) None"

definition add_successful_acknowledged_cancelled_action where
  "add_successful_acknowledged_cancelled_action now =
     create_assignment_action CANCELLED_ACKNOWLEDGED None None (Some now)"

definition add_successful_acknowledged_expired_action where
  "add_successful_acknowledged_expired_action now =
     create_assignment_action EXPIRED_ACKNOWLEDGED None None (Some now)"

definition add_successful_reversal_action where
  "add_successful_reversal_action now = create_assignment_action REVERSED_ACTION None None (Some now)"

section \<open>Acknowledgements\<close>

text \<open>Comparing datetimes one of which may be \<open>None\<close>.\<close>

fun dt_le :: "datetime option \<Rightarrow> datetime option \<Rightarrow> bool result" where
  "dt_le (Some a) (Some b) = Inr (a \<le> b)"
| "dt_le _ _ = Inl TypeError"

fun dt_gt :: "datetime option \<Rightarrow> datetime option \<Rightarrow> bool result" where
  "dt_gt (Some a) (Some b) = Inr (a > b)"
| "dt_gt _ _ = Inl TypeError"

text \<open>The expression \<open>ack and last and last.completed_at <= ack.completed_at\<close>, as a truth value.\<close>

fun acknowledged_recent :: "assignment_action option \<Rightarrow> assignment_action option \<Rightarrow> bool result" where
  "acknowledged_recent (Some ack) (Some recent) = dt_le (aa_completed_at recent) (aa_completed_at ack)"
| "acknowledged_recent _ _ = Inr False"

definition should_acknowledge_expired_assignment ::
    "actions \<Rightarrow> learner_content_assignment \<Rightarrow> (bool \<times> bool) result" where
  "should_acknowledge_expired_assignment actions assignment =
     (if lca_state assignment \<noteq> EXPIRED then Inr (False, False)
      else rbind (acknowledged_recent (get_last_successful_acknowledged_expired_action actions assignment)
                                      (get_last_successful_expiration_action actions assignment))
             (\<lambda>has_acknowledged. Inr (if \<not> has_acknowledged then (True, False) else (False, True))))"

definition should_acknowledge_cancelled_assignment ::
    "actions \<Rightarrow> learner_content_assignment \<Rightarrow> (bool \<times> bool) result" where
  "should_acknowledge_cancelled_assignment actions assignment =
     (if lca_state assignment \<noteq> CANCELLED then Inr (False, False)
      else rbind (acknowledged_recent (get_last_successful_acknowledged_cancelled_action actions assignment)
                                      (get_last_successful_cancel_action actions assignment))
             (\<lambda>has_acknowledged. Inr (if \<not> has_acknowledged then (True, False) else (False, True))))"

text \<open>
  The body of the loop of \<open>acknowledge_assignments\<close>: the action table and the three lists are the
  state; \<open>now\<close> is the clock at the time the assignment is handled.
\<close>

type_synonym ack_state = "actions \<times> assignments \<times> assignments \<times> assignments"

definition acknowledge_one :: "datetime \<Rightarrow> ack_state \<Rightarrow> learner_content_assignment \<Rightarrow> ack_state result" where
  "acknowledge_one now st assignment =
     (case st of (actions, acked, already, unacked) \<Rightarrow>
       rbind (should_acknowledge_expired_assignment actions assignment) (\<lambda>(ack_exp, already_exp).
       rbind (should_acknowledge_cancelled_assignment actions assignment) (\<lambda>(ack_can, already_can).
         let (actions, acked) =
               (if ack_exp
                then (add_successful_acknowledged_expired_action now assignment actions, acked @ [assignment])
                else (actions, acked));
             (actions, acked) =
               (if ack_can
                then (add_successful_acknowledged_cancelled_action now assignment actions, acked @ [assignment])
                else (actions, acked));
             already = (if already_exp \<or> already_can then already @ [assignment] else already);
             unacked = (if \<not> ack_exp \<and> \<not> ack_can \<and> lca_uuid assignment \<notin> lca_uuid ` set already
                        then unacked @ [assignment] else unacked)
         in Inr (actions, acked, already, unacked))))"

fun acknowledge_loop :: "(uuid \<Rightarrow> datetime) \<Rightarrow> ack_state \<Rightarrow> assignments \<Rightarrow> ack_state result" where
  "acknowledge_loop clock st [] = Inr st"
| "acknowledge_loop clock st (a # as) =
     rbind (acknowledge_one (clock (lca_uuid a)) st a) (\<lambda>st'. acknowledge_loop clock st' as)"

definition acknowledge_assignments ::
    "(uuid \<Rightarrow> datetime) \<Rightarrow> assignments \<Rightarrow> actions \<Rightarrow> uuid \<Rightarrow> uuid list \<Rightarrow> int option \<Rightarrow> ack_state result" where
  "acknowledge_assignments clock table actions config assignment_uuids lms_user_id =
     (let to_ack = filter (\<lambda>a. lca_assignment_configuration a = Some config \<and>
                               lca_uuid a \<in> set assignment_uuids \<and>
                               lca_lms_user_id a = lms_user_id) table
      in if to_ack = [] then Inl ValidationError
         else acknowledge_loop clock (actions, [], [], []) to_ack)"

text \<open>\<open>LearnerContentAssignmentAction.learner_acknowledged\<close> of an action of \<open>self\<close>.\<close>

definition action_learner_acknowledged ::
    "actions \<Rightarrow> learner_content_assignment \<Rightarrow> assignment_action \<Rightarrow> bool option result" where
  "action_learner_acknowledged actions self action =
     (if aa_action_type action = EXPIRED_ACTION
      then (case get_last_successful_acknowledged_expired_action actions self of
              None \<Rightarrow> Inr (Some False)
            | Some ack \<Rightarrow> rbind (dt_gt (aa_completed_at ack) (aa_completed_at action)) (\<lambda>b. Inr (Some b)))
      else if aa_action_type action = CANCELLED_ACTION
      then (case get_last_successful_acknowledged_cancelled_action actions self of
              None \<Rightarrow> Inr (Some False)
            | Some ack \<Rightarrow> rbind (dt_gt (aa_completed_at ack) (aa_completed_at action)) (\<lambda>b. Inr (Some b)))
      else Inr None)"

definition learner_acknowledged :: "actions \<Rightarrow> learner_content_assignment \<Rightarrow> bool option result" where
  "learner_acknowledged actions self =
     (if lca_state self = EXPIRED
      then (case get_last_successful_expiration_action actions self of
              None \<Rightarrow> Inr (Some False)
            | Some a \<Rightarrow> action_learner_acknowledged actions self a)
      else if lca_state self = CANCELLED
      then (case get_last_successful_cancel_action actions self of
              None \<Rightarrow> Inr (Some False)
            | Some a \<Rightarrow> action_learner_acknowledged actions self a)
      else Inr None)"


section \<open>Validation and bulk writes\<close>

definition clean_assignment :: "learner_content_assignment \<Rightarrow> unit result" where
  "clean_assignment self = (if lca_content_quantity self > 0 then Inl ValidationError else Inr ())"

text \<open>
  The two \<open>unique_together\<close> constraints. A constraint with a null column never conflicts.
\<close>

definition same_learner_slot :: "learner_content_assignment \<Rightarrow> learner_content_assignment \<Rightarrow> bool" where
  "same_learner_slot a b \<longleftrightarrow>
     lca_assignment_configuration a = lca_assignment_configuration b \<and>
     lca_assignment_configuration a \<noteq> None \<and> lca_content_key a = lca_content_key b \<and>
     (lower (lca_learner_email a) = lower (lca_learner_email b) \<or>
      (lca_lms_user_id a = lca_lms_user_id b \<and> lca_lms_user_id a \<noteq> None))"

definition conflicts :: "assignments \<Rightarrow> learner_content_assignment \<Rightarrow> assignments" where
  "conflicts table a = filter (\<lambda>b. lca_uuid b \<noteq> lca_uuid a \<and> same_learner_slot a b) table"

fun unique_slots :: "assignments \<Rightarrow> bool" where
  "unique_slots [] = True"
| "unique_slots (a # as) = ((\<forall>b \<in> set as. \<not> same_learner_slot a b) \<and> unique_slots as)"

text \<open>
  \<open>full_clean\<close>: required fields and the format of the address (\<open>valid_email\<close> stands for the
  validator of the framework), then \<open>clean\<close>, then uniqueness against the stored rows.
\<close>

definition full_clean_assignment ::
    "(string \<Rightarrow> bool) \<Rightarrow> assignments \<Rightarrow> learner_content_assignment \<Rightarrow> unit result" where
  "full_clean_assignment valid_email table self =
     (if lca_assignment_configuration self = None \<or> lca_content_key self = [] \<or>
         \<not> valid_email (lca_learner_email self)
      then Inl ValidationError
      else rbind (clean_assignment self) (\<lambda>_.
             if conflicts table self \<noteq> [] then Inl ValidationError else Inr ()))"

text \<open>
  \<open>bulk_create\<close> inserts the records; \<open>bulk_update\<close> stamps \<open>modified\<close> and copies the listed fields
  (the argument \<open>copy\<close>) from the records in memory to the stored rows with the same key. The
  database refuses a table that violates a constraint.
\<close>

definition checked_table :: "assignments \<Rightarrow> assignments result" where
  "checked_table table = (if unique_slots table then Inr table else Inl IntegrityError)"

definition bulk_create_assignments :: "assignments \<Rightarrow> assignments \<Rightarrow> assignments result" where
  "bulk_create_assignments assignment_records table = checked_table (table @ assignment_records)"

definition bulk_update_assignments ::
    "(learner_content_assignment \<Rightarrow> learner_content_assignment \<Rightarrow> learner_content_assignment)
       \<Rightarrow> datetime \<Rightarrow> assignments \<Rightarrow> assignments \<Rightarrow> assignments result" where
  "bulk_update_assignments copy now assignment_records table =
     checked_table
       (map (\<lambda>row. case find (\<lambda>r. lca_uuid r = lca_uuid row) assignment_records of
                     None \<Rightarrow> row
                   | Some r \<Rightarrow> (copy r row)\<lparr>lca_modified := now\<rparr>) table)"

definition save_assignment ::
    "datetime \<Rightarrow> learner_content_assignment \<Rightarrow> assignments \<Rightarrow> assignments result" where
  "save_assignment now self table = checked_table (put_row lca_uuid (self\<lparr>lca_modified := now\<rparr>) table)"

section \<open>Expiration, retirement, derived columns\<close>

definition get_allocation_timeout_expiration :: "learner_content_assignment \<Rightarrow> datetime" where
  "get_allocation_timeout_expiration self = lca_allocated_at self + days num_days_before_auto_expiration"

text \<open>\<open>clear_pii\<close> rewrites the address of the record and of its historical rows.\<close>

definition clear_pii ::
    "string \<Rightarrow> learner_content_assignment \<Rightarrow> assignments \<Rightarrow> learner_content_assignment \<times> assignments" where
  "clear_pii nonce self history =
     (let retired_email = retired_email_address nonce
      in (self\<lparr>lca_learner_email := retired_email\<rparr>,
          map (\<lambda>h. if lca_uuid h = lca_uuid self then h\<lparr>lca_learner_email := retired_email\<rparr> else h) history))"

definition datetime_min :: datetime where
  "datetime_min = - 62135596800000000"

definition most_recent_reminder :: "actions \<Rightarrow> learner_content_assignment \<Rightarrow> datetime" where
  "most_recent_reminder actions self =
     (let times = List.map_filter aa_completed_at
            (filter (\<lambda>a. aa_assignment a = lca_uuid self \<and> aa_action_type a = REMINDED) actions)
      in if times = [] then datetime_min else Max (set times))"

definition recent_action ::
    "actions \<Rightarrow> learner_content_assignment \<Rightarrow> (recent_action_type \<times> datetime) option" where
  "recent_action actions self =
     (let reminder = most_recent_reminder actions self
      in if lca_allocated_at self > reminder then Some (ASSIGNED, lca_allocated_at self)
         else if reminder > lca_allocated_at self then Some (RECENTLY_REMINDED, reminder)
         else None)"

definition has_notification :: "actions \<Rightarrow> learner_content_assignment \<Rightarrow> bool" where
  "has_notification actions self \<longleftrightarrow>
     (\<exists>a \<in> set actions. aa_assignment a = lca_uuid self \<and> aa_action_type a = NOTIFIED \<and>
        aa_error_reason a = None \<and> aa_completed_at a \<noteq> None)"

definition has_errored_notification :: "actions \<Rightarrow> learner_content_assignment \<Rightarrow> bool" where
  "has_errored_notification actions self \<longleftrightarrow>
     (\<exists>a \<in> set actions. aa_assignment a = lca_uuid self \<and> aa_action_type a = NOTIFIED \<and>
        aa_error_reason a \<noteq> None)"

definition learner_state :: "actions \<Rightarrow> learner_content_assignment \<Rightarrow> assignment_learner_state option" where
  "learner_state actions self =
     (if lca_state self = ALLOCATED \<and> has_errored_notification actions self \<and> \<not> has_notification actions self
      then Some FAILED
      else if lca_state self = ALLOCATED \<and> \<not> has_notification actions self then Some NOTIFYING
      else if lca_state self = ALLOCATED \<and> has_notification actions self then Some WAITING
      else if lca_state self = EXPIRED then Some LEARNER_EXPIRED
      else if lca_state self = ERRORED then Some FAILED
      else None)"

fun index_of :: "'a list \<Rightarrow> 'a \<Rightarrow> nat \<Rightarrow> nat option" where
  "index_of [] x i = None"
| "index_of (y # ys) x i = (if y = x then Some i else index_of ys x (i + 1))"

definition learner_state_sort_order :: "actions \<Rightarrow> learner_content_assignment \<Rightarrow> nat" where
  "learner_state_sort_order actions self =
     (case Option.bind (learner_state actions self) (\<lambda>s. index_of learner_state_sort_orders s 0) of
        None \<Rightarrow> 999 | Some i \<Rightarrow> i)"


section \<open>Lemmas on actions\<close>

named_theorems lookups \<open>the action lookups and the action records, by type\<close>

lemmas [lookups] =
  get_last_successful_linked_action_def get_last_successful_notified_action_def
  get_last_successful_reminded_action_def get_last_successful_cancel_action_def
  get_last_successful_expiration_action_def get_last_successful_redeemed_action_def
  get_last_successful_acknowledged_cancelled_action_def
  get_last_successful_acknowledged_expired_action_def
  create_assignment_action_def add_successful_acknowledged_cancelled_action_def
  add_successful_acknowledged_expired_action_def

text \<open>A successful action has a completion time, as the methods that add one see to.\<close>

definition timed :: "actions \<Rightarrow> bool" where
  "timed actions \<longleftrightarrow> (\<forall>a \<in> set actions. aa_error_reason a = None \<longrightarrow> aa_completed_at a \<noteq> None)"

definition successful ::
    "assignment_action_type \<Rightarrow> learner_content_assignment \<Rightarrow> assignment_action \<Rightarrow> bool" where
  "successful ty self a \<longleftrightarrow>
     aa_assignment a = lca_uuid self \<and> aa_action_type a = ty \<and> aa_error_reason a = None"

lemma newest_first_hd:
  assumes "newest_first xs = a # ys" and "\<And>x. x \<in> set xs \<Longrightarrow> aa_completed_at x \<noteq> None"
  shows "a \<in> set xs \<and> (\<forall>x \<in> set xs. the (aa_completed_at x) \<le> the (aa_completed_at a))"
proof -
  have e: "newest_first xs = sort_key (\<lambda>a. - the (aa_completed_at a)) xs"
    using assms(2) by (simp add: newest_first_def filter_empty_conv filter_id_conv)
  have "sorted (map (\<lambda>a. - the (aa_completed_at a)) (a # ys))"
    using e assms(1) sorted_sort_key [of "\<lambda>a. - the (aa_completed_at a)" xs] by simp
  moreover have "set (a # ys) = set xs" using e assms(1) by (metis set_sort)
  ultimately show ?thesis by force
qed

lemma set_newest_first [simp]: "set (newest_first xs) = set xs"
  by (auto simp: newest_first_def)

lemma newest_first_empty [simp]: "newest_first xs = [] \<longleftrightarrow> xs = []"
  using set_newest_first [of xs] by (metis set_empty)

lemma last_successful_None_iff:
  "last_successful ty actions self = None \<longleftrightarrow> (\<forall>a \<in> set actions. \<not> successful ty self a)"
  by (simp add: last_successful_def first_None_iff filter_empty_conv successful_def)

lemma last_successful_SomeD:
  assumes "last_successful ty actions self = Some a" and "timed actions"
  shows "a \<in> set actions \<and> successful ty self a \<and>
    (\<forall>b \<in> set actions. successful ty self b \<longrightarrow> the (aa_completed_at b) \<le> the (aa_completed_at a))"
proof -
  let ?xs = "filter (\<lambda>a. aa_assignment a = lca_uuid self \<and> aa_action_type a = ty \<and>
                         aa_error_reason a = None) actions"
  obtain ys where "newest_first ?xs = a # ys"
    using assms(1) by (auto simp: last_successful_def split: list.splits)
  from newest_first_hd [OF this] assms(2) show ?thesis
    by (auto simp: timed_def successful_def)
qed

lemma last_successful_is:
  assumes "last_successful ty actions self = Some a"
  shows "successful ty self a"
proof -
  let ?xs = "filter (\<lambda>a. aa_assignment a = lca_uuid self \<and> aa_action_type a = ty \<and>
                         aa_error_reason a = None) actions"
  obtain ys where "newest_first ?xs = a # ys"
    using assms by (auto simp: last_successful_def split: list.splits)
  then have "a \<in> set ?xs" using set_newest_first [of ?xs] by (metis list.set_intros(1))
  then show ?thesis by (simp add: successful_def)
qed

text \<open>Actions of other assignments, or of other types, do not matter.\<close>

lemma last_successful_append_other:
  "(\<And>z. z \<in> set zs \<Longrightarrow> \<not> successful ty self z) \<Longrightarrow>
   last_successful ty (actions @ zs) self = last_successful ty actions self"
proof -
  assume a: "\<And>z. z \<in> set zs \<Longrightarrow> \<not> successful ty self z"
  have "filter (\<lambda>a. aa_assignment a = lca_uuid self \<and> aa_action_type a = ty \<and> aa_error_reason a = None) zs = []"
    using a by (auto simp: filter_empty_conv successful_def)
  then show ?thesis by (simp add: last_successful_def)
qed

section \<open>Acknowledging\<close>

text \<open>
  The decision for one assignment: the types of the action that ended it and of its
  acknowledgement depend on the state, and it is acknowledged when the newest acknowledgement is not
  older than the newest end.
\<close>

datatype ack_outcome = Ack | Already | Neither

fun ack_types :: "assignment_state \<Rightarrow> (assignment_action_type \<times> assignment_action_type) option" where
  "ack_types EXPIRED = Some (EXPIRED_ACTION, EXPIRED_ACKNOWLEDGED)"
| "ack_types CANCELLED = Some (CANCELLED_ACTION, CANCELLED_ACKNOWLEDGED)"
| "ack_types _ = None"

definition ack_outcome :: "actions \<Rightarrow> learner_content_assignment \<Rightarrow> ack_outcome" where
  "ack_outcome actions a =
     (case ack_types (lca_state a) of
        None \<Rightarrow> Neither
      | Some (ended, ack) \<Rightarrow>
          (case (last_successful ack actions a, last_successful ended actions a) of
             (Some x, Some y) \<Rightarrow>
               if the (aa_completed_at y) \<le> the (aa_completed_at x) then Already else Ack
           | _ \<Rightarrow> Ack))"

definition new_acks :: "datetime \<Rightarrow> actions \<Rightarrow> learner_content_assignment \<Rightarrow> actions" where
  "new_acks now actions a =
     (if ack_outcome actions a = Ack
      then [\<lparr>aa_assignment = lca_uuid a, aa_action_type = snd (the (ack_types (lca_state a))),
             aa_completed_at = Some now, aa_error_reason = None, aa_traceback = None\<rparr>]
      else [])"

lemma timed_last: "timed actions \<Longrightarrow> last_successful ty actions self = Some a \<Longrightarrow> \<exists>t. aa_completed_at a = Some t"
  using last_successful_SomeD by (fastforce simp: timed_def successful_def)

lemma acknowledged_recent_eq:
  assumes "timed actions"
  shows "acknowledged_recent (last_successful ack actions a) (last_successful ended actions a) =
    Inr (case (last_successful ack actions a, last_successful ended actions a) of
           (Some x, Some y) \<Rightarrow> the (aa_completed_at y) \<le> the (aa_completed_at x) | _ \<Rightarrow> False)"
  using timed_last [OF assms, of ack a] timed_last [OF assms, of ended a]
  by (cases "last_successful ack actions a"; cases "last_successful ended actions a") auto

lemma should_acknowledge_eq:
  assumes "timed actions"
  shows "should_acknowledge_expired_assignment actions a =
      Inr (lca_state a = EXPIRED \<and> ack_outcome actions a = Ack, lca_state a = EXPIRED \<and> ack_outcome actions a = Already)"
    and "should_acknowledge_cancelled_assignment actions a =
      Inr (lca_state a = CANCELLED \<and> ack_outcome actions a = Ack, lca_state a = CANCELLED \<and> ack_outcome actions a = Already)"
  by (auto simp: should_acknowledge_expired_assignment_def should_acknowledge_cancelled_assignment_def
      lookups acknowledged_recent_eq [OF assms] ack_outcome_def split: option.splits)

lemma ack_outcome_Neither: "ack_outcome actions a = Neither \<longleftrightarrow> lca_state a \<notin> {EXPIRED, CANCELLED}"
  by (cases "lca_state a") (auto simp: ack_outcome_def split: option.splits)

lemma acknowledge_one_eq:
  assumes "timed actions" and "lca_uuid a \<notin> lca_uuid ` set already"
  shows "acknowledge_one now (actions, acked, already, unacked) a =
    Inr (actions @ new_acks now actions a,
         acked @ (if ack_outcome actions a = Ack then [a] else []),
         already @ (if ack_outcome actions a = Already then [a] else []),
         unacked @ (if ack_outcome actions a = Neither then [a] else []))"
  using assms(2) ack_outcome_Neither [of actions a]
  by (cases "ack_outcome actions a"; cases "lca_state a")
    (simp_all add: acknowledge_one_def should_acknowledge_eq [OF assms(1)] new_acks_def lookups Let_def)

lemma new_acks_other: "z \<in> set (new_acks now actions b) \<Longrightarrow> lca_uuid a \<noteq> lca_uuid b \<Longrightarrow> \<not> successful ty a z"
  by (auto simp: new_acks_def successful_def split: if_splits)

lemma ack_outcome_append_other:
  "(\<And>z. z \<in> set zs \<Longrightarrow> aa_assignment z \<noteq> lca_uuid a) \<Longrightarrow> ack_outcome (actions @ zs) a = ack_outcome actions a"
  using last_successful_append_other [of zs _ a actions]
  by (simp add: ack_outcome_def successful_def split: option.split)

lemma new_acks_assignment: "z \<in> set (new_acks now actions b) \<Longrightarrow> aa_assignment z = lca_uuid b"
  by (auto simp: new_acks_def split: if_splits)

lemma timed_append_acks: "timed actions \<Longrightarrow> timed (actions @ new_acks now xs a)"
  by (auto simp: timed_def new_acks_def)

text \<open>The loop in closed form: every assignment is decided on the table the call started with.\<close>

lemma acknowledge_loop_eq:
  assumes "timed (actions @ zs)" and "distinct (map lca_uuid as)"
    and "lca_uuid ` set already \<inter> lca_uuid ` set as = {}"
    and "\<And>z. z \<in> set zs \<Longrightarrow> aa_assignment z \<notin> lca_uuid ` set as"
  shows "acknowledge_loop clock (actions @ zs, acked, already, unacked) as =
    Inr (actions @ zs @ concat (map (\<lambda>a. new_acks (clock (lca_uuid a)) actions a) as),
         acked @ filter (\<lambda>a. ack_outcome actions a = Ack) as,
         already @ filter (\<lambda>a. ack_outcome actions a = Already) as,
         unacked @ filter (\<lambda>a. ack_outcome actions a = Neither) as)"
  using assms
proof (induction as arbitrary: zs acked already unacked)
  case (Cons a as)
  have o: "ack_outcome (actions @ zs) a = ack_outcome actions a"
    by (rule ack_outcome_append_other) (use Cons.prems in auto)
  have n: "new_acks (clock (lca_uuid a)) (actions @ zs) a = new_acks (clock (lca_uuid a)) actions a"
    by (simp add: new_acks_def o)
  have one: "acknowledge_one (clock (lca_uuid a)) (actions @ zs, acked, already, unacked) a =
    Inr (actions @ zs @ new_acks (clock (lca_uuid a)) actions a,
         acked @ (if ack_outcome actions a = Ack then [a] else []),
         already @ (if ack_outcome actions a = Already then [a] else []),
         unacked @ (if ack_outcome actions a = Neither then [a] else []))"
    using acknowledge_one_eq [OF Cons.prems(1), of a already] Cons.prems(3) by (auto simp: o n)
  have t: "timed (actions @ zs @ new_acks (clock (lca_uuid a)) actions a)"
    using timed_append_acks [OF Cons.prems(1)] by simp
  have z: "aa_assignment z \<notin> lca_uuid ` set as"
    if "z \<in> set (zs @ new_acks (clock (lca_uuid a)) actions a)" for z
    using that Cons.prems(2,4) new_acks_assignment by fastforce
  have al: "lca_uuid ` set (already @ (if ack_outcome actions a = Already then [a] else [])) \<inter> lca_uuid ` set as = {}"
    using Cons.prems(2,3) by auto
  have d: "distinct (map lca_uuid as)" using Cons.prems(2) by simp
  show ?case
    using Cons.IH [OF t d al z] one by simp
qed simp


definition to_acknowledge :: "assignments \<Rightarrow> uuid \<Rightarrow> uuid list \<Rightarrow> int option \<Rightarrow> assignments" where
  "to_acknowledge table config assignment_uuids lms_user_id =
     filter (\<lambda>a. lca_assignment_configuration a = Some config \<and> lca_uuid a \<in> set assignment_uuids \<and>
                 lca_lms_user_id a = lms_user_id) table"

lemma distinct_map_filter: "distinct (map f xs) \<Longrightarrow> distinct (map f (filter P xs))"
  by (induction xs) auto

lemma acknowledge_assignments_eq:
  assumes "timed actions" and "distinct (map lca_uuid table)"
    and "to_acknowledge table config uuids lms \<noteq> []"
  shows "acknowledge_assignments clock table actions config uuids lms =
    Inr (actions @ concat (map (\<lambda>a. new_acks (clock (lca_uuid a)) actions a) (to_acknowledge table config uuids lms)),
         filter (\<lambda>a. ack_outcome actions a = Ack) (to_acknowledge table config uuids lms),
         filter (\<lambda>a. ack_outcome actions a = Already) (to_acknowledge table config uuids lms),
         filter (\<lambda>a. ack_outcome actions a = Neither) (to_acknowledge table config uuids lms))"
proof -
  have d: "distinct (map lca_uuid (to_acknowledge table config uuids lms))"
    using assms(2) by (simp add: to_acknowledge_def distinct_map_filter)
  show ?thesis
    using acknowledge_loop_eq [of actions "[]" "to_acknowledge table config uuids lms" "[]" clock "[]" "[]"] assms(1,3) d
    by (simp add: acknowledge_assignments_def to_acknowledge_def Let_def)
qed

lemma timed_more: "timed actions \<Longrightarrow> timed (actions @ concat (map (\<lambda>a. new_acks (clock (lca_uuid a)) actions a) as))"
  by (induction as) (auto simp: timed_def new_acks_def)

text \<open>After the acknowledgement, an ended assignment counts as acknowledged.\<close>

lemma ack_outcome_after:
  assumes t: "timed actions" and d: "distinct (map lca_uuid as)" and a: "a \<in> set as"
    and ended: "ack_types (lca_state a) = Some (ended, ack)" and e: "e \<in> set actions" "successful ended a e"
    and now: "\<And>x. x \<in> set actions \<Longrightarrow> aa_assignment x = lca_uuid a \<Longrightarrow> the (aa_completed_at x) \<le> clock (lca_uuid a)"
  shows "ack_outcome (actions @ concat (map (\<lambda>a. new_acks (clock (lca_uuid a)) actions a) as)) a = Already"
proof (cases "ack_outcome actions a = Ack")
  case False
  then have al: "ack_outcome actions a = Already"
    using ended by (cases "ack_outcome actions a") (auto simp: ack_outcome_def split: option.splits if_splits)
  have "aa_assignment z \<noteq> lca_uuid a"
    if z: "z \<in> set (concat (map (\<lambda>a. new_acks (clock (lca_uuid a)) actions a) as))" for z
  proof -
    obtain b where b: "b \<in> set as" "z \<in> set (new_acks (clock (lca_uuid b)) actions b)"
      using z unfolding set_concat set_map by blast
    then have "b \<noteq> a" using False by (auto simp: new_acks_def)
    then have "lca_uuid b \<noteq> lca_uuid a" using d a b(1) by (auto dest: distinct_key_inj)
    then show ?thesis using b(2) new_acks_assignment by metis
  qed
  then have "ack_outcome (actions @ concat (map (\<lambda>a. new_acks (clock (lca_uuid a)) actions a) as)) a =
      ack_outcome actions a"
    by (rule ack_outcome_append_other)
  then show ?thesis using al by simp
next
  case True
  define all_acks where "all_acks = concat (map (\<lambda>a. new_acks (clock (lca_uuid a)) actions a) as)"
  define x where "x = \<lparr>aa_assignment = lca_uuid a, aa_action_type = ack, aa_completed_at = Some (clock (lca_uuid a)),
             aa_error_reason = None, aa_traceback = None\<rparr>"
  have t': "timed (actions @ all_acks)" using timed_more [OF t] by (simp add: all_acks_def)
  have x: "x \<in> set all_acks"
    using a True ended by (force simp: all_acks_def new_acks_def x_def)
  have own: "\<not> successful ended a z" if "z \<in> set all_acks" for z
    using that ended by (cases "lca_state a") (auto simp: all_acks_def new_acks_def successful_def
        dest: distinct_key_inj [OF d _ a] split: if_splits)
  obtain y where y: "last_successful ended actions a = Some y"
    using e last_successful_None_iff by (cases "last_successful ended actions a") blast+
  then have y': "last_successful ended (actions @ all_acks) a = Some y"
    using last_successful_append_other own by simp
  have "successful ack a x" by (simp add: x_def successful_def)
  then have "last_successful ack (actions @ all_acks) a \<noteq> None"
    unfolding last_successful_None_iff using x by auto
  then obtain w where w: "last_successful ack (actions @ all_acks) a = Some w" by blast
  have "clock (lca_uuid a) \<le> the (aa_completed_at w)"
    using last_successful_SomeD [OF w t'] x \<open>successful ack a x\<close> by (force simp: x_def)
  moreover have "the (aa_completed_at y) \<le> clock (lca_uuid a)"
    using last_successful_SomeD [OF y t] now by (auto simp: successful_def)
  ultimately show ?thesis using y' w ended by (simp add: ack_outcome_def all_acks_def)
qed

lemma ack_outcome_settled:
  assumes "timed actions" and "distinct (map lca_uuid as)" and a: "a \<in> set as"
    and ended: "\<And>en ack. ack_types (lca_state a) = Some (en, ack) \<Longrightarrow> \<exists>e \<in> set actions. successful en a e"
    and clock: "\<And>x. x \<in> set actions \<Longrightarrow> aa_assignment x = lca_uuid a \<Longrightarrow>
                  the (aa_completed_at x) \<le> clock (lca_uuid a)"
  shows "ack_outcome (actions @ concat (map (\<lambda>a. new_acks (clock (lca_uuid a)) actions a) as)) a =
    (if lca_state a \<in> {EXPIRED, CANCELLED} then Already else Neither)"
proof (cases "ack_types (lca_state a)")
  case None
  then show ?thesis by (cases "lca_state a") (simp_all add: ack_outcome_def)
next
  case (Some p)
  obtain en ak where p: "ack_types (lca_state a) = Some (en, ak)" using Some by (cases p) auto
  obtain e where e: "e \<in> set actions" "successful en a e" using ended [OF p] by blast
  have "ack_outcome (actions @ concat (map (\<lambda>a. new_acks (clock (lca_uuid a)) actions a) as)) a = Already"
    by (rule ack_outcome_after [where clock = clock and a = a, OF assms(1,2) a p e clock])
  then show ?thesis using p by (cases "lca_state a") simp_all
qed

lemma acknowledged_lists:
  "set (filter (\<lambda>a. ack_outcome actions a = Ack) as) \<union> set (filter (\<lambda>a. ack_outcome actions a = Already) as)
     = {a \<in> set as. lca_state a \<in> {EXPIRED, CANCELLED}}"
  "set (filter (\<lambda>a. ack_outcome actions a = Ack) as) \<inter> set (filter (\<lambda>a. ack_outcome actions a = Already) as) = {}"
  "filter (\<lambda>a. ack_outcome actions a = Neither) as = filter (\<lambda>a. lca_state a \<notin> {EXPIRED, CANCELLED}) as"
proof -
  have "ack_outcome actions a = Ack \<or> ack_outcome actions a = Already \<longleftrightarrow> lca_state a \<in> {EXPIRED, CANCELLED}" for a
    using ack_outcome_Neither [of actions a] by (cases "ack_outcome actions a") auto
  then show "set (filter (\<lambda>a. ack_outcome actions a = Ack) as) \<union> set (filter (\<lambda>a. ack_outcome actions a = Already) as)
     = {a \<in> set as. lca_state a \<in> {EXPIRED, CANCELLED}}" by auto
qed (auto simp: ack_outcome_Neither)

lemma length_new_acks:
  "length (concat (map (\<lambda>a. new_acks (clock (lca_uuid a)) actions a) as)) =
   length (filter (\<lambda>a. ack_outcome actions a = Ack) as)"
  by (induction as) (auto simp: new_acks_def)

text \<open>
  Acknowledging is idempotent. When every cancelled or expired assignment among those asked for
  has its cancellation or expiration on record and the clock is not behind the records, the call
  splits the learner's assignments into those acknowledged now, those acknowledged before and those
  that are neither cancelled nor expired; the same call again adds no action and reports all the
  cancelled and expired ones as acknowledged before.
\<close>

theorem acknowledge_twice:
  fixes table config uuids lms
  defines "mine \<equiv> filter (\<lambda>a. lca_assignment_configuration a = Some config \<and> lca_uuid a \<in> set uuids \<and>
                              lca_lms_user_id a = lms) table"
  assumes "timed actions" and "distinct (map lca_uuid table)" and "mine \<noteq> []"
    and ended: "\<And>a en ack. a \<in> set mine \<Longrightarrow> ack_types (lca_state a) = Some (en, ack) \<Longrightarrow>
                  \<exists>e \<in> set actions. successful en a e"
    and clock: "\<And>x a. x \<in> set actions \<Longrightarrow> a \<in> set mine \<Longrightarrow> aa_assignment x = lca_uuid a \<Longrightarrow>
                  the (aa_completed_at x) \<le> clock (lca_uuid a)"
  shows "\<exists>actions' acked already unacked.
    acknowledge_assignments clock table actions config uuids lms = Inr (actions', acked, already, unacked) \<and>
    set acked \<union> set already = {a \<in> set mine. lca_state a \<in> {EXPIRED, CANCELLED}} \<and>
    set acked \<inter> set already = {} \<and>
    unacked = filter (\<lambda>a. lca_state a \<notin> {EXPIRED, CANCELLED}) mine \<and>
    length actions' = length actions + length acked \<and>
    acknowledge_assignments clock' table actions' config uuids lms =
      Inr (actions', [], filter (\<lambda>a. lca_state a \<in> {EXPIRED, CANCELLED}) mine, unacked)"
proof -
  define acts where "acts = actions @ concat (map (\<lambda>a. new_acks (clock (lca_uuid a)) actions a) mine)"
  have m: "to_acknowledge table config uuids lms = mine" by (simp add: to_acknowledge_def mine_def)
  have d: "distinct (map lca_uuid mine)" unfolding mine_def by (rule distinct_map_filter [OF assms(3)])
  have after: "ack_outcome acts a = (if lca_state a \<in> {EXPIRED, CANCELLED} then Already else Neither)"
    if a: "a \<in> set mine" for a
    unfolding acts_def by (rule ack_outcome_settled [where clock = clock and a = a, OF assms(2) d a ended [OF a] clock [OF _ a]])
  have none: "concat (map (\<lambda>a. new_acks (clock' (lca_uuid a)) acts a) mine) = []"
    using after by (auto simp: new_acks_def)
  have f: "filter (\<lambda>a. ack_outcome acts a = Ack) mine = []"
    "filter (\<lambda>a. ack_outcome acts a = Already) mine = filter (\<lambda>a. lca_state a \<in> {EXPIRED, CANCELLED}) mine"
    using after by (auto simp: filter_empty_conv intro!: filter_cong split: if_splits)
  have t: "timed acts" using timed_more [OF assms(2)] by (simp add: acts_def)
  have second: "acknowledge_assignments clock' table acts config uuids lms =
      Inr (acts, [], filter (\<lambda>a. lca_state a \<in> {EXPIRED, CANCELLED}) mine,
           filter (\<lambda>a. lca_state a \<notin> {EXPIRED, CANCELLED}) mine)"
    using acknowledge_assignments_eq [OF t assms(3), of config uuids lms clock'] assms(4) none f
    by (simp only: m acknowledged_lists(3) append_Nil2 not_False_eq_True)
  show ?thesis
  proof (intro exI conjI)
    show "acknowledge_assignments clock table actions config uuids lms =
      Inr (acts, filter (\<lambda>a. ack_outcome actions a = Ack) mine, filter (\<lambda>a. ack_outcome actions a = Already) mine,
           filter (\<lambda>a. lca_state a \<notin> {EXPIRED, CANCELLED}) mine)"
      using acknowledge_assignments_eq [OF assms(2,3), of config uuids lms clock] assms(4)
      by (simp only: m acts_def acknowledged_lists(3) not_False_eq_True)
    show "length acts = length actions + length (filter (\<lambda>a. ack_outcome actions a = Ack) mine)"
      by (simp add: acts_def length_new_acks)
  qed (rule acknowledged_lists second refl)+
qed

definition demo_assignment :: learner_content_assignment where
  "demo_assignment =
     \<lparr>lca_uuid = 11, lca_assignment_configuration = Some 2, lca_learner_email = ''a@b.c'',
      lca_lms_user_id = Some 70, lca_content_key = ''edX+D'', lca_parent_content_key = None,
      lca_is_assigned_course_run = False, lca_content_title = None, lca_content_quantity = - 100,
      lca_preferred_course_run_key = None, lca_state = ALLOCATED, lca_allocated_at = 0,
      lca_accepted_at = None, lca_cancelled_at = None, lca_expired_at = None, lca_errored_at = None,
      lca_reversed_at = None, lca_transaction_uuid = None, lca_allocation_batch_id = None,
      lca_admin_lms_user_id = None, lca_modified = 0\<rparr>"

definition demo_expiration :: assignment_action where
  "demo_expiration = \<lparr>aa_assignment = 11, aa_action_type = EXPIRED_ACTION, aa_completed_at = Some 5,
     aa_error_reason = None, aa_traceback = None\<rparr>"

theorem acknowledge_twice_witness:
  "\<exists>actions' acked already unacked.
    acknowledge_assignments (\<lambda>_. 6) [demo_assignment\<lparr>lca_state := EXPIRED\<rparr>] [demo_expiration] 2 [11] (Some 70) =
      Inr (actions', acked, already, unacked) \<and>
    set acked \<union> set already = {demo_assignment\<lparr>lca_state := EXPIRED\<rparr>} \<and>
    acknowledge_assignments (\<lambda>_. 9) [demo_assignment\<lparr>lca_state := EXPIRED\<rparr>] actions' 2 [11] (Some 70) =
      Inr (actions', [], [demo_assignment\<lparr>lca_state := EXPIRED\<rparr>], unacked)"
proof -
  have m: "filter (\<lambda>a. lca_assignment_configuration a = Some 2 \<and> lca_uuid a \<in> set [11] \<and> lca_lms_user_id a = Some 70)
      [demo_assignment\<lparr>lca_state := EXPIRED\<rparr>] = [demo_assignment\<lparr>lca_state := EXPIRED\<rparr>]"
    by (simp add: demo_assignment_def)
  have "timed [demo_expiration]" "distinct (map lca_uuid [demo_assignment\<lparr>lca_state := EXPIRED\<rparr>])"
    by (simp_all add: timed_def demo_expiration_def)
  note t = acknowledge_twice [OF this, of 2 "[11]" "Some 70" "\<lambda>_. 6" "\<lambda>_. 9", unfolded m]
  have e: "\<exists>e \<in> set [demo_expiration]. successful en a e"
    if "a \<in> set [demo_assignment\<lparr>lca_state := EXPIRED\<rparr>]" "ack_types (lca_state a) = Some (en, ak)" for a en ak
    using that by (auto simp: successful_def demo_expiration_def demo_assignment_def)
  have c: "the (aa_completed_at x) \<le> 6"
    if "x \<in> set [demo_expiration]" "a \<in> set [demo_assignment\<lparr>lca_state := EXPIRED\<rparr>]" "aa_assignment x = lca_uuid a" for x a
    using that by (simp add: demo_expiration_def)
  have u: "{a \<in> set [demo_assignment\<lparr>lca_state := EXPIRED\<rparr>]. lca_state a \<in> {EXPIRED, CANCELLED}} =
      {demo_assignment\<lparr>lca_state := EXPIRED\<rparr>}"
    "filter (\<lambda>a. lca_state a \<in> {EXPIRED, CANCELLED}) [demo_assignment\<lparr>lca_state := EXPIRED\<rparr>] =
      [demo_assignment\<lparr>lca_state := EXPIRED\<rparr>]"
    by auto
  have "\<exists>actions' acked already unacked.
    acknowledge_assignments (\<lambda>_. 6) [demo_assignment\<lparr>lca_state := EXPIRED\<rparr>] [demo_expiration] 2 [11] (Some 70) =
      Inr (actions', acked, already, unacked) \<and>
    set acked \<union> set already = {a \<in> set [demo_assignment\<lparr>lca_state := EXPIRED\<rparr>]. lca_state a \<in> {EXPIRED, CANCELLED}} \<and>
    set acked \<inter> set already = {} \<and>
    unacked = filter (\<lambda>a. lca_state a \<notin> {EXPIRED, CANCELLED}) [demo_assignment\<lparr>lca_state := EXPIRED\<rparr>] \<and>
    length actions' = length [demo_expiration] + length acked \<and>
    acknowledge_assignments (\<lambda>_. 9) [demo_assignment\<lparr>lca_state := EXPIRED\<rparr>] actions' 2 [11] (Some 70) =
      Inr (actions', [], filter (\<lambda>a. lca_state a \<in> {EXPIRED, CANCELLED}) [demo_assignment\<lparr>lca_state := EXPIRED\<rparr>], unacked)"
    by (rule t [OF list.distinct(2)]) (erule (1) e, erule (2) c)
  then show ?thesis unfolding u by blast
qed

text \<open>
  Whether a learner has acknowledged an expired assignment is computed twice, by
  \<open>acknowledge_assignments\<close> (not older than) and by the property \<open>learner_acknowledged\<close> (newer
  than). With both actions on record the two answers differ exactly when the two times are equal.
\<close>

theorem acknowledgement_tests_differ_on_ties:
  assumes "lca_state self = EXPIRED"
    and "get_last_successful_expiration_action actions self = Some e" and "aa_completed_at e = Some te"
    and "get_last_successful_acknowledged_expired_action actions self = Some k" and "aa_completed_at k = Some tk"
  shows "(\<exists>already shown. should_acknowledge_expired_assignment actions self = Inr (\<not> already, already) \<and>
           learner_acknowledged actions self = Inr (Some shown) \<and> already \<noteq> shown) \<longleftrightarrow> te = tk"
proof -
  have "aa_action_type e = EXPIRED_ACTION"
    using assms(2) by (auto simp: lookups successful_def dest: last_successful_is)
  then show ?thesis
    using assms by (auto simp: should_acknowledge_expired_assignment_def learner_acknowledged_def
        action_learner_acknowledged_def)
qed

theorem acknowledgement_tests_differ_on_ties_witness:
  "\<exists>already shown. should_acknowledge_expired_assignment
      [demo_expiration, demo_expiration\<lparr>aa_action_type := EXPIRED_ACKNOWLEDGED\<rparr>]
      (demo_assignment\<lparr>lca_state := EXPIRED\<rparr>) = Inr (\<not> already, already) \<and>
    learner_acknowledged [demo_expiration, demo_expiration\<lparr>aa_action_type := EXPIRED_ACKNOWLEDGED\<rparr>]
      (demo_assignment\<lparr>lca_state := EXPIRED\<rparr>) = Inr (Some shown) \<and> already \<noteq> shown"
  by (subst acknowledgement_tests_differ_on_ties [where te = 5 and tk = 5 and e = demo_expiration
        and k = "demo_expiration\<lparr>aa_action_type := EXPIRED_ACKNOWLEDGED\<rparr>"])
    (simp_all add: lookups last_successful_def newest_first_def demo_expiration_def demo_assignment_def)

end
