(* ===== verification/Content_Metadata.thy ===== *)
theory Content_Metadata
  imports Complex_Main Prelude
begin

text \<open>
  Content metadata, \<open>content_metadata/api.py\<close> and \<open>subsidy_access_policy/content_metadata_api.py\<close>.

  A metadata dictionary of the catalog service is a record with the keys the code reads; a missing
  key is \<open>None\<close> or the default the code passes to \<open>get\<close>. A price arrives as a number or as a
  string; both are carried as rational numbers (a float is the rational number it denotes), because
  \<open>Decimal\<close> of either is exact. The catalog service is a function argument and the Django cache is
  a map, whose entries may have expired at any time.
\<close>

section \<open>Data\<close>

datatype product_source = EDX | TWOU

datatype course_mode = EDX_VERIFIED | EXECUTIVE_EDUCATION

datatype price = Price_Number rat | Price_String rat

text \<open>A number is falsy when it is zero, a non-empty string never is.\<close>

fun truthy_price :: "price option \<Rightarrow> bool" where
  "truthy_price None = False"
| "truthy_price (Some (Price_Number r)) = (r \<noteq> 0)"
| "truthy_price (Some (Price_String r)) = True"

fun price_value :: "price \<Rightarrow> rat" where
  "price_value (Price_Number r) = r"
| "price_value (Price_String r) = r"

record course_run =
  run_key :: "string option"
  run_uuid :: "string option"
  run_first_enrollable_paid_seat_price :: "price option"

record content_data =
  cd_key :: "string option"
  cd_uuid :: "string option"
  cd_title :: "string option"
  cd_content_type :: "string option"
  cd_product_source_slug :: "string option"
  cd_advertised_course_run_uuid :: "string option"
  cd_course_runs :: "course_run list"
  cd_entitlements :: "(string option \<times> price option) list"
  cd_first_enrollable_paid_seat_price :: "price option"
  cd_normalized_metadata_by_run :: "(string \<times> price option) list"

text \<open>The empty dictionary that stands for a run that is not found.\<close>

definition no_run :: course_run where
  "no_run = \<lparr>run_key = None, run_uuid = None, run_first_enrollable_paid_seat_price = None\<rparr>"

record content_summary =
  cs_content_title :: "string option"
  cs_content_uuid :: "string option"
  cs_content_key :: "string option"
  cs_course_run_uuid :: "string option"
  cs_course_run_key :: "string option"
  cs_source :: product_source
  cs_mode :: course_mode
  cs_content_price :: int

section \<open>Summaries and prices\<close>

definition content_modes_by_product_source :: "product_source \<Rightarrow> course_mode" where
  "content_modes_by_product_source s = (case s of EDX \<Rightarrow> EDX_VERIFIED | TWOU \<Rightarrow> EXECUTIVE_EDUCATION)"

definition product_source_for_content :: "content_data \<Rightarrow> product_source" where
  "product_source_for_content cd =
     (if cd_product_source_slug cd = Some ''edX'' then EDX
      else if cd_product_source_slug cd = Some ''2u'' then TWOU
      else EDX)"

definition mode_for_content :: "content_data \<Rightarrow> course_mode" where
  "mode_for_content cd = content_modes_by_product_source (product_source_for_content cd)"

fun mode_slug :: "course_mode \<Rightarrow> string" where
  "mode_slug EDX_VERIFIED = ''verified''"
| "mode_slug EXECUTIVE_EDUCATION = ''paid-executive-education''"

definition get_course_run :: "string option \<Rightarrow> content_data \<Rightarrow> course_run" where
  "get_course_run content_identifier cd =
     (if cd_content_type cd = Some ''courserun''
      then \<lparr>run_key = cd_key cd, run_uuid = cd_uuid cd,
            run_first_enrollable_paid_seat_price = cd_first_enrollable_paid_seat_price cd\<rparr>
      else
        let run_identifier =
              (if content_identifier = cd_key cd \<or> content_identifier = cd_uuid cd
               then cd_advertised_course_run_uuid cd else content_identifier)
        in case find (\<lambda>run. run_identifier = run_key run \<or> run_identifier = run_uuid run) (cd_course_runs cd) of
             None \<Rightarrow> no_run
           | Some run \<Rightarrow> run)"

definition default_content_price :: price where
  "default_content_price = Price_Number 0"

text \<open>The loop over the entitlements has no break: the last one of the mode decides.\<close>

definition price_for_content_fallback :: "content_data \<Rightarrow> course_run \<Rightarrow> price" where
  "price_for_content_fallback cd run =
     (let content_price =
            (if product_source_for_content cd = TWOU
             then fold (\<lambda>(m, p) found. if m = Some (mode_slug (mode_for_content cd)) then p else found)
                    (cd_entitlements cd) None
             else run_first_enrollable_paid_seat_price run)
      in if truthy_price content_price then the content_price else default_content_price)"

text \<open>\<open>int(Decimal(x) * 100)\<close> truncates towards zero.\<close>

definition trunc_rat :: "rat \<Rightarrow> int" where
  "trunc_rat r = (if r \<ge> 0 then \<lfloor>r\<rfloor> else \<lceil>r\<rceil>)"

definition official_price :: "content_data \<Rightarrow> course_run \<Rightarrow> price" where
  "official_price cd run =
     (let normalized = Option.bind (run_key run) (\<lambda>k. Option.bind (map_of (cd_normalized_metadata_by_run cd) k) id)
      in if truthy_price normalized then the normalized else price_for_content_fallback cd run)"

definition price_for_content :: "content_data \<Rightarrow> course_run \<Rightarrow> int" where
  "price_for_content cd run = trunc_rat (price_value (official_price cd run) * 100)"

definition summary_data_for_content :: "string option \<Rightarrow> content_data \<Rightarrow> content_summary" where
  "summary_data_for_content content_identifier cd =
     (let run = get_course_run content_identifier cd
      in \<lparr>cs_content_title = cd_title cd, cs_content_uuid = cd_uuid cd, cs_content_key = cd_key cd,
          cs_course_run_uuid = run_uuid run, cs_course_run_key = run_key run,
          cs_source = product_source_for_content cd, cs_mode = mode_for_content cd,
          cs_content_price = price_for_content cd run\<rparr>)"

definition get_canonical_content_price_from_metadata :: "string option \<Rightarrow> content_data \<Rightarrow> int" where
  "get_canonical_content_price_from_metadata content_identifier cd =
     cs_content_price (summary_data_for_content content_identifier cd)"

text \<open>List prices: the pair of dollars and cents.\<close>

definition make_list_price_dict :: "rat option \<Rightarrow> int option \<Rightarrow> (rat \<times> int) result" where
  "make_list_price_dict decimal_dollars integer_cents =
     (case (decimal_dollars, integer_cents) of
        (None, Some c) \<Rightarrow> Inr (of_int c / 100, c)
      | (Some d, None) \<Rightarrow> Inr (d, trunc_rat (d * 100))
      | _ \<Rightarrow> Inl ValueError)"

section \<open>The metadata cache\<close>

text \<open>
  A cache key is computed from the catalog and the content key; a record whose key was not asked for
  is stored under the Python key \<open>None\<close>, which the model writes as \<open>None\<close>, too.
\<close>

type_synonym metadata_cache = "(uuid \<times> string) option \<Rightarrow> content_data option"

definition get_and_cache_catalog_content_metadata ::
    "(uuid \<Rightarrow> string list \<Rightarrow> content_data list result) \<Rightarrow> metadata_cache \<Rightarrow> uuid \<Rightarrow> string list
       \<Rightarrow> (content_data list \<times> metadata_cache) result" where
  "get_and_cache_catalog_content_metadata fetch cache catalog content_keys =
     (let keys = remdups content_keys;
          hits = List.map_filter (\<lambda>k. cache (Some (catalog, k))) keys;
          keys_to_fetch = filter (\<lambda>k. cache (Some (catalog, k)) = None) keys
      in rbind (if keys_to_fetch = [] then Inr [] else fetch catalog keys_to_fetch) (\<lambda>fetched.
           let cache_key_of = (\<lambda>r. case cd_key r of
                                     Some k \<Rightarrow> if k \<in> set content_keys then Some (catalog, k) else None
                                   | None \<Rightarrow> None)
           in Inr (hits @ fetched, fold (\<lambda>r c. c(cache_key_of r \<mapsto> r)) fetched cache)))"


section \<open>Properties\<close>

lemma trunc_rat_bounds: "r \<ge> 0 \<Longrightarrow> of_int (trunc_rat r) \<le> r \<and> r < of_int (trunc_rat r) + 1"
  by (simp add: trunc_rat_def) linarith

lemma trunc_rat_of_int [simp]: "trunc_rat (of_int i) = i"
  by (simp add: trunc_rat_def)

text \<open>A course whose run \<open>run\<close> has a normalized price.\<close>

definition demo_content :: "price \<Rightarrow> content_data" where
  "demo_content p = \<lparr>cd_key = Some ''course'', cd_uuid = None, cd_title = None, cd_content_type = None,
    cd_product_source_slug = None, cd_advertised_course_run_uuid = None, cd_course_runs = [],
    cd_entitlements = [], cd_first_enrollable_paid_seat_price = None,
    cd_normalized_metadata_by_run = [(''run'', Some p)]\<rparr>"

definition demo_run :: course_run where
  "demo_run = no_run\<lparr>run_key := Some ''run''\<rparr>"

lemma official_price_demo: "truthy_price (Some p) \<Longrightarrow> official_price (demo_content p) demo_run = p"
  by (simp add: official_price_def demo_content_def demo_run_def no_run_def)

text \<open>
  The price in cents never exceeds the published price and is less than a cent below it, so it is
  exact when the published price is a whole number of cents. A float is rarely one: the number
  closest to 1.15 dollars, 2589569785738035 / 2251799813685248, costs 114 cents.
\<close>

theorem price_for_content_truncates:
  "(price_value (official_price cd run) \<ge> 0 \<longrightarrow>
      of_int (price_for_content cd run) \<le> 100 * price_value (official_price cd run) \<and>
      100 * price_value (official_price cd run) < of_int (price_for_content cd run) + 1) \<and>
   (\<forall>c. 100 * price_value (official_price cd run) = of_int c \<longrightarrow> price_for_content cd run = c) \<and>
   price_for_content (demo_content (Price_Number (2589569785738035 / 2251799813685248))) demo_run = 114"
proof (intro conjI impI allI)
  assume "price_value (official_price cd run) \<ge> 0"
  then show "of_int (price_for_content cd run) \<le> 100 * price_value (official_price cd run)"
    "100 * price_value (official_price cd run) < of_int (price_for_content cd run) + 1"
    using trunc_rat_bounds [of "price_value (official_price cd run) * 100"]
    by (simp_all add: price_for_content_def mult.commute)
next
  fix c assume "100 * price_value (official_price cd run) = of_int c"
  then show "price_for_content cd run = c" by (simp add: price_for_content_def mult.commute)
next
  show "price_for_content (demo_content (Price_Number (2589569785738035 / 2251799813685248))) demo_run = 114"
    by (simp add: price_for_content_def official_price_demo trunc_rat_def floor_unique)
qed

theorem price_for_content_truncates_witness:
  "price_for_content (demo_content (Price_String (23 / 20))) demo_run = 115"
  using price_for_content_truncates [of "demo_content (Price_String (23 / 20))" demo_run]
  by (simp add: official_price_demo)

lemma map_filter_set: "set (List.map_filter f xs) = {y. \<exists>x \<in> set xs. f x = Some y}"
  by (induction xs) (auto simp: List.map_filter_simps split: option.splits)

lemma fold_store:
  "fold (\<lambda>r c. c(key_of r \<mapsto> r)) rs cache k = Some r \<Longrightarrow> cache k = Some r \<or> (r \<in> set rs \<and> key_of r = k)"
proof (induction rs arbitrary: cache)
  case (Cons a rs)
  from Cons.IH [of "cache(key_of a \<mapsto> a)"] Cons.prems show ?case by (auto split: if_splits)
qed simp

lemma fold_store_other: "k \<notin> key_of ` set rs \<Longrightarrow> fold (\<lambda>r c. c(key_of r \<mapsto> r)) rs cache k = cache k"
  by (induction rs arbitrary: cache) auto

lemma fold_store_hit:
  "k \<in> key_of ` set rs \<or> cache k \<noteq> None \<Longrightarrow> fold (\<lambda>r c. c(key_of r \<mapsto> r)) rs cache k \<noteq> None"
  by (induction rs arbitrary: cache) auto

text \<open>
  The cache is transparent. Let \<open>svc\<close> be what the catalog knows for each key (the record of
  the course, for the key of the course and for the keys of its runs), and let the cache hold only
  such records. Then the call returns exactly the records the catalog knows for the requested keys,
  whatever the cache holds, and the cache still holds only such records. A key of a course is cached
  afterwards; a key of a run never is, so its record is fetched on every call.
\<close>

theorem catalog_cache_transparent:
  assumes fetch: "\<And>ks rs. fetch catalog ks = Inr rs \<Longrightarrow> set rs = {r. \<exists>k \<in> set ks. svc k = Some r}"
    and course: "\<And>k r. svc k = Some r \<Longrightarrow> \<exists>c. cd_key r = Some c \<and> svc c = Some r"
    and coherent: "\<And>k r. cache (Some (catalog, k)) = Some r \<Longrightarrow> svc k = Some r"
    and call: "get_and_cache_catalog_content_metadata fetch cache catalog keys = Inr (rs, cache')"
  shows "set rs = {r. \<exists>k \<in> set keys. svc k = Some r} \<and>
    (\<forall>k r. cache' (Some (catalog, k)) = Some r \<longrightarrow> svc k = Some r) \<and>
    (\<forall>k \<in> set keys. \<forall>r. svc k = Some r \<longrightarrow>
       (if cd_key r = Some k then cache' (Some (catalog, k)) = Some r
        else cache' (Some (catalog, k)) = cache (Some (catalog, k))))"
proof -
  define ks where "ks = filter (\<lambda>k. cache (Some (catalog, k)) = None) (remdups keys)"
  define key_of where "key_of r = (case cd_key r of
      Some k \<Rightarrow> if k \<in> set keys then Some (catalog, k) else None | None \<Rightarrow> None)" for r :: content_data
  obtain fetched where f: "(if ks = [] then Inr [] else fetch catalog ks) = Inr fetched"
    and rs: "rs = List.map_filter (\<lambda>k. cache (Some (catalog, k))) (remdups keys) @ fetched"
    and c': "cache' = fold (\<lambda>r c. c(key_of r \<mapsto> r)) fetched cache"
    using call unfolding get_and_cache_catalog_content_metadata_def Let_def rbind_Inr_iff
      ks_def [symmetric] key_of_def [symmetric] by auto
  have fs: "set fetched = {r. \<exists>k \<in> set ks. svc k = Some r}"
    using f fetch by (auto split: if_splits)
  have known: "svc k = Some r" if "key_of r = Some (catalog, k)" "r \<in> set fetched" for k r
    using that fs course by (fastforce simp: key_of_def split: option.splits if_splits)
  have "set rs = {r. \<exists>k \<in> set keys. svc k = Some r}"
    using coherent by (fastforce simp: rs fs map_filter_set ks_def)
  moreover have co: "svc k = Some r" if "cache' (Some (catalog, k)) = Some r" for k r
    using fold_store [of key_of fetched cache] that coherent known unfolding c' by blast
  moreover have "if cd_key r = Some k then cache' (Some (catalog, k)) = Some r
      else cache' (Some (catalog, k)) = cache (Some (catalog, k))"
    if k: "k \<in> set keys" and r: "svc k = Some r" for k r
  proof (cases "cd_key r = Some k")
    case True
    have "Some (catalog, k) \<in> key_of ` set fetched \<or> cache (Some (catalog, k)) \<noteq> None"
      using k r True fs by (force simp: key_of_def ks_def image_iff)
    then have "cache' (Some (catalog, k)) \<noteq> None" unfolding c' by (rule fold_store_hit)
    then show ?thesis using True co r by fastforce
  next
    case False
    have "Some (catalog, k) \<notin> key_of ` set fetched"
      using known r False by (fastforce simp: key_of_def split: option.splits if_splits)
    then show ?thesis using False by (simp add: c' fold_store_other)
  qed
  ultimately show ?thesis by blast
qed

definition demo_catalog :: "string \<Rightarrow> content_data option" where
  "demo_catalog k = (if k \<in> {''course'', ''run''} then Some (demo_content (Price_Number 1)) else None)"

definition demo_fetch :: "uuid \<Rightarrow> string list \<Rightarrow> content_data list result" where
  "demo_fetch catalog ks = Inr (List.map_filter demo_catalog ks)"

theorem catalog_cache_transparent_witness:
  "\<exists>rs cache'. get_and_cache_catalog_content_metadata demo_fetch (\<lambda>_. None) 1 [''run''] = Inr (rs, cache') \<and>
     set rs = {demo_content (Price_Number 1)} \<and> cache' (Some (1, ''run'')) = None"
proof -
  obtain rs cache' where call: "get_and_cache_catalog_content_metadata demo_fetch (\<lambda>_. None) 1 [''run''] = Inr (rs, cache')"
    by (simp add: get_and_cache_catalog_content_metadata_def demo_fetch_def)
  have f: "set rs = {r. \<exists>k \<in> set ks. demo_catalog k = Some r}" if "demo_fetch 1 ks = Inr rs" for ks rs
    using that by (auto simp: demo_fetch_def map_filter_set)
  have c: "\<exists>c. cd_key r = Some c \<and> demo_catalog c = Some r" if k: "demo_catalog k = Some r" for k r
  proof -
    have "r = demo_content (Price_Number 1)" using k by (simp add: demo_catalog_def split: if_splits)
    then have "cd_key r = Some ''course'' \<and> demo_catalog ''course'' = Some r"
      by (simp add: demo_catalog_def demo_content_def)
    then show ?thesis by blast
  qed
  have "set rs = {r. \<exists>k \<in> set [''run'']. demo_catalog k = Some r} \<and>
    (\<forall>k r. cache' (Some (1, k)) = Some r \<longrightarrow> demo_catalog k = Some r) \<and>
    (\<forall>k \<in> set [''run'']. \<forall>r. demo_catalog k = Some r \<longrightarrow>
       (if cd_key r = Some k then cache' (Some (1, k)) = Some r else cache' (Some (1, k)) = None))"
    by (rule catalog_cache_transparent [OF f c _ call]) simp_all
  then have "set rs = {demo_content (Price_Number 1)}" "cache' (Some (1, ''run'')) = None"
    by (simp_all add: demo_catalog_def demo_content_def)
  with call show ?thesis by blast
qed

end
