(* ===== verification/Subsidy_Request.thy ===== *)
theory Subsidy_Request
  imports Prelude
begin

text \<open>
  Learner requests for a subsidy, \<open>subsidy_request/models.py\<close>, \<open>constants.py\<close> and \<open>utils.py\<close>.

  The abstract model \<open>SubsidyRequest\<close> is a record that the three concrete models extend. \<open>clean\<close>
  raises \<open>ValidationError\<close>; \<open>save\<close> runs it first (\<open>full_clean\<close>), for learner credit
  requests together with the conditional unique constraint of the model, and then
  fires the \<open>post_save\<close> signal that may enqueue a task. Clock readings are arguments. Framework
  validation of single fields (lengths, types) is not modelled: no operation here writes a field
  with such a limit.
\<close>

section \<open>Data\<close>

datatype subsidy_request_state =
    SR_REQUESTED
  | SR_PENDING
  | SR_APPROVED
  | SR_DECLINED
  | SR_ERROR
  | SR_ACCEPTED
  | SR_CANCELLED
  | SR_EXPIRED
  | SR_REVERSED

fun state_value :: "subsidy_request_state \<Rightarrow> string" where
  "state_value SR_REQUESTED = ''requested''"
| "state_value SR_PENDING = ''pending''"
| "state_value SR_APPROVED = ''approved''"
| "state_value SR_DECLINED = ''declined''"
| "state_value SR_ERROR = ''error''"
| "state_value SR_ACCEPTED = ''accepted''"
| "state_value SR_CANCELLED = ''cancelled''"
| "state_value SR_EXPIRED = ''expired''"
| "state_value SR_REVERSED = ''reversed''"

definition subsidy_request_states_choices :: "string list" where
  "subsidy_request_states_choices = map state_value
     [SR_REQUESTED, SR_PENDING, SR_APPROVED, SR_DECLINED, SR_ERROR,
      SR_ACCEPTED, SR_CANCELLED, SR_EXPIRED, SR_REVERSED]"

definition learner_credit_request_action_choices :: "string list" where
  "learner_credit_request_action_choices = subsidy_request_states_choices @ [''reminded'']"

definition learner_credit_request_user_messages :: "string list" where
  "learner_credit_request_user_messages =
     [state_value SR_REQUESTED, ''reminded'', state_value SR_APPROVED, state_value SR_ACCEPTED,
      state_value SR_DECLINED, state_value SR_REVERSED, state_value SR_CANCELLED,
      state_value SR_EXPIRED]"

definition learner_credit_request_action_error_reasons :: "string list" where
  "learner_credit_request_action_error_reasons =
     [''failed_approval'', ''failed_decline'', ''failed_cancellation'', ''failed_redemption'',
      ''failed_reversal'', ''email_error'']"

definition lc_non_re_requestable_states :: "subsidy_request_state list" where
  "lc_non_re_requestable_states = [SR_REQUESTED, SR_APPROVED, SR_ACCEPTED, SR_ERROR]"

definition reusable_request_states :: "subsidy_request_state list" where
  "reusable_request_states = [SR_CANCELLED, SR_EXPIRED, SR_REVERSED]"

record subsidy_request =
  sr_uuid :: uuid
  sr_user :: core_user
  sr_course_id :: "string option"
  sr_course_title :: "string option"
  sr_course_partners :: "json option"
  sr_enterprise_customer_uuid :: uuid
  sr_state :: subsidy_request_state
  sr_reviewed_at :: "datetime option"
  sr_reviewer :: "nat option"
  sr_decline_reason :: "string option"

record license_request = subsidy_request +
  lr_subscription_plan_uuid :: "uuid option"
  lr_license_uuid :: "uuid option"

record coupon_code_request = subsidy_request +
  cr_coupon_id :: "int option"
  cr_coupon_code :: "string option"

record learner_credit_request = subsidy_request +
  lcr_assignment :: "uuid option"
  lcr_config :: "uuid option"
  lcr_course_price :: "int option"
  lcr_modified :: datetime

section \<open>Validation and saving\<close>

definition clean_request :: "'a subsidy_request_scheme \<Rightarrow> unit result" where
  "clean_request self =
     (if sr_state self \<noteq> SR_REQUESTED \<and> \<not> (sr_reviewed_at self \<noteq> None \<and> sr_reviewer self \<noteq> None)
      then Inl ValidationError else Inr ())"

definition clean_license :: "license_request \<Rightarrow> unit result" where
  "clean_license self =
     (if sr_state self = SR_APPROVED \<and>
         \<not> (lr_subscription_plan_uuid self \<noteq> None \<and> lr_license_uuid self \<noteq> None)
      then Inl ValidationError else clean_request self)"

definition clean_coupon :: "coupon_code_request \<Rightarrow> unit result" where
  "clean_coupon self =
     (if sr_state self = SR_APPROVED \<and> \<not> (truthy_int (cr_coupon_id self) \<and> truthy (cr_coupon_code self))
      then Inl ValidationError else clean_request self)"

text \<open>The condition under which the unique constraint of the learner credit request applies.\<close>

definition lcr_constrained :: "learner_credit_request \<Rightarrow> bool" where
  "lcr_constrained r \<longleftrightarrow> sr_state r \<in> {SR_REQUESTED, SR_APPROVED, SR_ERROR, SR_ACCEPTED}"

definition same_learner_course :: "learner_credit_request \<Rightarrow> learner_credit_request \<Rightarrow> bool" where
  "same_learner_course r q \<longleftrightarrow>
     user_id (sr_user r) = user_id (sr_user q) \<and>
     sr_enterprise_customer_uuid r = sr_enterprise_customer_uuid q \<and>
     sr_course_id r = sr_course_id q \<and> sr_course_id r \<noteq> None"

text \<open>
  \<open>full_clean\<close>: the model's \<open>clean\<close>, then the one-to-one column \<open>assignment\<close> and the conditional
  constraint are checked against the other rows. Every failure is a \<open>ValidationError\<close>.
\<close>

definition full_clean_lcr :: "learner_credit_request list \<Rightarrow> learner_credit_request \<Rightarrow> unit result" where
  "full_clean_lcr rows self =
     rbind (clean_request self) (\<lambda>_.
       if lcr_assignment self \<noteq> None \<and>
          (\<exists>q \<in> set rows. sr_uuid q \<noteq> sr_uuid self \<and> lcr_assignment q = lcr_assignment self)
       then Inl ValidationError
       else if lcr_constrained self \<and>
          (\<exists>q \<in> set rows. sr_uuid q \<noteq> sr_uuid self \<and> lcr_constrained q \<and> same_learner_course self q)
       then Inl ValidationError else Inr ())"

text \<open>The \<open>post_save\<close> receiver: empty title or partner data are fetched asynchronously.\<close>

definition partners_present :: "json option \<Rightarrow> bool" where
  "partners_present p \<longleftrightarrow> p \<notin> {None, Some JNull, Some (JList []), Some (JObj []), Some (JStr [])}"

definition update_course_info_for_subsidy_request ::
    "string \<Rightarrow> 'a subsidy_request_scheme \<Rightarrow> task list" where
  "update_course_info_for_subsidy_request model_name r =
     (if truthy (sr_course_title r) \<and> partners_present (sr_course_partners r) then []
      else [Update_Course_Info model_name (sr_uuid r)])"

text \<open>Insert or update by primary key.\<close>

definition upsert_lcr ::
    "learner_credit_request \<Rightarrow> learner_credit_request list \<Rightarrow> learner_credit_request list" where
  "upsert_lcr r rows = (if sr_uuid r \<in> sr_uuid ` set rows then put_row sr_uuid r rows else rows @ [r])"

definition save_lcr ::
    "datetime \<Rightarrow> learner_credit_request list \<Rightarrow> learner_credit_request
       \<Rightarrow> (learner_credit_request list \<times> learner_credit_request \<times> task list) result" where
  "save_lcr now rows self =
     rbind (full_clean_lcr rows self) (\<lambda>_.
       let r = self\<lparr>lcr_modified := now\<rparr>
       in Inr (upsert_lcr r rows, r,
               update_course_info_for_subsidy_request ''LearnerCreditRequest'' r))"

definition save_license :: "license_request \<Rightarrow> (license_request \<times> task list) result" where
  "save_license self =
     rbind (clean_license self) (\<lambda>_.
       Inr (self, update_course_info_for_subsidy_request ''LicenseRequest'' self))"

definition save_coupon :: "coupon_code_request \<Rightarrow> (coupon_code_request \<times> task list) result" where
  "save_coupon self =
     rbind (clean_coupon self) (\<lambda>_.
       Inr (self, update_course_info_for_subsidy_request ''CouponCodeRequest'' self))"

section \<open>Reviews\<close>

definition approve_license :: "nat \<Rightarrow> datetime \<Rightarrow> license_request \<Rightarrow> (license_request \<times> task list) result" where
  "approve_license reviewer now self =
     save_license (self\<lparr>sr_reviewer := Some reviewer, sr_state := SR_PENDING, sr_reviewed_at := Some now\<rparr>)"

definition decline_license ::
    "nat \<Rightarrow> string option \<Rightarrow> datetime \<Rightarrow> license_request \<Rightarrow> (license_request \<times> task list) result" where
  "decline_license reviewer reason now self =
     save_license (self\<lparr>sr_reviewer := Some reviewer, sr_state := SR_DECLINED,
       sr_decline_reason := reason, sr_reviewed_at := Some now\<rparr>)"

definition approve_coupon ::
    "nat \<Rightarrow> datetime \<Rightarrow> coupon_code_request \<Rightarrow> (coupon_code_request \<times> task list) result" where
  "approve_coupon reviewer now self =
     save_coupon (self\<lparr>sr_reviewer := Some reviewer, sr_state := SR_PENDING, sr_reviewed_at := Some now\<rparr>)"

definition decline_coupon ::
    "nat \<Rightarrow> string option \<Rightarrow> datetime \<Rightarrow> coupon_code_request \<Rightarrow> (coupon_code_request \<times> task list) result" where
  "decline_coupon reviewer reason now self =
     save_coupon (self\<lparr>sr_reviewer := Some reviewer, sr_state := SR_DECLINED,
       sr_decline_reason := reason, sr_reviewed_at := Some now\<rparr>)"

type_synonym lcr_save = "(learner_credit_request list \<times> learner_credit_request \<times> task list) result"

definition approve_lcr ::
    "nat \<Rightarrow> datetime \<Rightarrow> learner_credit_request list \<Rightarrow> learner_credit_request \<Rightarrow> lcr_save" where
  "approve_lcr reviewer now rows self =
     save_lcr now rows (self\<lparr>sr_reviewer := Some reviewer, sr_state := SR_APPROVED,
       sr_reviewed_at := Some now\<rparr>)"

definition decline_lcr ::
    "nat \<Rightarrow> string option \<Rightarrow> datetime \<Rightarrow> learner_credit_request list \<Rightarrow> learner_credit_request \<Rightarrow> lcr_save" where
  "decline_lcr reviewer reason now rows self =
     save_lcr now rows (self\<lparr>sr_reviewer := Some reviewer, sr_state := SR_DECLINED,
       sr_decline_reason := reason, sr_reviewed_at := Some now\<rparr>)"

definition cancel_lcr ::
    "nat \<Rightarrow> datetime \<Rightarrow> learner_credit_request list \<Rightarrow> learner_credit_request \<Rightarrow> lcr_save" where
  "cancel_lcr reviewer now rows self =
     save_lcr now rows (self\<lparr>sr_state := SR_CANCELLED, sr_reviewer := Some reviewer,
       sr_reviewed_at := Some now\<rparr>)"

text \<open>
  A bulk update of learner credit requests does not validate; it writes the listed fields. Here
  \<open>copy\<close> copies the listed fields from the record in memory to the stored row.
\<close>

definition bulk_update_lcr ::
    "(learner_credit_request \<Rightarrow> learner_credit_request \<Rightarrow> learner_credit_request) \<Rightarrow> datetime
       \<Rightarrow> learner_credit_request list \<Rightarrow> learner_credit_request list \<Rightarrow> learner_credit_request list" where
  "bulk_update_lcr copy now lcr_records rows =
     map (\<lambda>row. case find (\<lambda>r. sr_uuid r = sr_uuid row) lcr_records of
                  None \<Rightarrow> row
                | Some r \<Rightarrow> (copy r row)\<lparr>lcr_modified := now\<rparr>) rows"

text \<open>\<open>LearnerCreditRequestViewSet._reuse_existing_request\<close>.\<close>

definition reuse_existing_request ::
    "int option \<Rightarrow> datetime \<Rightarrow> learner_credit_request list \<Rightarrow> learner_credit_request \<Rightarrow> lcr_save" where
  "reuse_existing_request course_price now rows request =
     save_lcr now rows (request\<lparr>sr_state := SR_REQUESTED, lcr_assignment := None,
       lcr_course_price := course_price, sr_reviewer := None, sr_reviewed_at := None,
       sr_decline_reason := None\<rparr>)"

section \<open>The audit trail of learner credit requests\<close>

record lcr_action =
  act_learner_credit_request :: "uuid option"
  act_recent_action :: "string option"
  act_status :: "string option"
  act_error_reason :: "string option"
  act_traceback :: "string option"
  act_created :: datetime

text \<open>The three lookups of \<open>utils.py\<close>: a loop over the choices that returns the key or \<open>None\<close>.\<close>

fun first_choice :: "string list \<Rightarrow> string \<Rightarrow> string option" where
  "first_choice [] key = None"
| "first_choice (c # cs) key = (if c = key then Some c else first_choice cs key)"

definition get_action_choice :: "string \<Rightarrow> string option" where
  "get_action_choice action_key = first_choice learner_credit_request_action_choices action_key"

definition get_user_message_choice :: "string \<Rightarrow> string option" where
  "get_user_message_choice message_key = first_choice learner_credit_request_user_messages message_key"

definition get_error_reason_choice :: "string \<Rightarrow> string option" where
  "get_error_reason_choice error_key = first_choice learner_credit_request_action_error_reasons error_key"

text \<open>
  \<open>full_clean\<close> of an action: the request and the two required choice fields must be there
  and listed, the error reason is optional (blank counts as absent).
\<close>

definition full_clean_action :: "lcr_action \<Rightarrow> unit result" where
  "full_clean_action a =
     (if act_learner_credit_request a \<noteq> None \<and>
         (\<exists>x \<in> set learner_credit_request_action_choices. act_recent_action a = Some x) \<and>
         (\<exists>x \<in> set learner_credit_request_user_messages. act_status a = Some x) \<and>
         (truthy (act_error_reason a) \<longrightarrow>
            (\<exists>x \<in> set learner_credit_request_action_error_reasons. act_error_reason a = Some x))
      then Inr () else Inl ValidationError)"

definition create_action ::
    "datetime \<Rightarrow> uuid option \<Rightarrow> string option \<Rightarrow> string option \<Rightarrow> string option \<Rightarrow> string option
       \<Rightarrow> lcr_action result" where
  "create_action now learner_credit_request recent_action status error_reason traceback =
     (let action = \<lparr>act_learner_credit_request = learner_credit_request,
                    act_recent_action = recent_action, act_status = status,
                    act_error_reason = error_reason, act_traceback = traceback, act_created = now\<rparr>
      in rbind (full_clean_action action) (\<lambda>_. Inr action))"

text \<open>The derived columns of \<open>annotate_dynamic_fields_onto_queryset\<close>.\<close>

definition latest_action :: "lcr_action list \<Rightarrow> learner_credit_request \<Rightarrow> lcr_action option" where
  "latest_action actions r =
     (case sort_key (\<lambda>a. - act_created a)
             (filter (\<lambda>a. act_learner_credit_request a = Some (sr_uuid r)) actions) of
        [] \<Rightarrow> None | a # _ \<Rightarrow> Some a)"

definition learner_request_state :: "lcr_action list \<Rightarrow> learner_credit_request \<Rightarrow> string option" where
  "learner_request_state actions r =
     (let latest = latest_action actions r;
          error_reason = Option.bind latest act_error_reason;
          action_type = Option.bind latest act_recent_action
      in if error_reason \<noteq> None then Some ''failed''
         else if action_type \<in> {Some ''approved'', Some ''reminded''} then Some ''waiting''
         else if sr_state r = SR_REQUESTED then Some (state_value SR_REQUESTED)
         else if sr_state r = SR_DECLINED then Some (state_value SR_DECLINED)
         else if sr_state r = SR_CANCELLED then Some (state_value SR_CANCELLED)
         else if sr_state r = SR_ERROR then Some (state_value SR_ERROR)
         else if sr_state r = SR_APPROVED then Some ''waiting''
         else None)"

definition state_sort_order :: "learner_credit_request \<Rightarrow> nat" where
  "state_sort_order r =
     (if sr_state r = SR_REQUESTED then 0
      else if sr_state r = SR_DECLINED then 1
      else if sr_state r = SR_CANCELLED then 2 else 3)"


section \<open>One request-enabled subsidy type per customer\<close>

text \<open>
  \<open>SubsidyRequestCustomerConfiguration\<close> and \<open>LearnerCreditRequestConfiguration\<close>. The second is
  attached to at most one policy (a one-to-one column of the policy), so the part of the policy
  table the two \<open>clean\<close> methods read is a list of pairs: the customer of a policy and the
  configuration attached to it.
\<close>

datatype subsidy_type = License_Subsidy | Coupon_Subsidy | Learner_Credit_Subsidy

record customer_configuration =
  cc_enterprise_customer_uuid :: uuid
  cc_subsidy_requests_enabled :: bool
  cc_subsidy_type :: "subsidy_type option"

record lcr_configuration =
  lcc_uuid :: uuid
  lcc_active :: bool

type_synonym policy_links = "(uuid \<times> uuid option) list"

definition config_active :: "lcr_configuration list \<Rightarrow> uuid option \<Rightarrow> bool" where
  "config_active configs c \<longleftrightarrow> (\<exists>k \<in> set configs. c = Some (lcc_uuid k) \<and> lcc_active k)"

definition clean_customer_configuration ::
    "policy_links \<Rightarrow> lcr_configuration list \<Rightarrow> customer_configuration \<Rightarrow> unit result" where
  "clean_customer_configuration links configs self =
     (if cc_subsidy_requests_enabled self
      then (if filter (\<lambda>(customer, c). customer = cc_enterprise_customer_uuid self \<and>
                                       config_active configs c) links \<noteq> []
            then Inl ValidationError else Inr ())
      else Inr ())"

definition clean_lcr_configuration ::
    "policy_links \<Rightarrow> customer_configuration list \<Rightarrow> lcr_configuration \<Rightarrow> unit result" where
  "clean_lcr_configuration links customers self =
     (if lcc_active self
      then (case find (\<lambda>(_, c). c = Some (lcc_uuid self)) links of
              None \<Rightarrow> Inr ()
            | Some (customer, _) \<Rightarrow>
                (case find (\<lambda>cc. cc_enterprise_customer_uuid cc = customer \<and> cc_subsidy_requests_enabled cc)
                        customers of
                   None \<Rightarrow> Inr ()
                 | Some _ \<Rightarrow> Inl ValidationError))
      else Inr ())"

definition save_customer_configuration ::
    "policy_links \<Rightarrow> lcr_configuration list \<Rightarrow> customer_configuration \<Rightarrow> customer_configuration list
       \<Rightarrow> customer_configuration list result" where
  "save_customer_configuration links configs self customers =
     rbind (clean_customer_configuration links configs self) (\<lambda>_.
       Inr (if cc_enterprise_customer_uuid self \<in> cc_enterprise_customer_uuid ` set customers
            then put_row cc_enterprise_customer_uuid self customers else customers @ [self]))"

definition save_lcr_configuration ::
    "policy_links \<Rightarrow> customer_configuration list \<Rightarrow> lcr_configuration \<Rightarrow> lcr_configuration list
       \<Rightarrow> lcr_configuration list result" where
  "save_lcr_configuration links customers self configs =
     rbind (clean_lcr_configuration links customers self) (\<lambda>_.
       Inr (if lcc_uuid self \<in> lcc_uuid ` set configs
            then put_row lcc_uuid self configs else configs @ [self]))"


section \<open>The table of learner credit requests\<close>

text \<open>
  What every table holds: unique keys, a reviewer on every reviewed request, no two open requests of
  one learner for one course of a customer, no assignment shared by two requests.
\<close>

definition reviewed :: "'a subsidy_request_scheme \<Rightarrow> bool" where
  "reviewed r \<longleftrightarrow> sr_state r = SR_REQUESTED \<or> (sr_reviewed_at r \<noteq> None \<and> sr_reviewer r \<noteq> None)"

definition compatible :: "learner_credit_request \<Rightarrow> learner_credit_request \<Rightarrow> bool" where
  "compatible r q \<longleftrightarrow>
     (lcr_constrained r \<and> lcr_constrained q \<longrightarrow> \<not> same_learner_course r q) \<and>
     (lcr_assignment r \<noteq> None \<longrightarrow> lcr_assignment q \<noteq> lcr_assignment r)"

definition lcr_table_ok :: "learner_credit_request list \<Rightarrow> bool" where
  "lcr_table_ok rows \<longleftrightarrow> distinct (map sr_uuid rows) \<and> (\<forall>r \<in> set rows. reviewed r) \<and>
     (\<forall>r \<in> set rows. \<forall>q \<in> set rows. sr_uuid r \<noteq> sr_uuid q \<longrightarrow> compatible r q)"

text \<open>One operation on the table; a failing save leaves it as it is.\<close>

inductive lcr_step :: "learner_credit_request list \<Rightarrow> learner_credit_request list \<Rightarrow> bool" where
  create: "sr_uuid r \<notin> sr_uuid ` set rows \<Longrightarrow> save_lcr now rows r = Inr (rows', r', ts) \<Longrightarrow> lcr_step rows rows'"
| approve: "r \<in> set rows \<Longrightarrow> approve_lcr u now rows r = Inr (rows', r', ts) \<Longrightarrow> lcr_step rows rows'"
| decline: "r \<in> set rows \<Longrightarrow> decline_lcr u why now rows r = Inr (rows', r', ts) \<Longrightarrow> lcr_step rows rows'"
| cancel: "r \<in> set rows \<Longrightarrow> cancel_lcr u now rows r = Inr (rows', r', ts) \<Longrightarrow> lcr_step rows rows'"
| reuse: "r \<in> set rows \<Longrightarrow> reuse_existing_request price now rows r = Inr (rows', r', ts) \<Longrightarrow> lcr_step rows rows'"

lemma set_upsert_lcr: "set (upsert_lcr r rows) = {x \<in> set rows. sr_uuid x \<noteq> sr_uuid r} \<union> {r}"
  by (auto simp: upsert_lcr_def set_put_row image_iff)

lemma distinct_upsert_lcr: "distinct (map sr_uuid rows) \<Longrightarrow> distinct (map sr_uuid (upsert_lcr r rows))"
  by (auto simp: upsert_lcr_def)

lemma compatible_sym: "compatible r q \<longleftrightarrow> compatible q r"
  by (auto simp: compatible_def same_learner_course_def)

lemma compatible_modified [simp]:
  "compatible (r\<lparr>lcr_modified := now\<rparr>) q \<longleftrightarrow> compatible r q"
  "compatible q (r\<lparr>lcr_modified := now\<rparr>) \<longleftrightarrow> compatible q r"
  by (simp_all add: compatible_def lcr_constrained_def same_learner_course_def)

lemma reviewed_modified [simp]: "reviewed (r\<lparr>lcr_modified := now\<rparr>) \<longleftrightarrow> reviewed r"
  by (simp add: reviewed_def)

lemma clean_request_iff: "clean_request r = Inr () \<longleftrightarrow> reviewed r"
  by (auto simp: clean_request_def reviewed_def)

lemma full_clean_lcr_iff:
  "full_clean_lcr rows r = Inr () \<longleftrightarrow>
     reviewed r \<and> (\<forall>q \<in> set rows. sr_uuid q \<noteq> sr_uuid r \<longrightarrow> compatible r q)"
  by (auto simp: full_clean_lcr_def rbind_Inr_iff clean_request_iff compatible_def)

lemma save_lcr_iff:
  "save_lcr now rows r = Inr (rows', r', ts) \<longleftrightarrow>
     full_clean_lcr rows r = Inr () \<and> r' = r\<lparr>lcr_modified := now\<rparr> \<and> rows' = upsert_lcr r' rows \<and>
     ts = update_course_info_for_subsidy_request ''LearnerCreditRequest'' r'"
  by (auto simp: save_lcr_def rbind_Inr_iff Let_def)

lemma save_lcr_table_ok:
  assumes "save_lcr now rows r = Inr (rows', r', ts)" and ok: "lcr_table_ok rows"
  shows "lcr_table_ok rows'"
proof -
  define r1 where "r1 = r\<lparr>lcr_modified := now\<rparr>"
  have rows': "rows' = upsert_lcr r1 rows" and rv: "reviewed r1"
    and c: "\<And>q. q \<in> set rows \<Longrightarrow> sr_uuid q \<noteq> sr_uuid r1 \<Longrightarrow> compatible r1 q"
    using assms(1) by (auto simp: save_lcr_iff full_clean_lcr_iff r1_def)
  have "distinct (map sr_uuid rows')"
    using ok by (simp add: rows' distinct_upsert_lcr lcr_table_ok_def)
  moreover have "\<forall>x \<in> set rows'. reviewed x"
    using ok rv by (auto simp: rows' set_upsert_lcr lcr_table_ok_def)
  moreover have "compatible x y" if "x \<in> set rows'" "y \<in> set rows'" "sr_uuid x \<noteq> sr_uuid y" for x y
    using that ok c compatible_sym [of x r1] by (auto simp: rows' set_upsert_lcr lcr_table_ok_def)
  ultimately show ?thesis by (simp add: lcr_table_ok_def)
qed

lemma lcr_step_saves: "lcr_step rows rows' \<Longrightarrow> \<exists>now r r' ts. save_lcr now rows r = Inr (rows', r', ts)"
  by (induction rule: lcr_step.induct)
    (auto simp: approve_lcr_def decline_lcr_def cancel_lcr_def reuse_existing_request_def)

lemma lcr_step_ok: "lcr_step rows rows' \<Longrightarrow> lcr_table_ok rows \<Longrightarrow> lcr_table_ok rows'"
  using lcr_step_saves save_lcr_table_ok by blast


definition demo_request :: learner_credit_request where
  "demo_request =
     \<lparr>sr_uuid = 1, sr_user = \<lparr>user_id = 7, user_email = ''a@b.c'', user_lms_user_id = Some 70\<rparr>,
      sr_course_id = Some ''edX+D'', sr_course_title = None, sr_course_partners = None,
      sr_enterprise_customer_uuid = 5, sr_state = SR_REQUESTED, sr_reviewed_at = None,
      sr_reviewer = None, sr_decline_reason = None, lcr_assignment = None, lcr_config = Some 3,
      lcr_course_price = Some 100, lcr_modified = 0\<rparr>"

lemma demo_create: "lcr_step [] [demo_request]"
  by (rule lcr_step.create [where r = demo_request and now = 0 and r' = demo_request
        and ts = "[Update_Course_Info ''LearnerCreditRequest'' 1]"]) code_simp+



section \<open>Properties of the audit trail\<close>

lemma first_choice_eq: "first_choice xs k = (if k \<in> set xs then Some k else None)"
  by (induction xs) auto

text \<open>
  \<open>create_action\<close> with the lookups of \<open>utils.py\<close> writes a row exactly when the action is one
  of the ten choices and the message one of the eight; an unknown error reason does not stop it,
  the lookup drops it and the row is written as a success.
\<close>

theorem create_action_accepts:
  "(\<exists>a. create_action now (Some lcr) (get_action_choice action) (get_user_message_choice message)
          (Option.bind reason get_error_reason_choice) tb = Inr a \<and>
        act_error_reason a = (if reason \<in> Some ` set learner_credit_request_action_error_reasons
                              then reason else None))
   \<longleftrightarrow> action \<in> set learner_credit_request_action_choices \<and>
       message \<in> set learner_credit_request_user_messages"
proof -
  have "Option.bind reason get_error_reason_choice =
        (if reason \<in> Some ` set learner_credit_request_action_error_reasons then reason else None)"
    by (cases reason) (auto simp: get_error_reason_choice_def first_choice_eq)
  moreover have "truthy x \<longrightarrow> (\<exists>y \<in> set learner_credit_request_action_error_reasons. x = Some y)"
    if "x = (if reason \<in> Some ` set learner_credit_request_action_error_reasons then reason else None)" for x
    using that by auto
  ultimately show ?thesis
    by (auto simp: create_action_def full_clean_action_def Let_def rbind_Inr_iff
        get_action_choice_def get_user_message_choice_def first_choice_eq)
qed

theorem create_action_accepts_witness:
  "(\<exists>a. create_action 5 (Some 1) (get_action_choice ''approved'') (get_user_message_choice ''requested'')
          (Option.bind (Some ''other'') get_error_reason_choice) None = Inr a \<and>
        act_error_reason a = None)"
proof -
  have "Some ''other'' \<notin> Some ` set learner_credit_request_action_error_reasons" by code_simp
  moreover have "''approved'' \<in> set learner_credit_request_action_choices \<and>
      ''requested'' \<in> set learner_credit_request_user_messages" by code_simp
  ultimately show ?thesis
    using create_action_accepts [of 5 1 "''approved''" "''requested''" "Some ''other''" None] by auto
qed

lemma latest_action_append:
  assumes "act_learner_credit_request a = Some (sr_uuid r)"
    and "\<And>b. b \<in> set actions \<Longrightarrow> act_learner_credit_request b = Some (sr_uuid r) \<Longrightarrow> act_created b < act_created a"
  shows "latest_action (actions @ [a]) r = Some a"
proof -
  have "sort_key (\<lambda>a. - act_created a) (xs @ [a]) = a # sort_key (\<lambda>a. - act_created a) xs"
    if "\<And>b. b \<in> set xs \<Longrightarrow> act_created b < act_created a" for xs
    using that
  proof (induction xs)
    case (Cons x xs)
    have lt: "act_created x < act_created a" using Cons.prems by simp
    have "sort_key (\<lambda>a. - act_created a) (xs @ [a]) = a # sort_key (\<lambda>a. - act_created a) xs"
      using Cons by simp
    with lt show ?case by simp
  qed simp
  from this [of "filter (\<lambda>a. act_learner_credit_request a = Some (sr_uuid r)) actions"]
  show ?thesis using assms by (simp add: latest_action_def)
qed

text \<open>
  The state shown for a request follows its newest action: with an error reason it is
  \<open>failed\<close>; without one, an approval or a reminder shows \<open>waiting\<close> whatever the stored state is (so a
  request that expires without a new action still shows \<open>waiting\<close>), and any other action shows
  the stored state. An earlier failure is forgotten.
\<close>

theorem learner_request_state_newest:
  assumes "act_learner_credit_request a = Some (sr_uuid r)"
    and "\<And>b. b \<in> set actions \<Longrightarrow> act_learner_credit_request b = Some (sr_uuid r) \<Longrightarrow> act_created b < act_created a"
  shows "learner_request_state (actions @ [a]) r =
    (case act_error_reason a of
       Some _ \<Rightarrow> Some ''failed''
     | None \<Rightarrow>
         if act_recent_action a \<in> {Some ''approved'', Some ''reminded''} then Some ''waiting''
         else case sr_state r of
                SR_APPROVED \<Rightarrow> Some ''waiting''
              | SR_PENDING \<Rightarrow> None | SR_ACCEPTED \<Rightarrow> None | SR_EXPIRED \<Rightarrow> None | SR_REVERSED \<Rightarrow> None
              | s \<Rightarrow> Some (state_value s))"
  using latest_action_append [OF assms]
  by (simp add: learner_request_state_def Let_def split: option.split subsidy_request_state.split)

theorem learner_request_state_newest_witness:
  "learner_request_state ([] @ [\<lparr>act_learner_credit_request = Some 1, act_recent_action = Some ''approved'',
      act_status = Some ''approved'', act_error_reason = None, act_traceback = None, act_created = 3\<rparr>])
    (demo_request\<lparr>sr_state := SR_EXPIRED\<rparr>) = Some ''waiting''"
  by (subst learner_request_state_newest) (simp_all add: demo_request_def)

section \<open>Exclusive request types\<close>

definition bnr_exclusive ::
    "policy_links \<Rightarrow> customer_configuration list \<Rightarrow> lcr_configuration list \<Rightarrow> bool" where
  "bnr_exclusive links customers configs \<longleftrightarrow>
     (\<forall>(customer, c) \<in> set links. config_active configs c \<longrightarrow>
        (\<forall>cc \<in> set customers. cc_enterprise_customer_uuid cc = customer \<longrightarrow> \<not> cc_subsidy_requests_enabled cc))"

inductive bnr_step ::
    "policy_links \<Rightarrow> customer_configuration list \<times> lcr_configuration list
       \<Rightarrow> customer_configuration list \<times> lcr_configuration list \<Rightarrow> bool" for links where
  customer: "save_customer_configuration links configs cc customers = Inr customers' \<Longrightarrow>
     bnr_step links (customers, configs) (customers', configs)"
| config: "save_lcr_configuration links customers k configs = Inr configs' \<Longrightarrow>
     bnr_step links (customers, configs) (customers, configs')"

lemma in_put_or_append:
  "x \<in> set (if key r \<in> key ` set rows then put_row key r rows else rows @ [r]) \<Longrightarrow> x = r \<or> x \<in> set rows"
  by (auto simp: set_put_row split: if_splits)

lemma save_customer_exclusive:
  assumes "save_customer_configuration links configs cc customers = Inr customers'"
    and "bnr_exclusive links customers configs"
  shows "bnr_exclusive links customers' configs"
proof -
  have old: "x = cc \<or> x \<in> set customers" if "x \<in> set customers'" for x
    using assms(1) that in_put_or_append [of x cc_enterprise_customer_uuid cc customers]
    by (auto simp: save_customer_configuration_def rbind_Inr_iff)
  have "\<not> cc_subsidy_requests_enabled cc \<or>
      (\<forall>l \<in> set links. fst l = cc_enterprise_customer_uuid cc \<longrightarrow> \<not> config_active configs (snd l))"
    using assms(1)
    by (auto simp: save_customer_configuration_def rbind_Inr_iff clean_customer_configuration_def
        filter_empty_conv split: if_splits)
  with assms(2) old show ?thesis by (fastforce simp: bnr_exclusive_def)
qed

lemma save_config_exclusive:
  assumes "save_lcr_configuration links customers k configs = Inr configs'"
    and "bnr_exclusive links customers configs"
    and one: "\<And>x y c. (x, Some c) \<in> set links \<Longrightarrow> (y, Some c) \<in> set links \<Longrightarrow> x = y"
  shows "bnr_exclusive links customers configs'"
proof -
  have "x = k \<or> x \<in> set configs" if "x \<in> set configs'" for x
    using assms(1) that in_put_or_append [of x lcc_uuid k configs]
    by (auto simp: save_lcr_configuration_def rbind_Inr_iff)
  then have old: "config_active configs c \<or> (c = Some (lcc_uuid k) \<and> lcc_active k)"
    if "config_active configs' c" for c
    using that by (auto simp: config_active_def)
  have "\<not> (cc_enterprise_customer_uuid cc = x \<and> cc_subsidy_requests_enabled cc)"
    if "lcc_active k" and l: "(x, Some (lcc_uuid k)) \<in> set links" and "cc \<in> set customers" for x cc
  proof -
    obtain y where f: "find (\<lambda>(_, c). c = Some (lcc_uuid k)) links = Some (y, Some (lcc_uuid k))"
      using l by (cases "find (\<lambda>(_, c). c = Some (lcc_uuid k)) links")
        (auto simp: find_None_iff dest!: find_SomeD)
    then have "x = y" using one [OF l] find_SomeD [OF f] by auto
    moreover have "find (\<lambda>cc. cc_enterprise_customer_uuid cc = y \<and> cc_subsidy_requests_enabled cc) customers = None"
      using assms(1) f \<open>lcc_active k\<close>
      by (auto simp: save_lcr_configuration_def rbind_Inr_iff clean_lcr_configuration_def
          split: option.splits)
    ultimately show ?thesis using that(3) find_NoneD by fast
  qed
  with assms(2) old show ?thesis by (fastforce simp: bnr_exclusive_def)
qed

text \<open>
  For a fixed table of policies, in which a learner credit configuration belongs to at most one
  customer, no sequence of saves of the two kinds of configuration lets a customer have requests
  enabled both for licenses or coupons and for learner credit.
\<close>

theorem request_types_exclusive:
  assumes "(bnr_step links)\<^sup>*\<^sup>* s s'" and "bnr_exclusive links (fst s) (snd s)"
    and "\<And>x y c. (x, Some c) \<in> set links \<Longrightarrow> (y, Some c) \<in> set links \<Longrightarrow> x = y"
  shows "bnr_exclusive links (fst s') (snd s')"
  using assms(1,2)
proof (induction rule: rtranclp_induct)
  case (step y z)
  from step.hyps(2) step.IH [OF step.prems] show ?case
    by cases (auto intro: save_customer_exclusive save_config_exclusive [OF _ _ assms(3)])
qed simp

theorem request_types_exclusive_witness:
  "bnr_exclusive [(5, Some 3)] [] [\<lparr>lcc_uuid = 3, lcc_active = True\<rparr>] \<and>
   save_customer_configuration [(5, Some 3)] [\<lparr>lcc_uuid = 3, lcc_active = True\<rparr>]
     \<lparr>cc_enterprise_customer_uuid = 5, cc_subsidy_requests_enabled = True, cc_subsidy_type = None\<rparr> []
     = Inl ValidationError"
proof
  have "bnr_step [(5, Some 3)] ([], []) ([], [\<lparr>lcc_uuid = 3, lcc_active = True\<rparr>])"
    by (rule bnr_step.config [where k = "\<lparr>lcc_uuid = 3, lcc_active = True\<rparr>"]) code_simp
  then have run: "(bnr_step [(5, Some 3)])\<^sup>*\<^sup>* ([], []) ([], [\<lparr>lcc_uuid = 3, lcc_active = True\<rparr>])" by (rule r_into_rtranclp)
  have start: "bnr_exclusive [(5, Some 3)] [] []" by (simp add: bnr_exclusive_def)
  have one: "x = y" if "(x, Some c) \<in> set [(5, Some 3)]" "(y, Some c) \<in> set [(5, Some 3)]" for x y :: uuid and c :: uuid
    using that by simp
  show "bnr_exclusive [(5, Some 3)] [] [\<lparr>lcc_uuid = 3, lcc_active = True\<rparr>]"
    using request_types_exclusive [OF run _ one, unfolded fst_conv snd_conv, OF start] .
qed code_simp

end
