(* ===== verification/Assignment_Api.thy ===== *)
theory Assignment_Api
  imports Content_Assignment Content_Metadata Subsidy_Request
begin

text \<open>
  The operations on assignments, \<open>content_assignments/api.py\<close>, \<open>signals.py\<close> and the expiration dates of
  \<open>enterprise_access/utils.py\<close>.

  Every operation takes the tables it reads and returns the tables it writes, with the tasks it
  enqueues; an exception leaves the tables as they were when the write happens in one transaction.
  The record \<open>alloc_env\<close> collects what an allocation obtains from outside: the users, the content
  summaries of the subsidy service, the clock, the batch and record ids and the validator of addresses.
  Python sets of records are lists in table order; nothing depends on that order.
\<close>

section \<open>Environment\<close>

text \<open>The answer of the subsidy service about a content key.\<close>

record subsidy_content =
  sc_content_key :: "string option"
  sc_content_title :: "string option"
  sc_course_run_key :: "string option"

record alloc_env =
  ae_users :: "core_user list"
  ae_content_summary :: "uuid \<Rightarrow> string \<Rightarrow> subsidy_content result"
  ae_catalog_metadata :: "uuid \<Rightarrow> string list \<Rightarrow> content_data list result"
  ae_now :: datetime
  ae_batch_id :: uuid
  ae_fresh_uuid :: "nat \<Rightarrow> uuid"
  ae_valid_email :: "string \<Rightarrow> bool"

section \<open>Queries\<close>

definition iexact :: "string \<Rightarrow> string \<Rightarrow> bool" where
  "iexact a b \<longleftrightarrow> lower a = lower b"

text \<open>A disjunction of no conditions is the empty filter, which every row passes.\<close>

definition inexact_email_filter :: "string list \<Rightarrow> string \<Rightarrow> bool" where
  "inexact_email_filter emails field \<longleftrightarrow> emails = [] \<or> (\<exists>e \<in> set emails. iexact field e)"

definition get_assignments_for_configuration ::
    "assignments \<Rightarrow> assignment_configuration \<Rightarrow> (learner_content_assignment \<Rightarrow> bool) \<Rightarrow> assignments" where
  "get_assignments_for_configuration table config additional_filters =
     filter (\<lambda>a. lca_assignment_configuration a = Some (ac_uuid config) \<and> additional_filters a) table"

definition get_assignments_for_admin ::
    "assignments \<Rightarrow> assignment_configuration \<Rightarrow> string list \<Rightarrow> string \<Rightarrow> assignments" where
  "get_assignments_for_admin table config learner_emails content_key =
     get_assignments_for_configuration table config
       (\<lambda>a. inexact_email_filter learner_emails (lca_learner_email a) \<and> lca_content_key a = content_key)"

definition get_content_summary ::
    "alloc_env \<Rightarrow> assignment_configuration \<Rightarrow> string \<Rightarrow> subsidy_content result" where
  "get_content_summary env config content_key =
     ae_content_summary env (ac_enterprise_customer_uuid config) content_key"

definition normalize_course_key_from_metadata ::
    "alloc_env \<Rightarrow> assignment_configuration \<Rightarrow> string \<Rightarrow> string option result" where
  "normalize_course_key_from_metadata env config content_key =
     rbind (get_content_summary env config content_key) (\<lambda>s. Inr (sc_content_key s))"

definition get_assignment_for_learner ::
    "alloc_env \<Rightarrow> assignments \<Rightarrow> assignment_configuration \<Rightarrow> int \<Rightarrow> string
       \<Rightarrow> learner_content_assignment option result" where
  "get_assignment_for_learner env table config lms_user_id content_key =
     (case get_one (get_assignments_for_configuration table config
              (\<lambda>a. (lca_content_key a = content_key \<or> lca_parent_content_key a = Some content_key) \<and>
                   lca_lms_user_id a = Some lms_user_id)) of
        Found a \<Rightarrow> Inr (Some a)
      | Multiple_Objects \<Rightarrow> Inl MultipleObjectsReturned
      | Does_Not_Exist \<Rightarrow>
          rbind (normalize_course_key_from_metadata env config content_key) (\<lambda>key.
            if \<not> truthy key then Inr None
            else case get_one (get_assignments_for_configuration table config
                        (\<lambda>a. lca_content_key a = the key \<and> lca_lms_user_id a = Some lms_user_id)) of
                   Found a \<Rightarrow> Inr (Some a)
                 | Multiple_Objects \<Rightarrow> Inl MultipleObjectsReturned
                 | Does_Not_Exist \<Rightarrow> Inr None))"

definition get_allocated_quantity_for_configuration :: "assignments \<Rightarrow> assignment_configuration \<Rightarrow> int" where
  "get_allocated_quantity_for_configuration table config =
     sum_list (map lca_content_quantity
       (get_assignments_for_configuration table config (\<lambda>a. lca_state a = ALLOCATED)))"

section \<open>Learners\<close>

fun deduplicate_loop :: "string list \<Rightarrow> string list \<Rightarrow> string list \<Rightarrow> string list" where
  "deduplicate_loop [] seen acc = acc"
| "deduplicate_loop (email # emails) seen acc =
     (if lower email \<notin> set seen then deduplicate_loop emails (lower email # seen) (acc @ [email])
      else deduplicate_loop emails seen acc)"

definition deduplicate_learner_emails_to_allocate :: "string list \<Rightarrow> string list" where
  "deduplicate_learner_emails_to_allocate learner_emails = deduplicate_loop learner_emails [] []"

text \<open>\<open>range(0, len, 0)\<close> raises, every caller passes a positive constant.\<close>

function chunks :: "'a list \<Rightarrow> nat \<Rightarrow> 'a list list" where
  "chunks a_list n = (if a_list = [] \<or> n = 0 then [] else take n a_list # chunks (drop n a_list) n)"
  by auto
termination by (relation "measure (\<lambda>(xs, n). length xs)") auto

declare chunks.simps [simp del]

definition user_email_read_batch_size :: nat where
  "user_email_read_batch_size = 100"

definition dict_of_pairs :: "('k \<times> 'v) list \<Rightarrow> ('k \<times> 'v) list" where
  "dict_of_pairs ps = fold (\<lambda>(k, v) d. dict_put d k v) ps []"

definition get_lms_user_ids_by_email :: "core_user list \<Rightarrow> string list \<Rightarrow> (string \<times> int) list" where
  "get_lms_user_ids_by_email users emails =
     fold (\<lambda>email_chunk d.
        dict_union d (dict_of_pairs
          (List.map_filter (\<lambda>u. if inexact_email_filter email_chunk (user_email u)
                                then map_option (\<lambda>i. (lower (user_email u), i)) (user_lms_user_id u)
                                else None) users)))
       (chunks emails user_email_read_batch_size) []"

definition map_allocation_emails_with_lms_user_ids ::
    "core_user list \<Rightarrow> string list \<Rightarrow> (string \<times> int) list \<times> (int \<times> string) list" where
  "map_allocation_emails_with_lms_user_ids users learner_emails_to_allocate =
     (let ids = get_lms_user_ids_by_email users learner_emails_to_allocate
      in (ids, fold (\<lambda>email d. case map_of ids (lower email) of
                                 None \<Rightarrow> d | Some i \<Rightarrow> dict_put d i email)
                 learner_emails_to_allocate []))"

section \<open>Allocation\<close>

definition get_existing_assignments_for_allocation ::
    "assignments \<Rightarrow> assignment_configuration \<Rightarrow> string list \<Rightarrow> string \<Rightarrow> (string \<times> int) list \<Rightarrow> assignments" where
  "get_existing_assignments_for_allocation table config emails content_key ids =
     (let for_emails = get_assignments_for_admin table config emails content_key;
          for_ids = get_assignments_for_configuration table config
            (\<lambda>a. (\<exists>i \<in> snd ` set ids. lca_lms_user_id a = Some i) \<and> lca_content_key a = content_key)
      in filter (\<lambda>a. a \<in> set for_emails \<or> a \<in> set for_ids) table)"

definition get_parent_content_key :: "string \<Rightarrow> subsidy_content \<Rightarrow> string option" where
  "get_parent_content_key content_key s =
     (if Some content_key = sc_content_key s then None else sc_content_key s)"

definition reallocate_assignment ::
    "alloc_env \<Rightarrow> assignments \<Rightarrow> int \<Rightarrow> string option \<Rightarrow> string option \<Rightarrow> bool \<Rightarrow> learner_content_assignment
       \<Rightarrow> learner_content_assignment result" where
  "reallocate_assignment env table content_quantity preferred_course_run_key parent_content_key
      is_assigned_course_run assignment =
     (let a = assignment\<lparr>lca_content_quantity := content_quantity, lca_state := ALLOCATED,
                lca_allocation_batch_id := Some (ae_batch_id env), lca_allocated_at := ae_now env,
                lca_accepted_at := None, lca_cancelled_at := None, lca_expired_at := None,
                lca_errored_at := None, lca_preferred_course_run_key := preferred_course_run_key,
                lca_parent_content_key := parent_content_key,
                lca_is_assigned_course_run := is_assigned_course_run\<rparr>
      in rbind (full_clean_assignment (ae_valid_email env) table a) (\<lambda>_. Inr a))"

text \<open>The fields of \<open>ASSIGNMENT_REALLOCATION_FIELDS\<close>, copied from the record in memory to the row.\<close>

definition assignment_reallocation_fields ::
    "learner_content_assignment \<Rightarrow> learner_content_assignment \<Rightarrow> learner_content_assignment" where
  "assignment_reallocation_fields r row =
     row\<lparr>lca_lms_user_id := lca_lms_user_id r, lca_learner_email := lca_learner_email r,
         lca_allocation_batch_id := lca_allocation_batch_id r,
         lca_content_quantity := lca_content_quantity r, lca_state := lca_state r,
         lca_preferred_course_run_key := lca_preferred_course_run_key r,
         lca_allocated_at := lca_allocated_at r, lca_cancelled_at := lca_cancelled_at r,
         lca_expired_at := lca_expired_at r, lca_errored_at := lca_errored_at r,
         lca_parent_content_key := lca_parent_content_key r,
         lca_is_assigned_course_run := lca_is_assigned_course_run r\<rparr>"

definition state_field ::
    "learner_content_assignment \<Rightarrow> learner_content_assignment \<Rightarrow> learner_content_assignment" where
  "state_field r row = row\<lparr>lca_state := lca_state r\<rparr>"

definition lms_user_id_field ::
    "learner_content_assignment \<Rightarrow> learner_content_assignment \<Rightarrow> learner_content_assignment" where
  "lms_user_id_field r row = row\<lparr>lca_lms_user_id := lca_lms_user_id r\<rparr>"

text \<open>Write the records, read the rows back: the new table and the rows that were written.\<close>

definition update_and_refresh_assignments ::
    "(learner_content_assignment \<Rightarrow> learner_content_assignment \<Rightarrow> learner_content_assignment)
       \<Rightarrow> datetime \<Rightarrow> assignments \<Rightarrow> assignments \<Rightarrow> (assignments \<times> assignments) result" where
  "update_and_refresh_assignments fields_changed now assignment_records table =
     rbind (bulk_update_assignments fields_changed now assignment_records table) (\<lambda>table'.
       Inr (table', filter (\<lambda>a. lca_uuid a \<in> lca_uuid ` set assignment_records) table'))"


text \<open>
  The body of the loop over the existing assignments: the record after it and whether it joined
  \<open>existing_assignments_needs_update\<close>.
\<close>

definition fill_lms_user_id ::
    "(string \<times> int) list \<Rightarrow> learner_content_assignment \<times> bool \<Rightarrow> learner_content_assignment \<times> bool" where
  "fill_lms_user_id ids ab =
     (case ab of (a, b) \<Rightarrow>
       if \<not> truthy_int (lca_lms_user_id a)
       then (let i = map_of ids (lower (lca_learner_email a))
             in if truthy_int i then (a\<lparr>lca_lms_user_id := i\<rparr>, True) else (a, b))
       else (a, b))"

definition restore_email ::
    "(int \<times> string) list \<Rightarrow> learner_content_assignment \<times> bool \<Rightarrow> learner_content_assignment \<times> bool" where
  "restore_email emails ab =
     (case ab of (a, b) \<Rightarrow>
       if lca_state a = EXPIRED
       then (case lca_lms_user_id a of
               None \<Rightarrow> (a, b)
             | Some i \<Rightarrow> (case map_of emails i of
                            None \<Rightarrow> (a, b)
                          | Some e \<Rightarrow> (a\<lparr>lca_learner_email := e\<rparr>, True)))
       else (a, b))"

definition refresh_allocated ::
    "string option \<Rightarrow> string option \<Rightarrow> bool \<Rightarrow> learner_content_assignment \<times> bool
       \<Rightarrow> learner_content_assignment \<times> bool" where
  "refresh_allocated preferred parent is_run ab =
     (case ab of (a, b) \<Rightarrow>
       (a\<lparr>lca_preferred_course_run_key := preferred, lca_parent_content_key := parent,
          lca_is_assigned_course_run := is_run\<rparr>,
        b \<or> lca_preferred_course_run_key a \<noteq> preferred \<or> lca_parent_content_key a \<noteq> parent \<or>
        lca_is_assigned_course_run a \<noteq> is_run))"

definition prepare_existing_assignment ::
    "alloc_env \<Rightarrow> assignments \<Rightarrow> int \<Rightarrow> subsidy_content \<Rightarrow> string
       \<Rightarrow> (string \<times> int) list \<Rightarrow> (int \<times> string) list \<Rightarrow> learner_content_assignment
       \<Rightarrow> (learner_content_assignment \<times> bool) result" where
  "prepare_existing_assignment env table quantity s content_key ids emails assignment =
     (let preferred = sc_course_run_key s;
          parent = get_parent_content_key content_key s;
          is_run = truthy parent;
          (a, b) = restore_email emails (fill_lms_user_id ids (assignment, False))
      in if lca_state a \<in> set reallocate_states
         then rbind (reallocate_assignment env table quantity preferred parent is_run a) (\<lambda>a'. Inr (a', True))
         else if lca_state a = ALLOCATED then Inr (refresh_allocated preferred parent is_run (a, b))
         else Inr (a, b))"

definition new_assignment ::
    "alloc_env \<Rightarrow> assignment_configuration \<Rightarrow> int \<Rightarrow> subsidy_content \<Rightarrow> string \<Rightarrow> (string \<times> int) list
       \<Rightarrow> int option \<Rightarrow> nat \<times> string \<Rightarrow> learner_content_assignment" where
  "new_assignment env config quantity s content_key ids admin ie =
     (case ie of (i, email) \<Rightarrow>
       \<lparr>lca_uuid = ae_fresh_uuid env i, lca_assignment_configuration = Some (ac_uuid config),
        lca_learner_email = email, lca_lms_user_id = map_of ids (lower email),
        lca_content_key = content_key, lca_parent_content_key = get_parent_content_key content_key s,
        lca_is_assigned_course_run = truthy (get_parent_content_key content_key s),
        lca_content_title = sc_content_title s, lca_content_quantity = quantity,
        lca_preferred_course_run_key = sc_course_run_key s, lca_state = ALLOCATED,
        lca_allocated_at = ae_now env, lca_accepted_at = None, lca_cancelled_at = None,
        lca_expired_at = None, lca_errored_at = None, lca_reversed_at = None,
        lca_transaction_uuid = None, lca_allocation_batch_id = Some (ae_batch_id env),
        lca_admin_lms_user_id = admin, lca_modified = ae_now env\<rparr>)"

text \<open>Create the records and read them back: the new table and the created rows.\<close>

definition create_new_assignments ::
    "alloc_env \<Rightarrow> assignments \<Rightarrow> assignment_configuration \<Rightarrow> string list \<Rightarrow> string \<Rightarrow> int
       \<Rightarrow> (string \<times> int) list \<Rightarrow> int option \<Rightarrow> (assignments \<times> assignments) result" where
  "create_new_assignments env table config learner_emails content_key quantity ids admin =
     rbind (get_content_summary env config content_key) (\<lambda>s.
       let to_create = map (new_assignment env config quantity s content_key ids admin)
             (enumerate 0 learner_emails)
       in rbind (rmap clean_assignment to_create) (\<lambda>_.
          rbind (bulk_create_assignments to_create table) (\<lambda>table'.
            Inr (table', filter (\<lambda>a. lca_uuid a \<in> lca_uuid ` set to_create) table'))))"

definition do_async_tasks_after_assignment_writes :: "assignments \<Rightarrow> assignments \<Rightarrow> task list" where
  "do_async_tasks_after_assignment_writes updated created =
     concat (map (\<lambda>a. [Create_Pending_Enterprise_Learner (lca_uuid a),
                       Send_Email_For_New_Assignment (lca_uuid a)]) (updated @ created))"

record allocation =
  al_table :: assignments
  al_updated :: assignments
  al_created :: assignments
  al_no_change :: assignments
  al_tasks :: "task list"

definition allocation_learners ::
    "core_user list \<Rightarrow> string list \<Rightarrow> int list \<Rightarrow> (string \<times> int) list \<times> (int \<times> string) list" where
  "allocation_learners users emails known =
     (if known \<noteq> []
      then (dict_of_pairs (zip (map lower emails) known), dict_of_pairs (zip known emails))
      else map_allocation_emails_with_lms_user_ids users emails)"

definition allocate_assignments ::
    "alloc_env \<Rightarrow> assignments \<Rightarrow> assignment_configuration \<Rightarrow> string list \<Rightarrow> string \<Rightarrow> int
       \<Rightarrow> int option \<Rightarrow> int list \<Rightarrow> allocation result" where
  "allocate_assignments env table config learner_emails content_key content_price_cents admin known =
     (if content_price_cents < 0 then Inl AllocationException
      else
        let emails = deduplicate_learner_emails_to_allocate learner_emails;
            quantity = content_price_cents * -1;
            (ids, emails_by_id) = allocation_learners (ae_users env) emails known;
            existing = get_existing_assignments_for_allocation table config emails content_key ids
        in rbind (get_content_summary env config content_key) (\<lambda>s.
           rbind (rmap (prepare_existing_assignment env table quantity s content_key ids emails_by_id) existing) (\<lambda>prepared.
             let needs_update = map fst (filter snd prepared);
                 emails_with_existing = map (\<lambda>(a, _). lower (lca_learner_email a)) prepared
             in rbind (update_and_refresh_assignments assignment_reallocation_fields (ae_now env) needs_update table)
                  (\<lambda>(table1, updated).
                let to_create = filter (\<lambda>e. lower e \<notin> set emails_with_existing) emails
                in rbind (create_new_assignments env table1 config to_create content_key quantity ids admin)
                     (\<lambda>(table2, created).
                   Inr \<lparr>al_table = table2, al_updated = updated, al_created = created,
                        al_no_change = filter (\<lambda>a. lca_uuid a \<notin> lca_uuid ` set updated) (map fst prepared),
                        al_tasks = do_async_tasks_after_assignment_writes updated created\<rparr>)))))"


section \<open>Lemmas on tables\<close>

lemma in_reallocate_states: "s \<in> set reallocate_states \<longleftrightarrow> s \<notin> {ALLOCATED, ACCEPTED}"
  by (cases s) (simp_all add: reallocate_states_def)

lemma unique_slots_append:
  "unique_slots (xs @ ys) \<longleftrightarrow>
     unique_slots xs \<and> unique_slots ys \<and> (\<forall>a \<in> set xs. \<forall>b \<in> set ys. \<not> same_learner_slot a b)"
  by (induction xs) auto

lemma same_learner_slot_sym: "same_learner_slot a b \<longleftrightarrow> same_learner_slot b a"
  unfolding same_learner_slot_def by metis

lemma unique_slots_distinct_pair:
  assumes "unique_slots xs" and "distinct (map lca_uuid xs)"
    and "a \<in> set xs" and "b \<in> set xs" and "lca_uuid a \<noteq> lca_uuid b"
  shows "\<not> same_learner_slot a b"
  using assms by (induction xs) (auto simp: same_learner_slot_sym)

lemma checked_table_Inr [result_simps]: "checked_table t = Inr t' \<longleftrightarrow> unique_slots t \<and> t' = t"
  by (auto simp: checked_table_def)

text \<open>A bulk update of records derived from rows, as one pass over the table.\<close>

lemma bulk_update_pass:
  assumes "distinct (map lca_uuid table)" and "set xs \<subseteq> set table"
    and key: "\<And>x. x \<in> set xs \<Longrightarrow> lca_uuid (g x) = lca_uuid x"
  shows "bulk_update_assignments copy now (map g xs) table =
    checked_table (map (\<lambda>row. if row \<in> set xs then (copy (g row) row)\<lparr>lca_modified := now\<rparr> else row) table)"
proof -
  have "(case find (\<lambda>r. lca_uuid r = lca_uuid row) (map g xs) of
           None \<Rightarrow> row | Some r \<Rightarrow> (copy r row)\<lparr>lca_modified := now\<rparr>) =
        (if row \<in> set xs then (copy (g row) row)\<lparr>lca_modified := now\<rparr> else row)" if "row \<in> set table" for row
  proof (cases "find (\<lambda>r. lca_uuid r = lca_uuid row) (map g xs)")
    case None
    then have "row \<notin> set xs" using key by (auto simp: find_None_iff)
    with None show ?thesis by simp
  next
    case (Some r)
    then obtain x where "x \<in> set xs" "r = g x" "lca_uuid (g x) = lca_uuid row"
      by (auto dest!: find_SomeD)
    moreover from this have "x = row"
      using key that assms(2) distinct_key_inj [OF assms(1)] by (metis subsetD)
    ultimately show ?thesis using Some by simp
  qed
  then show ?thesis by (simp add: bulk_update_assignments_def cong: map_cong)
qed

lemma deduplicate_loop_props:
  "\<lbrakk>set (map lower acc) \<subseteq> set seen; distinct (map lower acc)\<rbrakk> \<Longrightarrow>
   distinct (map lower (deduplicate_loop emails seen acc)) \<and>
   set (map lower acc) \<subseteq> set (map lower (deduplicate_loop emails seen acc)) \<and>
   set (map lower (deduplicate_loop emails seen acc)) \<subseteq> set (map lower acc) \<union> set (map lower emails) \<and>
   (\<forall>e \<in> set emails. lower e \<in> set seen \<or> lower e \<in> set (map lower (deduplicate_loop emails seen acc))) \<and>
   set (deduplicate_loop emails seen acc) \<subseteq> set acc \<union> set emails"
proof (induction emails arbitrary: seen acc)
  case (Cons e emails)
  show ?case
  proof (cases "lower e \<in> set seen")
    case True
    then show ?thesis using Cons.IH [OF Cons.prems] by auto
  next
    case False
    have "set (map lower (acc @ [e])) \<subseteq> set (lower e # seen)" "distinct (map lower (acc @ [e]))"
      using Cons.prems False by auto
    from Cons.IH [OF this] False show ?thesis by auto
  qed
qed auto

lemma deduplicate_props:
  "distinct (map lower (deduplicate_learner_emails_to_allocate emails))"
  "set (map lower (deduplicate_learner_emails_to_allocate emails)) = set (map lower emails)"
  "set (deduplicate_learner_emails_to_allocate emails) \<subseteq> set emails"
  using deduplicate_loop_props [of "[]" "[]" emails]
  by (auto simp: deduplicate_learner_emails_to_allocate_def)


section \<open>What an allocation does to the table\<close>

lemma fill_lms_user_id_facts:
  assumes "fill_lms_user_id ids (a, b) = (a', b')"
  shows "lca_uuid a' = lca_uuid a \<and> lca_assignment_configuration a' = lca_assignment_configuration a \<and>
    lca_content_key a' = lca_content_key a \<and> lca_state a' = lca_state a \<and>
    lca_content_quantity a' = lca_content_quantity a \<and> lca_learner_email a' = lca_learner_email a \<and>
    (b \<longrightarrow> b') \<and> (\<not> b' \<longrightarrow> a' = a)"
  using assms by (auto simp: fill_lms_user_id_def Let_def split: if_splits)

lemma restore_email_facts:
  assumes "restore_email emails (a, b) = (a', b')"
  shows "lca_uuid a' = lca_uuid a \<and> lca_assignment_configuration a' = lca_assignment_configuration a \<and>
    lca_content_key a' = lca_content_key a \<and> lca_state a' = lca_state a \<and>
    lca_content_quantity a' = lca_content_quantity a \<and> lca_lms_user_id a' = lca_lms_user_id a \<and>
    (b \<longrightarrow> b') \<and> (\<not> b' \<longrightarrow> a' = a) \<and>
    (lca_state a = EXPIRED \<or> lca_learner_email a' = lca_learner_email a) \<and>
    (lca_learner_email a' = lca_learner_email a \<or> lca_learner_email a' \<in> snd ` set emails)"
  using assms by (auto simp: restore_email_def split: if_splits option.splits dest!: map_of_SomeD intro: rev_image_eqI)

lemma reallocate_facts:
  assumes "reallocate_assignment env table q pr pa ir a = Inr a'"
  shows "lca_uuid a' = lca_uuid a \<and> lca_assignment_configuration a' = lca_assignment_configuration a \<and>
    lca_content_key a' = lca_content_key a \<and> lca_state a' = ALLOCATED \<and> lca_content_quantity a' = q \<and>
    lca_learner_email a' = lca_learner_email a \<and> lca_lms_user_id a' = lca_lms_user_id a \<and>
    conflicts table a' = [] \<and> \<not> q > 0"
  using assms by (auto simp: reallocate_assignment_def Let_def rbind_Inr_iff full_clean_assignment_def
      clean_assignment_def split: if_splits)

lemma prepare_facts:
  assumes "prepare_existing_assignment env table q s k ids emails a = Inr (a', b)"
  shows "lca_uuid a' = lca_uuid a" "lca_assignment_configuration a' = lca_assignment_configuration a"
    and "lca_content_key a' = lca_content_key a"
    and "lca_state a' = (if lca_state a \<in> set reallocate_states then ALLOCATED else lca_state a)"
    and "lca_content_quantity a' = (if lca_state a \<in> set reallocate_states then q else lca_content_quantity a)"
    and "lca_state a \<in> set reallocate_states \<Longrightarrow> b" and "\<not> b \<Longrightarrow> a' = a"
    and "lca_state a = EXPIRED \<or> lca_learner_email a' = lca_learner_email a"
    and "lca_learner_email a' = lca_learner_email a \<or> lca_learner_email a' \<in> snd ` set emails"
proof -
  obtain a1 b1 where f: "fill_lms_user_id ids (a, False) = (a1, b1)" by fastforce
  obtain a2 b2 where r: "restore_email emails (a1, b1) = (a2, b2)" by fastforce
  note ff = fill_lms_user_id_facts [OF f] and rf = restore_email_facts [OF r]
  have "lca_uuid a' = lca_uuid a \<and> lca_assignment_configuration a' = lca_assignment_configuration a \<and>
    lca_content_key a' = lca_content_key a \<and>
    lca_state a' = (if lca_state a \<in> set reallocate_states then ALLOCATED else lca_state a) \<and>
    lca_content_quantity a' = (if lca_state a \<in> set reallocate_states then q else lca_content_quantity a) \<and>
    (lca_state a \<in> set reallocate_states \<longrightarrow> b) \<and> (\<not> b \<longrightarrow> a' = a) \<and>
    (lca_state a = EXPIRED \<or> lca_learner_email a' = lca_learner_email a) \<and>
    (lca_learner_email a' = lca_learner_email a \<or> lca_learner_email a' \<in> snd ` set emails)"
  proof (cases "lca_state a \<in> set reallocate_states")
    case True
    with ff rf assms have "b" and re: "reallocate_assignment env table q (sc_course_run_key s)
        (get_parent_content_key k s) (truthy (get_parent_content_key k s)) a2 = Inr a'"
      by (auto simp: prepare_existing_assignment_def Let_def f r rbind_Inr_iff)
    with reallocate_facts [OF re] True ff rf show ?thesis by auto
  next
    case False
    with ff rf assms have "(a', b) = (if lca_state a2 = ALLOCATED
        then refresh_allocated (sc_course_run_key s) (get_parent_content_key k s)
               (truthy (get_parent_content_key k s)) (a2, b2) else (a2, b2))"
      by (auto simp: prepare_existing_assignment_def Let_def f r split: if_splits)
    with False ff rf show ?thesis by (auto simp: refresh_allocated_def split: if_splits)
  qed
  then show "lca_uuid a' = lca_uuid a" "lca_assignment_configuration a' = lca_assignment_configuration a"
    "lca_content_key a' = lca_content_key a"
    "lca_state a' = (if lca_state a \<in> set reallocate_states then ALLOCATED else lca_state a)"
    "lca_content_quantity a' = (if lca_state a \<in> set reallocate_states then q else lca_content_quantity a)"
    "lca_state a \<in> set reallocate_states \<Longrightarrow> b" "\<not> b \<Longrightarrow> a' = a"
    "lca_state a = EXPIRED \<or> lca_learner_email a' = lca_learner_email a"
    "lca_learner_email a' = lca_learner_email a \<or> lca_learner_email a' \<in> snd ` set emails"
    by blast+
qed


text \<open>
  The stored row an allocation leaves behind: \<open>P\<close> is the outcome of the loop body for every row of
  \<open>existing\<close>.
\<close>

definition after_allocation ::
    "datetime \<Rightarrow> (learner_content_assignment \<Rightarrow> learner_content_assignment \<times> bool) \<Rightarrow> assignments
       \<Rightarrow> learner_content_assignment \<Rightarrow> learner_content_assignment" where
  "after_allocation now P existing row =
     (if row \<in> set existing \<and> snd (P row)
      then (assignment_reallocation_fields (fst (P row)) row)\<lparr>lca_modified := now\<rparr> else row)"

lemma existing_sub:
  "set (get_existing_assignments_for_allocation table config emails k ids) \<subseteq> set table"
  by (auto simp: get_existing_assignments_for_allocation_def Let_def)

lemma existing_config:
  "a \<in> set (get_existing_assignments_for_allocation table config emails k ids) \<Longrightarrow>
   lca_assignment_configuration a = Some (ac_uuid config) \<and> lca_content_key a = k"
  by (auto simp: get_existing_assignments_for_allocation_def Let_def get_assignments_for_admin_def
      get_assignments_for_configuration_def)

lemma existing_filter:
  "\<exists>Q. get_existing_assignments_for_allocation table config emails k ids = filter Q table"
  by (auto simp: get_existing_assignments_for_allocation_def Let_def)

lemma update_and_refresh_Inr:
  assumes "update_and_refresh_assignments copy now (map g xs) table = Inr (table', updated)"
    and "distinct (map lca_uuid table)" and "set xs \<subseteq> set table"
    and "\<And>x. x \<in> set xs \<Longrightarrow> lca_uuid (g x) = lca_uuid x"
  shows "table' = map (\<lambda>row. if row \<in> set xs then (copy (g row) row)\<lparr>lca_modified := now\<rparr> else row) table \<and>
    unique_slots table' \<and> updated = filter (\<lambda>a. lca_uuid a \<in> lca_uuid ` set xs) table'"
proof -
  have k: "lca_uuid ` set (map g xs) = lca_uuid ` set xs"
    unfolding set_map image_image using assms(4) by (rule image_cong [OF refl])
  show ?thesis
    using assms(1) unfolding update_and_refresh_assignments_def bulk_update_pass [OF assms(2-4), simplified] k
    by (auto simp: rbind_Inr_iff checked_table_Inr bulk_update_pass [OF assms(2-4)])
qed

lemma create_new_assignments_Inr:
  assumes "create_new_assignments env table config es k q ids admin = Inr (table', cr)"
    and s: "get_content_summary env config k = Inr s"
    and c: "created = map (new_assignment env config q s k ids admin) (enumerate 0 es)"
  shows "table' = table @ created \<and> unique_slots table' \<and>
    cr = filter (\<lambda>a. lca_uuid a \<in> lca_uuid ` set created) table'"
  using assms(1) unfolding create_new_assignments_def s rbind.simps Let_def c [symmetric]
  by (auto simp: rbind_Inr_iff bulk_create_assignments_def checked_table_Inr)

text \<open>The successful runs of \<open>allocate_assignments\<close>, in closed form.\<close>

lemma allocate_shape:
  assumes run: "allocate_assignments env table config les k p admin known = Inr al"
    and d: "distinct (map lca_uuid table)"
    and emails: "emails = deduplicate_learner_emails_to_allocate les"
    and learners: "allocation_learners (ae_users env) emails known = (ids, ebi)"
    and ex: "existing = get_existing_assignments_for_allocation table config emails k ids"
  shows "\<exists>s P created. 0 \<le> p \<and> get_content_summary env config k = Inr s \<and>
    (\<forall>a \<in> set existing. prepare_existing_assignment env table (- p) s k ids ebi a = Inr (P a)) \<and>
    created = map (new_assignment env config (- p) s k ids admin)
      (enumerate 0 (filter (\<lambda>e. lower e \<notin> (\<lambda>a. lower (lca_learner_email (fst (P a)))) ` set existing) emails)) \<and>
    al_table al = map (after_allocation (ae_now env) P existing) table @ created \<and>
    unique_slots (al_table al) \<and>
    al_created al = filter (\<lambda>a. lca_uuid a \<in> lca_uuid ` set created) (al_table al)"
proof -
  obtain s prepared table1 updated table2 where p: "0 \<le> p" and s: "get_content_summary env config k = Inr s"
    and pr: "rmap (prepare_existing_assignment env table (- p) s k ids ebi) existing = Inr prepared"
    and up: "update_and_refresh_assignments assignment_reallocation_fields (ae_now env)
               (map fst (filter snd prepared)) table = Inr (table1, updated)"
    and cr: "create_new_assignments env table1 config
               (filter (\<lambda>e. lower e \<notin> set (map (\<lambda>(a, _). lower (lca_learner_email a)) prepared)) emails)
               k (- p) ids admin = Inr (table2, al_created al)"
    and al: "al_table al = table2"
    using run unfolding allocate_assignments_def emails [symmetric] Let_def learners ex [symmetric]
    by (auto simp: rbind_Inr_iff ex [symmetric] split: if_splits)
  define P where "P a = projr (prepare_existing_assignment env table (- p) s k ids ebi a)" for a
  have prep: "prepared = map P existing"
    and P: "a \<in> set existing \<Longrightarrow> prepare_existing_assignment env table (- p) s k ids ebi a = Inr (P a)" for a
    using rmap_projr [OF pr] by (simp_all add: P_def [abs_def])
  define xs where "xs = filter (snd \<circ> P) existing"
  have up': "update_and_refresh_assignments assignment_reallocation_fields (ae_now env)
               (map (fst \<circ> P) xs) table = Inr (table1, updated)"
    using up by (simp add: prep xs_def filter_map o_def)
  have key: "lca_uuid ((fst \<circ> P) x) = lca_uuid x" if "x \<in> set xs" for x
  proof -
    have "prepare_existing_assignment env table (- p) s k ids ebi x = Inr (fst (P x), snd (P x))"
      unfolding prod.collapse by (rule P) (use that in \<open>simp add: xs_def\<close>)
    from prepare_facts(1) [OF this] show ?thesis by simp
  qed
  have sub: "set xs \<subseteq> set table" using existing_sub [of table config emails k ids] by (auto simp: xs_def ex)
  have t1: "table1 = map (after_allocation (ae_now env) P existing) table"
    using update_and_refresh_Inr [OF up' d sub key] by (simp add: after_allocation_def [abs_def] xs_def)
  have em: "set (map (\<lambda>(a, _). lower (lca_learner_email a)) prepared) =
      (\<lambda>a. lower (lca_learner_email (fst (P a)))) ` set existing"
    by (auto simp: prep split_beta image_iff)
  define created where "created = map (new_assignment env config (- p) s k ids admin)
      (enumerate 0 (filter (\<lambda>e. lower e \<notin> (\<lambda>a. lower (lca_learner_email (fst (P a)))) ` set existing) emails))"
  have "table2 = table1 @ created \<and> unique_slots table2 \<and>
      al_created al = filter (\<lambda>a. lca_uuid a \<in> lca_uuid ` set created) table2"
    by (rule create_new_assignments_Inr [OF cr s]) (simp only: created_def em)
  then show ?thesis using p s P t1 al created_def by metis
qed


lemma after_allocation_facts:
  assumes P: "\<And>a. a \<in> set existing \<Longrightarrow> prepare_existing_assignment env table q s k ids ebi a = Inr (P a)"
    and r': "r' = after_allocation now P existing row"
  shows "lca_uuid r' = lca_uuid row"
    and "lca_assignment_configuration r' = lca_assignment_configuration row"
    and "lca_content_key r' = lca_content_key row"
    and "lca_state r' = (if row \<in> set existing \<and> lca_state row \<in> set reallocate_states then ALLOCATED else lca_state row)"
    and "lca_content_quantity r' =
           (if row \<in> set existing \<and> lca_state row \<in> set reallocate_states then q else lca_content_quantity row)"
    and "lca_learner_email r' = (if row \<in> set existing then lca_learner_email (fst (P row)) else lca_learner_email row)"
    and "lca_accepted_at r' = lca_accepted_at row"
    and "lca_reversed_at r' = lca_reversed_at row"
    and "row \<notin> set existing \<Longrightarrow> r' = row"
proof -
  have f: "prepare_existing_assignment env table q s k ids ebi row = Inr (fst (P row), snd (P row))"
    if "row \<in> set existing"
    unfolding prod.collapse by (rule P [OF that])
  show "lca_uuid r' = lca_uuid row"
    "lca_assignment_configuration r' = lca_assignment_configuration row"
    "lca_content_key r' = lca_content_key row"
    "lca_accepted_at r' = lca_accepted_at row" "lca_reversed_at r' = lca_reversed_at row"
    by (simp_all add: r' after_allocation_def assignment_reallocation_fields_def)
  show "row \<notin> set existing \<Longrightarrow> r' = row" by (simp add: r' after_allocation_def)
  show "lca_state r' = (if row \<in> set existing \<and> lca_state row \<in> set reallocate_states then ALLOCATED else lca_state row)"
    "lca_content_quantity r' =
       (if row \<in> set existing \<and> lca_state row \<in> set reallocate_states then q else lca_content_quantity row)"
    "lca_learner_email r' = (if row \<in> set existing then lca_learner_email (fst (P row)) else lca_learner_email row)"
  proof (atomize (full), cases "row \<in> set existing")
    case False
    then show "lca_state r' = (if row \<in> set existing \<and> lca_state row \<in> set reallocate_states then ALLOCATED else lca_state row) \<and>
      lca_content_quantity r' =
       (if row \<in> set existing \<and> lca_state row \<in> set reallocate_states then q else lca_content_quantity row) \<and>
      lca_learner_email r' = (if row \<in> set existing then lca_learner_email (fst (P row)) else lca_learner_email row)"
      by (simp add: r' after_allocation_def)
  next
    case True
    note pf = prepare_facts(4-7) [OF f [OF True]]
    show "lca_state r' = (if row \<in> set existing \<and> lca_state row \<in> set reallocate_states then ALLOCATED else lca_state row) \<and>
      lca_content_quantity r' =
       (if row \<in> set existing \<and> lca_state row \<in> set reallocate_states then q else lca_content_quantity row) \<and>
      lca_learner_email r' = (if row \<in> set existing then lca_learner_email (fst (P row)) else lca_learner_email row)"
    proof (cases "snd (P row)")
      case b: True
      then have "r' = (assignment_reallocation_fields (fst (P row)) row)\<lparr>lca_modified := now\<rparr>"
        using True by (simp add: r' after_allocation_def)
      then show ?thesis using pf(1,2) True by (simp add: assignment_reallocation_fields_def)
    next
      case b: False
      then have "r' = row" by (simp add: r' after_allocation_def)
      then show ?thesis using pf(3,4) b True by auto
    qed
  qed
qed

lemma in_enumerate: "x \<in> set xs \<Longrightarrow> \<exists>i. (i, x) \<in> set (enumerate n xs)"
  by (induction xs arbitrary: n) auto

text \<open>
  C13. A successful allocation reaches everybody: afterwards every requested learner has, in the
  configuration and for the content, an assignment under the requested address that is allocated or
  accepted, whichever of the three paths (new, re-allocated, unchanged) was taken.
\<close>

theorem allocate_reaches_every_learner:
  assumes run: "allocate_assignments env table config les k p admin known = Inr al"
    and d: "distinct (map lca_uuid table)" and e: "e \<in> set les"
  shows "\<exists>a \<in> set (al_table al). lca_assignment_configuration a = Some (ac_uuid config) \<and>
    lca_content_key a = k \<and> lower (lca_learner_email a) = lower e \<and> lca_state a \<in> {ALLOCATED, ACCEPTED}"
proof -
  define emails where "emails = deduplicate_learner_emails_to_allocate les"
  obtain ids ebi where le: "allocation_learners (ae_users env) emails known = (ids, ebi)" by fastforce
  define existing where "existing = get_existing_assignments_for_allocation table config emails k ids"
  obtain s P created where
    P: "\<And>a. a \<in> set existing \<Longrightarrow> prepare_existing_assignment env table (- p) s k ids ebi a = Inr (P a)"
    and c: "created = map (new_assignment env config (- p) s k ids admin)
      (enumerate 0 (filter (\<lambda>e. lower e \<notin> (\<lambda>a. lower (lca_learner_email (fst (P a)))) ` set existing) emails))"
    and t: "al_table al = map (after_allocation (ae_now env) P existing) table @ created"
    using allocate_shape [OF run d emails_def le existing_def] by blast
  obtain e' where e': "e' \<in> set emails" "lower e' = lower e"
    using deduplicate_props(2) [of les] e by (metis emails_def imageE image_eqI set_map)
  show ?thesis
  proof (cases "lower e' \<in> (\<lambda>a. lower (lca_learner_email (fst (P a)))) ` set existing")
    case True
    then obtain a where a: "a \<in> set existing" "lower e' = lower (lca_learner_email (fst (P a)))" by auto
    have "a \<in> set table" using existing_sub a(1) unfolding existing_def by blast
    define r where "r = after_allocation (ae_now env) P existing a"
    note rf = after_allocation_facts(2-6) [OF P r_def]
    have "lca_assignment_configuration r = Some (ac_uuid config) \<and> lca_content_key r = k"
      using rf(1,2) existing_config a(1) unfolding existing_def by metis
    moreover have "lower (lca_learner_email r) = lower e" using rf(5) a e'(2) by simp
    moreover have "lca_state r \<in> {ALLOCATED, ACCEPTED}"
      using rf(3) a(1) in_reallocate_states [of "lca_state a"] by auto
    moreover have "r \<in> set (al_table al)" using \<open>a \<in> set table\<close> by (simp add: t r_def)
    ultimately show ?thesis by blast
  next
    case False
    then obtain i where "(i, e') \<in> set (enumerate 0
        (filter (\<lambda>e. lower e \<notin> (\<lambda>a. lower (lca_learner_email (fst (P a)))) ` set existing) emails))"
      using e'(1) in_enumerate [of e' "filter (\<lambda>e. lower e \<notin> (\<lambda>a. lower (lca_learner_email (fst (P a)))) ` set existing) emails"]
      by auto
    then have "new_assignment env config (- p) s k ids admin (i, e') \<in> set created"
      unfolding c set_map by (rule imageI)
    then have "new_assignment env config (- p) s k ids admin (i, e') \<in> set (al_table al)"
      unfolding t by simp
    then show ?thesis using e'(2) by (intro bexI) (simp_all add: new_assignment_def)
  qed
qed


definition allocated_share :: "assignment_configuration \<Rightarrow> learner_content_assignment \<Rightarrow> int" where
  "allocated_share config a =
     (if lca_assignment_configuration a = Some (ac_uuid config) \<and> lca_state a = ALLOCATED
      then lca_content_quantity a else 0)"

lemma allocated_quantity_sum:
  "get_allocated_quantity_for_configuration table config = sum_list (map (allocated_share config) table)"
  unfolding get_allocated_quantity_for_configuration_def get_assignments_for_configuration_def
    allocated_share_def [abs_def] by (simp add: sum_list_map_filter')

lemma allocated_quantity_append:
  "get_allocated_quantity_for_configuration (xs @ ys) config =
   get_allocated_quantity_for_configuration xs config + get_allocated_quantity_for_configuration ys config"
  by (simp add: allocated_quantity_sum)

lemma sum_list_if: "sum_list (map (\<lambda>x. if Q x then c else 0) xs) = c * int (length (filter Q xs))"
  by (induction xs) (simp_all add: algebra_simps)

lemma allocated_quantity_map:
  assumes "\<And>a. a \<in> set table \<Longrightarrow>
    allocated_share config (f a) = allocated_share config a + (if Q a then c else 0)"
  shows "get_allocated_quantity_for_configuration (map f table) config =
    get_allocated_quantity_for_configuration table config + c * int (length (filter Q table))"
proof -
  have "sum_list (map (allocated_share config) (map f table)) =
        sum_list (map (\<lambda>a. allocated_share config a + (if Q a then c else 0)) table)"
    using assms by (simp add: o_def cong: map_cong)
  also have "\<dots> = sum_list (map (allocated_share config) table) + c * int (length (filter Q table))"
    by (simp add: sum_list_addf sum_list_if)
  finally show ?thesis by (simp add: allocated_quantity_sum)
qed

lemma allocated_quantity_new:
  "(\<And>a. a \<in> set xs \<Longrightarrow> lca_assignment_configuration a = Some (ac_uuid config) \<and> lca_state a = ALLOCATED \<and>
       lca_content_quantity a = q) \<Longrightarrow>
   get_allocated_quantity_for_configuration xs config = q * int (length xs)"
  by (induction xs) (auto simp: allocated_quantity_sum allocated_share_def algebra_simps)

lemma uuids_after: "(\<And>a. a \<in> set table \<Longrightarrow> lca_uuid (f a) = lca_uuid a) \<Longrightarrow> map lca_uuid (map f table) = map lca_uuid table"
  by simp

text \<open>With fresh keys, the created rows are exactly the appended ones, and every old row has one image.\<close>

definition fresh_uuids :: "alloc_env \<Rightarrow> assignments \<Rightarrow> bool" where
  "fresh_uuids env table \<longleftrightarrow> inj (ae_fresh_uuid env) \<and> (\<forall>i. \<forall>a \<in> set table. ae_fresh_uuid env i \<noteq> lca_uuid a)"

lemma new_assignment_simps [simp]:
  "lca_uuid (new_assignment env config q s k ids admin ie) = ae_fresh_uuid env (fst ie)"
  "lca_assignment_configuration (new_assignment env config q s k ids admin ie) = Some (ac_uuid config)"
  "lca_state (new_assignment env config q s k ids admin ie) = ALLOCATED"
  "lca_content_quantity (new_assignment env config q s k ids admin ie) = q"
  "lca_content_key (new_assignment env config q s k ids admin ie) = k"
  "lca_learner_email (new_assignment env config q s k ids admin ie) = snd ie"
  "lca_lms_user_id (new_assignment env config q s k ids admin ie) = map_of ids (lower (snd ie))"
  by (simp_all add: new_assignment_def split: prod.split)

lemma map_fst_enumerate_cong: "map (\<lambda>ie. g (fst ie)) (enumerate n xs) = map g [n..<n + length xs]"
  by (induction xs arbitrary: n) (simp_all add: upt_conv_Cons del: upt_Suc)

lemma created_uuids:
  assumes "inj (ae_fresh_uuid env)"
  shows "distinct (map lca_uuid (map (new_assignment env config q s k ids admin) (enumerate n es)))"
  using inj_on_subset [OF assms] by (simp add: o_def map_fst_enumerate_cong distinct_map)

lemma created_read_back:
  assumes "fresh_uuids env table"
    and "created = map (new_assignment env config q s k ids admin) (enumerate 0 es)"
    and "map lca_uuid rows = map lca_uuid table"
  shows "filter (\<lambda>a. lca_uuid a \<in> lca_uuid ` set created) (rows @ created) = created"
proof -
  have "lca_uuid ` set rows = lca_uuid ` set table" using assms(3) by (metis set_map)
  then have "lca_uuid a \<notin> lca_uuid ` set created" if "a \<in> set rows" for a
    using imageI [OF that, of lca_uuid] assms(1,2) by (auto simp: fresh_uuids_def)
  then show ?thesis by (simp add: filter_empty_conv filter_id_conv)
qed

text \<open>The rows an allocation brought back to life.\<close>

definition reallocated :: "assignments \<Rightarrow> allocation \<Rightarrow> assignments" where
  "reallocated table al = filter (\<lambda>a. lca_state a \<in> set reallocate_states \<and>
      (\<exists>b \<in> set (al_table al). lca_uuid b = lca_uuid a \<and> lca_state b = ALLOCATED)) table"

text \<open>The closed form again, with fresh keys for the created rows.\<close>

lemma allocate_effect:
  assumes run: "allocate_assignments env table config les k p admin known = Inr al"
    and d: "distinct (map lca_uuid table)" and fresh: "fresh_uuids env table"
    and emails: "emails = deduplicate_learner_emails_to_allocate les"
    and learners: "allocation_learners (ae_users env) emails known = (ids, ebi)"
    and ex: "existing = get_existing_assignments_for_allocation table config emails k ids"
  shows "\<exists>s P. 0 \<le> p \<and>
    (\<forall>a \<in> set existing. prepare_existing_assignment env table (- p) s k ids ebi a = Inr (P a)) \<and>
    al_created al = map (new_assignment env config (- p) s k ids admin)
      (enumerate 0 (filter (\<lambda>e. lower e \<notin> (\<lambda>a. lower (lca_learner_email (fst (P a)))) ` set existing) emails)) \<and>
    al_table al = map (after_allocation (ae_now env) P existing) table @ al_created al \<and>
    unique_slots (al_table al) \<and> distinct (map lca_uuid (al_table al)) \<and>
    reallocated table al = filter (\<lambda>a. a \<in> set existing \<and> lca_state a \<in> set reallocate_states) table"
proof -
  obtain s P created where p: "0 \<le> p" and
    P: "\<And>a. a \<in> set existing \<Longrightarrow> prepare_existing_assignment env table (- p) s k ids ebi a = Inr (P a)"
    and c: "created = map (new_assignment env config (- p) s k ids admin)
      (enumerate 0 (filter (\<lambda>e. lower e \<notin> (\<lambda>a. lower (lca_learner_email (fst (P a)))) ` set existing) emails))"
    and t: "al_table al = map (after_allocation (ae_now env) P existing) table @ created"
    and un: "unique_slots (al_table al)"
    and cr: "al_created al = filter (\<lambda>a. lca_uuid a \<in> lca_uuid ` set created) (al_table al)"
    using allocate_shape [OF run d emails learners ex] by blast
  define f where "f = after_allocation (ae_now env) P existing"
  have fa: "f a = after_allocation (ae_now env) P existing a" for a by (simp add: f_def)
  note ff = after_allocation_facts [where existing = existing and P = P, OF P fa, simplified]
  have u: "map lca_uuid (map f table) = map lca_uuid table" by (simp add: ff(1))
  have created: "al_created al = created"
    using created_read_back [OF fresh c u] cr by (simp add: t f_def)
  have uc: "lca_uuid b \<notin> lca_uuid ` set table" if "b \<in> set created" for b
    using that fresh by (auto simp: c fresh_uuids_def)
  have "distinct (map lca_uuid created)"
    using created_uuids fresh unfolding c fresh_uuids_def by blast
  moreover have "lca_uuid ` set table \<inter> lca_uuid ` set created = {}"
  proof (rule equals0I)
    fix x assume x: "x \<in> lca_uuid ` set table \<inter> lca_uuid ` set created"
    then obtain b where b: "b \<in> set created" "x = lca_uuid b" by auto
    show False using uc [OF b(1)] x b(2) by simp
  qed
  ultimately have dt: "distinct (map lca_uuid (al_table al))"
    unfolding t map_append distinct_append f_def [symmetric] u using d by simp
  have "a \<in> set existing \<and> lca_state a \<in> set reallocate_states \<longleftrightarrow>
      lca_state a \<in> set reallocate_states \<and> (\<exists>b \<in> set (al_table al). lca_uuid b = lca_uuid a \<and> lca_state b = ALLOCATED)"
    if a: "a \<in> set table" for a
  proof -
    have fin: "f a \<in> set (al_table al)" using a by (simp add: t f_def)
    have "b = f a" if "b \<in> set (al_table al)" "lca_uuid b = lca_uuid a" for b
      using distinct_key_inj [OF dt that(1) fin] that(2) ff(1) [of a] by simp
    with fin have "(\<exists>b \<in> set (al_table al). lca_uuid b = lca_uuid a \<and> lca_state b = ALLOCATED) \<longleftrightarrow>
        lca_state (f a) = ALLOCATED"
      using ff(1) [of a] by blast
    then show ?thesis using ff(4) [of a] in_reallocate_states [of "lca_state a"] by auto
  qed
  then have r: "reallocated table al = filter (\<lambda>a. a \<in> set existing \<and> lca_state a \<in> set reallocate_states) table"
    unfolding reallocated_def by (intro filter_cong) auto
  show ?thesis
    unfolding created by (intro exI [of _ s] exI [of _ P] conjI ballI) (fact p P c t un dt r)+
qed

lemma allocation_debit:
  assumes run: "allocate_assignments env table config les k p admin known = Inr al"
    and d: "distinct (map lca_uuid table)" and fresh: "fresh_uuids env table"
  shows "get_allocated_quantity_for_configuration (al_table al) config =
    get_allocated_quantity_for_configuration table config
      - p * int (length (al_created al) + length (reallocated table al))"
proof -
  define emails where "emails = deduplicate_learner_emails_to_allocate les"
  obtain ids ebi where le: "allocation_learners (ae_users env) emails known = (ids, ebi)" by fastforce
  define existing where "existing = get_existing_assignments_for_allocation table config emails k ids"
  obtain s P where
    P: "\<And>a. a \<in> set existing \<Longrightarrow> prepare_existing_assignment env table (- p) s k ids ebi a = Inr (P a)"
    and c: "al_created al = map (new_assignment env config (- p) s k ids admin)
      (enumerate 0 (filter (\<lambda>e. lower e \<notin> (\<lambda>a. lower (lca_learner_email (fst (P a)))) ` set existing) emails))"
    and t: "al_table al = map (after_allocation (ae_now env) P existing) table @ al_created al"
    and r: "reallocated table al = filter (\<lambda>a. a \<in> set existing \<and> lca_state a \<in> set reallocate_states) table"
    using allocate_effect [OF run d fresh emails_def le existing_def] by blast
  define f where "f = after_allocation (ae_now env) P existing"
  have fa: "f a = after_allocation (ae_now env) P existing a" for a by (simp add: f_def)
  note ff = after_allocation_facts [where existing = existing and P = P, OF P fa, simplified]
  have share: "allocated_share config (f a) = allocated_share config a +
      (if a \<in> set existing \<and> lca_state a \<in> set reallocate_states then - p else 0)" for a
    using ff(2,4,5) [of a] existing_config [of a table config emails k ids]
    by (auto simp: allocated_share_def existing_def [symmetric] reallocate_states_def)
  have "get_allocated_quantity_for_configuration (al_created al) config = - p * int (length (al_created al))"
    by (rule allocated_quantity_new) (auto simp: c)
  moreover have "get_allocated_quantity_for_configuration (map f table) config =
      get_allocated_quantity_for_configuration table config + - p * int (length (reallocated table al))"
    unfolding r by (rule allocated_quantity_map) (rule share)
  ultimately show ?thesis
    by (simp add: arg_cong [OF t, of "\<lambda>x. get_allocated_quantity_for_configuration x config"]
        allocated_quantity_append f_def algebra_simps)
qed

text \<open>
  C14. The books balance. An allocation lowers the allocated quantity of the configuration (a negative
  number of cents) by the price for every row it creates and for every cancelled, errored, expired
  or reversed row it allocates again, and by nothing else: rows already allocated keep their own
  quantity.
\<close>

theorem allocate_debits_exactly:
  assumes run: "allocate_assignments env table config les k p admin known = Inr al"
    and d: "distinct (map lca_uuid table)" and fresh: "fresh_uuids env table"
  shows "get_allocated_quantity_for_configuration (al_table al) config =
    get_allocated_quantity_for_configuration table config
      - p * int (length (al_created al) + length (reallocated table al))"
  using assms by (rule allocation_debit)

section \<open>Looking learners up\<close>

lemma set_chunks: "n > 0 \<Longrightarrow> (\<Union>c \<in> set (chunks xs n). set c) = set xs"
proof (induction xs n rule: chunks.induct)
  case (1 xs n)
  show ?case
  proof (cases "xs = []")
    case True
    then show ?thesis by (simp add: chunks.simps)
  next
    case False
    then have "(\<Union>c \<in> set (chunks xs n). set c) = set (take n xs) \<union> set (drop n xs)"
      using 1 by (subst chunks.simps) simp
    then show ?thesis by (simp flip: set_append)
  qed
qed

lemma chunks_nonempty: "c \<in> set (chunks xs n) \<Longrightarrow> c \<noteq> []"
proof (induction xs n rule: chunks.induct)
  case (1 xs n)
  show ?case
  proof (cases "xs = [] \<or> n = 0")
    case True
    then show ?thesis using "1.prems" by (simp add: chunks.simps)
  next
    case False
    then have "c = take n xs \<or> c \<in> set (chunks (drop n xs) n)"
      using "1.prems" by (subst (asm) chunks.simps) auto
    then show ?thesis using "1.IH" False by auto
  qed
qed

definition user_entry :: "core_user list \<Rightarrow> string list \<Rightarrow> string \<times> int \<Rightarrow> bool" where
  "user_entry users emails p \<longleftrightarrow>
     (\<exists>u \<in> set users. \<exists>e \<in> set emails. fst p = lower e \<and> lower (user_email u) = lower e \<and>
        user_lms_user_id u = Some (snd p))"

lemma lms_user_ids_entries:
  "(\<forall>p \<in> set (get_lms_user_ids_by_email users emails). user_entry users emails p) \<and>
   distinct (map fst (get_lms_user_ids_by_email users emails))"
proof -
  define entries where "entries c = List.map_filter (\<lambda>u. if inexact_email_filter c (user_email u)
      then map_option (\<lambda>i. (lower (user_email u), i)) (user_lms_user_id u) else None) users" for c
  have e: "user_entry users emails p" if "c \<in> set (chunks emails user_email_read_batch_size)"
    "p \<in> set (entries c)" for c p
  proof -
    have "c \<noteq> []" "set c \<subseteq> set emails"
      using chunks_nonempty [OF that(1)] set_chunks [of user_email_read_batch_size emails] that(1)
      by (auto simp: user_email_read_batch_size_def)
    then show ?thesis using that(2)
      by (fastforce simp: entries_def map_filter_set inexact_email_filter_def iexact_def user_entry_def
          split: if_splits)
  qed
  have "(\<forall>p \<in> set (fold (\<lambda>c d. dict_union d (dict_of_pairs (entries c))) cs d). user_entry users emails p) \<and>
      distinct (map fst (fold (\<lambda>c d. dict_union d (dict_of_pairs (entries c))) cs d))"
    if "set cs \<subseteq> set (chunks emails user_email_read_batch_size)"
      "\<forall>p \<in> set d. user_entry users emails p" "distinct (map fst d)" for cs d
    using that
  proof (induction cs arbitrary: d)
    case (Cons c cs)
    have "set (dict_of_pairs (entries c)) \<subseteq> set (entries c)"
      using dict_put_loop(1) [of "entries c" "[]"] by (simp add: dict_of_pairs_def)
    then have "set (dict_union d (dict_of_pairs (entries c))) \<subseteq> set d \<union> set (entries c)"
      using dict_put_loop(1) [of "dict_of_pairs (entries c)" d] unfolding dict_union_def by blast
    moreover have "\<forall>p \<in> set d \<union> set (entries c). user_entry users emails p"
      using Cons.prems(2) e [of c] Cons.prems(1) by (metis UnE list.set_intros(1) subsetD)
    ultimately have "\<forall>p \<in> set (dict_union d (dict_of_pairs (entries c))). user_entry users emails p"
      by blast
    moreover have "distinct (map fst (dict_union d (dict_of_pairs (entries c))))"
      using Cons.prems by (simp add: dict_union_def dict_put_loop(2))
    ultimately show ?case using Cons.IH Cons.prems(1) by simp
  qed simp
  from this [of "chunks emails user_email_read_batch_size" "[]"]
  show ?thesis by (simp add: get_lms_user_ids_by_email_def entries_def)
qed

lemma emails_by_id_loop:
  fixes ids :: "(string \<times> int) list" and d :: "(int \<times> string) list"
  defines "step \<equiv> \<lambda>email d. case map_of ids (lower email) of None \<Rightarrow> d | Some i \<Rightarrow> dict_put d i email"
  shows "snd ` set (fold step es d) \<subseteq> snd ` set d \<union> set es"
    and "i \<in> fst ` set d \<or> (\<exists>e \<in> set es. map_of ids (lower e) = Some i) \<Longrightarrow> i \<in> fst ` set (fold step es d)"
proof (induction es arbitrary: d)
  case (Cons e es)
  have s: "set (step e d) \<subseteq> set d \<union> {(i, e) | i. map_of ids (lower e) = Some i}" for d
    using set_dict_put by (fastforce simp: step_def split: option.splits)
  have k: "fst ` set (step e d) = fst ` set d \<union> {i. map_of ids (lower e) = Some i}" for d
    by (auto simp: step_def keys_dict_put split: option.splits)
  { case 1
    have "snd ` set (step e d) \<subseteq> snd ` set d \<union> {e}" using s [of d] by force
    then show ?case using Cons.IH(1) [of "step e d"] unfolding fold_simps list.set by blast
  next
    case 2
    then show ?case using Cons.IH(2) [of "step e d"] k by auto }
qed simp_all


lemma prepare_email:
  assumes "prepare_existing_assignment env table q s k ids ebi a = Inr (a', b)"
  shows "lca_learner_email a' = lca_learner_email (fst (restore_email ebi (fill_lms_user_id ids (a, False))))"
    and "lca_lms_user_id a' = lca_lms_user_id (fst (restore_email ebi (fill_lms_user_id ids (a, False))))"
  using assms
  by (auto simp: prepare_existing_assignment_def Let_def rbind_Inr_iff refresh_allocated_def
      dest!: reallocate_facts split: prod.splits if_splits)

lemma map_allocation_props:
  assumes "map_allocation_emails_with_lms_user_ids users emails = (ids, ebi)"
  shows "map_of ids x = Some i \<Longrightarrow> x \<in> lower ` set emails"
    and "snd ` set ebi \<subseteq> set emails"
    and "i \<in> snd ` set ids \<Longrightarrow> \<exists>e. map_of ebi i = Some e"
    and "i \<in> snd ` set ids \<Longrightarrow> \<exists>u \<in> set users. user_lms_user_id u = Some i \<and> lower (user_email u) \<in> lower ` set emails"
proof -
  have ids: "ids = get_lms_user_ids_by_email users emails"
    and ebi: "ebi = fold (\<lambda>email d. case map_of ids (lower email) of None \<Rightarrow> d | Some i \<Rightarrow> dict_put d i email) emails []"
    using assms by (auto simp: map_allocation_emails_with_lms_user_ids_def Let_def)
  note entries = lms_user_ids_entries [of users emails, folded ids]
  show "map_of ids x = Some i \<Longrightarrow> x \<in> lower ` set emails"
    using entries by (fastforce simp: user_entry_def dest!: map_of_SomeD)
  show "snd ` set ebi \<subseteq> set emails"
    using emails_by_id_loop(1) [of ids emails "[]"] by (simp add: ebi)
  assume "i \<in> snd ` set ids"
  then obtain le where p: "(le, i) \<in> set ids" by auto
  then obtain u e where e: "u \<in> set users" "e \<in> set emails" "le = lower e" "lower (user_email u) = lower e"
      "user_lms_user_id u = Some i"
    using entries by (fastforce simp: user_entry_def)
  then show "\<exists>u \<in> set users. user_lms_user_id u = Some i \<and> lower (user_email u) \<in> lower ` set emails" by auto
  have "map_of ids (lower e) = Some i" using entries p e(3) by (simp add: map_of_eq_Some_iff)
  then have "i \<in> fst ` set ebi"
    using emails_by_id_loop(2) [of i "[]" emails ids] e(2) unfolding ebi by blast
  then show "\<exists>e. map_of ebi i = Some e" by (cases "map_of ebi i") (auto simp: map_of_eq_None_iff)
qed

lemma allocated_email_requested:
  assumes learners: "map_allocation_emails_with_lms_user_ids users emails = (ids, ebi)"
    and a: "a \<in> set (get_existing_assignments_for_allocation table config emails k ids)"
    and pr: "prepare_existing_assignment env table q s k ids ebi a = Inr (a', b)"
    and ne: "emails \<noteq> []"
    and stale: "lca_state a \<noteq> EXPIRED \<Longrightarrow> \<exists>i \<in> snd ` set ids. lca_lms_user_id a = Some i \<Longrightarrow>
      lower (lca_learner_email a) \<in> lower ` set emails"
  shows "lower (lca_learner_email a') \<in> lower ` set emails"
proof (cases "lower (lca_learner_email a) \<in> lower ` set emails")
  case True
  then show ?thesis
    using prepare_facts(9) [OF pr] map_allocation_props(2) [OF learners] by fastforce
next
  case False
  then obtain i where i: "i \<in> snd ` set ids" "lca_lms_user_id a = Some i"
    using a ne by (auto simp: get_existing_assignments_for_allocation_def Let_def
        get_assignments_for_admin_def get_assignments_for_configuration_def inexact_email_filter_def iexact_def)
  then have ex: "lca_state a = EXPIRED" using stale False by blast
  obtain e where e: "map_of ebi i = Some e" using map_allocation_props(3) [OF learners i(1)] by blast
  have "fill_lms_user_id ids (a, False) = (a, False)"
    using map_allocation_props(1) [OF learners] False
    by (auto simp: fill_lms_user_id_def Let_def truthy_int_def)
  then have "lca_learner_email a' = e"
    using prepare_email(1) [OF pr] by (simp add: restore_email_def ex i(2) e)
  moreover have "e \<in> set emails"
    using map_allocation_props(2) [OF learners] map_of_SomeD [OF e] by force
  ultimately show ?thesis by simp
qed


text \<open>
  The rows an allocation looks at: those that end under a requested address, and those that carry
  the \<open>lms_user_id\<close> of a requested address but keep another one.
\<close>

lemma allocation_rows:
  assumes run: "allocate_assignments env table config les k p admin [] = Inr al"
    and d: "distinct (map lca_uuid table)" and fresh: "fresh_uuids env table" and ne: "les \<noteq> []"
  obtains existing post I where "set existing \<subseteq> set table" and "finite I" and "inj_on post (set existing)"
    and "length (al_created al) = card (lower ` set les - post ` set existing)"
    and "length (reallocated table al) \<le> card (set existing)"
    and "card (I) \<le> card (lower ` set les)"
    and "\<And>i. i \<in> I \<Longrightarrow> \<exists>u \<in> set (ae_users env). user_lms_user_id u = Some i \<and> lower (user_email u) \<in> lower ` set les"
    and "\<And>a. a \<in> set existing \<Longrightarrow> lca_assignment_configuration a = Some (ac_uuid config) \<and> lca_content_key a = k"
    and "\<And>a. a \<in> set existing \<Longrightarrow> post a \<notin> lower ` set les \<Longrightarrow> lca_state a \<noteq> EXPIRED \<and>
       lower (lca_learner_email a) \<notin> lower ` set les \<and> lca_lms_user_id a \<in> Some ` (I)"
proof -
  define emails where "emails = deduplicate_learner_emails_to_allocate les"
  obtain ids ebi where le: "allocation_learners (ae_users env) emails [] = (ids, ebi)" by fastforce
  have le': "map_allocation_emails_with_lms_user_ids (ae_users env) emails = (ids, ebi)"
    using le by (simp add: allocation_learners_def)
  define existing where "existing = get_existing_assignments_for_allocation table config emails k ids"
  obtain s P where
    P: "\<And>a. a \<in> set existing \<Longrightarrow> prepare_existing_assignment env table (- p) s k ids ebi a = Inr (P a)"
    and c: "al_created al = map (new_assignment env config (- p) s k ids admin)
      (enumerate 0 (filter (\<lambda>e. lower e \<notin> (\<lambda>a. lower (lca_learner_email (fst (P a)))) ` set existing) emails))"
    and t: "al_table al = map (after_allocation (ae_now env) P existing) table @ al_created al"
    and un: "unique_slots (al_table al)" "distinct (map lca_uuid (al_table al))"
    and r: "reallocated table al = filter (\<lambda>a. a \<in> set existing \<and> lca_state a \<in> set reallocate_states) table"
    using allocate_effect [OF run d fresh emails_def le existing_def] by blast
  define L where "L = lower ` set les"
  have L: "lower ` set emails = L" "distinct (map lower emails)"
    using deduplicate_props [of les] by (simp_all add: emails_def L_def)
  have emails_ne: "emails \<noteq> []" using L(1) ne by (auto simp: L_def)
  define post where "post a = lower (lca_learner_email (fst (P a)))" for a
  have config: "lca_assignment_configuration a = Some (ac_uuid config) \<and> lca_content_key a = k" if "a \<in> set existing" for a
    using existing_config [of a table config emails k ids] that by (simp add: existing_def)
  have out: "lca_state a \<noteq> EXPIRED \<and> lower (lca_learner_email a) \<notin> L \<and> lca_lms_user_id a \<in> Some ` (snd ` set ids)"
    if a: "a \<in> set existing" and p: "post a \<notin> L" for a
  proof -
    have pr: "prepare_existing_assignment env table (- p) s k ids ebi a = Inr (fst (P a), snd (P a))"
      unfolding prod.collapse by (rule P [OF a])
    from allocated_email_requested [OF le' a [unfolded existing_def] pr emails_ne] p
    show ?thesis unfolding post_def L(1) by blast
  qed
  have inj: "inj_on post (set existing)"
  proof (rule inj_onI)
    fix a b assume ab: "a \<in> set existing" "b \<in> set existing" "post a = post b"
    define f where "f = after_allocation (ae_now env) P existing"
    have fa: "f a = after_allocation (ae_now env) P existing a" for a by (simp add: f_def)
    note ff = after_allocation_facts [where existing = existing and P = P, OF P fa, simplified]
    have tab: "a \<in> set table" "b \<in> set table" using ab existing_sub unfolding existing_def by blast+
    have "same_learner_slot (f a) (f b)"
      using ab ff(2,3,6) [of a] ff(2,3,6) [of b] existing_config [of _ table config emails k ids]
      by (simp add: same_learner_slot_def post_def existing_def [symmetric])
    moreover have "f a \<in> set (al_table al)" "f b \<in> set (al_table al)"
      using tab arg_cong [OF t, of set] by (auto simp: f_def)
    ultimately have "lca_uuid (f a) = lca_uuid (f b)"
      using unique_slots_distinct_pair [OF un] by blast
    then show "a = b" using ff(1) distinct_key_inj [OF d tab] by simp
  qed
  have "length (al_created al) = card (lower ` set (filter (\<lambda>e. lower e \<notin> post ` set existing) emails))"
    using distinct_card [OF distinct_map_filter [OF L(2), of "\<lambda>e. lower e \<notin> post ` set existing"]]
    by (simp add: c post_def)
  also have "lower ` set (filter (\<lambda>e. lower e \<notin> post ` set existing) emails) = L - post ` set existing"
    using L(1) by auto
  finally have cc: "length (al_created al) = card (L - post ` set existing)" .
  have "length (reallocated table al) = card (set (reallocated table al))"
    by (rule distinct_card [symmetric]) (simp add: r distinct_of_keys [OF d])
  also have "\<dots> \<le> card (set existing)" by (intro card_mono) (auto simp: r)
  finally have rr: "length (reallocated table al) \<le> card (set existing)" .
  have ids: "ids = get_lms_user_ids_by_email (ae_users env) emails"
    using le' by (simp add: map_allocation_emails_with_lms_user_ids_def Let_def)
  have "fst ` set ids \<subseteq> L"
    using lms_user_ids_entries [of "ae_users env" emails] L(1) unfolding ids by (force simp: user_entry_def)
  then have "card (fst ` set ids) \<le> card L" by (intro card_mono) (auto simp: L_def)
  have "card (snd ` set ids) \<le> card (fst ` set ids)"
  proof -
    have "card (snd ` set ids) \<le> card (set ids)" by (rule card_image_le) simp
    also have "\<dots> = card (fst ` set ids)"
      using lms_user_ids_entries [of "ae_users env" emails] unfolding ids
      by (intro card_image [symmetric]) (simp add: distinct_map)
    finally show ?thesis .
  qed
  have users: "\<exists>u \<in> set (ae_users env). user_lms_user_id u = Some i \<and> lower (user_email u) \<in> L" if "i \<in> snd ` set ids" for i
    using map_allocation_props(4) [OF le' that] L(1) by simp
  have sub: "set existing \<subseteq> set table" unfolding existing_def by (rule existing_sub)
  have card: "card (snd ` set ids) \<le> card L" using \<open>card (fst ` set ids) \<le> card L\<close> \<open>card (snd ` set ids) \<le> card (fst ` set ids)\<close> by simp
  show ?thesis
    by (rule that [OF sub _ inj cc [unfolded L_def] rr card [unfolded L_def]];
        (rule finite_imageI finite_set | rule users [unfolded L_def] config out [unfolded L_def]; assumption)+)
qed

lemma allocation_row_count:
  assumes run: "allocate_assignments env table config les k p admin [] = Inr al"
    and d: "distinct (map lca_uuid table)" and fresh: "fresh_uuids env table" and ne: "les \<noteq> []"
    and stale: "\<And>a u. a \<in> set table \<Longrightarrow> lca_assignment_configuration a = Some (ac_uuid config) \<Longrightarrow>
      lca_content_key a = k \<Longrightarrow> lca_state a \<noteq> EXPIRED \<Longrightarrow> u \<in> set (ae_users env) \<Longrightarrow>
      lower (user_email u) \<in> lower ` set les \<Longrightarrow> user_lms_user_id u \<noteq> None \<Longrightarrow>
      lca_lms_user_id a = user_lms_user_id u \<Longrightarrow> lower (lca_learner_email a) \<in> lower ` set les"
  shows "length (al_created al) + length (reallocated table al) \<le> card (lower ` set les)"
proof -
  obtain existing post I where sub: "set existing \<subseteq> set table" and fin: "finite I" and inj: "inj_on post (set existing)"
    and cc: "length (al_created al) = card (lower ` set les - post ` set existing)"
    and rr: "length (reallocated table al) \<le> card (set existing)"
    and ids: "card (I) \<le> card (lower ` set les)"
    and users: "\<And>i. i \<in> I \<Longrightarrow> \<exists>u \<in> set (ae_users env). user_lms_user_id u = Some i \<and> lower (user_email u) \<in> lower ` set les"
    and conf: "\<And>a. a \<in> set existing \<Longrightarrow> lca_assignment_configuration a = Some (ac_uuid config) \<and> lca_content_key a = k"
    and out: "\<And>a. a \<in> set existing \<Longrightarrow> post a \<notin> lower ` set les \<Longrightarrow> lca_state a \<noteq> EXPIRED \<and>
      lower (lca_learner_email a) \<notin> lower ` set les \<and> lca_lms_user_id a \<in> Some ` (I)"
    by (rule allocation_rows [OF run d fresh ne]) (rule that; assumption)
  have "post a \<in> lower ` set les" if a: "a \<in> set existing" for a
  proof (rule ccontr)
    assume p: "post a \<notin> lower ` set les"
    then obtain i where "i \<in> I" "lca_lms_user_id a = Some i" using out [OF a p] by blast
    with users [of i] stale [of a] out [OF a p] conf [OF a] sub a show False
      by (metis option.distinct(1) subsetD)
  qed
  then have "post ` set existing \<subseteq> lower ` set les" by blast
  moreover have "card (set existing) = card (post ` set existing)" using inj by (simp add: card_image)
  ultimately show ?thesis
    using cc rr card_mono [of "lower ` set les" "post ` set existing"] by (simp add: card_Diff_subset)
qed

text \<open>
  Without that condition at most two rows: one that ends under the address, and one that has the
  \<open>lms_user_id\<close> of its user.
\<close>

lemma allocation_row_count_twice:
  assumes run: "allocate_assignments env table config les k p admin [] = Inr al"
    and d: "distinct (map lca_uuid table)" and fresh: "fresh_uuids env table" and ne: "les \<noteq> []"
    and slots: "unique_slots table"
  shows "length (al_created al) + length (reallocated table al) \<le> 2 * card (lower ` set les)"
proof -
  obtain existing post I where sub: "set existing \<subseteq> set table" and fin: "finite I" and inj: "inj_on post (set existing)"
    and cc: "length (al_created al) = card (lower ` set les - post ` set existing)"
    and rr: "length (reallocated table al) \<le> card (set existing)"
    and ids: "card (I) \<le> card (lower ` set les)"
    and users: "\<And>i. i \<in> I \<Longrightarrow> \<exists>u \<in> set (ae_users env). user_lms_user_id u = Some i \<and> lower (user_email u) \<in> lower ` set les"
    and conf: "\<And>a. a \<in> set existing \<Longrightarrow> lca_assignment_configuration a = Some (ac_uuid config) \<and> lca_content_key a = k"
    and out: "\<And>a. a \<in> set existing \<Longrightarrow> post a \<notin> lower ` set les \<Longrightarrow> lca_state a \<noteq> EXPIRED \<and>
      lower (lca_learner_email a) \<notin> lower ` set les \<and> lca_lms_user_id a \<in> Some ` (I)"
    by (rule allocation_rows [OF run d fresh ne]) (rule that; assumption)
  define A where "A = {a \<in> set existing. post a \<in> lower ` set les}"
  define B where "B = {a \<in> set existing. post a \<notin> lower ` set les}"
  have AB: "set existing = A \<union> B" "A \<inter> B = {}" "finite A" "finite B" by (auto simp: A_def B_def)
  have "inj_on lca_lms_user_id B"
  proof (rule inj_onI)
    fix a b assume ab: "a \<in> B" "b \<in> B" "lca_lms_user_id a = lca_lms_user_id b"
    then have "same_learner_slot a b"
      using conf [of a] conf [of b] out [of a] unfolding B_def same_learner_slot_def by auto
    then have "lca_uuid a = lca_uuid b"
      using unique_slots_distinct_pair [OF slots d, of a b] ab sub by (auto simp: B_def)
    then show "a = b" using distinct_key_inj [OF d, of a b] ab sub by (auto simp: B_def)
  qed
  then have "card B = card (lca_lms_user_id ` B)" by (simp add: card_image)
  also have "\<dots> \<le> card (Some ` (I))" by (rule card_mono) (use out fin in \<open>auto simp: B_def\<close>)
  also have "\<dots> \<le> card (lower ` set les)" using ids by (simp add: card_image)
  finally have B: "card B \<le> card (lower ` set les)" .
  have pA: "card A = card (post ` A)" using inj by (intro card_image [symmetric]) (auto simp: A_def inj_on_def)
  have "lower ` set les - post ` set existing = lower ` set les - post ` A" unfolding A_def by blast
  moreover have "post ` A \<subseteq> lower ` set les" by (auto simp: A_def)
  ultimately have "length (al_created al) + card A \<le> card (lower ` set les)"
    using cc pA card_mono [of "lower ` set les" "post ` A"] by (simp add: card_Diff_subset AB(3))
  then show ?thesis using rr B AB by (simp add: card_Un_disjoint)
qed

text \<open>
  At most one per learner. Suppose that every assignment of the content stored for one of the
  requested learners under another address is expired (so its address may be restored). Then an
  allocation creates or re-allocates together at most as many rows as there are distinct learners
  in the request, so it debits at most their number times the price.
\<close>

theorem allocate_at_most_one_each:
  assumes run: "allocate_assignments env table config les k p admin [] = Inr al"
    and d: "distinct (map lca_uuid table)" and fresh: "fresh_uuids env table" and ne: "les \<noteq> []"
    and stale: "\<And>a u. a \<in> set table \<Longrightarrow> lca_assignment_configuration a = Some (ac_uuid config) \<Longrightarrow>
      lca_content_key a = k \<Longrightarrow> lca_state a \<noteq> EXPIRED \<Longrightarrow> u \<in> set (ae_users env) \<Longrightarrow>
      lower (user_email u) \<in> lower ` set les \<Longrightarrow> user_lms_user_id u \<noteq> None \<Longrightarrow>
      lca_lms_user_id a = user_lms_user_id u \<Longrightarrow> lower (lca_learner_email a) \<in> lower ` set les"
  shows "length (al_created al) + length (reallocated table al) \<le> card (lower ` set les)"
  using assms by (rule allocation_row_count)

section \<open>Re-allocated rows and changed addresses\<close>

lemma reallocated_times:
  assumes "prepare_existing_assignment env table q s k ids ebi a = Inr (a', b)"
    and "lca_state a \<in> set reallocate_states"
  shows "lca_cancelled_at a' = None \<and> lca_expired_at a' = None \<and> lca_errored_at a' = None \<and>
    lca_allocated_at a' = ae_now env \<and> lca_allocation_batch_id a' = Some (ae_batch_id env)"
proof -
  obtain a1 b1 where f: "fill_lms_user_id ids (a, False) = (a1, b1)" by fastforce
  obtain a2 b2 where r: "restore_email ebi (a1, b1) = (a2, b2)" by fastforce
  have "lca_state a2 = lca_state a" using fill_lms_user_id_facts [OF f] restore_email_facts [OF r] by simp
  then obtain q pr pa ir where "reallocate_assignment env table q pr pa ir a2 = Inr a'"
    using assms by (auto simp: prepare_existing_assignment_def Let_def f r rbind_Inr_iff)
  then show ?thesis by (auto simp: reallocate_assignment_def Let_def rbind_Inr_iff)
qed

text \<open>
  What a re-allocated row looks like: it is allocated at the price and the time of this
  allocation, and the times of its cancellation, expiration and error are cleared. But the times of
  an earlier acceptance and reversal stay, because \<open>accepted_at\<close> is cleared in memory only (it is not
  among the fields written) and \<open>reversed_at\<close> not at all; and a notification sent for the earlier
  allocation makes the learner state \<open>waiting\<close> at once.
\<close>

theorem reallocated_row:
  assumes run: "allocate_assignments env table config les k p admin known = Inr al"
    and d: "distinct (map lca_uuid table)" and fresh: "fresh_uuids env table"
    and a: "a \<in> set (reallocated table al)"
  shows "\<exists>b \<in> set (al_table al). lca_uuid b = lca_uuid a \<and> lca_state b = ALLOCATED \<and>
    lca_content_quantity b = - p \<and> lca_allocated_at b = ae_now env \<and>
    lca_cancelled_at b = None \<and> lca_expired_at b = None \<and> lca_errored_at b = None \<and>
    lca_accepted_at b = lca_accepted_at a \<and> lca_reversed_at b = lca_reversed_at a \<and>
    (learner_state actions b = Some WAITING \<longleftrightarrow> has_notification actions a)"
proof -
  define emails where "emails = deduplicate_learner_emails_to_allocate les"
  obtain ids ebi where le: "allocation_learners (ae_users env) emails known = (ids, ebi)" by fastforce
  define existing where "existing = get_existing_assignments_for_allocation table config emails k ids"
  obtain s P where
    P: "\<And>a. a \<in> set existing \<Longrightarrow> prepare_existing_assignment env table (- p) s k ids ebi a = Inr (P a)"
    and t: "al_table al = map (after_allocation (ae_now env) P existing) table @ al_created al"
    and r: "reallocated table al = filter (\<lambda>a. a \<in> set existing \<and> lca_state a \<in> set reallocate_states) table"
    using allocate_effect [OF run d fresh emails_def le existing_def] by blast
  have a': "a \<in> set table" "a \<in> set existing" "lca_state a \<in> set reallocate_states" using a by (auto simp: r)
  define b where "b = after_allocation (ae_now env) P existing a"
  note ff = after_allocation_facts [where existing = existing and P = P, OF P b_def, simplified]
  have pr: "prepare_existing_assignment env table (- p) s k ids ebi a = Inr (fst (P a), snd (P a))"
    unfolding prod.collapse by (rule P [OF a'(2)])
  have b: "b = (assignment_reallocation_fields (fst (P a)) a)\<lparr>lca_modified := ae_now env\<rparr>"
    using prepare_facts(6) [OF pr a'(3)] a'(2) by (simp add: b_def after_allocation_def)
  have times: "lca_allocated_at b = ae_now env \<and> lca_cancelled_at b = None \<and> lca_expired_at b = None \<and>
      lca_errored_at b = None"
    using reallocated_times [OF pr a'(3)] by (simp add: b assignment_reallocation_fields_def)
  have state: "lca_state b = ALLOCATED" "lca_content_quantity b = - p" using ff(4,5) a'(2,3) by simp_all
  have "learner_state actions b = Some WAITING \<longleftrightarrow> has_notification actions a"
    using state(1) ff(1) by (auto simp: learner_state_def has_notification_def)
  moreover have "b \<in> set (al_table al)" using a'(1) arg_cong [OF t, of set] by (auto simp: b_def)
  ultimately show ?thesis using ff(1,7,8) times state by blast
qed

text \<open>
  A learner who changed the address. Let a stored assignment of the content carry an address
  that is not requested, while its \<open>lms_user_id\<close> belongs to the user of a requested address \<open>e\<close>
  for which no row exists; let no assignment of the content be expired. Then no allocation for \<open>e\<close>
  succeeds, not even for the other learners of the batch: the address \<open>e\<close> counts as new, and the new
  row would repeat the \<open>lms_user_id\<close>.
\<close>

theorem changed_email_blocks_allocation:
  assumes a: "a \<in> set table" "lca_assignment_configuration a = Some (ac_uuid config)" "lca_content_key a = k"
    and id: "lca_lms_user_id a = Some i" "i \<noteq> 0"
    and old: "lower (lca_learner_email a) \<notin> lower ` set les" and e: "e \<in> set les"
    and user: "map_of (get_lms_user_ids_by_email (ae_users env)
                 (deduplicate_learner_emails_to_allocate les)) (lower e) = Some i"
    and none: "\<And>b. b \<in> set table \<Longrightarrow> lca_assignment_configuration b = Some (ac_uuid config) \<Longrightarrow>
      lca_content_key b = k \<Longrightarrow> lca_state b \<noteq> EXPIRED \<and> lower (lca_learner_email b) \<noteq> lower e"
    and d: "distinct (map lca_uuid table)"
  shows "allocate_assignments env table config les k p admin [] \<noteq> Inr al"
proof
  assume run: "allocate_assignments env table config les k p admin [] = Inr al"
  define emails where "emails = deduplicate_learner_emails_to_allocate les"
  obtain ids ebi where le: "allocation_learners (ae_users env) emails [] = (ids, ebi)" by fastforce
  then have ids: "ids = get_lms_user_ids_by_email (ae_users env) emails"
    by (auto simp: allocation_learners_def map_allocation_emails_with_lms_user_ids_def Let_def)
  define existing where "existing = get_existing_assignments_for_allocation table config emails k ids"
  obtain s P created where
    P: "\<And>a. a \<in> set existing \<Longrightarrow> prepare_existing_assignment env table (- p) s k ids ebi a = Inr (P a)"
    and c: "created = map (new_assignment env config (- p) s k ids admin)
      (enumerate 0 (filter (\<lambda>e. lower e \<notin> (\<lambda>a. lower (lca_learner_email (fst (P a)))) ` set existing) emails))"
    and t: "al_table al = map (after_allocation (ae_now env) P existing) table @ created"
    and un: "unique_slots (al_table al)"
    using allocate_shape [OF run d emails_def le existing_def] by blast
  have own: "lca_learner_email (fst (P b)) = lca_learner_email b" if b: "b \<in> set existing" for b
  proof -
    have "prepare_existing_assignment env table (- p) s k ids ebi b = Inr (fst (P b), snd (P b))"
      unfolding prod.collapse by (rule P [OF b])
    from prepare_facts(8) [OF this] show ?thesis
      using none [of b] existing_config [of b] existing_sub b unfolding existing_def by blast
  qed
  obtain e' where e': "e' \<in> set emails" "lower e' = lower e"
    using deduplicate_props(2) [of les] e by (metis emails_def imageE image_eqI set_map)
  have new: "lower e' \<notin> (\<lambda>a. lower (lca_learner_email (fst (P a)))) ` set existing"
    using own none e'(2) existing_config [of _ table config emails k ids] existing_sub [of table config emails k ids]
    by (force simp: existing_def [symmetric])
  then obtain n where "(n, e') \<in> set (enumerate 0
      (filter (\<lambda>e. lower e \<notin> (\<lambda>a. lower (lca_learner_email (fst (P a)))) ` set existing) emails))"
    using e'(1) in_enumerate [of e' "filter (\<lambda>e. lower e \<notin> (\<lambda>a. lower (lca_learner_email (fst (P a)))) ` set existing) emails"]
    by auto
  then have n: "new_assignment env config (- p) s k ids admin (n, e') \<in> set created"
    unfolding c set_map by (rule imageI)
  define r where "r = after_allocation (ae_now env) P existing a"
  have "lca_lms_user_id r = Some i"
  proof (cases "a \<in> set existing")
    case True
    have "fst (restore_email ebi (fill_lms_user_id ids (a, False))) = a"
      using none [OF a] id by (simp add: fill_lms_user_id_def restore_email_def truthy_int_def)
    moreover have pr: "prepare_existing_assignment env table (- p) s k ids ebi a = Inr (fst (P a), snd (P a))"
      unfolding prod.collapse by (rule P [OF True])
    ultimately have "lca_lms_user_id (fst (P a)) = Some i"
      using id(1) prepare_email(2) [OF pr] by simp
    then show ?thesis using id(1) by (simp add: r_def after_allocation_def assignment_reallocation_fields_def)
  next
    case False
    then show ?thesis using id(1) by (simp add: r_def after_allocation_def)
  qed
  moreover have "lca_assignment_configuration r = Some (ac_uuid config)" "lca_content_key r = k"
    using after_allocation_facts(2,3) [where existing = existing and P = P, OF P r_def, simplified] a by simp_all
  ultimately have "same_learner_slot r (new_assignment env config (- p) s k ids admin (n, e'))"
    using user e'(2) by (simp add: same_learner_slot_def ids emails_def)
  moreover have "r \<in> set (map (after_allocation (ae_now env) P existing) table)" using a(1) by (simp add: r_def)
  ultimately show False using un n unfolding t unique_slots_append by blast
qed

section \<open>An allocation at a concrete input\<close>

text \<open>
  Two learners: one with a cancelled assignment from before, one without any.
\<close>

definition demo_config :: assignment_configuration where
  "demo_config = \<lparr>ac_uuid = 2, ac_enterprise_customer_uuid = 5, ac_active = True\<rparr>"

definition demo_env :: alloc_env where
  "demo_env = \<lparr>ae_users = [\<lparr>user_id = 7, user_email = ''A@b.c'', user_lms_user_id = Some 70\<rparr>],
     ae_content_summary = (\<lambda>_ k. Inr \<lparr>sc_content_key = Some k, sc_content_title = Some ''T'', sc_course_run_key = Some ''R''\<rparr>),
     ae_catalog_metadata = (\<lambda>_ _. Inr []), ae_now = 500, ae_batch_id = 90, ae_fresh_uuid = (\<lambda>i. 100 + i),
     ae_valid_email = (\<lambda>_. True)\<rparr>"

definition demo_table :: assignments where
  "demo_table = [demo_assignment\<lparr>lca_state := CANCELLED\<rparr>]"

definition demo_allocation :: allocation where
  "demo_allocation = projr (allocate_assignments demo_env demo_table demo_config [''a@b.c'', ''x@y.z'', ''X@y.z'']
     ''edX+D'' 300 None [])"

lemma demo_run: "allocate_assignments demo_env demo_table demo_config [''a@b.c'', ''x@y.z'', ''X@y.z'']
     ''edX+D'' 300 None [] = Inr demo_allocation"
proof -
  have "isl (allocate_assignments demo_env demo_table demo_config [''a@b.c'', ''x@y.z'', ''X@y.z'']
     ''edX+D'' 300 None []) = False" by code_simp
  then show ?thesis by (simp add: demo_allocation_def)
qed


lemma demo_fresh: "distinct (map lca_uuid demo_table)" "fresh_uuids demo_env demo_table"
  by (simp_all add: demo_table_def demo_assignment_def fresh_uuids_def demo_env_def inj_def)

theorem allocate_reaches_every_learner_witness:
  "\<exists>a \<in> set (al_table demo_allocation). lca_assignment_configuration a = Some (ac_uuid demo_config) \<and>
     lca_content_key a = ''edX+D'' \<and> lower (lca_learner_email a) = lower ''X@y.z'' \<and>
     lca_state a \<in> {ALLOCATED, ACCEPTED}"
  by (rule allocate_reaches_every_learner [OF demo_run demo_fresh(1)]) simp

theorem allocate_debits_exactly_witness:
  "get_allocated_quantity_for_configuration (al_table demo_allocation) demo_config = - 600"
proof -
  have "get_allocated_quantity_for_configuration demo_table demo_config = 0"
    "length (al_created demo_allocation) = 1" "length (reallocated demo_table demo_allocation) = 1"
    by code_simp+
  with allocate_debits_exactly [OF demo_run demo_fresh] show ?thesis by simp
qed

theorem allocate_at_most_one_each_witness:
  "length (al_created demo_allocation) + length (reallocated demo_table demo_allocation)
     \<le> card (lower ` set [''a@b.c'', ''x@y.z'', ''X@y.z''])"
  by (rule allocate_at_most_one_each [OF demo_run demo_fresh])
    (auto simp: demo_table_def demo_assignment_def)

theorem reallocated_row_witness:
  "\<exists>b \<in> set (al_table demo_allocation). lca_uuid b = 11 \<and> lca_state b = ALLOCATED \<and>
     lca_cancelled_at b = None \<and>
     (learner_state [\<lparr>aa_assignment = 11, aa_action_type = NOTIFIED, aa_completed_at = Some 1,
        aa_error_reason = None, aa_traceback = None\<rparr>] b = Some WAITING)"
proof -
  have r: "demo_assignment\<lparr>lca_state := CANCELLED\<rparr> \<in> set (reallocated demo_table demo_allocation)"
    by code_simp
  have "has_notification [\<lparr>aa_assignment = 11, aa_action_type = NOTIFIED, aa_completed_at = Some 1,
        aa_error_reason = None, aa_traceback = None\<rparr>] (demo_assignment\<lparr>lca_state := CANCELLED\<rparr>)"
    by (simp add: has_notification_def demo_assignment_def)
  with reallocated_row [OF demo_run demo_fresh r] show ?thesis by (fastforce simp: demo_assignment_def)
qed

theorem changed_email_blocks_allocation_witness:
  "allocate_assignments demo_env [demo_assignment\<lparr>lca_learner_email := ''old@b.c''\<rparr>] demo_config
     [''a@b.c'', ''x@y.z''] ''edX+D'' 300 None [] \<noteq> Inr demo_allocation"
proof (rule changed_email_blocks_allocation [where i = 70 and e = "''a@b.c''"
      and a = "demo_assignment\<lparr>lca_learner_email := ''old@b.c''\<rparr>"])
  show "map_of (get_lms_user_ids_by_email (ae_users demo_env)
      (deduplicate_learner_emails_to_allocate [''a@b.c'', ''x@y.z''])) (lower ''a@b.c'') = Some 70" by code_simp
  show "lower (lca_learner_email (demo_assignment\<lparr>lca_learner_email := ''old@b.c''\<rparr>)) \<notin>
      lower ` set [''a@b.c'', ''x@y.z'']" by code_simp
  show "lca_state b \<noteq> EXPIRED \<and> lower (lca_learner_email b) \<noteq> lower ''a@b.c''"
    if "b \<in> set [demo_assignment\<lparr>lca_learner_email := ''old@b.c''\<rparr>]" for b
  proof -
    have b: "b = demo_assignment\<lparr>lca_learner_email := ''old@b.c''\<rparr>" using that by simp
    show ?thesis unfolding b by code_simp
  qed
qed (simp_all add: demo_assignment_def demo_config_def)

end
