(* ===== verification/Assignment_Lifecycle.thy ===== *)
theory Assignment_Lifecycle
  imports Assignment_Api
begin

text \<open>
  The rest of the life of an assignment: cancelling, reminding, nudging and expiring
  (\<open>content_assignments/api.py\<close>), the two signal handlers of \<open>signals.py\<close>, the expiration dates of
  \<open>enterprise_access/utils.py\<close> with the deadline strategies, and the allocation for learner credit
  requests.

  A date string of the catalog is carried as what \<open>strptime\<close> makes of it with the known patterns:
  \<open>Some d\<close>, or \<open>None\<close> when no pattern fits; an absent or empty string is the outer \<open>None\<close>.
\<close>

section \<open>Cancelling and reminding\<close>

text \<open>Sets of records: equality of records is equality of their keys.\<close>

definition record_set :: "assignments \<Rightarrow> assignments" where
  "record_set as = fold (\<lambda>a acc. if lca_uuid a \<in> lca_uuid ` set acc then acc else acc @ [a]) as []"

record cancel_result =
  cn_table :: assignments
  cn_cancelled :: assignments
  cn_non_cancelable :: assignments
  cn_tasks :: "task list"

definition cancel_assignments ::
    "datetime \<Rightarrow> assignments \<Rightarrow> assignments \<Rightarrow> bool \<Rightarrow> cancel_result result" where
  "cancel_assignments now table given send_cancel_email_to_learner =
     (let cancelable = record_set (filter (\<lambda>a. lca_state a \<in> set cancelable_states) given);
          already = record_set (filter (\<lambda>a. lca_state a = CANCELLED) given);
          non_cancelable = filter (\<lambda>a. lca_uuid a \<notin> lca_uuid ` set cancelable \<and> lca_uuid a \<notin> lca_uuid ` set already)
            (record_set given);
          to_cancel = map (\<lambda>a. a\<lparr>lca_state := CANCELLED\<rparr>) cancelable
      in rbind (update_and_refresh_assignments state_field now to_cancel table) (\<lambda>(table', cancelled).
         Inr \<lparr>cn_table = table',
              cn_cancelled = cancelled @ filter (\<lambda>a. lca_uuid a \<notin> lca_uuid ` set cancelled) already,
              cn_non_cancelable = non_cancelable,
              cn_tasks = (if send_cancel_email_to_learner
                          then map (\<lambda>a. Send_Cancel_Email (lca_uuid a)) cancelled else [])\<rparr>))"

record remind_result =
  rm_table :: assignments
  rm_reminded :: assignments
  rm_non_remindable :: assignments
  rm_tasks :: "task list"

definition remind_assignments :: "datetime \<Rightarrow> assignments \<Rightarrow> assignments \<Rightarrow> remind_result result" where
  "remind_assignments now table given =
     (let remindable = record_set (filter (\<lambda>a. lca_state a \<in> set remindable_states) given);
          non_remindable = filter (\<lambda>a. lca_uuid a \<notin> lca_uuid ` set remindable) (record_set given)
      in rbind (update_and_refresh_assignments state_field now remindable table) (\<lambda>(table', reminded).
         Inr \<lparr>rm_table = table', rm_reminded = reminded, rm_non_remindable = non_remindable,
              rm_tasks = map (\<lambda>a. Send_Reminder_Email (lca_uuid a)) reminded\<rparr>))"

section \<open>Course metadata and dates\<close>

type_synonym date_string = "datetime option"

record run_metadata =
  rmd_start_date :: "date_string option"
  rmd_enroll_by_date :: "date_string option"

definition empty_run_metadata :: run_metadata where
  "empty_run_metadata = \<lparr>rmd_start_date = None, rmd_enroll_by_date = None\<rparr>"

record course_metadata =
  cm_key :: string
  cm_course_type :: "string option"
  cm_normalized_metadata :: "run_metadata option"
  cm_normalized_metadata_by_run :: "(string \<times> run_metadata) list"

fun parse_datetime_string :: "date_string option \<Rightarrow> datetime option result" where
  "parse_datetime_string None = Inr None"
| "parse_datetime_string (Some (Some d)) = Inr (Some d)"
| "parse_datetime_string (Some None) = Inl ValueError"

definition content_metadata_for_assignment ::
    "learner_content_assignment \<Rightarrow> course_metadata list \<Rightarrow> course_metadata option" where
  "content_metadata_for_assignment a course_metadata_list =
     find (\<lambda>m. cm_key m = lca_content_key a \<or> Some (cm_key m) = lca_parent_content_key a) course_metadata_list"

text \<open>
  Every key of the given assignments is in the returned dictionary, with \<open>None\<close> for a course the
  catalog does not know; a later assignment of the same key wins.
\<close>

definition get_content_metadata_for_assignments ::
    "(string list \<Rightarrow> course_metadata list) \<Rightarrow> assignments \<Rightarrow> (string \<times> course_metadata option) list" where
  "get_content_metadata_for_assignments fetch as =
     (let course_metadata_list = fetch (remdups (map lca_content_key as))
      in dict_of_pairs (map (\<lambda>a. (lca_content_key a, content_metadata_for_assignment a course_metadata_list)) as))"

definition get_normalized_metadata_for_assignment ::
    "learner_content_assignment \<Rightarrow> course_metadata \<Rightarrow> run_metadata" where
  "get_normalized_metadata_for_assignment a m =
     (if truthy (lca_preferred_course_run_key a)
      then (case map_of (cm_normalized_metadata_by_run m) (the (lca_preferred_course_run_key a)) of
              Some r \<Rightarrow> r | None \<Rightarrow> empty_run_metadata)
      else (case cm_normalized_metadata m of Some r \<Rightarrow> r | None \<Rightarrow> empty_run_metadata))"

definition default_enrollment_deadline ::
    "learner_content_assignment \<Rightarrow> course_metadata option \<Rightarrow> datetime option" where
  "default_enrollment_deadline a content_metadata =
     (case content_metadata of
        None \<Rightarrow> None
      | Some m \<Rightarrow>
          (case parse_datetime_string (rmd_enroll_by_date (get_normalized_metadata_for_assignment a m)) of
             Inr d \<Rightarrow> d
           | Inl _ \<Rightarrow> None))"

definition last_course_run_enrollment_deadline :: "course_metadata \<Rightarrow> datetime option result" where
  "last_course_run_enrollment_deadline m =
     (if cm_normalized_metadata_by_run m = [] then Inr None
      else rbind (rmap (\<lambda>r. parse_datetime_string (rmd_enroll_by_date r))
                    (filter (\<lambda>r. rmd_enroll_by_date r \<noteq> None) (map snd (cm_normalized_metadata_by_run m))))
             (\<lambda>deadlines. Inr (if deadlines = [] then None else Some (Max (set (map the deadlines))))))"

definition credit_request_enrollment_deadline ::
    "datetime \<Rightarrow> learner_content_assignment \<Rightarrow> course_metadata option \<Rightarrow> datetime option result" where
  "credit_request_enrollment_deadline now a content_metadata =
     (case content_metadata of
        None \<Rightarrow> Inr None
      | Some m \<Rightarrow>
          rbind (last_course_run_enrollment_deadline m) (\<lambda>last_run_deadline.
            case last_run_deadline of
              Some d \<Rightarrow> if d > now then Inr (Some d) else Inr (default_enrollment_deadline a content_metadata)
            | None \<Rightarrow> Inr (default_enrollment_deadline a content_metadata)))"

definition credit_request_of ::
    "learner_credit_request list \<Rightarrow> learner_content_assignment \<Rightarrow> learner_credit_request option" where
  "credit_request_of requests a = find (\<lambda>r. lcr_assignment r = Some (lca_uuid a)) requests"

text \<open>The strategy factory, composed with the strategy it selects.\<close>

definition get_enrollment_deadline_date ::
    "datetime \<Rightarrow> learner_credit_request list \<Rightarrow> learner_content_assignment \<Rightarrow> course_metadata option
       \<Rightarrow> datetime option result" where
  "get_enrollment_deadline_date now requests a content_metadata =
     (if credit_request_of requests a \<noteq> None then credit_request_enrollment_deadline now a content_metadata
      else Inr (default_enrollment_deadline a content_metadata))"

datatype expired_reason = NINETY_DAYS_PASSED | ENROLLMENT_DATE_PASSED | SUBSIDY_EXPIRED

text \<open>
  The three dates in the order of the code; the sort is stable and the first element is taken.
  \<open>fetch\<close> is the catalog lookup used when the caller has no metadata.
\<close>

definition get_automatic_expiration_date_and_reason ::
    "datetime \<Rightarrow> date_string option \<Rightarrow> (string list \<Rightarrow> course_metadata list) \<Rightarrow> learner_credit_request list
       \<Rightarrow> learner_content_assignment \<Rightarrow> course_metadata option \<Rightarrow> (datetime \<times> expired_reason) result" where
  "get_automatic_expiration_date_and_reason now subsidy_expiration fetch requests a content_metadata =
     rbind (parse_datetime_string subsidy_expiration) (\<lambda>subsidy_date.
       let m = (case content_metadata of
                  Some m \<Rightarrow> Some m
                | None \<Rightarrow> (case map_of (get_content_metadata_for_assignments fetch [a]) (lca_content_key a) of
                             Some m \<Rightarrow> m | None \<Rightarrow> None))
       in rbind (get_enrollment_deadline_date now requests a m) (\<lambda>deadline.
            let dates = [(subsidy_date, SUBSIDY_EXPIRED), (deadline, ENROLLMENT_DATE_PASSED),
                         (Some (get_allocation_timeout_expiration a), NINETY_DAYS_PASSED)];
                available = map (\<lambda>(d, r). (the d, r)) (filter (\<lambda>(d, _). d \<noteq> None) dates)
            in Inr (hd (sort_key fst available))))"

section \<open>Expiring\<close>

record expire_result =
  ex_reason :: "expired_reason option"
  ex_table :: assignments
  ex_requests :: "learner_credit_request list"
  ex_tasks :: "task list"

definition expire_assignment ::
    "datetime \<Rightarrow> date_string option \<Rightarrow> (string list \<Rightarrow> course_metadata list) \<Rightarrow> assignments
       \<Rightarrow> learner_credit_request list \<Rightarrow> learner_content_assignment \<Rightarrow> course_metadata option \<Rightarrow> bool
       \<Rightarrow> expire_result result" where
  "expire_assignment now subsidy_expiration fetch table requests a content_metadata modify_assignment =
     (let unchanged = (\<lambda>reason. Inr \<lparr>ex_reason = reason, ex_table = table, ex_requests = requests, ex_tasks = []\<rparr>)
      in if lca_state a \<notin> set expirable_states then unchanged None
         else rbind (get_automatic_expiration_date_and_reason now subsidy_expiration fetch requests a content_metadata)
           (\<lambda>(date, reason).
             if date > now then unchanged None
             else if \<not> modify_assignment then unchanged (Some reason)
             else
               let a' = a\<lparr>lca_state := EXPIRED, lca_expired_at := Some now\<rparr>
               in case credit_request_of requests a of
                    Some r \<Rightarrow>
                      rbind (save_lcr now requests (r\<lparr>sr_state := SR_EXPIRED\<rparr>)) (\<lambda>(requests', _, ts).
                      rbind (save_assignment now a' table) (\<lambda>table'.
                        Inr \<lparr>ex_reason = Some reason, ex_table = table', ex_requests = requests',
                             ex_tasks = ts @ [Send_Bnr_Expired_Email (sr_uuid r)]\<rparr>))
                  | None \<Rightarrow>
                      rbind (save_assignment now a' table) (\<lambda>table'.
                        Inr \<lparr>ex_reason = Some reason, ex_table = table', ex_requests = requests,
                             ex_tasks = [Send_Assignment_Expired_Email (lca_uuid a)]\<rparr>)))"

section \<open>Nudging\<close>

definition same_day :: "datetime \<Rightarrow> datetime \<Rightarrow> bool" where
  "same_day a b \<longleftrightarrow> a div days 1 = b div days 1"

text \<open>\<open>None.date()\<close> raises \<open>AttributeError\<close>.\<close>

definition is_date_n_days_from_now :: "datetime \<Rightarrow> datetime option \<Rightarrow> int \<Rightarrow> bool result" where
  "is_date_n_days_from_now now target num_days =
     (case target of None \<Rightarrow> Inl AttributeError | Some d \<Rightarrow> Inr (same_day d (now + days num_days)))"

text \<open>One assignment: nudged or not. The dictionary holds \<open>None\<close> for an unknown course, and then the
  lookups on it raise.\<close>

definition nudge_one ::
    "datetime \<Rightarrow> (string list \<Rightarrow> course_metadata list) \<Rightarrow> int \<Rightarrow> learner_content_assignment \<Rightarrow> bool result" where
  "nudge_one now fetch days_before a =
     (if lca_state a \<noteq> ACCEPTED then Inr False
      else case map_of (get_content_metadata_for_assignments fetch [a]) (lca_content_key a) of
             Some (Some m) \<Rightarrow>
               rbind (parse_datetime_string (rmd_start_date (get_normalized_metadata_for_assignment a m))) (\<lambda>start.
               rbind (is_date_n_days_from_now now start days_before) (\<lambda>can_send.
                 Inr (cm_course_type m = Some ''executive-education-2u'' \<and> can_send)))
           | _ \<Rightarrow> Inl AttributeError)"

fun nudge_loop ::
    "datetime \<Rightarrow> (string list \<Rightarrow> course_metadata list) \<Rightarrow> int \<Rightarrow> assignments \<Rightarrow> uuid list \<Rightarrow> uuid list
       \<Rightarrow> task list \<Rightarrow> (task list \<times> (uuid list \<times> uuid list) result)" where
  "nudge_loop now fetch n [] nudged unnudged tasks = (tasks, Inr (nudged, unnudged))"
| "nudge_loop now fetch n (a # as) nudged unnudged tasks =
     (case nudge_one now fetch n a of
        Inl e \<Rightarrow> (tasks, Inl e)
      | Inr True \<Rightarrow> nudge_loop now fetch n as (nudged @ [lca_uuid a]) unnudged
                      (tasks @ [Send_Exec_Ed_Enrollment_Warmer (lca_uuid a) n])
      | Inr False \<Rightarrow> nudge_loop now fetch n as nudged (unnudged @ [lca_uuid a]) tasks)"

definition nudge_assignments ::
    "datetime \<Rightarrow> (string list \<Rightarrow> course_metadata list) \<Rightarrow> assignments \<Rightarrow> int
       \<Rightarrow> task list \<times> (uuid list \<times> uuid list) result" where
  "nudge_assignments now fetch as days_before = nudge_loop now fetch days_before as [] [] []"


section \<open>Signals\<close>

text \<open>
  The handler of \<open>post_save\<close> of a user. It runs inside the save, so its exception is the exception
  of the save.
\<close>

definition update_assignment_lms_user_id_from_user_email ::
    "datetime \<Rightarrow> core_user \<Rightarrow> assignments \<Rightarrow> assignments result" where
  "update_assignment_lms_user_id_from_user_email now user table =
     (if truthy_int (user_lms_user_id user)
      then bulk_update_assignments lms_user_id_field now
             (map (\<lambda>a. a\<lparr>lca_lms_user_id := user_lms_user_id user\<rparr>)
               (filter (\<lambda>a. iexact (lca_learner_email a) (user_email user) \<and> lca_lms_user_id a = None) table))
             table
      else Inr table)"

record reversal_state =
  rv_table :: assignments
  rv_actions :: actions
  rv_requests :: "learner_credit_request list"
  rv_request_actions :: "lcr_action list"
  rv_tasks :: "task list"

text \<open>
  The \<open>except\<close> branch: the action row written before is turned into a failure. Nothing that was
  saved is undone, the handler opens no transaction.
\<close>

definition reversal_failed :: "string \<Rightarrow> lcr_action option \<Rightarrow> reversal_state \<Rightarrow> reversal_state" where
  "reversal_failed tb action_instance st =
     (case action_instance of
        None \<Rightarrow> st
      | Some a \<Rightarrow> st\<lparr>rv_request_actions := butlast (rv_request_actions st) @
          [a\<lparr>act_status := get_user_message_choice ''accepted'',
             act_error_reason := get_error_reason_choice ''failed_reversal'',
             act_traceback := Some tb\<rparr>]\<rparr>)"

text \<open>\<open>save(update_fields=["state"])\<close>: validated as a whole, but only the state is written.\<close>

definition save_lcr_state ::
    "learner_credit_request list \<Rightarrow> learner_credit_request
       \<Rightarrow> (learner_credit_request list \<times> task list) result" where
  "save_lcr_state rows self =
     rbind (full_clean_lcr rows self) (\<lambda>_.
       Inr (map (\<lambda>row. if sr_uuid row = sr_uuid self then row\<lparr>sr_state := sr_state self\<rparr> else row) rows,
            update_course_info_for_subsidy_request ''LearnerCreditRequest'' self))"

definition reverse_assignment ::
    "datetime \<Rightarrow> string \<Rightarrow> learner_content_assignment \<Rightarrow> learner_credit_request option
       \<Rightarrow> lcr_action option \<Rightarrow> reversal_state \<Rightarrow> reversal_state" where
  "reverse_assignment now tb a request action_instance st =
     (let a' = a\<lparr>lca_state := REVERSED, lca_reversed_at := Some now\<rparr>
      in case save_assignment now a' (rv_table st) of
           Inl _ \<Rightarrow> reversal_failed tb action_instance st
         | Inr table' \<Rightarrow>
             let st1 = st\<lparr>rv_table := table', rv_actions := add_successful_reversal_action now a' (rv_actions st)\<rparr>
             in case request of
                  None \<Rightarrow> st1
                | Some r \<Rightarrow>
                    (case save_lcr_state (rv_requests st1) (r\<lparr>sr_state := SR_REVERSED\<rparr>) of
                       Inl _ \<Rightarrow> reversal_failed tb action_instance st1
                     | Inr (requests', ts) \<Rightarrow> st1\<lparr>rv_requests := requests', rv_tasks := rv_tasks st1 @ ts\<rparr>))"

definition update_assignment_status_for_reversed_transaction ::
    "datetime \<Rightarrow> string \<Rightarrow> uuid \<Rightarrow> reversal_state \<Rightarrow> reversal_state result" where
  "update_assignment_status_for_reversed_transaction now tb transaction_uuid st =
     (case get_one (filter (\<lambda>a. lca_transaction_uuid a = Some transaction_uuid) (rv_table st)) of
        Does_Not_Exist \<Rightarrow> Inr st
      | Multiple_Objects \<Rightarrow> Inl MultipleObjectsReturned
      | Found a \<Rightarrow>
          if lca_state a \<notin> set reversible_states then Inr st
          else
            (case credit_request_of (rv_requests st) a of
               None \<Rightarrow> Inr (reverse_assignment now tb a None None st)
             | Some r \<Rightarrow>
                 rbind (create_action now (Some (sr_uuid r)) (get_action_choice ''reversed'')
                          (get_user_message_choice ''reversed'') None None) (\<lambda>act.
                   Inr (reverse_assignment now tb a (Some r) (Some act)
                          (st\<lparr>rv_request_actions := rv_request_actions st @ [act]\<rparr>)))))"

section \<open>Allocation for learner credit requests\<close>

definition get_existing_assignments_for_requests ::
    "assignments \<Rightarrow> assignment_configuration \<Rightarrow> learner_credit_request list
       \<Rightarrow> ((string \<times> string) \<times> learner_content_assignment) list" where
  "get_existing_assignments_for_requests table config requests =
     (if requests = [] then []
      else
        let sub_query = (\<lambda>r a.
              (iexact (lca_learner_email a) (user_email (sr_user r)) \<and> Some (lca_content_key a) = sr_course_id r) \<or>
              (truthy_int (user_lms_user_id (sr_user r)) \<and>
               lca_lms_user_id a = user_lms_user_id (sr_user r) \<and> Some (lca_content_key a) = sr_course_id r))
        in dict_of_pairs (map (\<lambda>a. ((lower (lca_learner_email a), lca_content_key a), a))
             (filter (\<lambda>a. (\<exists>r \<in> set requests. sub_query r a) \<and>
                          lca_assignment_configuration a = Some (ac_uuid config) \<and>
                          lca_state a \<in> set reallocate_states) table)))"

definition negated_price :: "int option \<Rightarrow> int result" where
  "negated_price p = (case p of None \<Rightarrow> Inl TypeError | Some c \<Rightarrow> Inr (c * -1))"

text \<open>The metadata of the courses of the batch, by key; a record without a key raises \<open>KeyError\<close>.\<close>

definition metadata_by_key ::
    "alloc_env \<Rightarrow> uuid \<Rightarrow> learner_credit_request list \<Rightarrow> (string \<times> content_summary) list result" where
  "metadata_by_key env catalog requests =
     rbind (ae_catalog_metadata env catalog (remdups (List.map_filter sr_course_id requests))) (\<lambda>metas.
     rbind (rmap (\<lambda>m. case cd_key m of
                        None \<Rightarrow> Inl KeyError
                      | Some k \<Rightarrow> Inr (k, summary_data_for_content (Some k) m)) metas) (\<lambda>ps.
       Inr (dict_of_pairs ps)))"

definition request_metadata :: "(string \<times> content_summary) list \<Rightarrow> learner_credit_request \<Rightarrow> content_summary option" where
  "request_metadata metadata r = Option.bind (sr_course_id r) (map_of metadata)"

text \<open>
  The summary has no key \<open>parent_content_key\<close>, so \<open>get\<close> returns \<open>None\<close> for it in both paths.
\<close>

definition reallocate_for_request ::
    "alloc_env \<Rightarrow> assignments \<Rightarrow> (string \<times> content_summary) list \<Rightarrow> learner_credit_request
       \<Rightarrow> learner_content_assignment \<Rightarrow> learner_content_assignment result" where
  "reallocate_for_request env table metadata r a =
     rbind (negated_price (lcr_course_price r)) (\<lambda>quantity.
       reallocate_assignment env table quantity
         (Option.bind (request_metadata metadata r) cs_course_run_key) None False a)"

definition new_assignment_for_request ::
    "alloc_env \<Rightarrow> assignment_configuration \<Rightarrow> (string \<times> content_summary) list \<Rightarrow> nat \<times> learner_credit_request
       \<Rightarrow> learner_content_assignment result" where
  "new_assignment_for_request env config metadata ir =
     (case ir of (i, r) \<Rightarrow>
       rbind (negated_price (lcr_course_price r)) (\<lambda>quantity.
         case sr_course_id r of
           None \<Rightarrow> Inl IntegrityError
         | Some content_key \<Rightarrow>
             Inr \<lparr>lca_uuid = ae_fresh_uuid env i, lca_assignment_configuration = Some (ac_uuid config),
                  lca_learner_email = user_email (sr_user r), lca_lms_user_id = user_lms_user_id (sr_user r),
                  lca_content_key = content_key, lca_parent_content_key = None,
                  lca_is_assigned_course_run = False,
                  lca_content_title = Option.bind (request_metadata metadata r) cs_content_title,
                  lca_content_quantity = quantity,
                  lca_preferred_course_run_key = Option.bind (request_metadata metadata r) cs_course_run_key,
                  lca_state = ALLOCATED, lca_allocated_at = ae_now env, lca_accepted_at = None,
                  lca_cancelled_at = None, lca_expired_at = None, lca_errored_at = None,
                  lca_reversed_at = None, lca_transaction_uuid = None,
                  lca_allocation_batch_id = Some (ae_batch_id env), lca_admin_lms_user_id = None,
                  lca_modified = ae_now env\<rparr>))"

definition create_new_assignments_for_requests ::
    "alloc_env \<Rightarrow> assignments \<Rightarrow> assignment_configuration \<Rightarrow> learner_credit_request list
       \<Rightarrow> (string \<times> content_summary) list \<Rightarrow> (assignments \<times> assignments) result" where
  "create_new_assignments_for_requests env table config requests metadata =
     (if requests = [] then Inr (table, [])
      else rbind (rmap (new_assignment_for_request env config metadata) (enumerate 0 requests)) (\<lambda>to_create.
           rbind (rmap clean_assignment to_create) (\<lambda>_.
           rbind (bulk_create_assignments to_create table) (\<lambda>table'.
             Inr (table', filter (\<lambda>a. lca_uuid a \<in> lca_uuid ` set to_create) table')))))"

definition allocate_assignment_for_requests ::
    "alloc_env \<Rightarrow> assignments \<Rightarrow> assignment_configuration \<Rightarrow> uuid \<Rightarrow> learner_credit_request list
       \<Rightarrow> (assignments \<times> (uuid \<times> learner_content_assignment option) list) result" where
  "allocate_assignment_for_requests env table config catalog requests =
     rbind (metadata_by_key env catalog requests) (\<lambda>metadata.
       let existing = get_existing_assignments_for_requests table config requests;
           lookup = (\<lambda>r. Option.bind (sr_course_id r) (\<lambda>k. map_of existing (lower (user_email (sr_user r)), k)));
           reused = filter (\<lambda>r. lookup r \<noteq> None) requests;
           fresh = filter (\<lambda>r. lookup r = None) requests
       in rbind (rmap (\<lambda>r. reallocate_for_request env table metadata r (the (lookup r))) reused) (\<lambda>to_update.
          rbind (update_and_refresh_assignments assignment_reallocation_fields (ae_now env) (rev to_update) table)
            (\<lambda>(table1, updated).
          rbind (create_new_assignments_for_requests env table1 config fresh metadata) (\<lambda>(table2, created).
            let by_learner = dict_of_pairs (map (\<lambda>a. ((lca_lms_user_id a, Some (lca_content_key a)), a)) (updated @ created))
            in Inr (table2, dict_of_pairs (map (\<lambda>r. (sr_uuid r,
                 map_of by_learner (user_lms_user_id (sr_user r), sr_course_id r))) requests))))))"


section \<open>Lemmas\<close>

lemma dict_of_pairs_single: "dict_of_pairs [(k, v)] = [(k, v)]"
  by (simp add: dict_of_pairs_def)

lemma image_union_fresh: "f ` (A \<union> {x \<in> B. f x \<notin> f ` A}) = f ` A \<union> f ` B"
proof
  show "f ` A \<union> f ` B \<subseteq> f ` (A \<union> {x \<in> B. f x \<notin> f ` A})"
  proof
    fix y assume "y \<in> f ` A \<union> f ` B"
    then show "y \<in> f ` (A \<union> {x \<in> B. f x \<notin> f ` A})" by (cases "y \<in> f ` A") auto
  qed
qed auto

lemma record_set_step:
  assumes "distinct (map lca_uuid acc)"
  defines "step \<equiv> \<lambda>a acc. if lca_uuid a \<in> lca_uuid ` set acc then acc else acc @ [a]"
  shows "distinct (map lca_uuid (fold step as acc)) \<and>
    lca_uuid ` set (fold step as acc) = lca_uuid ` set acc \<union> lca_uuid ` set as \<and>
    set (fold step as acc) \<subseteq> set acc \<union> set as"
  using assms(1)
proof (induction as arbitrary: acc)
  case (Cons a as)
  have "distinct (map lca_uuid (step a acc))" using Cons.prems by (auto simp: step_def)
  from Cons.IH [OF this] show ?case by (auto simp: step_def split: if_splits)
qed simp

lemma record_set_props:
  "distinct (map lca_uuid (record_set as))"
  "lca_uuid ` set (record_set as) = lca_uuid ` set as"
  "set (record_set as) \<subseteq> set as"
  using record_set_step [of "[]" as] by (auto simp: record_set_def)

lemma set_record_set:
  assumes "set as \<subseteq> set table" and "distinct (map lca_uuid table)"
  shows "set (record_set as) = set as"
proof
  show "set as \<subseteq> set (record_set as)"
  proof
    fix a assume a: "a \<in> set as"
    then obtain b where b: "b \<in> set (record_set as)" "lca_uuid b = lca_uuid a"
      using record_set_props(2) [of as] by (metis imageE image_eqI)
    then have "b = a"
      using distinct_key_inj [OF assms(2), of b a] record_set_props(3) [of as] assms(1) a by auto
    with b show "a \<in> set (record_set as)" by simp
  qed
qed (rule record_set_props)

lemma unique_slots_map:
  assumes "\<And>a. lca_uuid (f a) = lca_uuid a" "\<And>a. lca_assignment_configuration (f a) = lca_assignment_configuration a"
    "\<And>a. lca_content_key (f a) = lca_content_key a" "\<And>a. lca_learner_email (f a) = lca_learner_email a"
    "\<And>a. lca_lms_user_id (f a) = lca_lms_user_id a"
  shows "unique_slots (map f xs) \<longleftrightarrow> unique_slots xs"
  by (induction xs) (simp_all add: same_learner_slot_def assms)

lemma update_state_pass:
  assumes "distinct (map lca_uuid table)" and "set xs \<subseteq> set table"
    and "\<And>x. lca_uuid (g x) = lca_uuid x"
  shows "update_and_refresh_assignments state_field now (map g xs) table =
    (let table' = map (\<lambda>row. if row \<in> set xs then row\<lparr>lca_state := lca_state (g row), lca_modified := now\<rparr> else row) table
     in if unique_slots table then Inr (table', filter (\<lambda>a. lca_uuid a \<in> lca_uuid ` set xs) table')
        else Inl IntegrityError)"
proof -
  have k: "lca_uuid ` set (map g xs) = lca_uuid ` set xs" by (simp add: image_image assms(3))
  have u: "unique_slots (map (\<lambda>row. if row \<in> set xs then row\<lparr>lca_state := lca_state (g row), lca_modified := now\<rparr> else row) table)
      \<longleftrightarrow> unique_slots table"
    by (rule unique_slots_map) simp_all
  show ?thesis
    unfolding update_and_refresh_assignments_def k bulk_update_pass [OF assms(1,2), of g, OF assms(3)]
    by (simp add: state_field_def checked_table_def u Let_def cong: if_cong)
qed

text \<open>The closed form of a cancellation.\<close>

definition cancelled_row :: "datetime \<Rightarrow> assignments \<Rightarrow> learner_content_assignment \<Rightarrow> learner_content_assignment" where
  "cancelled_row now given a =
     (if a \<in> set given \<and> lca_state a \<in> {ALLOCATED, ERRORED}
      then a\<lparr>lca_state := CANCELLED, lca_modified := now\<rparr> else a)"

lemma cancelled_row_simps [simp]:
  "lca_uuid (cancelled_row now given a) = lca_uuid a"
  "lca_assignment_configuration (cancelled_row now given a) = lca_assignment_configuration a"
  "lca_content_key (cancelled_row now given a) = lca_content_key a"
  "lca_learner_email (cancelled_row now given a) = lca_learner_email a"
  "lca_lms_user_id (cancelled_row now given a) = lca_lms_user_id a"
  by (simp_all add: cancelled_row_def)

lemma cancel_closed:
  fixes now :: datetime and given table :: assignments
  assumes d: "distinct (map lca_uuid table)" and sub: "set given \<subseteq> set table"
  defines "C \<equiv> {a \<in> set given. lca_state a \<in> {ALLOCATED, ERRORED}}"
  defines "T \<equiv> map (cancelled_row now given) table"
  shows "cancel_assignments now table given send =
    (if unique_slots table
     then Inr \<lparr>cn_table = T,
        cn_cancelled = filter (\<lambda>a. lca_uuid a \<in> lca_uuid ` C) T @
          filter (\<lambda>a. lca_uuid a \<notin> lca_uuid ` set (filter (\<lambda>a. lca_uuid a \<in> lca_uuid ` C) T))
            (record_set (filter (\<lambda>a. lca_state a = CANCELLED) given)),
        cn_non_cancelable = filter (\<lambda>a. lca_uuid a \<notin> lca_uuid ` C \<and>
            lca_uuid a \<notin> lca_uuid ` {a \<in> set given. lca_state a = CANCELLED}) (record_set given),
        cn_tasks = (if send then map (\<lambda>a. Send_Cancel_Email (lca_uuid a)) (filter (\<lambda>a. lca_uuid a \<in> lca_uuid ` C) T)
                    else [])\<rparr>
     else Inl IntegrityError)"
proof -
  define cs where "cs = record_set (filter (\<lambda>a. lca_state a \<in> set cancelable_states) given)"
  have fs: "set (filter P given) \<subseteq> set table" for P using sub by auto
  have cs: "set cs = C"
    unfolding cs_def set_record_set [OF fs d] by (auto simp: C_def cancelable_states_def)
  have al: "lca_uuid ` set (record_set (filter (\<lambda>a. lca_state a = CANCELLED) given)) =
      lca_uuid ` {a \<in> set given. lca_state a = CANCELLED}"
    by (simp add: record_set_props(2))
  have csub: "set cs \<subseteq> set table" using cs sub by (auto simp: C_def)
  have T: "map (\<lambda>row. if row \<in> set cs then row\<lparr>lca_state := lca_state (row\<lparr>lca_state := CANCELLED\<rparr>), lca_modified := now\<rparr> else row) table = T"
    by (auto simp: T_def cancelled_row_def cs C_def)
  have up: "update_and_refresh_assignments state_field now (map (\<lambda>a. a\<lparr>lca_state := CANCELLED\<rparr>) cs) table =
      (if unique_slots table then Inr (T, filter (\<lambda>a. lca_uuid a \<in> lca_uuid ` C) T) else Inl IntegrityError)"
    using update_state_pass [OF d csub, of "\<lambda>a. a\<lparr>lca_state := CANCELLED\<rparr>" now, unfolded Let_def T]
    by (simp add: cs)
  show ?thesis
    unfolding cancel_assignments_def Let_def cs_def [symmetric] up al cs by simp
qed

text \<open>The closed form of a reminder.\<close>

lemma reminded_rows:
  assumes d: "distinct (map lca_uuid table)" and un: "unique_slots table" and sub: "set given \<subseteq> set table"
  shows "\<exists>r. remind_assignments now table given = Inr r \<and>
    rm_table r = map (\<lambda>a. if a \<in> set given \<and> lca_state a = ALLOCATED then a\<lparr>lca_modified := now\<rparr> else a) table \<and>
    rm_tasks r = map (\<lambda>a. Send_Reminder_Email (lca_uuid a))
      (filter (\<lambda>a. a \<in> set given \<and> lca_state a = ALLOCATED) table)"
proof -
  define C where "C = record_set (filter (\<lambda>a. lca_state a \<in> set remindable_states) given)"
  have fs: "set (filter P given) \<subseteq> set table" for P using sub by auto
  have C: "set C = {a \<in> set given. lca_state a = ALLOCATED}"
    unfolding C_def set_record_set [OF fs d] by (auto simp: remindable_states_def)
  have csub: "set C \<subseteq> set table" using C sub by auto
  define T where "T = map (\<lambda>a. if a \<in> set given \<and> lca_state a = ALLOCATED then a\<lparr>lca_modified := now\<rparr> else a) table"
  have T: "map (\<lambda>a. if a \<in> set C then a\<lparr>lca_state := lca_state a, lca_modified := now\<rparr> else a) table = T"
    by (auto simp: C T_def)
  have up: "update_and_refresh_assignments state_field now C table =
      Inr (T, filter (\<lambda>a. lca_uuid a \<in> lca_uuid ` set C) T)"
    using update_state_pass [OF d csub, of "\<lambda>a. a" now, unfolded Let_def T] un by simp
  have "lca_uuid a \<in> lca_uuid ` set C \<longleftrightarrow> a \<in> set given \<and> lca_state a = ALLOCATED" if "a \<in> set table" for a
    using distinct_key_inj [OF d] that csub unfolding C by blast
  then have "map (\<lambda>a. Send_Reminder_Email (lca_uuid a)) (filter (\<lambda>a. lca_uuid a \<in> lca_uuid ` set C) T) =
      map (\<lambda>a. Send_Reminder_Email (lca_uuid a)) (filter (\<lambda>a. a \<in> set given \<and> lca_state a = ALLOCATED) table)"
    unfolding T_def filter_map map_map o_def if_distrib [where f = lca_uuid] learner_content_assignment.simps if_cancel
    by (auto intro!: map_cong filter_cong)
  then show ?thesis
    unfolding remind_assignments_def Let_def C_def [symmetric] up T_def [symmetric] by simp
qed

section \<open>Properties\<close>

lemma cancelled_rows:
  assumes run: "cancel_assignments now table given send = Inr r"
    and d: "distinct (map lca_uuid table)" and sub: "set given \<subseteq> set table"
  shows "cn_table r = map (\<lambda>a. if a \<in> set given \<and> lca_state a \<in> {ALLOCATED, ERRORED}
                              then a\<lparr>lca_state := CANCELLED, lca_modified := now\<rparr> else a) table \<and>
    lca_uuid ` set (cn_cancelled r) = lca_uuid ` {a \<in> set given. lca_state a \<in> {ALLOCATED, ERRORED, CANCELLED}} \<and>
    set (cn_non_cancelable r) = {a \<in> set given. lca_state a \<notin> {ALLOCATED, ERRORED, CANCELLED}} \<and>
    (\<exists>r2. cancel_assignments now' (cn_table r) (filter (\<lambda>a. lca_uuid a \<in> lca_uuid ` set given) (cn_table r)) send = Inr r2 \<and>
       cn_table r2 = cn_table r \<and> cn_tasks r2 = [] \<and>
       lca_uuid ` set (cn_cancelled r2) = lca_uuid ` set (cn_cancelled r))"
proof -
  define f where "f = cancelled_row now given"
  define C where "C = {a \<in> set given. lca_state a \<in> {ALLOCATED, ERRORED}}"
  note closed = cancel_closed [OF d sub, of now send, folded f_def C_def]
  have un: "unique_slots table" using run closed by (auto split: if_splits)
  have r: "r = projr (cancel_assignments now table given send)" using run by simp
  have T: "cn_table r = map f table"
    and Cn: "cn_cancelled r = filter (\<lambda>a. lca_uuid a \<in> lca_uuid ` C) (map f table) @
        filter (\<lambda>a. lca_uuid a \<notin> lca_uuid ` set (filter (\<lambda>a. lca_uuid a \<in> lca_uuid ` C) (map f table)))
            (record_set (filter (\<lambda>a. lca_state a = CANCELLED) given))"
    and N: "cn_non_cancelable r = filter (\<lambda>a. lca_uuid a \<notin> lca_uuid ` C \<and>
            lca_uuid a \<notin> lca_uuid ` {a \<in> set given. lca_state a = CANCELLED}) (record_set given)"
    using un by (simp_all add: r closed)
  have key: "a = b" if "a \<in> set given" "b \<in> set table" "lca_uuid a = lca_uuid b" for a b
    using distinct_key_inj [OF d] sub that by blast
  have ids: "lca_uuid ` set (filter (\<lambda>a. lca_uuid a \<in> lca_uuid ` C) (map f table)) = lca_uuid ` C"
  proof
    show "lca_uuid ` C \<subseteq> lca_uuid ` set (filter (\<lambda>a. lca_uuid a \<in> lca_uuid ` C) (map f table))"
    proof
      fix x assume "x \<in> lca_uuid ` C"
      then obtain a where "a \<in> C" "x = lca_uuid a" by blast
      then have "f a \<in> set (filter (\<lambda>a. lca_uuid a \<in> lca_uuid ` C) (map f table))" "x = lca_uuid (f a)"
        using sub by (auto simp: C_def f_def)
      then show "x \<in> lca_uuid ` set (filter (\<lambda>a. lca_uuid a \<in> lca_uuid ` C) (map f table))" by blast
    qed
  qed auto
  have all_ids: "lca_uuid ` set (cn_cancelled r) = lca_uuid ` {a \<in> set given. lca_state a \<in> {ALLOCATED, ERRORED, CANCELLED}}"
  proof -
    have "lca_uuid ` set (cn_cancelled r) = lca_uuid ` C \<union> lca_uuid ` {a \<in> set given. lca_state a = CANCELLED}"
      using image_union_fresh [of lca_uuid "set (filter (\<lambda>a. lca_uuid a \<in> lca_uuid ` C) (map f table))"
          "set (record_set (filter (\<lambda>a. lca_state a = CANCELLED) given))"] ids
      by (simp only: Cn set_append set_filter record_set_props(2))
    also have "\<dots> = lca_uuid ` {a \<in> set given. lca_state a \<in> {ALLOCATED, ERRORED, CANCELLED}}"
      by (auto simp: C_def)
    finally show ?thesis .
  qed
  have non: "set (cn_non_cancelable r) = {a \<in> set given. lca_state a \<notin> {ALLOCATED, ERRORED, CANCELLED}}"
    using key sub by (fastforce simp: N C_def set_record_set [OF sub d])
  define given2 where "given2 = filter (\<lambda>a. lca_uuid a \<in> lca_uuid ` set given) (map f table)"
  have g2: "set given2 = f ` set given"
    using key sub by (fastforce simp: given2_def f_def)
  have st2: "lca_state b \<notin> {ALLOCATED, ERRORED}" if "b \<in> set given2" for b
    using that by (auto simp: g2 f_def cancelled_row_def)
  have d2: "distinct (map lca_uuid (map f table))" and un2: "unique_slots (map f table)"
    using d un unique_slots_map [of f table] by (simp_all add: f_def o_def)
  have sub2: "set given2 \<subseteq> set (map f table)" by (auto simp: given2_def)
  have none: "{a \<in> set given2. lca_state a \<in> {ALLOCATED, ERRORED}} = {}" using st2 by blast
  have same: "map (cancelled_row now' given2) (map f table) = map f table"
    using st2 by (auto simp: cancelled_row_def)
  have second: "cancel_assignments now' (map f table) given2 send =
      Inr \<lparr>cn_table = map f table, cn_cancelled = record_set (filter (\<lambda>a. lca_state a = CANCELLED) given2),
        cn_non_cancelable = filter (\<lambda>a. lca_uuid a \<notin> lca_uuid ` {a \<in> set given2. lca_state a = CANCELLED}) (record_set given2),
        cn_tasks = []\<rparr>"
    using cancel_closed [OF d2 sub2, of now' send] un2 unfolding none same by simp
  have "lca_state (f a) = CANCELLED \<longleftrightarrow> lca_state a \<in> {ALLOCATED, ERRORED, CANCELLED}" if "a \<in> set given" for a
    by (simp add: f_def cancelled_row_def that)
  then have "{b \<in> f ` set given. lca_state b = CANCELLED} = f ` {a \<in> set given. lca_state a \<in> {ALLOCATED, ERRORED, CANCELLED}}"
    by blast
  then have "lca_uuid ` set (record_set (filter (\<lambda>a. lca_state a = CANCELLED) given2)) =
      lca_uuid ` {a \<in> set given. lca_state a \<in> {ALLOCATED, ERRORED, CANCELLED}}"
    unfolding record_set_props(2) set_filter g2 by (simp add: image_image f_def)
  then have "\<exists>r2. cancel_assignments now' (cn_table r) given2 send = Inr r2 \<and> cn_table r2 = cn_table r \<and>
      cn_tasks r2 = [] \<and> lca_uuid ` set (cn_cancelled r2) = lca_uuid ` set (cn_cancelled r)"
    unfolding T all_ids second by simp
  moreover have "cn_table r = map (\<lambda>a. if a \<in> set given \<and> lca_state a \<in> {ALLOCATED, ERRORED}
                              then a\<lparr>lca_state := CANCELLED, lca_modified := now\<rparr> else a) table"
    unfolding T f_def cancelled_row_def [abs_def] by (rule refl)
  ultimately show ?thesis using all_ids non unfolding given2_def T by (intro conjI)
qed

text \<open>
  Cancelling. Given rows of the table, exactly the allocated and the errored ones become
  cancelled (their \<open>cancelled_at\<close> is left alone), all others stay as they are; the answer splits the
  given rows into cancelled now or before, and not cancelable. The call is idempotent: repeating it
  on the refreshed rows gives the same answer, changes nothing and sends no message.
\<close>

theorem cancel_assignments_effect:
  assumes run: "cancel_assignments now table given send = Inr r"
    and d: "distinct (map lca_uuid table)" and sub: "set given \<subseteq> set table"
  shows "cn_table r = map (\<lambda>a. if a \<in> set given \<and> lca_state a \<in> {ALLOCATED, ERRORED}
                              then a\<lparr>lca_state := CANCELLED, lca_modified := now\<rparr> else a) table \<and>
    lca_uuid ` set (cn_cancelled r) = lca_uuid ` {a \<in> set given. lca_state a \<in> {ALLOCATED, ERRORED, CANCELLED}} \<and>
    set (cn_non_cancelable r) = {a \<in> set given. lca_state a \<notin> {ALLOCATED, ERRORED, CANCELLED}} \<and>
    (\<exists>r2. cancel_assignments now' (cn_table r) (filter (\<lambda>a. lca_uuid a \<in> lca_uuid ` set given) (cn_table r)) send = Inr r2 \<and>
       cn_table r2 = cn_table r \<and> cn_tasks r2 = [] \<and>
       lca_uuid ` set (cn_cancelled r2) = lca_uuid ` set (cn_cancelled r))"
  using assms by (rule cancelled_rows)

definition demo_rows :: assignments where
  "demo_rows = [demo_assignment, demo_assignment\<lparr>lca_uuid := 12, lca_learner_email := ''x@y.z'',
     lca_lms_user_id := None, lca_state := ACCEPTED, lca_transaction_uuid := Some 77\<rparr>]"

lemma demo_rows_ok: "distinct (map lca_uuid demo_rows)"
  by (simp add: demo_rows_def demo_assignment_def)

theorem cancel_assignments_effect_witness:
  "cn_table (projr (cancel_assignments 9 demo_rows demo_rows True)) =
     map (\<lambda>a. if a \<in> set demo_rows \<and> lca_state a \<in> {ALLOCATED, ERRORED}
              then a\<lparr>lca_state := CANCELLED, lca_modified := 9\<rparr> else a) demo_rows \<and>
   set (cn_non_cancelable (projr (cancel_assignments 9 demo_rows demo_rows True))) =
     {a \<in> set demo_rows. lca_state a \<notin> {ALLOCATED, ERRORED, CANCELLED}}"
proof -
  have "isl (cancel_assignments 9 demo_rows demo_rows True) = False" by code_simp
  then have "cancel_assignments 9 demo_rows demo_rows True = Inr (projr (cancel_assignments 9 demo_rows demo_rows True))"
    by simp
  from cancel_assignments_effect [OF this demo_rows_ok subset_refl] show ?thesis by blast
qed

lemma hd_sort_key:
  assumes "xs \<noteq> []"
  shows "hd (sort_key f xs) \<in> set xs \<and> (\<forall>x \<in> set xs. f (hd (sort_key f xs)) \<le> f x)"
proof -
  have ne: "sort_key f xs \<noteq> []" using assms by (metis set_empty set_sort)
  then obtain y ys where y: "sort_key f xs = y # ys" by (cases "sort_key f xs") auto
  have "sorted (map f (y # ys))" using sorted_sort_key [of f xs] y by simp
  moreover have "set (y # ys) = set xs" using y by (metis set_sort)
  ultimately show ?thesis using y by force
qed

lemma automatic_expiration_min:
  assumes "get_automatic_expiration_date_and_reason now se fetch requests a cm = Inr (date, reason)"
  shows "\<exists>subsidy deadline m. parse_datetime_string se = Inr subsidy \<and>
    get_enrollment_deadline_date now requests a m = Inr deadline \<and> (cm \<noteq> None \<longrightarrow> m = cm) \<and>
    date \<le> get_allocation_timeout_expiration a \<and>
    (\<forall>d. subsidy = Some d \<or> deadline = Some d \<longrightarrow> date \<le> d) \<and>
    (case reason of SUBSIDY_EXPIRED \<Rightarrow> subsidy = Some date | ENROLLMENT_DATE_PASSED \<Rightarrow> deadline = Some date
       | NINETY_DAYS_PASSED \<Rightarrow> date = get_allocation_timeout_expiration a)"
proof -
  define m where "m = (case cm of Some m \<Rightarrow> Some m
      | None \<Rightarrow> (case map_of (get_content_metadata_for_assignments fetch [a]) (lca_content_key a) of
                             Some m \<Rightarrow> m | None \<Rightarrow> None))"
  obtain subsidy deadline where s: "parse_datetime_string se = Inr subsidy"
    and dl: "get_enrollment_deadline_date now requests a m = Inr deadline"
    and h: "hd (sort_key fst (map (\<lambda>(d, r). (the d, r)) (filter (\<lambda>(d, _). d \<noteq> None)
      [(subsidy, SUBSIDY_EXPIRED), (deadline, ENROLLMENT_DATE_PASSED),
       (Some (get_allocation_timeout_expiration a), NINETY_DAYS_PASSED)]))) = (date, reason)"
    using assms unfolding get_automatic_expiration_date_and_reason_def m_def [symmetric] Let_def rbind_Inr_iff by auto
  define xs where "xs = map (\<lambda>(d, r). (the d, r)) (filter (\<lambda>(d, _). d \<noteq> None)
      [(subsidy, SUBSIDY_EXPIRED), (deadline, ENROLLMENT_DATE_PASSED),
       (Some (get_allocation_timeout_expiration a), NINETY_DAYS_PASSED)])"
  have xs: "set xs = {(d, r). (r = SUBSIDY_EXPIRED \<and> subsidy = Some d) \<or> (r = ENROLLMENT_DATE_PASSED \<and> deadline = Some d) \<or>
      (r = NINETY_DAYS_PASSED \<and> d = get_allocation_timeout_expiration a)}"
    by (cases subsidy; cases deadline) (auto simp: xs_def)
  then have "xs \<noteq> []" by (metis (mono_tags, lifting) case_prodI emptyE list.set(1) mem_Collect_eq)
  from hd_sort_key [OF this, of fst] h [folded xs_def]
  have hd: "(date, reason) \<in> set xs" and le: "\<And>d r. (d, r) \<in> set xs \<Longrightarrow> date \<le> d" by auto
  have "date \<le> get_allocation_timeout_expiration a \<and>
    (\<forall>d. subsidy = Some d \<or> deadline = Some d \<longrightarrow> date \<le> d)"
    using le by (auto simp: xs)
  moreover have "case reason of SUBSIDY_EXPIRED \<Rightarrow> subsidy = Some date | ENROLLMENT_DATE_PASSED \<Rightarrow> deadline = Some date
       | NINETY_DAYS_PASSED \<Rightarrow> date = get_allocation_timeout_expiration a"
    using hd by (auto simp: xs)
  moreover have "cm \<noteq> None \<longrightarrow> m = cm" by (auto simp: m_def)
  ultimately show ?thesis using s dl by blast
qed


lemma put_row_unique:
  assumes "distinct (map lca_uuid table)" and "a \<in> set table" and "lca_uuid a' = lca_uuid a"
  shows "put_row lca_uuid a' table = map (\<lambda>b. if b = a then a' else b) table"
  using assms distinct_key_inj [OF assms(1) _ assms(2)] by (auto simp: put_row_def)

lemma save_assignment_keeps_slots:
  assumes "distinct (map lca_uuid table)" and "unique_slots table" and "a \<in> set table"
    and "a' = a\<lparr>lca_state := s, lca_expired_at := e, lca_reversed_at := r\<rparr>"
  shows "save_assignment now a' table =
    Inr (map (\<lambda>b. if b = a then a'\<lparr>lca_modified := now\<rparr> else b) table)"
proof -
  have p: "put_row lca_uuid (a'\<lparr>lca_modified := now\<rparr>) table =
      map (\<lambda>b. if b = a then a'\<lparr>lca_modified := now\<rparr> else b) table"
    by (rule put_row_unique [OF assms(1,3)]) (simp add: assms(4))
  have "unique_slots (map (\<lambda>b. if b = a then a'\<lparr>lca_modified := now\<rparr> else b) table) \<longleftrightarrow> unique_slots table"
    by (rule unique_slots_map) (simp_all add: assms(4))
  then show ?thesis using assms(2) by (simp add: save_assignment_def p checked_table_def)
qed

lemma expired_row:
  assumes run: "expire_assignment now se fetch table requests a cm True = Inr e"
    and d: "distinct (map lca_uuid table)" and un: "unique_slots table" and a: "a \<in> set table"
  shows "(ex_reason e \<noteq> None \<longleftrightarrow> lca_state a = ALLOCATED \<and>
       (\<exists>date r. get_automatic_expiration_date_and_reason now se fetch requests a cm = Inr (date, r) \<and> date \<le> now)) \<and>
    (lca_state a = ALLOCATED \<and> lca_allocated_at a + days 90 \<le> now \<longrightarrow> ex_reason e \<noteq> None) \<and>
    ex_table e = (if ex_reason e = None then table else
       map (\<lambda>b. if b = a then a\<lparr>lca_state := EXPIRED, lca_expired_at := Some now, lca_modified := now\<rparr> else b) table) \<and>
    (ex_reason e = None \<longrightarrow> ex_requests e = requests \<and> ex_tasks e = []) \<and>
    (ex_reason e \<noteq> None \<longrightarrow> (case credit_request_of requests a of
         None \<Rightarrow> ex_requests e = requests \<and> ex_tasks e = [Send_Assignment_Expired_Email (lca_uuid a)]
       | Some r \<Rightarrow> r\<lparr>sr_state := SR_EXPIRED, lcr_modified := now\<rparr> \<in> set (ex_requests e) \<and>
                   last (ex_tasks e) = Send_Bnr_Expired_Email (sr_uuid r))) \<and>
    (\<exists>e0. expire_assignment now se fetch table requests a cm False = Inr e0 \<and> ex_reason e0 = ex_reason e \<and>
       ex_table e0 = table \<and> ex_requests e0 = requests \<and> ex_tasks e0 = [])"
proof (cases "lca_state a = ALLOCATED")
  case False
  then show ?thesis using run by (auto simp: expire_assignment_def expirable_states_def Let_def)
next
  case True
  then obtain date reason where
    dr: "get_automatic_expiration_date_and_reason now se fetch requests a cm = Inr (date, reason)"
    using run by (auto simp: expire_assignment_def expirable_states_def Let_def rbind_Inr_iff)
  have ninety: "date \<le> lca_allocated_at a + days 90"
    using automatic_expiration_min [OF dr]
    by (auto simp: get_allocation_timeout_expiration_def num_days_before_auto_expiration_def)
  show ?thesis
  proof (cases "date > now")
    case future: True
    then show ?thesis using run True dr ninety
      by (auto simp: expire_assignment_def expirable_states_def Let_def)
  next
    case False
    have sv: "save_assignment now (a\<lparr>lca_state := EXPIRED, lca_expired_at := Some now\<rparr>) table =
        Inr (map (\<lambda>b. if b = a then a\<lparr>lca_state := EXPIRED, lca_expired_at := Some now, lca_modified := now\<rparr> else b) table)"
      using save_assignment_keeps_slots [where s = EXPIRED and e = "Some now" and r = "lca_reversed_at a" and now = now, OF d un a refl]
      by simp
    have dry: "expire_assignment now se fetch table requests a cm False =
        Inr \<lparr>ex_reason = Some reason, ex_table = table, ex_requests = requests, ex_tasks = []\<rparr>"
      using True False dr by (simp add: expire_assignment_def expirable_states_def Let_def)
    show ?thesis
    proof (cases "credit_request_of requests a")
      case None
      then have "e = \<lparr>ex_reason = Some reason,
          ex_table = map (\<lambda>b. if b = a then a\<lparr>lca_state := EXPIRED, lca_expired_at := Some now, lca_modified := now\<rparr> else b) table,
          ex_requests = requests, ex_tasks = [Send_Assignment_Expired_Email (lca_uuid a)]\<rparr>"
        using run True False dr sv by (simp add: expire_assignment_def expirable_states_def Let_def)
      then show ?thesis using True False dr dry None by simp
    next
      case (Some r)
      then obtain requests' ts where
        lcr: "save_lcr now requests (r\<lparr>sr_state := SR_EXPIRED\<rparr>) = Inr (requests', r\<lparr>sr_state := SR_EXPIRED, lcr_modified := now\<rparr>, ts)"
        and e: "e = \<lparr>ex_reason = Some reason,
          ex_table = map (\<lambda>b. if b = a then a\<lparr>lca_state := EXPIRED, lca_expired_at := Some now, lca_modified := now\<rparr> else b) table,
          ex_requests = requests', ex_tasks = ts @ [Send_Bnr_Expired_Email (sr_uuid r)]\<rparr>"
        using run True False dr sv
        by (auto simp: expire_assignment_def expirable_states_def Let_def rbind_Inr_iff save_lcr_iff)
      have "r\<lparr>sr_state := SR_EXPIRED, lcr_modified := now\<rparr> \<in> set requests'"
        using lcr by (simp add: save_lcr_iff set_upsert_lcr)
      then show ?thesis using True False dr dry Some e by simp
    qed
  qed
qed

text \<open>
  Expiring. A stored assignment is expired exactly when it is allocated and the earliest of its
  dates (end of the subsidy, enrollment deadline, ninety days after allocation) is not in the
  future, so at the latest after ninety days. Then its row and the request behind it are marked
  and the message fitting its kind is sent; otherwise nothing changes. A dry run gives the same
  reason and changes nothing.
\<close>

theorem expire_assignment_exact:
  assumes run: "expire_assignment now se fetch table requests a cm True = Inr e"
    and d: "distinct (map lca_uuid table)" and un: "unique_slots table" and a: "a \<in> set table"
  shows "(ex_reason e \<noteq> None \<longleftrightarrow> lca_state a = ALLOCATED \<and>
       (\<exists>date r. get_automatic_expiration_date_and_reason now se fetch requests a cm = Inr (date, r) \<and> date \<le> now)) \<and>
    (lca_state a = ALLOCATED \<and> lca_allocated_at a + days 90 \<le> now \<longrightarrow> ex_reason e \<noteq> None) \<and>
    ex_table e = (if ex_reason e = None then table else
       map (\<lambda>b. if b = a then a\<lparr>lca_state := EXPIRED, lca_expired_at := Some now, lca_modified := now\<rparr> else b) table) \<and>
    (ex_reason e = None \<longrightarrow> ex_requests e = requests \<and> ex_tasks e = []) \<and>
    (ex_reason e \<noteq> None \<longrightarrow> (case credit_request_of requests a of
         None \<Rightarrow> ex_requests e = requests \<and> ex_tasks e = [Send_Assignment_Expired_Email (lca_uuid a)]
       | Some r \<Rightarrow> r\<lparr>sr_state := SR_EXPIRED, lcr_modified := now\<rparr> \<in> set (ex_requests e) \<and>
                   last (ex_tasks e) = Send_Bnr_Expired_Email (sr_uuid r))) \<and>
    (\<exists>e0. expire_assignment now se fetch table requests a cm False = Inr e0 \<and> ex_reason e0 = ex_reason e \<and>
       ex_table e0 = table \<and> ex_requests e0 = requests \<and> ex_tasks e0 = [])"
  using assms by (rule expired_row)

theorem expire_assignment_exact_witness:
  "ex_reason (projr (expire_assignment (days 91) None (\<lambda>_. []) [demo_assignment] [] demo_assignment None True)) \<noteq> None"
proof -
  have "isl (expire_assignment (days 91) None (\<lambda>_. []) [demo_assignment] [] demo_assignment None True) = False"
    by code_simp
  then have run: "expire_assignment (days 91) None (\<lambda>_. []) [demo_assignment] [] demo_assignment None True =
      Inr (projr (expire_assignment (days 91) None (\<lambda>_. []) [demo_assignment] [] demo_assignment None True))"
    by simp
  have "distinct (map lca_uuid [demo_assignment])" "unique_slots [demo_assignment]" "demo_assignment \<in> set [demo_assignment]"
    by simp_all
  from expire_assignment_exact [OF run this]
  have "lca_state demo_assignment = ALLOCATED \<and> lca_allocated_at demo_assignment + days 90 \<le> days 91 \<longrightarrow>
      ex_reason (projr (expire_assignment (days 91) None (\<lambda>_. []) [demo_assignment] [] demo_assignment None True)) \<noteq> None"
    by (elim conjE)
  then show ?thesis by (simp add: demo_assignment_def days_def)
qed


text \<open>
  A reversed transaction. The accepted assignment of the transaction always ends up reversed,
  with its action on record. The credit request behind it follows only if it still validates; if not,
  nothing is undone, although the log line says that the entire transaction was rolled back: the
  assignment stays reversed, the request keeps its state, and the audit row says that the reversal
  failed.
\<close>

theorem reversal_outcome:
  assumes found: "get_one (filter (\<lambda>a. lca_transaction_uuid a = Some tx) (rv_table st)) = Found a"
    and acc: "lca_state a = ACCEPTED" and r: "credit_request_of (rv_requests st) a = Some r"
    and d: "distinct (map lca_uuid (rv_table st))" and un: "unique_slots (rv_table st)"
  shows "\<exists>st' act. update_assignment_status_for_reversed_transaction now tb tx st = Inr st' \<and>
    rv_table st' = map (\<lambda>b. if b = a then a\<lparr>lca_state := REVERSED, lca_reversed_at := Some now, lca_modified := now\<rparr> else b)
      (rv_table st) \<and>
    rv_actions st' = add_successful_reversal_action now a (rv_actions st) \<and>
    rv_request_actions st' = rv_request_actions st @ [act] \<and> act_recent_action act = Some ''reversed'' \<and>
    (if full_clean_lcr (rv_requests st) (r\<lparr>sr_state := SR_REVERSED\<rparr>) = Inr ()
     then act_error_reason act = None \<and>
       rv_requests st' = map (\<lambda>q. if sr_uuid q = sr_uuid r then q\<lparr>sr_state := SR_REVERSED\<rparr> else q) (rv_requests st)
     else act_error_reason act = Some ''failed_reversal'' \<and> act_status act = Some ''accepted'' \<and>
       rv_requests st' = rv_requests st)"
proof -
  have a: "a \<in> set (rv_table st)"
    using found by (cases "filter (\<lambda>a. lca_transaction_uuid a = Some tx) (rv_table st)" rule: get_one.cases)
      (auto simp: filter_eq_Cons_iff)
  define act where "act = \<lparr>act_learner_credit_request = Some (sr_uuid r), act_recent_action = Some ''reversed'',
      act_status = Some ''reversed'', act_error_reason = None, act_traceback = None, act_created = now\<rparr>"
  have keys: "get_action_choice ''reversed'' = Some ''reversed''"
    "get_user_message_choice ''reversed'' = Some ''reversed''"
    "get_user_message_choice ''accepted'' = Some ''accepted''"
    "get_error_reason_choice ''failed_reversal'' = Some ''failed_reversal''"
    by code_simp+
  have ca: "create_action now (Some (sr_uuid r)) (get_action_choice ''reversed'')
      (get_user_message_choice ''reversed'') None None = Inr act"
    unfolding keys create_action_def Let_def full_clean_action_def act_def
    by (simp add: learner_credit_request_action_choices_def subsidy_request_states_choices_def
        learner_credit_request_user_messages_def)
  have sv: "save_assignment now (a\<lparr>lca_state := REVERSED, lca_reversed_at := Some now\<rparr>) (rv_table st) =
      Inr (map (\<lambda>b. if b = a then a\<lparr>lca_state := REVERSED, lca_reversed_at := Some now, lca_modified := now\<rparr> else b) (rv_table st))"
    using save_assignment_keeps_slots [where s = REVERSED and e = "lca_expired_at a" and r = "Some now" and now = now,
        OF d un a refl] by simp
  have run: "update_assignment_status_for_reversed_transaction now tb tx st =
      Inr (reverse_assignment now tb a (Some r) (Some act) (st\<lparr>rv_request_actions := rv_request_actions st @ [act]\<rparr>))"
    using found acc r ca by (simp add: update_assignment_status_for_reversed_transaction_def reversible_states_def)
  show ?thesis
  proof (cases "full_clean_lcr (rv_requests st) (r\<lparr>sr_state := SR_REVERSED\<rparr>)")
    case (Inl err)
    show ?thesis unfolding run
      by (intro exI [of _ "act\<lparr>act_status := Some ''accepted'', act_error_reason := Some ''failed_reversal'',
          act_traceback := Some tb\<rparr>"] exI conjI, rule refl)
        (simp_all add: reverse_assignment_def sv Let_def save_lcr_state_def Inl reversal_failed_def keys
          add_successful_reversal_action_def create_assignment_action_def act_def)
  next
    case (Inr u)
    show ?thesis unfolding run
      by (intro exI [of _ act] exI conjI, rule refl)
        (simp_all add: reverse_assignment_def sv Let_def save_lcr_state_def Inr
          add_successful_reversal_action_def create_assignment_action_def act_def)
  qed
qed

definition demo_reversal :: reversal_state where
  "demo_reversal = \<lparr>rv_table = [demo_assignment\<lparr>lca_state := ACCEPTED, lca_transaction_uuid := Some 55\<rparr>], rv_actions = [],
     rv_requests = [demo_request\<lparr>sr_state := SR_ACCEPTED, lcr_assignment := Some 11\<rparr>],
     rv_request_actions = [], rv_tasks = []\<rparr>"

theorem reversal_outcome_witness:
  "\<exists>st' act. update_assignment_status_for_reversed_transaction 800 ''tb'' 55 demo_reversal = Inr st' \<and>
     rv_request_actions st' = [act] \<and> act_error_reason act = Some ''failed_reversal'' \<and>
     map lca_state (rv_table st') = [REVERSED] \<and> map sr_state (rv_requests st') = [SR_ACCEPTED]"
proof -
  define a where "a = demo_assignment\<lparr>lca_state := ACCEPTED, lca_transaction_uuid := Some 55\<rparr>"
  define r where "r = demo_request\<lparr>sr_state := SR_ACCEPTED, lcr_assignment := Some 11\<rparr>"
  have t: "rv_table demo_reversal = [a]" "rv_requests demo_reversal = [r]" "rv_request_actions demo_reversal = []"
    by (simp_all add: demo_reversal_def a_def r_def)
  have g: "get_one (filter (\<lambda>a. lca_transaction_uuid a = Some 55) (rv_table demo_reversal)) = Found a"
    by (simp add: t a_def)
  have r: "credit_request_of (rv_requests demo_reversal) a = Some r"
    by (simp add: t credit_request_of_def demo_assignment_def a_def r_def)
  have n: "full_clean_lcr (rv_requests demo_reversal) (r\<lparr>sr_state := SR_REVERSED\<rparr>) \<noteq> Inr ()"
    by (simp add: full_clean_lcr_def clean_request_def demo_request_def r_def)
  have s: "lca_state a = ACCEPTED" "sr_state r = SR_ACCEPTED" by (simp_all add: a_def r_def)
  have "distinct (map lca_uuid (rv_table demo_reversal))" "unique_slots (rv_table demo_reversal)" by (simp_all add: t)
  from reversal_outcome [OF g s(1) r this, of 800 "''tb''"]
  obtain st' act where st': "update_assignment_status_for_reversed_transaction 800 ''tb'' 55 demo_reversal = Inr st'"
    "rv_table st' = [a\<lparr>lca_state := REVERSED, lca_reversed_at := Some 800, lca_modified := 800\<rparr>]"
    "rv_request_actions st' = [act]" "act_error_reason act = Some ''failed_reversal''" "rv_requests st' = [r]"
    using n by (fastforce simp: t)
  have "map lca_state (rv_table st') = [REVERSED]" "map sr_state (rv_requests st') = [SR_ACCEPTED]" using st' by (simp_all add: s)
  then show ?thesis by (intro exI [of _ st'] exI [of _ act] conjI st')
qed

text \<open>
  A credit request whose learner was once assigned the course by e-mail only (a re-allocatable
  row without \<open>lms_user_id\<close>) cannot be matched with its assignment: the row is allocated again, but
  the answer for the request is \<open>None\<close>, because the \<open>lms_user_id\<close> of the row stays empty and the answer
  is looked up by it.
\<close>

theorem email_only_assignment_unmatched:
  assumes run: "allocate_assignment_for_requests env table config catalog [r] = Inr (table', m)"
    and d: "distinct (map lca_uuid table)" and a: "a \<in> set table"
    and "lca_assignment_configuration a = Some (ac_uuid config)" and "lca_state a \<in> set reallocate_states"
    and "iexact (lca_learner_email a) (user_email (sr_user r))" and "sr_course_id r = Some (lca_content_key a)"
    and none: "lca_lms_user_id a = None" and i: "user_lms_user_id (sr_user r) = Some i"
    and only: "\<And>b. b \<in> set table \<Longrightarrow> lca_content_key b = lca_content_key a \<Longrightarrow>
      iexact (lca_learner_email b) (user_email (sr_user r)) \<or> lca_lms_user_id b = Some i \<Longrightarrow>
      lca_assignment_configuration b = Some (ac_uuid config) \<Longrightarrow> b = a"
  shows "map_of m (sr_uuid r) = Some None \<and>
    (\<exists>b \<in> set table'. lca_uuid b = lca_uuid a \<and> lca_state b = ALLOCATED \<and> lca_lms_user_id b = None)"
proof -
  define P where "P b \<longleftrightarrow> (\<exists>r' \<in> set [r]. (iexact (lca_learner_email b) (user_email (sr_user r')) \<and> Some (lca_content_key b) = sr_course_id r') \<or>
      (truthy_int (user_lms_user_id (sr_user r')) \<and> lca_lms_user_id b = user_lms_user_id (sr_user r') \<and>
       Some (lca_content_key b) = sr_course_id r')) \<and>
      lca_assignment_configuration b = Some (ac_uuid config) \<and> lca_state b \<in> set reallocate_states" for b :: learner_content_assignment
  have "b = a" if "b \<in> set table" "P b" for b
    using that only [of b] assms(7) i unfolding P_def by auto
  moreover have "P a" unfolding P_def using assms by simp
  ultimately have f: "filter P table = [a]"
    by (intro filter_singleton distinct_of_keys [OF d] a) simp_all
  define E where "E = [((lower (lca_learner_email a), lca_content_key a), a)]"
  have ex: "get_existing_assignments_for_requests table config [r] = E"
    using f by (simp add: get_existing_assignments_for_requests_def Let_def dict_of_pairs_def P_def [abs_def] E_def)
  have lk: "Option.bind (sr_course_id r) (\<lambda>k. map_of E (lower (user_email (sr_user r)), k)) = Some a"
    using assms(6,7) by (simp add: iexact_def E_def)
  obtain metadata where md: "metadata_by_key env catalog [r] = Inr metadata"
    using run unfolding allocate_assignment_for_requests_def by (auto simp only: rbind_Inr_iff)
  have "(rbind (reallocate_for_request env table metadata r a) (\<lambda>a'.
       rbind (update_and_refresh_assignments assignment_reallocation_fields (ae_now env) [a'] table) (\<lambda>(table1, updated).
         Inr (table1, [(sr_uuid r, map_of (dict_of_pairs (map (\<lambda>a. ((lca_lms_user_id a, Some (lca_content_key a)), a)) updated))
              (user_lms_user_id (sr_user r), sr_course_id r))])))) = Inr (table', m)"
    using run unfolding allocate_assignment_for_requests_def ex Let_def create_new_assignments_for_requests_def md
    by (simp add: lk split_beta dict_of_pairs_single rbind_assoc)
  then obtain a' table1 updated where
    re: "reallocate_for_request env table metadata r a = Inr a'"
    and up: "update_and_refresh_assignments assignment_reallocation_fields (ae_now env) [a'] table = Inr (table1, updated)"
    and t: "table' = table1"
    and m: "m = [(sr_uuid r, map_of (dict_of_pairs (map (\<lambda>a. ((lca_lms_user_id a, Some (lca_content_key a)), a)) updated))
              (user_lms_user_id (sr_user r), sr_course_id r))]"
    by (auto simp: rbind_Inr_iff)
  have a': "lca_uuid a' = lca_uuid a" "lca_state a' = ALLOCATED" "lca_lms_user_id a' = None"
    using re none by (auto simp: reallocate_for_request_def rbind_Inr_iff dest!: reallocate_facts)
  have "update_and_refresh_assignments assignment_reallocation_fields (ae_now env) (map (\<lambda>_. a') [a]) table = Inr (table1, updated)"
    using up by simp
  from update_and_refresh_Inr [OF this d] a a'(1)
  have t1: "table1 = map (\<lambda>row. if row = a then (assignment_reallocation_fields a' row)\<lparr>lca_modified := ae_now env\<rparr> else row) table"
    and upd: "updated = filter (\<lambda>b. lca_uuid b = lca_uuid a) table1" by auto
  have row: "b = (assignment_reallocation_fields a' a)\<lparr>lca_modified := ae_now env\<rparr>"
    if "b \<in> set updated" for b
    using that distinct_key_inj [OF d _ a] by (auto simp: upd t1 split: if_splits)
  have nolms: "lca_lms_user_id b = None" if "b \<in> set updated" for b
    unfolding row [OF that] using a'(3) by (simp add: assignment_reallocation_fields_def)
  have keys: "fst ` set (dict_of_pairs ps) \<subseteq> fst ` set ps" for ps :: "((int option \<times> string option) \<times> learner_content_assignment) list"
    using dict_put_loop(1) [of ps "[]"] by (auto simp: dict_of_pairs_def)
  have "(Some i, sr_course_id r) \<notin> fst ` set (dict_of_pairs (map (\<lambda>a. ((lca_lms_user_id a, Some (lca_content_key a)), a)) updated))"
    using keys [of "map (\<lambda>a. ((lca_lms_user_id a, Some (lca_content_key a)), a)) updated"] nolms by fastforce
  then have "map_of m (sr_uuid r) = Some None" using i by (simp add: m map_of_eq_None_iff)
  moreover have "(assignment_reallocation_fields a' a)\<lparr>lca_modified := ae_now env\<rparr> \<in> set table'"
    using a by (force simp: t t1)
  moreover have "lca_uuid ((assignment_reallocation_fields a' a)\<lparr>lca_modified := ae_now env\<rparr>) = lca_uuid a"
    "lca_state ((assignment_reallocation_fields a' a)\<lparr>lca_modified := ae_now env\<rparr>) = ALLOCATED"
    "lca_lms_user_id ((assignment_reallocation_fields a' a)\<lparr>lca_modified := ae_now env\<rparr>) = None"
    using a' by (simp_all add: assignment_reallocation_fields_def)
  ultimately show ?thesis by blast
qed

theorem email_only_assignment_unmatched_witness:
  "\<exists>t m. allocate_assignment_for_requests demo_env [demo_assignment\<lparr>lca_state := CANCELLED, lca_lms_user_id := None\<rparr>] demo_config 3
     [demo_request\<lparr>sr_user := \<lparr>user_id = 7, user_email = ''A@b.c'', user_lms_user_id = Some 70\<rparr>,
       sr_course_id := Some ''edX+D'', lcr_course_price := Some 100\<rparr>] = Inr (t, m) \<and> map_of m (sr_uuid demo_request) = Some None"
proof -
  define a where "a = demo_assignment\<lparr>lca_state := CANCELLED, lca_lms_user_id := None\<rparr>"
  define r where "r = demo_request\<lparr>sr_user := \<lparr>user_id = 7, user_email = ''A@b.c'', user_lms_user_id = Some 70\<rparr>,
       sr_course_id := Some ''edX+D'', lcr_course_price := Some 100\<rparr>"
  have "isl (allocate_assignment_for_requests demo_env [a] demo_config 3 [r]) = False"
    unfolding a_def r_def by code_simp
  then obtain t m where run: "allocate_assignment_for_requests demo_env [a] demo_config 3 [r] = Inr (t, m)"
    by (cases "allocate_assignment_for_requests demo_env [a] demo_config 3 [r]") auto
  moreover have "lower_char CHR ''a'' = lower_char CHR ''A''" by code_simp
  ultimately have "map_of m (sr_uuid r) = Some None"
    using email_only_assignment_unmatched [OF run, where a = a and i = 70]
    by (simp add: a_def r_def demo_assignment_def demo_config_def demo_request_def iexact_def lower_def reallocate_states_def)
  then show ?thesis using run unfolding a_def r_def by auto
qed

end
