(* ===== verification/Policy_Model.thy ===== *)
theory Policy_Model
  imports Assignment_Lifecycle
begin

text \<open>
  Subsidy access policies, the data and the queries of \<open>subsidy_access_policy/models.py\<close>.

  A policy is one record with the columns of the table; its class is the field
  \<open>sap_policy_type\<close>, and a method that a subclass overrides is defined by cases on it. What a policy
  learns from outside is in the record \<open>policy_env\<close>: the subsidy, catalog and LMS services, the clock,
  the table of group associations and the environment of the assignments API. An answer of a service
  is read through a cache that holds for a request, so it is a function of its arguments here.
\<close>

section \<open>Constants\<close>

datatype access_method = DIRECT | REQUEST | ASSIGNED

datatype policy_type = PER_LEARNER_ENROLLMENT_CREDIT | PER_LEARNER_SPEND_CREDIT | ASSIGNED_LEARNER_CREDIT

datatype transaction_state = TX_CREATED | TX_PENDING | TX_COMMITTED | TX_FAILED

datatype reason =
    REASON_BNR_NOT_ENABLED
  | REASON_POLICY_EXPIRED
  | REASON_SUBSIDY_EXPIRED
  | REASON_CONTENT_NOT_IN_CATALOG
  | REASON_BEYOND_ENROLLMENT_DEADLINE
  | REASON_LEARNER_NOT_IN_ENTERPRISE
  | REASON_LEARNER_NOT_IN_ENTERPRISE_GROUP
  | REASON_NOT_ENOUGH_VALUE_IN_SUBSIDY
  | REASON_LEARNER_MAX_SPEND_REACHED
  | REASON_POLICY_SPEND_LIMIT_REACHED
  | REASON_LEARNER_MAX_ENROLLMENTS_REACHED
  | REASON_LEARNER_NOT_ASSIGNED_CONTENT
  | REASON_LEARNER_ASSIGNMENT_CANCELLED
  | REASON_LEARNER_ASSIGNMENT_FAILED
  | REASON_LEARNER_ASSIGNMENT_EXPIRED
  | REASON_LEARNER_ASSIGNMENT_REVERSED

section \<open>Records\<close>

record policy =
  sap_policy_type :: policy_type
  sap_uuid :: uuid
  sap_enterprise_customer_uuid :: uuid
  sap_active :: bool
  sap_learner_credit_request_config :: "lcr_configuration option"
  sap_retired :: bool
  sap_original_retired :: bool
  sap_retired_at :: "datetime option"
  sap_catalog_uuid :: uuid
  sap_subsidy_uuid :: uuid
  sap_access_method :: access_method
  sap_spend_limit :: "int option"
  sap_assignment_configuration :: "assignment_configuration option"
  sap_late_redemption_allowed_until :: "datetime option"
  sap_per_learner_enrollment_limit :: "int option"
  sap_per_learner_spend_limit :: "int option"

text \<open>The keys of a subsidy record the code reads; all are missing in an empty dictionary.\<close>

record subsidy_data =
  sub_active_datetime :: "datetime option"
  sub_expiration_datetime :: "datetime option"
  sub_is_active :: "bool option"
  sub_current_balance :: "int option"
  sub_total_deposits :: "int option"

definition empty_subsidy :: subsidy_data where
  "empty_subsidy = \<lparr>sub_active_datetime = None, sub_expiration_datetime = None, sub_is_active = None,
     sub_current_balance = None, sub_total_deposits = None\<rparr>"

text \<open>A transaction of the ledger; \<open>tx_reversal\<close> is the state in its reversal, if it is a dictionary.\<close>

record ledger_transaction =
  tx_uuid :: uuid
  tx_state :: transaction_state
  tx_reversal :: "transaction_state option option"
  tx_policy :: "uuid option"
  tx_content_key :: string
  tx_quantity :: int
  tx_modified :: datetime

record can_redeem_payload =
  scr_active :: "bool option"
  scr_can_redeem :: "bool option"
  scr_all_transactions :: "ledger_transaction list option"

text \<open>
  What \<open>parse_datetime\<close> makes of a date: nothing, an exception, a time without or with a zone.
\<close>

datatype parsed_date = Malformed | Invalid | Naive datetime | Aware datetime

record content_metadata =
  cm_content_price :: "int option"
  cm_enroll_by_date :: "parsed_date option"

record learner_record =
  lr_enterprise_groups :: "uuid list"

record transaction_request =
  tr_subsidy_uuid :: uuid
  tr_lms_user_id :: int
  tr_content_key :: string
  tr_policy_uuid :: uuid
  tr_metadata :: "(string \<times> json) list option"
  tr_idempotency_key :: "uuid \<times> string"
  tr_requested_price_cents :: "int option"

record policy_env =
  pe_now :: datetime
  pe_retrieve_subsidy :: "uuid \<Rightarrow> subsidy_data result"
  pe_learner_record :: "uuid \<Rightarrow> int \<Rightarrow> learner_record option result"
  pe_groups :: "(uuid \<times> uuid option) list"
  pe_catalog_contains :: "uuid \<Rightarrow> string \<Rightarrow> bool result"
  pe_content_metadata :: "uuid \<Rightarrow> string \<Rightarrow> content_metadata option result"
  pe_can_redeem :: "uuid \<Rightarrow> int \<Rightarrow> string \<Rightarrow> can_redeem_payload result"
  pe_aggregates :: "uuid \<Rightarrow> uuid \<Rightarrow> int option result"
  pe_learner_transactions :: "uuid \<Rightarrow> int \<Rightarrow> ledger_transaction list result"
  pe_content_transactions :: "uuid \<Rightarrow> int \<Rightarrow> string \<Rightarrow> uuid \<Rightarrow> ledger_transaction list result"
  pe_create_transaction :: "transaction_request \<Rightarrow> ledger_transaction result"
  pe_digest :: "int \<times> string \<times> uuid \<times> uuid list \<Rightarrow> string"
  pe_round :: "rat \<Rightarrow> rat"
  pe_alloc :: alloc_env

section \<open>Flags\<close>

definition policies_with_redemption_enabled :: "policy list \<Rightarrow> policy list" where
  "policies_with_redemption_enabled policies = filter (\<lambda>p. sap_active p \<and> \<not> sap_retired p) policies"

definition is_redemption_enabled :: "policy \<Rightarrow> bool" where
  "is_redemption_enabled self \<longleftrightarrow> sap_active self \<and> \<not> sap_retired self"

definition is_late_redemption_allowed :: "policy_env \<Rightarrow> policy \<Rightarrow> bool" where
  "is_late_redemption_allowed env self =
     (case sap_late_redemption_allowed_until self of
        None \<Rightarrow> False
      | Some until \<Rightarrow> pe_now env < until)"

definition is_assignable :: "policy \<Rightarrow> bool" where
  "is_assignable self \<longleftrightarrow> sap_access_method self = ASSIGNED"

definition bnr_enabled :: "policy \<Rightarrow> bool" where
  "bnr_enabled self =
     (case sap_learner_credit_request_config self of None \<Rightarrow> False | Some c \<Rightarrow> lcc_active c)"

definition has_bnr_enabled_policy_for_enterprise :: "policy list \<Rightarrow> uuid \<Rightarrow> bool" where
  "has_bnr_enabled_policy_for_enterprise policies customer \<longleftrightarrow>
     filter (\<lambda>p. sap_enterprise_customer_uuid p = customer \<and> sap_active p \<and> bnr_enabled p) policies \<noteq> []"

text \<open>The policy resolution prefers assigned credit.\<close>

definition priority :: "policy \<Rightarrow> nat" where
  "priority self = (if sap_policy_type self = ASSIGNED_LEARNER_CREDIT then 0 else 1)"

section \<open>The subsidy\<close>

definition subsidy_record :: "policy_env \<Rightarrow> policy \<Rightarrow> subsidy_data result" where
  "subsidy_record env self =
     (case pe_retrieve_subsidy env (sap_subsidy_uuid self) of
        Inl e \<Rightarrow> if e = HTTPError then Inr empty_subsidy else Inl e
      | Inr r \<Rightarrow> Inr r)"

definition subsidy_active_datetime :: "policy_env \<Rightarrow> policy \<Rightarrow> datetime option result" where
  "subsidy_active_datetime env self = rbind (subsidy_record env self) (\<lambda>r. Inr (sub_active_datetime r))"

definition subsidy_expiration_datetime :: "policy_env \<Rightarrow> policy \<Rightarrow> datetime option result" where
  "subsidy_expiration_datetime env self = rbind (subsidy_record env self) (\<lambda>r. Inr (sub_expiration_datetime r))"

definition is_subsidy_active :: "policy_env \<Rightarrow> policy \<Rightarrow> bool result" where
  "is_subsidy_active env self = rbind (subsidy_record env self) (\<lambda>r. Inr (sub_is_active r = Some True))"

text \<open>\<open>x or 0\<close>\<close>

definition or_zero :: "int option \<Rightarrow> int" where
  "or_zero x = (case x of None \<Rightarrow> 0 | Some i \<Rightarrow> i)"

definition subsidy_balance :: "policy_env \<Rightarrow> policy \<Rightarrow> int result" where
  "subsidy_balance env self = rbind (subsidy_record env self) (\<lambda>r. Inr (or_zero (sub_current_balance r)))"

definition total_deposits_for_subsidy :: "policy_env \<Rightarrow> policy \<Rightarrow> int result" where
  "total_deposits_for_subsidy env self = rbind (subsidy_record env self) (\<lambda>r. Inr (or_zero (sub_total_deposits r)))"

section \<open>Spending\<close>

definition total_redeemed :: "policy_env \<Rightarrow> policy \<Rightarrow> int result" where
  "total_redeemed env self =
     rbind (pe_aggregates env (sap_subsidy_uuid self) (sap_uuid self)) (\<lambda>q. Inr (or_zero q))"

text \<open>
  The allocated quantity, also for a policy without a configuration: the query then selects the rows
  that have none.
\<close>

definition allocated_quantity :: "assignments \<Rightarrow> assignment_configuration option \<Rightarrow> int" where
  "allocated_quantity table config =
     (case config of
        Some c \<Rightarrow> get_allocated_quantity_for_configuration table c
      | None \<Rightarrow> sum_list (map lca_content_quantity
          (filter (\<lambda>a. lca_assignment_configuration a = None \<and> lca_state a = ALLOCATED) table)))"

definition total_allocated :: "assignments \<Rightarrow> policy \<Rightarrow> int" where
  "total_allocated table self =
     (case sap_policy_type self of
        PER_LEARNER_ENROLLMENT_CREDIT \<Rightarrow> 0
      | PER_LEARNER_SPEND_CREDIT \<Rightarrow>
          if \<not> bnr_enabled self then 0 else allocated_quantity table (sap_assignment_configuration self)
      | ASSIGNED_LEARNER_CREDIT \<Rightarrow> allocated_quantity table (sap_assignment_configuration self))"

text \<open>The base class, then the subclasses that subtract what is allocated.\<close>

definition spend_available_base :: "policy_env \<Rightarrow> policy \<Rightarrow> int result" where
  "spend_available_base env self =
     (case sap_spend_limit self of
        Some limit \<Rightarrow>
          rbind (total_redeemed env self) (\<lambda>redeemed.
          rbind (subsidy_balance env self) (\<lambda>balance.
            Inr (min (max 0 (limit + redeemed)) balance)))
      | None \<Rightarrow> subsidy_balance env self)"

definition spend_available :: "policy_env \<Rightarrow> assignments \<Rightarrow> policy \<Rightarrow> int result" where
  "spend_available env table self =
     (if sap_policy_type self = ASSIGNED_LEARNER_CREDIT \<or>
         (sap_policy_type self = PER_LEARNER_SPEND_CREDIT \<and> bnr_enabled self)
      then rbind (spend_available_base env self) (\<lambda>s. Inr (max 0 (s + total_allocated table self)))
      else spend_available_base env self)"

section \<open>Content and learners\<close>

definition catalog_contains_content_key :: "policy_env \<Rightarrow> policy \<Rightarrow> string \<Rightarrow> bool result" where
  "catalog_contains_content_key env self content_key = pe_catalog_contains env (sap_catalog_uuid self) content_key"

definition get_content_metadata :: "policy_env \<Rightarrow> policy \<Rightarrow> string \<Rightarrow> content_metadata option result" where
  "get_content_metadata env self content_key =
     pe_content_metadata env (sap_enterprise_customer_uuid self) content_key"

definition get_content_price :: "policy_env \<Rightarrow> policy \<Rightarrow> string \<Rightarrow> content_metadata option \<Rightarrow> int result" where
  "get_content_price env self content_key metadata =
     rbind (if metadata = None then get_content_metadata env self content_key else Inr metadata) (\<lambda>m.
       case m of
         None \<Rightarrow> Inl TypeError
       | Some m \<Rightarrow> (case cm_content_price m of
             None \<Rightarrow> Inl ContentPriceNullException
           | Some price \<Rightarrow> Inr price))"

definition includes_learner :: "policy_env \<Rightarrow> policy \<Rightarrow> int \<Rightarrow> (bool \<times> reason option) result" where
  "includes_learner env self lms_user_id =
     rbind (pe_learner_record env (sap_enterprise_customer_uuid self) lms_user_id) (\<lambda>r.
       case r of
         None \<Rightarrow> Inr (False, Some REASON_LEARNER_NOT_IN_ENTERPRISE)
       | Some r \<Rightarrow>
           (let groups = filter (\<lambda>(policy, _). policy = sap_uuid self) (pe_groups env)
            in if groups = [] then Inr (True, None)
               else if filter (\<lambda>(_, g). g \<in> Some ` set (lr_enterprise_groups r)) groups = []
                 then Inr (False, Some REASON_LEARNER_NOT_IN_ENTERPRISE_GROUP)
               else Inr (True, None)))"

definition transactions_for_learner ::
    "policy_env \<Rightarrow> policy \<Rightarrow> int \<Rightarrow> (ledger_transaction list \<times> int) result" where
  "transactions_for_learner env self lms_user_id =
     rbind (pe_learner_transactions env (sap_subsidy_uuid self) lms_user_id) (\<lambda>txs.
       let mine = filter (\<lambda>t. tx_policy t = Some (sap_uuid self)) txs
       in Inr (mine, sum_list (map tx_quantity mine)))"

definition transactions_for_learner_and_content ::
    "policy_env \<Rightarrow> policy \<Rightarrow> int \<Rightarrow> string \<Rightarrow> ledger_transaction list result" where
  "transactions_for_learner_and_content env self lms_user_id content_key =
     pe_content_transactions env (sap_subsidy_uuid self) lms_user_id content_key (sap_uuid self)"

text \<open>Comparing with a limit of \<open>None\<close> is a \<open>TypeError\<close>.\<close>

definition content_would_exceed_limit :: "int \<Rightarrow> int option \<Rightarrow> int \<Rightarrow> bool result" where
  "content_would_exceed_limit spent_amount limit_to_check content_price =
     (if spent_amount > 0 then Inl GenericException
      else case limit_to_check of
             None \<Rightarrow> Inl TypeError
           | Some limit \<Rightarrow> Inr (spent_amount * -1 + content_price > limit))"

definition will_exceed_spend_limit ::
    "policy_env \<Rightarrow> policy \<Rightarrow> string \<Rightarrow> content_metadata option \<Rightarrow> bool result" where
  "will_exceed_spend_limit env self content_key metadata =
     (if sap_spend_limit self = None then Inr False
      else rbind (get_content_price env self content_key metadata) (\<lambda>price.
           rbind (total_redeemed env self) (\<lambda>redeemed.
             content_would_exceed_limit redeemed (sap_spend_limit self) price)))"

definition enroll_by_datetime :: "content_metadata \<Rightarrow> parsed_date option result" where
  "enroll_by_datetime m =
     (case cm_enroll_by_date m of
        None \<Rightarrow> Inr None
      | Some Malformed \<Rightarrow> Inr None
      | Some Invalid \<Rightarrow> Inl ValueError
      | Some d \<Rightarrow> Inr (Some d))"

text \<open>The comparison of the deadline with the clock; a time without a zone cannot be compared.\<close>

definition beyond_deadline :: "policy_env \<Rightarrow> content_metadata \<Rightarrow> bool result" where
  "beyond_deadline env m =
     rbind (enroll_by_datetime m) (\<lambda>d. case d of
         Some (Aware t) \<Rightarrow> Inr (pe_now env > t)
       | Some (Naive _) \<Rightarrow> Inl TypeError
       | _ \<Rightarrow> Inr False)"

section \<open>Examples\<close>

definition demo_policy :: policy where
  "demo_policy = \<lparr>sap_policy_type = ASSIGNED_LEARNER_CREDIT, sap_uuid = 40, sap_enterprise_customer_uuid = 5,
     sap_active = True, sap_learner_credit_request_config = None, sap_retired = False, sap_original_retired = False,
     sap_retired_at = None, sap_catalog_uuid = 70, sap_subsidy_uuid = 60, sap_access_method = ASSIGNED,
     sap_spend_limit = Some 2000, sap_assignment_configuration = Some demo_config,
     sap_late_redemption_allowed_until = None, sap_per_learner_enrollment_limit = None,
     sap_per_learner_spend_limit = None\<rparr>"

definition demo_direct :: policy where
  "demo_direct = demo_policy\<lparr>sap_policy_type := PER_LEARNER_SPEND_CREDIT, sap_access_method := DIRECT,
     sap_assignment_configuration := None, sap_per_learner_spend_limit := Some 2000\<rparr>"

definition demo_tx :: ledger_transaction where
  "demo_tx = \<lparr>tx_uuid = 77, tx_state = TX_COMMITTED, tx_reversal = None, tx_policy = Some 40,
     tx_content_key = ''edX+D'', tx_quantity = - 300, tx_modified = 500\<rparr>"

definition demo_policy_env :: policy_env where
  "demo_policy_env = \<lparr>pe_now = 500,
     pe_retrieve_subsidy = (\<lambda>_. Inr \<lparr>sub_active_datetime = None, sub_expiration_datetime = None, sub_is_active = Some True,
        sub_current_balance = Some 5000, sub_total_deposits = Some 5000\<rparr>),
     pe_learner_record = (\<lambda>_ _. Inr (Some \<lparr>lr_enterprise_groups = []\<rparr>)), pe_groups = [],
     pe_catalog_contains = (\<lambda>_ _. Inr True),
     pe_content_metadata = (\<lambda>_ _. Inr (Some \<lparr>cm_content_price = Some 300, cm_enroll_by_date = None\<rparr>)),
     pe_can_redeem = (\<lambda>_ _ _. Inr \<lparr>scr_active = Some True, scr_can_redeem = Some True, scr_all_transactions = Some []\<rparr>),
     pe_aggregates = (\<lambda>_ _. Inr (Some (- 600))),
     pe_learner_transactions = (\<lambda>_ _. Inr [demo_tx\<lparr>tx_quantity := - 600\<rparr>]), pe_content_transactions = (\<lambda>_ _ _ _. Inr []),
     pe_create_transaction = (\<lambda>_. Inr demo_tx), pe_digest = (\<lambda>_. ''d''), pe_round = (\<lambda>x. x), pe_alloc = demo_env\<rparr>"

end
