(* ===== verification/Policy_Lock.thy ===== *)
theory Policy_Lock
  imports Policy_Model
begin

text \<open>
  The lock of a policy, \<open>lock_resource_key\<close>, \<open>acquire_lock\<close>, \<open>release_lock\<close> and \<open>lock\<close> of
  \<open>subsidy_access_policy/models.py\<close>: an entry of the shared cache, added when absent and deleted
  without looking at its owner. \<open>lock_step\<close> interleaves any number of requests over one entry; the
  entry may also vanish, because the cache keeps it for its default timeout only.
\<close>

section \<open>The operations\<close>

text \<open>The digest of the cache key is one to one in the inputs, which stand for it.\<close>

type_synonym lock_key = "uuid \<times> int option \<times> string option"

definition lock_resource_key :: "policy \<Rightarrow> int option \<Rightarrow> string option \<Rightarrow> lock_key" where
  "lock_resource_key self lms_user_id content_key =
     (sap_uuid self, if truthy_int lms_user_id then lms_user_id else None,
      if truthy content_key then content_key else None)"

definition acquire_lock ::
    "policy \<Rightarrow> int option \<Rightarrow> string option \<Rightarrow> uuid \<Rightarrow> (lock_key \<rightharpoonup> uuid) \<Rightarrow> (lock_key \<rightharpoonup> uuid) \<times> uuid option" where
  "acquire_lock self lms_user_id content_key lock_id cache =
     (let key = lock_resource_key self lms_user_id content_key
      in if cache key = None then (cache(key \<mapsto> lock_id), Some lock_id) else (cache, None))"

definition release_lock ::
    "policy \<Rightarrow> int option \<Rightarrow> string option \<Rightarrow> (lock_key \<rightharpoonup> uuid) \<Rightarrow> (lock_key \<rightharpoonup> uuid)" where
  "release_lock self lms_user_id content_key cache = cache(lock_resource_key self lms_user_id content_key := None)"

text \<open>The context manager around a body that may raise; the \<open>finally\<close> clause releases in any case.\<close>

definition lock ::
    "policy \<Rightarrow> int option \<Rightarrow> string option \<Rightarrow> uuid \<Rightarrow> ((lock_key \<rightharpoonup> uuid) \<Rightarrow> (lock_key \<rightharpoonup> uuid) \<times> 'a result)
       \<Rightarrow> (lock_key \<rightharpoonup> uuid) \<Rightarrow> (lock_key \<rightharpoonup> uuid) \<times> 'a result" where
  "lock self lms_user_id content_key fresh_id body cache =
     (case acquire_lock self lms_user_id content_key fresh_id cache of
        (cache1, None) \<Rightarrow> (cache1, Inl SubsidyAccessPolicyLockAttemptFailed)
      | (cache1, Some _) \<Rightarrow>
          (case body cache1 of (cache2, r) \<Rightarrow> (release_lock self lms_user_id content_key cache2, r)))"

section \<open>Concurrent requests\<close>

record lock_system =
  ls_cache :: "lock_key \<rightharpoonup> uuid"
  ls_inside :: "nat \<rightharpoonup> uuid"

text \<open>A request enters the block, is turned away, or leaves it; with \<open>timeouts\<close>, the entry may expire.\<close>

inductive lock_step :: "bool \<Rightarrow> policy \<Rightarrow> lock_system \<Rightarrow> lock_system \<Rightarrow> bool" for timeouts self where
  enter: "ls_inside s p = None \<Longrightarrow> lock_id \<notin> ran (ls_inside s) \<Longrightarrow>
    acquire_lock self None None lock_id (ls_cache s) = (cache', Some lock_id) \<Longrightarrow>
    lock_step timeouts self s \<lparr>ls_cache = cache', ls_inside = (ls_inside s)(p \<mapsto> lock_id)\<rparr>"
| refused: "acquire_lock self None None lock_id (ls_cache s) = (cache', None) \<Longrightarrow>
    lock_step timeouts self s (s\<lparr>ls_cache := cache'\<rparr>)"
| leave: "ls_inside s p = Some lock_id \<Longrightarrow>
    lock_step timeouts self s \<lparr>ls_cache = release_lock self None None (ls_cache s), ls_inside = (ls_inside s)(p := None)\<rparr>"
| expire: "timeouts \<Longrightarrow>
    lock_step timeouts self s (s\<lparr>ls_cache := (ls_cache s)(lock_resource_key self None None := None)\<rparr>)"

inductive_cases lock_stepE: "lock_step timeouts self s s'"

definition idle :: lock_system where
  "idle = \<lparr>ls_cache = Map.empty, ls_inside = Map.empty\<rparr>"

text \<open>The entry of the cache names the one request that is inside.\<close>

definition exclusive :: "policy \<Rightarrow> lock_system \<Rightarrow> bool" where
  "exclusive self s \<longleftrightarrow>
     (case ls_cache s (lock_resource_key self None None) of
        None \<Rightarrow> ls_inside s = Map.empty
      | Some lock_id \<Rightarrow> \<exists>p. ls_inside s = [p \<mapsto> lock_id])"

lemma acquire_lock_Some: "acquire_lock self u k i c = (c', Some j) \<longleftrightarrow>
    c (lock_resource_key self u k) = None \<and> c' = c(lock_resource_key self u k \<mapsto> i) \<and> j = i"
  by (auto simp: acquire_lock_def Let_def)

lemma acquire_lock_None: "acquire_lock self u k i c = (c', None) \<longleftrightarrow>
    c (lock_resource_key self u k) \<noteq> None \<and> c' = c"
  by (auto simp: acquire_lock_def Let_def)

lemma lock_step_exclusive: "lock_step False self s s' \<Longrightarrow> exclusive self s \<Longrightarrow> exclusive self s'"
  by (erule lock_stepE)
    (auto simp: exclusive_def acquire_lock_Some acquire_lock_None release_lock_def split: option.splits if_splits)

lemma reachable_exclusive: "(lock_step False self)\<^sup>*\<^sup>* idle s \<Longrightarrow> exclusive self s"
  by (induction rule: rtranclp_induct) (auto simp: exclusive_def idle_def intro: lock_step_exclusive [unfolded exclusive_def])

lemma reachable_inside:
  "(lock_step False self)\<^sup>*\<^sup>* idle s \<Longrightarrow> ls_inside s p = Some i \<Longrightarrow> ls_inside s q = Some j \<Longrightarrow> p = q \<and>
     ls_cache s (lock_resource_key self None None) = Some i"
  using reachable_exclusive [of self s] by (auto simp: exclusive_def split: option.splits if_splits)

text \<open>
  C8. The lock excludes. As long as the entry of the cache does not time out, any interleaving of
  requests on a policy leaves at most one of them inside the locked block, and the entry is its own.
\<close>

theorem lock_excludes:
  assumes "(lock_step False self)\<^sup>*\<^sup>* idle s" and "ls_inside s p = Some i" and "ls_inside s q = Some j"
  shows "p = q \<and> ls_cache s (lock_resource_key self None None) = Some i"
  by (rule reachable_inside [OF assms])

text \<open>
  And it is live: from every reachable state, a request that is outside gets in within two steps
  of the system (the one inside leaves, then it enters), so the lock is never lost.
\<close>

theorem lock_progress:
  assumes "(lock_step False self)\<^sup>*\<^sup>* idle s" and "ls_inside s p = None"
  shows "\<exists>s1 s'. (s1 = s \<or> lock_step False self s s1) \<and> lock_step False self s1 s' \<and> ls_inside s' p \<noteq> None"
proof -
  have enters: "\<exists>s'. lock_step False self s1 s' \<and> ls_inside s' p \<noteq> None"
    if "ls_cache s1 (lock_resource_key self None None) = None" "ls_inside s1 = Map.empty" for s1
    using that lock_step.enter [where s = s1 and p = p and lock_id = 0 and self = self and timeouts = False
        and cache' = "(ls_cache s1)(lock_resource_key self None None \<mapsto> 0)"]
    by (intro exI [of _ "\<lparr>ls_cache = (ls_cache s1)(lock_resource_key self None None \<mapsto> 0), ls_inside = (ls_inside s1)(p \<mapsto> 0)\<rparr>"])
      (auto simp: acquire_lock_Some)
  show ?thesis
  proof (cases "ls_cache s (lock_resource_key self None None)")
    case None
    then have "ls_inside s = Map.empty" using reachable_exclusive [OF assms(1)] by (simp add: exclusive_def)
    with enters [OF None] show ?thesis by blast
  next
    case (Some i)
    then obtain q where q: "ls_inside s = [q \<mapsto> i]" using reachable_exclusive [OF assms(1)] by (auto simp: exclusive_def)
    define s1 where "s1 = \<lparr>ls_cache = release_lock self None None (ls_cache s), ls_inside = (ls_inside s)(q := None)\<rparr>"
    have "lock_step False self s s1" unfolding s1_def by (rule lock_step.leave) (simp add: q)
    moreover have "\<exists>s'. lock_step False self s1 s' \<and> ls_inside s' p \<noteq> None"
      by (rule enters) (simp_all add: s1_def release_lock_def q)
    ultimately show ?thesis by blast
  qed
qed


text \<open>
  A lock that times out excludes nobody. When the entry expires while a request is still inside,
  a second one gets in; and when the first leaves, it deletes the entry of the second, because
  \<open>release_lock\<close> does not compare the lock id it was given, so that a third one can enter at once.
\<close>

theorem expired_lock_excludes_nobody:
  "\<exists>s s'. (lock_step True self)\<^sup>*\<^sup>* idle s \<and> ls_inside s 0 = Some 10 \<and> ls_inside s 1 = Some 11 \<and>
     lock_step True self s s' \<and> ls_inside s' 0 = None \<and> ls_inside s' 1 = Some 11 \<and>
     ls_cache s' (lock_resource_key self None None) = None"
proof -
  define key where "key = lock_resource_key self None None"
  define s1 where "s1 = \<lparr>ls_cache = [key \<mapsto> 10 :: uuid], ls_inside = [0 \<mapsto> 10 :: uuid] :: nat \<rightharpoonup> uuid\<rparr>"
  define s2 where "s2 = \<lparr>ls_cache = Map.empty :: lock_key \<rightharpoonup> uuid, ls_inside = [0 \<mapsto> 10 :: uuid] :: nat \<rightharpoonup> uuid\<rparr>"
  define s3 where "s3 = \<lparr>ls_cache = [key \<mapsto> 11 :: uuid], ls_inside = [0 \<mapsto> 10, 1 \<mapsto> 11 :: uuid] :: nat \<rightharpoonup> uuid\<rparr>"
  define s4 where "s4 = \<lparr>ls_cache = Map.empty :: lock_key \<rightharpoonup> uuid, ls_inside = [1 \<mapsto> 11 :: uuid] :: nat \<rightharpoonup> uuid\<rparr>"
  have "lock_step True self idle s1"
    using lock_step.enter [where s = idle and p = 0 and lock_id = 10 and cache' = "[key \<mapsto> 10]" and self = self and timeouts = True]
    by (simp add: idle_def acquire_lock_Some key_def s1_def)
  moreover have "lock_step True self s1 s2"
    using lock_step.expire [where s = s1 and self = self and timeouts = True] by (simp add: s1_def s2_def key_def)
  moreover have "lock_step True self s2 s3"
    using lock_step.enter [where s = s2 and p = 1 and lock_id = 11 and cache' = "[key \<mapsto> 11]" and self = self and timeouts = True]
    by (simp add: acquire_lock_Some key_def s2_def s3_def)
  ultimately have "(lock_step True self)\<^sup>*\<^sup>* idle s3" by (meson converse_rtranclp_into_rtranclp rtranclp.rtrancl_refl)
  moreover have "lock_step True self s3 s4"
    using lock_step.leave [where s = s3 and p = 0 and lock_id = 10 and self = self and timeouts = True]
    by (simp add: s3_def s4_def release_lock_def key_def fun_upd_twist)
  ultimately show ?thesis by (intro exI [of _ s3] exI [of _ s4]) (simp add: s3_def s4_def)
qed

theorem lock_excludes_witness:
  "\<exists>s. (lock_step False demo_policy)\<^sup>*\<^sup>* idle s \<and> ls_inside s 4 = Some 9 \<and> ls_cache s (lock_resource_key demo_policy None None) = Some 9"
proof -
  define s where "s = \<lparr>ls_cache = [lock_resource_key demo_policy None None \<mapsto> 9 :: uuid], ls_inside = [4 \<mapsto> 9 :: uuid] :: nat \<rightharpoonup> uuid\<rparr>"
  have "lock_step False demo_policy idle s"
    using lock_step.enter [where s = idle and p = 4 and lock_id = 9 and self = demo_policy and timeouts = False
        and cache' = "[lock_resource_key demo_policy None None \<mapsto> 9]"]
    by (simp add: idle_def acquire_lock_Some s_def)
  then have run: "(lock_step False demo_policy)\<^sup>*\<^sup>* idle s" by blast
  have "ls_inside s 4 = Some 9" by (simp add: s_def)
  from run this lock_excludes [OF run this this] show ?thesis by blast
qed

theorem lock_progress_witness:
  "\<exists>s1 s'. (s1 = idle \<or> lock_step False demo_policy idle s1) \<and> lock_step False demo_policy s1 s' \<and> ls_inside s' 4 \<noteq> None"
  by (rule lock_progress) (simp_all add: idle_def)

end
