(* ===== verification/Policy_Save.thy ===== *)
theory Policy_Save
  imports Policy_Model
begin

text \<open>
  Saving policies: \<open>clean\<close>, \<open>save\<close>, \<open>delete\<close> and \<open>create_deposit\<close> of \<open>subsidy_access_policy/models.py\<close>,
  and \<open>validate_budget_deactivation_with_spend\<close> of its \<open>utils.py\<close>.

  The tables are the policies, the assignment configurations and the customer configurations of
  requests. An object is being added when no row has its key. Creating an assignment configuration
  writes a row before the policy is validated, so \<open>save\<close> returns the configurations next to its result.
\<close>

section \<open>Validation\<close>

record policy_db =
  db_policies :: "policy list"
  db_configurations :: "assignment_configuration list"
  db_customers :: "customer_configuration list"

definition stored :: "policy list \<Rightarrow> policy \<Rightarrow> policy option" where
  "stored policies self = find (\<lambda>p. sap_uuid p = sap_uuid self) policies"

definition total_spend_limits_for_subsidy :: "policy list \<Rightarrow> policy \<Rightarrow> int" where
  "total_spend_limits_for_subsidy policies self =
     (if sap_active self then or_zero (sap_spend_limit self) else 0) +
     sum_list (map (\<lambda>p. or_zero (sap_spend_limit p))
       (filter (\<lambda>p. sap_enterprise_customer_uuid p = sap_enterprise_customer_uuid self \<and>
                     sap_subsidy_uuid p = sap_subsidy_uuid self \<and> sap_active p \<and> sap_uuid p \<noteq> sap_uuid self) policies))"

definition is_spend_limit_updated :: "policy list \<Rightarrow> policy \<Rightarrow> bool" where
  "is_spend_limit_updated policies self =
     (case stored policies self of None \<Rightarrow> False | Some p \<Rightarrow> sap_spend_limit p \<noteq> sap_spend_limit self)"

definition is_active_updated :: "policy list \<Rightarrow> policy \<Rightarrow> bool" where
  "is_active_updated policies self =
     (case stored policies self of None \<Rightarrow> False | Some p \<Rightarrow> sap_active p \<noteq> sap_active self)"

definition clean_spend_limit :: "policy_env \<Rightarrow> policy list \<Rightarrow> policy \<Rightarrow> unit result" where
  "clean_spend_limit env policies self =
     (if sap_active self \<and> (is_active_updated policies self \<or> is_spend_limit_updated policies self)
      then rbind (total_deposits_for_subsidy env self) (\<lambda>deposits.
             if total_spend_limits_for_subsidy policies self > deposits then Inl ValidationError else Inr ())
      else Inr ())"

text \<open>\<open>allowed\<close> is the setting \<open>ALLOW_BUDGET_DEACTIVATION_WITH_SPEND\<close>.\<close>

definition validate_budget_deactivation_with_spend :: "bool \<Rightarrow> policy_env \<Rightarrow> policy list \<Rightarrow> policy \<Rightarrow> unit result" where
  "validate_budget_deactivation_with_spend allowed env policies self =
     (if allowed \<or> sap_active self then Inr ()
      else case stored policies self of
             None \<Rightarrow> Inr ()
           | Some original \<Rightarrow>
               if sap_active original = sap_active self then Inr ()
               else case total_redeemed env self of
                      Inl _ \<Rightarrow> Inl ValidationError
                    | Inr redeemed \<Rightarrow> if redeemed < 0 then Inl ValidationError else Inr ())"

text \<open>\<open>FIELD_CONSTRAINTS\<close> of the three classes.\<close>

definition field_constraints :: "policy \<Rightarrow> bool" where
  "field_constraints self =
     (case sap_policy_type self of
        PER_LEARNER_ENROLLMENT_CREDIT \<Rightarrow>
          sap_per_learner_spend_limit self = None \<and> sap_assignment_configuration self = None
      | PER_LEARNER_SPEND_CREDIT \<Rightarrow> sap_per_learner_enrollment_limit self = None
      | ASSIGNED_LEARNER_CREDIT \<Rightarrow>
          sap_spend_limit self \<noteq> None \<and> sap_per_learner_spend_limit self = None \<and>
          sap_per_learner_enrollment_limit self = None)"

text \<open>
  \<open>clean\<close> collects what it finds, except that the deactivation check raises at once; only a
  \<open>ValidationError\<close> of the spend limit is caught.
\<close>

definition clean_policy_base :: "bool \<Rightarrow> policy_env \<Rightarrow> policy list \<Rightarrow> policy \<Rightarrow> unit result" where
  "clean_policy_base allowed env policies self =
     rbind (case clean_spend_limit env policies self of
              Inl e \<Rightarrow> if e = ValidationError then Inr True else Inl e
            | Inr _ \<Rightarrow> Inr False) (\<lambda>over.
     rbind (if stored policies self = None then Inr ()
            else validate_budget_deactivation_with_spend allowed env policies self) (\<lambda>_.
       if over \<or> \<not> field_constraints self then Inl ValidationError else Inr ()))"

definition clean_policy :: "bool \<Rightarrow> policy_env \<Rightarrow> policy_db \<Rightarrow> policy \<Rightarrow> unit result" where
  "clean_policy allowed env db self =
     rbind (clean_policy_base allowed env (db_policies db) self) (\<lambda>_.
       if sap_policy_type self = PER_LEARNER_SPEND_CREDIT \<and> bnr_enabled self \<and>
          (\<exists>c \<in> set (db_customers db). cc_enterprise_customer_uuid c = sap_enterprise_customer_uuid self \<and>
             cc_subsidy_requests_enabled c)
       then Inl ValidationError else Inr ())"

text \<open>\<open>full_clean\<close> also checks the one-to-one relations against the other rows.\<close>

definition shares_relation :: "policy \<Rightarrow> policy \<Rightarrow> bool" where
  "shares_relation p q \<longleftrightarrow> sap_uuid p \<noteq> sap_uuid q \<and>
     ((sap_assignment_configuration p \<noteq> None \<and>
       map_option ac_uuid (sap_assignment_configuration p) = map_option ac_uuid (sap_assignment_configuration q)) \<or>
      (sap_learner_credit_request_config p \<noteq> None \<and>
       map_option lcc_uuid (sap_learner_credit_request_config p) = map_option lcc_uuid (sap_learner_credit_request_config q)))"

definition full_clean_policy :: "bool \<Rightarrow> policy_env \<Rightarrow> policy_db \<Rightarrow> policy \<Rightarrow> unit result" where
  "full_clean_policy allowed env db self =
     rbind (clean_policy allowed env db self) (\<lambda>_.
       if filter (shares_relation self) (db_policies db) \<noteq> [] then Inl ValidationError else Inr ())"

section \<open>Saving\<close>

definition upsert_policy :: "policy \<Rightarrow> policy list \<Rightarrow> policy list" where
  "upsert_policy self policies =
     (if stored policies self = None then policies @ [self] else put_row sap_uuid self policies)"

definition save_base :: "bool \<Rightarrow> policy_env \<Rightarrow> policy_db \<Rightarrow> policy \<Rightarrow> (policy_db \<times> policy) result" where
  "save_base allowed env db self =
     (let self1 = (if sap_retired self \<noteq> sap_original_retired self
                   then self\<lparr>sap_retired_at := if sap_retired self then Some (pe_now env) else None,
                             sap_original_retired := sap_retired self\<rparr>
                   else self)
      in rbind (full_clean_policy allowed env db self1) (\<lambda>_.
           Inr (db\<lparr>db_policies := upsert_policy self1 (db_policies db)\<rparr>, self1)))"

text \<open>
  The configuration a saved policy ends up with: a new one (\<open>fresh\<close> is its key) or its own, moved to
  the customer of the policy.
\<close>

definition ensure_assignment_configuration :: "uuid \<Rightarrow> policy_db \<Rightarrow> policy \<Rightarrow> policy_db \<times> policy" where
  "ensure_assignment_configuration fresh db self =
     (case sap_assignment_configuration self of
        None \<Rightarrow>
          (let c = \<lparr>ac_uuid = fresh, ac_enterprise_customer_uuid = sap_enterprise_customer_uuid self, ac_active = True\<rparr>
           in (db\<lparr>db_configurations := db_configurations db @ [c]\<rparr>, self\<lparr>sap_assignment_configuration := Some c\<rparr>))
      | Some c \<Rightarrow>
          if sap_enterprise_customer_uuid self \<noteq> ac_enterprise_customer_uuid c
          then (let c' = c\<lparr>ac_enterprise_customer_uuid := sap_enterprise_customer_uuid self\<rparr>
                in (db\<lparr>db_configurations := put_row ac_uuid c' (db_configurations db)\<rparr>,
                    self\<lparr>sap_assignment_configuration := Some c'\<rparr>))
          else (db, self))"

text \<open>
  \<open>save\<close> of each class. The per-learner spend class creates a configuration only when requests are
  enabled, and validates before it calls the base class, which validates again.
\<close>

definition save_policy ::
    "bool \<Rightarrow> policy_env \<Rightarrow> uuid \<Rightarrow> policy_db \<Rightarrow> policy \<Rightarrow> policy_db \<times> policy result" where
  "save_policy allowed env fresh db self =
     (let finish = (\<lambda>db1 r. case r of Inl e \<Rightarrow> (db1, Inl e) | Inr (db2, p) \<Rightarrow> (db2, Inr p))
      in case sap_policy_type self of
           PER_LEARNER_ENROLLMENT_CREDIT \<Rightarrow> finish db (save_base allowed env db self)
         | PER_LEARNER_SPEND_CREDIT \<Rightarrow>
             (let (db1, self1) = (if bnr_enabled self \<or> sap_assignment_configuration self \<noteq> None
                                  then ensure_assignment_configuration fresh db self else (db, self))
              in finish db1 (rbind (full_clean_policy allowed env db1 self1) (\<lambda>_. save_base allowed env db1 self1)))
         | ASSIGNED_LEARNER_CREDIT \<Rightarrow>
             (let (db1, self1) = ensure_assignment_configuration fresh db (self\<lparr>sap_access_method := ASSIGNED\<rparr>)
              in finish db1 (save_base allowed env db1 self1)))"

text \<open>The soft delete.\<close>

definition delete_policy :: "bool \<Rightarrow> policy_env \<Rightarrow> uuid \<Rightarrow> policy_db \<Rightarrow> policy \<Rightarrow> policy_db \<times> policy result" where
  "delete_policy allowed env fresh db self =
     (if sap_active self then save_policy allowed env fresh db (self\<lparr>sap_active := False\<rparr>) else (db, Inr self))"

text \<open>
  A deposit: the answer of the subsidy service, then the policy with the raised limit, which is read
  and validated against what the request knows of the subsidy (\<open>env\<close>).
\<close>

definition create_deposit ::
    "bool \<Rightarrow> policy_env \<Rightarrow> uuid \<Rightarrow> unit result \<Rightarrow> int \<Rightarrow> policy_db \<Rightarrow> policy \<Rightarrow> policy_db \<times> policy result" where
  "create_deposit allowed env fresh response quantity db self =
     (case response of
        Inl e \<Rightarrow> (db, Inl (if e = HTTPError then SubsidyAPIHTTPError else e))
      | Inr _ \<Rightarrow>
          (case sap_spend_limit self of
             None \<Rightarrow> (db, Inl TypeError)
           | Some limit \<Rightarrow> save_policy allowed env fresh db (self\<lparr>sap_spend_limit := Some (limit + quantity)\<rparr>)))"


section \<open>Lemmas\<close>

lemma stored_in_upsert: "p \<in> set (upsert_policy p policies)"
proof (cases "stored policies p")
  case (Some q)
  then have "sap_uuid p \<in> sap_uuid ` set policies" using find_SomeD [OF Some [unfolded stored_def]] by (metis image_eqI)
  then show ?thesis using Some by (auto simp: upsert_policy_def set_put_row)
qed (simp add: upsert_policy_def)

lemma save_base_Inr:
  assumes "save_base allowed env db self = Inr (db', p)"
  shows "p \<in> set (db_policies db')" and "full_clean_policy allowed env db p = Inr ()"
    and "\<exists>r o'. p = self\<lparr>sap_retired_at := r, sap_original_retired := o'\<rparr>"
    and "db' = db\<lparr>db_policies := upsert_policy p (db_policies db)\<rparr>"
proof -
  define self1 where "self1 = (if sap_retired self \<noteq> sap_original_retired self
      then self\<lparr>sap_retired_at := if sap_retired self then Some (pe_now env) else None, sap_original_retired := sap_retired self\<rparr>
      else self)"
  have p: "p = self1" and c: "full_clean_policy allowed env db self1 = Inr ()"
    and d: "db' = db\<lparr>db_policies := upsert_policy self1 (db_policies db)\<rparr>"
    using assms unfolding save_base_def Let_def self1_def [symmetric] by (auto simp: rbind_Inr_iff)
  show "db' = db\<lparr>db_policies := upsert_policy p (db_policies db)\<rparr>" by (simp only: p d)
  show "p \<in> set (db_policies db')" by (simp add: p d stored_in_upsert)
  show "full_clean_policy allowed env db p = Inr ()" by (simp only: p c)
  have "self = self\<lparr>sap_retired_at := sap_retired_at self, sap_original_retired := sap_original_retired self\<rparr>" by simp
  then show "\<exists>r o'. p = self\<lparr>sap_retired_at := r, sap_original_retired := o'\<rparr>" unfolding p self1_def by metis
qed

lemma full_clean_Inr:
  assumes "full_clean_policy allowed env db p = Inr ()"
  shows "field_constraints p" and "clean_spend_limit env (db_policies db) p = Inr ()"
    and "stored (db_policies db) p = None \<or> validate_budget_deactivation_with_spend allowed env (db_policies db) p = Inr ()"
    and "sap_policy_type p = PER_LEARNER_SPEND_CREDIT \<Longrightarrow> bnr_enabled p \<Longrightarrow> c \<in> set (db_customers db) \<Longrightarrow>
      cc_enterprise_customer_uuid c = sap_enterprise_customer_uuid p \<Longrightarrow> \<not> cc_subsidy_requests_enabled c"
  using assms by (auto simp: full_clean_policy_def clean_policy_def clean_policy_base_def rbind_Inr_iff
      split: if_splits sum.splits)

lemma ensure_configuration:
  assumes "ensure_assignment_configuration fresh db self = (db1, self1)"
  shows "\<exists>c. self1 = self\<lparr>sap_assignment_configuration := Some c\<rparr> \<and>
      ac_enterprise_customer_uuid c = sap_enterprise_customer_uuid self"
    and "db_policies db1 = db_policies db" and "db_customers db1 = db_customers db"
proof -
  have "(\<exists>c. self1 = self\<lparr>sap_assignment_configuration := Some c\<rparr> \<and>
      ac_enterprise_customer_uuid c = sap_enterprise_customer_uuid self) \<and>
      db_policies db1 = db_policies db \<and> db_customers db1 = db_customers db"
  proof (cases "sap_assignment_configuration self")
    case None
    then show ?thesis using assms by (auto simp: ensure_assignment_configuration_def Let_def)
  next
    case (Some c)
    have self: "self = self\<lparr>sap_assignment_configuration := Some c\<rparr>" using Some by (cases self) simp
    show ?thesis
    proof (cases "sap_enterprise_customer_uuid self \<noteq> ac_enterprise_customer_uuid c")
      case True
      then show ?thesis using assms Some
        by (intro conjI exI [of _ "c\<lparr>ac_enterprise_customer_uuid := sap_enterprise_customer_uuid self\<rparr>"])
          (auto simp: ensure_assignment_configuration_def Let_def)
    next
      case False
      then have "self1 = self" "db1 = db" using assms Some by (simp_all add: ensure_assignment_configuration_def)
      then show ?thesis using self False by (intro conjI exI [of _ c]) simp_all
    qed
  qed
  then show "\<exists>c. self1 = self\<lparr>sap_assignment_configuration := Some c\<rparr> \<and>
      ac_enterprise_customer_uuid c = sap_enterprise_customer_uuid self"
    and "db_policies db1 = db_policies db" and "db_customers db1 = db_customers db" by simp_all
qed

text \<open>Every save is a \<open>save_base\<close> of the object with, perhaps, another configuration and access method.\<close>

lemma save_policy_Inr:
  assumes "save_policy allowed env fresh db self = (db', Inr p)"
  obtains db1 self1 where "save_base allowed env db1 self1 = Inr (db', p)"
    and "db_policies db1 = db_policies db" and "db_customers db1 = db_customers db"
    and "self1 = self \<and> sap_policy_type self \<noteq> ASSIGNED_LEARNER_CREDIT \<and>
           \<not> (sap_policy_type self = PER_LEARNER_SPEND_CREDIT \<and> bnr_enabled self) \<or>
         (\<exists>c. ac_enterprise_customer_uuid c = sap_enterprise_customer_uuid self \<and>
            self1 = (if sap_policy_type self = ASSIGNED_LEARNER_CREDIT then self\<lparr>sap_access_method := ASSIGNED\<rparr> else self)
              \<lparr>sap_assignment_configuration := Some c\<rparr>)"
proof (cases "sap_policy_type self")
  case PER_LEARNER_ENROLLMENT_CREDIT
  then have "save_base allowed env db self = Inr (db', p)"
    using assms by (auto simp: save_policy_def split: sum.splits)
  then show ?thesis by (rule that) (simp_all add: PER_LEARNER_ENROLLMENT_CREDIT)
next
  case PER_LEARNER_SPEND_CREDIT
  obtain db1 self1 where e: "(if bnr_enabled self \<or> sap_assignment_configuration self \<noteq> None
      then ensure_assignment_configuration fresh db self else (db, self)) = (db1, self1)" by fastforce
  have s: "save_base allowed env db1 self1 = Inr (db', p)"
    using assms PER_LEARNER_SPEND_CREDIT unfolding save_policy_def Let_def
    by (simp split: sum.splits prod.splits) (use e in \<open>auto simp: rbind_Inr_iff\<close>)
  show ?thesis
  proof (cases "bnr_enabled self \<or> sap_assignment_configuration self \<noteq> None")
    case True
    then have "ensure_assignment_configuration fresh db self = (db1, self1)" using e by simp
    note e = ensure_configuration [OF this]
    obtain c where "self1 = self\<lparr>sap_assignment_configuration := Some c\<rparr>"
      "ac_enterprise_customer_uuid c = sap_enterprise_customer_uuid self" using e(1) by blast
    then show ?thesis
      by (intro that [OF s e(2,3)] disjI2 exI [of _ c]) (simp add: PER_LEARNER_SPEND_CREDIT)
  next
    case False
    then have "db1 = db" "self1 = self" using e by simp_all
    then show ?thesis using False by (intro that [OF s] disjI1) (simp_all add: PER_LEARNER_SPEND_CREDIT)
  qed
next
  case ASSIGNED_LEARNER_CREDIT
  obtain db1 self1 where e: "ensure_assignment_configuration fresh db (self\<lparr>sap_access_method := ASSIGNED\<rparr>) = (db1, self1)"
    by fastforce
  have s: "save_base allowed env db1 self1 = Inr (db', p)"
    using assms ASSIGNED_LEARNER_CREDIT by (auto simp: save_policy_def Let_def e split: sum.splits)
  note e' = ensure_configuration [OF e]
  obtain c where "self1 = self\<lparr>sap_access_method := ASSIGNED\<rparr>\<lparr>sap_assignment_configuration := Some c\<rparr>"
    "ac_enterprise_customer_uuid c = sap_enterprise_customer_uuid self" using e'(1) by auto
  then show ?thesis
    by (intro that [OF s e'(2,3)] disjI2 exI [of _ c]) (simp add: ASSIGNED_LEARNER_CREDIT)
qed


lemma save_new_ignores_subsidy:
  assumes n: "stored (db_policies db) self = None"
  shows "save_policy allowed (env\<lparr>pe_retrieve_subsidy := anything\<rparr>) fresh db self = save_policy allowed env fresh db self"
proof -
  have clean: "full_clean_policy allowed (env\<lparr>pe_retrieve_subsidy := anything\<rparr>) db1 q = full_clean_policy allowed env db1 q"
    if "stored (db_policies db1) q = None" for db1 q
    using that by (simp add: full_clean_policy_def clean_policy_def clean_policy_base_def clean_spend_limit_def
        is_active_updated_def is_spend_limit_updated_def)
  have base: "save_base allowed (env\<lparr>pe_retrieve_subsidy := anything\<rparr>) db1 q = save_base allowed env db1 q"
    if "stored (db_policies db1) q = None" for db1 q
    using that by (simp add: save_base_def Let_def clean stored_def)
  have new: "stored (db_policies db1) q = None"
    if "ensure_assignment_configuration fresh db s = (db1, q)" "sap_uuid s = sap_uuid self" for s db1 q
    using ensure_configuration [OF that(1)] that(2) n by (auto simp: stored_def)
  show ?thesis
  proof (cases "sap_policy_type self")
    case PER_LEARNER_ENROLLMENT_CREDIT
    then show ?thesis by (simp add: save_policy_def base [OF n])
  next
    case PER_LEARNER_SPEND_CREDIT
    obtain db1 q where e: "(if bnr_enabled self \<or> sap_assignment_configuration self \<noteq> None
        then ensure_assignment_configuration fresh db self else (db, self)) = (db1, q)" by fastforce
    then have "stored (db_policies db1) q = None" using new n by (auto split: if_splits)
    note eqs = base [OF this] clean [OF this]
    show ?thesis unfolding save_policy_def Let_def PER_LEARNER_SPEND_CREDIT policy_type.case e prod.case eqs ..
  next
    case ASSIGNED_LEARNER_CREDIT
    obtain db1 q where e: "ensure_assignment_configuration fresh db (self\<lparr>sap_access_method := ASSIGNED\<rparr>) = (db1, q)"
      by fastforce
    then have "stored (db_policies db1) q = None" using new by simp
    note eqs = base [OF this]
    show ?thesis unfolding save_policy_def Let_def ASSIGNED_LEARNER_CREDIT policy_type.case e prod.case eqs ..
  qed
qed

lemma save_policy_Inl:
  assumes "save_policy allowed env fresh db self = (db', Inl e)"
  shows "db_policies db' = db_policies db"
proof (cases "sap_policy_type self")
  case PER_LEARNER_ENROLLMENT_CREDIT
  then show ?thesis using assms by (auto simp: save_policy_def split: sum.splits)
next
  case PER_LEARNER_SPEND_CREDIT
  obtain db1 q where e: "(if bnr_enabled self \<or> sap_assignment_configuration self \<noteq> None
      then ensure_assignment_configuration fresh db self else (db, self)) = (db1, q)" by fastforce
  then have "db_policies db1 = db_policies db" using ensure_configuration(2) by (auto split: if_splits)
  then show ?thesis using assms unfolding save_policy_def Let_def PER_LEARNER_SPEND_CREDIT policy_type.case e prod.case
    by (auto split: sum.splits)
next
  case ASSIGNED_LEARNER_CREDIT
  obtain db1 q where e: "ensure_assignment_configuration fresh db (self\<lparr>sap_access_method := ASSIGNED\<rparr>) = (db1, q)"
    by fastforce
  then have "db_policies db1 = db_policies db" using ensure_configuration(2) by metis
  then show ?thesis using assms unfolding save_policy_def Let_def ASSIGNED_LEARNER_CREDIT policy_type.case e prod.case
    by (auto split: sum.splits)
qed

text \<open>The object that is validated agrees with the saved one wherever validation looks.\<close>

lemma save_policy_validated:
  assumes "save_policy allowed env fresh db self = (db', Inr p)"
  shows "clean_spend_limit env (db_policies db) p = Inr ()"
    and "stored (db_policies db) p = None \<or> validate_budget_deactivation_with_spend allowed env (db_policies db) p = Inr ()"
    and "sap_uuid p = sap_uuid self" and "sap_active p = sap_active self" and "sap_spend_limit p = sap_spend_limit self"
    and "sap_subsidy_uuid p = sap_subsidy_uuid self" and "sap_enterprise_customer_uuid p = sap_enterprise_customer_uuid self"
proof -
  obtain db1 self1 where s: "save_base allowed env db1 self1 = Inr (db', p)" and d: "db_policies db1 = db_policies db"
    and self1: "self1 = self \<and> sap_policy_type self \<noteq> ASSIGNED_LEARNER_CREDIT \<and>
           \<not> (sap_policy_type self = PER_LEARNER_SPEND_CREDIT \<and> bnr_enabled self) \<or>
         (\<exists>c. ac_enterprise_customer_uuid c = sap_enterprise_customer_uuid self \<and>
            self1 = (if sap_policy_type self = ASSIGNED_LEARNER_CREDIT then self\<lparr>sap_access_method := ASSIGNED\<rparr> else self)
              \<lparr>sap_assignment_configuration := Some c\<rparr>)"
    using save_policy_Inr [OF assms] by metis
  note f = full_clean_Inr(2,3) [OF save_base_Inr(2) [OF s]]
  show "clean_spend_limit env (db_policies db) p = Inr ()"
    "stored (db_policies db) p = None \<or> validate_budget_deactivation_with_spend allowed env (db_policies db) p = Inr ()"
    using f by (simp_all add: d)
  obtain r o' where p: "p = self1\<lparr>sap_retired_at := r, sap_original_retired := o'\<rparr>" using save_base_Inr(3) [OF s] by blast
  show "sap_uuid p = sap_uuid self" "sap_active p = sap_active self" "sap_spend_limit p = sap_spend_limit self"
    "sap_subsidy_uuid p = sap_subsidy_uuid self" "sap_enterprise_customer_uuid p = sap_enterprise_customer_uuid self"
    using self1 by (auto simp: p split: if_splits)
qed

section \<open>Properties\<close>


text \<open>
  What \<open>clean_spend_limit\<close> protects, and what it does not. When a stored policy is saved as active
  with another spend limit or after being inactive, the active spend limits of its subsidy stay within
  the deposits. But the policy that is created is not checked at all: its save has the same outcome
  whatever the subsidy holds.
\<close>

theorem spend_limit_checked_on_updates_only:
  assumes "save_policy allowed env fresh db self = (db', Inr p)"
  shows "(sap_active p \<and> (\<exists>old. stored (db_policies db) p = Some old \<and>
         (\<not> sap_active old \<or> sap_spend_limit old \<noteq> sap_spend_limit p)) \<longrightarrow>
       (\<exists>deposits. total_deposits_for_subsidy env p = Inr deposits \<and>
         total_spend_limits_for_subsidy (db_policies db) p \<le> deposits)) \<and>
    (stored (db_policies db) self = None \<longrightarrow>
       save_policy allowed (env\<lparr>pe_retrieve_subsidy := anything\<rparr>) fresh db self = (db', Inr p))"
proof -
  show ?thesis
  proof (intro conjI impI)
    assume old: "sap_active p \<and> (\<exists>old. stored (db_policies db) p = Some old \<and>
        (\<not> sap_active old \<or> sap_spend_limit old \<noteq> sap_spend_limit p))"
    obtain db1 self1 where s: "save_base allowed env db1 self1 = Inr (db', p)" and d: "db_policies db1 = db_policies db"
      using save_policy_Inr [OF assms] by metis
    have "clean_spend_limit env (db_policies db) p = Inr ()"
      using full_clean_Inr(2) [OF save_base_Inr(2) [OF s]] by (simp add: d)
    then show "\<exists>deposits. total_deposits_for_subsidy env p = Inr deposits \<and>
        total_spend_limits_for_subsidy (db_policies db) p \<le> deposits"
      using old by (auto simp: clean_spend_limit_def is_active_updated_def is_spend_limit_updated_def rbind_Inr_iff split: if_splits)
  next
    assume "stored (db_policies db) self = None"
    then show "save_policy allowed (env\<lparr>pe_retrieve_subsidy := anything\<rparr>) fresh db self = (db', Inr p)"
      using save_new_ignores_subsidy assms by simp
  qed
qed


text \<open>
  A budget with spend stays active: deleting a stored active policy on which something was
  redeemed raises, unless the setting allows it, and leaves every policy as it is; so it does when
  the spend cannot be determined.
\<close>

theorem spent_budget_stays_active:
  assumes "sap_active self" and "stored (db_policies db) self = Some old" and "sap_active old"
    and "\<And>redeemed. total_redeemed env self = Inr redeemed \<Longrightarrow> redeemed < 0"
  shows "\<exists>db' e. delete_policy False env fresh db self = (db', Inl e) \<and> db_policies db' = db_policies db"
proof -
  obtain db' r where run: "save_policy False env fresh db (self\<lparr>sap_active := False\<rparr>) = (db', r)" by fastforce
  show ?thesis
  proof (cases r)
    case (Inl e)
    then show ?thesis using run save_policy_Inl [of False env fresh db _ db' e] assms(1) by (auto simp: delete_policy_def)
  next
    case (Inr p)
    note v = save_policy_validated [OF run [unfolded Inr]]
    have "stored (db_policies db) p = Some old" using v(3) assms(2) by (simp add: stored_def)
    moreover have "total_redeemed env p = total_redeemed env self" using v(3,6) by (simp add: total_redeemed_def)
    ultimately have False using v(2,4) assms(3,4)
      by (auto simp: validate_budget_deactivation_with_spend_def split: sum.splits if_splits)
    then show ?thesis ..
  qed
qed

text \<open>
  A deposit is not undone. After the subsidy service has accepted it, \<open>create_deposit\<close> still fails
  for a policy without a spend limit, and for a stored active policy whenever the deposits this
  request knows of (they may be cached from before the deposit) do not cover the raised limits of
  the subsidy; no policy is changed then. A refused deposit changes nothing.
\<close>

theorem create_deposit_failures:
  assumes "sap_active self" and "stored (db_policies db) self = Some old" and "sap_spend_limit old = sap_spend_limit self"
    and "total_deposits_for_subsidy env self = Inr deposits" and "quantity \<noteq> 0"
  shows "create_deposit allowed env fresh (Inl HTTPError) quantity db self = (db, Inl SubsidyAPIHTTPError) \<and>
    (sap_spend_limit self = None \<longrightarrow> create_deposit allowed env fresh (Inr ()) quantity db self = (db, Inl TypeError)) \<and>
    (\<forall>limit. sap_spend_limit self = Some limit \<and>
         total_spend_limits_for_subsidy (db_policies db) self + quantity > deposits \<longrightarrow>
       (\<exists>db' e. create_deposit allowed env fresh (Inr ()) quantity db self = (db', Inl e) \<and> db_policies db' = db_policies db))"
proof (intro conjI impI allI)
  fix limit assume l: "sap_spend_limit self = Some limit \<and> total_spend_limits_for_subsidy (db_policies db) self + quantity > deposits"
  define self' where "self' = self\<lparr>sap_spend_limit := Some (limit + quantity)\<rparr>"
  obtain db' r where run: "save_policy allowed env fresh db self' = (db', r)" by fastforce
  show "\<exists>db' e. create_deposit allowed env fresh (Inr ()) quantity db self = (db', Inl e) \<and> db_policies db' = db_policies db"
  proof (cases r)
    case (Inl e)
    then show ?thesis using run save_policy_Inl [of allowed env fresh db self' db' e] l
      by (auto simp: create_deposit_def self'_def)
  next
    case (Inr p)
    note v = save_policy_validated [OF run [unfolded Inr]]
    have st: "stored (db_policies db) p = Some old" using v(3) assms(2) by (simp add: stored_def self'_def)
    have "total_spend_limits_for_subsidy (db_policies db) p = total_spend_limits_for_subsidy (db_policies db) self + quantity"
      using v(3-7) assms(1) l by (simp add: total_spend_limits_for_subsidy_def self'_def or_zero_def)
    moreover have "total_deposits_for_subsidy env p = Inr deposits"
      using v(6) assms(4) by (simp add: total_deposits_for_subsidy_def subsidy_record_def self'_def)
    moreover have "sap_spend_limit p \<noteq> sap_spend_limit old" using v(5) l assms(3,5) by (simp add: self'_def)
    ultimately have False using v(1,4) st assms(1) l
      by (auto simp: clean_spend_limit_def is_spend_limit_updated_def self'_def)
    then show ?thesis ..
  qed
qed (simp_all add: create_deposit_def)

section \<open>Examples\<close>

definition demo_db :: policy_db where
  "demo_db = \<lparr>db_policies = [demo_policy], db_configurations = [demo_config], db_customers = []\<rparr>"


theorem spend_limit_checked_on_updates_only_witness:
  "\<exists>db' p. save_policy False (demo_policy_env\<lparr>pe_retrieve_subsidy := \<lambda>_. Inr empty_subsidy\<rparr>) 9 demo_db
     (demo_policy\<lparr>sap_uuid := 41, sap_assignment_configuration := None\<rparr>) = (db', Inr p)"
proof -
  define s where "s = demo_policy\<lparr>sap_uuid := 41, sap_assignment_configuration := None\<rparr>"
  have "isl (snd (save_policy False demo_policy_env 9 demo_db s)) = False" unfolding s_def by code_simp
  then obtain db' p where run: "save_policy False demo_policy_env 9 demo_db s = (db', Inr p)"
    by (cases "save_policy False demo_policy_env 9 demo_db s"; cases "snd (save_policy False demo_policy_env 9 demo_db s)") auto
  have "stored (db_policies demo_db) s = None" by (simp add: stored_def demo_db_def s_def demo_policy_def)
  with spend_limit_checked_on_updates_only [OF run, where anything = "\<lambda>_. Inr empty_subsidy"] show ?thesis
    unfolding s_def by blast
qed

theorem spent_budget_stays_active_witness:
  "\<exists>db' e. delete_policy False demo_policy_env 9 demo_db demo_policy = (db', Inl e) \<and> db_policies db' = db_policies demo_db"
  by (rule spent_budget_stays_active [where old = demo_policy])
    (auto simp: demo_policy_def demo_db_def stored_def total_redeemed_def demo_policy_env_def or_zero_def)

theorem create_deposit_failures_witness:
  "\<exists>db' e. create_deposit False demo_policy_env 9 (Inr ()) 4000 demo_db demo_policy = (db', Inl e) \<and> db_policies db' = db_policies demo_db"
proof -
  have "stored (db_policies demo_db) demo_policy = Some demo_policy" by (simp add: demo_db_def stored_def)
  moreover have "sap_active demo_policy" "sap_spend_limit demo_policy = Some 2000" by (simp_all add: demo_policy_def)
  moreover have "total_deposits_for_subsidy demo_policy_env demo_policy = Inr 5000" by code_simp
  moreover have "total_spend_limits_for_subsidy (db_policies demo_db) demo_policy + 4000 > 5000" by code_simp
  ultimately show ?thesis using create_deposit_failures [of demo_policy demo_db demo_policy demo_policy_env 5000 4000] by auto
qed

end
