(* ===== verification/Policy_Redemption.thy ===== *)
theory Policy_Redemption
  imports Policy_Model
begin

text \<open>
  Redeeming, \<open>subsidy_access_policy/models.py\<close>: \<open>can_redeem\<close> and \<open>credit_available\<close> of the three policy
  classes, \<open>redeem\<close>, the redemption through learner credit requests and the forced redemption.

  A redemption that fails may have written rows before it raises, so the writing operations return
  the tables next to the result instead of inside it.
\<close>

section \<open>Assignments of a policy\<close>

text \<open>A policy without a configuration sees the rows without one, and fails when it has to normalise the key.\<close>

definition get_assignment ::
    "policy_env \<Rightarrow> assignments \<Rightarrow> policy \<Rightarrow> int \<Rightarrow> string \<Rightarrow> learner_content_assignment option result" where
  "get_assignment env table self lms_user_id content_key =
     (case sap_assignment_configuration self of
        Some config \<Rightarrow> get_assignment_for_learner (pe_alloc env) table config lms_user_id content_key
      | None \<Rightarrow>
          (case get_one (filter (\<lambda>a. lca_assignment_configuration a = None \<and>
                   (lca_content_key a = content_key \<or> lca_parent_content_key a = Some content_key) \<and>
                   lca_lms_user_id a = Some lms_user_id) table) of
             Found a \<Rightarrow> Inr (Some a)
           | Multiple_Objects \<Rightarrow> Inl MultipleObjectsReturned
           | Does_Not_Exist \<Rightarrow> Inl AttributeError))"

section \<open>May a learner redeem?\<close>

type_synonym redeemability = "bool \<times> reason option \<times> ledger_transaction list"

definition can_redeem_base ::
    "policy_env \<Rightarrow> policy \<Rightarrow> int \<Rightarrow> string \<Rightarrow> bool \<Rightarrow> bool \<Rightarrow> redeemability result" where
  "can_redeem_base env self lms_user_id content_key skip_customer_user_check skip_enrollment_deadline_check =
     (if \<not> is_redemption_enabled self then Inr (False, Some REASON_POLICY_EXPIRED, [])
      else rbind (if skip_customer_user_check then Inr (True, None) else includes_learner env self lms_user_id)
        (\<lambda>(included, reason).
      if \<not> included then Inr (False, reason, [])
      else rbind (catalog_contains_content_key env self content_key) (\<lambda>contained.
      if \<not> contained then Inr (False, Some REASON_CONTENT_NOT_IN_CATALOG, [])
      else rbind (get_content_metadata env self content_key) (\<lambda>metadata.
      case metadata of
        None \<Rightarrow> Inr (False, Some REASON_CONTENT_NOT_IN_CATALOG, [])
      | Some m \<Rightarrow>
          rbind (if \<not> skip_enrollment_deadline_check \<and> \<not> is_late_redemption_allowed env self
                 then beyond_deadline env m else Inr False) (\<lambda>beyond.
          if beyond then Inr (False, Some REASON_BEYOND_ENROLLMENT_DEADLINE, [])
          else rbind (pe_can_redeem env (sap_subsidy_uuid self) lms_user_id content_key) (\<lambda>payload.
            let existing = (case scr_all_transactions payload of None \<Rightarrow> [] | Some txs \<Rightarrow> txs)
            in if scr_active payload \<noteq> Some True then Inr (False, Some REASON_SUBSIDY_EXPIRED, [])
               else if scr_can_redeem payload \<noteq> Some True
                 then Inr (False, Some REASON_NOT_ENOUGH_VALUE_IN_SUBSIDY, existing)
               else rbind (will_exceed_spend_limit env self content_key (Some m)) (\<lambda>exceeds.
                 if exceeds then Inr (False, Some REASON_POLICY_SPEND_LIMIT_REACHED, existing)
                 else Inr (True, None, existing))))))))"

definition can_redeem_enrollment ::
    "policy_env \<Rightarrow> policy \<Rightarrow> int \<Rightarrow> string \<Rightarrow> bool \<Rightarrow> bool \<Rightarrow> redeemability result" where
  "can_redeem_enrollment env self lms_user_id content_key skip_user skip_deadline =
     rbind (can_redeem_base env self lms_user_id content_key skip_user skip_deadline) (\<lambda>(ok, reason, existing).
       if \<not> ok then Inr (False, reason, existing)
       else case sap_per_learner_enrollment_limit self of
              None \<Rightarrow> Inr (True, None, existing)
            | Some limit \<Rightarrow>
                rbind (transactions_for_learner env self lms_user_id) (\<lambda>(txs, _).
                  if int (length txs) \<ge> limit then Inr (False, Some REASON_LEARNER_MAX_ENROLLMENTS_REACHED, existing)
                  else Inr (True, None, existing)))"

definition failure_reason_for_state :: "learner_content_assignment option \<Rightarrow> reason" where
  "failure_reason_for_state found =
     (case found of
        None \<Rightarrow> REASON_LEARNER_NOT_ASSIGNED_CONTENT
      | Some a \<Rightarrow> (case lca_state a of
            CANCELLED \<Rightarrow> REASON_LEARNER_ASSIGNMENT_CANCELLED
          | ERRORED \<Rightarrow> REASON_LEARNER_ASSIGNMENT_FAILED
          | EXPIRED \<Rightarrow> REASON_LEARNER_ASSIGNMENT_EXPIRED
          | REVERSED \<Rightarrow> REASON_LEARNER_ASSIGNMENT_REVERSED
          | _ \<Rightarrow> REASON_LEARNER_NOT_ASSIGNED_CONTENT))"

definition can_redeem_assigned ::
    "policy_env \<Rightarrow> assignments \<Rightarrow> policy \<Rightarrow> int \<Rightarrow> string \<Rightarrow> bool \<Rightarrow> bool \<Rightarrow> redeemability result" where
  "can_redeem_assigned env table self lms_user_id content_key skip_user skip_deadline =
     rbind (can_redeem_base env self lms_user_id content_key skip_user skip_deadline) (\<lambda>(ok, reason, existing).
       if \<not> ok then Inr (False, reason, existing)
       else rbind (get_assignment env table self lms_user_id content_key) (\<lambda>found.
         if \<not> (\<exists>a \<in> set_option found. lca_state a = ALLOCATED)
         then Inr (False, Some (failure_reason_for_state found), existing)
         else Inr (True, None, existing)))"

text \<open>
  A policy of another class seen as an assigned-credit policy: a fresh object (its access method is
  the default, \<open>direct\<close>, and it has no per-learner limits and no request configuration) with the
  listed attributes copied.
\<close>

definition copy_context_to :: "policy \<Rightarrow> policy" where
  "copy_context_to self =
     \<lparr>sap_policy_type = ASSIGNED_LEARNER_CREDIT, sap_uuid = sap_uuid self,
      sap_enterprise_customer_uuid = sap_enterprise_customer_uuid self, sap_active = sap_active self,
      sap_learner_credit_request_config = None, sap_retired = sap_retired self, sap_original_retired = False,
      sap_retired_at = sap_retired_at self, sap_catalog_uuid = sap_catalog_uuid self,
      sap_subsidy_uuid = sap_subsidy_uuid self, sap_access_method = DIRECT,
      sap_spend_limit = sap_spend_limit self,
      sap_assignment_configuration = sap_assignment_configuration self,
      sap_late_redemption_allowed_until = sap_late_redemption_allowed_until self,
      sap_per_learner_enrollment_limit = None, sap_per_learner_spend_limit = None\<rparr>"

definition assignment_request_can_redeem ::
    "policy_env \<Rightarrow> assignments \<Rightarrow> policy \<Rightarrow> int \<Rightarrow> string \<Rightarrow> bool \<Rightarrow> bool \<Rightarrow> redeemability result" where
  "assignment_request_can_redeem env table self lms_user_id content_key skip_user skip_deadline =
     can_redeem_assigned env table (copy_context_to self) lms_user_id content_key skip_user skip_deadline"

definition can_redeem_spend ::
    "policy_env \<Rightarrow> assignments \<Rightarrow> policy \<Rightarrow> int \<Rightarrow> string \<Rightarrow> bool \<Rightarrow> bool \<Rightarrow> redeemability result" where
  "can_redeem_spend env table self lms_user_id content_key skip_user skip_deadline =
     (if bnr_enabled self
      then assignment_request_can_redeem env table self lms_user_id content_key skip_user skip_deadline
      else rbind (can_redeem_base env self lms_user_id content_key skip_user skip_deadline) (\<lambda>(ok, reason, existing).
        if \<not> ok then Inr (False, reason, existing)
        else if sap_per_learner_spend_limit self = None then Inr (True, None, existing)
        else rbind (transactions_for_learner env self lms_user_id) (\<lambda>(_, spent).
             rbind (get_content_price env self content_key None) (\<lambda>price.
             rbind (content_would_exceed_limit spent (sap_per_learner_spend_limit self) price) (\<lambda>exceeds.
               if exceeds then Inr (False, Some REASON_LEARNER_MAX_SPEND_REACHED, existing)
               else Inr (True, None, existing))))))"

definition can_redeem ::
    "policy_env \<Rightarrow> assignments \<Rightarrow> policy \<Rightarrow> int \<Rightarrow> string \<Rightarrow> bool \<Rightarrow> bool \<Rightarrow> redeemability result" where
  "can_redeem env table self =
     (case sap_policy_type self of
        PER_LEARNER_ENROLLMENT_CREDIT \<Rightarrow> can_redeem_enrollment env self
      | PER_LEARNER_SPEND_CREDIT \<Rightarrow> can_redeem_spend env table self
      | ASSIGNED_LEARNER_CREDIT \<Rightarrow> can_redeem_assigned env table self)"

section \<open>Is there credit?\<close>

definition has_credit_available_with_spend_limit :: "policy_env \<Rightarrow> policy \<Rightarrow> bool result" where
  "has_credit_available_with_spend_limit env self =
     (case sap_spend_limit self of
        None \<Rightarrow> Inr True
      | Some limit \<Rightarrow>
          rbind (total_redeemed env self) (\<lambda>spent.
            if spent > 0 then Inl GenericException
            else Inr (\<not> spent * -1 \<ge> limit)))"

definition credit_available_base :: "policy_env \<Rightarrow> policy \<Rightarrow> int \<Rightarrow> bool \<Rightarrow> bool \<Rightarrow> bool result" where
  "credit_available_base env self lms_user_id skip_customer_user_check skip_inactive_subsidy_check =
     (if \<not> is_redemption_enabled self then Inr False
      else rbind (if skip_customer_user_check then Inr (True, None) else includes_learner env self lms_user_id)
        (\<lambda>(included, _).
      if \<not> included then Inr False
      else rbind (if skip_inactive_subsidy_check then Inr True
                  else case is_subsidy_active env self of
                         Inl e \<Rightarrow> if e = HTTPError then Inr False else Inl e
                       | Inr b \<Rightarrow> Inr b) (\<lambda>current.
      if \<not> current then Inr False
      else rbind (subsidy_balance env self) (\<lambda>balance.
      if balance \<le> 0 then Inr False
      else has_credit_available_with_spend_limit env self))))"

definition remaining_balance_enrollment :: "policy_env \<Rightarrow> policy \<Rightarrow> int \<Rightarrow> int option result" where
  "remaining_balance_enrollment env self lms_user_id =
     (case sap_per_learner_enrollment_limit self of
        None \<Rightarrow> Inr None
      | Some limit \<Rightarrow>
          if limit \<le> 0 then Inr (Some 0)
          else rbind (transactions_for_learner env self lms_user_id) (\<lambda>(txs, _).
                 Inr (Some (limit - int (length txs)))))"

definition remaining_balance_spend :: "policy_env \<Rightarrow> policy \<Rightarrow> int \<Rightarrow> int option result" where
  "remaining_balance_spend env self lms_user_id =
     (case sap_per_learner_spend_limit self of
        None \<Rightarrow> Inr None
      | Some limit \<Rightarrow>
          if limit \<le> 0 then Inr (Some 0)
          else rbind (transactions_for_learner env self lms_user_id) (\<lambda>(_, spent).
                 if spent > 0 then Inl GenericException
                 else Inr (Some (limit - spent * -1))))"

definition credit_available ::
    "policy_env \<Rightarrow> assignments \<Rightarrow> actions \<Rightarrow> policy \<Rightarrow> int \<Rightarrow> bool result" where
  "credit_available env table actions self lms_user_id =
     (case sap_policy_type self of
        PER_LEARNER_ENROLLMENT_CREDIT \<Rightarrow>
          rbind (credit_available_base env self lms_user_id False False) (\<lambda>available.
            if \<not> available then Inr False
            else if sap_per_learner_enrollment_limit self = None then Inr True
            else rbind (remaining_balance_enrollment env self lms_user_id) (\<lambda>remaining.
                   Inr (\<exists>r \<in> set_option remaining. r > 0)))
      | PER_LEARNER_SPEND_CREDIT \<Rightarrow>
          rbind (credit_available_base env self lms_user_id False False) (\<lambda>available.
            if \<not> available then Inr False
            else if sap_per_learner_spend_limit self = None then Inr True
            else rbind (remaining_balance_spend env self lms_user_id) (\<lambda>remaining.
                   if bnr_enabled self \<and> remaining = Some 0 then Inr True
                   else Inr (\<exists>r \<in> set_option remaining. r > 0)))
      | ASSIGNED_LEARNER_CREDIT \<Rightarrow>
          rbind (credit_available_base env self lms_user_id False True) (\<lambda>available.
            if \<not> available then Inr False
            else rbind (rmap (learner_acknowledged actions)
                   (filter (\<lambda>a. lca_assignment_configuration a = map_option ac_uuid (sap_assignment_configuration self) \<and>
                      lca_lms_user_id a = Some lms_user_id) table)) (\<lambda>acknowledged.
                   Inr (\<exists>x \<in> set acknowledged. x \<noteq> Some True))))"

section \<open>Redeeming\<close>

text \<open>The transactions that allow another attempt: failed, or reversed for good.\<close>

definition redemptions_for_idempotency_key :: "ledger_transaction list \<Rightarrow> uuid list" where
  "redemptions_for_idempotency_key all_transactions =
     map tx_uuid (filter (\<lambda>t. tx_state t = TX_FAILED \<or> tx_reversal t = Some (Some TX_COMMITTED)) all_transactions)"

text \<open>The key is the uuid of the subsidy and a digest of the metadata; the fixed prefix is left out.\<close>

definition create_idempotency_key_for_transaction ::
    "policy_env \<Rightarrow> uuid \<Rightarrow> int \<Rightarrow> string \<Rightarrow> uuid \<Rightarrow> uuid list \<Rightarrow> uuid \<times> string" where
  "create_idempotency_key_for_transaction env subsidy_uuid lms_user_id content_key policy_uuid historical =
     (subsidy_uuid, pe_digest env (lms_user_id, content_key, policy_uuid, historical))"

definition allow_late_enrollment_key :: string where
  "allow_late_enrollment_key = ''allow_late_enrollment''"

definition transaction_payload ::
    "policy_env \<Rightarrow> policy \<Rightarrow> int \<Rightarrow> string \<Rightarrow> ledger_transaction list \<Rightarrow> (string \<times> json) list option
       \<Rightarrow> int option \<Rightarrow> transaction_request" where
  "transaction_payload env self lms_user_id content_key all_transactions metadata requested_price_cents =
     \<lparr>tr_subsidy_uuid = sap_subsidy_uuid self, tr_lms_user_id = lms_user_id, tr_content_key = content_key,
      tr_policy_uuid = sap_uuid self,
      tr_metadata = (if is_late_redemption_allowed env self
        then Some (dict_put (case metadata of None \<Rightarrow> [] | Some m \<Rightarrow> m) allow_late_enrollment_key (JBool True))
        else metadata),
      tr_idempotency_key = create_idempotency_key_for_transaction env (sap_subsidy_uuid self) lms_user_id
        content_key (sap_uuid self) (redemptions_for_idempotency_key all_transactions),
      tr_requested_price_cents = requested_price_cents\<rparr>"

definition redeem_base ::
    "policy_env \<Rightarrow> policy \<Rightarrow> int \<Rightarrow> string \<Rightarrow> ledger_transaction list \<Rightarrow> (string \<times> json) list option
       \<Rightarrow> int option \<Rightarrow> ledger_transaction result" where
  "redeem_base env self lms_user_id content_key all_transactions metadata requested_price_cents =
     (if sap_access_method self \<in> {DIRECT, ASSIGNED}
      then (case pe_create_transaction env
                (transaction_payload env self lms_user_id content_key all_transactions metadata requested_price_cents) of
              Inl e \<Rightarrow> Inl (if e = HTTPError then SubsidyAPIHTTPError else e)
            | Inr tx \<Rightarrow> Inr tx)
      else Inl ValueError)"

definition redemptions :: "policy_env \<Rightarrow> policy \<Rightarrow> int \<Rightarrow> string \<Rightarrow> ledger_transaction list result" where
  "redemptions env self lms_user_id content_key =
     (if sap_access_method self = DIRECT
      then transactions_for_learner_and_content env self lms_user_id content_key
      else Inl ValueError)"

definition has_redeemed :: "policy_env \<Rightarrow> policy \<Rightarrow> int \<Rightarrow> string \<Rightarrow> bool result" where
  "has_redeemed env self lms_user_id content_key =
     (if sap_access_method self = DIRECT
      then rbind (transactions_for_learner_and_content env self lms_user_id content_key) (\<lambda>txs. Inr (txs \<noteq> []))
      else Inl ValueError)"

text \<open>
  Redeeming an assignment. The record comes from the table as the request read it (\<open>seen\<close>, the
  request cache keeps it) and is saved as a whole into the table as it is now.
\<close>

record redemption =
  rd_result :: "ledger_transaction result"
  rd_table :: assignments
  rd_actions :: actions

definition errored_assignment :: "policy_env \<Rightarrow> learner_content_assignment \<Rightarrow> learner_content_assignment" where
  "errored_assignment env a = a\<lparr>lca_state := ERRORED, lca_errored_at := Some (pe_now env)\<rparr>"

definition accepted_assignment ::
    "policy_env \<Rightarrow> string \<Rightarrow> ledger_transaction \<Rightarrow> learner_content_assignment \<Rightarrow> learner_content_assignment" where
  "accepted_assignment env content_key tx a =
     a\<lparr>lca_state := ACCEPTED, lca_preferred_course_run_key := Some content_key,
       lca_accepted_at := Some (pe_now env), lca_errored_at := None, lca_cancelled_at := None,
       lca_expired_at := None, lca_transaction_uuid := Some (tx_uuid tx)\<rparr>"

definition redeem_assigned ::
    "policy_env \<Rightarrow> string \<Rightarrow> assignments \<Rightarrow> policy \<Rightarrow> int \<Rightarrow> string \<Rightarrow> ledger_transaction list
       \<Rightarrow> (string \<times> json) list option \<Rightarrow> assignments \<Rightarrow> actions \<Rightarrow> redemption" where
  "redeem_assigned env tb seen self lms_user_id content_key all_transactions metadata table actions =
     (let fails = (\<lambda>e. \<lparr>rd_result = Inl e, rd_table = table, rd_actions = actions\<rparr>);
          saved = (\<lambda>a result action. case save_assignment (pe_now env) a table of
              Inl e \<Rightarrow> fails e
            | Inr table' \<Rightarrow> \<lparr>rd_result = result, rd_table = table', rd_actions = action a actions\<rparr>)
      in case get_assignment env seen self lms_user_id content_key of
           Inl e \<Rightarrow> fails e
         | Inr None \<Rightarrow> fails MissingAssignment
         | Inr (Some a) \<Rightarrow>
             if lca_state a \<noteq> ALLOCATED then fails MissingAssignment
             else (case redeem_base env self lms_user_id content_key all_transactions metadata
                          (Some (-1 * lca_content_quantity a)) of
                Inl e \<Rightarrow>
                  if e = SubsidyAPIHTTPError
                  then saved (errored_assignment env a) (Inl SubsidyAPIHTTPError) (add_errored_redeemed_action tb)
                  else fails e
              | Inr tx \<Rightarrow>
                  saved (accepted_assignment env content_key tx a) (Inr tx)
                    (add_successful_redeemed_action (pe_now env))))"

section \<open>Redeeming through learner credit requests\<close>

record request_redemption = redemption +
  rd_requests :: "learner_credit_request list"
  rd_request_actions :: "lcr_action list"
  rd_tasks :: "task list"

text \<open>
  The body of the \<open>try\<close> block up to the creation of the action: the request behind the assignment and
  its action. A missing assignment makes the log line dereference \<open>None\<close>, a missing request is a
  \<open>RelatedObjectDoesNotExist\<close>, which is an \<open>AttributeError\<close>.
\<close>

definition start_request_redemption ::
    "policy_env \<Rightarrow> assignments \<Rightarrow> policy \<Rightarrow> learner_credit_request list \<Rightarrow> int \<Rightarrow> string
       \<Rightarrow> (learner_credit_request \<times> lcr_action) result" where
  "start_request_redemption env table self requests lms_user_id content_key =
     rbind (get_assignment env table self lms_user_id content_key) (\<lambda>found.
       case Option.bind found (credit_request_of requests) of
         None \<Rightarrow> Inl AttributeError
       | Some r \<Rightarrow>
           rbind (create_action (pe_now env) (Some (sr_uuid r)) (get_action_choice ''accepted'')
                    (get_user_message_choice ''accepted'') None None) (\<lambda>action.
             Inr (r, action)))"

text \<open>
  The \<open>except\<close> block writes the failure into \<open>action\<close>; when the exception came before the action was
  created, this raises \<open>UnboundLocalError\<close> instead.
\<close>

definition request_redemption_failed :: "string \<Rightarrow> lcr_action \<Rightarrow> lcr_action" where
  "request_redemption_failed tb action =
     action\<lparr>act_status := get_action_choice ''approved'',
            act_error_reason := get_error_reason_choice ''failed_redemption'',
            act_traceback := Some tb\<rparr>"

definition assignment_request_redeem ::
    "policy_env \<Rightarrow> string \<Rightarrow> assignments \<Rightarrow> policy \<Rightarrow> int \<Rightarrow> string \<Rightarrow> ledger_transaction list
       \<Rightarrow> (string \<times> json) list option \<Rightarrow> assignments \<Rightarrow> actions \<Rightarrow> learner_credit_request list
       \<Rightarrow> lcr_action list \<Rightarrow> request_redemption" where
  "assignment_request_redeem env tb seen self lms_user_id content_key all_transactions metadata
       table actions requests request_actions =
     (let policy = copy_context_to self
      in case start_request_redemption env seen policy requests lms_user_id content_key of
           Inl e \<Rightarrow> \<lparr>rd_result = Inl UnboundLocalError, rd_table = table, rd_actions = actions,
             rd_requests = requests, rd_request_actions = request_actions, rd_tasks = []\<rparr>
         | Inr (r, action) \<Rightarrow>
             (let rd = redeem_assigned env tb seen policy lms_user_id content_key all_transactions metadata table actions;
                  failed = request_actions @ [request_redemption_failed tb action]
              in case rd_result rd of
                   Inl e \<Rightarrow> \<lparr>rd_result = Inl e, rd_table = rd_table rd, rd_actions = rd_actions rd,
                     rd_requests = requests, rd_request_actions = failed, rd_tasks = []\<rparr>
                 | Inr tx \<Rightarrow>
                     (case save_lcr (pe_now env) requests (r\<lparr>sr_state := SR_ACCEPTED\<rparr>) of
                        Inl e \<Rightarrow> \<lparr>rd_result = Inl e, rd_table = rd_table rd, rd_actions = rd_actions rd,
                          rd_requests = requests, rd_request_actions = failed, rd_tasks = []\<rparr>
                      | Inr (requests', _, ts) \<Rightarrow> \<lparr>rd_result = Inr tx, rd_table = rd_table rd,
                          rd_actions = rd_actions rd, rd_requests = requests',
                          rd_request_actions = request_actions @ [action], rd_tasks = ts\<rparr>)))"

text \<open>The method of each class.\<close>

definition redeem ::
    "policy_env \<Rightarrow> string \<Rightarrow> assignments \<Rightarrow> policy \<Rightarrow> int \<Rightarrow> string \<Rightarrow> ledger_transaction list
       \<Rightarrow> (string \<times> json) list option \<Rightarrow> assignments \<Rightarrow> actions \<Rightarrow> learner_credit_request list
       \<Rightarrow> lcr_action list \<Rightarrow> request_redemption" where
  "redeem env tb seen self lms_user_id content_key all_transactions metadata table actions requests request_actions =
     (let plain = (\<lambda>result table' actions'. \<lparr>rd_result = result, rd_table = table', rd_actions = actions',
            rd_requests = requests, rd_request_actions = request_actions, rd_tasks = []\<rparr>)
      in case sap_policy_type self of
           ASSIGNED_LEARNER_CREDIT \<Rightarrow>
             (let rd = redeem_assigned env tb seen self lms_user_id content_key all_transactions metadata table actions
              in plain (rd_result rd) (rd_table rd) (rd_actions rd))
         | PER_LEARNER_SPEND_CREDIT \<Rightarrow>
             if bnr_enabled self
             then assignment_request_redeem env tb seen self lms_user_id content_key all_transactions metadata
                    table actions requests request_actions
             else plain (redeem_base env self lms_user_id content_key all_transactions metadata None) table actions
         | PER_LEARNER_ENROLLMENT_CREDIT \<Rightarrow>
             plain (redeem_base env self lms_user_id content_key all_transactions metadata None) table actions)"


section \<open>Lemmas\<close>

text \<open>Everything that a positive answer of the base class means.\<close>

lemma can_redeem_base_True_iff:
  "can_redeem_base env self u k su sd = Inr (True, r, txs) \<longleftrightarrow>
     is_redemption_enabled self \<and> (su \<or> (\<exists>x. includes_learner env self u = Inr (True, x))) \<and>
     catalog_contains_content_key env self k = Inr True \<and>
     (\<exists>m payload. get_content_metadata env self k = Inr (Some m) \<and>
        (sd \<or> is_late_redemption_allowed env self \<or> beyond_deadline env m = Inr False) \<and>
        pe_can_redeem env (sap_subsidy_uuid self) u k = Inr payload \<and>
        scr_active payload = Some True \<and> scr_can_redeem payload = Some True \<and>
        will_exceed_spend_limit env self k (Some m) = Inr False \<and>
        r = None \<and> txs = (case scr_all_transactions payload of None \<Rightarrow> [] | Some ts \<Rightarrow> ts))"
  (is "?run \<longleftrightarrow> ?checks")
proof
  assume ?run
  then show ?checks
    unfolding can_redeem_base_def Let_def
    by (elim successE) (auto split: if_splits)
next
  assume c: ?checks
  then obtain m payload where m: "get_content_metadata env self k = Inr (Some m)"
    "sd \<or> is_late_redemption_allowed env self \<or> beyond_deadline env m = Inr False"
    "pe_can_redeem env (sap_subsidy_uuid self) u k = Inr payload"
    "scr_active payload = Some True" "scr_can_redeem payload = Some True"
    "will_exceed_spend_limit env self k (Some m) = Inr False"
    "r = None" "txs = (case scr_all_transactions payload of None \<Rightarrow> [] | Some ts \<Rightarrow> ts)" by blast
  have deadline: "(if \<not> sd \<and> \<not> is_late_redemption_allowed env self then beyond_deadline env m else Inr False) = Inr False"
    using m(2) by auto
  obtain x where "(if su then Inr (True, None) else includes_learner env self u) = Inr (True, x)"
    using c by (cases su) auto
  then show ?run using c m deadline by (simp add: can_redeem_base_def)
qed

end
