(* ===== verification/Policy_Allocation.thy ===== *)
theory Policy_Allocation
  imports Policy_Redemption
begin

text \<open>
  Allocating under a policy: \<open>can_allocate\<close>, \<open>can_allocate_all\<close>, \<open>can_approve\<close> and \<open>approve\<close> of
  \<open>subsidy_access_policy/models.py\<close>, the approval of a batch of credit requests in
  \<open>subsidy_access_policy/api.py\<close>, and the budget that these checks protect.

  The bounds on a requested price are products of floating-point numbers: the ratios of the settings
  and the product are rounded by \<open>pe_round\<close>.
\<close>

section \<open>Prices\<close>

definition allocation_price_lower_bound :: "policy_env \<Rightarrow> int \<Rightarrow> rat" where
  "allocation_price_lower_bound env price = pe_round env (pe_round env (95 / 100) * of_int price)"

definition allocation_price_upper_bound :: "policy_env \<Rightarrow> int \<Rightarrow> rat" where
  "allocation_price_upper_bound env price = pe_round env (pe_round env (105 / 100) * of_int price)"

definition price_acceptable :: "policy_env \<Rightarrow> int \<Rightarrow> int \<Rightarrow> bool" where
  "price_acceptable env canonical requested \<longleftrightarrow>
     allocation_price_lower_bound env canonical \<le> of_int requested \<and>
     of_int requested \<le> allocation_price_upper_bound env canonical"

definition validate_requested_allocation_price :: "policy_env \<Rightarrow> policy \<Rightarrow> string \<Rightarrow> int \<Rightarrow> unit result" where
  "validate_requested_allocation_price env self content_key requested =
     (if requested < 0 then Inl PriceValidationError
      else rbind (get_content_price env self content_key None) (\<lambda>canonical.
        if \<not> price_acceptable env canonical requested then Inl PriceValidationError else Inr ()))"

section \<open>May content be allocated?\<close>

text \<open>The two limits both checks share: the balance of the subsidy, then the spend limit of the policy.\<close>

definition check_limits :: "policy_env \<Rightarrow> assignments \<Rightarrow> policy \<Rightarrow> int \<Rightarrow> reason option result" where
  "check_limits env table self total_price =
     rbind (total_redeemed env self) (\<lambda>spent.
       let allocated = allocated_quantity table (sap_assignment_configuration self)
       in rbind (subsidy_balance env self) (\<lambda>balance.
          rbind (content_would_exceed_limit allocated (Some balance) total_price) (\<lambda>over_balance.
          if over_balance then Inr (Some REASON_NOT_ENOUGH_VALUE_IN_SUBSIDY)
          else rbind (content_would_exceed_limit (spent + allocated) (sap_spend_limit self) total_price) (\<lambda>over_limit.
            Inr (if over_limit then Some REASON_POLICY_SPEND_LIMIT_REACHED else None)))))"

definition can_allocate ::
    "policy_env \<Rightarrow> assignments \<Rightarrow> policy \<Rightarrow> nat \<Rightarrow> string \<Rightarrow> int \<Rightarrow> (bool \<times> reason option) result" where
  "can_allocate env table self number_of_learners content_key content_price_cents =
     rbind (validate_requested_allocation_price env self content_key content_price_cents) (\<lambda>_.
     if \<not> is_redemption_enabled self then Inr (False, Some REASON_POLICY_EXPIRED)
     else rbind (catalog_contains_content_key env self content_key) (\<lambda>contained.
     if \<not> contained then Inr (False, Some REASON_CONTENT_NOT_IN_CATALOG)
     else rbind (is_subsidy_active env self) (\<lambda>active.
     if \<not> active then Inr (False, Some REASON_SUBSIDY_EXPIRED)
     else rbind (check_limits env table self (int number_of_learners * content_price_cents)) (\<lambda>refused.
       Inr (refused = None, refused)))))"

definition allocate ::
    "policy_env \<Rightarrow> assignments \<Rightarrow> policy \<Rightarrow> string list \<Rightarrow> string \<Rightarrow> int \<Rightarrow> int option \<Rightarrow> allocation result" where
  "allocate env table self learner_emails content_key content_price_cents admin_lms_user_id =
     (case sap_assignment_configuration self of
        None \<Rightarrow> Inl AttributeError
      | Some config \<Rightarrow>
          allocate_assignments (pe_alloc env) table config learner_emails content_key content_price_cents
            admin_lms_user_id [])"

section \<open>Batches of credit requests\<close>

type_synonym failed_requests = "(string \<times> learner_credit_request list) list"

datatype approval_check =
    Error_Reason reason
  | Approvable "learner_credit_request list" failed_requests

text \<open>
  The price of a request may be missing, and comparing \<open>None\<close> raises. The metadata of a request is
  there, the caller only passes requests whose content is in the catalog.
\<close>

definition request_price_acceptable ::
    "policy_env \<Rightarrow> (string \<times> content_data) list \<Rightarrow> learner_credit_request \<Rightarrow> bool result" where
  "request_price_acceptable env all_metadata r =
     (case lcr_course_price r of
        None \<Rightarrow> Inl TypeError
      | Some requested \<Rightarrow>
          if requested < 0 then Inr False
          else case Option.bind (sr_course_id r) (map_of all_metadata) of
                 None \<Rightarrow> Inl AttributeError
               | Some m \<Rightarrow>
                   Inr (price_acceptable env (get_canonical_content_price_from_metadata (sr_course_id r) m) requested))"

definition validate_learner_credit_requests_allocation_prices ::
    "policy_env \<Rightarrow> learner_credit_request list \<Rightarrow> (string \<times> content_data) list
       \<Rightarrow> (learner_credit_request list \<times> learner_credit_request list) result" where
  "validate_learner_credit_requests_allocation_prices env requests all_metadata =
     rbind (rmap (request_price_acceptable env all_metadata) requests) (\<lambda>oks.
       Inr (map fst (filter snd (zip requests oks)), map fst (filter (\<lambda>(_, ok). \<not> ok) (zip requests oks))))"

definition batch_metadata :: "policy_env \<Rightarrow> policy \<Rightarrow> learner_credit_request list \<Rightarrow> (string \<times> content_data) list result" where
  "batch_metadata env self requests =
     rbind (ae_catalog_metadata (pe_alloc env) (sap_catalog_uuid self) (remdups (List.map_filter sr_course_id requests))) (\<lambda>metas.
     rbind (rmap (\<lambda>m. case cd_key m of None \<Rightarrow> Inl KeyError | Some k \<Rightarrow> Inr (k, m)) metas) (\<lambda>ps.
       Inr (dict_of_pairs ps)))"

definition in_catalog :: "(string \<times> content_data) list \<Rightarrow> learner_credit_request \<Rightarrow> bool" where
  "in_catalog all_metadata r = (Option.bind (sr_course_id r) (map_of all_metadata) \<noteq> None)"

definition named :: "string \<Rightarrow> learner_credit_request list \<Rightarrow> failed_requests" where
  "named reason rs = (if rs = [] then [] else [(reason, rs)])"

definition sum_prices :: "learner_credit_request list \<Rightarrow> int" where
  "sum_prices rs = sum_list (map (\<lambda>r. or_zero (lcr_course_price r)) rs)"

definition can_allocate_all ::
    "policy_env \<Rightarrow> assignments \<Rightarrow> policy \<Rightarrow> learner_credit_request list \<Rightarrow> approval_check result" where
  "can_allocate_all env table self requests =
     (if \<not> is_redemption_enabled self then Inr (Error_Reason REASON_POLICY_EXPIRED)
      else rbind (is_subsidy_active env self) (\<lambda>active.
      if \<not> active then Inr (Error_Reason REASON_SUBSIDY_EXPIRED)
      else rbind (batch_metadata env self requests) (\<lambda>all_metadata.
      rbind (validate_learner_credit_requests_allocation_prices env (filter (in_catalog all_metadata) requests) all_metadata)
        (\<lambda>(valid, failed_price).
        let failed = named ''content_not_in_catalog'' (filter (\<lambda>r. \<not> in_catalog all_metadata r) requests)
                     @ named ''PriceValidationError'' failed_price
        in if valid = [] then Inr (Approvable [] failed)
           else rbind (check_limits env table self (sum_prices valid)) (\<lambda>refused.
             case refused of
               Some reason \<Rightarrow> Inr (Error_Reason reason)
             | None \<Rightarrow> Inr (Approvable valid failed))))))"

text \<open>
  \<open>can_approve\<close> of a policy: only a class with the request mixin, the per-learner spend policy, has
  \<open>assignment_request_can_allocate\<close>.
\<close>

definition can_approve ::
    "policy_env \<Rightarrow> assignments \<Rightarrow> policy \<Rightarrow> learner_credit_request list \<Rightarrow> approval_check result" where
  "can_approve env table self requests =
     (if \<not> bnr_enabled self then Inr (Error_Reason REASON_BNR_NOT_ENABLED)
      else if sap_policy_type self = PER_LEARNER_SPEND_CREDIT
        then can_allocate_all env table (copy_context_to self) requests
      else Inl AttributeError)"

definition approve ::
    "policy_env \<Rightarrow> assignments \<Rightarrow> policy \<Rightarrow> learner_credit_request list
       \<Rightarrow> (assignments \<times> (uuid \<times> learner_content_assignment option) list) result" where
  "approve env table self requests =
     (case sap_assignment_configuration self of
        None \<Rightarrow> Inl AttributeError
      | Some config \<Rightarrow>
          allocate_assignment_for_requests (pe_alloc env) table config (sap_catalog_uuid self) requests)"

section \<open>Approving through a policy\<close>

definition get_subsidy_access_policy :: "policy list \<Rightarrow> uuid \<Rightarrow> policy option" where
  "get_subsidy_access_policy policies uuid = find (\<lambda>p. sap_uuid p = uuid) policies"

text \<open>
  The exceptions that become an approval error; \<open>PriceValidationError\<close> is a \<open>ValidationError\<close> and
  \<open>SubsidyAPIHTTPError\<close> an \<open>HTTPError\<close>. A failed lock becomes one, too.
\<close>

definition approval_exceptions :: "py_error list" where
  "approval_exceptions =
     [SubsidyAccessPolicyLockAttemptFailed, AllocationException, PriceValidationError, ValidationError,
      IntegrityError, HTTPError, SubsidyAPIHTTPError, ContentPriceNullException]"

definition as_approval_error :: "'a result \<Rightarrow> 'a result" where
  "as_approval_error r =
     (case r of Inl e \<Rightarrow> Inl (if e \<in> set approval_exceptions then SubisidyAccessPolicyRequestApprovalError else e)
      | Inr x \<Rightarrow> Inr x)"

type_synonym approvals = "(uuid \<times> learner_credit_request \<times> learner_content_assignment) list"

text \<open>
  \<open>locked\<close> says whether somebody else holds the lock of the policy. The allocation commits its own
  transaction, so its table stays even if an assignment is then found missing.
\<close>

definition approve_learner_credit_requests_via_policy ::
    "policy_env \<Rightarrow> policy list \<Rightarrow> bool \<Rightarrow> uuid \<Rightarrow> learner_credit_request list \<Rightarrow> assignments
       \<Rightarrow> assignments \<times> (approvals \<times> failed_requests) result" where
  "approve_learner_credit_requests_via_policy env policies locked policy_uuid requests table =
     (case get_subsidy_access_policy policies policy_uuid of
        None \<Rightarrow> (table, Inl SubisidyAccessPolicyRequestApprovalError)
      | Some policy \<Rightarrow>
          if locked then (table, as_approval_error (Inl SubsidyAccessPolicyLockAttemptFailed))
          else (case can_approve env table policy requests of
                  Inl e \<Rightarrow> (table, as_approval_error (Inl e))
                | Inr (Error_Reason reason) \<Rightarrow> (table, Inl SubisidyAccessPolicyRequestApprovalError)
                | Inr (Approvable valid failed) \<Rightarrow>
                    if valid = [] then (table, Inr ([], failed))
                    else (case approve env table policy valid of
                            Inl e \<Rightarrow> (table, as_approval_error (Inl e))
                          | Inr (table', m) \<Rightarrow>
                              (table', rbind (rmap (\<lambda>r. case Option.bind (map_of m (sr_uuid r)) id of
                                   None \<Rightarrow> Inl SubisidyAccessPolicyRequestApprovalError
                                 | Some a \<Rightarrow> Inr (sr_uuid r, r, a)) valid) (\<lambda>ps.
                                 Inr (dict_of_pairs ps, failed))))))"

end
