(* ===== verification/Api_Client.thy ===== *)
theory Api_Client
  imports Prelude
begin

text \<open>
  The clients of the other services (\<open>api_client/\<close>): the LMS, the license manager, the enterprise
  catalog, the e-commerce service and discovery.

  The services themselves are the state \<open>'x\<close>, which a request may read and change; \<open>api_send\<close> sends
  one request and answers with a response or with an exception of the connection. A response has a
  status and a body, \<open>None\<close> when the body is not JSON. Identifiers of the services are the texts that
  stand in URLs and payloads. A loop over the pages of a listing asks until a page names no next
  one, so it is a \<open>partial_function\<close>: \<open>None\<close> is a loop that never ends. The same holds for the calls
  of the catalog, which are repeated for as long as the connection fails.
\<close>

section \<open>Requests and responses\<close>

datatype http_request =
    Http_get string "(string \<times> json) list"
  | Http_post string json
  | Http_post_query string "(string \<times> json) list"
  | Http_patch string json

record http_response =
  rs_status :: int
  rs_body :: "json option"

record 'x api =
  api_send :: "http_request \<Rightarrow> 'x \<Rightarrow> 'x \<times> http_response result"
  api_lms_url :: string
  api_license_manager_url :: string
  api_ecommerce_url :: string
  api_discovery_url :: string
  api_catalog_base_url :: "string \<Rightarrow> string"
  api_site_domain :: string
  api_default_catalog_query_id :: json
  api_for_internal_use_only :: json
  api_default_product_id :: json
  api_plan_is_active :: json
  api_force_remind_all :: bool
  api_should_send_email_to_pecu :: "string \<Rightarrow> bool result"
  api_float :: "json \<Rightarrow> json result"

definition raise_for_status :: "http_response \<Rightarrow> unit result" where
  "raise_for_status r = (if 400 \<le> rs_status r \<and> rs_status r < 600 then Inl HTTPError else Inr ())"

definition response_json :: "http_response \<Rightarrow> json result" where
  "response_json r = (case rs_body r of None \<Rightarrow> Inl JSONDecodeError | Some j \<Rightarrow> Inr j)"

text \<open>Send a request, raise for an error status, read the body.\<close>

definition call_api :: "'x api \<Rightarrow> http_request \<Rightarrow> 'x \<Rightarrow> 'x \<times> json result" where
  "call_api api q x =
     (case api_send api q x of
        (x1, r) \<Rightarrow> (x1, rbind r (\<lambda>rs. rbind (raise_for_status rs) (\<lambda>_. response_json rs))))"

text \<open>Read the body whatever the status is.\<close>

definition call_unchecked :: "'x api \<Rightarrow> http_request \<Rightarrow> 'x \<Rightarrow> 'x \<times> json result" where
  "call_unchecked api q x = (case api_send api q x of (x1, r) \<Rightarrow> (x1, rbind r response_json))"

text \<open>\<open>except HTTPError as exc: raise APIClientException(...) from exc\<close>.\<close>

definition as_api_exception :: "'a result \<Rightarrow> 'a result" where
  "as_api_exception r = (if r = Inl HTTPError then Inl APIClientException else r)"

definition or_value :: "json \<Rightarrow> json \<Rightarrow> json" where
  "or_value a b = (if json_truthy a then a else b)"

section \<open>Loops over pages\<close>

text \<open>
  \<open>while url\<close>: fetch the page, let \<open>page\<close> collect its rows and read the next URL. When \<open>page\<close> raises,
  what it had collected is kept, since some callers return it.
\<close>

partial_function (option) follow_pages ::
    "(string \<Rightarrow> 'x \<Rightarrow> 'x \<times> json result) \<Rightarrow> (json \<Rightarrow> 'a \<Rightarrow> 'a \<times> json result) \<Rightarrow> json \<Rightarrow> 'a \<Rightarrow> 'x \<Rightarrow>
      ('x \<times> 'a \<times> unit result) option" where
  "follow_pages fetch page url acc x =
     (if \<not> json_truthy url then Some (x, acc, Inr ())
      else case url of
        JStr u \<Rightarrow>
          (case fetch u x of
             (x1, Inl e) \<Rightarrow> Some (x1, acc, Inl e)
           | (x1, Inr body) \<Rightarrow>
               (case page body acc of
                  (acc1, Inl e) \<Rightarrow> Some (x1, acc1, Inl e)
                | (acc1, Inr url1) \<Rightarrow> follow_pages fetch page url1 acc1 x1))
      | _ \<Rightarrow> Some (x, acc, Inl MissingSchema))"

declare follow_pages.simps [code]

text \<open>
  The two ways in which the code reads a page: it extends its results with the rows, then reads the
  next URL (unless it was told to stop after the first page); or it reads the next URL first and then
  converts the rows one by one.
\<close>

definition extending_page :: "bool \<Rightarrow> json \<Rightarrow> json list \<Rightarrow> json list \<times> json result" where
  "extending_page traverse_pagination body acc =
     (case rbind (json_get body ''results'' (JList [])) json_iter of
        Inl e \<Rightarrow> (acc, Inl e)
      | Inr rows \<Rightarrow> (acc @ rows, if traverse_pagination then json_get body ''next'' JNull else Inr JNull))"

fun convert_rows :: "(json \<Rightarrow> json list result) \<Rightarrow> json list \<Rightarrow> json list \<Rightarrow> json list \<times> unit result" where
  "convert_rows f [] acc = (acc, Inr ())"
| "convert_rows f (r # rs) acc =
     (case f r of Inl e \<Rightarrow> (acc, Inl e) | Inr ys \<Rightarrow> convert_rows f rs (acc @ ys))"

definition converting_page ::
    "(json \<Rightarrow> json result) \<Rightarrow> (json \<Rightarrow> json list result) \<Rightarrow> json \<Rightarrow> json list \<Rightarrow> json list \<times> json result" where
  "converting_page next_url f body acc =
     (case next_url body of
        Inl e \<Rightarrow> (acc, Inl e)
      | Inr url \<Rightarrow>
          (case rbind (item body ''results'') json_iter of
             Inl e \<Rightarrow> (acc, Inl e)
           | Inr rows \<Rightarrow>
               (case convert_rows f rows acc of
                  (acc1, Inl e) \<Rightarrow> (acc1, Inl e)
                | (acc1, Inr _) \<Rightarrow> (acc1, Inr url))))"

definition page_result :: "('x \<times> json list \<times> unit result) \<Rightarrow> 'x \<times> json result" where
  "page_result p = (case p of (x, rows, r) \<Rightarrow> (x, rbind r (\<lambda>_. Inr (JList rows))))"

section \<open>The LMS\<close>

definition lms_api :: "'x api \<Rightarrow> string" where
  "lms_api api = api_lms_url api @ ''/enterprise/'' @ ''api/v1/''"

definition path_join :: "string \<Rightarrow> string \<Rightarrow> string" where
  "path_join a b =
     (if take 1 b = ''/'' then b else if a = [] \<or> last a = CHR ''/'' then a @ b else a @ ''/'' @ b)"

definition enterprise_customer_url :: "'x api \<Rightarrow> string \<Rightarrow> string" where
  "enterprise_customer_url api customer = path_join (lms_api api @ ''enterprise-customer/'') (customer @ ''/'')"

definition enterprise_group_endpoint :: "'x api \<Rightarrow> string \<Rightarrow> string" where
  "enterprise_group_endpoint api group_uuid = path_join (lms_api api @ ''enterprise-group/'') (group_uuid @ ''/'')"

definition enterprise_group_members_endpoint :: "'x api \<Rightarrow> string \<Rightarrow> string" where
  "enterprise_group_members_endpoint api group_uuid = path_join (enterprise_group_endpoint api group_uuid) ''learners/''"

definition enterprise_customer_bulk_enrollment_url :: "'x api \<Rightarrow> string \<Rightarrow> string" where
  "enterprise_customer_bulk_enrollment_url api customer =
     path_join (enterprise_customer_url api customer) ''enroll_learners_in_courses/''"

definition get_course_enrollments_for_learner_profile :: "'x api \<Rightarrow> string \<Rightarrow> int \<Rightarrow> 'x \<Rightarrow> 'x \<times> json result" where
  "get_course_enrollments_for_learner_profile api enterprise lms_user_id x =
     (case call_api api (Http_get (lms_api api @ ''enterprise-course-enrollment-admin/'')
             [(''enterprise_uuid'', JStr enterprise), (''lms_user_id'', JNum lms_user_id)]) x of
        (x1, r) \<Rightarrow> (x1, rbind r (\<lambda>body. json_get body ''results'' (JObj []))))"

definition get_enterprise_group_memberships_for_learner ::
    "'x api \<Rightarrow> string \<Rightarrow> int \<Rightarrow> bool \<Rightarrow> 'x \<Rightarrow> ('x \<times> json result) option" where
  "get_enterprise_group_memberships_for_learner api enterprise lms_user_id traverse_pagination x =
     map_option page_result
       (follow_pages
          (\<lambda>u. call_api api (Http_get u [(''enterprise_uuid'', JStr enterprise), (''lms_user_id'', JNum lms_user_id)]))
          (extending_page traverse_pagination) (JStr (lms_api api @ ''enterprise-group-membership/'')) [] x)"

definition get_enterprise_customer_data ::
    "'x api \<Rightarrow> string option \<Rightarrow> string option \<Rightarrow> string option \<Rightarrow> 'x \<Rightarrow> 'x \<times> json result" where
  "get_enterprise_customer_data api customer_uuid customer_slug customer_name x =
     (let base = lms_api api @ ''enterprise-customer/'';
          ask = (\<lambda>endpoint.
            (case call_api api (Http_get endpoint []) x of
               (x1, r) \<Rightarrow> (x1, as_api_exception (rbind r (\<lambda>payload.
                 rbind (json_contains payload ''count'') (\<lambda>listed.
                   if listed then
                     rbind (json_get payload ''results'' JNull) (\<lambda>results.
                       if json_truthy results then json_first results else Inr (JObj []))
                   else Inr payload))))))
      in if truthy customer_uuid then ask (base @ the customer_uuid @ ''/'')
         else if truthy customer_slug then ask (base @ ''?slug='' @ the customer_slug)
         else if truthy customer_name then ask (base @ ''?name='' @ the customer_name)
         else (x, Inl ValueError))"

definition create_enterprise_customer ::
    "'x api \<Rightarrow> string \<Rightarrow> string \<Rightarrow> string \<Rightarrow> (string \<times> json) list \<Rightarrow> 'x \<Rightarrow> 'x \<times> json result" where
  "create_enterprise_customer api name slug country kwargs x =
     (case call_api api (Http_post (lms_api api @ ''enterprise-customer/'')
             (JObj (dict_union
                [(''name'', JStr name), (''slug'', JStr slug), (''country'', JStr country),
                 (''enable_analytics_screen'', JBool False),
                 (''enable_portal_subscription_management_screen'', JBool True),
                 (''site'', JObj [(''domain'', JStr (api_site_domain api))])] kwargs))) x of
        (x1, r) \<Rightarrow> (x1, as_api_exception r))"

text \<open>The user of an admin record, with the id and the creation time of the record.\<close>

definition admin_row :: "json \<Rightarrow> json list result" where
  "admin_row row =
     rbind (item row ''user'') (\<lambda>user.
     rbind (item row ''id'') (\<lambda>i.
     rbind (item row ''created'') (\<lambda>created.
       case user of
         JObj d \<Rightarrow> Inr [JObj (dict_put (dict_put d ''ecu_id'' i) ''created'' created)]
       | _ \<Rightarrow> Inl AttributeError)))"

definition get_enterprise_admin_users :: "'x api \<Rightarrow> string \<Rightarrow> 'x \<Rightarrow> ('x \<times> json result) option" where
  "get_enterprise_admin_users api customer x =
     map_option (\<lambda>p. case page_result p of (x1, r) \<Rightarrow> (x1, as_api_exception r))
       (follow_pages (\<lambda>u. call_api api (Http_get u [])) (converting_page (\<lambda>b. item b ''next'') admin_row)
          (JStr (lms_api api @ ''enterprise-learner/'' @ ''?enterprise_customer_uuid='' @ customer @ ''&role=enterprise_admin'')) [] x)"

definition get_enterprise_pending_admin_users :: "'x api \<Rightarrow> string \<Rightarrow> 'x \<Rightarrow> ('x \<times> json result) option" where
  "get_enterprise_pending_admin_users api customer x =
     map_option (\<lambda>p. case page_result p of (x1, r) \<Rightarrow> (x1, as_api_exception r))
       (follow_pages (\<lambda>u. call_api api (Http_get u [])) (converting_page (\<lambda>b. item b ''next'') (\<lambda>row. Inr [row]))
          (JStr (lms_api api @ ''pending-enterprise-admin/'' @ ''?enterprise_customer='' @ customer)) [] x)"

definition create_enterprise_pending_admin_user :: "'x api \<Rightarrow> string \<Rightarrow> string \<Rightarrow> 'x \<Rightarrow> 'x \<times> json result" where
  "create_enterprise_pending_admin_user api customer address x =
     (case call_api api (Http_post (lms_api api @ ''pending-enterprise-admin/'')
             (JObj [(''enterprise_customer'', JStr customer), (''user_email'', JStr address)])) x of
        (x1, r) \<Rightarrow> (x1, as_api_exception r))"

definition create_enterprise_admin_user :: "'x api \<Rightarrow> string \<Rightarrow> string \<Rightarrow> 'x \<Rightarrow> 'x \<times> json result" where
  "create_enterprise_admin_user api customer address x =
     (case call_api api (Http_post (lms_api api @ ''enterprise-customer-admin/create_admin_by_email/'')
             (JObj [(''enterprise_customer_uuid'', JStr customer), (''email'', JStr address)])) x of
        (x1, r) \<Rightarrow> (x1, as_api_exception r))"

definition get_enterprise_catalogs :: "'x api \<Rightarrow> string \<Rightarrow> int option \<Rightarrow> 'x \<Rightarrow> 'x \<times> json result" where
  "get_enterprise_catalogs api customer catalog_query_id x =
     (case call_api api (Http_get (lms_api api @ ''enterprise_catalogs/'' @ ''?enterprise_customer='' @ customer @
             (case catalog_query_id of None \<Rightarrow> '''' | Some q \<Rightarrow> ''&enterprise_catalog_query='' @ str_int q)) []) x of
        (x1, r) \<Rightarrow> (x1, as_api_exception (rbind r (\<lambda>payload. rbind (json_get payload ''results'' (JList [])) (\<lambda>results.
           rbind (json_iter results) (\<lambda>_. Inr results))))))"

definition create_enterprise_catalog :: "'x api \<Rightarrow> string \<Rightarrow> string \<Rightarrow> json \<Rightarrow> 'x \<Rightarrow> 'x \<times> json result" where
  "create_enterprise_catalog api customer catalog_title catalog_query_id x =
     (case call_api api (Http_post (lms_api api @ ''enterprise_customer_catalog/'')
             (JObj [(''enterprise_customer'', JStr customer), (''title'', JStr catalog_title),
                    (''enterprise_catalog_query'', or_value catalog_query_id (api_default_catalog_query_id api))])) x of
        (x1, r) \<Rightarrow> (x1, as_api_exception r))"

text \<open>The body of the answer is not read.\<close>

definition unlink_users_from_enterprise :: "'x api \<Rightarrow> string \<Rightarrow> string list \<Rightarrow> bool \<Rightarrow> 'x \<Rightarrow> 'x \<times> unit result" where
  "unlink_users_from_enterprise api customer user_emails is_relinkable x =
     (case api_send api (Http_post (lms_api api @ ''enterprise-customer/'' @ customer @ ''/unlink_users/'')
             (JObj [(''user_emails'', JList (map JStr user_emails)), (''is_relinkable'', JBool is_relinkable)])) x of
        (x1, r) \<Rightarrow> (x1, rbind r raise_for_status))"

text \<open>The arguments that make up the cache key of a complete listing of the members of a group.\<close>

record group_members_query =
  gm_group_uuid :: string
  gm_sort_by :: json
  gm_user_query :: json
  gm_show_removed :: bool
  gm_is_reversed :: bool
  gm_learners :: json

type_synonym group_cache = "group_members_query \<Rightarrow> json option"

text \<open>
  The pages after the first one: \<open>results\<close> grows, \<open>response_json\<close> is the last body. \<open>results\<close> may be any
  value the first page had; a value without \<open>extend\<close> raises.
\<close>

definition members_page :: "json \<Rightarrow> json \<times> json \<Rightarrow> (json \<times> json) \<times> json result" where
  "members_page body acc =
     (case acc of (results, _) \<Rightarrow>
       (case json_get body ''next'' JNull of
          Inl e \<Rightarrow> ((results, body), Inl e)
        | Inr next_page \<Rightarrow>
            (case results of
               JList rows \<Rightarrow>
                 (case rbind (json_get body ''results'' (JList [])) json_iter of
                    Inl e \<Rightarrow> ((results, body), Inl e)
                  | Inr further \<Rightarrow> ((JList (rows @ further), body), Inr next_page))
             | _ \<Rightarrow> ((results, body), Inl AttributeError))))"

definition whole_listing :: "json \<Rightarrow> json \<Rightarrow> json result" where
  "whole_listing results body =
     (case body of
        JObj d \<Rightarrow> Inr (JObj (dict_put (dict_put (dict_put d ''results'' results) ''next'' JNull) ''previous'' JNull))
      | _ \<Rightarrow> Inl TypeError)"

definition fetch_group_members ::
    "'x api \<Rightarrow> group_members_query \<Rightarrow> bool \<Rightarrow> int option \<Rightarrow> group_cache \<Rightarrow> 'x \<Rightarrow>
      (group_cache \<times> 'x \<times> json result) option" where
  "fetch_group_members api q traverse_pagination page_number cache x =
     (if traverse_pagination = truthy_int page_number then
        Some (cache, x, Inl FetchGroupMembersConflictingParamsException)
      else if traverse_pagination \<and> cache q \<noteq> None then Some (cache, x, Inr (the (cache q)))
      else
        let params = [(''sort_by'', gm_sort_by q), (''user_query'', gm_user_query q),
                      (''page'', case page_number of None \<Rightarrow> JNull | Some n \<Rightarrow> JNum n)] @
                     (if gm_show_removed q then [(''show_removed'', JBool True)] else []) @
                     (if gm_is_reversed q then [(''is_reversed'', JBool True)] else []) @
                     (if json_truthy (gm_learners q) then [(''learners'', gm_learners q)] else []) @
                     (if traverse_pagination then [(''page_size'', JNum 500)] else [])
        in case call_api api (Http_get (enterprise_group_members_endpoint api (gm_group_uuid q)) params) x of
          (x1, Inl e) \<Rightarrow> Some (cache, x1, Inl e)
        | (x1, Inr body) \<Rightarrow>
            (case json_get body ''results'' (JList []) of
               Inl e \<Rightarrow> Some (cache, x1, Inl e)
             | Inr results \<Rightarrow>
                 if \<not> traverse_pagination then Some (cache, x1, Inr body)
                 else (case json_get body ''next'' JNull of
                     Inl e \<Rightarrow> Some (cache, x1, Inl e)
                   | Inr next_page \<Rightarrow>
                       (case follow_pages (\<lambda>u. call_api api (Http_get u [])) members_page next_page (results, body) x1 of
                          None \<Rightarrow> None
                        | Some (x2, _, Inl e) \<Rightarrow> Some (cache, x2, Inl e)
                        | Some (x2, (rows, last_body), Inr _) \<Rightarrow>
                            (case whole_listing rows last_body of
                               Inl e \<Rightarrow> Some (cache, x2, Inl e)
                             | Inr listing \<Rightarrow> Some (cache(q \<mapsto> listing), x2, Inr listing))))))"

text \<open>The first record of the right customer and learner; records before it must be dictionaries.\<close>

fun matching_enterprise_user :: "string \<Rightarrow> int \<Rightarrow> json list \<Rightarrow> json result" where
  "matching_enterprise_user customer learner_id [] = Inr JNull"
| "matching_enterprise_user customer learner_id (r # rs) =
     rbind (json_get r ''enterprise_customer'' (JObj [])) (\<lambda>returned_customer.
     rbind (json_get r ''user'' (JObj [])) (\<lambda>returned_user.
     rbind (json_get returned_customer ''uuid'' JNull) (\<lambda>u.
       if u \<noteq> JStr customer then matching_enterprise_user customer learner_id rs
       else rbind (json_get returned_user ''id'' JNull) (\<lambda>i.
         if i = JNum learner_id then Inr r else matching_enterprise_user customer learner_id rs))))"

definition get_enterprise_user :: "'x api \<Rightarrow> string \<Rightarrow> int \<Rightarrow> 'x \<Rightarrow> 'x \<times> json result" where
  "get_enterprise_user api customer learner_id x =
     (case call_api api (Http_get (lms_api api @ ''enterprise-learner/'')
             [(''enterprise_customer_uuid'', JStr customer), (''user_ids'', JNum learner_id)]) x of
        (x1, r) \<Rightarrow>
          let found = rbind r (\<lambda>body. rbind (json_get body ''results'' (JList [])) (\<lambda>results.
                case results of JList rows \<Rightarrow> matching_enterprise_user customer learner_id rows | _ \<Rightarrow> Inr JNull))
          in (x1, if found = Inl HTTPError \<or> found = Inl KeyError then Inr JNull else found))"

text \<open>Returns the status of the response.\<close>

definition create_pending_enterprise_users :: "'x api \<Rightarrow> string \<Rightarrow> string list \<Rightarrow> 'x \<Rightarrow> 'x \<times> int result" where
  "create_pending_enterprise_users api customer user_emails x =
     (case api_send api (Http_post (lms_api api @ ''pending-enterprise-learner/'')
             (JList (map (\<lambda>e. JObj [(''enterprise_customer'', JStr customer), (''user_email'', JStr e)]) user_emails))) x of
        (x1, r) \<Rightarrow> (x1, rbind r (\<lambda>rs. rbind (raise_for_status rs) (\<lambda>_. Inr (rs_status rs)))))"

text \<open>\<open>recent_action.partition(': ')[2]\<close>: what follows the first separator, empty when there is none.\<close>

fun after_colon :: "string \<Rightarrow> string" where
  "after_colon (a # b # s) = (if a = CHR '':'' \<and> b = CHR '' '' then s else after_colon (b # s))"
| "after_colon s = ''''"

definition pending_membership_row :: "'x api \<Rightarrow> json \<Rightarrow> json list result" where
  "pending_membership_row api row =
     rbind (item row ''pending_enterprise_customer_user_id'') (\<lambda>pending_learner_id.
     rbind (item row ''recent_action'') (\<lambda>recent_action.
     rbind (rbind (item row ''member_details'') (\<lambda>m. item m ''user_email'')) (\<lambda>address.
       case recent_action of
         JStr action \<Rightarrow>
           rbind (if api_force_remind_all api then Inr True
                  else api_should_send_email_to_pecu api (after_colon action)) (\<lambda>send.
             Inr (if send then [JObj [(''pending_enterprise_customer_user_id'', pending_learner_id),
                                      (''recent_action'', recent_action), (''user_email'', address)]] else []))
       | _ \<Rightarrow> Inl AttributeError)))"

text \<open>An error of the LMS or a missing key ends the loop; the rows read so far are the answer.\<close>

definition get_pending_enterprise_group_memberships :: "'x api \<Rightarrow> string \<Rightarrow> 'x \<Rightarrow> ('x \<times> json result) option" where
  "get_pending_enterprise_group_memberships api group_uuid x =
     map_option
       (\<lambda>(x1, rows, r). (x1, if r = Inl HTTPError \<or> r = Inl KeyError then Inr (JList rows)
                             else rbind r (\<lambda>_. Inr (JList rows))))
       (follow_pages (\<lambda>u. call_api api (Http_get u []))
          (converting_page (\<lambda>b. json_get b ''next'' JNull) (pending_membership_row api))
          (JStr (lms_api api @ ''enterprise-group/'' @ group_uuid @ ''/learners/?pending_users_only=true'')) [] x)"

text \<open>The status of the response is not looked at.\<close>

definition update_pending_learner_status :: "'x api \<Rightarrow> datetime \<Rightarrow> string \<Rightarrow> string \<Rightarrow> 'x \<Rightarrow> 'x \<times> json result" where
  "update_pending_learner_status api now group_uuid learner_email x =
     (case call_unchecked api (Http_patch (lms_api api @ ''enterprise-group/'' @ group_uuid @ ''/learners/'')
             (JObj [(''learner'', JStr learner_email), (''status'', JStr ''email_error''), (''errored_at'', JNum now)])) x of
        (x1, r) \<Rightarrow> (x1, if r = Inl HTTPError \<or> r = Inl KeyError then Inr JNull else r))"

text \<open>
  The log line of a failed request reads the body of the response; a body that is not JSON raises
  there, in place of the error of the request.
\<close>

definition bulk_enroll_enterprise_learners :: "'x api \<Rightarrow> string \<Rightarrow> json \<Rightarrow> 'x \<Rightarrow> 'x \<times> json result" where
  "bulk_enroll_enterprise_learners api customer enrollments_info x =
     (case api_send api (Http_post (enterprise_customer_bulk_enrollment_url api customer)
             (JObj [(''enrollments_info'', enrollments_info)])) x of
        (x1, r) \<Rightarrow> (x1, rbind r (\<lambda>rs.
          case raise_for_status rs of
            Inr _ \<Rightarrow> response_json rs
          | Inl e \<Rightarrow> rbind (response_json rs) (\<lambda>_. Inl e))))"

definition username_or_email :: "string option \<Rightarrow> string option \<Rightarrow> (string \<times> json) list result" where
  "username_or_email username email =
     (if truthy username = truthy email then Inl ValueError
      else if truthy username then Inr [(''username'', JStr (the username))]
      else Inr [(''email'', JStr (the email))])"

definition get_lms_user_account :: "'x api \<Rightarrow> string option \<Rightarrow> string option \<Rightarrow> 'x \<Rightarrow> 'x \<times> json result" where
  "get_lms_user_account api username email x =
     (case username_or_email username email of
        Inl e \<Rightarrow> (x, Inl e)
      | Inr params \<Rightarrow>
          (case api_send api (Http_get (api_lms_url api @ ''/api/user/v1/accounts'') params) x of
             (x1, r) \<Rightarrow> (x1, rbind r (\<lambda>rs.
               if rs_status rs = 404 then Inr JNull
               else rbind (raise_for_status rs) (\<lambda>_. response_json rs)))))"

text \<open>The learner's records: the first non-empty body is kept for its other keys.\<close>

definition customers_page :: "bool \<Rightarrow> json \<Rightarrow> json \<times> json list \<Rightarrow> (json \<times> json list) \<times> json result" where
  "customers_page traverse_pagination body acc =
     (case acc of (initial, rows) \<Rightarrow>
       (case extending_page traverse_pagination body rows of
          (rows1, r) \<Rightarrow> ((if json_truthy initial then initial else body, rows1), r)))"

definition get_enterprise_customers_for_user ::
    "'x api \<Rightarrow> string option \<Rightarrow> string option \<Rightarrow> bool \<Rightarrow> 'x \<Rightarrow> ('x \<times> json result) option" where
  "get_enterprise_customers_for_user api username email traverse_pagination x =
     (case username_or_email username email of
        Inl e \<Rightarrow> Some (x, Inl e)
      | Inr params \<Rightarrow>
          map_option
            (\<lambda>(x1, (initial, rows), r). (x1, rbind r (\<lambda>_.
               case initial of
                 JObj d \<Rightarrow> Inr (JObj (dict_union d
                   [(''next'', JNull), (''previous'', JNull), (''count'', JNum (int (length rows))),
                    (''num_pages'', JNum 1), (''results'', JList rows)]))
               | _ \<Rightarrow> Inl TypeError)))
            (follow_pages (\<lambda>u. call_api api (Http_get u params)) (customers_page traverse_pagination)
               (JStr (lms_api api @ ''enterprise-learner/'')) (JNull, []) x))"

definition get_default_enterprise_enrollment_intentions_learner_status :: "'x api \<Rightarrow> string \<Rightarrow> 'x \<Rightarrow> 'x \<times> json result" where
  "get_default_enterprise_enrollment_intentions_learner_status api customer =
     call_api api (Http_get (lms_api api @ ''default-enterprise-enrollment-intentions/learner-status/'')
       [(''enterprise_customer_uuid'', JStr customer)])"

definition get_enterprise_course_enrollments :: "'x api \<Rightarrow> string \<Rightarrow> (string \<times> json) list \<Rightarrow> 'x \<Rightarrow> 'x \<times> json result" where
  "get_enterprise_course_enrollments api customer params =
     call_api api (Http_get (api_lms_url api @ ''/enterprise_learner_portal/api/v1/'' @ ''enterprise_course_enrollments/'')
       (dict_union [(''enterprise_id'', JStr customer)] params))"

section \<open>The license manager\<close>

definition lm_api :: "'x api \<Rightarrow> string" where
  "lm_api api = api_license_manager_url api @ ''/api/v1/''"

definition list_subscriptions :: "'x api \<Rightarrow> string \<Rightarrow> 'x \<Rightarrow> 'x \<times> json result" where
  "list_subscriptions api customer =
     call_api api (Http_get (lm_api api @ ''subscriptions/'') [(''enterprise_customer_uuid'', JStr customer)])"

definition update_subscription_plan ::
    "'x api \<Rightarrow> string \<Rightarrow> json \<Rightarrow> (string \<times> json) list \<Rightarrow> 'x \<Rightarrow> 'x \<times> json result" where
  "update_subscription_plan api subscription oli kwargs x =
     (let payload = dict_union [(''change_reason'', JStr ''other'')] kwargs;
          payload = (if json_truthy oli then dict_put payload ''salesforce_opportunity_line_item'' oli else payload)
      in case call_api api (Http_patch (lm_api api @ ''provisioning-admins/subscriptions/'' @ subscription @ ''/'') (JObj payload)) x of
           (x1, r) \<Rightarrow> (x1, as_api_exception r))"

text \<open>The status of the response is not looked at.\<close>

definition get_subscription_overview :: "'x api \<Rightarrow> string \<Rightarrow> 'x \<Rightarrow> 'x \<times> json result" where
  "get_subscription_overview api subscription x =
     (case call_unchecked api (Http_get (lm_api api @ ''subscriptions/'' @ subscription @ ''/licenses/overview'') []) x of
        (x1, r) \<Rightarrow> (x1, as_api_exception r))"

definition get_learner_subscription_licenses_for_admin ::
    "'x api \<Rightarrow> string \<Rightarrow> string \<Rightarrow> bool \<Rightarrow> 'x \<Rightarrow> ('x \<times> json result) option" where
  "get_learner_subscription_licenses_for_admin api customer address traverse_pagination x =
     map_option page_result
       (follow_pages
          (\<lambda>u. call_api api (Http_get u [(''enterprise_customer_uuid'', JStr customer), (''user_email'', JStr address)]))
          (extending_page traverse_pagination) (JStr (lm_api api @ ''admin-license-view/'')) [] x)"

definition assign_licenses :: "'x api \<Rightarrow> string list \<Rightarrow> string \<Rightarrow> 'x \<Rightarrow> 'x \<times> json result" where
  "assign_licenses api user_emails subscription =
     call_api api (Http_post (lm_api api @ ''subscriptions/'' @ subscription @ ''/licenses/assign/'')
       (JObj [(''user_emails'', JList (map JStr user_emails)), (''notify_users'', JBool False)]))"

definition get_customer_agreement :: "'x api \<Rightarrow> string \<Rightarrow> 'x \<Rightarrow> 'x \<times> json result" where
  "get_customer_agreement api customer x =
     (case call_api api (Http_get (lm_api api @ ''customer-agreement/'' @ ''?enterprise_customer_uuid='' @ customer) []) x of
        (x1, r) \<Rightarrow> (x1, as_api_exception (rbind r (\<lambda>body. rbind (json_get body ''results'' (JList [])) (\<lambda>results.
          if json_truthy results then json_first results else Inr JNull)))))"

definition create_customer_agreement ::
    "'x api \<Rightarrow> string \<Rightarrow> string \<Rightarrow> string option \<Rightarrow> (string \<times> json) list \<Rightarrow> 'x \<Rightarrow> 'x \<times> json result" where
  "create_customer_agreement api customer customer_slug default_catalog kwargs x =
     (case call_api api (Http_post (lm_api api @ ''provisioning-admins/customer-agreement/'')
             (JObj (dict_union
                [(''enterprise_customer_uuid'', JStr customer), (''enterprise_customer_slug'', JStr customer_slug),
                 (''default_enterprise_catalog_uuid'', if truthy default_catalog then JStr (the default_catalog) else JNull)]
                kwargs))) x of
        (x1, r) \<Rightarrow> (x1, as_api_exception r))"

definition create_subscription_plan ::
    "'x api \<Rightarrow> string \<Rightarrow> json \<Rightarrow> json \<Rightarrow> json \<Rightarrow> json \<Rightarrow> json \<Rightarrow> string option \<Rightarrow> json \<Rightarrow> (string \<times> json) list \<Rightarrow>
      'x \<Rightarrow> 'x \<times> json result" where
  "create_subscription_plan api agreement oli title start expiration num_licenses catalog product_id kwargs x =
     (let payload = dict_union
            [(''customer_agreement'', JStr agreement), (''salesforce_opportunity_line_item'', oli), (''title'', title),
             (''start_date'', start), (''expiration_date'', expiration), (''desired_num_licenses'', num_licenses),
             (''change_reason'', JStr ''new''), (''for_internal_use_only'', api_for_internal_use_only api),
             (''product'', or_value product_id (api_default_product_id api)), (''is_active'', api_plan_is_active api)] kwargs;
          payload = (if truthy catalog then dict_put payload ''enterprise_catalog_uuid'' (JStr (the catalog)) else payload)
      in case call_api api (Http_post (lm_api api @ ''provisioning-admins/subscriptions/'') (JObj payload)) x of
           (x1, r) \<Rightarrow> (x1, as_api_exception r))"

definition create_subscription_plan_renewal ::
    "'x api \<Rightarrow> string \<Rightarrow> string \<Rightarrow> json \<Rightarrow> json \<Rightarrow> json \<Rightarrow> json \<Rightarrow> json \<Rightarrow> json \<Rightarrow> bool \<Rightarrow> bool \<Rightarrow> 'x \<Rightarrow> 'x \<times> json result" where
  "create_subscription_plan_renewal api prior renewed oli effective expiration num_licenses plan_title license_types
       disable_auto_apply exempt =
     call_api api (Http_post (lm_api api @ ''provisioning-admins/subscription-plan-renewals/'')
       (JObj ([(''prior_subscription_plan'', JStr prior), (''renewed_subscription_plan'', JStr renewed),
               (''salesforce_opportunity_id'', oli), (''effective_date'', effective),
               (''renewed_expiration_date'', expiration), (''number_of_licenses'', num_licenses)] @
              (if json_truthy plan_title then [(''renewed_plan_title'', plan_title)] else []) @
              (if json_truthy license_types then [(''license_types_to_copy'', license_types)] else []) @
              (if disable_auto_apply then [(''disable_auto_apply_licenses'', JBool True)] else []) @
              (if exempt then [(''exempt_from_batch_processing'', JBool True)] else []))))"

definition process_subscription_plan_renewal :: "'x api \<Rightarrow> int \<Rightarrow> 'x \<Rightarrow> 'x \<times> json result" where
  "process_subscription_plan_renewal api renewal_id x =
     (case call_api api (Http_post (lm_api api @ ''provisioning-admins/subscription-plan-renewals/'' @ str_int renewal_id @ ''/process/'') JNull) x of
        (x1, r) \<Rightarrow> (x1, as_api_exception r))"

definition get_subscription_licenses_for_learner :: "'x api \<Rightarrow> string \<Rightarrow> (string \<times> json) list \<Rightarrow> 'x \<Rightarrow> 'x \<times> json result" where
  "get_subscription_licenses_for_learner api customer kwargs =
     call_api api (Http_get (lm_api api @ ''learner-licenses/'')
       (dict_union [(''enterprise_customer_uuid'', JStr customer), (''page_size'', JNum 100)] kwargs))"

definition activate_license :: "'x api \<Rightarrow> string \<Rightarrow> 'x \<Rightarrow> 'x \<times> json result" where
  "activate_license api activation_key =
     call_api api (Http_post_query (lm_api api @ ''license-activation/'') [(''activation_key'', JStr activation_key)])"

definition auto_apply_license :: "'x api \<Rightarrow> string \<Rightarrow> 'x \<Rightarrow> 'x \<times> json result" where
  "auto_apply_license api agreement =
     call_api api (Http_post (lm_api api @ ''customer-agreement/'' @ agreement @ ''/auto-apply/'') JNull)"

section \<open>The enterprise catalog\<close>

definition autoretry_for_exceptions :: "py_error list" where
  "autoretry_for_exceptions = [ConnectionError, Timeout]"

text \<open>\<open>backoff.on_exception\<close> without a limit of tries or of time: the call is repeated.\<close>

partial_function (option) on_exception :: "('x \<Rightarrow> 'x \<times> 'b result) \<Rightarrow> 'x \<Rightarrow> ('x \<times> 'b result) option" where
  "on_exception f x =
     (case f x of
        (x1, Inl e) \<Rightarrow> if e \<in> set autoretry_for_exceptions then on_exception f x1 else Some (x1, Inl e)
      | (x1, Inr y) \<Rightarrow> Some (x1, Inr y))"

declare on_exception.simps [code]

definition catalog_endpoint :: "'x api \<Rightarrow> string \<Rightarrow> string" where
  "catalog_endpoint api catalog = api_catalog_base_url api ''v2'' @ ''enterprise-catalogs/'' @ catalog"

definition contains_content_items :: "'x api \<Rightarrow> string \<Rightarrow> string list \<Rightarrow> 'x \<Rightarrow> ('x \<times> json result) option" where
  "contains_content_items api catalog content_ids =
     on_exception (\<lambda>x.
       case call_api api (Http_get (catalog_endpoint api catalog @ ''/contains_content_items/'')
              [(''course_run_ids'', JList (map JStr content_ids))]) x of
         (x1, r) \<Rightarrow> (x1, rbind r (\<lambda>body. json_get body ''contains_content_items'' (JBool False))))"

definition catalog_content_metadata ::
    "'x api \<Rightarrow> string \<Rightarrow> string list \<Rightarrow> bool \<Rightarrow> (string \<times> json) list \<Rightarrow> 'x \<Rightarrow> ('x \<times> json result) option" where
  "catalog_content_metadata api catalog content_keys traverse_pagination kwargs =
     on_exception (\<lambda>x.
       if content_keys = [] \<and> traverse_pagination then (x, Inl GenericException)
       else call_api api (Http_get (catalog_endpoint api catalog @ ''/get_content_metadata/'')
              (dict_union [(''content_keys'', JList (map JStr content_keys)),
                           (''traverse_pagination'', JBool traverse_pagination)] kwargs)) x)"

definition get_content_metadata_count :: "'x api \<Rightarrow> string \<Rightarrow> 'x \<Rightarrow> ('x \<times> json result) option" where
  "get_content_metadata_count api catalog =
     on_exception (\<lambda>x.
       case call_api api (Http_get (catalog_endpoint api catalog @ ''/get_content_metadata/'') []) x of
         (x1, r) \<Rightarrow> (x1, rbind r (\<lambda>body. item body ''count'')))"

definition content_metadata_v1 :: "'x api \<Rightarrow> string \<Rightarrow> bool \<Rightarrow> 'x \<Rightarrow> ('x \<times> json result) option" where
  "content_metadata_v1 api content_id coerce_to_parent_course =
     on_exception (call_api api (Http_get (api_catalog_base_url api ''v1'' @ ''content-metadata/'' @ content_id)
       (if coerce_to_parent_course then [(''coerce_to_parent_course'', JBool True)] else [])))"

definition get_secured_algolia_api_key :: "'x api \<Rightarrow> string \<Rightarrow> 'x \<Rightarrow> 'x \<times> json result" where
  "get_secured_algolia_api_key api customer x =
     (if customer = '''' then (x, Inl ValueError)
      else call_api api (Http_get (api_catalog_base_url api ''v1'' @ ''enterprise-customer/'' @ customer @ ''/secured-algolia-api-key/'') []) x)"

section \<open>The e-commerce service and discovery\<close>

definition coupons_endpoint :: "'x api \<Rightarrow> string" where
  "coupons_endpoint api = api_ecommerce_url api @ ''/api/v2/'' @ ''enterprise/coupons/''"

definition get_coupon_overview :: "'x api \<Rightarrow> string \<Rightarrow> int \<Rightarrow> 'x \<Rightarrow> 'x \<times> json result" where
  "get_coupon_overview api enterprise coupon_id =
     call_api api (Http_get (coupons_endpoint api @ enterprise @ ''/overview/'') [(''coupon_id'', JNum coupon_id)])"

definition assign_coupon_codes :: "'x api \<Rightarrow> string list \<Rightarrow> int \<Rightarrow> 'x \<Rightarrow> 'x \<times> json result" where
  "assign_coupon_codes api user_emails coupon_id =
     call_api api (Http_post (coupons_endpoint api @ str_int coupon_id @ ''/assign/'')
       (JObj [(''users'', JList (map (\<lambda>e. JObj [(''email'', JStr e)]) user_emails)), (''notify_learners'', JBool False)]))"

text \<open>The status of the response is not looked at, so an error page is the data of a course.\<close>

definition get_course_data :: "'x api \<Rightarrow> string \<Rightarrow> 'x \<Rightarrow> 'x \<times> json result" where
  "get_course_data api course_id =
     call_unchecked api (Http_get (api_discovery_url api @ ''/api/v1/'' @ ''courses'' @ ''/'' @ course_id) [])"

definition get_course_price :: "'x api \<Rightarrow> string \<Rightarrow> 'x \<Rightarrow> 'x \<times> json result" where
  "get_course_price api course_id x =
     (case get_course_data api course_id x of
        (x1, r) \<Rightarrow> (x1, rbind r (\<lambda>body. rbind (item body ''entitlements'') (\<lambda>entitlements.
          rbind (json_first entitlements) (\<lambda>first. rbind (item first ''price'') (api_float api))))))"

end
