(* ===== verification/Subsidy_Api.thy ===== *)
theory Subsidy_Api
  imports Api_Client Policy_Model
begin

text \<open>
  Reading the ledger (\<open>subsidy_access_policy/subsidy_api.py\<close>): the transactions of a learner under a
  subsidy, kept in the cache of the request, and the redemptions of a learner by content key and
  policy.

  The client of the subsidy service is a package of its own: \<open>list_transactions\<close> and
  \<open>aggregates\<close> are its calls, parameters here; the pages after the first one are read with its bare
  HTTP client. A cache is the map from the arguments in a key to what was stored. \<open>uuid_text\<close> is
  \<open>str\<close> on UUIDs.
\<close>

definition as_subsidy_error :: "'a result \<Rightarrow> 'a result" where
  "as_subsidy_error r = (if r = Inl HTTPError then Inl SubsidyAPIHTTPError else r)"

section \<open>Aggregates\<close>

type_synonym aggregates_cache = "uuid \<times> uuid option \<Rightarrow> (json \<times> json) list option"

definition hashable :: "json \<Rightarrow> unit result" where
  "hashable v = (case v of JList _ \<Rightarrow> Inl TypeError | JObj _ \<Rightarrow> Inl TypeError | _ \<Rightarrow> Inr ())"

fun aggregate_totals :: "json list \<Rightarrow> (json \<times> json) list \<Rightarrow> (json \<times> json) list result" where
  "aggregate_totals [] results = Inr results"
| "aggregate_totals (r # rs) results =
     rbind (json_get r ''total'' JNull) (\<lambda>total.
     rbind (json_get r ''lms_user_id'' JNull) (\<lambda>u.
     rbind (hashable u) (\<lambda>_. aggregate_totals rs (dict_put results u total))))"

definition get_and_cache_subsidy_learners_aggregate_data ::
    "(uuid \<Rightarrow> uuid option \<Rightarrow> 'x \<Rightarrow> 'x \<times> json result) \<Rightarrow> uuid \<Rightarrow> uuid option \<Rightarrow> aggregates_cache \<Rightarrow> 'x \<Rightarrow>
      aggregates_cache \<times> 'x \<times> (json \<times> json) list result" where
  "get_and_cache_subsidy_learners_aggregate_data aggregates subsidy_uuid policy_uuid cache x =
     (case cache (subsidy_uuid, policy_uuid) of
        Some results \<Rightarrow> (cache, x, Inr results)
      | None \<Rightarrow>
          (case aggregates subsidy_uuid policy_uuid x of
             (x1, r) \<Rightarrow>
               (case rbind (as_subsidy_error r) (\<lambda>payload. rbind (json_iter payload) (\<lambda>rows. aggregate_totals rows [])) of
                  Inl e \<Rightarrow> (cache, x1, Inl e)
                | Inr results \<Rightarrow> (cache((subsidy_uuid, policy_uuid) \<mapsto> results), x1, Inr results))))"

section \<open>Transactions of a learner\<close>

type_synonym transactions_cache = "uuid \<times> int \<Rightarrow> json option"

definition transactions_page :: "json \<Rightarrow> json \<Rightarrow> json \<times> json result" where
  "transactions_page body transactions =
     (case transactions of
        JList rows \<Rightarrow>
          (case rbind (item body ''results'') json_iter of
             Inl e \<Rightarrow> (transactions, Inl e)
           | Inr further \<Rightarrow> (JList (rows @ further), json_get body ''next'' JNull))
      | _ \<Rightarrow> (transactions, Inl AttributeError))"

definition get_and_cache_transactions_for_learner ::
    "'x api \<Rightarrow> (uuid \<Rightarrow> int \<Rightarrow> 'x \<Rightarrow> 'x \<times> json result) \<Rightarrow> uuid \<Rightarrow> int \<Rightarrow> transactions_cache \<Rightarrow> 'x \<Rightarrow>
      (transactions_cache \<times> 'x \<times> json result) option" where
  "get_and_cache_transactions_for_learner api list_transactions subsidy_uuid lms_user_id cache x =
     (case cache (subsidy_uuid, lms_user_id) of
        Some transactions \<Rightarrow> Some (cache, x, Inr transactions)
      | None \<Rightarrow>
          (case list_transactions subsidy_uuid lms_user_id x of
             (x1, r) \<Rightarrow>
               (case rbind (as_subsidy_error r) (\<lambda>payload.
                       rbind (item payload ''results'') (\<lambda>results.
                       rbind (json_get payload ''next'' JNull) (\<lambda>next_page. Inr (results, next_page)))) of
                  Inl e \<Rightarrow> Some (cache, x1, Inl e)
                | Inr (results, next_page) \<Rightarrow>
                    (case follow_pages (\<lambda>u. call_unchecked api (Http_get u [])) transactions_page next_page results x1 of
                       None \<Rightarrow> None
                     | Some (x2, _, Inl e) \<Rightarrow> Some (cache, x2, Inl e)
                     | Some (x2, transactions, Inr _) \<Rightarrow>
                         (case json_iter transactions of
                            Inl e \<Rightarrow> Some (cache, x2, Inl e)
                          | Inr _ \<Rightarrow> Some (cache((subsidy_uuid, lms_user_id) \<mapsto> transactions), x2, Inr transactions))))))"

section \<open>Redemptions by content key and policy\<close>

text \<open>A dictionary of dictionaries of lists, both with default values.\<close>

type_synonym redemptions = "(json \<times> (uuid \<times> json list) list) list"

definition lookup :: "('k \<times> 'v list) list \<Rightarrow> 'k \<Rightarrow> 'v list" where
  "lookup d k = (case map_of d k of None \<Rightarrow> [] | Some v \<Rightarrow> v)"

definition append_redemption :: "redemptions \<Rightarrow> json \<Rightarrow> uuid \<Rightarrow> json \<Rightarrow> redemptions" where
  "append_redemption d content_key policy_uuid t =
     dict_put d content_key
       (dict_put (lookup d content_key) policy_uuid (lookup (lookup d content_key) policy_uuid @ [t]))"

definition matching_policies :: "(uuid \<Rightarrow> string) \<Rightarrow> policy list \<Rightarrow> json \<Rightarrow> policy list" where
  "matching_policies uuid_text policies policy_uuid = filter (\<lambda>p. JStr (uuid_text (sap_uuid p)) = policy_uuid) policies"

fun map_redemptions :: "(uuid \<Rightarrow> string) \<Rightarrow> policy list \<Rightarrow> json list \<Rightarrow> redemptions \<Rightarrow> redemptions result" where
  "map_redemptions uuid_text policies [] d = Inr d"
| "map_redemptions uuid_text policies (t # ts) d =
     rbind (item t ''uuid'') (\<lambda>_.
     rbind (item t ''content_key'') (\<lambda>content_key.
     rbind (item t ''subsidy_access_policy_uuid'') (\<lambda>policy_uuid.
       case matching_policies uuid_text policies policy_uuid of
         [] \<Rightarrow> map_redemptions uuid_text policies ts d
       | p # _ \<Rightarrow>
           rbind (hashable content_key) (\<lambda>_.
             map_redemptions uuid_text policies ts (append_redemption d content_key (sap_uuid p) t)))))"

text \<open>The policies by subsidy, in the order in which the subsidies are met; a policy stands once in its set.\<close>

definition policies_by_subsidy_uuid :: "policy list \<Rightarrow> (uuid \<times> policy list) list" where
  "policies_by_subsidy_uuid policies =
     fold (\<lambda>p d. dict_put d (sap_subsidy_uuid p)
       (if p \<in> set (lookup d (sap_subsidy_uuid p)) then lookup d (sap_subsidy_uuid p)
        else lookup d (sap_subsidy_uuid p) @ [p])) policies []"

fun read_redemptions ::
    "'x api \<Rightarrow> (uuid \<Rightarrow> int \<Rightarrow> 'x \<Rightarrow> 'x \<times> json result) \<Rightarrow> (uuid \<Rightarrow> string) \<Rightarrow> int \<Rightarrow> (uuid \<times> policy list) list \<Rightarrow> redemptions \<Rightarrow>
      transactions_cache \<Rightarrow> 'x \<Rightarrow> (transactions_cache \<times> 'x \<times> redemptions result) option" where
  "read_redemptions api list_transactions uuid_text lms_user_id [] d cache x = Some (cache, x, Inr d)"
| "read_redemptions api list_transactions uuid_text lms_user_id ((subsidy_uuid, policies) # groups) d cache x =
     (case get_and_cache_transactions_for_learner api list_transactions subsidy_uuid lms_user_id cache x of
        None \<Rightarrow> None
      | Some (cache1, x1, r) \<Rightarrow>
          (case rbind r (\<lambda>ts. rbind (json_iter ts) (\<lambda>rows. map_redemptions uuid_text policies rows d)) of
             Inl e \<Rightarrow> Some (cache1, x1, Inl e)
           | Inr d1 \<Rightarrow> read_redemptions api list_transactions uuid_text lms_user_id groups d1 cache1 x1))"

definition get_redemptions_by_content_and_policy_for_learner ::
    "'x api \<Rightarrow> (uuid \<Rightarrow> int \<Rightarrow> 'x \<Rightarrow> 'x \<times> json result) \<Rightarrow> (uuid \<Rightarrow> string) \<Rightarrow> policy list \<Rightarrow> int \<Rightarrow> transactions_cache \<Rightarrow> 'x \<Rightarrow>
      (transactions_cache \<times> 'x \<times> redemptions result) option" where
  "get_redemptions_by_content_and_policy_for_learner api list_transactions uuid_text policies lms_user_id cache x =
     read_redemptions api list_transactions uuid_text lms_user_id (policies_by_subsidy_uuid policies) [] cache x"

section \<open>The cached subsidy record\<close>

type_synonym 'k subsidy_cache = "string \<times> 'k list \<Rightarrow> json option"

text \<open>\<open>None\<close> is the object \<open>CACHE_MISS\<close>.\<close>

definition get_tiered_cache_subsidy_record :: "'k subsidy_cache \<Rightarrow> string \<Rightarrow> 'k list \<Rightarrow> json option" where
  "get_tiered_cache_subsidy_record cache subsidy_uuid args = cache (subsidy_uuid, args)"

text \<open>The uuid is written into the key as text.\<close>

definition set_tiered_cache_subsidy_record :: "(json \<Rightarrow> string) \<Rightarrow> 'k subsidy_cache \<Rightarrow> json \<Rightarrow> 'k list \<Rightarrow> 'k subsidy_cache result" where
  "set_tiered_cache_subsidy_record text_of cache the_record args =
     rbind (item the_record ''uuid'') (\<lambda>u. Inr (cache((text_of u, args) \<mapsto> the_record)))"

section \<open>What the mapping contains\<close>

definition redemptions_of :: "redemptions \<Rightarrow> json \<Rightarrow> uuid \<Rightarrow> json list" where
  "redemptions_of d content_key policy_uuid = lookup (lookup d content_key) policy_uuid"

definition is_redemption :: "(uuid \<Rightarrow> string) \<Rightarrow> json \<Rightarrow> uuid \<Rightarrow> json \<Rightarrow> bool" where
  "is_redemption uuid_text content_key policy_uuid t \<longleftrightarrow>
     item t ''content_key'' = Inr content_key \<and> item t ''subsidy_access_policy_uuid'' = Inr (JStr (uuid_text policy_uuid))"

lemma lookup_dict_put [simp]: "lookup (dict_put d k v) k' = (if k' = k then v else lookup d k')"
  by (simp add: lookup_def)

lemma redemptions_of_append:
  "redemptions_of (append_redemption d k p t) k' p' = redemptions_of d k' p' @ (if k' = k \<and> p' = p then [t] else [])"
  by (simp add: redemptions_of_def append_redemption_def)

lemma map_redemptions_of:
  assumes "map_redemptions uuid_text policies ts d = Inr d'" and inj: "inj uuid_text"
  shows "redemptions_of d' k u = redemptions_of d k u @
    (if u \<in> sap_uuid ` set policies then filter (is_redemption uuid_text k u) ts else [])"
  using assms(1)
proof (induction ts arbitrary: d)
  case Nil
  then show ?case by simp
next
  case (Cons t ts)
  from Cons.prems obtain key pu where key: "item t ''content_key'' = Inr key" and pu: "item t ''subsidy_access_policy_uuid'' = Inr pu"
    by (auto simp: rbind_Inr_iff)
  show ?case
  proof (cases "matching_policies uuid_text policies pu")
    case Nil
    then have "\<not> (u \<in> sap_uuid ` set policies \<and> is_redemption uuid_text k u t)"
      by (auto simp: matching_policies_def is_redemption_def pu filter_empty_conv)
    moreover from Cons.prems Nil have "map_redemptions uuid_text policies ts d = Inr d'" by (auto simp: rbind_Inr_iff key pu)
    ultimately show ?thesis using Cons.IH by auto
  next
    case (Cons p ps)
    then have p: "p \<in> set policies" "JStr (uuid_text (sap_uuid p)) = pu"
      by (auto simp: matching_policies_def filter_eq_Cons_iff)
    with inj have "is_redemption uuid_text k u t \<longleftrightarrow> k = key \<and> u = sap_uuid p"
      by (auto simp: is_redemption_def key pu inj_def)
    moreover from Cons.prems Cons have "map_redemptions uuid_text policies ts (append_redemption d key (sap_uuid p) t) = Inr d'"
      by (auto simp: rbind_Inr_iff key pu)
    ultimately show ?thesis using Cons.IH p(1) by (auto simp: redemptions_of_append)
  qed
qed

lemma transactions_cached:
  assumes "get_and_cache_transactions_for_learner api client s user cache x = Some (cache', x', r)"
  shows "cache key = Some v \<Longrightarrow> cache' key = Some v" and "r = Inr ts \<Longrightarrow> cache' (s, user) = Some ts"
proof -
  from assms have "(\<forall>key v. cache key = Some v \<longrightarrow> cache' key = Some v) \<and> (\<forall>ts. r = Inr ts \<longrightarrow> cache' (s, user) = Some ts)"
    unfolding get_and_cache_transactions_for_learner_def
    by (auto split: option.splits prod.splits sum.splits if_splits)
  then show "cache key = Some v \<Longrightarrow> cache' key = Some v" and "r = Inr ts \<Longrightarrow> cache' (s, user) = Some ts" by blast+
qed

lemma read_redemptions_of:
  assumes "read_redemptions api client uuid_text user groups d cache x = Some (cache', x', Inr d')"
    and inj: "inj uuid_text"
    and "distinct (map fst groups)"
    and "\<forall>s ps p. (s, ps) \<in> set groups \<longrightarrow> p \<in> set ps \<longrightarrow> sap_subsidy_uuid p = s"
    and "inj_on sap_uuid (\<Union> (set ` snd ` set groups))"
  shows "(\<forall>key v. cache key = Some v \<longrightarrow> cache' key = Some v) \<and>
    (\<forall>k u. u \<notin> sap_uuid ` \<Union> (set ` snd ` set groups) \<longrightarrow> redemptions_of d' k u = redemptions_of d k u) \<and>
    (\<forall>s ps p k. (s, ps) \<in> set groups \<and> p \<in> set ps \<longrightarrow> (\<exists>ts rows. cache' (s, user) = Some ts \<and> json_iter ts = Inr rows \<and>
       redemptions_of d' k (sap_uuid p) = redemptions_of d k (sap_uuid p) @ filter (is_redemption uuid_text k (sap_uuid p)) rows))"
  using assms(1,3,4,5)
proof (induction groups arbitrary: d cache x)
  case Nil
  then show ?case by simp
next
  case (Cons g groups)
  obtain s ps where g: "g = (s, ps)" by (cases g)
  from Cons.prems(1) obtain cache1 x1 ts rows d1
    where got: "get_and_cache_transactions_for_learner api client s user cache x = Some (cache1, x1, Inr ts)"
      and rows: "json_iter ts = Inr rows" and d1: "map_redemptions uuid_text ps rows d = Inr d1"
      and rest: "read_redemptions api client uuid_text user groups d1 cache1 x1 = Some (cache', x', Inr d')"
    by (auto simp: g rbind_Inr_iff rbind_Inl_iff split: option.splits sum.splits)
  have "distinct (map fst groups)" using Cons.prems(2) by simp
  moreover have "\<forall>s ps p. (s, ps) \<in> set groups \<longrightarrow> p \<in> set ps \<longrightarrow> sap_subsidy_uuid p = s"
    using Cons.prems(3) by simp
  moreover have "inj_on sap_uuid (\<Union> (set ` snd ` set groups))"
    using Cons.prems(4) by (rule inj_on_subset) auto
  ultimately have IH: "(\<forall>key v. cache1 key = Some v \<longrightarrow> cache' key = Some v) \<and>
    (\<forall>k u. u \<notin> sap_uuid ` \<Union> (set ` snd ` set groups) \<longrightarrow> redemptions_of d' k u = redemptions_of d1 k u) \<and>
    (\<forall>s ps p k. (s, ps) \<in> set groups \<and> p \<in> set ps \<longrightarrow> (\<exists>ts rows. cache' (s, user) = Some ts \<and> json_iter ts = Inr rows \<and>
       redemptions_of d' k (sap_uuid p) = redemptions_of d1 k (sap_uuid p) @ filter (is_redemption uuid_text k (sap_uuid p)) rows))"
    by (rule Cons.IH [OF rest])
  have step: "redemptions_of d1 k u = redemptions_of d k u @
      (if u \<in> sap_uuid ` set ps then filter (is_redemption uuid_text k u) rows else [])" for k u
    by (rule map_redemptions_of [OF d1 inj])
  have apart: "sap_uuid p \<noteq> sap_uuid q" if "p \<in> set ps" "(s', qs) \<in> set groups" "q \<in> set qs" for p q s' qs
  proof
    assume "sap_uuid p = sap_uuid q"
    moreover have "p \<in> \<Union> (set ` snd ` set (g # groups))" "q \<in> \<Union> (set ` snd ` set (g # groups))"
      using that by (force simp: g)+
    ultimately have "p = q" using Cons.prems(4) by (auto dest: inj_onD)
    with that Cons.prems(3) [rule_format, of s ps p] Cons.prems(3) [rule_format, of s' qs q] have "s = s'" by (auto simp: g)
    with Cons.prems(2) that(2) show False by (force simp: g)
  qed
  have mine: "\<exists>ts rows. cache' (s, user) = Some ts \<and> json_iter ts = Inr rows \<and>
       redemptions_of d' k (sap_uuid p) = redemptions_of d k (sap_uuid p) @ filter (is_redemption uuid_text k (sap_uuid p)) rows"
    if "p \<in> set ps" for p k
  proof -
    have "sap_uuid p \<notin> sap_uuid ` \<Union> (set ` snd ` set groups)" using apart [OF that] by force
    with IH step that have "redemptions_of d' k (sap_uuid p) = redemptions_of d k (sap_uuid p) @ filter (is_redemption uuid_text k (sap_uuid p)) rows"
      by simp
    with IH transactions_cached(2) [OF got refl] rows show ?thesis by blast
  qed
  have others: "redemptions_of d1 k (sap_uuid q) = redemptions_of d k (sap_uuid q)" if "(s', qs) \<in> set groups" "q \<in> set qs" for s' qs q k
    using step [of k "sap_uuid q"] apart [OF _ that] by force
  show ?case
  proof (intro conjI allI impI)
    fix key v assume "cache key = Some v"
    with transactions_cached(1) [OF got] IH show "cache' key = Some v" by blast
  next
    fix k u assume "u \<notin> sap_uuid ` \<Union> (set ` snd ` set (g # groups))"
    then have "u \<notin> sap_uuid ` \<Union> (set ` snd ` set groups)" "u \<notin> sap_uuid ` set ps" by (auto simp: g)
    with IH step show "redemptions_of d' k u = redemptions_of d k u" by simp
  next
    fix s' qs q k assume q: "(s', qs) \<in> set (g # groups) \<and> q \<in> set qs"
    show "\<exists>ts rows. cache' (s', user) = Some ts \<and> json_iter ts = Inr rows \<and>
       redemptions_of d' k (sap_uuid q) = redemptions_of d k (sap_uuid q) @ filter (is_redemption uuid_text k (sap_uuid q)) rows"
    proof (cases "(s', qs) \<in> set groups")
      case True
      with IH q others [OF True] show ?thesis by metis
    next
      case False
      with q mine show ?thesis by (auto simp: g)
    qed
  qed
qed

lemma grouped_step:
  assumes "distinct ps" and "\<forall>p \<in> set ps. p \<notin> set (lookup d (sap_subsidy_uuid p))" and "distinct (map fst d)"
  shows "lookup (fold (\<lambda>p d. dict_put d (sap_subsidy_uuid p)
       (if p \<in> set (lookup d (sap_subsidy_uuid p)) then lookup d (sap_subsidy_uuid p)
        else lookup d (sap_subsidy_uuid p) @ [p])) ps d) s = lookup d s @ filter (\<lambda>p. sap_subsidy_uuid p = s) ps \<and>
    distinct (map fst (fold (\<lambda>p d. dict_put d (sap_subsidy_uuid p)
       (if p \<in> set (lookup d (sap_subsidy_uuid p)) then lookup d (sap_subsidy_uuid p)
        else lookup d (sap_subsidy_uuid p) @ [p])) ps d))"
  using assms
proof (induction ps arbitrary: d)
  case (Cons p ps)
  let ?d = "dict_put d (sap_subsidy_uuid p) (lookup d (sap_subsidy_uuid p) @ [p])"
  have "\<forall>q \<in> set ps. q \<notin> set (lookup ?d (sap_subsidy_uuid q))" using Cons.prems(1,2) by auto
  with Cons.IH [of ?d] Cons.prems show ?case by (auto simp: distinct_dict_put)
qed simp

lemma grouped:
  assumes "distinct policies"
  shows "distinct (map fst (policies_by_subsidy_uuid policies))"
    and "(s, ps) \<in> set (policies_by_subsidy_uuid policies) \<Longrightarrow> ps = filter (\<lambda>p. sap_subsidy_uuid p = s) policies"
    and "p \<in> set policies \<Longrightarrow> \<exists>ps. (sap_subsidy_uuid p, ps) \<in> set (policies_by_subsidy_uuid policies) \<and> p \<in> set ps"
proof -
  have step: "lookup (policies_by_subsidy_uuid policies) s = filter (\<lambda>p. sap_subsidy_uuid p = s) policies \<and>
      distinct (map fst (policies_by_subsidy_uuid policies))" for s
    using grouped_step [of policies "[]" s] assms by (simp add: policies_by_subsidy_uuid_def lookup_def)
  show keys: "distinct (map fst (policies_by_subsidy_uuid policies))" using step by blast
  show "(s, ps) \<in> set (policies_by_subsidy_uuid policies) \<Longrightarrow> ps = filter (\<lambda>p. sap_subsidy_uuid p = s) policies"
    using map_of_is_SomeI [OF keys, of s ps] step [of s] by (auto simp: lookup_def)
  show "\<exists>ps. (sap_subsidy_uuid p, ps) \<in> set (policies_by_subsidy_uuid policies) \<and> p \<in> set ps" if "p \<in> set policies"
  proof -
    from step [of "sap_subsidy_uuid p"] that have "p \<in> set (lookup (policies_by_subsidy_uuid policies) (sap_subsidy_uuid p))" by simp
    then show ?thesis unfolding lookup_def by (auto dest!: map_of_SomeD sym [of "Some _"] split: option.splits)
  qed
qed


definition demo_transaction :: "string \<Rightarrow> string \<Rightarrow> json" where
  "demo_transaction content_key policy_uuid =
     JObj [(''uuid'', JStr ''t''), (''content_key'', JStr content_key), (''subsidy_access_policy_uuid'', JStr policy_uuid)]"


end
