(* ===== verification/Policy_Views.thy ===== *)
theory Policy_Views
  imports Access_Rules Policy_Lock Policy_Save Policy_Redemption Policy_Allocation Subsidy_Api
    "HOL-Library.Product_Lexorder"
begin

text \<open>
  The views over subsidy access policies (\<^verbatim>\<open>api/v1/views/subsidy_access_policy.py\<close>):
  whether a learner can redeem or request a content key, redemption and allocation under the lock of
  the policy, the credits of a learner, and the soft delete; with the order in which policies are
  tried (\<^verbatim>\<open>subsidy_access_policy/utils.py\<close>) and the redemption event
  (\<^verbatim>\<open>events/utils.py\<close>).

  A view answers or is refused; a refusal is one of the exceptions that Django REST turns into a
  status, or \<open>Server_Error\<close> with the Python exception nothing handles. Request data is what the
  field serializers let through, \<open>None\<close> where they refuse it.
\<close>

section \<open>Answers\<close>

record reason_entry =
  re_reason :: "reason option"
  re_user_message :: "string option"
  re_enterprise_administrators :: json
  re_policy_uuids :: "uuid list"

datatype detail =
    Reasons "reason_entry list"
  | Subsidy_Transaction_Error json
  | Assignments_Race
  | Price_Unknown
  | Allocation_Error py_error

datatype refusal =
    RedemptionRequestException detail
  | AllocationRequestException detail
  | SubsidyAccessPolicyLockedException
  | Bad_Request
  | Forbidden
  | Not_Found
  | Server_Error py_error

fun status_code :: "refusal \<Rightarrow> int" where
  "status_code (RedemptionRequestException _) = 422"
| "status_code (AllocationRequestException _) = 422"
| "status_code SubsidyAccessPolicyLockedException = 429"
| "status_code Bad_Request = 400"
| "status_code Forbidden = 403"
| "status_code Not_Found = 404"
| "status_code (Server_Error _) = 500"

type_synonym 'a answer = "refusal + 'a"

fun vbind :: "'a answer \<Rightarrow> ('a \<Rightarrow> 'b answer) \<Rightarrow> 'b answer" where
  "vbind (Inl e) f = Inl e"
| "vbind (Inr x) f = f x"

lemma vbind_Inr_iff [result_simps]:
  "vbind m f = Inr y \<longleftrightarrow> (\<exists>x. m = Inr x \<and> f x = Inr y)"
  by (cases m) auto

lemma vbind_InrE:
  assumes "vbind m f = Inr y" and "\<And>x. m = Inr x \<Longrightarrow> f x = Inr y \<Longrightarrow> P"
  shows P
  using assms by (auto simp: vbind_Inr_iff)

text \<open>An exception passes through a block of \<open>except\<close> clauses.\<close>

definition catching :: "(py_error \<Rightarrow> refusal) \<Rightarrow> 'a result \<Rightarrow> 'a answer" where
  "catching handler r = (case r of Inl e \<Rightarrow> Inl (handler e) | Inr x \<Rightarrow> Inr x)"

abbreviation unhandled :: "'a result \<Rightarrow> 'a answer" where
  "unhandled \<equiv> catching Server_Error"

lemma catching_Inr_iff [simp]: "catching h r = Inr x \<longleftrightarrow> r = Inr x"
  by (cases r) (auto simp: catching_def)

section \<open>Environment\<close>

text \<open>
  The policies are listed newest first. The rbac library, the parser and the printer of UUIDs, the
  customer record of the LMS, the catalog's prices of a course and the body of the response behind a
  subsidy error are parameters; the redemptions of a learner are what
  \<open>get_redemptions_by_content_and_policy_for_learner\<close> returns for the policies it is given.
\<close>

record course_prices =
  cp_by_run :: "(string \<times> rat option) list"
  cp_price :: "rat option"

record view_context =
  vc_env :: policy_env
  vc_policies :: "policy list"
  vc_access :: access
  vc_user :: nat
  vc_is_staff :: bool
  vc_jwt_user_id :: "int option"
  vc_user_lms_user_id :: "int option"
  vc_uuid :: "string \<Rightarrow> uuid option"
  vc_uuid_text :: "uuid \<Rightarrow> string"
  vc_customer_data :: "uuid \<Rightarrow> json result"
  vc_course_prices :: "string \<Rightarrow> course_prices result"
  vc_redemptions :: "policy list \<Rightarrow> int \<Rightarrow> redemptions result"
  vc_error_response :: "(json result \<times> int) option"
  vc_text :: "json \<Rightarrow> string"
  vc_transactions_endpoint :: string
  vc_lms_url :: string
  vc_kafka_enabled :: bool

definition permitted :: "view_context \<Rightarrow> permission \<Rightarrow> string option \<Rightarrow> bool" where
  "permitted vc p customer = perm_rule p (vc_access vc) (vc_user vc) customer"

text \<open>\<open>SubsidyAccessPolicy.objects.filter(uuid=...).first()\<close>, a malformed UUID being ignored.\<close>

definition policy_of_text :: "view_context \<Rightarrow> string \<Rightarrow> policy option" where
  "policy_of_text vc text = Option.bind (vc_uuid vc text) (get_subsidy_access_policy (vc_policies vc))"

text \<open>The permission object of the actions on one policy: its customer, or the empty text.\<close>

definition customer_of_policy :: "view_context \<Rightarrow> string \<Rightarrow> string" where
  "customer_of_policy vc text =
     (case policy_of_text vc text of None \<Rightarrow> [] | Some p \<Rightarrow> vc_uuid_text vc (sap_enterprise_customer_uuid p))"

text \<open>
  \<open>get_policy_customer_uuid\<close>: without \<open>suppress\<close> here, so that a malformed UUID raises.
\<close>

definition policy_permission_detail_fn :: "view_context \<Rightarrow> string \<Rightarrow> string option result" where
  "policy_permission_detail_fn vc text =
     (case vc_uuid vc text of
        None \<Rightarrow> Inl ValidationError
      | Some u \<Rightarrow> Inr (map_option (\<lambda>p. vc_uuid_text vc (sap_enterprise_customer_uuid p))
                   (get_subsidy_access_policy (vc_policies vc) u)))"

definition get_queryset :: "view_context \<Rightarrow> string \<Rightarrow> policy list result" where
  "get_queryset vc customer =
     (case vc_uuid vc customer of
        None \<Rightarrow> Inl ValidationError
      | Some c \<Rightarrow> Inr (filter (\<lambda>p. sap_enterprise_customer_uuid p = c)
                   (policies_with_redemption_enabled (vc_policies vc))))"

section \<open>The order of policies\<close>

text \<open>
  The key of the sort: priority, expiration of the subsidy, balance. Tuples are compared at the first
  component that differs, and comparing \<open>None\<close> with a time raises: the sort ends without an exception
  exactly when no two policies of one priority differ in having an expiration.
\<close>

record sort_entry =
  se_policy :: policy
  se_expiration :: "datetime option"
  se_balance :: int

definition sort_entry_of :: "policy_env \<Rightarrow> policy \<Rightarrow> sort_entry result" where
  "sort_entry_of env p =
     rbind (subsidy_expiration_datetime env p) (\<lambda>expiration.
     rbind (subsidy_balance env p) (\<lambda>balance.
       Inr \<lparr>se_policy = p, se_expiration = expiration, se_balance = balance\<rparr>))"

definition comparable :: "sort_entry list \<Rightarrow> bool" where
  "comparable es =
     list_all (\<lambda>a. list_all (\<lambda>b. priority (se_policy a) = priority (se_policy b) \<longrightarrow>
        (se_expiration a = None \<longleftrightarrow> se_expiration b = None)) es) es"

definition redemption_key :: "sort_entry \<Rightarrow> nat \<times> int \<times> int" where
  "redemption_key e =
     (priority (se_policy e), case se_expiration e of None \<Rightarrow> 0 | Some t \<Rightarrow> t, se_balance e)"

definition sort_subsidy_access_policies_for_redemption :: "policy_env \<Rightarrow> policy list \<Rightarrow> policy list result" where
  "sort_subsidy_access_policies_for_redemption env queryset =
     (if length queryset \<le> 1 then Inr queryset
      else rbind (rmap (sort_entry_of env) queryset) (\<lambda>entries.
        if comparable entries then Inr (map se_policy (sort_key redemption_key entries)) else Inl TypeError))"

section \<open>Reasons\<close>

text \<open>Constants of \<^verbatim>\<open>MissingSubsidyAccessReasonUserMessages\<close>, by name.\<close>

definition user_messages :: "bool \<Rightarrow> (reason \<times> string) list" where
  "user_messages has_enterprise_admin_users =
     (let no_funds = (if has_enterprise_admin_users then ''ORGANIZATION_NO_FUNDS''
                      else ''ORGANIZATION_NO_FUNDS_NO_ADMINS'');
          expired = (if has_enterprise_admin_users then ''ORGANIZATION_EXPIRED_FUNDS''
                     else ''ORGANIZATION_EXPIRED_FUNDS_NO_ADMINS'')
      in [(REASON_POLICY_EXPIRED, no_funds), (REASON_SUBSIDY_EXPIRED, expired),
          (REASON_NOT_ENOUGH_VALUE_IN_SUBSIDY, no_funds), (REASON_POLICY_SPEND_LIMIT_REACHED, no_funds),
          (REASON_LEARNER_NOT_IN_ENTERPRISE, ''LEARNER_NOT_IN_ENTERPRISE''),
          (REASON_LEARNER_MAX_SPEND_REACHED, ''LEARNER_LIMITS_REACHED''),
          (REASON_LEARNER_MAX_ENROLLMENTS_REACHED, ''LEARNER_LIMITS_REACHED''),
          (REASON_CONTENT_NOT_IN_CATALOG, ''CONTENT_NOT_IN_CATALOG''),
          (REASON_BEYOND_ENROLLMENT_DEADLINE, ''BEYOND_ENROLLMENT_DEADLINE''),
          (REASON_LEARNER_NOT_ASSIGNED_CONTENT, ''LEARNER_NOT_ASSIGNED_CONTENT''),
          (REASON_LEARNER_ASSIGNMENT_CANCELLED, ''LEARNER_ASSIGNMENT_CANCELED''),
          (REASON_LEARNER_ASSIGNMENT_FAILED, ''LEARNER_NOT_ASSIGNED_CONTENT'')])"

definition json_len :: "json \<Rightarrow> nat result" where
  "json_len v = (case v of JList xs \<Rightarrow> Inr (length xs) | JStr s \<Rightarrow> Inr (length s)
     | JObj d \<Rightarrow> Inr (length d) | _ \<Rightarrow> Inl TypeError)"

definition get_user_message_for_reason :: "reason option \<Rightarrow> json \<Rightarrow> string option result" where
  "get_user_message_for_reason reason admins =
     (case reason of
        None \<Rightarrow> Inr None
      | Some r \<Rightarrow> rbind (json_len admins) (\<lambda>n. Inr (map_of (user_messages (n > 0)) r)))"

definition get_admin_contact_email :: "json \<Rightarrow> json result" where
  "get_admin_contact_email customer_data =
     rbind (json_get customer_data ''contact_email'' JNull) (\<lambda>email.
       if json_truthy email then Inr (JList [JObj [(''email'', email), (''lms_user_id'', JNull)]])
       else json_get customer_data ''admin_users'' (JList []))"

definition get_reasons_for_no_redeemable_policies ::
    "view_context \<Rightarrow> uuid \<Rightarrow> (reason option \<times> policy list) list \<Rightarrow> (reason_entry list \<times> reason_entry option) result" where
  "get_reasons_for_no_redeemable_policies vc customer non_redeemable_policies_by_reason =
     rbind (vc_customer_data vc customer) (\<lambda>customer_data.
     rbind (get_admin_contact_email customer_data) (\<lambda>admins.
     rbind (rmap (\<lambda>(reason, ps). rbind (get_user_message_for_reason reason admins) (\<lambda>msg.
              Inr \<lparr>re_reason = reason, re_user_message = msg, re_enterprise_administrators = admins,
                   re_policy_uuids = map sap_uuid ps\<rparr>)) non_redeemable_policies_by_reason) (\<lambda>reasons.
       Inr (reasons, case reasons of [] \<Rightarrow> None | r # _ \<Rightarrow> Some r))))"

section \<open>Evaluating the policies of a customer\<close>

fun evaluate_loop ::
    "view_context \<Rightarrow> assignments \<Rightarrow> int \<Rightarrow> string \<Rightarrow> bool \<Rightarrow> policy list \<Rightarrow>
      policy list \<times> (reason option \<times> policy list) list \<Rightarrow> (policy list \<times> (reason option \<times> policy list) list) answer" where
  "evaluate_loop vc table lms_user_id content_key skip [] found = Inr found"
| "evaluate_loop vc table lms_user_id content_key skip (p # ps) (redeemable, non_redeemable) =
     vbind (catching (\<lambda>e. if e = ContentPriceNullException then RedemptionRequestException Price_Unknown
                          else Server_Error e)
              (can_redeem (vc_env vc) table p lms_user_id content_key skip False)) (\<lambda>(ok, reason, _).
       evaluate_loop vc table lms_user_id content_key skip ps
         (if ok then (redeemable @ [p], non_redeemable)
          else (redeemable, dict_put non_redeemable reason (lookup non_redeemable reason @ [p]))))"

definition evaluate_policies ::
    "view_context \<Rightarrow> assignments \<Rightarrow> string \<Rightarrow> int \<Rightarrow> string \<Rightarrow> bool \<Rightarrow>
      (policy list \<times> (reason option \<times> policy list) list) answer" where
  "evaluate_policies vc table customer lms_user_id content_key skip_customer_user_check =
     vbind (unhandled (rbind (get_queryset vc customer) (sort_subsidy_access_policies_for_redemption (vc_env vc))))
       (\<lambda>policies. evaluate_loop vc table lms_user_id content_key skip_customer_user_check policies ([], []))"

section \<open>Credits\<close>

fun policies_with_credit :: "view_context \<Rightarrow> assignments \<Rightarrow> actions \<Rightarrow> int \<Rightarrow> policy list \<Rightarrow> policy list result" where
  "policies_with_credit vc table acts lms_user_id [] = Inr []"
| "policies_with_credit vc table acts lms_user_id (p # ps) =
     rbind (credit_available (vc_env vc) table acts p lms_user_id) (\<lambda>available.
     rbind (policies_with_credit vc table acts lms_user_id ps) (\<lambda>rest.
       Inr (if available then p # rest else rest)))"

definition policies_with_credit_available ::
    "view_context \<Rightarrow> assignments \<Rightarrow> actions \<Rightarrow> string \<Rightarrow> uuid \<Rightarrow> int \<Rightarrow> policy list result" where
  "policies_with_credit_available vc table acts permission_customer customer lms_user_id =
     rbind (get_queryset vc permission_customer) (\<lambda>policies.
       policies_with_credit vc table acts lms_user_id
         (filter (\<lambda>p. sap_enterprise_customer_uuid p = customer) policies))"

text \<open>The query names the customer and the learner; the permission is for the customer it names.\<close>

definition credits_available ::
    "view_context \<Rightarrow> assignments \<Rightarrow> actions \<Rightarrow> string option \<Rightarrow> int option \<Rightarrow> policy list answer" where
  "credits_available vc table acts enterprise_customer_uuid lms_user_id =
     (if \<not> permitted vc SUBSIDY_ACCESS_POLICY_REDEMPTION_PERMISSION enterprise_customer_uuid then Inl Forbidden
      else case (Option.bind enterprise_customer_uuid (vc_uuid vc), lms_user_id) of
        (Some customer, Some u) \<Rightarrow>
          unhandled (policies_with_credit_available vc table acts (the enterprise_customer_uuid) customer u)
      | _ \<Rightarrow> Inl Bad_Request)"

section \<open>Redemption\<close>

record redeem_world =
  rw_locks :: "lock_key \<rightharpoonup> uuid"
  rw_assignments :: assignments
  rw_assignment_actions :: actions
  rw_requests :: "learner_credit_request list"
  rw_request_actions :: "lcr_action list"
  rw_tasks :: "task list"
  rw_events :: "(string \<times> json) list list"

record redeem_data =
  rq_lms_user_id :: int
  rq_content_key :: string
  rq_metadata :: "(string \<times> json) list option"

text \<open>
  The data the serializer shows (metadata are a dictionary or \<open>None\<close> here). The event is built from
  it: its constructor reads \<open>enterprise_uuid\<close>, \<open>content_key\<close> and \<open>lms_user_id\<close>, and only errors of the
  value serializer are caught.
\<close>

definition redeem_serializer_data :: "redeem_data \<Rightarrow> (string \<times> json) list" where
  "redeem_serializer_data d =
     [(''lms_user_id'', JNum (rq_lms_user_id d)), (''content_key'', JStr (rq_content_key d)),
      (''metadata'', case rq_metadata d of None \<Rightarrow> JNull | Some m \<Rightarrow> JObj m)]"

definition subsidy_redemption_event :: "(string \<times> json) list \<Rightarrow> (string \<times> json) list result" where
  "subsidy_redemption_event properties =
     rmap (\<lambda>k. case map_of properties k of None \<Rightarrow> Inl KeyError | Some v \<Rightarrow> Inr (k, v))
       [''enterprise_uuid'', ''content_key'', ''lms_user_id'']"

definition send_subsidy_redemption_event_to_event_bus ::
    "bool \<Rightarrow> (string \<times> json) list \<Rightarrow> redeem_world \<Rightarrow> redeem_world \<times> unit result" where
  "send_subsidy_redemption_event_to_event_bus kafka_enabled properties w =
     (if \<not> kafka_enabled then (w, Inr ())
      else case subsidy_redemption_event properties of
        Inl e \<Rightarrow> (w, Inl e)
      | Inr event \<Rightarrow> (w\<lparr>rw_events := rw_events w @ [event]\<rparr>, Inr ()))"

text \<open>
  The payload of a subsidy error: the body of the response it came from, with its status code added,
  or the text of the exception when there was no response.
\<close>

definition error_payload :: "view_context \<Rightarrow> (string \<times> json) list result" where
  "error_payload vc =
     (case vc_error_response vc of
        None \<Rightarrow> Inr [(''detail'', JStr [])]
      | Some (body, status) \<Rightarrow> rbind body (\<lambda>b. case b of
            JObj d \<Rightarrow> Inr (dict_put d ''subsidy_status_code'' (JNum status))
          | _ \<Rightarrow> Inl TypeError))"

definition subsidy_error :: "view_context \<Rightarrow> refusal" where
  "subsidy_error vc =
     (case rbind (error_payload vc) (\<lambda>d. rbind (item (JObj d) ''detail'') (\<lambda>text.
              Inr (JObj (dict_put d ''detail'' (JStr (''Subsidy Transaction API error: '' @ vc_text vc text)))))) of
        Inl e \<Rightarrow> Server_Error e
      | Inr payload \<Rightarrow> RedemptionRequestException (Subsidy_Transaction_Error payload))"

text \<open>The \<open>except\<close> clauses of \<open>redeem\<close>.\<close>

definition redeem_handler :: "view_context \<Rightarrow> py_error \<Rightarrow> refusal" where
  "redeem_handler vc e =
     (if e = SubsidyAccessPolicyLockAttemptFailed then SubsidyAccessPolicyLockedException
      else if e = SubsidyAPIHTTPError then subsidy_error vc
      else if e = MissingAssignment then RedemptionRequestException Assignments_Race
      else Server_Error e)"

text \<open>The body of the \<open>with\<close> block; the request cache holds the assignments as they are at its start.\<close>

definition redeem_locked ::
    "view_context \<Rightarrow> string \<Rightarrow> policy \<Rightarrow> redeem_data \<Rightarrow> redeem_world \<Rightarrow> redeem_world \<times> ledger_transaction answer" where
  "redeem_locked vc tb policy d w =
     (case can_redeem (vc_env vc) (rw_assignments w) policy (rq_lms_user_id d) (rq_content_key d) False False of
        Inl e \<Rightarrow> (w, Inl (redeem_handler vc e))
      | Inr (True, _, existing_transactions) \<Rightarrow>
          (let r = redeem (vc_env vc) tb (rw_assignments w) policy (rq_lms_user_id d) (rq_content_key d)
                     existing_transactions (rq_metadata d) (rw_assignments w)
                     (rw_assignment_actions w) (rw_requests w) (rw_request_actions w);
               w1 = w\<lparr>rw_assignments := rd_table r, rw_assignment_actions := rd_actions r,
                      rw_requests := rd_requests r, rw_request_actions := rd_request_actions r,
                      rw_tasks := rw_tasks w @ rd_tasks r\<rparr>
           in case rd_result r of
                Inl e \<Rightarrow> (w1, Inl (redeem_handler vc e))
              | Inr tx \<Rightarrow>
                  (case send_subsidy_redemption_event_to_event_bus (vc_kafka_enabled vc) (redeem_serializer_data d) w1 of
                     (w2, Inl e) \<Rightarrow> (w2, Inl (redeem_handler vc e))
                   | (w2, Inr _) \<Rightarrow> (w2, Inr tx)))
      | Inr (False, reason, _) \<Rightarrow>
          (w, vbind (catching (redeem_handler vc) (get_reasons_for_no_redeemable_policies vc
                  (sap_enterprise_customer_uuid policy) [(reason, [policy])])) (\<lambda>(reasons, _).
                Inl (RedemptionRequestException (Reasons reasons)))))"

text \<open>The \<open>with\<close> statement around a body that may change the world; the lock is released in any case.\<close>

definition with_lock ::
    "policy \<Rightarrow> uuid \<Rightarrow> (redeem_world \<Rightarrow> redeem_world \<times> 'a answer) \<Rightarrow> redeem_world \<Rightarrow> redeem_world \<times> 'a answer" where
  "with_lock policy lock_id body w =
     (case lock policy None None lock_id
             (\<lambda>locks. (locks, Inr (body (w\<lparr>rw_locks := locks\<rparr>)))) (rw_locks w) of
        (locks, Inl _) \<Rightarrow> (w\<lparr>rw_locks := locks\<rparr>, Inl SubsidyAccessPolicyLockedException)
      | (locks, Inr (w1, r)) \<Rightarrow> (w1\<lparr>rw_locks := locks\<rparr>, r))"

definition redeem_view ::
    "view_context \<Rightarrow> string \<Rightarrow> uuid \<Rightarrow> string \<Rightarrow> redeem_data option \<Rightarrow> redeem_world \<Rightarrow>
      redeem_world \<times> ledger_transaction answer" where
  "redeem_view vc tb lock_id policy_uuid validated w =
     (if \<not> permitted vc SUBSIDY_ACCESS_POLICY_REDEMPTION_PERMISSION (Some (customer_of_policy vc policy_uuid))
      then (w, Inl Forbidden)
      else case policy_of_text vc policy_uuid of
        None \<Rightarrow> (w, Inl Not_Found)
      | Some policy \<Rightarrow>
          (case validated of
             None \<Rightarrow> (w, Inl Bad_Request)
           | Some d \<Rightarrow> with_lock policy lock_id (redeem_locked vc tb policy d) w))"

section \<open>Allocation\<close>

record allocate_data =
  al_learner_emails :: "string list"
  al_content_key :: string
  al_content_price_cents :: int
  al_admin_lms_user_id :: "int option"

definition allocate_handler :: "py_error \<Rightarrow> refusal" where
  "allocate_handler e =
     (if e = SubsidyAccessPolicyLockAttemptFailed then SubsidyAccessPolicyLockedException
      else if e \<in> {AllocationException, ValidationError, PriceValidationError}
      then AllocationRequestException (Allocation_Error e)
      else Server_Error e)"

definition allocate_locked ::
    "view_context \<Rightarrow> policy \<Rightarrow> allocate_data \<Rightarrow> redeem_world \<Rightarrow> redeem_world \<times> allocation answer" where
  "allocate_locked vc policy d w =
     (case can_allocate (vc_env vc) (rw_assignments w) policy (length (al_learner_emails d)) (al_content_key d)
             (al_content_price_cents d) of
        Inl e \<Rightarrow> (w, Inl (allocate_handler e))
      | Inr (True, _) \<Rightarrow>
          (case allocate (vc_env vc) (rw_assignments w) policy (al_learner_emails d) (al_content_key d)
                  (al_content_price_cents d) (al_admin_lms_user_id d) of
             Inl e \<Rightarrow> (w, Inl (allocate_handler e))
           | Inr a \<Rightarrow> (w\<lparr>rw_assignments := al_table a, rw_tasks := rw_tasks w @ al_tasks a\<rparr>, Inr a))
      | Inr (False, reason) \<Rightarrow>
          (w, vbind (catching allocate_handler (get_reasons_for_no_redeemable_policies vc
                  (sap_enterprise_customer_uuid policy) [(reason, [policy])])) (\<lambda>(reasons, _).
                Inl (AllocationRequestException (Reasons reasons)))))"

definition allocate_view ::
    "view_context \<Rightarrow> uuid \<Rightarrow> string \<Rightarrow> allocate_data option \<Rightarrow> redeem_world \<Rightarrow> redeem_world \<times> allocation answer" where
  "allocate_view vc lock_id policy_uuid validated w =
     (if \<not> permitted vc SUBSIDY_ACCESS_POLICY_ALLOCATION_PERMISSION (Some (customer_of_policy vc policy_uuid))
      then (w, Inl Forbidden)
      else case policy_of_text vc policy_uuid of
        None \<Rightarrow> (w, Inl Not_Found)
      | Some policy \<Rightarrow>
          (case validated of
             None \<Rightarrow> (w, Inl Bad_Request)
           | Some d \<Rightarrow> with_lock policy lock_id (allocate_locked vc policy d) w))"

section \<open>Can redeem\<close>

text \<open>\<open>get_list_price\<close>: the price the subsidy service knows, for assigned credit that of the assignment.\<close>

definition get_list_price_for_content ::
    "policy_env \<Rightarrow> uuid \<Rightarrow> string \<Rightarrow> content_metadata option \<Rightarrow> (rat \<times> int) result" where
  "get_list_price_for_content env customer content_key metadata =
     rbind (case metadata of
              Some m \<Rightarrow> Inr (Some m)
            | None \<Rightarrow> (case pe_content_metadata env customer content_key of
                  Inl e \<Rightarrow> Inl (if e = HTTPError then ContentPriceNullException else e)
                | Inr m \<Rightarrow> Inr m)) (\<lambda>m.
       case m of
         None \<Rightarrow> Inl TypeError
       | Some m \<Rightarrow> make_list_price_dict None (cm_content_price m))"

definition get_list_price_base :: "policy_env \<Rightarrow> policy \<Rightarrow> string \<Rightarrow> (rat \<times> int) result" where
  "get_list_price_base env self content_key =
     rbind (get_content_metadata env self content_key)
       (get_list_price_for_content env (sap_enterprise_customer_uuid self) content_key)"

definition get_list_price :: "policy_env \<Rightarrow> assignments \<Rightarrow> policy \<Rightarrow> int \<Rightarrow> string \<Rightarrow> (rat \<times> int) result" where
  "get_list_price env table self lms_user_id content_key =
     (if sap_policy_type self = ASSIGNED_LEARNER_CREDIT
      then rbind (get_assignment env table self lms_user_id content_key) (\<lambda>found.
             case found of
               None \<Rightarrow> get_list_price_base env self content_key
             | Some a \<Rightarrow> make_list_price_dict None (Some (lca_content_quantity a * -1)))
      else get_list_price_base env self content_key)"

definition get_list_price_for_catalog_course_metadata :: "course_prices \<Rightarrow> string \<Rightarrow> (rat \<times> int) result" where
  "get_list_price_for_catalog_course_metadata course content_key =
     (case (case Option.bind (map_of (cp_by_run course) content_key) id of
              None \<Rightarrow> cp_price course | Some p \<Rightarrow> Some p) of
        None \<Rightarrow> Inl ContentPriceNullException
      | Some dollars \<Rightarrow> make_list_price_dict (Some dollars) None)"

text \<open>\<open>os.path.join\<close> of two parts, and the links added to a redemption.\<close>

definition path_join :: "string \<Rightarrow> string \<Rightarrow> string" where
  "path_join a b =
     (if take 1 b = ''/'' then b else if a = [] \<or> last a = CHR ''/'' then a @ b else a @ ''/'' @ b)"

definition with_links :: "view_context \<Rightarrow> json \<Rightarrow> json \<Rightarrow> json result" where
  "with_links vc content_key redemption =
     rbind (item redemption ''uuid'') (\<lambda>u.
       case redemption of
         JObj d \<Rightarrow> Inr (JObj (dict_put
            (dict_put d ''policy_redemption_status_url''
               (JStr (path_join (vc_transactions_endpoint vc) (vc_text vc u @ ''/''))))
            ''courseware_url''
            (JStr (path_join (vc_lms_url vc) (''courses/'' @ vc_text vc content_key @ ''/courseware/'')))))
       | _ \<Rightarrow> Inl TypeError)"

definition get_existing_redemptions :: "view_context \<Rightarrow> policy list \<Rightarrow> int \<Rightarrow> redemptions answer" where
  "get_existing_redemptions vc policies lms_user_id =
     vbind (catching (\<lambda>e. if e = SubsidyAPIHTTPError then subsidy_error vc else Server_Error e)
              (vc_redemptions vc policies lms_user_id)) (\<lambda>m.
       unhandled (rmap (\<lambda>(content_key, by_policy).
         rbind (rmap (\<lambda>(policy, rs). rbind (rmap (with_links vc content_key) rs) (\<lambda>rs'. Inr (policy, rs')))
                  by_policy) (\<lambda>by_policy'. Inr (content_key, by_policy'))) m))"

definition is_successful :: "json \<Rightarrow> bool result" where
  "is_successful redemption =
     rbind (item redemption ''state'') (\<lambda>state.
       if state \<noteq> JStr ''committed'' then Inr False
       else rbind (item redemption ''reversal'') (\<lambda>reversal.
         if \<not> json_truthy reversal then Inr True
         else rbind (json_get reversal ''state'' JNull) (\<lambda>s. Inr (s \<noteq> JStr ''committed''))))"

fun rfilter :: "('a \<Rightarrow> bool result) \<Rightarrow> 'a list \<Rightarrow> 'a list result" where
  "rfilter f [] = Inr []"
| "rfilter f (x # xs) = rbind (f x) (\<lambda>b. rbind (rfilter f xs) (\<lambda>ys. Inr (if b then x # ys else ys)))"

record element =
  el_content_key :: string
  el_list_price :: "(rat \<times> int) option"
  el_redemptions :: "json list"
  el_has_successful_redemption :: bool
  el_policy :: "policy option"
  el_reasons :: "reason_entry list"
  el_display_reason :: "reason_entry option"

text \<open>The policy of the first successful redemption; the last entry of a transaction counts.\<close>

definition policy_of_redemption :: "view_context \<Rightarrow> (uuid \<times> json list) list \<Rightarrow> json \<Rightarrow> policy result" where
  "policy_of_redemption vc redemptions_by_policy redemption =
     rbind (rmap (\<lambda>(p, r). rbind (item r ''uuid'') (\<lambda>u. Inr (u, p)))
              (concat (map (\<lambda>(p, rs). map (Pair p) rs) redemptions_by_policy))) (\<lambda>owners.
     rbind (item redemption ''uuid'') (\<lambda>u.
       case Option.bind (map_of (rev owners) u) (get_subsidy_access_policy (vc_policies vc)) of
         None \<Rightarrow> Inl KeyError
       | Some p \<Rightarrow> Inr p))"

definition list_price_of ::
    "view_context \<Rightarrow> assignments \<Rightarrow> int \<Rightarrow> string \<Rightarrow> policy option \<Rightarrow> (uuid \<times> json list) list \<Rightarrow> json list \<Rightarrow>
      (rat \<times> int) option result" where
  "list_price_of vc table lms_user_id content_key resolved redemptions_by_policy succeeded =
     (case (resolved, succeeded) of
        (Some p, _) \<Rightarrow> rbind (get_list_price (vc_env vc) table p lms_user_id content_key) (\<lambda>l. Inr (Some l))
      | (None, r # _) \<Rightarrow>
          rbind (policy_of_redemption vc redemptions_by_policy r) (\<lambda>p.
          rbind (get_list_price (vc_env vc) table p lms_user_id content_key) (\<lambda>l. Inr (Some l)))
      | (None, []) \<Rightarrow>
          (case vc_course_prices vc content_key of
             Inl e \<Rightarrow> if e = HTTPError then Inr None else Inl e
           | Inr course \<Rightarrow>
               rbind (get_list_price_for_catalog_course_metadata course content_key) (\<lambda>l. Inr (Some l))))"

text \<open>One element of the answer; \<open>skip\<close> says that membership of the customer is not checked.\<close>

definition can_redeem_element ::
    "view_context \<Rightarrow> assignments \<Rightarrow> string \<Rightarrow> int \<Rightarrow> bool \<Rightarrow> redemptions \<Rightarrow> string \<Rightarrow> element answer" where
  "can_redeem_element vc table customer lms_user_id skip redemptions_map content_key =
     (let by_policy = lookup redemptions_map (JStr content_key);
          redemptions = concat (map snd by_policy)
      in vbind (unhandled (rfilter is_successful redemptions)) (\<lambda>succeeded.
         vbind (if succeeded = [] then evaluate_policies vc table customer lms_user_id content_key skip
                else Inr ([], [])) (\<lambda>(redeemable, non_redeemable).
         vbind (if succeeded = [] \<and> redeemable = []
                then unhandled (rbind (case vc_uuid vc customer of None \<Rightarrow> Inl ValidationError | Some c \<Rightarrow> Inr c) (\<lambda>c.
                       get_reasons_for_no_redeemable_policies vc c non_redeemable))
                else Inr ([], None)) (\<lambda>(reasons, display_reason).
         let resolved = (case redeemable of [] \<Rightarrow> None | p # _ \<Rightarrow> Some p)
         in vbind (catching (\<lambda>e. if e = ContentPriceNullException then RedemptionRequestException Price_Unknown
                                 else Server_Error e)
                     (list_price_of vc table lms_user_id content_key resolved by_policy succeeded)) (\<lambda>list_price.
              Inr \<lparr>el_content_key = content_key, el_list_price = list_price, el_redemptions = redemptions,
                   el_has_successful_redemption = (succeeded \<noteq> []), el_policy = resolved,
                   el_reasons = reasons, el_display_reason = display_reason\<rparr>)))))"

fun vmap :: "('a \<Rightarrow> 'b answer) \<Rightarrow> 'a list \<Rightarrow> 'b list answer" where
  "vmap f [] = Inr []"
| "vmap f (x # xs) = vbind (f x) (\<lambda>y. vbind (vmap f xs) (\<lambda>ys. Inr (y # ys)))"

definition int_or :: "int option \<Rightarrow> int option \<Rightarrow> int option" where
  "int_or a b = (if truthy_int a then a else b)"

text \<open>The learner: the override of a staff user, the user of the token, or the id of the stored user.\<close>

definition lms_user_id_override :: "view_context \<Rightarrow> int option \<Rightarrow> int option" where
  "lms_user_id_override vc requested = (if vc_is_staff vc then requested else None)"

definition learner_of_request :: "view_context \<Rightarrow> int option \<Rightarrow> int option" where
  "learner_of_request vc requested =
     int_or (int_or (lms_user_id_override vc requested) (vc_jwt_user_id vc)) (vc_user_lms_user_id vc)"

definition can_redeem_view ::
    "view_context \<Rightarrow> assignments \<Rightarrow> string \<Rightarrow> (string list \<times> int option) option \<Rightarrow> element list answer" where
  "can_redeem_view vc table customer validated =
     (if \<not> permitted vc SUBSIDY_ACCESS_POLICY_REDEMPTION_PERMISSION (Some customer) then Inl Forbidden
      else case validated of
        None \<Rightarrow> Inl Bad_Request
      | Some (content_keys, requested) \<Rightarrow>
          (let learner = learner_of_request vc requested
           in if \<not> truthy_int learner then Inl Not_Found
              else vbind (unhandled (get_queryset vc customer)) (\<lambda>policies.
                   if policies = [] then Inl Not_Found
                   else vbind (get_existing_redemptions vc policies (the learner)) (\<lambda>redemptions_map.
                     vmap (can_redeem_element vc table customer (the learner)
                             (\<not> truthy_int (lms_user_id_override vc requested)) redemptions_map)
                       content_keys))))"

section \<open>Can request\<close>

datatype requestability =
    Cannot_Request string
  | Already_Requested subsidy_request_state uuid
  | Can_Request policy

text \<open>\<open>first()\<close> of the unordered rows is the one with the smallest key.\<close>

definition existing_request ::
    "learner_credit_request list \<Rightarrow> int \<Rightarrow> uuid \<Rightarrow> string \<Rightarrow> learner_credit_request option" where
  "existing_request requests lms_user_id customer content_key =
     find (\<lambda>r. user_lms_user_id (sr_user r) = Some lms_user_id \<and> sr_enterprise_customer_uuid r = customer \<and>
               sr_course_id r = Some content_key \<and> sr_state r \<in> set lc_non_re_requestable_states)
       (sort_key sr_uuid requests)"

definition can_request_view ::
    "view_context \<Rightarrow> learner_credit_request list \<Rightarrow> string \<Rightarrow> (string \<times> int option) option \<Rightarrow> requestability answer" where
  "can_request_view vc requests customer validated =
     (if \<not> permitted vc SUBSIDY_ACCESS_POLICY_REDEMPTION_PERMISSION (Some customer) then Inl Forbidden
      else case validated of
        None \<Rightarrow> Inl Bad_Request
      | Some (content_key, requested) \<Rightarrow>
          (let learner = learner_of_request vc requested
           in if \<not> truthy_int learner then Inl Not_Found
              else vbind (unhandled (get_queryset vc customer)) (\<lambda>policies.
                   let bnr_enabled_policies = filter bnr_enabled policies
                   in if policies = [] then Inr (Cannot_Request ''No active policies for this customer'')
                      else if bnr_enabled_policies = []
                        then Inr (Cannot_Request ''No policies with BnR enabled found'')
                      else vbind (unhandled (rfilter (\<lambda>p. catalog_contains_content_key (vc_env vc) p content_key)
                                    bnr_enabled_policies)) (\<lambda>valid_policies.
                        if valid_policies = [] then Inr (Cannot_Request ''content_not_in_catalog'')
                        else case existing_request requests (the learner) (the (vc_uuid vc customer)) content_key of
                            Some r \<Rightarrow> Inr (Already_Requested (sr_state r) (sr_uuid r))
                          | None \<Rightarrow>
                              vbind (unhandled (sort_subsidy_access_policies_for_redemption (vc_env vc) valid_policies))
                                (\<lambda>sorted_policies. Inr (Can_Request (hd sorted_policies)))))))"

section \<open>Soft delete\<close>

definition destroy_view ::
    "view_context \<Rightarrow> bool \<Rightarrow> uuid \<Rightarrow> string \<Rightarrow> bool \<Rightarrow> policy_db \<Rightarrow> policy_db \<times> policy answer" where
  "destroy_view vc0 allowed fresh policy_uuid valid db =
     (let vc = vc0\<lparr>vc_policies := db_policies db\<rparr>
      in case policy_permission_detail_fn vc policy_uuid of
        Inl e \<Rightarrow> (db, Inl (Server_Error e))
      | Inr customer \<Rightarrow>
          if \<not> permitted vc SUBSIDY_ACCESS_POLICY_WRITE_PERMISSION customer then (db, Inl Forbidden)
          else if \<not> valid then (db, Inl Bad_Request)
          else case policy_of_text vc policy_uuid of
                 None \<Rightarrow> (db, Inl Not_Found)
               | Some policy \<Rightarrow>
                   (case delete_policy allowed (vc_env vc) fresh db policy of
                      (db', r) \<Rightarrow> (db', unhandled r)))"

end
