(* ===== verification/Assignment_Views.thy ===== *)
theory Assignment_Views
  imports Policy_Views Policy_Allocation
begin

text \<open>
  The REST views over assignments and their configurations
  (\<^verbatim>\<open>api/v1/views/content_assignments/\<close>) with the checks of their serializers, and the two daily
  commands that expire and nudge assignments
  (\<^verbatim>\<open>content_assignments/management/commands/\<close>). A view returns the store after it and a status,
  or the data it answers with. A UUID in a body is \<open>None\<close> when it is malformed. Rows are listed in
  the order of their creation.
\<close>

section \<open>Store\<close>

record assignment_store =
  as_configurations :: "assignment_configuration list"
  as_assignments :: assignments
  as_actions :: actions
  as_requests :: "learner_credit_request list"
  as_tasks :: "task list"

definition get_assignment_configuration :: "assignment_store \<Rightarrow> uuid \<Rightarrow> assignment_configuration option" where
  "get_assignment_configuration st u = find (\<lambda>c. ac_uuid c = u) (as_configurations st)"

text \<open>A malformed UUID of the path raises before any permission is checked.\<close>

definition get_assignment_config_customer_uuid ::
    "view_context \<Rightarrow> assignment_store \<Rightarrow> string \<Rightarrow> string option result" where
  "get_assignment_config_customer_uuid vc st text =
     (case vc_uuid vc text of
        None \<Rightarrow> Inl ValidationError
      | Some u \<Rightarrow> Inr (map_option (\<lambda>c. vc_uuid_text vc (ac_enterprise_customer_uuid c))
                   (get_assignment_configuration st u)))"

text \<open>What \<open>permission_required\<close> makes of it: the configuration of the path, or a refusal.\<close>

definition requested_configuration ::
    "view_context \<Rightarrow> permission \<Rightarrow> assignment_store \<Rightarrow> string \<Rightarrow> uuid answer" where
  "requested_configuration vc p st text =
     vbind (unhandled (get_assignment_config_customer_uuid vc st text)) (\<lambda>customer.
       if permitted vc p customer then Inr (the (vc_uuid vc text)) else Inl Forbidden)"

definition assignments_of :: "assignment_store \<Rightarrow> uuid \<Rightarrow> assignments" where
  "assignments_of st config =
     filter (\<lambda>a. lca_assignment_configuration a = Some config) (as_assignments st)"

section \<open>Filters\<close>

record admin_filter =
  af_content_key :: "string option"
  af_content_key_in :: "string list option"
  af_learner_email :: "string option"
  af_learner_email_in :: "string list option"
  af_lms_user_id :: "int option"
  af_lms_user_id_in :: "int list option"
  af_state :: "assignment_state option"
  af_state_in :: "assignment_state list option"
  af_learner_state :: "assignment_learner_state option"
  af_learner_state_in :: "assignment_learner_state list option"
  af_search :: "string list"

definition asked :: "'a option \<Rightarrow> 'a \<Rightarrow> bool" where
  "asked f v = (case f of None \<Rightarrow> True | Some x \<Rightarrow> v = x)"

definition asked_in :: "'a list option \<Rightarrow> 'a \<Rightarrow> bool" where
  "asked_in f v = (case f of None \<Rightarrow> True | Some xs \<Rightarrow> v \<in> set xs)"

definition icontains :: "string \<Rightarrow> string \<Rightarrow> bool" where
  "icontains term text =
     list_ex (\<lambda>i. take (length term) (drop i (lower text)) = lower term) [0..<length text + 1]"

definition learner_content_assignment_admin_filter ::
    "admin_filter \<Rightarrow> actions \<Rightarrow> learner_content_assignment \<Rightarrow> bool" where
  "learner_content_assignment_admin_filter f actions a \<longleftrightarrow>
     asked (af_content_key f) (lca_content_key a) \<and> asked_in (af_content_key_in f) (lca_content_key a) \<and>
     asked (af_learner_email f) (lca_learner_email a) \<and> asked_in (af_learner_email_in f) (lca_learner_email a) \<and>
     asked (map_option Some (af_lms_user_id f)) (lca_lms_user_id a) \<and>
     asked_in (map_option (map Some) (af_lms_user_id_in f)) (lca_lms_user_id a) \<and>
     asked (af_state f) (lca_state a) \<and> asked_in (af_state_in f) (lca_state a) \<and>
     asked (map_option Some (af_learner_state f)) (learner_state actions a) \<and>
     asked_in (map_option (map Some) (af_learner_state_in f)) (learner_state actions a)"

text \<open>Every search term occurs in the title or in the address.\<close>

definition search_fields :: "learner_content_assignment \<Rightarrow> string list" where
  "search_fields a = (case lca_content_title a of None \<Rightarrow> [] | Some t \<Rightarrow> [t]) @ [lca_learner_email a]"

definition filter_queryset :: "admin_filter \<Rightarrow> actions \<Rightarrow> assignments \<Rightarrow> assignments" where
  "filter_queryset f actions as =
     filter (\<lambda>a. learner_content_assignment_admin_filter f actions a \<and>
                 list_all (\<lambda>t. list_ex (icontains t) (search_fields a)) (af_search f)) as"

definition no_filter :: admin_filter where
  "no_filter = \<lparr>af_content_key = None, af_content_key_in = None, af_learner_email = None,
     af_learner_email_in = None, af_lms_user_id = None, af_lms_user_id_in = None, af_state = None,
     af_state_in = None, af_learner_state = None, af_learner_state_in = None, af_search = []\<rparr>"

section \<open>Reading\<close>

text \<open>A page of the list; an empty list has one empty page.\<close>

definition page_count :: "nat \<Rightarrow> nat \<Rightarrow> nat" where
  "page_count per n = (max 1 n + per - 1) div per"

definition paginate :: "nat \<Rightarrow> nat \<Rightarrow> 'a list \<Rightarrow> 'a list answer" where
  "paginate per page xs =
     (if page = 0 \<or> page > page_count per (length xs) then Inl Not_Found
      else Inr (take per (drop ((page - 1) * per) xs)))"

text \<open>\<open>Counter.most_common\<close>: by falling count, equal counts in the order of their first occurrence.\<close>

definition most_common :: "'a list \<Rightarrow> ('a \<times> nat) list" where
  "most_common xs = sort_key (\<lambda>p. - int (snd p)) (map (\<lambda>x. (x, count_list xs x)) (rev (remdups (rev xs))))"

definition learner_state_counts :: "actions \<Rightarrow> assignments \<Rightarrow> (assignment_learner_state \<times> nat) list" where
  "learner_state_counts actions as = most_common (List.map_filter (learner_state actions) as)"

text \<open>\<open>order\<close> is the ordering asked for.\<close>

definition list_assignments ::
    "view_context \<Rightarrow> assignment_store \<Rightarrow> string \<Rightarrow> admin_filter \<Rightarrow> (assignments \<Rightarrow> assignments) \<Rightarrow> nat \<Rightarrow> nat
       \<Rightarrow> (assignments \<times> (assignment_learner_state \<times> nat) list) answer" where
  "list_assignments vc st text f order per page =
     vbind (requested_configuration vc CONTENT_ASSIGNMENT_ADMIN_READ_PERMISSION st text) (\<lambda>config.
       let rows = order (filter_queryset f (as_actions st) (assignments_of st config))
       in vbind (paginate per page rows) (\<lambda>results.
            Inr (results, learner_state_counts (as_actions st) rows)))"

text \<open>The admin's detail view looks among all assignments, whatever their configuration.\<close>

definition retrieve_assignment ::
    "view_context \<Rightarrow> assignment_store \<Rightarrow> string \<Rightarrow> uuid \<Rightarrow> learner_content_assignment answer" where
  "retrieve_assignment vc st text u =
     vbind (requested_configuration vc CONTENT_ASSIGNMENT_ADMIN_READ_PERMISSION st text) (\<lambda>_.
       case find (\<lambda>a. lca_uuid a = u) (as_assignments st) of None \<Rightarrow> Inl Not_Found | Some a \<Rightarrow> Inr a)"

text \<open>\<open>get_error_reason\<close> of the admin's serializer, over the actions in the order of their creation.\<close>

definition get_error_reason ::
    "actions \<Rightarrow> learner_content_assignment \<Rightarrow> (assignment_action_type \<times> assignment_action_error) option" where
  "get_error_reason actions a =
     (if lca_state a \<notin> {ERRORED, ALLOCATED} then None
      else case rev (filter (\<lambda>x. aa_assignment x = lca_uuid a \<and> aa_error_reason x \<noteq> None) actions) of
             [] \<Rightarrow> None
           | x # _ \<Rightarrow> Some (aa_action_type x, the (aa_error_reason x)))"

definition learner_assignments :: "assignment_store \<Rightarrow> uuid \<Rightarrow> string \<Rightarrow> assignments" where
  "learner_assignments st config email =
     filter (\<lambda>a. lca_learner_email a = email) (assignments_of st config)"

definition learner_list ::
    "view_context \<Rightarrow> assignment_store \<Rightarrow> string \<Rightarrow> string \<Rightarrow> nat \<Rightarrow> nat \<Rightarrow> assignments answer" where
  "learner_list vc st text email per page =
     vbind (requested_configuration vc CONTENT_ASSIGNMENT_LEARNER_READ_PERMISSION st text) (\<lambda>config.
       paginate per page (learner_assignments st config email))"

definition learner_retrieve ::
    "view_context \<Rightarrow> assignment_store \<Rightarrow> string \<Rightarrow> string \<Rightarrow> uuid \<Rightarrow> learner_content_assignment answer" where
  "learner_retrieve vc st text email u =
     vbind (requested_configuration vc CONTENT_ASSIGNMENT_LEARNER_READ_PERMISSION st text) (\<lambda>config.
       case find (\<lambda>a. lca_uuid a = u) (learner_assignments st config email) of
         None \<Rightarrow> Inl Not_Found | Some a \<Rightarrow> Inr a)"

section \<open>Cancelling and reminding\<close>

text \<open>\<open>ListField(child=UUIDField())\<close>: a missing list or one malformed entry refuses the request.\<close>

definition valid_uuids :: "uuid option list option \<Rightarrow> uuid list option" where
  "valid_uuids us =
     (case us of None \<Rightarrow> None | Some us \<Rightarrow> if None \<in> set us then None else Some (map the us))"

definition asked_assignments :: "assignment_store \<Rightarrow> uuid \<Rightarrow> uuid list \<Rightarrow> assignments" where
  "asked_assignments st config us = filter (\<lambda>a. lca_uuid a \<in> set us) (assignments_of st config)"

text \<open>The dictionaries that the two operations of \<open>content_assignments/api.py\<close> return.\<close>

definition cancel_response :: "cancel_result \<Rightarrow> (string \<times> assignments) list" where
  "cancel_response r = [(''cancelled'', cn_cancelled r), (''non_cancelable'', cn_non_cancelable r)]"

definition remind_response :: "remind_result \<Rightarrow> (string \<times> assignments) list" where
  "remind_response r = [(''reminded'', rm_reminded r), (''non_remindable'', rm_non_remindable r)]"

definition response_get :: "(string \<times> assignments) list \<Rightarrow> string \<Rightarrow> assignments" where
  "response_get d k = (case map_of d k of None \<Rightarrow> [] | Some v \<Rightarrow> v)"

definition store_cancelled :: "assignment_store \<Rightarrow> cancel_result \<Rightarrow> assignment_store" where
  "store_cancelled st r = st\<lparr>as_assignments := cn_table r, as_tasks := as_tasks st @ cn_tasks r\<rparr>"

definition store_reminded :: "assignment_store \<Rightarrow> remind_result \<Rightarrow> assignment_store" where
  "store_reminded st r = st\<lparr>as_assignments := rm_table r, as_tasks := as_tasks st @ rm_tasks r\<rparr>"

text \<open>
  The number of rows is compared with the list of the raw request, in which an entry may be repeated.
\<close>

definition cancel_assignments_view ::
    "view_context \<Rightarrow> datetime \<Rightarrow> assignment_store \<Rightarrow> string \<Rightarrow> uuid option list option \<Rightarrow> assignment_store \<times> int" where
  "cancel_assignments_view vc now st text uuids =
     (case requested_configuration vc CONTENT_ASSIGNMENT_ADMIN_WRITE_PERMISSION st text of
        Inl r \<Rightarrow> (st, status_code r)
      | Inr config \<Rightarrow>
          (case valid_uuids uuids of
             None \<Rightarrow> (st, 400)
           | Some us \<Rightarrow>
               let as = asked_assignments st config us
               in (case cancel_assignments now (as_assignments st) as True of
                     Inl _ \<Rightarrow> (st, 422)
                   | Inr r \<Rightarrow>
                       (store_cancelled st r,
                        if response_get (cancel_response r) ''non_cancelable'' \<noteq> [] \<or> length as < length us
                        then 422 else 200))))"

definition cancel_all_assignments_view ::
    "view_context \<Rightarrow> datetime \<Rightarrow> assignment_store \<Rightarrow> string \<Rightarrow> admin_filter \<Rightarrow> assignment_store \<times> int" where
  "cancel_all_assignments_view vc now st text f =
     (case requested_configuration vc CONTENT_ASSIGNMENT_ADMIN_WRITE_PERMISSION st text of
        Inl r \<Rightarrow> (st, status_code r)
      | Inr config \<Rightarrow>
          let as = filter_queryset f (as_actions st)
                     (filter (\<lambda>a. lca_state a \<in> set cancelable_states) (assignments_of st config))
          in if as = [] then (st, 404)
             else (case cancel_assignments now (as_assignments st) as True of
                     Inl _ \<Rightarrow> (st, 422)
                   | Inr r \<Rightarrow>
                       (store_cancelled st r,
                        if response_get (cancel_response r) ''non_cancelable'' \<noteq> [] then 422 else 202)))"

definition remind_assignments_view ::
    "view_context \<Rightarrow> datetime \<Rightarrow> assignment_store \<Rightarrow> string \<Rightarrow> uuid option list option \<Rightarrow> assignment_store \<times> int" where
  "remind_assignments_view vc now st text uuids =
     (case requested_configuration vc CONTENT_ASSIGNMENT_ADMIN_WRITE_PERMISSION st text of
        Inl r \<Rightarrow> (st, status_code r)
      | Inr config \<Rightarrow>
          (case valid_uuids uuids of
             None \<Rightarrow> (st, 400)
           | Some us \<Rightarrow>
               let as = asked_assignments st config us
               in (case remind_assignments now (as_assignments st) as of
                     Inl _ \<Rightarrow> (st, 422)
                   | Inr r \<Rightarrow>
                       (store_reminded st r,
                        if response_get (remind_response r) ''non_remindable_assignments'' \<noteq> [] \<or>
                           length as < length us
                        then 422 else 200))))"

definition remind_all_assignments_view ::
    "view_context \<Rightarrow> datetime \<Rightarrow> assignment_store \<Rightarrow> string \<Rightarrow> admin_filter \<Rightarrow> assignment_store \<times> int" where
  "remind_all_assignments_view vc now st text f =
     (case requested_configuration vc CONTENT_ASSIGNMENT_ADMIN_WRITE_PERMISSION st text of
        Inl r \<Rightarrow> (st, status_code r)
      | Inr config \<Rightarrow>
          let as = filter_queryset f (as_actions st)
                     (filter (\<lambda>a. lca_state a \<in> set remindable_states) (assignments_of st config))
          in if as = [] then (st, 404)
             else (case remind_assignments now (as_assignments st) as of
                     Inl _ \<Rightarrow> (st, 422)
                   | Inr r \<Rightarrow>
                       (store_reminded st r,
                        if response_get (remind_response r) ''non_remindable_assignments'' \<noteq> []
                        then 422 else 202)))"

section \<open>Nudging\<close>

definition policy_of_configuration :: "view_context \<Rightarrow> uuid \<Rightarrow> policy option" where
  "policy_of_configuration vc config =
     find (\<lambda>p. map_option ac_uuid (sap_assignment_configuration p) = Some config) (vc_policies vc)"

datatype nudge_answer =
    Nudged "uuid list" "uuid list"
  | Not_In_Configuration
  | Could_Not_Process

text \<open>
  \<open>fetch\<close> answers for a catalog and course keys. The response serializer refuses an empty list of
  nudged assignments.
\<close>

definition nudge_view ::
    "view_context \<Rightarrow> datetime \<Rightarrow> (uuid \<Rightarrow> string list \<Rightarrow> course_metadata list) \<Rightarrow> assignment_store \<Rightarrow> string
       \<Rightarrow> uuid option list option \<Rightarrow> int option \<Rightarrow> assignment_store \<times> nudge_answer answer" where
  "nudge_view vc now fetch st text uuids days_before =
     (case requested_configuration vc CONTENT_ASSIGNMENT_ADMIN_WRITE_PERMISSION st text of
        Inl r \<Rightarrow> (st, Inl r)
      | Inr config \<Rightarrow>
          (case (valid_uuids uuids, days_before) of
             (Some us, Some n) \<Rightarrow>
               if us = [] \<or> n < 1 then (st, Inl Bad_Request)
               else
                 let as = asked_assignments st config us
                 in if as = [] then (st, Inr Not_In_Configuration)
                    else (case policy_of_configuration vc config of
                            None \<Rightarrow> (st, Inr Could_Not_Process)
                          | Some p \<Rightarrow>
                              (case nudge_assignments now (fetch (sap_catalog_uuid p)) as n of
                                 (ts, Inl _) \<Rightarrow> (st\<lparr>as_tasks := as_tasks st @ ts\<rparr>, Inr Could_Not_Process)
                               | (ts, Inr (nudged, unnudged)) \<Rightarrow>
                                   (st\<lparr>as_tasks := as_tasks st @ ts\<rparr>,
                                    Inr (if nudged = [] then Could_Not_Process else Nudged nudged unnudged))))
           | _ \<Rightarrow> (st, Inl Bad_Request)))"

section \<open>Configurations\<close>

text \<open>What the response says of a configuration: its policy is the one that names it, if any.\<close>

record configuration_data =
  cfg_uuid :: uuid
  cfg_subsidy_access_policy :: "uuid option"
  cfg_enterprise_customer_uuid :: uuid
  cfg_active :: bool

definition configuration_response :: "view_context \<Rightarrow> assignment_configuration \<Rightarrow> configuration_data" where
  "configuration_response vc c =
     \<lparr>cfg_uuid = ac_uuid c, cfg_subsidy_access_policy = map_option sap_uuid (policy_of_configuration vc (ac_uuid c)),
      cfg_enterprise_customer_uuid = ac_enterprise_customer_uuid c, cfg_active = ac_active c\<rparr>"

definition list_configurations ::
    "view_context \<Rightarrow> assignment_store \<Rightarrow> string option \<Rightarrow> nat \<Rightarrow> nat \<Rightarrow> configuration_data list answer" where
  "list_configurations vc st customer per page =
     (if \<not> permitted vc CONTENT_ASSIGNMENT_CONFIGURATION_READ_PERMISSION customer then Inl Forbidden
      else case customer of
             None \<Rightarrow> paginate per page []
           | Some text \<Rightarrow>
               if text = '''' then paginate per page []
               else (case vc_uuid vc text of
                       None \<Rightarrow> Inl Bad_Request
                     | Some u \<Rightarrow>
                         vbind (paginate per page
                                 (filter (\<lambda>c. ac_enterprise_customer_uuid c = u) (as_configurations st))) (\<lambda>cs.
                           Inr (map (configuration_response vc) cs))))"

definition retrieve_configuration ::
    "view_context \<Rightarrow> assignment_store \<Rightarrow> string \<Rightarrow> configuration_data answer" where
  "retrieve_configuration vc st text =
     vbind (requested_configuration vc CONTENT_ASSIGNMENT_CONFIGURATION_READ_PERMISSION st text) (\<lambda>u.
       case get_assignment_configuration st u of
         None \<Rightarrow> Inl Not_Found | Some c \<Rightarrow> Inr (configuration_response vc c))"

text \<open>
  The customer of the body is what the permission is asked for; every request makes a new
  configuration, bound to no policy.
\<close>

definition create_configuration ::
    "view_context \<Rightarrow> uuid \<Rightarrow> assignment_store \<Rightarrow> string option \<Rightarrow> assignment_store \<times> configuration_data answer" where
  "create_configuration vc fresh st customer =
     (if \<not> permitted vc CONTENT_ASSIGNMENT_CONFIGURATION_WRITE_PERMISSION customer then (st, Inl Forbidden)
      else case Option.bind customer (vc_uuid vc) of
             None \<Rightarrow> (st, Inl Bad_Request)
           | Some u \<Rightarrow>
               let c = \<lparr>ac_uuid = fresh, ac_enterprise_customer_uuid = u, ac_active = True\<rparr>
               in (st\<lparr>as_configurations := as_configurations st @ [c]\<rparr>, Inr (configuration_response vc c)))"

definition put_configuration :: "assignment_store \<Rightarrow> assignment_configuration \<Rightarrow> assignment_store" where
  "put_configuration st c = st\<lparr>as_configurations := put_row ac_uuid c (as_configurations st)\<rparr>"

text \<open>Only \<open>active\<close> may be in the body; \<open>parse_bool\<close> is what \<open>BooleanField\<close> makes of a value.\<close>

definition update_configuration ::
    "view_context \<Rightarrow> (json \<Rightarrow> bool option) \<Rightarrow> assignment_store \<Rightarrow> string \<Rightarrow> (string \<times> json) list
       \<Rightarrow> assignment_store \<times> configuration_data answer" where
  "update_configuration vc parse_bool st text body =
     (case requested_configuration vc CONTENT_ASSIGNMENT_CONFIGURATION_WRITE_PERMISSION st text of
        Inl r \<Rightarrow> (st, Inl r)
      | Inr u \<Rightarrow>
          (case get_assignment_configuration st u of
             None \<Rightarrow> (st, Inl Not_Found)
           | Some c \<Rightarrow>
               if list_ex (\<lambda>p. fst p \<noteq> ''active'') body then (st, Inl Bad_Request)
               else (case map_option parse_bool (map_of body ''active'') of
                       Some None \<Rightarrow> (st, Inl Bad_Request)
                     | Some (Some b) \<Rightarrow>
                         (put_configuration st (c\<lparr>ac_active := b\<rparr>), Inr (configuration_response vc (c\<lparr>ac_active := b\<rparr>)))
                     | None \<Rightarrow> (put_configuration st c, Inr (configuration_response vc c)))))"

text \<open>
  \<open>reason\<close> is the text of the body, if any, or the outer \<open>None\<close> where its field refuses it; only the
  history of the row keeps it.
\<close>

definition destroy_configuration ::
    "view_context \<Rightarrow> assignment_store \<Rightarrow> string \<Rightarrow> string option option
       \<Rightarrow> assignment_store \<times> configuration_data answer" where
  "destroy_configuration vc st text reason =
     (case requested_configuration vc CONTENT_ASSIGNMENT_CONFIGURATION_WRITE_PERMISSION st text of
        Inl r \<Rightarrow> (st, Inl r)
      | Inr u \<Rightarrow>
          (case (reason, get_assignment_configuration st u) of
             (None, _) \<Rightarrow> (st, Inl Bad_Request)
           | (_, None) \<Rightarrow> (st, Inl Not_Found)
           | (_, Some c) \<Rightarrow>
               (put_configuration st (delete_configuration c), Inr (configuration_response vc (delete_configuration c)))))"

text \<open>The user of the request need not have an LMS id; then the rows without one are looked up.\<close>

record acknowledged_data =
  ad_acknowledged :: "uuid list"
  ad_already_acknowledged :: "uuid list"
  ad_unacknowledged :: "uuid list"

definition acknowledge_view ::
    "view_context \<Rightarrow> (uuid \<Rightarrow> datetime) \<Rightarrow> assignment_store \<Rightarrow> string \<Rightarrow> uuid option list option
       \<Rightarrow> assignment_store \<times> (int \<times> acknowledged_data) answer" where
  "acknowledge_view vc clock st text uuids =
     (case requested_configuration vc CONTENT_ASSIGNMENT_CONFIGURATION_ACKNOWLEDGE_PERMISSION st text of
        Inl r \<Rightarrow> (st, Inl r)
      | Inr u \<Rightarrow>
          (case valid_uuids uuids of
             None \<Rightarrow> (st, Inl Bad_Request)
           | Some us \<Rightarrow>
               (case get_assignment_configuration st u of
                  None \<Rightarrow> (st, Inl Not_Found)
                | Some c \<Rightarrow>
                    (case acknowledge_assignments clock (as_assignments st) (as_actions st) (ac_uuid c) us
                            (vc_user_lms_user_id vc) of
                       Inl ValidationError \<Rightarrow> (st, Inl Bad_Request)
                     | Inl e \<Rightarrow> (st, Inl (Server_Error e))
                     | Inr (actions', acked, already, unacked) \<Rightarrow>
                         (st\<lparr>as_actions := actions'\<rparr>,
                          Inr (if acked \<noteq> [] then 201 else 200,
                            \<lparr>ad_acknowledged = map lca_uuid acked, ad_already_acknowledged = map lca_uuid already,
                             ad_unacknowledged = map lca_uuid unacked\<rparr>))))))"

section \<open>The daily expiration\<close>

text \<open>
  Page \<open>p\<close>, counted from 0, of a query: the count was taken before the first page, the rows are
  read when the page is reached.
\<close>

definition page_slice :: "nat \<Rightarrow> nat \<Rightarrow> nat \<Rightarrow> 'a list \<Rightarrow> 'a list" where
  "page_slice per count p rows = take (min per (count - p * per)) (drop (p * per) rows)"

definition page_metadata ::
    "(string list \<Rightarrow> course_metadata list) \<Rightarrow> assignments \<Rightarrow> learner_content_assignment \<Rightarrow> course_metadata option" where
  "page_metadata fetch page a =
     (case map_of (get_content_metadata_for_assignments fetch page) (lca_content_key a) of
        Some m \<Rightarrow> m | None \<Rightarrow> None)"

definition store_expired :: "assignment_store \<Rightarrow> expire_result \<Rightarrow> assignment_store" where
  "store_expired st e =
     st\<lparr>as_assignments := ex_table e, as_requests := ex_requests e, as_tasks := as_tasks st @ ex_tasks e\<rparr>"

text \<open>\<open>subsidy_expiration\<close> asks the subsidy service for the policy of the configuration.\<close>

fun expire_rows ::
    "datetime \<Rightarrow> date_string option result \<Rightarrow> (string list \<Rightarrow> course_metadata list) \<Rightarrow> bool
       \<Rightarrow> (learner_content_assignment \<Rightarrow> course_metadata option) \<Rightarrow> assignments \<Rightarrow> assignment_store
       \<Rightarrow> assignment_store \<times> unit result" where
  "expire_rows now subsidy_expiration fetch dry_run metadata [] st = (st, Inr ())"
| "expire_rows now subsidy_expiration fetch dry_run metadata (a # as) st =
     (case rbind subsidy_expiration (\<lambda>se.
             expire_assignment now se fetch (as_assignments st) (as_requests st) a (metadata a) (\<not> dry_run)) of
        Inl e \<Rightarrow> (st, Inl e)
      | Inr e \<Rightarrow> expire_rows now subsidy_expiration fetch dry_run metadata as (store_expired st e))"

definition possibly_expired :: "uuid \<Rightarrow> assignment_store \<Rightarrow> assignments" where
  "possibly_expired config st = filter (\<lambda>a. lca_state a \<in> set expirable_states) (assignments_of st config)"

fun expire_pages ::
    "datetime \<Rightarrow> date_string option result \<Rightarrow> (string list \<Rightarrow> course_metadata list) \<Rightarrow> bool \<Rightarrow> nat \<Rightarrow> uuid
       \<Rightarrow> nat \<Rightarrow> nat list \<Rightarrow> assignment_store \<Rightarrow> assignment_store \<times> unit result" where
  "expire_pages now subsidy_expiration fetch dry_run per config count [] st = (st, Inr ())"
| "expire_pages now subsidy_expiration fetch dry_run per config count (p # ps) st =
     (let page = page_slice per count p (possibly_expired config st)
      in case expire_rows now subsidy_expiration fetch dry_run (page_metadata fetch page) page st of
           (st', Inl e) \<Rightarrow> (st', Inl e)
         | (st', Inr _) \<Rightarrow> expire_pages now subsidy_expiration fetch dry_run per config count ps st')"

text \<open>
  The configurations are read at the start. One without a policy raises, which ends the command.
\<close>

fun expire_configurations ::
    "view_context \<Rightarrow> datetime \<Rightarrow> (policy \<Rightarrow> date_string option result) \<Rightarrow> (uuid \<Rightarrow> string list \<Rightarrow> course_metadata list)
       \<Rightarrow> bool \<Rightarrow> nat \<Rightarrow> assignment_configuration list \<Rightarrow> assignment_store \<Rightarrow> assignment_store \<times> unit result" where
  "expire_configurations vc now subsidy_expiration fetch dry_run per [] st = (st, Inr ())"
| "expire_configurations vc now subsidy_expiration fetch dry_run per (c # cs) st =
     (case policy_of_configuration vc (ac_uuid c) of
        None \<Rightarrow> (st, Inl DoesNotExist)
      | Some p \<Rightarrow>
          let count = length (possibly_expired (ac_uuid c) st)
          in (case expire_pages now (subsidy_expiration p) (fetch (sap_catalog_uuid p)) dry_run per (ac_uuid c) count
                     [0..<page_count per count] st of
                (st', Inl e) \<Rightarrow> (st', Inl e)
              | (st', Inr _) \<Rightarrow> expire_configurations vc now subsidy_expiration fetch dry_run per cs st'))"

definition expire_page_size :: nat where
  "expire_page_size = 100"

definition automatically_expire_assignments ::
    "view_context \<Rightarrow> datetime \<Rightarrow> (policy \<Rightarrow> date_string option result) \<Rightarrow> (uuid \<Rightarrow> string list \<Rightarrow> course_metadata list)
       \<Rightarrow> bool \<Rightarrow> assignment_store \<Rightarrow> assignment_store \<times> unit result" where
  "automatically_expire_assignments vc now subsidy_expiration fetch dry_run st =
     expire_configurations vc now subsidy_expiration fetch dry_run expire_page_size
       (filter ac_active (as_configurations st)) st"

section \<open>The daily nudge\<close>

text \<open>Whether the command nudges an accepted row; unlike the API it asks for a preferred run.\<close>

definition command_nudges ::
    "datetime \<Rightarrow> int \<Rightarrow> (learner_content_assignment \<Rightarrow> course_metadata option) \<Rightarrow> learner_content_assignment
       \<Rightarrow> bool result" where
  "command_nudges now days_before metadata a =
     (if \<not> truthy (lca_preferred_course_run_key a) then Inr False
      else case metadata a of
             None \<Rightarrow> Inr False
           | Some m \<Rightarrow>
               if cm_course_type m \<noteq> Some ''executive-education-2u'' then Inr False
               else rbind (parse_datetime_string (rmd_start_date (get_normalized_metadata_for_assignment a m))) (\<lambda>start.
                      case start of
                        None \<Rightarrow> Inr False
                      | Some _ \<Rightarrow> is_date_n_days_from_now now start days_before))"

fun nudge_rows ::
    "datetime \<Rightarrow> int \<Rightarrow> bool \<Rightarrow> (learner_content_assignment \<Rightarrow> course_metadata option) \<Rightarrow> assignments \<Rightarrow> task list
       \<Rightarrow> task list \<times> unit result" where
  "nudge_rows now days_before dry_run metadata [] ts = (ts, Inr ())"
| "nudge_rows now days_before dry_run metadata (a # as) ts =
     (case command_nudges now days_before metadata a of
        Inl e \<Rightarrow> (ts, Inl e)
      | Inr b \<Rightarrow> nudge_rows now days_before dry_run metadata as
                  (ts @ (if b \<and> \<not> dry_run then [Send_Exec_Ed_Enrollment_Warmer (lca_uuid a) days_before] else [])))"

fun nudge_pages ::
    "datetime \<Rightarrow> (string list \<Rightarrow> course_metadata list) \<Rightarrow> int \<Rightarrow> bool \<Rightarrow> nat \<Rightarrow> assignments \<Rightarrow> nat list \<Rightarrow> task list
       \<Rightarrow> task list \<times> unit result" where
  "nudge_pages now fetch days_before dry_run batch_size accepted [] ts = (ts, Inr ())"
| "nudge_pages now fetch days_before dry_run batch_size accepted (p # ps) ts =
     (let page = page_slice batch_size (length accepted) p accepted
      in case nudge_rows now days_before dry_run (page_metadata fetch page) page ts of
           (ts', Inl e) \<Rightarrow> (ts', Inl e)
         | (ts', Inr _) \<Rightarrow> nudge_pages now fetch days_before dry_run batch_size accepted ps ts')"

fun nudge_configurations ::
    "view_context \<Rightarrow> datetime \<Rightarrow> (uuid \<Rightarrow> string list \<Rightarrow> course_metadata list) \<Rightarrow> int \<Rightarrow> bool \<Rightarrow> nat
       \<Rightarrow> assignment_store \<Rightarrow> assignment_configuration list \<Rightarrow> task list \<Rightarrow> task list \<times> unit result" where
  "nudge_configurations vc now fetch days_before dry_run batch_size st [] ts = (ts, Inr ())"
| "nudge_configurations vc now fetch days_before dry_run batch_size st (c # cs) ts =
     (let accepted = filter (\<lambda>a. lca_state a = ACCEPTED) (assignments_of st (ac_uuid c))
      in case policy_of_configuration vc (ac_uuid c) of
           None \<Rightarrow> nudge_configurations vc now fetch days_before dry_run batch_size st cs ts
         | Some p \<Rightarrow>
             if accepted = [] then nudge_configurations vc now fetch days_before dry_run batch_size st cs ts
             else (case nudge_pages now (fetch (sap_catalog_uuid p)) days_before dry_run batch_size accepted
                          [0..<page_count batch_size (length accepted)] ts of
                     (ts', Inl e) \<Rightarrow> (ts', Inl e)
                   | (ts', Inr _) \<Rightarrow> nudge_configurations vc now fetch days_before dry_run batch_size st cs ts'))"

definition automatically_nudge_assignments ::
    "view_context \<Rightarrow> datetime \<Rightarrow> (uuid \<Rightarrow> string list \<Rightarrow> course_metadata list) \<Rightarrow> int \<Rightarrow> bool \<Rightarrow> nat
       \<Rightarrow> assignment_store \<Rightarrow> assignment_store \<times> unit result" where
  "automatically_nudge_assignments vc now fetch days_before dry_run batch_size st =
     (case nudge_configurations vc now fetch days_before dry_run batch_size st
             (filter ac_active (as_configurations st)) [] of
        (ts, r) \<Rightarrow> (st\<lparr>as_tasks := as_tasks st @ ts\<rparr>, r))"

end
