(* ===== verification/License_Requests.thy ===== *)
theory License_Requests
  imports Subsidy_Request Api_Client
begin

text \<open>
  License and coupon code requests from the admin's click to the stored outcome: the view sets of
  \<open>api/v1/views/browse_and_request.py\<close> and the Celery tasks of \<open>api/tasks.py\<close>.

  A view returns the status of its response with the keys of the requests in it, or raises; tasks are
  put into an outbox, the chain of an approval as one entry. The state of the license manager and
  of the e-commerce service is \<open>'x\<close>, reached through the clients of \<open>Api_Client\<close>.
\<close>

section \<open>Requests\<close>

text \<open>
  Whom a view serves: the user, the permission check of \<open>edx_rbac\<close> (a permission and the customer it
  is asked for), the clock, and the parser of UUIDs.
\<close>

record view_env =
  ve_user :: nat
  ve_lms_user_id :: int
  ve_now :: datetime
  ve_permitted :: "string \<Rightarrow> uuid option \<Rightarrow> bool"
  ve_uuid :: "string \<Rightarrow> uuid option"
  ve_uuid_text :: "uuid \<Rightarrow> string"
  ve_fresh :: uuid

record review_data =
  rd_enterprise_customer_uuid :: "string option"
  rd_subsidy_request_uuids :: "string list option"
  rd_subscription_plan_uuid :: "string option"
  rd_coupon_id :: int
  rd_send_notification :: bool
  rd_unlink_users_from_enterprise :: bool

record reply =
  rp_status :: int
  rp_uuids :: "uuid list"

definition admin_access :: string where "admin_access = ''requests.has_admin_access''"
definition admin_learner_access :: string where "admin_learner_access = ''requests.has_learner_or_admin_access''"

text \<open>An identifier that is no UUID is a parse error, an absent one is \<open>None\<close>.\<close>

definition get_enterprise_uuid_from_request_data :: "view_env \<Rightarrow> string option \<Rightarrow> uuid option result" where
  "get_enterprise_uuid_from_request_data env v =
     (if \<not> truthy v then Inr None
      else case ve_uuid env (the v) of None \<Rightarrow> Inl ParseError | Some u \<Rightarrow> Inr (Some u))"

definition validate_uuid :: "view_env \<Rightarrow> string \<Rightarrow> uuid result" where
  "validate_uuid env v = (case ve_uuid env v of None \<Rightarrow> Inl ParseError | Some u \<Rightarrow> Inr u)"

text \<open>\<open>permission_required(permission, fn=get_enterprise_uuid_from_request_data)\<close>.\<close>

definition permission_required :: "view_env \<Rightarrow> string \<Rightarrow> string option \<Rightarrow> uuid option result" where
  "permission_required env permission v =
     rbind (get_enterprise_uuid_from_request_data env v) (\<lambda>customer.
       if ve_permitted env permission customer then Inr customer else Inl PermissionDenied)"

text \<open>\<open>SubsidyRequestError\<close> carries the status of the response: \<open>Some\<close> here; \<open>None\<close> when all is well.\<close>

definition validate_subsidy_request_uuids :: "view_env \<Rightarrow> string list option \<Rightarrow> int + uuid list" where
  "validate_subsidy_request_uuids env uuids =
     (case uuids of
        None \<Rightarrow> Inl 400
      | Some us \<Rightarrow>
          if us = [] then Inl 400
          else case those (map (ve_uuid env) us) of None \<Rightarrow> Inl 400 | Some ks \<Rightarrow> Inr ks)"

definition validate_subscription_plan_uuid :: "view_env \<Rightarrow> string option \<Rightarrow> int + uuid" where
  "validate_subscription_plan_uuid env plan =
     (if \<not> truthy plan then Inl 400
      else case ve_uuid env (the plan) of None \<Rightarrow> Inl 400 | Some u \<Rightarrow> Inr u)"

definition any_in_states :: "subsidy_request_state list \<Rightarrow> 'a subsidy_request_scheme list \<Rightarrow> bool" where
  "any_in_states incorrect_states rs \<longleftrightarrow> (\<exists>r \<in> set rs. sr_state r \<in> set incorrect_states)"

definition requests_of :: "uuid list \<Rightarrow> uuid option \<Rightarrow> 'a subsidy_request_scheme list \<Rightarrow> 'a subsidy_request_scheme list" where
  "requests_of uuids customer rows =
     filter (\<lambda>r. sr_uuid r \<in> set uuids \<and> Some (sr_enterprise_customer_uuid r) = customer) rows"

definition open_requests :: "'a subsidy_request_scheme list \<Rightarrow> 'a subsidy_request_scheme list" where
  "open_requests rs = filter (\<lambda>r. sr_state r \<in> {SR_REQUESTED, SR_ERROR}) rs"

text \<open>
  A loop that reviews and saves one row after the other: the reviewed rows with the tasks of their
  receivers up to the first exception.
\<close>

fun review_all :: "('r \<Rightarrow> ('r \<times> task list) result) \<Rightarrow> 'r list \<Rightarrow> 'r list \<times> task list \<times> unit result" where
  "review_all f [] = ([], [], Inr ())"
| "review_all f (r # rs) =
     (case f r of
        Inl e \<Rightarrow> ([], [], Inl e)
      | Inr (r', ts) \<Rightarrow> (case review_all f rs of (rs', ts', res) \<Rightarrow> (r' # rs', ts @ ts', res)))"

section \<open>Creating a request\<close>

text \<open>What is wrong with the configuration of the customer, as the status of the response.\<close>

definition validate_subsidy_request ::
    "view_env \<Rightarrow> subsidy_type \<Rightarrow> customer_configuration list \<Rightarrow> uuid option \<Rightarrow> int option" where
  "validate_subsidy_request env subsidy_type configs customer =
     (case find (\<lambda>c. Some (cc_enterprise_customer_uuid c) = customer) configs of
        None \<Rightarrow> Some 422
      | Some c \<Rightarrow>
          if \<not> cc_subsidy_requests_enabled c then Some 422
          else if cc_subsidy_type c = None then Some 422
          else if cc_subsidy_type c \<noteq> Some subsidy_type then Some 422 else None)"

definition has_pending_license_request :: "view_env \<Rightarrow> license_request list \<Rightarrow> uuid option \<Rightarrow> bool" where
  "has_pending_license_request env rows customer \<longleftrightarrow>
     (\<exists>r \<in> set rows. user_lms_user_id (sr_user r) = Some (ve_lms_user_id env) \<and>
        Some (sr_enterprise_customer_uuid r) = customer \<and> sr_state r \<in> {SR_REQUESTED, SR_PENDING})"

definition has_pending_coupon_request ::
    "view_env \<Rightarrow> coupon_code_request list \<Rightarrow> uuid option \<Rightarrow> string option \<Rightarrow> bool" where
  "has_pending_coupon_request env rows customer course_id \<longleftrightarrow>
     (\<exists>r \<in> set rows. user_lms_user_id (sr_user r) = Some (ve_lms_user_id env) \<and>
        Some (sr_enterprise_customer_uuid r) = customer \<and> sr_state r \<in> {SR_REQUESTED, SR_PENDING} \<and>
        sr_course_id r = course_id)"

definition new_request :: "view_env \<Rightarrow> core_user \<Rightarrow> uuid \<Rightarrow> string option \<Rightarrow> subsidy_request" where
  "new_request env user customer course_id =
     \<lparr>sr_uuid = ve_fresh env, sr_user = user, sr_course_id = course_id, sr_course_title = None,
      sr_course_partners = None, sr_enterprise_customer_uuid = customer, sr_state = SR_REQUESTED,
      sr_reviewed_at = None, sr_reviewer = None, sr_decline_reason = None\<rparr>"

definition create_license_request ::
    "view_env \<Rightarrow> core_user \<Rightarrow> customer_configuration list \<Rightarrow> string option \<Rightarrow> string option \<Rightarrow> license_request list \<Rightarrow>
      license_request list \<times> task list \<times> reply result" where
  "create_license_request env user configs enterprise course_id rows =
     (case permission_required env admin_learner_access enterprise of
        Inl e \<Rightarrow> (rows, [], Inl e)
      | Inr customer \<Rightarrow>
          (case validate_subsidy_request env License_Subsidy configs customer of
             Some status \<Rightarrow> (rows, [], Inr \<lparr>rp_status = status, rp_uuids = []\<rparr>)
           | None \<Rightarrow>
               if has_pending_license_request env rows customer then (rows, [], Inr \<lparr>rp_status = 422, rp_uuids = []\<rparr>)
               else (case save_license (subsidy_request.extend (new_request env user (the customer) course_id)
                             \<lparr>lr_subscription_plan_uuid = None, lr_license_uuid = None\<rparr>) of
                       Inl e \<Rightarrow> (rows, [], Inl e)
                     | Inr (r, ts) \<Rightarrow> (rows @ [r], ts, Inr \<lparr>rp_status = 201, rp_uuids = [sr_uuid r]\<rparr>))))"

definition create_coupon_request ::
    "view_env \<Rightarrow> core_user \<Rightarrow> customer_configuration list \<Rightarrow> string option \<Rightarrow> string option \<Rightarrow> coupon_code_request list \<Rightarrow>
      coupon_code_request list \<times> task list \<times> reply result" where
  "create_coupon_request env user configs enterprise course_id rows =
     (case permission_required env admin_learner_access enterprise of
        Inl e \<Rightarrow> (rows, [], Inl e)
      | Inr customer \<Rightarrow>
          (case validate_subsidy_request env Coupon_Subsidy configs customer of
             Some status \<Rightarrow> (rows, [], Inr \<lparr>rp_status = status, rp_uuids = []\<rparr>)
           | None \<Rightarrow>
               if has_pending_coupon_request env rows customer course_id
               then (rows, [], Inr \<lparr>rp_status = 422, rp_uuids = []\<rparr>)
               else if \<not> truthy course_id then (rows, [], Inr \<lparr>rp_status = 400, rp_uuids = []\<rparr>)
               else (case save_coupon (subsidy_request.extend (new_request env user (the customer) course_id)
                             \<lparr>cr_coupon_id = None, cr_coupon_code = None\<rparr>) of
                       Inl e \<Rightarrow> (rows, [], Inl e)
                     | Inr (r, ts) \<Rightarrow> (rows @ [r], ts, Inr \<lparr>rp_status = 201, rp_uuids = [sr_uuid r]\<rparr>))))"

text \<open>The number of requests by state, the most frequent state first.\<close>

definition overview :: "'a subsidy_request_scheme list \<Rightarrow> uuid \<Rightarrow> (subsidy_request_state \<times> nat) list" where
  "overview rows customer =
     (let states = map sr_state (filter (\<lambda>r. sr_enterprise_customer_uuid r = customer) rows)
      in sort_key (\<lambda>(_, n). - int n) (map (\<lambda>s. (s, count_list states s)) (remdups states)))"

section \<open>Licenses\<close>

text \<open>
  \<open>_verify_subsidies_remaining\<close>: the count of the first entry of the overview whose status is
  \<open>unassigned\<close>. An answer that is no list of such entries raises.
\<close>

fun unassigned_count :: "json list \<Rightarrow> json result" where
  "unassigned_count [] = Inr (JNum 0)"
| "unassigned_count (c # cs) =
     rbind (item c ''status'') (\<lambda>s. if s = JStr ''unassigned'' then item c ''count'' else unassigned_count cs)"

definition fewer_than :: "json \<Rightarrow> nat \<Rightarrow> bool result" where
  "fewer_than v n = (case v of JNum i \<Rightarrow> Inr (i < int n) | _ \<Rightarrow> Inl TypeError)"

definition connection_errors :: "py_error list" where
  "connection_errors = [ConnectionError, HTTPError, Timeout]"

text \<open>\<open>Inr None\<close>: enough licenses; \<open>Inr (Some status)\<close>: the error of the response.\<close>

definition verify_subsidies_remaining ::
    "view_env \<Rightarrow> 'x api \<Rightarrow> uuid \<Rightarrow> uuid list \<Rightarrow> 'x \<Rightarrow> 'x \<times> int option result" where
  "verify_subsidies_remaining env api plan uuids x =
     (case get_subscription_overview api (ve_uuid_text env plan) x of
        (x1, Inl e) \<Rightarrow> (x1, if e \<in> set connection_errors then Inr (Some 500) else Inl e)
      | (x1, Inr status_counts) \<Rightarrow>
          (x1, rbind (rbind (json_iter status_counts) unassigned_count) (\<lambda>remaining.
               rbind (fewer_than remaining (length uuids)) (\<lambda>short. Inr (if short then Some 422 else None)))))"

definition approve_license_requests ::
    "view_env \<Rightarrow> 'x api \<Rightarrow> review_data \<Rightarrow> license_request list \<Rightarrow> 'x \<Rightarrow>
      (license_request list \<times> task list \<times> reply result) \<times> 'x" where
  "approve_license_requests env api data rows x =
     (case permission_required env admin_access (rd_enterprise_customer_uuid data) of
        Inl e \<Rightarrow> ((rows, [], Inl e), x)
      | Inr customer \<Rightarrow>
          (case validate_subsidy_request_uuids env (rd_subsidy_request_uuids data) of
             Inl status \<Rightarrow> ((rows, [], Inr \<lparr>rp_status = status, rp_uuids = []\<rparr>), x)
           | Inr uuids \<Rightarrow>
               (case validate_subscription_plan_uuid env (rd_subscription_plan_uuid data) of
                  Inl status \<Rightarrow> ((rows, [], Inr \<lparr>rp_status = status, rp_uuids = []\<rparr>), x)
                | Inr plan \<Rightarrow>
                    (case verify_subsidies_remaining env api plan uuids x of
                       (x1, Inl e) \<Rightarrow> ((rows, [], Inl e), x1)
                     | (x1, Inr (Some status)) \<Rightarrow> ((rows, [], Inr \<lparr>rp_status = status, rp_uuids = []\<rparr>), x1)
                     | (x1, Inr None) \<Rightarrow>
                         (let requests = requests_of uuids customer rows
                          in if any_in_states [SR_DECLINED] requests
                             then ((rows, [], Inr \<lparr>rp_status = 422, rp_uuids = []\<rparr>), x1)
                             else (case review_all (approve_license (ve_user env) (ve_now env)) (open_requests requests) of
                                (_, ts, Inl e) \<Rightarrow> ((rows, ts, Inl e), x1)
                              | (approved, ts, Inr _) \<Rightarrow>
                                  ((put_rows sr_uuid approved rows,
                                    ts @ [Assign_Licenses (map sr_uuid approved) plan (rd_send_notification data)],
                                    Inr \<lparr>rp_status = 200, rp_uuids = map sr_uuid approved\<rparr>), x1)))))))"

text \<open>The tasks after a decline: a notification and the removal of the learner, both optional.\<close>

definition decline_tasks :: "string \<Rightarrow> review_data \<Rightarrow> 'a subsidy_request_scheme list \<Rightarrow> task list" where
  "decline_tasks subsidy_type data declined =
     concat (map (\<lambda>r.
       (if rd_send_notification data
        then [Send_Request_Notification (sr_uuid r) ''decline'' subsidy_type (Some (rd_unlink_users_from_enterprise data))] else []) @
       (if rd_unlink_users_from_enterprise data
        then [Unlink_Users (Some (sr_enterprise_customer_uuid r)) (user_lms_user_id (sr_user r))] else [])) declined)"

definition decline_license_requests ::
    "view_env \<Rightarrow> review_data \<Rightarrow> license_request list \<Rightarrow> license_request list \<times> task list \<times> reply result" where
  "decline_license_requests env data rows =
     (case permission_required env admin_access (rd_enterprise_customer_uuid data) of
        Inl e \<Rightarrow> (rows, [], Inl e)
      | Inr customer \<Rightarrow>
          (case validate_subsidy_request_uuids env (rd_subsidy_request_uuids data) of
             Inl status \<Rightarrow> (rows, [], Inr \<lparr>rp_status = status, rp_uuids = []\<rparr>)
           | Inr uuids \<Rightarrow>
               (let requests = requests_of uuids customer rows
                in if any_in_states [SR_APPROVED, SR_PENDING] requests
                   then (rows, [], Inr \<lparr>rp_status = 422, rp_uuids = []\<rparr>)
                   else (case review_all (decline_license (ve_user env) None (ve_now env)) (open_requests requests) of
                      (_, ts, Inl e) \<Rightarrow> (rows, ts, Inl e)
                    | (declined, ts, Inr _) \<Rightarrow>
                        (put_rows sr_uuid declined rows, ts @ decline_tasks ''license'' data declined,
                         Inr \<lparr>rp_status = 200, rp_uuids = map sr_uuid declined\<rparr>)))))"

section \<open>Coupon codes\<close>

definition validate_redemptions_remaining ::
    "view_env \<Rightarrow> 'x api \<Rightarrow> uuid option \<Rightarrow> int \<Rightarrow> uuid list \<Rightarrow> 'x \<Rightarrow> 'x \<times> int option result" where
  "validate_redemptions_remaining env api customer coupon_id uuids x =
     (case get_coupon_overview api (case customer of None \<Rightarrow> ''None'' | Some c \<Rightarrow> ve_uuid_text env c) coupon_id x of
        (x1, Inl e) \<Rightarrow> (x1, if e \<in> set connection_errors then Inr (Some 500) else Inl e)
      | (x1, Inr coupon_overview) \<Rightarrow>
          (x1, rbind (item coupon_overview ''num_unassigned'') (\<lambda>remaining.
               rbind (fewer_than remaining (length uuids)) (\<lambda>short. Inr (if short then Some 422 else None)))))"

definition approve_coupon_requests ::
    "view_env \<Rightarrow> 'x api \<Rightarrow> review_data \<Rightarrow> coupon_code_request list \<Rightarrow> 'x \<Rightarrow>
      (coupon_code_request list \<times> task list \<times> reply result) \<times> 'x" where
  "approve_coupon_requests env api data rows x =
     (case permission_required env admin_access (rd_enterprise_customer_uuid data) of
        Inl e \<Rightarrow> ((rows, [], Inl e), x)
      | Inr customer \<Rightarrow>
          (case validate_subsidy_request_uuids env (rd_subsidy_request_uuids data) of
             Inl status \<Rightarrow> ((rows, [], Inr \<lparr>rp_status = status, rp_uuids = []\<rparr>), x)
           | Inr uuids \<Rightarrow>
               (case validate_redemptions_remaining env api customer (rd_coupon_id data) uuids x of
                  (x1, Inl e) \<Rightarrow> ((rows, [], Inl e), x1)
                | (x1, Inr (Some status)) \<Rightarrow> ((rows, [], Inr \<lparr>rp_status = status, rp_uuids = []\<rparr>), x1)
                | (x1, Inr None) \<Rightarrow>
                    (let requests = requests_of uuids customer rows
                     in if any_in_states [SR_DECLINED] requests
                        then ((rows, [], Inr \<lparr>rp_status = 422, rp_uuids = []\<rparr>), x1)
                        else (case review_all (approve_coupon (ve_user env) (ve_now env)) (open_requests requests) of
                           (_, ts, Inl e) \<Rightarrow> ((rows, ts, Inl e), x1)
                         | (approved, ts, Inr _) \<Rightarrow>
                             ((put_rows sr_uuid approved rows,
                               ts @ [Assign_Coupon_Codes (map sr_uuid approved) (rd_coupon_id data) (rd_send_notification data)],
                               Inr \<lparr>rp_status = 200, rp_uuids = map sr_uuid approved\<rparr>), x1))))))"

text \<open>The view that declines coupon code requests has no \<open>permission_required\<close>.\<close>

definition decline_coupon_requests ::
    "view_env \<Rightarrow> review_data \<Rightarrow> coupon_code_request list \<Rightarrow> coupon_code_request list \<times> task list \<times> reply result" where
  "decline_coupon_requests env data rows =
     (case get_enterprise_uuid_from_request_data env (rd_enterprise_customer_uuid data) of
        Inl e \<Rightarrow> (rows, [], Inl e)
      | Inr customer \<Rightarrow>
          (case validate_subsidy_request_uuids env (rd_subsidy_request_uuids data) of
             Inl status \<Rightarrow> (rows, [], Inr \<lparr>rp_status = status, rp_uuids = []\<rparr>)
           | Inr uuids \<Rightarrow>
               (let requests = requests_of uuids customer rows
                in if any_in_states [SR_APPROVED, SR_PENDING] requests
                   then (rows, [], Inr \<lparr>rp_status = 422, rp_uuids = []\<rparr>)
                   else (case review_all (decline_coupon (ve_user env) None (ve_now env)) (open_requests requests) of
                      (_, ts, Inl e) \<Rightarrow> (rows, ts, Inl e)
                    | (declined, ts, Inr _) \<Rightarrow>
                        (put_rows sr_uuid declined rows, ts @ decline_tasks ''coupon'' data declined,
                         Inr \<lparr>rp_status = 200, rp_uuids = map sr_uuid declined\<rparr>)))))"

section \<open>The tasks of an approval\<close>

text \<open>A dictionary from e-mail address to what was assigned to it.\<close>

fun assigned_by_email :: "string \<Rightarrow> json list \<Rightarrow> (json \<times> json) list \<Rightarrow> (json \<times> json) list result" where
  "assigned_by_email k [] d = Inr d"
| "assigned_by_email k (a # as) d =
     rbind (item a ''user_email'') (\<lambda>e. rbind (item a k) (\<lambda>v. assigned_by_email k as (dict_put d e v)))"

definition assign_licenses_task ::
    "view_env \<Rightarrow> 'x api \<Rightarrow> uuid list \<Rightarrow> uuid \<Rightarrow> license_request list \<Rightarrow> 'x \<Rightarrow>
      'x \<times> (uuid list \<times> (json \<times> json) list \<times> uuid) option result" where
  "assign_licenses_task env api uuids plan rows x =
     (let requests = filter (\<lambda>r. sr_uuid r \<in> set uuids \<and> sr_state r \<in> {SR_PENDING, SR_ERROR}) rows
      in if requests = [] then (x, Inr None)
         else case assign_licenses api (map (\<lambda>r. user_email (sr_user r)) requests) (ve_uuid_text env plan) x of
           (x1, r) \<Rightarrow> (x1,
             rbind r (\<lambda>response. rbind (rbind (item response ''license_assignments'') json_iter) (\<lambda>as.
             rbind (assigned_by_email ''license'' as []) (\<lambda>assigned. Inr (Some (uuids, assigned, plan)))))))"

text \<open>A license is stored when its key parses; a key that does not is refused by the column.\<close>

definition licensed :: "view_env \<Rightarrow> (json \<times> json) list \<Rightarrow> uuid \<Rightarrow> license_request \<Rightarrow> license_request result" where
  "licensed env assigned plan r =
     (case map_of assigned (JStr (user_email (sr_user r))) of
        None \<Rightarrow> Inr (r\<lparr>sr_state := SR_ERROR\<rparr>)
      | Some v \<Rightarrow>
          if \<not> json_truthy v then Inr (r\<lparr>sr_state := SR_ERROR\<rparr>)
          else case v of
            JStr k \<Rightarrow>
              (case ve_uuid env k of
                 None \<Rightarrow> Inl ValidationError
               | Some u \<Rightarrow> Inr (r\<lparr>sr_state := SR_APPROVED, lr_subscription_plan_uuid := Some plan, lr_license_uuid := Some u\<rparr>))
          | _ \<Rightarrow> Inl ValidationError)"

definition update_license_requests_after_assignments_task ::
    "view_env \<Rightarrow> (uuid list \<times> (json \<times> json) list \<times> uuid) option \<Rightarrow> license_request list \<Rightarrow>
      license_request list \<times> unit result" where
  "update_license_requests_after_assignments_task env results rows =
     (case results of
        None \<Rightarrow> (rows, Inr ())
      | Some (uuids, assigned, plan) \<Rightarrow>
          (case rmap (licensed env assigned plan) (filter (\<lambda>r. sr_uuid r \<in> set uuids) rows) of
             Inl e \<Rightarrow> (rows, Inl e)
           | Inr updated \<Rightarrow> (put_rows sr_uuid updated rows, Inr ())))"

definition assign_coupon_codes_task ::
    "view_env \<Rightarrow> 'x api \<Rightarrow> uuid list \<Rightarrow> int \<Rightarrow> coupon_code_request list \<Rightarrow> 'x \<Rightarrow>
      'x \<times> (uuid list \<times> (json \<times> json) list \<times> int) option result" where
  "assign_coupon_codes_task env api uuids coupon_id rows x =
     (let requests = filter (\<lambda>r. sr_uuid r \<in> set uuids \<and> sr_state r = SR_PENDING) rows
      in if requests = [] then (x, Inr None)
         else case assign_coupon_codes api (map (\<lambda>r. user_email (sr_user r)) requests) coupon_id x of
           (x1, r) \<Rightarrow> (x1,
             rbind r (\<lambda>response. rbind (rbind (item response ''offer_assignments'') json_iter) (\<lambda>as.
             rbind (assigned_by_email ''code'' as []) (\<lambda>assigned. Inr (Some (uuids, assigned, coupon_id)))))))"

text \<open>A code that is no text is written as its text.\<close>

definition coupon_assigned ::
    "(json \<Rightarrow> string option) \<Rightarrow> (json \<times> json) list \<Rightarrow> int \<Rightarrow> coupon_code_request \<Rightarrow> coupon_code_request result" where
  "coupon_assigned text_of assigned coupon_id r =
     (case map_of assigned (JStr (user_email (sr_user r))) of
        None \<Rightarrow> Inl KeyError
      | Some v \<Rightarrow> Inr (r\<lparr>sr_state := SR_APPROVED, cr_coupon_id := Some coupon_id, cr_coupon_code := text_of v\<rparr>))"

definition update_coupon_code_requests_after_assignments_task ::
    "(json \<Rightarrow> string option) \<Rightarrow> (uuid list \<times> (json \<times> json) list \<times> int) option \<Rightarrow> coupon_code_request list \<Rightarrow>
      coupon_code_request list \<times> unit result" where
  "update_coupon_code_requests_after_assignments_task text_of results rows =
     (case results of
        None \<Rightarrow> (rows, Inr ())
      | Some (uuids, assigned, coupon_id) \<Rightarrow>
          (case rmap (coupon_assigned text_of assigned coupon_id) (filter (\<lambda>r. sr_uuid r \<in> set uuids) rows) of
             Inl e \<Rightarrow> (rows, Inl e)
           | Inr updated \<Rightarrow> (put_rows sr_uuid updated rows, Inr ())))"

text \<open>The learners to unlink, found by their ids in the LMS.\<close>

definition unlink_users_from_enterprise_task ::
    "view_env \<Rightarrow> 'x api \<Rightarrow> core_user list \<Rightarrow> uuid option \<Rightarrow> int option list \<Rightarrow> 'x \<Rightarrow> 'x \<times> unit result" where
  "unlink_users_from_enterprise_task env api users customer lms_user_ids x =
     (let user_emails = map user_email (filter (\<lambda>u. user_lms_user_id u \<noteq> None \<and> user_lms_user_id u \<in> set lms_user_ids) users)
      in if user_emails = [] then (x, Inr ())
         else unlink_users_from_enterprise api (case customer of None \<Rightarrow> ''None'' | Some c \<Rightarrow> ve_uuid_text env c) user_emails False x)"

section \<open>Changing the kind of requests of a customer\<close>

definition subsidy_type_name :: "subsidy_type \<Rightarrow> string" where
  "subsidy_type_name t = (case t of License_Subsidy \<Rightarrow> ''license'' | Coupon_Subsidy \<Rightarrow> ''coupon'' | Learner_Credit_Subsidy \<Rightarrow> ''learner_credit'')"

definition to_flush :: "uuid \<Rightarrow> 'a subsidy_request_scheme list \<Rightarrow> uuid list" where
  "to_flush customer rows = map sr_uuid
     (filter (\<lambda>r. sr_enterprise_customer_uuid r = customer \<and> sr_state r \<in> {SR_REQUESTED, SR_PENDING, SR_ERROR}) rows)"

text \<open>
  \<open>partial_update\<close> of a configuration. \<open>changes\<close> are the new values the request names; the requests to
  decline are handed to a task before the new configuration is validated.
\<close>

record config_changes =
  ch_enabled :: "bool option"
  ch_subsidy_type :: "subsidy_type option option"
  ch_send_notification :: bool

definition partial_update_configuration ::
    "view_env \<Rightarrow> policy_links \<Rightarrow> lcr_configuration list \<Rightarrow> uuid \<Rightarrow> config_changes \<Rightarrow> license_request list \<Rightarrow>
      coupon_code_request list \<Rightarrow> learner_credit_request list \<Rightarrow> customer_configuration list \<Rightarrow>
      customer_configuration list \<times> task list \<times> unit result" where
  "partial_update_configuration env links lcr_configs pk changes licenses coupons lcrs configs =
     (if \<not> ve_permitted env admin_access (Some pk) then (configs, [], Inl PermissionDenied)
      else case find (\<lambda>c. cc_enterprise_customer_uuid c = pk) configs of
        None \<Rightarrow> (configs, [], Inl DoesNotExist)
      | Some current \<Rightarrow>
          (let tasks = (case ch_subsidy_type changes of
                 None \<Rightarrow> []
               | Some new_type \<Rightarrow>
                   (case cc_subsidy_type current of
                      None \<Rightarrow> []
                    | Some old \<Rightarrow>
                        if new_type = Some old then []
                        else [Decline_Requests
                                (case old of License_Subsidy \<Rightarrow> to_flush pk licenses | Coupon_Subsidy \<Rightarrow> to_flush pk coupons
                                  | Learner_Credit_Subsidy \<Rightarrow> to_flush pk lcrs)
                                (subsidy_type_name old) (ch_send_notification changes)]));
               updated = current\<lparr>cc_subsidy_requests_enabled := (case ch_enabled changes of None \<Rightarrow> cc_subsidy_requests_enabled current | Some b \<Rightarrow> b),
                                 cc_subsidy_type := (case ch_subsidy_type changes of None \<Rightarrow> cc_subsidy_type current | Some t \<Rightarrow> t)\<rparr>
           in case save_customer_configuration links lcr_configs updated configs of
                Inl e \<Rightarrow> (configs, tasks, Inl e)
              | Inr configs' \<Rightarrow> (configs', tasks, Inr ())))"

text \<open>
  The task that declines the requests: every one is saved on its own, and neither a reviewer nor the
  time of a review is set. The event of a declined request does not exist for learner credit.
\<close>

definition subsidy_type_change_declination :: string where
  "subsidy_type_change_declination = ''Declined because subsidy type on SubsidyRequestCustomerConfiguration has changed.''"

definition decline_for_type_change :: "'a subsidy_request_scheme \<Rightarrow> 'a subsidy_request_scheme" where
  "decline_for_type_change r = r\<lparr>sr_state := SR_DECLINED, sr_decline_reason := Some subsidy_type_change_declination\<rparr>"

definition decline_enterprise_license_requests_task ::
    "uuid list \<Rightarrow> license_request list \<Rightarrow> license_request list \<times> task list \<times> unit result" where
  "decline_enterprise_license_requests_task uuids rows =
     (case review_all (\<lambda>r. save_license (decline_for_type_change r)) (filter (\<lambda>r. sr_uuid r \<in> set uuids) rows) of
        (declined, ts, res) \<Rightarrow> (put_rows sr_uuid declined rows, ts, res))"

definition decline_enterprise_coupon_requests_task ::
    "uuid list \<Rightarrow> coupon_code_request list \<Rightarrow> coupon_code_request list \<times> task list \<times> unit result" where
  "decline_enterprise_coupon_requests_task uuids rows =
     (case review_all (\<lambda>r. save_coupon (decline_for_type_change r)) (filter (\<lambda>r. sr_uuid r \<in> set uuids) rows) of
        (declined, ts, res) \<Rightarrow> (put_rows sr_uuid declined rows, ts, res))"

text \<open>The event is looked up before anything else.\<close>

definition decline_enterprise_lcr_requests_task ::
    "uuid list \<Rightarrow> learner_credit_request list \<Rightarrow> learner_credit_request list \<times> task list \<times> unit result" where
  "decline_enterprise_lcr_requests_task uuids rows = (rows, [], Inl KeyError)"

end
