(* ===== verification/Lcr_Views.thy ===== *)
theory Lcr_Views
  imports License_Requests Policy_Allocation Assignment_Lifecycle
begin

text \<open>
  Learner credit requests from the click to the stored rows: \<open>LearnerCreditRequestViewSet\<close> of
  \<open>api/v1/views/browse_and_request.py\<close>, the serializers that check its input
  (\<open>api/serializers/subsidy_requests.py\<close>), and the approval of a batch in \<open>subsidy_request/api.py\<close>.

  The world holds the rows of requests, of their audit trail and of the assignments, and the outbox of
  tasks. A view returns the status of its response, or raises; what it had committed by then stays.
\<close>

section \<open>State\<close>

record lcr_world =
  lw_requests :: "learner_credit_request list"
  lw_actions :: "lcr_action list"
  lw_assignments :: assignments
  lw_tasks :: "task list"

text \<open>The policies with the services behind them, and whether somebody else holds the lock of a policy.\<close>

record lcr_env =
  le_policy_env :: policy_env
  le_policies :: "policy list"
  le_locked :: bool

definition send_task :: "task \<Rightarrow> lcr_world \<Rightarrow> lcr_world" where
  "send_task t w = w\<lparr>lw_tasks := lw_tasks w @ [t]\<rparr>"

definition add_action :: "lcr_action \<Rightarrow> lcr_world \<Rightarrow> lcr_world" where
  "add_action a w = w\<lparr>lw_actions := lw_actions w @ [a]\<rparr>"

text \<open>
  \<open>save\<close> of an action that was added last; \<open>full_clean\<close> is not called, but the database refuses a
  missing status.
\<close>

definition save_last_action :: "lcr_action \<Rightarrow> lcr_world \<Rightarrow> lcr_world result" where
  "save_last_action a w =
     (if act_status a = None then Inl IntegrityError else Inr (w\<lparr>lw_actions := butlast (lw_actions w) @ [a]\<rparr>))"

text \<open>\<open>request.<review>(...)\<close> on the stored row: the row and the tasks of its receiver.\<close>

definition store_review :: "lcr_save \<Rightarrow> lcr_world \<Rightarrow> (lcr_world \<times> learner_credit_request) result" where
  "store_review s w = rbind s (\<lambda>(rows, r, ts). Inr (w\<lparr>lw_requests := rows, lw_tasks := lw_tasks w @ ts\<rparr>, r))"

definition find_request :: "uuid \<Rightarrow> lcr_world \<Rightarrow> learner_credit_request option" where
  "find_request u w = find (\<lambda>r. sr_uuid r = u) (lw_requests w)"

section \<open>Approving a batch\<close>

text \<open>\<open>failed_approval\<close> is \<open>None\<close> where the returned dictionary lacks the key.\<close>

record approval_response =
  ar_approved :: "learner_credit_request list"
  ar_failed_approval :: "learner_credit_request list option"
  ar_error_message :: bool

definition prepare_requests_for_update :: "nat \<Rightarrow> datetime \<Rightarrow> approvals \<Rightarrow> learner_credit_request list" where
  "prepare_requests_for_update reviewer now approvals =
     map (\<lambda>(_, r, a). r\<lparr>sr_state := SR_APPROVED, sr_reviewer := Some reviewer, sr_reviewed_at := Some now,
            lcr_assignment := Some (lca_uuid a)\<rparr>) approvals"

definition failed_action :: "datetime \<Rightarrow> string \<Rightarrow> learner_credit_request \<Rightarrow> lcr_action" where
  "failed_action now traceback r =
     \<lparr>act_learner_credit_request = Some (sr_uuid r), act_recent_action = get_action_choice ''approved'',
      act_status = get_user_message_choice ''requested'', act_error_reason = Some ''failed_approval'',
      act_traceback = Some traceback, act_created = now\<rparr>"

definition approved_action :: "datetime \<Rightarrow> learner_credit_request \<Rightarrow> lcr_action" where
  "approved_action now r =
     \<lparr>act_learner_credit_request = Some (sr_uuid r), act_recent_action = get_action_choice ''approved'',
      act_status = get_user_message_choice ''approved'', act_error_reason = None,
      act_traceback = None, act_created = now\<rparr>"

definition prepare_failed_requests_and_actions ::
    "datetime \<Rightarrow> failed_requests \<Rightarrow> learner_credit_request list \<times> lcr_action list" where
  "prepare_failed_requests_and_actions now failed =
     (concat (map snd failed),
      concat (map (\<lambda>(reason, rs). map (failed_action now (''Validation failed with reason: '' @ reason)) rs) failed))"

text \<open>The listed fields are \<open>state\<close>, \<open>assignment\<close>, \<open>reviewer\<close> and \<open>reviewed_at\<close>.\<close>

definition approval_fields :: "learner_credit_request \<Rightarrow> learner_credit_request \<Rightarrow> learner_credit_request" where
  "approval_fields r row = row\<lparr>sr_state := sr_state r, lcr_assignment := lcr_assignment r,
     sr_reviewer := sr_reviewer r, sr_reviewed_at := sr_reviewed_at r\<rparr>"

definition update_and_refresh_requests ::
    "datetime \<Rightarrow> learner_credit_request list \<Rightarrow> learner_credit_request list \<Rightarrow>
      learner_credit_request list \<times> learner_credit_request list" where
  "update_and_refresh_requests now to_update rows =
     (if to_update = [] then (rows, [])
      else let rows' = bulk_update_lcr approval_fields now to_update rows
           in (rows', filter (\<lambda>r. sr_uuid r \<in> sr_uuid ` set to_update) rows'))"

definition approve_learner_credit_requests ::
    "lcr_env \<Rightarrow> datetime \<Rightarrow> nat \<Rightarrow> uuid \<Rightarrow> learner_credit_request list \<Rightarrow> lcr_world \<Rightarrow>
      lcr_world \<times> approval_response result" where
  "approve_learner_credit_requests env now reviewer policy_uuid requests w =
     (let to_process = filter (\<lambda>r. sr_state r \<in> {SR_REQUESTED, SR_ERROR}) requests
      in if to_process = [] then (w, Inr \<lparr>ar_approved = [], ar_failed_approval = None, ar_error_message = False\<rparr>)
         else case approve_learner_credit_requests_via_policy (le_policy_env env) (le_policies env) (le_locked env)
                     policy_uuid to_process (lw_assignments w) of
           (table, response) \<Rightarrow>
             (let outcome = (case response of
                    Inr (approvals, failed) \<Rightarrow>
                      (case prepare_failed_requests_and_actions now failed of
                         (failed_requests, actions) \<Rightarrow>
                           Inr (prepare_requests_for_update reviewer now approvals, failed_requests, actions, False))
                  | Inl e \<Rightarrow>
                      if e = SubisidyAccessPolicyRequestApprovalError
                      then Inr ([], to_process, map (failed_action now ''traceback'') to_process, True)
                      else Inl e)
              in case outcome of
                Inl e \<Rightarrow> (w\<lparr>lw_assignments := table\<rparr>, Inl e)
              | Inr (approved, failed_requests, actions, error_message) \<Rightarrow>
                  (case update_and_refresh_requests now approved (lw_requests w) of
                     (rows, refreshed) \<Rightarrow>
                       (w\<lparr>lw_assignments := table, lw_requests := rows,
                          lw_actions := lw_actions w @ actions @ map (approved_action now) refreshed,
                          lw_tasks := lw_tasks w @ List.map_filter (\<lambda>r. map_option Send_Bnr_Approve (lcr_assignment r)) refreshed\<rparr>,
                        Inr \<lparr>ar_approved = refreshed, ar_failed_approval = Some failed_requests, ar_error_message = error_message\<rparr>))))"

section \<open>Approving\<close>

definition of_policy :: "lcr_env \<Rightarrow> uuid \<Rightarrow> learner_credit_request \<Rightarrow> bool" where
  "of_policy env policy_uuid r \<longleftrightarrow>
     (\<exists>p \<in> set (le_policies env). sap_uuid p = policy_uuid \<and>
        (case sap_learner_credit_request_config p of None \<Rightarrow> False | Some c \<Rightarrow> lcr_config r = Some (lcc_uuid c)))"

text \<open>Every exception of the approval becomes a \<open>422\<close>.\<close>

definition approval_reply :: "int \<Rightarrow> approval_response result \<Rightarrow> int" where
  "approval_reply ok response =
     (case response of
        Inl _ \<Rightarrow> 422
      | Inr r \<Rightarrow>
          if ar_error_message r then 422
          else if ar_failed_approval r \<noteq> None \<and> ar_failed_approval r \<noteq> Some [] then 422
          else ok)"

record approve_data =
  ad_enterprise_customer_uuid :: "string option"
  ad_learner_credit_request_uuids :: "string list"
  ad_policy_uuid :: string

definition approve_view :: "view_env \<Rightarrow> lcr_env \<Rightarrow> approve_data \<Rightarrow> lcr_world \<Rightarrow> lcr_world \<times> int result" where
  "approve_view venv env data w =
     (case permission_required venv admin_access (ad_enterprise_customer_uuid data) of
        Inl e \<Rightarrow> (w, Inl e)
      | Inr _ \<Rightarrow>
          (case (validate_subsidy_request_uuids venv (Some (ad_learner_credit_request_uuids data)), ve_uuid venv (ad_policy_uuid data)) of
             (Inr uuids, Some policy_uuid) \<Rightarrow>
               (let requests = filter (\<lambda>r. sr_uuid r \<in> set uuids \<and> of_policy env policy_uuid r) (lw_requests w)
                in if length requests \<noteq> length (remdups uuids) then (w, Inr 404)
                   else case approve_learner_credit_requests env (ve_now venv) (ve_user venv) policy_uuid requests w of
                     (w', response) \<Rightarrow> (w', Inr (approval_reply 200 response)))
           | _ \<Rightarrow> (w, Inr 400)))"

definition approve_all_view :: "view_env \<Rightarrow> lcr_env \<Rightarrow> approve_data \<Rightarrow> lcr_world \<Rightarrow> lcr_world \<times> int result" where
  "approve_all_view venv env data w =
     (case permission_required venv admin_access (ad_enterprise_customer_uuid data) of
        Inl e \<Rightarrow> (w, Inl e)
      | Inr _ \<Rightarrow>
          (case ve_uuid venv (ad_policy_uuid data) of
             None \<Rightarrow> (w, Inr 400)
           | Some policy_uuid \<Rightarrow>
               (let requests = filter (\<lambda>r. sr_state r \<in> {SR_REQUESTED, SR_ERROR} \<and> of_policy env policy_uuid r) (lw_requests w)
                in if requests = [] then (w, Inr 404)
                   else case approve_learner_credit_requests env (ve_now venv) (ve_user venv) policy_uuid requests w of
                     (w', response) \<Rightarrow> (w', Inr (approval_reply 202 response)))))"

section \<open>Cancelling, reminding, declining\<close>

record lcr_data =
  ld_enterprise_customer_uuid :: "string option"
  ld_request_uuid :: string
  ld_send_notification :: bool
  ld_disassociate_from_org :: bool

definition start_action ::
    "datetime \<Rightarrow> learner_credit_request \<Rightarrow> string \<Rightarrow> string \<Rightarrow> lcr_action result" where
  "start_action now r action message =
     create_action now (Some (sr_uuid r)) (get_action_choice action) (get_user_message_choice message) None None"

definition action_failed :: "string \<Rightarrow> string \<Rightarrow> lcr_action \<Rightarrow> lcr_action" where
  "action_failed message reason a =
     a\<lparr>act_status := get_user_message_choice message, act_error_reason := get_error_reason_choice reason,
       act_traceback := Some ''traceback''\<rparr>"

definition database_errors :: "py_error list" where
  "database_errors = [ValidationError, IntegrityError]"

text \<open>The key of the request must name a request; its state and customer are not looked at.\<close>

definition validate_request_uuid :: "view_env \<Rightarrow> string \<Rightarrow> lcr_world \<Rightarrow> learner_credit_request option" where
  "validate_request_uuid venv v w = Option.bind (ve_uuid venv v) (\<lambda>u. find_request u w)"

text \<open>
  The transaction of a cancellation: the assignment first (a request without one raises
  \<open>AttributeError\<close>), then the request. \<open>Inr None\<close>: the assignment cannot be cancelled.
\<close>

definition cancel_transaction ::
    "view_env \<Rightarrow> learner_credit_request \<Rightarrow> lcr_world \<Rightarrow> (lcr_world \<times> learner_credit_request) option result" where
  "cancel_transaction venv r w =
     (case Option.bind (lcr_assignment r) (\<lambda>u. find (\<lambda>a. lca_uuid a = u) (lw_assignments w)) of
        None \<Rightarrow> Inl AttributeError
      | Some a \<Rightarrow>
          rbind (cancel_assignments (ve_now venv) (lw_assignments w) [a] False) (\<lambda>response.
            if cn_non_cancelable response \<noteq> [] then Inr None
            else rbind (store_review (cancel_lcr (ve_user venv) (ve_now venv) (lw_requests w) r)
                         (w\<lparr>lw_assignments := cn_table response\<rparr>)) (\<lambda>res. Inr (Some res))))"

definition cancel_view :: "view_env \<Rightarrow> lcr_data \<Rightarrow> lcr_world \<Rightarrow> lcr_world \<times> int result" where
  "cancel_view venv data w =
     (case permission_required venv admin_access (ld_enterprise_customer_uuid data) of
        Inl e \<Rightarrow> (w, Inl e)
      | Inr _ \<Rightarrow>
          (case validate_request_uuid venv (ld_request_uuid data) w of
             None \<Rightarrow> (w, Inr 400)
           | Some r \<Rightarrow>
               (case start_action (ve_now venv) r ''cancelled'' ''cancelled'' of
                  Inl e \<Rightarrow> (w, Inl e)
                | Inr action \<Rightarrow>
                    (let w1 = add_action action w;
                         failed = save_last_action (action_failed ''approved'' ''failed_cancellation'' action) w1
                     in case cancel_transaction venv r w1 of
                       Inr (Some (w2, r')) \<Rightarrow>
                         (case lcr_assignment r' of
                            None \<Rightarrow> (w2, Inl AttributeError)
                          | Some u \<Rightarrow> (send_task (Send_Bnr_Cancel u) w2, Inr 200))
                     | Inr None \<Rightarrow> (case failed of Inl e \<Rightarrow> (w1, Inl e) | Inr w2 \<Rightarrow> (w2, Inr 422))
                     | Inl e \<Rightarrow>
                         if e \<in> set database_errors
                         then (case failed of Inl e' \<Rightarrow> (w1, Inl e') | Inr w2 \<Rightarrow> (w2, Inr 422))
                         else (w1, Inl e)))))"

text \<open>\<open>queue_ok\<close>: the task could be put into the queue.\<close>

definition validate_remind :: "view_env \<Rightarrow> string \<Rightarrow> lcr_world \<Rightarrow> learner_credit_request option" where
  "validate_remind venv v w =
     (case validate_request_uuid venv v w of
        None \<Rightarrow> None
      | Some r \<Rightarrow> if sr_state r \<noteq> SR_APPROVED \<or> lcr_assignment r = None then None else Some r)"

definition remind_view :: "view_env \<Rightarrow> bool \<Rightarrow> lcr_data \<Rightarrow> lcr_world \<Rightarrow> lcr_world \<times> int result" where
  "remind_view venv queue_ok data w =
     (case permission_required venv admin_access (ld_enterprise_customer_uuid data) of
        Inl e \<Rightarrow> (w, Inl e)
      | Inr _ \<Rightarrow>
          (case validate_remind venv (ld_request_uuid data) w of
             None \<Rightarrow> (w, Inr 400)
           | Some r \<Rightarrow>
               (case start_action (ve_now venv) r ''reminded'' ''reminded'' of
                  Inl e \<Rightarrow> (w, Inl e)
                | Inr action \<Rightarrow>
                    (let w1 = add_action action w
                     in if queue_ok then (send_task (Send_Bnr_Reminder (the (lcr_assignment r))) w1, Inr 200)
                        else case save_last_action (action\<lparr>act_status := get_user_message_choice ''email_error'',
                                                            act_error_reason := Some ''str(exc)''\<rparr>) w1 of
                               Inl e \<Rightarrow> (w1, Inl e)
                             | Inr w2 \<Rightarrow> (w2, Inr 422)))))"

definition validate_decline :: "view_env \<Rightarrow> string \<Rightarrow> lcr_world \<Rightarrow> learner_credit_request option" where
  "validate_decline venv v w =
     (case validate_request_uuid venv v w of
        None \<Rightarrow> None
      | Some r \<Rightarrow> if sr_state r \<noteq> SR_REQUESTED then None else Some r)"

text \<open>The learner is unlinked from the customer the admin named.\<close>

definition decline_view :: "view_env \<Rightarrow> bool \<Rightarrow> lcr_data \<Rightarrow> lcr_world \<Rightarrow> lcr_world \<times> int result" where
  "decline_view venv queue_ok data w =
     (case permission_required venv admin_access (ld_enterprise_customer_uuid data) of
        Inl e \<Rightarrow> (w, Inl e)
      | Inr customer \<Rightarrow>
          (case validate_decline venv (ld_request_uuid data) w of
             None \<Rightarrow> (w, Inr 400)
           | Some r \<Rightarrow>
               (case start_action (ve_now venv) r ''declined'' ''declined'' of
                  Inl e \<Rightarrow> (w, Inl e)
                | Inr action \<Rightarrow>
                    (let w1 = add_action action w;
                         failed = save_last_action (action_failed ''requested'' ''failed_decline'' action)
                     in case store_review (decline_lcr (ve_user venv) None (ve_now venv) (lw_requests w1) r) w1 of
                       Inl e \<Rightarrow>
                         if e \<in> set database_errors
                         then (case failed w1 of Inl e' \<Rightarrow> (w1, Inl e') | Inr w2 \<Rightarrow> (w2, Inr 500))
                         else (w1, Inl e)
                     | Inr (w2, r') \<Rightarrow>
                         if ld_send_notification data \<and> \<not> queue_ok then (w2, Inl ConnectionError)
                         else
                         (let w3 = (if ld_send_notification data then send_task (Send_Bnr_Decline (sr_uuid r')) w2 else w2)
                          in if \<not> ld_disassociate_from_org data then (w3, Inr 200)
                             else if queue_ok then (send_task (Unlink_Users customer (user_lms_user_id (sr_user r'))) w3, Inr 200)
                             else (case failed w3 of Inl e' \<Rightarrow> (w3, Inl e') | Inr w4 \<Rightarrow> (w4, Inr 200)))))))"

section \<open>Creating\<close>

record create_data =
  cd_enterprise_customer_uuid :: "string option"
  cd_policy_uuid :: "string option"
  cd_course_id :: "string option"
  cd_course_price :: "int option"

text \<open>The policy the request is for, or the status of the response.\<close>

definition validate_lcr_creation ::
    "view_env \<Rightarrow> lcr_env \<Rightarrow> create_data \<Rightarrow> lcr_world \<Rightarrow> (int + policy) result" where
  "validate_lcr_creation venv env data w =
     (if \<not> truthy (cd_policy_uuid data) then Inr (Inl 400)
      else case ve_uuid venv (the (cd_policy_uuid data)) of
        None \<Rightarrow> Inl ValidationError
      | Some u \<Rightarrow>
          (case get_subsidy_access_policy (le_policies env) u of
             None \<Rightarrow> Inr (Inl 400)
           | Some policy \<Rightarrow>
               if \<not> bnr_enabled policy then Inr (Inl 400)
               else if \<exists>r \<in> set (lw_requests w). user_lms_user_id (sr_user r) = Some (ve_lms_user_id venv) \<and>
                         sr_enterprise_customer_uuid r = sap_enterprise_customer_uuid policy \<and>
                         sr_course_id r = cd_course_id data \<and> sr_state r \<in> set lc_non_re_requestable_states
               then Inr (Inl 422) else Inr (Inr policy)))"

text \<open>\<open>first()\<close> of an unordered query takes the smallest primary key.\<close>

definition existing_lcr :: "view_env \<Rightarrow> policy \<Rightarrow> string option \<Rightarrow> lcr_world \<Rightarrow> learner_credit_request option" where
  "existing_lcr venv policy course_id w =
     find (\<lambda>r. user_lms_user_id (sr_user r) = Some (ve_lms_user_id venv) \<and>
               lcr_config r = map_option lcc_uuid (sap_learner_credit_request_config policy) \<and>
               sr_course_id r = course_id) (sort_key sr_uuid (lw_requests w))"

text \<open>The audit row of a request and the mail to the admins.\<close>

definition record_request :: "view_env \<Rightarrow> policy \<Rightarrow> learner_credit_request \<Rightarrow> lcr_world \<Rightarrow> lcr_world result" where
  "record_request venv policy r w =
     rbind (start_action (ve_now venv) r ''requested'' ''requested'') (\<lambda>action.
       case sap_learner_credit_request_config policy of
         None \<Rightarrow> Inl AttributeError
       | Some c \<Rightarrow> Inr (send_task (Send_Bnr_Admins_Email (sap_uuid policy) (lcc_uuid c) (sr_enterprise_customer_uuid r))
                          (add_action action w)))"

definition new_lcr :: "view_env \<Rightarrow> core_user \<Rightarrow> policy \<Rightarrow> create_data \<Rightarrow> learner_credit_request" where
  "new_lcr venv user policy data =
     subsidy_request.extend (new_request venv user (sap_enterprise_customer_uuid policy) (cd_course_id data))
       \<lparr>lcr_assignment = None, lcr_config = map_option lcc_uuid (sap_learner_credit_request_config policy),
        lcr_course_price = cd_course_price data, lcr_modified = ve_now venv\<rparr>"

text \<open>
  A request that can be reused is reused; any exception on the way is a \<open>422\<close>, and the reset of the
  request stays if it had been saved. A new request passes the permission check a second time, now
  for the customer of the policy.
\<close>

definition create_view :: "view_env \<Rightarrow> lcr_env \<Rightarrow> core_user \<Rightarrow> create_data \<Rightarrow> lcr_world \<Rightarrow> lcr_world \<times> int result" where
  "create_view venv env user data w =
     (case permission_required venv admin_learner_access (cd_enterprise_customer_uuid data) of
        Inl e \<Rightarrow> (w, Inl e)
      | Inr _ \<Rightarrow>
          (case validate_lcr_creation venv env data w of
             Inl e \<Rightarrow> (w, Inl e)
           | Inr (Inl status) \<Rightarrow> (w, Inr status)
           | Inr (Inr policy) \<Rightarrow>
               (let create_new =
                      (if \<not> ve_permitted venv admin_learner_access (Some (sap_enterprise_customer_uuid policy))
                       then (w, Inl PermissionDenied)
                       else case store_review (save_lcr (ve_now venv) (lw_requests w) (new_lcr venv user policy data)) w of
                         Inl e \<Rightarrow> (w, Inl e)
                       | Inr (w1, r) \<Rightarrow>
                           (case record_request venv policy r w1 of
                              Inl e \<Rightarrow> (w1, Inl e)
                            | Inr w2 \<Rightarrow> (w2, Inr 201)))
                in case existing_lcr venv policy (cd_course_id data) w of
                     None \<Rightarrow> create_new
                   | Some existing \<Rightarrow>
                       if sr_state existing \<notin> set reusable_request_states then create_new
                       else (case store_review (reuse_existing_request (cd_course_price data) (ve_now venv) (lw_requests w) existing) w of
                          Inl _ \<Rightarrow> (w, Inr 422)
                        | Inr (w1, r) \<Rightarrow>
                            (case record_request venv policy r w1 of
                               Inl _ \<Rightarrow> (w1, Inr 422)
                             | Inr w2 \<Rightarrow> (w2, Inr 200))))))"

end
