(* ===== verification/Policy_Views_Properties.thy ===== *)
theory Policy_Views_Properties
  imports Policy_Views Lcr_Views
begin

text \<open>What the views of \<open>Policy_Views\<close> guarantee: which policy is offered, what becomes of an offer
  when it is redeemed, the lock, the redemption event, and the agreement of the offer to request with
  the view that creates requests.\<close>

section \<open>The order of policies\<close>

lemma rmap_mem: "rmap f xs = Inr ys \<Longrightarrow> x \<in> set xs \<Longrightarrow> \<exists>y \<in> set ys. f x = Inr y"
  by (induction xs arbitrary: ys) (auto simp: rbind_Inr_iff)

lemma rmap_mem_back: "rmap f xs = Inr ys \<Longrightarrow> y \<in> set ys \<Longrightarrow> \<exists>x \<in> set xs. f x = Inr y"
  by (induction xs arbitrary: ys) (auto simp: rbind_Inr_iff)

lemma sort_entry_policy: "sort_entry_of env p = Inr e \<Longrightarrow> se_policy e = p"
  by (auto simp: sort_entry_of_def rbind_Inr_iff)

text \<open>One policy stands before another in the order of redemption.\<close>

definition before :: "policy_env \<Rightarrow> policy \<Rightarrow> policy \<Rightarrow> bool" where
  "before env p q \<longleftrightarrow> (\<exists>a b. sort_entry_of env p = Inr a \<and> sort_entry_of env q = Inr b \<and>
     redemption_key a \<le> redemption_key b)"

lemma sorted_policies:
  assumes "sort_subsidy_access_policies_for_redemption env queryset = Inr ps"
  shows "set ps = set queryset" and "sorted_wrt (before env) ps"
proof -
  have "set ps = set queryset \<and> sorted_wrt (before env) ps"
  proof (cases "length queryset \<le> 1")
    case True
    then have "ps = queryset" using assms by (simp add: sort_subsidy_access_policies_for_redemption_def)
    with True show ?thesis by (cases queryset) auto
  next
    case False
    with assms obtain es where es: "rmap (sort_entry_of env) queryset = Inr es"
      and ps: "ps = map se_policy (sort_key redemption_key es)"
      by (auto simp: sort_subsidy_access_policies_for_redemption_def rbind_Inr_iff split: if_splits)
    have "set ps = set queryset"
      using rmap_mem [OF es] rmap_mem_back [OF es] by (force simp: ps dest: sort_entry_policy)
    moreover have "sorted_wrt (before env) ps"
    proof -
      have entry: "sort_entry_of env (se_policy e) = Inr e" if "e \<in> set es" for e
        using rmap_mem_back [OF es that] by (auto dest: sort_entry_policy)
      have "sorted_wrt (\<lambda>a b. redemption_key a \<le> redemption_key b) (sort_key redemption_key es)"
        using sorted_sort_key [of redemption_key es] by (simp add: sorted_map)
      then show ?thesis
        unfolding ps sorted_wrt_map
        by (rule sorted_wrt_mono_rel [rotated]) (auto simp: before_def intro!: exI entry)
    qed
    ultimately show ?thesis by simp
  qed
  then show "set ps = set queryset" and "sorted_wrt (before env) ps" by auto
qed

section \<open>The policy that is offered\<close>

abbreviation redeemable_now :: "view_context \<Rightarrow> assignments \<Rightarrow> int \<Rightarrow> string \<Rightarrow> bool \<Rightarrow> policy \<Rightarrow> bool" where
  "redeemable_now vc table u k skip p \<equiv>
     (\<exists>reason txs. can_redeem (vc_env vc) table p u k skip False = Inr (True, reason, txs))"

lemma evaluate_loop_redeemable:
  "evaluate_loop vc table u k skip ps (rs, ns) = Inr (redeemable, non_redeemable) \<Longrightarrow>
     redeemable = rs @ filter (redeemable_now vc table u k skip) ps"
proof (induction ps arbitrary: rs ns)
  case (Cons p ps)
  from Cons.prems obtain ok reason txs
    where run: "can_redeem (vc_env vc) table p u k skip False = Inr (ok, reason, txs)"
      and rest: "evaluate_loop vc table u k skip ps (if ok then (rs @ [p], ns)
          else (rs, dict_put ns reason (lookup ns reason @ [p]))) = Inr (redeemable, non_redeemable)"
    by (auto elim!: vbind_InrE)
  show ?case
  proof (cases ok)
    case True
    with Cons.IH [of "rs @ [p]" ns] rest run show ?thesis by simp
  next
    case False
    with Cons.IH [of rs "dict_put ns reason (lookup ns reason @ [p])"] rest run show ?thesis by simp
  qed
qed simp

lemma evaluated_policies:
  assumes "evaluate_policies vc table customer u k skip = Inr (redeemable, non_redeemable)"
  obtains c ps where "vc_uuid vc customer = Some c" "get_queryset vc customer = Inr ps"
    "set redeemable = {p \<in> set ps. redeemable_now vc table u k skip p}"
    "sorted_wrt (before (vc_env vc)) redeemable"
proof -
  from assms obtain ps sorted_ps where ps: "get_queryset vc customer = Inr ps"
    and sorted: "sort_subsidy_access_policies_for_redemption (vc_env vc) ps = Inr sorted_ps"
    and loop: "evaluate_loop vc table u k skip sorted_ps ([], []) = Inr (redeemable, non_redeemable)"
    by (auto simp: evaluate_policies_def rbind_Inr_iff elim!: vbind_InrE)
  from ps obtain c where "vc_uuid vc customer = Some c"
    by (auto simp: get_queryset_def split: option.splits)
  moreover have "redeemable = filter (redeemable_now vc table u k skip) sorted_ps"
    using evaluate_loop_redeemable [OF loop] by simp
  ultimately show thesis
    using that ps sorted_policies [OF sorted] by (simp add: sorted_wrt_filter)
qed

lemma offered_policy:
  assumes "can_redeem_element vc table customer u skip m k = Inr el" "el_policy el = Some p"
  obtains redeemable non_redeemable
  where "evaluate_policies vc table customer u k skip = Inr (redeemable, non_redeemable)"
    "redeemable \<noteq> []" "p = hd redeemable" "\<not> el_has_successful_redemption el" "el_reasons el = []"
  using assms unfolding can_redeem_element_def Let_def
  by (auto elim!: vbind_InrE split: if_splits list.splits)

lemma offered_policy_basic:
  assumes "can_redeem_element vc table customer u skip m k = Inr el" "el_policy el = Some p"
  shows "redeemable_now vc table u k skip p"
proof -
  obtain redeemable non_redeemable where
    ev: "evaluate_policies vc table customer u k skip = Inr (redeemable, non_redeemable)"
    and p: "redeemable \<noteq> []" "p = hd redeemable"
    by (rule offered_policy [OF assms])
  from p have "p \<in> set redeemable" by simp
  with evaluated_policies [OF ev] show ?thesis by blast
qed

text \<open>C27. The offer. The policy the can-redeem answer names is enabled, belongs to the customer and
  is redeemable for the learner, and no other redeemable policy of the customer stands before it in
  the order by priority, expiration and balance; the learner has no successful redemption yet.\<close>

theorem offered_policy_is_first:
  assumes "can_redeem_element vc table customer u skip m k = Inr el" "el_policy el = Some p"
  shows "\<exists>ps. get_queryset vc customer = Inr ps \<and> p \<in> set ps \<and> is_redemption_enabled p \<and>
    redeemable_now vc table u k skip p \<and> \<not> el_has_successful_redemption el \<and>
    (\<forall>q \<in> set ps. redeemable_now vc table u k skip q \<longrightarrow> q = p \<or> before (vc_env vc) p q)"
proof -
  obtain redeemable non_redeemable where
    ev: "evaluate_policies vc table customer u k skip = Inr (redeemable, non_redeemable)"
    and p: "redeemable \<noteq> []" "p = hd redeemable" and none: "\<not> el_has_successful_redemption el"
    by (rule offered_policy [OF assms])
  from ev obtain c ps where ps: "get_queryset vc customer = Inr ps"
    and mem: "set redeemable = {p \<in> set ps. redeemable_now vc table u k skip p}"
    and sorted: "sorted_wrt (before (vc_env vc)) redeemable"
    by (rule evaluated_policies)
  from ps have "\<forall>q \<in> set ps. is_redemption_enabled q"
    by (auto simp: get_queryset_def policies_with_redemption_enabled_def is_redemption_enabled_def
        split: option.splits)
  moreover have "p \<in> set redeemable" using p by simp
  moreover have "q = p \<or> before (vc_env vc) p q" if "q \<in> set redeemable" for q
    using sorted that p by (cases redeemable) auto
  ultimately show ?thesis using ps none unfolding mem by blast
qed

section \<open>Offers and membership\<close>

lemma base_of_member:
  assumes "can_redeem_base env p u k True d = Inr (True, r0, txs)" "includes_learner env p u = Inr (member, r)"
  shows "can_redeem_base env p u k False d = Inr (if member then (True, r0, txs) else (False, r, []))"
  using assms by (auto simp: can_redeem_base_def split: if_splits)

lemma copy_context_keys [simp]:
  "sap_uuid (copy_context_to p) = sap_uuid p"
  "sap_enterprise_customer_uuid (copy_context_to p) = sap_enterprise_customer_uuid p"
  by (simp_all add: copy_context_to_def)

lemma includes_learner_copy: "includes_learner env (copy_context_to p) u = includes_learner env p u"
  unfolding includes_learner_def copy_context_keys by (rule refl)

text \<open>Every class first asks the base class, then makes its own checks.\<close>

lemma guarded_by_base:
  assumes "rbind (can_redeem_base env p u k True d)
      (\<lambda>(ok, reason, txs). if \<not> ok then Inr (False, reason, txs) else own txs) = Inr (True, r0, txs0)"
    and "includes_learner env p u = Inr (member, r)"
  shows "rbind (can_redeem_base env p u k False d)
      (\<lambda>(ok, reason, txs). if \<not> ok then Inr (False, reason, txs) else own txs) =
    Inr (if member then (True, r0, txs0) else (False, r, []))"
proof -
  from assms(1) obtain r1 txs1 where "can_redeem_base env p u k True d = Inr (True, r1, txs1)"
    and own: "own txs1 = Inr (True, r0, txs0)"
    by (auto simp: rbind_Inr_iff split: if_splits)
  from base_of_member [OF this(1) assms(2)] own show ?thesis by simp
qed

lemma redeemable_for_member:
  assumes can: "can_redeem env table p u k True False = Inr (True, r0, txs)"
    and member: "includes_learner env p u = Inr (member, r)"
  shows "can_redeem env table p u k False False = Inr (if member then (True, r0, txs) else (False, r, []))"
proof (cases "sap_policy_type p")
  case PER_LEARNER_ENROLLMENT_CREDIT
  with can show ?thesis
    unfolding can_redeem_def can_redeem_enrollment_def
    by (simp only: policy_type.case guarded_by_base [OF _ member])
next
  case ASSIGNED_LEARNER_CREDIT
  with can show ?thesis
    unfolding can_redeem_def can_redeem_assigned_def
    by (simp only: policy_type.case guarded_by_base [OF _ member])
next
  case PER_LEARNER_SPEND_CREDIT
  show ?thesis
  proof (cases "bnr_enabled p")
    case True
    with can PER_LEARNER_SPEND_CREDIT
      guarded_by_base [where p = "copy_context_to p", unfolded includes_learner_copy, OF _ member]
    show ?thesis
      unfolding can_redeem_def can_redeem_spend_def assignment_request_can_redeem_def can_redeem_assigned_def
      by (simp only: policy_type.case if_True)
  next
    case False
    with can PER_LEARNER_SPEND_CREDIT guarded_by_base [OF _ member] show ?thesis
      unfolding can_redeem_def can_redeem_spend_def
      by (simp only: policy_type.case if_False)
  qed
qed

text \<open>An offer that is checked without the membership of the learner holds exactly for members:
  redeeming the offered policy gets through its check when the learner belongs to the customer and to
  a group of the policy; otherwise the redemption is refused and changes nothing.\<close>

theorem offer_holds_for_members:
  assumes "can_redeem_element vc (rw_assignments w) customer (rq_lms_user_id d) True m (rq_content_key d) = Inr el"
    and "el_policy el = Some p"
    and "includes_learner (vc_env vc) p (rq_lms_user_id d) = Inr (member, r)"
  shows "redeemable_now vc (rw_assignments w) (rq_lms_user_id d) (rq_content_key d) False p = member \<and>
    (\<not> member \<longrightarrow> (\<exists>refused. redeem_locked vc tb p d w = (w, Inl refused)))"
proof -
  from offered_policy_basic [OF assms(1,2)] obtain r0 txs where
    "can_redeem (vc_env vc) (rw_assignments w) p (rq_lms_user_id d) (rq_content_key d) True False = Inr (True, r0, txs)"
    by blast
  from redeemable_for_member [OF this assms(3)]
  have now: "can_redeem (vc_env vc) (rw_assignments w) p (rq_lms_user_id d) (rq_content_key d) False False =
      Inr (if member then (True, r0, txs) else (False, r, []))" .
  moreover have "\<exists>refused. redeem_locked vc tb p d w = (w, Inl refused)" if "\<not> member"
    using now that
    by (cases "get_reasons_for_no_redeemable_policies vc (sap_enterprise_customer_uuid p) [(r, [p])]")
      (auto simp: redeem_locked_def catching_def)
  ultimately show ?thesis by auto
qed

section \<open>An example\<close>

text \<open>Two policies of one customer: the first is for the members of group 9.\<close>

definition demo_group_policy :: policy where
  "demo_group_policy = demo_direct"

definition demo_open_policy :: policy where
  "demo_open_policy = demo_direct\<lparr>sap_uuid := 41\<rparr>"

definition demo_context :: "bool \<Rightarrow> uuid list \<Rightarrow> view_context" where
  "demo_context kafka groups = \<lparr>
     vc_env = demo_policy_env\<lparr>pe_groups := [(40, Some 9)],
        pe_learner_record := (\<lambda>_ _. Inr (Some \<lparr>lr_enterprise_groups = groups\<rparr>))\<rparr>,
     vc_policies = [demo_group_policy, demo_open_policy],
     vc_access = rbac_of [(SYSTEM_ENTERPRISE_LEARNER_ROLE, ''acme'')] [],
     vc_user = 1, vc_is_staff = False, vc_jwt_user_id = Some 8, vc_user_lms_user_id = None,
     vc_uuid = map_of [(''acme'', 5), (''p40'', 40), (''p41'', 41)],
     vc_uuid_text = (\<lambda>u. if u = 5 then ''acme'' else if u = 40 then ''p40'' else ''p41''),
     vc_customer_data = (\<lambda>_. Inr (JObj [])),
     vc_course_prices = (\<lambda>_. Inl HTTPError),
     vc_redemptions = (\<lambda>_ _. Inr []),
     vc_error_response = None, vc_text = (\<lambda>_. []),
     vc_transactions_endpoint = [], vc_lms_url = [], vc_kafka_enabled = kafka\<rparr>"

definition demo_world :: redeem_world where
  "demo_world = \<lparr>rw_locks = Map.empty, rw_assignments = [], rw_assignment_actions = [], rw_requests = [],
     rw_request_actions = [], rw_tasks = [], rw_events = []\<rparr>"

definition demo_redeem :: redeem_data where
  "demo_redeem = \<lparr>rq_lms_user_id = 8, rq_content_key = ''edX+D'', rq_metadata = None\<rparr>"

definition demo_refusal :: refusal where
  "demo_refusal = RedemptionRequestException (Reasons [\<lparr>re_reason = Some REASON_LEARNER_NOT_IN_ENTERPRISE_GROUP,
     re_user_message = None, re_enterprise_administrators = JList [], re_policy_uuids = [40]\<rparr>])"

definition demo_element :: element where
  "demo_element = \<lparr>el_content_key = ''edX+D'', el_list_price = Some (3, 300), el_redemptions = [],
     el_has_successful_redemption = False, el_policy = Some demo_group_policy, el_reasons = [],
     el_display_reason = None\<rparr>"

lemma demo_element: "can_redeem_element (demo_context False []) [] ''acme'' 8 True [] ''edX+D'' = Inr demo_element"
  by code_simp

theorem offered_policy_is_first_witness:
  "\<exists>ps. get_queryset (demo_context False []) ''acme'' = Inr ps \<and> demo_group_policy \<in> set ps \<and>
     (\<forall>q \<in> set ps. redeemable_now (demo_context False []) [] 8 ''edX+D'' True q \<longrightarrow>
        q = demo_group_policy \<or> before (vc_env (demo_context False [])) demo_group_policy q)"
proof -
  have "el_policy demo_element = Some demo_group_policy" by (simp add: demo_element_def)
  from offered_policy_is_first [OF demo_element this] show ?thesis by blast
qed

theorem offer_holds_for_members_witness:
  "\<exists>refused. redeem_locked (demo_context False []) [] demo_group_policy demo_redeem demo_world = (demo_world, Inl refused)"
proof -
  have "el_policy demo_element = Some demo_group_policy" by (simp add: demo_element_def)
  moreover have "includes_learner (vc_env (demo_context False [])) demo_group_policy (rq_lms_user_id demo_redeem) =
      Inr (False, Some REASON_LEARNER_NOT_IN_ENTERPRISE_GROUP)" by code_simp
  moreover have "can_redeem_element (demo_context False []) (rw_assignments demo_world) ''acme''
      (rq_lms_user_id demo_redeem) True [] (rq_content_key demo_redeem) = Inr demo_element"
    using demo_element by (simp add: demo_world_def demo_redeem_def)
  ultimately show ?thesis using offer_holds_for_members by blast
qed

text \<open>A learner outside the group of a policy is offered that policy: redeeming it is refused, with a
  reason that has no message for the learner, while another policy of the customer, which the answer
  does not name, would have been redeemed.\<close>

theorem outsider_offered_group_policy:
  "(\<exists>el. can_redeem_view (demo_context False []) [] ''acme'' (Some ([''edX+D''], None)) = Inr [el] \<and>
      el_policy el = Some demo_group_policy \<and> el_reasons el = []) \<and>
   snd (redeem_view (demo_context False []) [] 3 ''p40'' (Some demo_redeem) demo_world) = Inl demo_refusal \<and>
   snd (redeem_view (demo_context False []) [] 3 ''p41'' (Some demo_redeem) demo_world) = Inr demo_tx"
proof (intro conjI)
  have "can_redeem_view (demo_context False []) [] ''acme'' (Some ([''edX+D''], None)) = Inr [demo_element]"
    "el_policy demo_element = Some demo_group_policy" "el_reasons demo_element = []"
    by code_simp+
  then show "\<exists>el. can_redeem_view (demo_context False []) [] ''acme'' (Some ([''edX+D''], None)) = Inr [el] \<and>
      el_policy el = Some demo_group_policy \<and> el_reasons el = []" by simp
  show "snd (redeem_view (demo_context False []) [] 3 ''p40'' (Some demo_redeem) demo_world) = Inl demo_refusal"
    by code_simp
  show "snd (redeem_view (demo_context False []) [] 3 ''p41'' (Some demo_redeem) demo_world) = Inr demo_tx"
    by code_simp
qed
section \<open>The lock\<close>

lemma with_lock_eq:
  "with_lock p i body w =
     (if rw_locks w (lock_resource_key p None None) \<noteq> None then (w, Inl SubsidyAccessPolicyLockedException)
      else case body (w\<lparr>rw_locks := (rw_locks w)(lock_resource_key p None None \<mapsto> i)\<rparr>) of
        (w1, r) \<Rightarrow> (w1\<lparr>rw_locks := rw_locks w\<rparr>, r))"
  by (auto simp: with_lock_def lock_def acquire_lock_def release_lock_def Let_def fun_upd_idem
      split: prod.splits)

lemma unknown_policy_forbidden:
  assumes "policy_of_text vc pu = None" "p \<noteq> PROVISIONING_CREATE_PERMISSION"
  shows "\<not> permitted vc p (Some (customer_of_policy vc pu))"
  using assms role_names_customer
  by (fastforce simp: permitted_def customer_of_policy_def perm_rule_roles simp del: perm_rule.simps)

lemma handlers_never_not_found:
  "redeem_handler vc e \<noteq> Not_Found" "allocate_handler e \<noteq> Not_Found"
  by (auto simp: redeem_handler_def allocate_handler_def subsidy_error_def split: sum.splits)

lemma locked_bodies_never_not_found:
  "snd (redeem_locked vc tb p d w) \<noteq> Inl Not_Found" "snd (allocate_locked vc p d' w) \<noteq> Inl Not_Found"
  by (auto simp: redeem_locked_def allocate_locked_def catching_def Let_def handlers_never_not_found [symmetric]
      handlers_never_not_found split: sum.splits prod.splits bool.splits)

text \<open>C28. The lock of the views. Redemption and allocation leave the locks as they were, whatever
  happens inside; while the policy is locked they change nothing and answer 400, 403 or 429. They never
  answer 404: an unknown policy has no customer, so that nobody is permitted.\<close>

theorem views_respect_the_lock:
  "rw_locks (fst (redeem_view vc tb i pu v w)) = rw_locks w \<and>
   rw_locks (fst (allocate_view vc i pu v' w)) = rw_locks w \<and>
   snd (redeem_view vc tb i pu v w) \<noteq> Inl Not_Found \<and>
   snd (allocate_view vc i pu v' w) \<noteq> Inl Not_Found \<and>
   (policy_of_text vc pu = Some p \<and> rw_locks w (lock_resource_key p None None) \<noteq> None \<longrightarrow>
      (\<exists>r r'. redeem_view vc tb i pu v w = (w, Inl r) \<and> allocate_view vc i pu v' w = (w, Inl r') \<and>
         {r, r'} \<subseteq> {Bad_Request, Forbidden, SubsidyAccessPolicyLockedException}))"
proof (intro conjI impI)
  show "rw_locks (fst (redeem_view vc tb i pu v w)) = rw_locks w"
    by (auto simp: redeem_view_def with_lock_eq split: option.splits prod.splits)
  show "rw_locks (fst (allocate_view vc i pu v' w)) = rw_locks w"
    by (auto simp: allocate_view_def with_lock_eq split: option.splits prod.splits)
  show "snd (redeem_view vc tb i pu v w) \<noteq> Inl Not_Found"
    using unknown_policy_forbidden [of vc pu SUBSIDY_ACCESS_POLICY_REDEMPTION_PERMISSION]
      locked_bodies_never_not_found(1)
    by (auto simp: redeem_view_def with_lock_eq split: option.splits prod.splits) (metis snd_conv)
  show "snd (allocate_view vc i pu v' w) \<noteq> Inl Not_Found"
    using unknown_policy_forbidden [of vc pu SUBSIDY_ACCESS_POLICY_ALLOCATION_PERMISSION]
      locked_bodies_never_not_found(2)
    by (auto simp: allocate_view_def with_lock_eq split: option.splits prod.splits) (metis snd_conv)
  assume "policy_of_text vc pu = Some p \<and> rw_locks w (lock_resource_key p None None) \<noteq> None"
  then show "\<exists>r r'. redeem_view vc tb i pu v w = (w, Inl r) \<and> allocate_view vc i pu v' w = (w, Inl r') \<and>
         {r, r'} \<subseteq> {Bad_Request, Forbidden, SubsidyAccessPolicyLockedException}"
    by (auto simp: redeem_view_def allocate_view_def with_lock_eq split: option.splits)
qed

theorem views_respect_the_lock_witness:
  "\<exists>r. redeem_view (demo_context False []) [] 3 ''p40'' (Some demo_redeem)
       (demo_world\<lparr>rw_locks := [lock_resource_key demo_group_policy None None \<mapsto> 2]\<rparr>) =
     (demo_world\<lparr>rw_locks := [lock_resource_key demo_group_policy None None \<mapsto> 2]\<rparr>, Inl r)"
proof -
  have "policy_of_text (demo_context False []) ''p40'' = Some demo_group_policy" by code_simp
  then show ?thesis
    using views_respect_the_lock [of "demo_context False []" "[]" 3 "''p40''" "Some demo_redeem"
        "demo_world\<lparr>rw_locks := [lock_resource_key demo_group_policy None None \<mapsto> 2]\<rparr>" None demo_group_policy]
    by auto
qed

section \<open>The redemption event\<close>

lemma no_event: "subsidy_redemption_event (redeem_serializer_data d) = Inl KeyError"
  by (simp add: subsidy_redemption_event_def redeem_serializer_data_def)

lemma redeem_locked_with_bus:
  assumes "redeem_locked (vc\<lparr>vc_kafka_enabled := False\<rparr>) tb p d w = (w', Inr tx)"
  shows "redeem_locked (vc\<lparr>vc_kafka_enabled := True\<rparr>) tb p d w = (w', Inl (Server_Error KeyError))"
  using assms
  by (auto simp: redeem_locked_def send_subsidy_redemption_event_to_event_bus_def no_event redeem_handler_def Let_def
      rbind_Inr_iff vbind_Inr_iff elim!: vbind_InrE split: sum.splits prod.splits bool.splits if_splits)

text \<open>C29. With the event bus switched on no redemption is ever answered: whatever is redeemed without
  the bus is redeemed with it, too, transaction and rows included, and then answered with a server
  error, because the event asks for a key that the request does not have.\<close>

theorem redemption_lost_to_the_bus:
  assumes "redeem_view (vc\<lparr>vc_kafka_enabled := False\<rparr>) tb i pu v w = (w', Inr tx)"
  shows "redeem_view (vc\<lparr>vc_kafka_enabled := True\<rparr>) tb i pu v w = (w', Inl (Server_Error KeyError))"
  using assms
  by (auto simp: redeem_view_def with_lock_eq permitted_def policy_of_text_def customer_of_policy_def
      dest: redeem_locked_with_bus split: option.splits prod.splits if_splits)

theorem redemption_lost_to_the_bus_witness:
  "\<exists>w'. redeem_view ((demo_context False [])\<lparr>vc_kafka_enabled := True\<rparr>) [] 3 ''p41'' (Some demo_redeem) demo_world =
     (w', Inl (Server_Error KeyError))"
proof -
  have "snd (redeem_view ((demo_context False [])\<lparr>vc_kafka_enabled := False\<rparr>) [] 3 ''p41'' (Some demo_redeem)
      demo_world) = Inr demo_tx" by code_simp
  then show ?thesis using redemption_lost_to_the_bus by (metis prod.collapse)
qed

section \<open>Requests\<close>

lemma rfilter_subset: "rfilter f xs = Inr ys \<Longrightarrow> set ys \<subseteq> set xs"
  by (induction xs arbitrary: ys) (auto simp: rbind_Inr_iff split: if_splits)

text \<open>The offer to request agrees with the view that creates requests: what the learner of the token
  is told they can request passes the checks of the creation, with the policy that was named.\<close>

theorem offered_request_accepted:
  assumes offer: "can_request_view vc requests customer (Some (k, requested)) = Inr (Can_Request p)"
    and learner: "learner_of_request vc requested = Some (ve_lms_user_id venv)"
    and env: "le_policies env = vc_policies vc" "distinct (map sap_uuid (vc_policies vc))"
    and world: "lw_requests w = requests"
    and data: "cd_policy_uuid data = Some pu" "pu \<noteq> []" "ve_uuid venv pu = Some (sap_uuid p)"
      "cd_course_id data = Some k"
  shows "validate_lcr_creation venv env data w = Inr (Inr p)"
proof -
  from offer obtain c valid sorted where c: "vc_uuid vc customer = Some c"
    and valid: "rfilter (\<lambda>p. catalog_contains_content_key (vc_env vc) p k)
        (filter bnr_enabled (filter (\<lambda>p. sap_enterprise_customer_uuid p = c)
           (policies_with_redemption_enabled (vc_policies vc)))) = Inr valid" "valid \<noteq> []"
    and none: "existing_request requests (ve_lms_user_id venv) c k = None"
    and sorted: "sort_subsidy_access_policies_for_redemption (vc_env vc) valid = Inr sorted"
    and p: "p = hd sorted"
    using learner
    by (auto simp: can_request_view_def get_queryset_def Let_def elim!: vbind_InrE
        split: if_splits option.splits)
  have "set valid \<subseteq> set (filter bnr_enabled (filter (\<lambda>p. sap_enterprise_customer_uuid p = c)
           (policies_with_redemption_enabled (vc_policies vc))))"
    by (rule rfilter_subset [OF valid(1)])
  moreover have "p \<in> set valid"
    using sorted_policies(1) [OF sorted] valid(2) p by (cases sorted) auto
  ultimately have policy: "p \<in> set (vc_policies vc)" "bnr_enabled p" "sap_enterprise_customer_uuid p = c"
    by (auto simp: policies_with_redemption_enabled_def)
  have "get_subsidy_access_policy (le_policies env) (sap_uuid p) = Some p"
    unfolding get_subsidy_access_policy_def env(1) by (rule find_distinct_key [OF env(2) policy(1)])
  then show ?thesis
    using none policy data world
    by (auto simp: validate_lcr_creation_def existing_request_def find_None_iff)
qed

definition demo_requestable :: policy where
  "demo_requestable = demo_open_policy\<lparr>sap_learner_credit_request_config := Some \<lparr>lcc_uuid = 90, lcc_active = True\<rparr>\<rparr>"

definition demo_request_context :: view_context where
  "demo_request_context = (demo_context False [])\<lparr>vc_policies := [demo_group_policy, demo_requestable]\<rparr>"

definition demo_learner_env :: view_env where
  "demo_learner_env = \<lparr>ve_user = 1, ve_lms_user_id = 8, ve_now = 500, ve_permitted = (\<lambda>_ _. True),
     ve_uuid = map_of [(''p41'', 41)], ve_uuid_text = (\<lambda>_. []), ve_fresh = 91\<rparr>"

theorem offered_request_accepted_witness:
  "validate_lcr_creation demo_learner_env
     \<lparr>le_policy_env = demo_policy_env, le_policies = [demo_group_policy, demo_requestable], le_locked = False\<rparr>
     \<lparr>cd_enterprise_customer_uuid = None, cd_policy_uuid = Some ''p41'', cd_course_id = Some ''edX+D'',
      cd_course_price = None\<rparr>
     \<lparr>lw_requests = [], lw_actions = [], lw_assignments = [], lw_tasks = []\<rparr> = Inr (Inr demo_requestable)"
proof (rule offered_request_accepted)
  show "can_request_view demo_request_context [] ''acme'' (Some (''edX+D'', None)) = Inr (Can_Request demo_requestable)"
    by code_simp
  show "learner_of_request demo_request_context None = Some (ve_lms_user_id demo_learner_env)" by code_simp
  show "distinct (map sap_uuid (vc_policies demo_request_context))" by code_simp
qed (simp_all add: demo_request_context_def demo_learner_env_def demo_requestable_def demo_open_policy_def)

end
