(* ===== verification/Assignment_Views_Properties.thy ===== *)
theory Assignment_Views_Properties
  imports Assignment_Views Policy_Views_Properties
begin

text \<open>
  What the admin's views over assignments show and answer, and how far the daily expiration gets
  through the rows that are due.
\<close>

section \<open>Example\<close>

definition demo_admin :: view_context where
  "demo_admin = (demo_context False [])\<lparr>
     vc_access := rbac_of [(SYSTEM_ENTERPRISE_ADMIN_ROLE, ''acme'')] [],
     vc_uuid := map_of [(''c2'', 2), (''c3'', 3)],
     vc_uuid_text := (\<lambda>u. if u = 5 then ''acme'' else ''other''),
     vc_policies := [demo_open_policy\<lparr>sap_assignment_configuration := Some demo_config\<rparr>]\<rparr>"

definition demo_store :: assignment_store where
  "demo_store = \<lparr>as_configurations = [demo_config, \<lparr>ac_uuid = 3, ac_enterprise_customer_uuid = 6, ac_active = True\<rparr>],
     as_assignments = [demo_assignment,
       demo_assignment\<lparr>lca_uuid := 12, lca_learner_email := ''x@y.z'', lca_lms_user_id := None,
         lca_state := ACCEPTED\<rparr>,
       demo_assignment\<lparr>lca_uuid := 13, lca_assignment_configuration := Some 3\<rparr>],
     as_actions = [], as_requests = [], as_tasks = []\<rparr>"

lemma demo_store_ok:
  "distinct (map lca_uuid (as_assignments demo_store))" "unique_slots (as_assignments demo_store)"
  by code_simp+

lemma demo_admin_may:
  "requested_configuration demo_admin CONTENT_ASSIGNMENT_ADMIN_READ_PERMISSION demo_store ''c2'' = Inr 2"
  "requested_configuration demo_admin CONTENT_ASSIGNMENT_ADMIN_WRITE_PERMISSION demo_store ''c2'' = Inr 2"
  "requested_configuration demo_admin CONTENT_ASSIGNMENT_ADMIN_READ_PERMISSION demo_store ''c3'' = Inl Forbidden"
  by code_simp+

section \<open>Detail view\<close>

lemma find_key:
  assumes "distinct (map k xs)" and "x \<in> set xs"
  shows "find (\<lambda>y. k y = k x) xs = Some x"
  using assms by (induction xs) (auto simp: rev_image_eqI)

lemma paginate_subset: "paginate per page xs = Inr ys \<Longrightarrow> set ys \<subseteq> set xs"
  by (auto simp: paginate_def split: if_splits dest: in_set_takeD in_set_dropD)

lemma listed_rows:
  assumes "list_assignments vc st text f order per page = Inr (rows, counts)"
    and "\<And>xs. set (order xs) = set xs"
  shows "requested_configuration vc CONTENT_ASSIGNMENT_ADMIN_READ_PERMISSION st text = Inr (the (vc_uuid vc text)) \<and>
    set rows \<subseteq> set (assignments_of st (the (vc_uuid vc text)))"
proof -
  obtain config where c: "requested_configuration vc CONTENT_ASSIGNMENT_ADMIN_READ_PERMISSION st text = Inr config"
    and p: "paginate per page (order (filter_queryset f (as_actions st) (assignments_of st config))) = Inr rows"
    using assms(1) by (auto simp: list_assignments_def Let_def elim!: vbind_InrE)
  have "config = the (vc_uuid vc text)"
    using c by (auto simp: requested_configuration_def elim!: vbind_InrE split: if_splits)
  then show ?thesis using c paginate_subset [OF p] assms(2) by (auto simp: filter_queryset_def)
qed

text \<open>C37. 
  The detail view of the admin crosses customers. An admin who may read one configuration is
  shown any stored assignment through it, whichever configuration and so whichever customer it
  belongs to; the list of the same configuration never shows such a row, and answers only who may
  read the configuration.
\<close>

theorem detail_view_crosses_customers:
  assumes may: "requested_configuration vc CONTENT_ASSIGNMENT_ADMIN_READ_PERMISSION st text = Inr config"
    and d: "distinct (map lca_uuid (as_assignments st))" and a: "a \<in> set (as_assignments st)"
    and other: "lca_assignment_configuration a \<noteq> Some config"
  shows "retrieve_assignment vc st text (lca_uuid a) = Inr a \<and>
    (list_assignments vc st text f id per page = Inr (rows, counts) \<longrightarrow> a \<notin> set rows)"
proof -
  have "the (vc_uuid vc text) = config"
    using may by (auto simp: requested_configuration_def elim!: vbind_InrE split: if_splits)
  then have "a \<notin> set rows" if "list_assignments vc st text f id per page = Inr (rows, counts)"
    using listed_rows [OF that] other by (auto simp: assignments_of_def)
  then show ?thesis using may find_key [OF d a] by (simp add: retrieve_assignment_def)
qed

theorem detail_view_crosses_customers_witness:
  "\<exists>a. retrieve_assignment demo_admin demo_store ''c2'' 13 = Inr a \<and> lca_assignment_configuration a = Some 3 \<and>
     retrieve_assignment demo_admin demo_store ''c3'' 13 = Inl Forbidden"
proof -
  define a where "a = demo_assignment\<lparr>lca_uuid := 13, lca_assignment_configuration := Some 3\<rparr>"
  have a: "a \<in> set (as_assignments demo_store)" "lca_assignment_configuration a \<noteq> Some 2" "lca_uuid a = 13"
    "lca_assignment_configuration a = Some 3"
    by (simp_all add: a_def demo_store_def)
  show ?thesis
    using detail_view_crosses_customers [OF demo_admin_may(1) demo_store_ok(1) a(1,2)] a(3,4)
    by (auto simp: retrieve_assignment_def demo_admin_may(3))
qed

section \<open>Bulk operations\<close>

lemma asked_assignments_sub: "set (asked_assignments st config us) \<subseteq> set (as_assignments st)"
  by (auto simp: asked_assignments_def assignments_of_def)

lemma asked_assignments_filter:
  "set (asked_assignments st config us) =
     {a \<in> set (as_assignments st). lca_assignment_configuration a = Some config \<and> lca_uuid a \<in> set us}"
  by (auto simp: asked_assignments_def assignments_of_def)

lemma filter_asked:
  "filter (\<lambda>a. a \<in> set (asked_assignments st config us) \<and> P a) (as_assignments st) =
     filter P (asked_assignments st config us)"
  unfolding asked_assignments_def assignments_of_def filter_filter by (rule filter_cong) auto

text \<open>C38. 
  What the admin's bulk reminder answers. Exactly the allocated rows among those asked for are
  reminded, in the order of the table, and nothing but their time of change is written. The answer is 422 only
  when fewer rows were found than UUIDs were sent: a row that cannot be reminded is passed over and the
  answer is 200, because the view looks up a key that the response of \<open>remind_assignments\<close>
  does not have.
\<close>

theorem remind_view_passes_over:
  assumes may: "requested_configuration vc CONTENT_ASSIGNMENT_ADMIN_WRITE_PERMISSION st text = Inr config"
    and us: "valid_uuids uuids = Some us"
    and d: "distinct (map lca_uuid (as_assignments st))" and un: "unique_slots (as_assignments st)"
  shows "remind_assignments_view vc now st text uuids =
    (st\<lparr>as_assignments := map (\<lambda>a. if lca_assignment_configuration a = Some config \<and> lca_uuid a \<in> set us \<and>
            lca_state a = ALLOCATED then a\<lparr>lca_modified := now\<rparr> else a) (as_assignments st),
        as_tasks := as_tasks st @ map (\<lambda>a. Send_Reminder_Email (lca_uuid a))
          (filter (\<lambda>a. lca_state a = ALLOCATED) (asked_assignments st config us))\<rparr>,
     if length (asked_assignments st config us) < length us then 422 else 200)"
proof -
  obtain r where r: "remind_assignments now (as_assignments st) (asked_assignments st config us) = Inr r"
    "rm_table r = map (\<lambda>a. if a \<in> set (asked_assignments st config us) \<and> lca_state a = ALLOCATED
        then a\<lparr>lca_modified := now\<rparr> else a) (as_assignments st)"
    "rm_tasks r = map (\<lambda>a. Send_Reminder_Email (lca_uuid a))
      (filter (\<lambda>a. lca_state a = ALLOCATED) (asked_assignments st config us))"
    using reminded_rows [OF d un asked_assignments_sub [of st config us], of now] unfolding filter_asked by blast
  have "rm_table r = map (\<lambda>a. if lca_assignment_configuration a = Some config \<and> lca_uuid a \<in> set us \<and>
            lca_state a = ALLOCATED then a\<lparr>lca_modified := now\<rparr> else a) (as_assignments st)"
    unfolding r(2) asked_assignments_filter by (rule map_cong) auto
  then show ?thesis using may us r(1,3)
    by (simp add: remind_assignments_view_def store_reminded_def response_get_def remind_response_def)
qed

theorem remind_view_passes_over_witness:
  "snd (remind_assignments_view demo_admin 9 demo_store ''c2'' (Some [Some 11, Some 12])) = 200 \<and>
   as_tasks (fst (remind_assignments_view demo_admin 9 demo_store ''c2'' (Some [Some 11, Some 12]))) = [Send_Reminder_Email 11]"
proof -
  have us: "valid_uuids (Some [Some 11, Some 12]) = Some [11, 12]" by (simp add: valid_uuids_def)
  show ?thesis
    unfolding remind_view_passes_over [OF demo_admin_may(2) us demo_store_ok]
    by (simp add: asked_assignments_def assignments_of_def demo_store_def demo_assignment_def)
qed

text \<open>C39. 
  What the admin's bulk cancellation does and answers. Exactly the allocated and errored rows of the
  configuration among those asked for become cancelled. The answer is 422 when one of the rows can
  no longer be cancelled or fewer rows were found than UUIDs were sent, a repeated UUID included;
  the other rows are cancelled all the same.
\<close>

theorem cancel_view_exact:
  assumes may: "requested_configuration vc CONTENT_ASSIGNMENT_ADMIN_WRITE_PERMISSION st text = Inr config"
    and us: "valid_uuids uuids = Some us"
    and d: "distinct (map lca_uuid (as_assignments st))" and un: "unique_slots (as_assignments st)"
  shows "as_assignments (fst (cancel_assignments_view vc now st text uuids)) =
      map (\<lambda>a. if lca_assignment_configuration a = Some config \<and> lca_uuid a \<in> set us \<and>
              lca_state a \<in> {ALLOCATED, ERRORED}
            then a\<lparr>lca_state := CANCELLED, lca_modified := now\<rparr> else a) (as_assignments st) \<and>
    snd (cancel_assignments_view vc now st text uuids) =
      (if (\<exists>a \<in> set (asked_assignments st config us). lca_state a \<in> {ACCEPTED, EXPIRED, REVERSED}) \<or>
          length (asked_assignments st config us) < length us then 422 else 200) \<and>
    (\<not> distinct us \<longrightarrow> snd (cancel_assignments_view vc now st text uuids) = 422)"
proof -
  define as where "as = asked_assignments st config us"
  have sub: "set as \<subseteq> set (as_assignments st)" unfolding as_def by (rule asked_assignments_sub)
  obtain r where r: "cancel_assignments now (as_assignments st) as True = Inr r"
    using cancel_closed [OF d sub, of now True] un by simp
  note c = cancelled_rows [OF r d sub]
  have t: "cn_table r = map (\<lambda>a. if lca_assignment_configuration a = Some config \<and> lca_uuid a \<in> set us \<and>
              lca_state a \<in> {ALLOCATED, ERRORED}
            then a\<lparr>lca_state := CANCELLED, lca_modified := now\<rparr> else a) (as_assignments st)"
    unfolding conjunct1 [OF c] as_def asked_assignments_filter by (rule map_cong) auto
  have state: "lca_state a \<notin> {ALLOCATED, ERRORED, CANCELLED} \<longleftrightarrow> lca_state a \<in> {ACCEPTED, EXPIRED, REVERSED}" for a
    by (cases "lca_state a") auto
  have n: "cn_non_cancelable r \<noteq> [] \<longleftrightarrow> (\<exists>a \<in> set as. lca_state a \<in> {ACCEPTED, EXPIRED, REVERSED})"
  proof -
    have "set (cn_non_cancelable r) = {a \<in> set as. lca_state a \<in> {ACCEPTED, EXPIRED, REVERSED}}"
      using conjunct1 [OF conjunct2 [OF conjunct2 [OF c]]] unfolding state .
    then have "cn_non_cancelable r \<noteq> [] \<longleftrightarrow> {a \<in> set as. lca_state a \<in> {ACCEPTED, EXPIRED, REVERSED}} \<noteq> {}"
      by (metis set_empty)
    then show ?thesis by blast
  qed
  have view: "cancel_assignments_view vc now st text uuids =
    (store_cancelled st r, if (\<exists>a \<in> set as. lca_state a \<in> {ACCEPTED, EXPIRED, REVERSED}) \<or> length as < length us then 422 else 200)"
    using may us r unfolding cancel_assignments_view_def Let_def as_def [symmetric] n [symmetric]
    by (simp add: response_get_def cancel_response_def as_def)
  have "length as < length us" if "\<not> distinct us"
  proof -
    have "distinct (map lca_uuid as)"
      unfolding as_def asked_assignments_def assignments_of_def by (intro distinct_map_filter d)
    moreover have "set (map lca_uuid as) \<subseteq> set us" by (auto simp: as_def asked_assignments_filter)
    ultimately have "length as \<le> card (set us)" by (metis card_mono distinct_card length_map List.finite_set)
    also have "\<dots> < length us" using that card_distinct card_length le_neq_implies_less by blast
    finally show ?thesis .
  qed
  then show ?thesis using t unfolding view as_def [symmetric] by (simp add: store_cancelled_def)
qed

theorem cancel_view_exact_witness:
  "snd (cancel_assignments_view demo_admin 9 demo_store ''c2'' (Some [Some 11, Some 11])) = 422 \<and>
   map lca_state (as_assignments (fst (cancel_assignments_view demo_admin 9 demo_store ''c2'' (Some [Some 11, Some 11])))) =
     [CANCELLED, ACCEPTED, ALLOCATED]"
proof -
  have us: "valid_uuids (Some [Some 11, Some 11]) = Some [11, 11]" by (simp add: valid_uuids_def)
  show ?thesis
    using cancel_view_exact [OF demo_admin_may(2) us demo_store_ok, of 9]
    by (simp add: demo_store_def demo_assignment_def)
qed

section \<open>The daily expiration\<close>

definition expired_now :: "datetime \<Rightarrow> assignments \<Rightarrow> learner_content_assignment \<Rightarrow> learner_content_assignment" where
  "expired_now now rows a =
     (if a \<in> set rows then a\<lparr>lca_state := EXPIRED, lca_expired_at := Some now, lca_modified := now\<rparr> else a)"

lemma expired_now_simps [simp]:
  "lca_uuid (expired_now now rows a) = lca_uuid a"
  "lca_assignment_configuration (expired_now now rows a) = lca_assignment_configuration a"
  "lca_content_key (expired_now now rows a) = lca_content_key a"
  "lca_learner_email (expired_now now rows a) = lca_learner_email a"
  "lca_lms_user_id (expired_now now rows a) = lca_lms_user_id a"
  by (simp_all add: expired_now_def)

lemma unique_slots_expired_now: "unique_slots (map (expired_now now rows) table) \<longleftrightarrow> unique_slots table"
  by (rule unique_slots_map) simp_all

text \<open>A row that is ninety days old and has no credit request behind it is always expired.\<close>

lemma due_row_expires:
  assumes se: "parse_datetime_string se = Inr sd"
    and d: "distinct (map lca_uuid table)" and un: "unique_slots table" and a: "a \<in> set table"
    and due: "lca_state a = ALLOCATED" "lca_allocated_at a + days 90 \<le> now"
  shows "\<exists>e. expire_assignment now se fetch table [] a cm True = Inr e \<and>
    ex_table e = map (expired_now now [a]) table \<and> ex_requests e = []"
proof -
  have none: "credit_request_of [] a = None" by (simp add: credit_request_of_def)
  obtain date reason where auto:
    "get_automatic_expiration_date_and_reason now se fetch [] a cm = Inr (date, reason)"
    by (simp add: get_automatic_expiration_date_and_reason_def se get_enrollment_deadline_date_def none Let_def prod_eq_iff)
  obtain t where sv: "save_assignment now (a\<lparr>lca_state := EXPIRED, lca_expired_at := Some now\<rparr>) table = Inr t"
    using save_assignment_keeps_slots [where s = EXPIRED and e = "Some now" and r = "lca_reversed_at a" and now = now,
        OF d un a refl] by simp
  have "\<exists>e. expire_assignment now se fetch table [] a cm True = Inr e"
    by (simp add: expire_assignment_def Let_def none auto sv)
  then obtain e where run: "expire_assignment now se fetch table [] a cm True = Inr e" ..
  note row = expired_row [OF run d un a]
  have ex: "ex_reason e \<noteq> None" using row due by blast
  have "ex_table e = map (expired_now now [a]) table" "ex_requests e = []"
    using row ex none by (auto simp: expired_now_def)
  then show ?thesis using run by blast
qed

lemma expired_now_comp:
  assumes "distinct (map lca_uuid table)" and "a \<in> set table" and "set as \<subseteq> set table" and "a \<notin> set as"
    and b: "b \<in> set table"
  shows "expired_now now as (expired_now now [a] b) = expired_now now (a # as) b"
proof (cases "b = a")
  case True
  define c where "c = a\<lparr>lca_state := EXPIRED, lca_expired_at := Some now, lca_modified := now\<rparr>"
  have "c \<notin> set as"
  proof
    assume c: "c \<in> set as"
    moreover have "lca_uuid c = lca_uuid a" by (simp add: c_def)
    ultimately have "c = a" using distinct_key_inj [OF assms(1) _ assms(2)] assms(3) by blast
    with c assms(4) show False by simp
  qed
  then have "expired_now now as c = c" by (simp add: expired_now_def)
  moreover have "expired_now now [a] b = c" "expired_now now (a # as) b = c"
    using True by (simp_all add: expired_now_def c_def)
  ultimately show ?thesis by simp
qed (simp add: expired_now_def)

lemma expire_rows_all:
  assumes se: "parse_datetime_string se = Inr sd"
    and "distinct (map lca_uuid (as_assignments st))" and "unique_slots (as_assignments st)"
    and "as_requests st = []" and "set as \<subseteq> set (as_assignments st)" and "distinct as"
    and "\<And>a. a \<in> set as \<Longrightarrow> lca_state a = ALLOCATED \<and> lca_allocated_at a + days 90 \<le> now"
  shows "\<exists>ts. expire_rows now (Inr se) fetch False metadata as st =
    (st\<lparr>as_assignments := map (expired_now now as) (as_assignments st), as_tasks := ts\<rparr>, Inr ())"
  using assms(2-)
proof (induction as arbitrary: st)
  case Nil
  have "map (expired_now now []) (as_assignments st) = as_assignments st" by (simp add: expired_now_def map_idI)
  then show ?case by (intro exI [of _ "as_tasks st"]) simp
next
  case (Cons a as)
  have a: "a \<in> set (as_assignments st)" "a \<notin> set as" and sub: "set as \<subseteq> set (as_assignments st)"
    using Cons.prems by auto
  obtain e where e: "expire_assignment now se fetch (as_assignments st) [] a (metadata a) True = Inr e"
    "ex_table e = map (expired_now now [a]) (as_assignments st)" "ex_requests e = []"
    using due_row_expires [OF se Cons.prems(1,2) a(1), of now fetch "metadata a"] Cons.prems(6) [of a] by auto
  define st1 where "st1 = store_expired st e"
  have st1: "as_assignments st1 = map (expired_now now [a]) (as_assignments st)" "as_requests st1 = []"
    by (simp_all add: st1_def store_expired_def e)
  have keep: "set as \<subseteq> set (as_assignments st1)"
    using sub a by (force simp: st1 expired_now_def image_iff)
  have "\<exists>ts. expire_rows now (Inr se) fetch False metadata as st1 =
      (st1\<lparr>as_assignments := map (expired_now now as) (as_assignments st1), as_tasks := ts\<rparr>, Inr ())"
    using Cons.prems keep by (intro Cons.IH) (auto simp: st1 o_def unique_slots_expired_now)
  then obtain ts where ih: "expire_rows now (Inr se) fetch False metadata as st1 =
      (st1\<lparr>as_assignments := map (expired_now now as) (as_assignments st1), as_tasks := ts\<rparr>, Inr ())" ..
  have same: "map (expired_now now as) (as_assignments st1) = map (expired_now now (a # as)) (as_assignments st)"
    unfolding st1 map_map o_def
    by (rule map_cong [OF refl]) (rule expired_now_comp [OF Cons.prems(1) a(1) sub a(2)])
  have "expire_rows now (Inr se) fetch False metadata (a # as) st =
      expire_rows now (Inr se) fetch False metadata as st1"
    by (simp add: Cons.prems(3) e(1) st1_def)
  moreover have "st1\<lparr>as_assignments := t, as_tasks := ts\<rparr> = st\<lparr>as_assignments := t, as_tasks := ts\<rparr>" for t
    using Cons.prems(3) by (cases st) (simp add: st1_def store_expired_def e(3))
  ultimately show ?case unfolding ih same by (intro exI [of _ ts]) (simp only:)
qed

text \<open>The rows that are left to a page, when every row of the pages before has been expired.\<close>

fun rows_left :: "nat \<Rightarrow> nat \<Rightarrow> nat list \<Rightarrow> nat \<Rightarrow> nat" where
  "rows_left per count [] n = n"
| "rows_left per count (p # ps) n = rows_left per count ps (n - min (min per (count - p * per)) (n - p * per))"

lemma rows_left_append: "rows_left per count (ps @ qs) n = rows_left per count qs (rows_left per count ps n)"
  by (induction ps arbitrary: n) auto

lemma page_step:
  fixes per k r j :: nat
  assumes "0 < per" and "r < 2 * per"
  defines "N \<equiv> k * (2 * per) + r" and "E \<equiv> k * per + min per r"
  shows "N - min (j * per) E - min (min per (N - j * per)) (N - min (j * per) E - j * per) =
    N - min (Suc j * per) E"
proof (cases "j < k")
  case True
  then obtain i where k: "k = Suc (j + i)" using less_imp_Suc_add by blast
  show ?thesis by (simp add: N_def E_def k algebra_simps)
next
  case False
  then consider "j = k" | i where "j = Suc (k + i)" by (metis less_imp_Suc_add linorder_neqE_nat)
  then show ?thesis
  proof cases
    case 1
    then show ?thesis using assms(2) by (auto simp: N_def E_def algebra_simps min_def)
  next
    case (2 i)
    have e: "E \<le> j * per" by (auto simp: E_def 2 algebra_simps min_def)
    then have "min (j * per) E = E" "min (Suc j * per) E = E" by (auto simp: min_def)
    moreover have "N - E - j * per = 0"
      using assms(2) by (auto simp: N_def E_def 2 algebra_simps min_def)
    ultimately show ?thesis by simp
  qed
qed

lemma rows_left_closed:
  assumes "0 < per" and "r < 2 * per"
  shows "rows_left per (k * (2 * per) + r) [0..<j] (k * (2 * per) + r) =
    k * (2 * per) + r - min (j * per) (k * per + min per r)"
proof (induction j)
  case (Suc j)
  then show ?case using page_step [OF assms, of k j] by (simp add: rows_left_append)
qed simp

lemma page_count_covers:
  assumes "0 < per"
  shows "n \<le> page_count per n * per"
proof -
  define m where "m = max 1 n + per - 1"
  have "m mod per < per" using assms by simp
  then have "m < m div per * per + per" using div_mult_mod_eq [of m per] by linarith
  moreover have "n \<le> m + 1 - per" using assms by (simp add: m_def)
  ultimately show ?thesis using assms unfolding page_count_def m_def [symmetric] by linarith
qed

lemma rows_left_all:
  assumes "0 < per"
  shows "rows_left per n [0..<page_count per n] n = n - (n div (2 * per) * per + min per (n mod (2 * per)))"
proof -
  define k r where "k = n div (2 * per)" and "r = n mod (2 * per)"
  have n: "n = k * (2 * per) + r" unfolding k_def r_def by (rule div_mult_mod_eq [symmetric])
  have r: "r < 2 * per" using assms by (simp add: r_def)
  have "k * per + min per r \<le> n" by (auto simp: n min_def)
  then have "min (page_count per n * per) (k * per + min per r) = k * per + min per r"
    using page_count_covers [OF assms, of n] by linarith
  then show ?thesis using rows_left_closed [OF assms r, of k "page_count per n"] by (simp add: n [symmetric] k_def [symmetric] r_def [symmetric])
qed

lemma filter_expired_now:
  "filter (\<lambda>a. lca_state a = ALLOCATED \<and> Q (lca_assignment_configuration a)) (map (expired_now now rows) xs) =
     filter (\<lambda>a. (lca_state a = ALLOCATED \<and> Q (lca_assignment_configuration a)) \<and> a \<notin> set rows) xs"
  by (induction xs) (auto simp: expired_now_def)

lemma possibly_expired_alt:
  "possibly_expired config st =
     filter (\<lambda>a. lca_state a = ALLOCATED \<and> lca_assignment_configuration a = Some config) (as_assignments st)"
  unfolding possibly_expired_def assignments_of_def filter_filter by (simp add: expirable_states_def conj_commute)

lemma possibly_expired_rest:
  "possibly_expired config (st\<lparr>as_assignments := map (expired_now now rows) (as_assignments st), as_tasks := ts\<rparr>) =
     filter (\<lambda>a. a \<notin> set rows) (possibly_expired config st)"
  unfolding possibly_expired_alt filter_filter
  using filter_expired_now [of "\<lambda>c. c = Some config" now rows "as_assignments st"] by simp

lemma length_without:
  assumes "distinct xs" and "set ys \<subseteq> set xs" and "distinct ys"
  shows "length (filter (\<lambda>x. x \<notin> set ys) xs) = length xs - length ys"
proof -
  have "length (filter (\<lambda>x. x \<notin> set ys) xs) = card (set xs - set ys)"
    using distinct_card [of "filter (\<lambda>x. x \<notin> set ys) xs"] assms(1) by (simp add: set_diff_eq)
  then show ?thesis using assms by (simp add: card_Diff_subset distinct_card)
qed

lemma page_slice_props:
  "set (page_slice per count p rows) \<subseteq> set rows"
  "distinct rows \<Longrightarrow> distinct (page_slice per count p rows)"
  "length (page_slice per count p rows) = min (min per (count - p * per)) (length rows - p * per)"
  by (auto simp: page_slice_def min.commute dest: in_set_takeD in_set_dropD)

lemma expire_pages_left:
  assumes se: "parse_datetime_string se = Inr sd"
    and "distinct (map lca_uuid (as_assignments st))" and "unique_slots (as_assignments st)"
    and "as_requests st = []"
    and "\<And>a. a \<in> set (possibly_expired config st) \<Longrightarrow> lca_allocated_at a + days 90 \<le> now"
  shows "\<exists>st'. expire_pages now (Inr se) fetch False per config count ps st = (st', Inr ()) \<and>
    length (possibly_expired config st') = rows_left per count ps (length (possibly_expired config st))"
  using assms(2-)
proof (induction ps arbitrary: st)
  case (Cons p ps)
  define page where "page = page_slice per count p (possibly_expired config st)"
  have rows: "set (possibly_expired config st) \<subseteq> set (as_assignments st)" "distinct (possibly_expired config st)"
    using Cons.prems(1) by (auto simp: possibly_expired_alt distinct_map)
  have page: "set page \<subseteq> set (possibly_expired config st)" "distinct page"
    "length page = min (min per (count - p * per)) (length (possibly_expired config st) - p * per)"
    by (simp_all add: page_def page_slice_props rows(2))
  have due: "lca_state a = ALLOCATED \<and> lca_allocated_at a + days 90 \<le> now" if "a \<in> set page" for a
    using that page(1) Cons.prems(4) by (auto simp: possibly_expired_alt)
  obtain ts where run: "expire_rows now (Inr se) fetch False (page_metadata fetch page) page st =
      (st\<lparr>as_assignments := map (expired_now now page) (as_assignments st), as_tasks := ts\<rparr>, Inr ())"
    using expire_rows_all [OF se Cons.prems(1,2,3) subset_trans [OF page(1) rows(1)] page(2) due] by blast
  define st1 where "st1 = st\<lparr>as_assignments := map (expired_now now page) (as_assignments st), as_tasks := ts\<rparr>"
  have rest: "possibly_expired config st1 = filter (\<lambda>a. a \<notin> set page) (possibly_expired config st)"
    unfolding st1_def by (rule possibly_expired_rest)
  have "\<exists>st'. expire_pages now (Inr se) fetch False per config count ps st1 = (st', Inr ()) \<and>
    length (possibly_expired config st') = rows_left per count ps (length (possibly_expired config st1))"
  proof (rule Cons.IH)
    show "lca_allocated_at a + days 90 \<le> now" if "a \<in> set (possibly_expired config st1)" for a
      using that Cons.prems(4) unfolding rest by simp
  qed (use Cons.prems in \<open>simp_all add: st1_def o_def unique_slots_expired_now\<close>)
  then show ?case
    using length_without [OF rows(2) page(1,2)]
    by (simp add: Let_def page_def [symmetric] run st1_def [symmetric] rest page(3))
qed simp

text \<open>C40. 
  The daily expiration skips rows. When no credit request stands behind a row and all \<open>N\<close> rows of one
  configuration that can expire are ninety days old, one pass over it with pages of size \<open>per\<close> ends without error and leaves about half of them
  allocated: each page is counted from the start of the query that the earlier pages have shortened. Of
  \<open>2 * k * per\<close> such rows exactly \<open>k * per\<close> remain; none remain only up to one page. The command uses
  pages of 100.
\<close>

theorem daily_expiration_skips:
  assumes per: "0 < per" and policy: "policy_of_configuration vc (ac_uuid c) = Some p"
    and se: "subsidy_expiration p = Inr se" "parse_datetime_string se = Inr sd"
    and d: "distinct (map lca_uuid (as_assignments st))" and un: "unique_slots (as_assignments st)"
    and requests: "as_requests st = []"
    and due: "\<And>a. a \<in> set (possibly_expired (ac_uuid c) st) \<Longrightarrow> lca_allocated_at a + days 90 \<le> now"
    and n: "length (possibly_expired (ac_uuid c) st) = N"
  shows "snd (expire_configurations vc now subsidy_expiration fetch False per [c] st) = Inr () \<and>
    length (possibly_expired (ac_uuid c) (fst (expire_configurations vc now subsidy_expiration fetch False per [c] st))) =
      N - (N div (2 * per) * per + min per (N mod (2 * per)))"
proof -
  obtain st' where "expire_pages now (Inr se) (fetch (sap_catalog_uuid p)) False per (ac_uuid c) N
      [0..<page_count per N] st = (st', Inr ())"
    "length (possibly_expired (ac_uuid c) st') = rows_left per N [0..<page_count per N] N"
    using expire_pages_left [OF se(2) d un requests due] n by blast
  then show ?thesis by (simp add: policy se(1) n rows_left_all [OF per] Let_def)
qed

definition demo_due_store :: assignment_store where
  "demo_due_store = demo_store\<lparr>as_assignments :=
     [demo_assignment, demo_assignment\<lparr>lca_uuid := 12, lca_learner_email := ''x@y.z'', lca_lms_user_id := None\<rparr>]\<rparr>"

theorem daily_expiration_skips_witness:
  "length (possibly_expired 2 demo_due_store) = 2 \<and>
   length (possibly_expired 2 (fst (expire_configurations demo_admin (days 91) (\<lambda>_. Inr None) (\<lambda>_ _. []) False 1
     [demo_config] demo_due_store))) = 1"
proof -
  have d: "distinct (map lca_uuid (as_assignments demo_due_store))" "unique_slots (as_assignments demo_due_store)"
    "as_requests demo_due_store = []" by code_simp+
  have n: "length (possibly_expired (ac_uuid demo_config) demo_due_store) = 2" by code_simp
  have due: "lca_allocated_at a + days 90 \<le> days 91" if "a \<in> set (possibly_expired (ac_uuid demo_config) demo_due_store)" for a
  proof -
    have "list_all (\<lambda>a. lca_allocated_at a + days 90 \<le> days 91) (possibly_expired (ac_uuid demo_config) demo_due_store)"
      by code_simp
    then show ?thesis using that by (simp add: list_all_iff)
  qed
  have p: "policy_of_configuration demo_admin (ac_uuid demo_config) =
      Some (demo_open_policy\<lparr>sap_assignment_configuration := Some demo_config\<rparr>)"
    by (simp add: policy_of_configuration_def demo_admin_def)
  show ?thesis
    using daily_expiration_skips [OF zero_less_one p refl parse_datetime_string.simps(1) d due n,
        where fetch = "\<lambda>_ _. []"] n
    by (simp add: demo_config_def)
qed

end
