(* ===== verification/Learner_Portal.thy ===== *)
theory Learner_Portal
  imports Api_Client
begin

text \<open>
  The backend of the learner portal (\<^verbatim>\<open>bffs/api.py\<close>, \<^verbatim>\<open>bffs/context.py\<close>, \<^verbatim>\<open>bffs/mixins.py\<close>,
  \<^verbatim>\<open>bffs/handlers.py\<close>): the caches in front of the services, the choice of the customer of a request, the
  licenses a learner sees, their activation and automatic application, the default enrollments, and the
  enrollments of the dashboard.

  A request carries a state: the services, the cache, the messages and the data of its context. The cache
  keeps a value until its timeout; a key is the list of its components (the code hashes them).
  \<open>po_subscriptions\<close> is the dictionary the code keeps as \<open>subscriptions\<close> in the entry
  \<open>enterprise_customer_user_subsidies\<close> of the data.
\<close>

section \<open>Request, state and messages\<close>

datatype bff_key =
    Customer_Key json json
  | Algolia_Key json "int option"
  | Licenses_Key json "int option"
  | Intentions_Key json "int option"
  | Enrollments_Key json "int option"

record bff_message =
  bm_user_message :: string
  bm_cause :: "py_error option"

record 'x portal =
  po_services :: 'x
  po_cache :: "bff_key \<Rightarrow> (json \<times> datetime) option"
  po_status :: int
  po_errors :: "bff_message list"
  po_warnings :: "bff_message list"
  po_customer_uuid :: json
  po_customer_slug :: json
  po_features :: json
  po_data :: "(string \<times> json) list"
  po_subscriptions :: "(string \<times> json) list"

record 'x portal_env =
  pv_api :: "'x api"
  pv_now :: datetime
  pv_user_id :: int
  pv_username :: string
  pv_lms_user_id :: "int option"
  pv_is_staff :: bool
  pv_query :: "(string \<times> json) list"
  pv_body :: "json option"
  pv_timeout :: "bff_key \<Rightarrow> int"
  pv_text :: "json \<Rightarrow> string"

definition add_error :: "string \<Rightarrow> py_error option \<Rightarrow> int option \<Rightarrow> 'x portal \<Rightarrow> 'x portal" where
  "add_error message cause status p =
     p\<lparr>po_errors := po_errors p @ [\<lparr>bm_user_message = message, bm_cause = cause\<rparr>],
       po_status := (case status of None \<Rightarrow> po_status p | Some s \<Rightarrow> s)\<rparr>"

definition add_warning :: "string \<Rightarrow> 'x portal \<Rightarrow> 'x portal" where
  "add_warning message p = p\<lparr>po_warnings := po_warnings p @ [\<lparr>bm_user_message = message, bm_cause = None\<rparr>]\<rparr>"

text \<open>A developer's message that is a tuple is not valid for the serializer of errors.\<close>

definition add_error_with_tuple :: "'x portal \<Rightarrow> 'x portal \<times> unit result" where
  "add_error_with_tuple p = (p, Inl ValidationError)"

text \<open>\<open>try: ... except Exception as exc: add_error(message, exc)\<close>\<close>

definition catching :: "string \<Rightarrow> 'x portal \<times> unit result \<Rightarrow> 'x portal \<times> unit result" where
  "catching message m = (case m of (p, Inl e) \<Rightarrow> (add_error message (Some e) None p, Inr ()) | (p, Inr _) \<Rightarrow> (p, Inr ()))"

definition data_get :: "'x portal \<Rightarrow> string \<Rightarrow> json \<Rightarrow> json" where
  "data_get p k d = (case map_of (po_data p) k of None \<Rightarrow> d | Some v \<Rightarrow> v)"

definition data_put :: "string \<Rightarrow> json \<Rightarrow> 'x portal \<Rightarrow> 'x portal" where
  "data_put k v p = p\<lparr>po_data := dict_put (po_data p) k v\<rparr>"

definition data_pop :: "string \<Rightarrow> 'x portal \<Rightarrow> 'x portal" where
  "data_pop k p = p\<lparr>po_data := filter (\<lambda>(k', _). k' \<noteq> k) (po_data p)\<rparr>"

definition subscriptions_get :: "'x portal \<Rightarrow> string \<Rightarrow> json \<Rightarrow> json" where
  "subscriptions_get p k d = (case map_of (po_subscriptions p) k of None \<Rightarrow> d | Some v \<Rightarrow> v)"

definition subscriptions_update :: "(string \<times> json) list \<Rightarrow> 'x portal \<Rightarrow> 'x portal" where
  "subscriptions_update kvs p = p\<lparr>po_subscriptions := dict_union (po_subscriptions p) kvs\<rparr>"

section \<open>JSON values as Python values\<close>

definition param_text :: "'x portal_env \<Rightarrow> json \<Rightarrow> string" where
  "param_text env j = (case j of JStr t \<Rightarrow> t | v \<Rightarrow> pv_text env v)"

definition param_option :: "'x portal_env \<Rightarrow> json \<Rightarrow> string option" where
  "param_option env j = (if json_truthy j then Some (param_text env j) else None)"

text \<open>\<open>next((x for x in xs if f(x)), None)\<close>\<close>

fun next_where :: "(json \<Rightarrow> bool result) \<Rightarrow> json list \<Rightarrow> json option result" where
  "next_where f [] = Inr None"
| "next_where f (x # xs) = rbind (f x) (\<lambda>b. if b then Inr (Some x) else next_where f xs)"

fun rfilter :: "(json \<Rightarrow> bool result) \<Rightarrow> json list \<Rightarrow> json list result" where
  "rfilter f [] = Inr []"
| "rfilter f (x # xs) = rbind (f x) (\<lambda>b. rbind (rfilter f xs) (\<lambda>ys. Inr (if b then x # ys else ys)))"

text \<open>\<open>x in coll\<close> and \<open>x > 0\<close>.\<close>

definition json_member :: "json \<Rightarrow> json \<Rightarrow> bool result" where
  "json_member x coll =
     (case coll of
        JList xs \<Rightarrow> Inr (x \<in> set xs)
      | JStr s \<Rightarrow> (case x of JStr k \<Rightarrow> Inr (substring k s) | _ \<Rightarrow> Inl TypeError)
      | JObj d \<Rightarrow> (case x of JStr k \<Rightarrow> Inr (k \<in> set (map fst d)) | JList _ \<Rightarrow> Inl TypeError | JObj _ \<Rightarrow> Inl TypeError
                 | _ \<Rightarrow> Inr False)
      | _ \<Rightarrow> Inl TypeError)"

definition json_positive :: "json \<Rightarrow> bool result" where
  "json_positive j = (case j of JNum n \<Rightarrow> Inr (n > 0) | JBool b \<Rightarrow> Inr b | _ \<Rightarrow> Inl TypeError)"

section \<open>Caches in front of the services\<close>

definition on_portal :: "('x \<Rightarrow> 'x \<times> 'a result) \<Rightarrow> 'x portal \<Rightarrow> 'x portal \<times> 'a result" where
  "on_portal call p = (case call (po_services p) of (x, r) \<Rightarrow> (p\<lparr>po_services := x\<rparr>, r))"

definition cache_set :: "'x portal_env \<Rightarrow> bff_key \<Rightarrow> json \<Rightarrow> 'x portal \<Rightarrow> 'x portal" where
  "cache_set env key v p = p\<lparr>po_cache := (po_cache p)(key := Some (v, pv_now env + pv_timeout env key))\<rparr>"

definition cache_delete :: "bff_key \<Rightarrow> 'x portal \<Rightarrow> 'x portal" where
  "cache_delete key p = p\<lparr>po_cache := (po_cache p)(key := None)\<rparr>"

definition cached_value :: "'x portal_env \<Rightarrow> bff_key \<Rightarrow> 'x portal \<Rightarrow> json option" where
  "cached_value env key p =
     (case po_cache p key of None \<Rightarrow> None | Some (v, expires) \<Rightarrow> if pv_now env < expires then Some v else None)"

text \<open>\<open>keep\<close> decides whether a fresh answer may be cached.\<close>

definition get_and_cache ::
    "'x portal_env \<Rightarrow> bff_key \<Rightarrow> (json \<Rightarrow> bool result) \<Rightarrow> ('x \<Rightarrow> 'x \<times> json result) \<Rightarrow> 'x portal \<Rightarrow> 'x portal \<times> json result" where
  "get_and_cache env key keep call p =
     (case cached_value env key p of
        Some v \<Rightarrow> (p, Inr v)
      | None \<Rightarrow>
          sbind (on_portal call p) (\<lambda>v p.
          sbind (p, keep v) (\<lambda>k p. (if k then cache_set env key v p else p, Inr v))))"

definition get_and_cache_enterprise_customer ::
    "'x portal_env \<Rightarrow> json \<Rightarrow> json \<Rightarrow> 'x portal \<Rightarrow> 'x portal \<times> json result" where
  "get_and_cache_enterprise_customer env slug u =
     get_and_cache env (Customer_Key slug u) (\<lambda>_. Inr True)
       (get_enterprise_customer_data (pv_api env) (param_option env u) (param_option env slug) None)"

definition get_and_cache_secured_algolia_search_keys ::
    "'x portal_env \<Rightarrow> json \<Rightarrow> 'x portal \<Rightarrow> 'x portal \<times> json result" where
  "get_and_cache_secured_algolia_search_keys env u =
     get_and_cache env (Algolia_Key u (Some (pv_user_id env))) (\<lambda>_. Inr True)
       (get_secured_algolia_api_key (pv_api env) (if json_truthy u then param_text env u else ''''))"

definition get_and_cache_subscription_licenses_for_learner ::
    "'x portal_env \<Rightarrow> json \<Rightarrow> 'x portal \<Rightarrow> 'x portal \<times> json result" where
  "get_and_cache_subscription_licenses_for_learner env u =
     get_and_cache env (Licenses_Key u (Some (pv_user_id env))) (\<lambda>_. Inr True)
       (get_subscription_licenses_for_learner (pv_api env) (param_text env u)
          [(''include_revoked'', JBool True), (''current_plans_only'', JBool False)])"

text \<open>Intentions that still need enrollment are not cached.\<close>

definition no_enrollable :: "json \<Rightarrow> bool result" where
  "no_enrollable payload =
     rbind (json_get payload ''enrollment_statuses'' (JObj [])) (\<lambda>statuses.
       if json_truthy statuses then
         rbind (json_get statuses ''needs_enrollment'' (JObj [])) (\<lambda>needs.
         rbind (json_get needs ''enrollable'' (JList [])) (\<lambda>enrollable. Inr (\<not> json_truthy enrollable)))
       else Inr True)"

definition get_and_cache_default_enterprise_enrollment_intentions_learner_status ::
    "'x portal_env \<Rightarrow> json \<Rightarrow> 'x portal \<Rightarrow> 'x portal \<times> json result" where
  "get_and_cache_default_enterprise_enrollment_intentions_learner_status env u =
     get_and_cache env (Intentions_Key u (Some (pv_user_id env))) no_enrollable
       (get_default_enterprise_enrollment_intentions_learner_status (pv_api env) (param_text env u))"

definition get_and_cache_enterprise_course_enrollments ::
    "'x portal_env \<Rightarrow> json \<Rightarrow> 'x portal \<Rightarrow> 'x portal \<times> json result" where
  "get_and_cache_enterprise_course_enrollments env u =
     get_and_cache env (Enrollments_Key u (Some (pv_user_id env))) (\<lambda>_. Inr True)
       (get_enterprise_course_enrollments (pv_api env) (param_text env u) [(''is_active'', JBool True)])"

text \<open>Invalidation takes the id of the LMS, reading and writing the id of the user.\<close>

definition invalidate_subscription_licenses_cache :: "'x portal_env \<Rightarrow> 'x portal \<Rightarrow> 'x portal" where
  "invalidate_subscription_licenses_cache env p =
     cache_delete (Licenses_Key (po_customer_uuid p) (pv_lms_user_id env)) p"

definition invalidate_default_enrollment_intentions_cache :: "'x portal_env \<Rightarrow> 'x portal \<Rightarrow> 'x portal" where
  "invalidate_default_enrollment_intentions_cache env p =
     cache_delete (Intentions_Key (po_customer_uuid p) (pv_lms_user_id env)) p"

definition invalidate_enrollments_cache :: "'x portal_env \<Rightarrow> 'x portal \<Rightarrow> 'x portal" where
  "invalidate_enrollments_cache env p = cache_delete (Enrollments_Key (po_customer_uuid p) (pv_lms_user_id env)) p"

section \<open>The customer of a request\<close>

definition get_active_enterprise_customer :: "json list \<Rightarrow> json result" where
  "get_active_enterprise_customer users =
     rbind (next_where (\<lambda>u. rbind (json_get u ''active'' (JBool False)) (\<lambda>a. Inr (json_truthy a))) users) (\<lambda>found.
       case found of
         Some u \<Rightarrow> if json_truthy u then json_get u ''enterprise_customer'' JNull else Inr JNull
       | None \<Rightarrow> Inr JNull)"

definition get_staff_enterprise_customer ::
    "'x portal_env \<Rightarrow> json \<Rightarrow> json \<Rightarrow> 'x portal \<Rightarrow> 'x portal \<times> json result" where
  "get_staff_enterprise_customer env slug u p =
     (if json_truthy (or_value slug u) \<and> pv_is_staff env
      then (case get_and_cache_enterprise_customer env slug u p of
              (p1, Inr c) \<Rightarrow> (p1, Inr c)
            | (p1, Inl _) \<Rightarrow> (p1, Inl GenericException))
      else (p, Inr JNull))"

definition enterprise_customer_matches_slug_or_uuid :: "json \<Rightarrow> json \<Rightarrow> json \<Rightarrow> bool result" where
  "enterprise_customer_matches_slug_or_uuid slug u customer =
     (if \<not> json_truthy customer then Inr False
      else rbind (json_get customer ''slug'' JNull) (\<lambda>s.
             if s = slug then Inr True else rbind (json_get customer ''uuid'' JNull) (\<lambda>v. Inr (v = u))))"

definition determine_enterprise_customer_for_display ::
    "json \<Rightarrow> json \<Rightarrow> json \<Rightarrow> json \<Rightarrow> json \<Rightarrow> (json \<times> bool) result" where
  "determine_enterprise_customer_for_display slug u active requested staff =
     (if \<not> json_truthy slug \<and> \<not> json_truthy u then Inr (active, False)
      else rbind (enterprise_customer_matches_slug_or_uuid slug u active) (\<lambda>matches.
             if \<not> matches \<and> json_truthy requested then Inr (requested, True)
             else if json_truthy staff then Inr (staff, False)
             else Inr (active, False)))"

definition transform_enterprise_customer_users_data ::
    "'x portal_env \<Rightarrow> json \<Rightarrow> json \<Rightarrow> json \<Rightarrow> 'x portal \<Rightarrow> 'x portal \<times> json result" where
  "transform_enterprise_customer_users_data env payload slug u p =
     sbind (p, json_get payload ''results'' (JList [])) (\<lambda>results p.
     sbind (p, json_iter results) (\<lambda>users p.
     sbind (p, get_active_enterprise_customer users) (\<lambda>active p.
     sbind (p, next_where (\<lambda>cu. rbind (json_get cu ''enterprise_customer'' JNull)
                                  (enterprise_customer_matches_slug_or_uuid slug u)) users) (\<lambda>found p.
       let user = (case found of None \<Rightarrow> JNull | Some cu \<Rightarrow> cu)
       in sbind (if json_truthy user then (p, Inr JNull) else get_staff_enterprise_customer env slug u p) (\<lambda>staff p.
          sbind (p, if json_truthy user then json_get user ''enterprise_customer'' JNull else Inr JNull) (\<lambda>requested p.
          sbind (p, determine_enterprise_customer_for_display slug u active requested staff) (\<lambda>(customer, update) p.
            (p, Inr (JObj [(''enterprise_customer'', customer), (''active_enterprise_customer'', active),
                   (''all_linked_enterprise_customer_users'', results), (''staff_enterprise_customer'', staff),
                   (''should_update_active_enterprise_customer_user'', JBool update)])))))))))"

section \<open>The context\<close>

definition enterprise_customer :: "'x portal \<Rightarrow> json" where
  "enterprise_customer p = data_get p ''enterprise_customer'' JNull"

definition is_request_user_linked_to_enterprise_customer :: "'x portal \<Rightarrow> bool result" where
  "is_request_user_linked_to_enterprise_customer p =
     (if \<not> json_truthy (enterprise_customer p) then Inr False
      else rbind (json_get (enterprise_customer p) ''uuid'' JNull) (\<lambda>u.
           rbind (json_iter (data_get p ''all_linked_enterprise_customer_users'' JNull)) (\<lambda>users.
           rbind (next_where (\<lambda>cu. rbind (json_get cu ''enterprise_customer'' (JObj [])) (\<lambda>c.
                                     rbind (json_get c ''uuid'' JNull) (\<lambda>v. Inr (v = u)))) users) (\<lambda>found.
             Inr (found \<noteq> None)))))"

definition initialize_enterprise_customer_users ::
    "'x portal_env \<Rightarrow> json \<Rightarrow> 'x portal \<Rightarrow> 'x portal \<times> unit result" where
  "initialize_enterprise_customer_users env payload p =
     sbind (p, json_get payload ''enterprise_features'' (JObj [])) (\<lambda>features p.
       let p = p\<lparr>po_features := features\<rparr>
       in case transform_enterprise_customer_users_data env payload (po_customer_slug p) (po_customer_uuid p) p of
            (p, r) \<Rightarrow>
              (let d = (case r of Inr (JObj d) \<Rightarrow> d | _ \<Rightarrow> []);
                   entry = (\<lambda>k v. (k, case map_of d k of None \<Rightarrow> v | Some x \<Rightarrow> x))
               in (p\<lparr>po_data := dict_union (po_data p)
                      [entry ''enterprise_customer'' JNull, entry ''active_enterprise_customer'' JNull,
                       entry ''all_linked_enterprise_customer_users'' (JList []), entry ''staff_enterprise_customer'' JNull,
                       entry ''should_update_active_enterprise_customer_user'' (JBool False)]\<rparr>, Inr ())))"

definition transform_secured_algolia_api_key_response :: "json \<Rightarrow> (json \<times> json \<times> json) result" where
  "transform_secured_algolia_api_key_response response =
     rbind (json_get response ''catalog_uuids_to_catalog_query_uuids'' (JObj [])) (\<lambda>catalogs.
     rbind (json_get response ''algolia'' (JObj [])) (\<lambda>algolia.
       if json_truthy algolia then
         rbind (json_get algolia ''secured_api_key'' JNull) (\<lambda>key.
         rbind (json_get algolia ''valid_until'' JNull) (\<lambda>valid_until. Inr (key, catalogs, valid_until)))
       else Inr (JNull, catalogs, JNull)))"

definition initialize_secured_algolia_api_keys :: "'x portal_env \<Rightarrow> 'x portal \<Rightarrow> 'x portal \<times> unit result" where
  "initialize_secured_algolia_api_keys env p =
     sbind (get_and_cache_secured_algolia_search_keys env (po_customer_uuid p) p) (\<lambda>response p.
       (case (case transform_secured_algolia_api_key_response response of Inr t \<Rightarrow> t | Inl _ \<Rightarrow> (JNull, JObj [], JNull)) of
          (key, catalogs, valid_until) \<Rightarrow>
            (data_put ''algolia'' (JObj [(''secured_algolia_api_key'', key), (''valid_until'', valid_until)])
               (data_put ''catalog_uuids_to_catalog_query_uuids'' catalogs p), Inr ())))"

definition algolia_value :: "'x portal \<Rightarrow> string \<Rightarrow> json" where
  "algolia_value p k = (case data_get p ''algolia'' (JObj []) of JObj d \<Rightarrow> get_item d k | _ \<Rightarrow> JNull)"

text \<open>
  \<open>HTTPError\<close> of \<open>urllib\<close>, for which the code has a handler of its own here, is raised by no client.
\<close>

definition check_algolia :: "'x portal \<Rightarrow> 'x portal" where
  "check_algolia p =
     (if json_truthy (algolia_value p ''secured_algolia_api_key'') \<and>
         json_truthy (data_get p ''catalog_uuids_to_catalog_query_uuids'' JNull) \<and> json_truthy (algolia_value p ''valid_until'')
      then p else add_error ''No secured algolia api key or catalog query mapping found'' None None p)"

definition initialize_customer :: "'x portal_env \<Rightarrow> json result \<Rightarrow> 'x portal \<Rightarrow> 'x portal \<times> unit result" where
  "initialize_customer env users p =
     (case sbind (p, users) (initialize_enterprise_customer_users env) of
        (p, Inl e) \<Rightarrow> (add_error ''Error initializing enterprise customer users'' (Some e) (Some 500) p, Inr ())
      | (p, Inr _) \<Rightarrow>
          if \<not> json_truthy (enterprise_customer p)
          then (add_error ''No enterprise customer found'' None (Some 404) p, Inr ())
          else
            sbind (if json_truthy (po_customer_slug p) then (p, Inr (po_customer_slug p))
                   else (p, json_get (enterprise_customer p) ''slug'' JNull)) (\<lambda>slug p.
            sbind (if json_truthy (po_customer_uuid p) then (p, Inr (po_customer_uuid p))
                   else (p, json_get (enterprise_customer p) ''uuid'' JNull)) (\<lambda>u p.
            sbind (catching ''Error initializing the secured algolia api keys''
                     (initialize_secured_algolia_api_keys env (p\<lparr>po_customer_slug := slug, po_customer_uuid := u\<rparr>))) (\<lambda>_ p.
              (check_algolia p, Inr ())))))"

text \<open>The context of a request; \<open>None\<close> when the list of customers of the user never ends.\<close>

definition handler_context ::
    "'x portal_env \<Rightarrow> (bff_key \<Rightarrow> (json \<times> datetime) option) \<Rightarrow> 'x \<Rightarrow> ('x portal \<times> unit result) option" where
  "handler_context env cache x =
     (case (case pv_body env of None \<Rightarrow> Inr (JNull, JNull)
            | Some body \<Rightarrow> rbind (json_get body ''enterprise_customer_uuid'' JNull) (\<lambda>u.
                           rbind (json_get body ''enterprise_customer_slug'' JNull) (\<lambda>s. Inr (u, s)))) of
        Inl e \<Rightarrow> Some (\<lparr>po_services = x, po_cache = cache, po_status = 200, po_errors = [], po_warnings = [],
             po_customer_uuid = JNull, po_customer_slug = JNull, po_features = JObj [], po_data = [], po_subscriptions = []\<rparr>, Inl e)
      | Inr (post_uuid, post_slug) \<Rightarrow>
          (case get_enterprise_customers_for_user (pv_api env) (Some (pv_username env)) None True x of
             None \<Rightarrow> None
           | Some (x1, users) \<Rightarrow>
               Some (initialize_customer env users
                 \<lparr>po_services = x1, po_cache = cache, po_status = 200, po_errors = [], po_warnings = [],
                  po_customer_uuid = or_value (get_item (pv_query env) ''enterprise_customer_uuid'') post_uuid,
                  po_customer_slug = or_value (get_item (pv_query env) ''enterprise_customer_slug'') post_slug,
                  po_features = JObj [], po_data = [], po_subscriptions = []\<rparr>)))"

end
