(* ===== verification/Portal_Handlers.thy ===== *)
theory Portal_Handlers
  imports Learner_Portal
begin

text \<open>
  The handlers of the learner portal (\<^verbatim>\<open>bffs/handlers.py\<close>, \<^verbatim>\<open>bffs/mixins.py\<close>): what is loaded and
  done for a request once its context stands.
\<close>

section \<open>Customers\<close>

definition customer_record_keys :: "string list" where
  "customer_record_keys = [''enterprise_customer'', ''active_enterprise_customer'', ''staff_enterprise_customer'']"

definition ensure_enabled_for :: "string \<Rightarrow> 'x portal \<Rightarrow> 'x portal \<times> unit result" where
  "ensure_enabled_for key p =
     (let customer = data_get p key JNull
      in if \<not> json_truthy customer then (p, Inr ())
         else sbind (p, json_get customer ''enable_learner_portal'' (JBool False)) (\<lambda>enabled p.
                if json_truthy enabled then (p, Inr ())
                else (add_warning ''Learner portal not enabled for enterprise customer'' (data_pop key p), Inr ())))"

fun for_keys :: "(string \<Rightarrow> 'x portal \<Rightarrow> 'x portal \<times> unit result) \<Rightarrow> string list \<Rightarrow> 'x portal \<Rightarrow> 'x portal \<times> unit result" where
  "for_keys f [] p = (p, Inr ())"
| "for_keys f (k # ks) p = sbind (f k p) (\<lambda>_ p. for_keys f ks p)"

definition ensure_learner_portal_enabled :: "'x portal \<Rightarrow> 'x portal \<times> unit result" where
  "ensure_learner_portal_enabled = for_keys ensure_enabled_for customer_record_keys"

definition transform_enterprise_customer :: "json \<Rightarrow> json result" where
  "transform_enterprise_customer customer =
     rbind (json_get customer ''identity_provider'' JNull) (\<lambda>idp.
     rbind (json_get customer ''active_integrations'' JNull) (\<lambda>integrations.
     rbind (json_get customer ''enable_integrated_customer_learner_portal_search'' (JBool False)) (\<lambda>search.
       let disable_search = (\<not> json_truthy search \<and> json_truthy idp);
           show_integration_warning = (\<not> disable_search \<and> json_truthy integrations)
       in case customer of
            JObj d \<Rightarrow> Inr (JObj (dict_union d [(''disable_search'', JBool disable_search),
                                  (''show_integration_warning'', JBool show_integration_warning)]))
          | _ \<Rightarrow> Inl TypeError)))"

definition transform_enterprise_customer_user :: "json \<Rightarrow> json result" where
  "transform_enterprise_customer_user user =
     rbind (json_get user ''enterprise_customer'' JNull) (\<lambda>customer.
     rbind (transform_enterprise_customer customer) (\<lambda>transformed.
       case user of
         JObj d \<Rightarrow> Inr (JObj (dict_union d [(''enterprise_customer'', transformed)]))
       | _ \<Rightarrow> Inl TypeError))"

definition transform_customer_at :: "string \<Rightarrow> 'x portal \<Rightarrow> 'x portal \<times> unit result" where
  "transform_customer_at key p =
     (let customer = data_get p key JNull
      in if \<not> json_truthy customer then (p, Inr ())
         else sbind (p, transform_enterprise_customer customer) (\<lambda>c p. (data_put key c p, Inr ())))"

fun transform_users :: "json list \<Rightarrow> json list result" where
  "transform_users [] = Inr []"
| "transform_users (u # us) =
     rbind (json_get u ''enterprise_customer'' JNull) (\<lambda>customer.
     rbind (json_get customer ''enable_learner_portal'' JNull) (\<lambda>enabled.
     rbind (if enabled = JBool True then rbind (transform_enterprise_customer_user u) (\<lambda>t. Inr [t]) else Inr []) (\<lambda>t.
     rbind (transform_users us) (\<lambda>ts. Inr (t @ ts)))))"

definition transform_enterprise_customers :: "'x portal \<Rightarrow> 'x portal \<times> unit result" where
  "transform_enterprise_customers p =
     sbind (for_keys transform_customer_at customer_record_keys p) (\<lambda>_ p.
       let users = data_get p ''all_linked_enterprise_customer_users'' JNull
       in if \<not> json_truthy users then (p, Inr ())
          else sbind (p, rbind (json_iter users) transform_users) (\<lambda>ts p.
                 (data_put ''all_linked_enterprise_customer_users'' (JList ts) p, Inr ())))"

section \<open>Licenses\<close>

text \<open>What the serializer makes of a customer without subscriptions.\<close>

definition empty_subscriptions :: "(string \<times> json) list" where
  "empty_subscriptions =
     [(''customer_agreement'', JNull), (''subscription_licenses'', JList []), (''subscription_license'', JNull),
      (''subscription_plan'', JNull), (''show_expiration_notifications'', JBool False)]"

definition ACTIVATED :: string where "ACTIVATED = ''activated''"
definition ASSIGNED_STATUS :: string where "ASSIGNED_STATUS = ''assigned''"
definition REVOKED :: string where "REVOKED = ''revoked''"

definition licenses_of :: "json \<Rightarrow> string \<Rightarrow> json list result" where
  "licenses_of by_status status = rbind (json_get by_status status (JList [])) json_iter"

fun extract_from :: "string list \<Rightarrow> json \<Rightarrow> json result" where
  "extract_from [] by_status = Inr JNull"
| "extract_from (status # ss) by_status =
     rbind (licenses_of by_status status) (\<lambda>ls.
       case ls of l # _ \<Rightarrow> Inr l | [] \<Rightarrow> extract_from ss by_status)"

definition extract_subscription_license :: "json \<Rightarrow> json result" where
  "extract_subscription_license = extract_from [ACTIVATED, ASSIGNED_STATUS, REVOKED]"

definition plan_of_license :: "json \<Rightarrow> json result" where
  "plan_of_license l = (if json_truthy l then json_get l ''subscription_plan'' JNull else Inr JNull)"

text \<open>The sort key: plans that are not current come later. The sort is stable.\<close>

definition not_current :: "json \<Rightarrow> bool result" where
  "not_current l =
     rbind (json_get l ''subscription_plan'' (JObj [])) (\<lambda>plan.
     rbind (json_get plan ''is_current'' JNull) (\<lambda>c. Inr (\<not> json_truthy c)))"

definition order_licenses :: "json list \<Rightarrow> json list result" where
  "order_licenses ls = rbind (rmap not_current ls) (\<lambda>ks. Inr (map snd (sort_key fst (zip ks ls))))"

text \<open>A status that is no string is a key of its own, for which its text stands.\<close>

definition hashable :: "json \<Rightarrow> json result" where
  "hashable v = (case v of JList _ \<Rightarrow> Inl TypeError | JObj _ \<Rightarrow> Inl TypeError | _ \<Rightarrow> Inr v)"

definition status_key :: "'x portal_env \<Rightarrow> json \<Rightarrow> string result" where
  "status_key env s = rbind (hashable s) (\<lambda>v. Inr (param_text env v))"

fun group_by_status :: "'x portal_env \<Rightarrow> json list \<Rightarrow> (string \<times> json list) list \<Rightarrow> (string \<times> json list) list result" where
  "group_by_status env [] d = Inr d"
| "group_by_status env (l # ls) d =
     rbind (json_get l ''status'' JNull) (\<lambda>s. rbind (status_key env s) (\<lambda>k.
       group_by_status env ls (dict_put d k ((case map_of d k of None \<Rightarrow> [] | Some xs \<Rightarrow> xs) @ [l]))))"

definition expiration_notifications :: "json \<Rightarrow> bool result" where
  "expiration_notifications agreement =
     (if \<not> json_truthy agreement then Inr False
      else rbind (json_get agreement ''disable_expiration_notifications'' (JBool False)) (\<lambda>d.
           rbind (json_get agreement ''has_custom_license_expiration_messaging_v2'' (JBool False)) (\<lambda>c.
             Inr (\<not> (json_truthy d \<or> json_truthy c)))))"

definition transform_subscriptions_result :: "'x portal_env \<Rightarrow> json \<Rightarrow> (string \<times> json) list result" where
  "transform_subscriptions_result env response =
     rbind (json_get response ''results'' (JList [])) (\<lambda>licenses.
     rbind (json_iter licenses) (\<lambda>ls.
     rbind (order_licenses ls) (\<lambda>ordered.
     rbind (group_by_status env ordered []) (\<lambda>groups.
     let by_status = JObj (map (\<lambda>(k, xs). (k, JList xs)) groups)
     in rbind (json_get response ''customer_agreement'' JNull) (\<lambda>agreement.
        rbind (extract_subscription_license by_status) (\<lambda>l.
        rbind (plan_of_license l) (\<lambda>plan.
        rbind (expiration_notifications agreement) (\<lambda>show.
          Inr [(''customer_agreement'', agreement), (''subscription_licenses'', licenses),
               (''subscription_licenses_by_status'', by_status), (''subscription_license'', l),
               (''subscription_plan'', plan), (''show_expiration_notifications'', JBool show)]))))))))"

definition load_subscription_licenses :: "'x portal_env \<Rightarrow> 'x portal \<Rightarrow> 'x portal \<times> unit result" where
  "load_subscription_licenses env p =
     (case get_and_cache_subscription_licenses_for_learner env (po_customer_uuid p) p of
        (p, Inl e) \<Rightarrow> (add_error ''Unable to retrieve subscription licenses'' (Some e) None p, Inr ())
      | (p, Inr response) \<Rightarrow>
          (case transform_subscriptions_result env response of
             Inl e \<Rightarrow> (add_error ''Unable to transform subscription licenses'' (Some e) None p, Inr ())
           | Inr subscriptions \<Rightarrow> (p\<lparr>po_subscriptions := subscriptions\<rparr>, Inr ())))"

definition by_status_of :: "'x portal \<Rightarrow> json" where
  "by_status_of p = subscriptions_get p ''subscription_licenses_by_status'' (JObj [])"

definition is_current :: "json \<Rightarrow> bool result" where
  "is_current l = rbind (item l ''subscription_plan'') (\<lambda>plan. rbind (item plan ''is_current'') (\<lambda>c. Inr (json_truthy c)))"

definition current_subscription_licenses_for_status :: "'x portal \<Rightarrow> string \<Rightarrow> json list result" where
  "current_subscription_licenses_for_status p status = rbind (licenses_of (by_status_of p) status) (rfilter is_current)"

definition current_activated_license :: "'x portal \<Rightarrow> json option result" where
  "current_activated_license p =
     rbind (current_subscription_licenses_for_status p ACTIVATED) (\<lambda>ls. Inr (case ls of [] \<Rightarrow> None | l # _ \<Rightarrow> Some l))"

section \<open>Activation\<close>

text \<open>The result is \<open>None\<close> when a failed activation ends the method.\<close>

fun activate_licenses :: "'x portal_env \<Rightarrow> json list \<Rightarrow> 'x portal \<Rightarrow> 'x portal \<times> json list option result" where
  "activate_licenses env [] p = (p, Inr (Some []))"
| "activate_licenses env (l # ls) p =
     sbind (p, json_get l ''activation_key'' JNull) (\<lambda>key p.
       if json_truthy key then
         (case on_portal (activate_license (pv_api env) (param_text env key)) p of
            (p, Inl e) \<Rightarrow> (add_error ''Unable to activate subscription license'' (Some e) None p, Inr None)
          | (p, Inr activated) \<Rightarrow>
              sbind (activate_licenses env ls (invalidate_subscription_licenses_cache env p)) (\<lambda>rest p.
                (p, Inr (map_option (\<lambda>as. activated # as) rest))))
       else activate_licenses env ls (add_error ''No subscription license activation key found'' None None p))"

text \<open>The lists of licenses after activation: a license takes one place per activated one it is compared with.\<close>

fun replace_license :: "json \<Rightarrow> json list \<Rightarrow> json list result" where
  "replace_license l [] = Inr []"
| "replace_license l (a # as) =
     rbind (json_get l ''uuid'' JNull) (\<lambda>u. rbind (json_get a ''uuid'' JNull) (\<lambda>v.
       if u = v then Inr [a] else rbind (replace_license l as) (\<lambda>rest. Inr (l # rest))))"

definition replace_licenses :: "json list \<Rightarrow> json list \<Rightarrow> json list result" where
  "replace_licenses licenses activated = rbind (rmap (\<lambda>l. replace_license l activated) licenses) (\<lambda>xss. Inr (concat xss))"

definition put_status :: "string \<Rightarrow> json list \<Rightarrow> json \<Rightarrow> json" where
  "put_status status ls by_status = (case by_status of JObj d \<Rightarrow> JObj (dict_put d status (JList ls)) | v \<Rightarrow> v)"

definition pop_status :: "string \<Rightarrow> json \<Rightarrow> json" where
  "pop_status status by_status = (case by_status of JObj d \<Rightarrow> JObj (filter (\<lambda>(k, _). k \<noteq> status) d) | v \<Rightarrow> v)"

definition remaining_licenses :: "json list \<Rightarrow> json list \<Rightarrow> json list result" where
  "remaining_licenses assigned activated =
     rbind (rmap (\<lambda>l. item l ''uuid'') activated) (\<lambda>us.
       rfilter (\<lambda>l. rbind (item l ''uuid'') (\<lambda>u. Inr (u \<notin> set us))) assigned)"

definition check_and_activate_assigned_license :: "'x portal_env \<Rightarrow> 'x portal \<Rightarrow> 'x portal \<times> unit result" where
  "check_and_activate_assigned_license env p =
     sbind (p, current_subscription_licenses_for_status p ASSIGNED_STATUS) (\<lambda>assigned p.
     sbind (activate_licenses env assigned p) (\<lambda>outcome p.
       case outcome of
         None \<Rightarrow> (p, Inr ())
       | Some activated \<Rightarrow>
           sbind (p, current_subscription_licenses_for_status p ACTIVATED) (\<lambda>before p.
             let all_activated = before @ activated;
                 p = (if all_activated = [] then p
                      else subscriptions_update [(''subscription_licenses_by_status'',
                             put_status ACTIVATED all_activated (by_status_of p))] p)
             in sbind (p, remaining_licenses assigned activated) (\<lambda>remaining p.
                let by_status = (if remaining = [] then pop_status ASSIGNED_STATUS (by_status_of p)
                                 else put_status ASSIGNED_STATUS remaining (by_status_of p));
                    p = subscriptions_update [(''subscription_licenses_by_status'', by_status)] p
                in sbind (p, json_iter (subscriptions_get p ''subscription_licenses'' (JList []))) (\<lambda>licenses p.
                   sbind (p, replace_licenses licenses activated) (\<lambda>updated p.
                     let p = (if updated = [] then p else subscriptions_update [(''subscription_licenses'', JList updated)] p)
                     in sbind (p, extract_subscription_license by_status) (\<lambda>l p.
                        sbind (p, plan_of_license l) (\<lambda>plan p.
                          (subscriptions_update [(''subscription_license'', l), (''subscription_plan'', plan)] p, Inr ())))))))))"

section \<open>Automatic application\<close>

definition eligible_for_auto_apply :: "json \<Rightarrow> json \<Rightarrow> bool result" where
  "eligible_for_auto_apply customer agreement =
     rbind (json_get agreement ''subscription_for_auto_applied_licenses'' JNull) (\<lambda>plan.
     rbind (if json_truthy plan
            then rbind (json_get agreement ''net_days_until_expiration'' JNull) json_positive else Inr False) (\<lambda>has_plan.
     rbind (json_get customer ''identity_provider'' JNull) (\<lambda>idp.
     rbind (if json_truthy idp then Inr idp
            else json_get agreement ''enable_auto_applied_subscriptions_with_universal_link'' JNull) (\<lambda>enabled.
       Inr (has_plan \<and> json_truthy enabled)))))"

definition json_append :: "json \<Rightarrow> json \<Rightarrow> json result" where
  "json_append xs x = (case xs of JList l \<Rightarrow> Inr (JList (l @ [x])) | _ \<Rightarrow> Inl TypeError)"

definition auto_apply :: "'x portal_env \<Rightarrow> json \<Rightarrow> json \<Rightarrow> json \<Rightarrow> 'x portal \<Rightarrow> 'x portal \<times> unit result" where
  "auto_apply env agreement licenses by_status p =
     sbind (p, json_get agreement ''uuid'' JNull) (\<lambda>u p.
     sbind (on_portal (auto_apply_license (pv_api env) (param_text env u)) p) (\<lambda>applied p.
     let p = invalidate_subscription_licenses_cache env p
     in sbind (p, json_append licenses applied) (\<lambda>all_licenses p.
        let p = subscriptions_update [(''subscription_licenses_by_status'', put_status ACTIVATED [applied] by_status)] p
        in sbind (p, json_get applied ''subscription_plan'' JNull) (\<lambda>plan p.
             (subscriptions_update
                [(''subscription_licenses'', all_licenses),
                 (''subscription_licenses_by_status'', put_status ACTIVATED [applied] by_status),
                 (''subscription_license'', applied), (''subscription_plan'', plan)] p, Inr ())))))"

text \<open>The developer's message of a failed application is a tuple.\<close>

definition check_and_auto_apply_license :: "'x portal_env \<Rightarrow> 'x portal \<Rightarrow> 'x portal \<times> unit result" where
  "check_and_auto_apply_license env p =
     (let licenses = subscriptions_get p ''subscription_licenses'' (JList [])
      in sbind (if json_truthy licenses then (p, Inr True)
                else (p, rbind (is_request_user_linked_to_enterprise_customer p) (\<lambda>linked. Inr (\<not> linked)))) (\<lambda>skip p.
         if skip then (p, Inr ())
         else
           (let agreement = or_value (subscriptions_get p ''customer_agreement'' JNull) (JObj [])
            in sbind (p, eligible_for_auto_apply (enterprise_customer p) agreement) (\<lambda>eligible p.
               if \<not> eligible then (p, Inr ())
               else (case auto_apply env agreement licenses (by_status_of p) p of
                       (p, Inl _) \<Rightarrow> add_error_with_tuple p
                     | (p, Inr _) \<Rightarrow> (p, Inr ()))))))"

definition process_subscription_licenses :: "'x portal_env \<Rightarrow> 'x portal \<Rightarrow> 'x portal \<times> unit result" where
  "process_subscription_licenses env p =
     (if po_subscriptions p = [] then (p, Inr ())
      else sbind (p, current_activated_license p) (\<lambda>activated p.
             if activated \<noteq> None \<and> json_truthy (the activated) then (p, Inr ())
             else sbind (check_and_activate_assigned_license env p) (\<lambda>_ p. check_and_auto_apply_license env p)))"

definition load_and_process_subsidies :: "'x portal_env \<Rightarrow> 'x portal \<Rightarrow> 'x portal \<times> unit result" where
  "load_and_process_subsidies env p =
     sbind (load_subscription_licenses env (p\<lparr>po_subscriptions := empty_subscriptions\<rparr>)) (\<lambda>_ p.
       process_subscription_licenses env p)"

section \<open>Default enrollments\<close>

definition load_default_enterprise_enrollment_intentions :: "'x portal_env \<Rightarrow> 'x portal \<Rightarrow> 'x portal \<times> unit result" where
  "load_default_enterprise_enrollment_intentions env p =
     sbind (p, is_request_user_linked_to_enterprise_customer p) (\<lambda>linked p.
       if \<not> linked then (p, Inr ())
       else catching ''Could not load default enterprise enrollment intentions''
              (sbind (get_and_cache_default_enterprise_enrollment_intentions_learner_status env (po_customer_uuid p) p)
                 (\<lambda>intentions p. (data_put ''default_enterprise_enrollment_intentions'' intentions p, Inr ()))))"

text \<open>The runs of the plan's catalog, each with the license that pays for it.\<close>

fun licensed_runs :: "json \<Rightarrow> json list \<Rightarrow> (json \<times> json) list \<Rightarrow> (json \<times> json) list result" where
  "licensed_runs license [] d = Inr d"
| "licensed_runs license (intention # is) d =
     rbind (json_get license ''subscription_plan'' (JObj [])) (\<lambda>plan.
     rbind (json_get plan ''enterprise_catalog_uuid'' JNull) (\<lambda>catalog.
     rbind (json_get intention ''applicable_enterprise_catalog_uuids'' JNull) (\<lambda>applicable.
     rbind (json_member catalog applicable) (\<lambda>covered.
       if covered then
         rbind (item intention ''course_run_key'') (\<lambda>key.
         rbind (item license ''uuid'') (\<lambda>u.
         rbind (hashable key) (\<lambda>k. licensed_runs license is (dict_put d k u))))
       else licensed_runs license is d))))"

definition enrollment_row :: "'x portal_env \<Rightarrow> json \<times> json \<Rightarrow> json" where
  "enrollment_row env run =
     JObj [(''user_id'', case pv_lms_user_id env of None \<Rightarrow> JNull | Some i \<Rightarrow> JNum i), (''course_run_key'', fst run),
           (''license_uuid'', snd run), (''is_default_auto_enrollment'', JBool True)]"

definition request_default_enrollment_realizations ::
    "'x portal_env \<Rightarrow> (json \<times> json) list \<Rightarrow> 'x portal \<Rightarrow> 'x portal \<times> json" where
  "request_default_enrollment_realizations env runs p =
     (case on_portal (bulk_enroll_enterprise_learners (pv_api env) (param_text env (po_customer_uuid p))
             (JList (map (enrollment_row env) runs))) p of
        (p, Inr payload) \<Rightarrow> (p, payload)
      | (p, Inl e) \<Rightarrow> (add_error ''There was an exception realizing default enrollments'' (Some e) None p, JObj []))"

definition realization_row :: "(json \<times> json) list \<Rightarrow> json \<Rightarrow> json result" where
  "realization_row runs enrollment =
     rbind (json_get enrollment ''course_run_key'' JNull) (\<lambda>key.
     rbind (hashable key) (\<lambda>_.
       Inr (JObj [(''course_key'', key), (''enrollment_status'', JStr ''enrolled''),
                  (''subscription_license_uuid'', case map_of runs key of None \<Rightarrow> JNull | Some u \<Rightarrow> u)])))"

fun add_realizations :: "(json \<times> json) list \<Rightarrow> json list \<Rightarrow> 'x portal \<Rightarrow> 'x portal \<times> unit result" where
  "add_realizations runs [] p = (p, Inr ())"
| "add_realizations runs (e # es) p =
     sbind (p, realization_row runs e) (\<lambda>row p.
     sbind (p, json_append (data_get p ''default_enterprise_enrollment_realizations'' JNull) row) (\<lambda>rows p.
       add_realizations runs es (data_put ''default_enterprise_enrollment_realizations'' rows p)))"

definition enrollable_intentions :: "'x portal \<Rightarrow> json result" where
  "enrollable_intentions p =
     rbind (json_get (data_get p ''default_enterprise_enrollment_intentions'' (JObj [])) ''enrollment_statuses'' (JObj [])) (\<lambda>statuses.
     rbind (json_get statuses ''needs_enrollment'' (JObj [])) (\<lambda>needs. json_get needs ''enrollable'' (JList [])))"

definition enroll_in_redeemable_default_enterprise_enrollment_intentions ::
    "'x portal_env \<Rightarrow> 'x portal \<Rightarrow> 'x portal \<times> unit result" where
  "enroll_in_redeemable_default_enterprise_enrollment_intentions env p =
     sbind (p, enrollable_intentions p) (\<lambda>enrollable p.
       if \<not> json_truthy enrollable then (p, Inr ())
       else sbind (p, current_activated_license p) (\<lambda>found p.
         case found of
           None \<Rightarrow> (p, Inr ())
         | Some license \<Rightarrow>
             if \<not> json_truthy license then (p, Inr ())
             else
               sbind (p, rbind (json_iter enrollable) (\<lambda>is. licensed_runs license is [])) (\<lambda>runs p.
               case request_default_enrollment_realizations env runs p of
                 (p, payload) \<Rightarrow>
                   sbind (p, json_get payload ''failures'' JNull) (\<lambda>failures p.
                   let p = (if json_truthy failures
                            then add_error ''There were failures realizing default enrollments'' None None p else p);
                       p = (if json_truthy (data_get p ''default_enterprise_enrollment_realizations'' JNull) then p
                            else data_put ''default_enterprise_enrollment_realizations'' (JList []) p)
                   in sbind (p, json_get payload ''successes'' (JList [])) (\<lambda>successes p.
                      let p = (if json_truthy successes
                               then invalidate_enrollments_cache env (invalidate_default_enrollment_intentions_cache env p) else p)
                      in sbind (p, json_iter successes) (\<lambda>es p. add_realizations runs es p))))))"

section \<open>Routes\<close>

definition load_common :: "'x portal_env \<Rightarrow> 'x portal \<Rightarrow> 'x portal \<times> unit result" where
  "load_common env p =
     sbind (ensure_learner_portal_enabled p) (\<lambda>_ p.
     sbind (transform_enterprise_customers p) (\<lambda>_ p.
     sbind (load_and_process_subsidies env p) (\<lambda>_ p.
     sbind (load_default_enterprise_enrollment_intentions env p) (\<lambda>_ p.
       enroll_in_redeemable_default_enterprise_enrollment_intentions env p))))"

definition load_and_process :: "'x portal_env \<Rightarrow> 'x portal \<Rightarrow> 'x portal" where
  "load_and_process env p = fst (catching ''Could not load and/or process common data'' (load_common env p))"

section \<open>Enrollments of the dashboard\<close>

definition enrollment_statuses :: "string list" where
  "enrollment_statuses = [''in_progress'', ''upcoming'', ''completed'', ''saved_for_later'']"

definition can_unenroll_course_enrollment :: "json \<Rightarrow> bool result" where
  "can_unenroll_course_enrollment enrollment =
     rbind (json_get enrollment ''course_run_status'' JNull) (\<lambda>status.
     rbind (json_get enrollment ''certificate_download_url'' JNull) (\<lambda>certificate.
       Inr (status \<in> JStr ` set enrollment_statuses \<and> \<not> json_truthy certificate)))"

definition fields_to_pluck :: "string list" where
  "fields_to_pluck = [''course_run_id'', ''course_run_status'', ''course_key'', ''course_type'', ''created'', ''end_date'',
     ''enroll_by'', ''is_enrollment_active'', ''is_revoked'', ''micromasters_title'', ''mode'', ''org_name'', ''pacing'',
     ''product_source'', ''resume_course_run_url'', ''start_date'']"

definition transform_enterprise_course_enrollment :: "json \<Rightarrow> json result" where
  "transform_enterprise_course_enrollment enrollment =
     (case enrollment of
        JObj d \<Rightarrow>
          rbind (can_unenroll_course_enrollment enrollment) (\<lambda>can_unenroll.
            Inr (JObj (map (\<lambda>f. (f, get_item d f)) fields_to_pluck @
              [(''title'', get_item d ''display_name''),
               (''link_to_course'', or_value (get_item d ''resume_course_run_url'') (get_item d ''course_run_url'')),
               (''link_to_certificate'', or_value (get_item d ''certificate_download_url'') JNull),
               (''has_emails_enabled'', case map_of d ''emails_enabled'' of None \<Rightarrow> JBool False | Some v \<Rightarrow> v),
               (''notifications'', get_item d ''due_dates''),
               (''can_unenroll'', JBool can_unenroll)])))
      | _ \<Rightarrow> Inl AttributeError)"

definition group_course_enrollments_by_status :: "json list \<Rightarrow> json result" where
  "group_course_enrollments_by_status enrollments =
     rbind (rmap (\<lambda>e. json_get e ''course_run_status'' JNull) enrollments) (\<lambda>statuses.
       if \<exists>s \<in> set statuses. (case s of JList _ \<Rightarrow> True | JObj _ \<Rightarrow> True | _ \<Rightarrow> False) then Inl TypeError
       else Inr (JObj (map (\<lambda>s. (s, JList (map snd (filter (\<lambda>(t, _). t = JStr s) (zip statuses enrollments)))))
                        enrollment_statuses)))"

definition transform_enterprise_course_enrollments :: "json \<Rightarrow> (json \<times> json) result" where
  "transform_enterprise_course_enrollments payload =
     rbind (json_iter payload) (\<lambda>rows.
     rbind (rmap transform_enterprise_course_enrollment rows) (\<lambda>enrollments.
     rbind (group_course_enrollments_by_status enrollments) (\<lambda>by_status. Inr (JList enrollments, by_status))))"

text \<open>When the enrollments cannot be retrieved the second block reads a variable that was never assigned.\<close>

definition load_enterprise_course_enrollments :: "'x portal_env \<Rightarrow> 'x portal \<Rightarrow> 'x portal \<times> unit result" where
  "load_enterprise_course_enrollments env p =
     sbind (p, is_request_user_linked_to_enterprise_customer p) (\<lambda>linked p.
       if \<not> linked then (p, Inr ())
       else
         (case get_and_cache_enterprise_course_enrollments env (po_customer_uuid p) p of
            (p, r) \<Rightarrow>
              (let p = (case r of Inr _ \<Rightarrow> p
                        | Inl e \<Rightarrow> add_error ''Could not retrieve your enterprise course enrollments.'' (Some e) None p);
                   payload = (case r of Inr v \<Rightarrow> Inr v | Inl _ \<Rightarrow> Inl UnboundLocalError)
               in catching ''Could not transform your enterprise course enrollments.''
                    (sbind (p, rbind payload transform_enterprise_course_enrollments) (\<lambda>(enrollments, by_status) p.
                       (data_put ''all_enrollments_by_status'' by_status
                          (data_put ''enterprise_course_enrollments'' enrollments p), Inr ()))))))"

definition load_dashboard :: "'x portal_env \<Rightarrow> 'x portal \<Rightarrow> 'x portal" where
  "load_dashboard env p =
     fst (catching ''Could not load and/or processing the learner dashboard.''
            (load_enterprise_course_enrollments env (load_and_process env p)))"

text \<open>A request to a route: the context and, whatever became of it, the handler.\<close>

definition load_route ::
    "'x portal_env \<Rightarrow> ('x portal_env \<Rightarrow> 'x portal \<Rightarrow> 'x portal) \<Rightarrow> (bff_key \<Rightarrow> (json \<times> datetime) option) \<Rightarrow> 'x \<Rightarrow>
      'x portal result option" where
  "load_route env handler cache x =
     map_option (\<lambda>(p, r). rbind r (\<lambda>_. Inr (handler env p))) (handler_context env cache x)"

end
