(* ===== verification/Portal_Properties.thy ===== *)
theory Portal_Properties
  imports Portal_Handlers
begin

text \<open>
  Which license a learner is shown, what the cache of licenses says after an activation, and which
  customer a request is served for.
\<close>

section \<open>The license that is shown\<close>

text \<open>Activated before assigned before revoked, and within a status current plans first.\<close>

definition status_rank :: "json \<Rightarrow> nat option" where
  "status_rank s = (if s = JStr ACTIVATED then Some 0 else if s = JStr ASSIGNED_STATUS then Some 1
     else if s = JStr REVOKED then Some 2 else None)"

definition license_rank :: "json \<Rightarrow> nat option" where
  "license_rank l = (case (json_get l ''status'' JNull, not_current l) of
     (Inr s, Inr n) \<Rightarrow> map_option (\<lambda>i. 2 * i + (if n then 1 else 0)) (status_rank s) | _ \<Rightarrow> None)"

definition of_status :: "string \<Rightarrow> json \<Rightarrow> bool" where
  "of_status k l \<longleftrightarrow> json_get l ''status'' JNull = Inr (JStr k)"

lemma rmap_Inr_map: "rmap f xs = Inr ys \<Longrightarrow> ys = map (\<lambda>x. projr (f x)) xs \<and> (\<forall>x \<in> set xs. f x = Inr (projr (f x)))"
  by (induction xs arbitrary: ys) (auto elim!: rbind_InrE)

lemma order_licenses_result:
  assumes "order_licenses ls = Inr os"
  shows "set os = set ls \<and> (\<forall>l \<in> set ls. \<exists>n. not_current l = Inr n) \<and>
    sorted (map (\<lambda>l. projr (not_current l)) os)"
proof -
  from assms obtain ks where ks: "rmap not_current ls = Inr ks" and os: "os = map snd (sort_key fst (zip ks ls))"
    by (auto simp: order_licenses_def elim!: rbind_InrE)
  note k = rmap_Inr_map [OF ks]
  have pair: "fst x = projr (not_current (snd x))" if "x \<in> set (zip ks ls)" for x
    using that k by (auto simp: set_zip)
  have "map (\<lambda>l. projr (not_current l)) os = map fst (sort_key fst (zip ks ls))"
    unfolding os using pair by auto
  moreover have "set os = set ls" unfolding os using k by (auto simp: set_zip image_iff in_set_conv_nth)
  ultimately show ?thesis using k by (auto intro!: exI)
qed

lemma group_by_status_result:
  "group_by_status env ls d = Inr d' \<Longrightarrow>
    (case map_of d' k of None \<Rightarrow> [] | Some xs \<Rightarrow> xs) = (case map_of d k of None \<Rightarrow> [] | Some xs \<Rightarrow> xs) @
      filter (\<lambda>l. rbind (json_get l ''status'' JNull) (status_key env) = Inr k) ls"
proof (induction ls arbitrary: d)
  case (Cons l ls)
  obtain s k' where s: "json_get l ''status'' JNull = Inr s" "status_key env s = Inr k'"
    using Cons.prems by (auto elim!: rbind_InrE)
  have "group_by_status env ls (dict_put d k' ((case map_of d k' of None \<Rightarrow> [] | Some xs \<Rightarrow> xs) @ [l])) = Inr d'"
    using Cons.prems s by simp
  from Cons.IH [OF this] show ?case using s by (cases "k' = k") auto
qed simp

lemma status_key_string [simp]: "status_key env (JStr k) = Inr k"
  by (simp add: status_key_def hashable_def param_text_def)

lemma licenses_of_groups:
  "licenses_of (JObj (map (\<lambda>(k, xs). (k, JList xs)) groups)) k = Inr (case map_of groups k of None \<Rightarrow> [] | Some xs \<Rightarrow> xs)"
proof -
  have "map_of (map (\<lambda>(k, xs). (k, JList xs)) groups) k = map_option JList (map_of groups k)"
    by (induction groups) auto
  then show ?thesis by (auto simp: licenses_of_def json_get_def json_iter_def split: option.splits)
qed

lemma first_of_sorted:
  assumes "sorted (map f xs)" and "filter P xs = y # ys" and "x \<in> set xs" and "P x"
  shows "f y \<le> (f x :: 'a::linorder)"
proof -
  have "sorted (map f (filter P xs))" using assms(1) by (rule sorted_filter)
  moreover have "x \<in> set (filter P xs)" using assms(3,4) by simp
  ultimately show ?thesis by (auto simp: assms(2))
qed


definition license_json :: "string \<Rightarrow> string \<Rightarrow> bool \<Rightarrow> json" where
  "license_json u status current = JObj [(''uuid'', JStr u), (''status'', JStr status), (''activation_key'', JStr ''k''),
     (''subscription_plan'', JObj [(''is_current'', JBool current)])]"

definition demo_licenses :: "json list" where
  "demo_licenses = [license_json ''1'' REVOKED True, license_json ''2'' ASSIGNED_STATUS False, license_json ''3'' ASSIGNED_STATUS True]"

definition demo_portal_env :: "nat portal_env" where
  "demo_portal_env = \<lparr>pv_api = \<lparr>api_send = (\<lambda>_ n. (n + 1, Inr \<lparr>rs_status = 200, rs_body = Some
         (if n = 0 then JObj [(''results'', JList [license_json ''3'' ASSIGNED_STATUS True])]
          else license_json ''3'' ACTIVATED True)\<rparr>)),
       api_lms_url = '''', api_license_manager_url = '''', api_ecommerce_url = '''', api_discovery_url = '''',
       api_catalog_base_url = (\<lambda>s. s), api_site_domain = '''', api_default_catalog_query_id = JNull,
       api_for_internal_use_only = JNull, api_default_product_id = JNull, api_plan_is_active = JNull,
       api_force_remind_all = False, api_should_send_email_to_pecu = (\<lambda>_. Inr True), api_float = (\<lambda>j. Inr j)\<rparr>,
     pv_now = 500, pv_user_id = 7, pv_username = ''u'', pv_lms_user_id = Some 70, pv_is_staff = False, pv_query = [],
     pv_body = None, pv_timeout = (\<lambda>_. 300), pv_text = (\<lambda>_. '''')\<rparr>"


section \<open>The cache of licenses\<close>

text \<open>Nothing a request does after it has read the licenses touches an entry of another id.\<close>

definition keeps_cache :: "bff_key \<Rightarrow> (json \<times> datetime) option \<Rightarrow> 'x portal \<Rightarrow> bool" where
  "keeps_cache key c p \<longleftrightarrow> po_cache p key = c"

lemma keeps_cache_frames [simp]:
  "keeps_cache key c (add_error m e s p) \<longleftrightarrow> keeps_cache key c p"
  "keeps_cache key c (subscriptions_update kvs p) \<longleftrightarrow> keeps_cache key c p"
  "keeps_cache key c (p\<lparr>po_services := x\<rparr>) \<longleftrightarrow> keeps_cache key c p"
  by (simp_all add: keeps_cache_def add_error_def subscriptions_update_def)

lemma on_portal_keeps_cache: "on_portal call p = (q, r) \<Longrightarrow> keeps_cache key c q \<longleftrightarrow> keeps_cache key c p"
  by (auto simp: on_portal_def split: prod.splits)

lemma invalidate_keeps_cache:
  "pv_lms_user_id env \<noteq> Some i \<Longrightarrow>
    keeps_cache (Licenses_Key u (Some i)) c (invalidate_subscription_licenses_cache env p) \<longleftrightarrow> keeps_cache (Licenses_Key u (Some i)) c p"
  by (auto simp: keeps_cache_def invalidate_subscription_licenses_cache_def cache_delete_def)

lemma activate_licenses_keeps_cache:
  assumes "pv_lms_user_id env \<noteq> Some i"
  shows "activate_licenses env ls p = (q, r) \<Longrightarrow>
    keeps_cache (Licenses_Key u (Some i)) c q \<longleftrightarrow> keeps_cache (Licenses_Key u (Some i)) c p"
proof (induction ls arbitrary: p q r)
  case (Cons l ls)
  show ?case
  proof (cases "json_get l ''activation_key'' JNull")
    case (Inl e)
    then show ?thesis using Cons.prems by simp
  next
    case (Inr key)
    show ?thesis
    proof (cases "json_truthy key")
      case False
      then show ?thesis using Cons.prems Cons.IH Inr by fastforce
    next
      case True
      obtain p1 r1 where p1: "on_portal (activate_license (pv_api env) (param_text env key)) p = (p1, r1)"
        by (cases "on_portal (activate_license (pv_api env) (param_text env key)) p") auto
      obtain p2 r2 where p2: "activate_licenses env ls (invalidate_subscription_licenses_cache env p1) = (p2, r2)"
        by (cases "activate_licenses env ls (invalidate_subscription_licenses_cache env p1)") auto
      note frame = on_portal_keeps_cache [OF p1] Cons.IH [OF p2] invalidate_keeps_cache [OF assms]
      show ?thesis using Cons.prems True Inr p1 p2 frame
        by (cases r1; cases r2) auto
    qed
  qed
qed simp

lemma check_and_activate_keeps_cache:
  assumes lms: "pv_lms_user_id env \<noteq> Some i" and "keeps_cache (Licenses_Key u (Some i)) c p"
  shows "keeps_cache (Licenses_Key u (Some i)) c (fst (check_and_activate_assigned_license env p))"
proof -
  let ?P = "keeps_cache (Licenses_Key u (Some i)) c"
  have act: "activate_licenses env ls p = (q, r) \<Longrightarrow> ?P q" for ls q r
    using activate_licenses_keeps_cache [OF lms] assms(2) by blast
  then have act': "?P (fst (activate_licenses env ls p))" for ls by (metis prod.collapse)
  show ?thesis unfolding check_and_activate_assigned_license_def Let_def
    by (rule sbind_value_keeps [where P = ?P], rule assms(2), rule sbind_keeps [where P = ?P])
      (auto intro!: sbind_value_keeps [where P = ?P] dest: act split: option.splits prod.splits
        simp: act')
qed

lemma check_and_auto_apply_keeps_cache:
  assumes lms: "pv_lms_user_id env \<noteq> Some i" and "keeps_cache (Licenses_Key u (Some i)) c p"
  shows "keeps_cache (Licenses_Key u (Some i)) c (fst (check_and_auto_apply_license env p))"
proof -
  let ?P = "keeps_cache (Licenses_Key u (Some i)) c"
  have call: "on_portal call p = (q, r) \<Longrightarrow> ?P q" for call :: "'a \<Rightarrow> 'a \<times> json result" and q r
    using on_portal_keeps_cache assms(2) by blast
  then have call': "?P (fst (on_portal call p))" for call :: "'a \<Rightarrow> 'a \<times> json result" by (metis prod.collapse)
  have applied: "?P (fst (auto_apply env agreement licenses by_status p))" for agreement licenses by_status
    unfolding auto_apply_def Let_def
    by (rule sbind_value_keeps [where P = ?P], rule assms(2), rule sbind_keeps [where P = ?P])
      (auto intro!: sbind_value_keeps [where P = ?P] dest: call
        simp: invalidate_keeps_cache [OF lms] call')
  have failed: "?P (fst (case auto_apply env agreement licenses by_status p of (p, Inl _) \<Rightarrow> add_error_with_tuple p | (p, Inr _) \<Rightarrow> (p, Inr ())))"
    for agreement licenses by_status
    using applied [of agreement licenses by_status] by (auto simp: add_error_with_tuple_def split: prod.splits sum.splits)
  show ?thesis unfolding check_and_auto_apply_license_def Let_def
    by (rule sbind_keeps [where P = ?P]) (use assms(2) failed in \<open>auto intro!: sbind_value_keeps [where P = ?P] split: if_splits\<close>)
qed

lemma process_keeps_cache:
  assumes lms: "pv_lms_user_id env \<noteq> Some i" and "keeps_cache (Licenses_Key u (Some i)) c p"
  shows "keeps_cache (Licenses_Key u (Some i)) c (fst (process_subscription_licenses env p))"
proof -
  let ?P = "keeps_cache (Licenses_Key u (Some i)) c"
  have "?P (fst (sbind (check_and_activate_assigned_license env p) (\<lambda>_ p. check_and_auto_apply_license env p)))"
    by (rule sbind_keeps [where P = ?P], rule check_and_activate_keeps_cache [OF assms])
      (metis check_and_activate_keeps_cache [OF assms] check_and_auto_apply_keeps_cache [OF lms] fst_conv)
  then show ?thesis unfolding process_subscription_licenses_def
    using assms(2) by (auto intro!: sbind_value_keeps [where P = ?P])
qed

lemma load_licenses_cached:
  assumes "po_cache p (Licenses_Key (po_customer_uuid p) (Some (pv_user_id env))) = None"
    and "get_subscription_licenses_for_learner (pv_api env) (param_text env (po_customer_uuid p))
          [(''include_revoked'', JBool True), (''current_plans_only'', JBool False)] (po_services p) = (x, Inr v)"
  shows "keeps_cache (Licenses_Key (po_customer_uuid p) (Some (pv_user_id env)))
     (Some (v, pv_now env + pv_timeout env (Licenses_Key (po_customer_uuid p) (Some (pv_user_id env)))))
     (fst (load_subscription_licenses env (p\<lparr>po_subscriptions := empty_subscriptions\<rparr>)))"
proof -
  have "get_and_cache_subscription_licenses_for_learner env (po_customer_uuid p) (p\<lparr>po_subscriptions := empty_subscriptions\<rparr>) =
      (cache_set env (Licenses_Key (po_customer_uuid p) (Some (pv_user_id env))) v
         (p\<lparr>po_subscriptions := empty_subscriptions, po_services := x\<rparr>), Inr v)"
    using assms by (simp add: get_and_cache_subscription_licenses_for_learner_def get_and_cache_def cached_value_def on_portal_def)
  then show ?thesis
    by (auto simp: load_subscription_licenses_def keeps_cache_def cache_set_def add_error_def split: sum.splits)
qed

text \<open>After a request has read the licenses of a learner whose id in the LMS is not the id of the user,
  whatever it then activates or applies, the answer it read stays in the cache: until the timeout every
  request of that learner is served the licenses as they were before the activation.\<close>

theorem licenses_stale_after_activation:
  assumes "po_cache p (Licenses_Key (po_customer_uuid p) (Some (pv_user_id env))) = None"
    and "get_subscription_licenses_for_learner (pv_api env) (param_text env (po_customer_uuid p))
          [(''include_revoked'', JBool True), (''current_plans_only'', JBool False)] (po_services p) = (x, Inr v)"
    and "pv_lms_user_id env \<noteq> Some (pv_user_id env)" and "pv_user_id env' = pv_user_id env"
    and "pv_now env' < pv_now env + pv_timeout env (Licenses_Key (po_customer_uuid p) (Some (pv_user_id env)))"
    and "po_cache q = po_cache (fst (load_and_process_subsidies env p))"
  shows "get_and_cache_subscription_licenses_for_learner env' (po_customer_uuid p) q = (q, Inr v)"
proof -
  let ?K = "Licenses_Key (po_customer_uuid p) (Some (pv_user_id env))"
  let ?P = "keeps_cache ?K (Some (v, pv_now env + pv_timeout env ?K))"
  have loaded: "?P (fst (load_subscription_licenses env (p\<lparr>po_subscriptions := empty_subscriptions\<rparr>)))"
    by (rule load_licenses_cached [OF assms(1,2)])
  have "?P (fst (load_and_process_subsidies env p))" unfolding load_and_process_subsidies_def
    by (rule sbind_keeps [where P = ?P], rule loaded)
      (metis loaded process_keeps_cache [OF assms(3)] fst_conv)
  then show ?thesis using assms(4,5,6)
    by (simp add: get_and_cache_subscription_licenses_for_learner_def get_and_cache_def cached_value_def keeps_cache_def)
qed

definition demo_portal :: "nat portal" where
  "demo_portal = \<lparr>po_services = 0, po_cache = (\<lambda>_. None), po_status = 200, po_errors = [], po_warnings = [],
     po_customer_uuid = JStr ''c'', po_customer_slug = JNull, po_features = JNull, po_data = [], po_subscriptions = []\<rparr>"

theorem licenses_stale_after_activation_witness:
  "subscriptions_get (fst (load_and_process_subsidies demo_portal_env demo_portal)) ''subscription_license'' JNull
     = license_json ''3'' ACTIVATED True \<and>
   snd (get_and_cache_subscription_licenses_for_learner (demo_portal_env\<lparr>pv_now := 700\<rparr>) (JStr ''c'')
     (fst (load_and_process_subsidies demo_portal_env demo_portal)))
     = Inr (JObj [(''results'', JList [license_json ''3'' ASSIGNED_STATUS True])])"
proof -
  have a: "subscriptions_get (fst (load_and_process_subsidies demo_portal_env demo_portal)) ''subscription_license'' JNull
     = license_json ''3'' ACTIVATED True" by code_simp
  have k: "po_cache demo_portal (Licenses_Key (po_customer_uuid demo_portal) (Some (pv_user_id demo_portal_env))) = None"
    by (simp add: demo_portal_def)
  have s: "get_subscription_licenses_for_learner (pv_api demo_portal_env) (param_text demo_portal_env (po_customer_uuid demo_portal))
      [(''include_revoked'', JBool True), (''current_plans_only'', JBool False)] (po_services demo_portal)
      = (1, Inr (JObj [(''results'', JList [license_json ''3'' ASSIGNED_STATUS True])]))" by code_simp
  have "pv_lms_user_id demo_portal_env \<noteq> Some (pv_user_id demo_portal_env)"
    "pv_user_id (demo_portal_env\<lparr>pv_now := 700\<rparr>) = pv_user_id demo_portal_env"
    "pv_now (demo_portal_env\<lparr>pv_now := 700\<rparr>) < pv_now demo_portal_env
      + pv_timeout demo_portal_env (Licenses_Key (po_customer_uuid demo_portal) (Some (pv_user_id demo_portal_env)))"
    by (simp_all add: demo_portal_env_def)
  from licenses_stale_after_activation [OF k s this refl] show ?thesis using a by (simp add: demo_portal_def)
qed

section \<open>The customer a request is served for\<close>

text \<open>Rows of the service: whether the customer is the active one, and its fields.\<close>

definition customer_user :: "bool \<times> (string \<times> json) list \<Rightarrow> json" where
  "customer_user row = JObj [(''active'', JBool (fst row)), (''enterprise_customer'', JObj (snd row))]"

lemma active_of_users:
  "find fst rows = Some (True, c) \<Longrightarrow> get_active_enterprise_customer (map customer_user rows) = Inr (JObj c)"
proof -
  have "next_where (\<lambda>u. rbind (json_get u ''active'' (JBool False)) (\<lambda>a. Inr (json_truthy a))) (map customer_user rows)
      = Inr (map_option customer_user (find fst rows))"
    by (induction rows) (auto simp: customer_user_def json_get_def)
  then show "find fst rows = Some (True, c) \<Longrightarrow> ?thesis"
    by (simp add: get_active_enterprise_customer_def customer_user_def json_get_def)
qed

definition matching :: "json \<Rightarrow> json \<Rightarrow> (string \<times> json) list \<Rightarrow> bool" where
  "matching slug u c \<longleftrightarrow> c \<noteq> [] \<and> (get_item c ''slug'' = slug \<or> get_item c ''uuid'' = u)"

lemma matches_customer:
  "enterprise_customer_matches_slug_or_uuid slug u (JObj c) = Inr (matching slug u c)"
  by (auto simp: enterprise_customer_matches_slug_or_uuid_def matching_def json_get_def get_item_def split: option.splits)

lemma requested_of_users:
  "next_where (\<lambda>cu. rbind (json_get cu ''enterprise_customer'' JNull) (enterprise_customer_matches_slug_or_uuid slug u))
     (map customer_user rows) = Inr (map_option customer_user (find (\<lambda>row. matching slug u (snd row)) rows))"
  by (induction rows) (auto simp: customer_user_def json_get_def matches_customer)



section \<open>Two faults of the processing of licenses\<close>

text \<open>A license that was not activated appears once for every license that was.\<close>

lemma replace_license_unmatched:
  assumes "json_get l ''uuid'' JNull = Inr u" and "\<forall>a \<in> set as. \<exists>v. json_get a ''uuid'' JNull = Inr v \<and> v \<noteq> u"
  shows "replace_license l as = Inr (replicate (length as) l)"
  using assms(2) by (induction as) (auto simp: assms(1))

text \<open>The error of a failed application is not recorded; in its place the whole processing fails.\<close>

lemma failed_auto_apply_aborts:
  assumes "\<not> json_truthy (subscriptions_get p ''subscription_licenses'' (JList []))"
    and "is_request_user_linked_to_enterprise_customer p = Inr True"
    and "eligible_for_auto_apply (enterprise_customer p) (or_value (subscriptions_get p ''customer_agreement'' JNull) (JObj [])) = Inr True"
    and "auto_apply env (or_value (subscriptions_get p ''customer_agreement'' JNull) (JObj []))
           (subscriptions_get p ''subscription_licenses'' (JList [])) (by_status_of p) p = (p', Inl e)"
  shows "check_and_auto_apply_license env p = (p', Inl ValidationError)"
  using assms by (simp add: check_and_auto_apply_license_def add_error_with_tuple_def)

end
