(* ===== verification/Assignment_Tasks.thy ===== *)
theory Assignment_Tasks
  imports Assignment_Lifecycle Api_Client Policy_Model
begin

text \<open>
  The Celery tasks of assignments (\<^verbatim>\<open>content_assignments/tasks.py\<close>), with the
  base task that retries (\<^verbatim>\<open>tasks.py\<close>), the Braze client
  (\<^verbatim>\<open>api_client/braze_client.py\<close>) and the start dates of self-paced courses
  (\<^verbatim>\<open>content_assignments/utils.py\<close>).

  The world holds the rows, the mails Braze accepted and the state \<open>'x\<close> of the services behind the
  clients, which moves with every call, so that a retry may be answered differently. Celery calls the
  body again while it raises an exception of \<open>autoretry_for\<close> and retries are left, then
  \<open>on_failure\<close>.
\<close>

section \<open>Course pages\<close>

text \<open>What the tasks read of a course beyond its \<open>course_metadata\<close>.\<close>

record task_run =
  tr_key :: "string option"
  tr_uuid :: "string option"
  tr_pacing_type :: "string option"
  tr_weeks_to_complete :: "int option"

record course_page = course_metadata +
  pg_owners :: "string option list"
  pg_card_image_url :: "string option"
  pg_image_url :: "string option"
  pg_course_runs :: "task_run list"
  pg_advertised_course_run_uuid :: "string option"
  pg_end_date :: "date_string option"
  pg_end_date_by_run :: "(string \<times> date_string option) list"

section \<open>World and environment\<close>

record mail =
  ml_campaign :: string
  ml_recipient :: json
  ml_properties :: "(string \<times> json) list"

record 'x mail_world =
  mw_assignments :: assignments
  mw_actions :: actions
  mw_mails :: "mail list"
  mw_services :: 'x

record 'x mail_env =
  me_now :: datetime
  me_traceback :: "py_error \<Rightarrow> string"
  me_configurations :: "assignment_configuration list"
  me_policies :: "policy list"
  me_api :: "'x api"
  me_catalog :: "uuid \<Rightarrow> string list \<Rightarrow> 'x \<Rightarrow> 'x \<times> course_page list result"
  me_braze_configured :: bool
  me_identify_users :: "json \<Rightarrow> 'x \<Rightarrow> 'x \<times> unit result"
  me_create_braze_alias :: "string list \<Rightarrow> string \<Rightarrow> 'x \<Rightarrow> 'x \<times> unit result"
  me_send_campaign :: "mail \<Rightarrow> 'x \<Rightarrow> 'x \<times> unit result"
  me_settings :: "string \<Rightarrow> string option"
  me_learner_portal_url :: string
  me_subsidy_expiration :: "policy \<Rightarrow> date_string option result"
  me_requests :: "learner_credit_request list"
  me_uuid_text :: "uuid \<Rightarrow> string"
  me_text :: "json \<Rightarrow> string"
  me_strftime :: "string \<Rightarrow> datetime \<Rightarrow> string"
  me_dateutil :: "date_string \<Rightarrow> datetime result"

text \<open>A call of a service from a task.\<close>

definition on_services :: "('x \<Rightarrow> 'x \<times> 'a result) \<Rightarrow> 'x mail_world \<Rightarrow> 'x mail_world \<times> 'a result" where
  "on_services call w = (case call (mw_services w) of (x, r) \<Rightarrow> (w\<lparr>mw_services := x\<rparr>, r))"

section \<open>Retries\<close>

definition autoretry_for :: "py_error list" where
  "autoretry_for = [ConnectionError, Timeout, HTTPError, SubsidyAPIHTTPError, OperationalError, BrazeClientError]"

definition TASK_MAX_RETRIES :: nat where
  "TASK_MAX_RETRIES = 5"

fun run_task ::
    "nat \<Rightarrow> ('w \<Rightarrow> 'w \<times> unit result) \<Rightarrow> (py_error \<Rightarrow> 'w \<Rightarrow> 'w \<times> unit result) \<Rightarrow> 'w \<Rightarrow> 'w \<times> unit result" where
  "run_task retries body on_failure w =
     (case body w of
        (w1, Inr _) \<Rightarrow> (w1, Inr ())
      | (w1, Inl e) \<Rightarrow>
          if e \<in> set autoretry_for \<and> retries > 0 then run_task (retries - 1) body on_failure w1
          else (fst (on_failure e w1), Inl e))"

declare run_task.simps [simp del]

section \<open>The Braze client\<close>

definition enterprise_braze_alias_label :: string where
  "enterprise_braze_alias_label = ''Enterprise''"

definition braze_api_client :: "'x mail_env \<Rightarrow> unit result" where
  "braze_api_client env = (if me_braze_configured env then Inr () else Inl ValueError)"

fun join_commas :: "string list \<Rightarrow> string" where
  "join_commas [] = []"
| "join_commas [x] = x"
| "join_commas (x # xs) = x @ '','' @ join_commas xs"

definition generate_mailto_link :: "string list \<Rightarrow> string option" where
  "generate_mailto_link emails = (if emails = [] then None else Some (''mailto:'' @ join_commas emails))"

definition user_alias :: "json \<Rightarrow> json" where
  "user_alias address = JObj [(''alias_label'', JStr enterprise_braze_alias_label), (''alias_name'', address)]"

definition create_recipient :: "'x mail_env \<Rightarrow> json \<Rightarrow> json \<Rightarrow> 'x mail_world \<Rightarrow> 'x mail_world \<times> json result" where
  "create_recipient env address lms_user_id w =
     sbind (on_services (me_identify_users env
              (JList [JObj [(''external_id'', lms_user_id), (''user_alias'', user_alias address)]])) w)
       (\<lambda>_ w. (w, Inr (JObj
          [(''external_user_id'', lms_user_id),
           (''attributes'', JObj [(''user_alias'', user_alias address), (''email'', address),
              (''is_enterprise_learner'', JBool True), (''_update_existing_only'', JBool False)]),
           (''send_to_existing_only'', JBool False), (''trigger_properties'', JObj [])])))"

definition create_recipient_no_external_id :: "string \<Rightarrow> json" where
  "create_recipient_no_external_id address =
     JObj [(''attributes'', JObj [(''email'', JStr address), (''is_enterprise_learner'', JBool True)]),
           (''user_alias'', user_alias (JStr address))]"

definition create_braze_recipient ::
    "'x mail_env \<Rightarrow> string \<Rightarrow> int option \<Rightarrow> 'x mail_world \<Rightarrow> 'x mail_world \<times> json result" where
  "create_braze_recipient env address lms_user_id w =
     (if truthy_int lms_user_id then create_recipient env (JStr address) (JNum (the lms_user_id)) w
      else sbind (on_services (me_create_braze_alias env [address] enterprise_braze_alias_label) w)
             (\<lambda>_ w. (w, Inr (create_recipient_no_external_id address))))"

section \<open>The sender of campaigns\<close>

text \<open>The sender with its two memos.\<close>

record sender =
  sn_assignment :: learner_content_assignment
  sn_enterprise_customer_uuid :: uuid
  sn_policy :: policy
  sn_customer_data :: json
  sn_course_metadata :: "course_page option"

definition get_assignment_or_raise :: "uuid \<Rightarrow> 'x mail_world \<Rightarrow> learner_content_assignment result" where
  "get_assignment_or_raise u w =
     (case find (\<lambda>a. lca_uuid a = u) (mw_assignments w) of None \<Rightarrow> Inl DoesNotExist | Some a \<Rightarrow> Inr a)"

definition configuration_of :: "'x mail_env \<Rightarrow> learner_content_assignment \<Rightarrow> assignment_configuration result" where
  "configuration_of env a =
     (case find (\<lambda>c. Some (ac_uuid c) = lca_assignment_configuration a) (me_configurations env) of
        None \<Rightarrow> Inl AttributeError
      | Some c \<Rightarrow> Inr c)"

definition braze_campaign_sender :: "'x mail_env \<Rightarrow> learner_content_assignment \<Rightarrow> sender result" where
  "braze_campaign_sender env a =
     rbind (configuration_of env a) (\<lambda>c.
       case get_one (filter (\<lambda>p. map_option ac_uuid (sap_assignment_configuration p) = Some (ac_uuid c))
              (me_policies env)) of
         Does_Not_Exist \<Rightarrow> Inl DoesNotExist
       | Multiple_Objects \<Rightarrow> Inl MultipleObjectsReturned
       | Found p \<Rightarrow>
           rbind (braze_api_client env) (\<lambda>_.
             Inr \<lparr>sn_assignment = a, sn_enterprise_customer_uuid = ac_enterprise_customer_uuid c, sn_policy = p,
                  sn_customer_data = JNull, sn_course_metadata = None\<rparr>))"

text \<open>The memoised reads: a falsy memo is read again.\<close>

definition customer_data ::
    "'x mail_env \<Rightarrow> sender \<Rightarrow> 'x mail_world \<Rightarrow> 'x mail_world \<times> (sender \<times> json) result" where
  "customer_data env s w =
     (if json_truthy (sn_customer_data s) then (w, Inr (s, sn_customer_data s))
      else sbind (on_services (get_enterprise_customer_data (me_api env)
                (Some (me_uuid_text env (sn_enterprise_customer_uuid s))) None None) w)
             (\<lambda>d w. (w, Inr (s\<lparr>sn_customer_data := d\<rparr>, d))))"

definition course_metadata_of ::
    "'x mail_env \<Rightarrow> sender \<Rightarrow> 'x mail_world \<Rightarrow> 'x mail_world \<times> (sender \<times> course_page) result" where
  "course_metadata_of env s w =
     (case sn_course_metadata s of
        Some m \<Rightarrow> (w, Inr (s, m))
      | None \<Rightarrow>
          sbind (on_services (me_catalog env (sap_catalog_uuid (sn_policy s)) [lca_content_key (sn_assignment s)]) w)
            (\<lambda>pages w.
               (case find (\<lambda>m. cm_key m = lca_content_key (sn_assignment s) \<or>
                              Some (cm_key m) = lca_parent_content_key (sn_assignment s)) pages of
                  None \<Rightarrow> (w, Inl GenericException)
                | Some m \<Rightarrow> (w, Inr (s\<lparr>sn_course_metadata := Some m\<rparr>, m)))))"

definition send_campaign_message ::
    "'x mail_env \<Rightarrow> sender \<Rightarrow> (string \<times> json) list \<Rightarrow> string option \<Rightarrow> 'x mail_world \<Rightarrow> 'x mail_world \<times> unit result" where
  "send_campaign_message env s properties campaign w =
     (if \<not> truthy campaign then (w, Inl GenericException)
      else
        let a = sn_assignment s;
            address = lca_learner_email a
        in sbind (case lca_lms_user_id a of
                    None \<Rightarrow>
                      sbind (on_services (me_create_braze_alias env [address] enterprise_braze_alias_label) w)
                        (\<lambda>_ w. (w, Inr (create_recipient_no_external_id address)))
                  | Some u \<Rightarrow> create_recipient env (JStr address) (JNum u) w)
             (\<lambda>recipient w.
                let m = \<lparr>ml_campaign = the campaign, ml_recipient = recipient, ml_properties = properties\<rparr>
                in sbind (on_services (me_send_campaign env m) w) (\<lambda>_ w. (w\<lparr>mw_mails := mw_mails w @ [m]\<rparr>, Inr ()))))"

section \<open>Dates\<close>

text \<open>Days are those of the UTC calendar; the text of the current time drops the microseconds.\<close>

definition whole_seconds :: "datetime \<Rightarrow> datetime" where
  "whole_seconds t = (t div 1000000) * 1000000"

definition is_within_minimum_start_date_threshold :: "datetime \<Rightarrow> datetime \<Rightarrow> bool" where
  "is_within_minimum_start_date_threshold curr_date start_date \<longleftrightarrow> start_date < curr_date - days 14"

definition has_time_to_complete :: "datetime \<Rightarrow> datetime \<Rightarrow> int \<Rightarrow> bool" where
  "has_time_to_complete curr_date end_date weeks_to_complete \<longleftrightarrow>
     (curr_date + days (7 * weeks_to_complete)) div days 1 \<le> end_date div days 1"

definition get_self_paced_normalized_start_date ::
    "'x mail_env \<Rightarrow> date_string option \<Rightarrow> date_string option \<Rightarrow> task_run option \<Rightarrow> date_string option result" where
  "get_self_paced_normalized_start_date env start_date end_date course_run =
     (case course_run of
        None \<Rightarrow> Inl AttributeError
      | Some run \<Rightarrow>
          (let today = Some (Some (whole_seconds (me_now env)))
           in case (start_date, end_date) of
                (Some s, Some e) \<Rightarrow>
                  if \<not> truthy (tr_pacing_type run) \<or> \<not> truthy_int (tr_weeks_to_complete run) then Inr today
                  else rbind (me_dateutil env s) (\<lambda>start.
                       rbind (me_dateutil env e) (\<lambda>end_time.
                         if tr_pacing_type run = Some ''self_paced'' \<and> start < me_now env \<and>
                            (has_time_to_complete (me_now env) end_time (the (tr_weeks_to_complete run)) \<or>
                             is_within_minimum_start_date_threshold (me_now env) start)
                         then Inr today else Inr start_date))
              | _ \<Rightarrow> Inr today))"

definition get_advertised_course_run_metadata :: "course_page \<Rightarrow> task_run option" where
  "get_advertised_course_run_metadata m =
     find (\<lambda>r. tr_uuid r = pg_advertised_course_run_uuid m) (pg_course_runs m)"

definition get_course_run_metadata_for_assignment :: "learner_content_assignment \<Rightarrow> course_page \<Rightarrow> task_run option" where
  "get_course_run_metadata_for_assignment a m =
     (if truthy (lca_preferred_course_run_key a)
      then (case find (\<lambda>r. tr_key r = lca_preferred_course_run_key a) (pg_course_runs m) of
              Some r \<Rightarrow> Some r
            | None \<Rightarrow> get_advertised_course_run_metadata m)
      else get_advertised_course_run_metadata m)"

definition normalized_metadata :: "learner_content_assignment \<Rightarrow> course_page \<Rightarrow> run_metadata" where
  "normalized_metadata a m = get_normalized_metadata_for_assignment a (course_metadata.truncate m)"

definition normalized_end_date :: "learner_content_assignment \<Rightarrow> course_page \<Rightarrow> date_string option" where
  "normalized_end_date a m =
     (if truthy (lca_preferred_course_run_key a)
      then Option.bind (map_of (pg_end_date_by_run m) (the (lca_preferred_course_run_key a))) id
      else pg_end_date m)"

section \<open>Properties of a campaign\<close>

definition json_text :: "string option \<Rightarrow> json" where
  "json_text t = (case t of None \<Rightarrow> JNull | Some s \<Rightarrow> JStr s)"

definition get_human_readable_date :: "'x mail_env \<Rightarrow> date_string option \<Rightarrow> string \<Rightarrow> json result" where
  "get_human_readable_date env d pattern =
     rbind (parse_datetime_string d) (\<lambda>t. Inr (json_text (map_option (me_strftime env pattern) t)))"

definition braze_timestamp_format :: string where
  "braze_timestamp_format = ''%Y-%m-%dT%H:%M:%SZ''"

definition default_strftime_pattern :: string where
  "default_strftime_pattern = ''%b %d, %Y''"

definition get_card_image_url :: "course_page \<Rightarrow> json" where
  "get_card_image_url m =
     json_text (if truthy (pg_card_image_url m) then pg_card_image_url m
                else if truthy (pg_image_url m) then pg_image_url m else None)"

fun join_names :: "string \<Rightarrow> string list \<Rightarrow> string" where
  "join_names sep [] = []"
| "join_names sep [x] = x"
| "join_names sep (x # xs) = x @ sep @ join_names sep xs"

text \<open>One name may be \<open>None\<close>; joining one raises.\<close>

definition get_course_partners :: "course_page \<Rightarrow> json result" where
  "get_course_partners m =
     (case pg_owners m of
        [] \<Rightarrow> Inl GenericException
      | [name] \<Rightarrow> Inr (json_text name)
      | names \<Rightarrow>
          (if None \<in> set names then Inl TypeError
           else let texts = map the names
                in Inr (JStr (if length texts = 2 then join_names '' and '' texts
                              else join_names '', '' (butlast texts) @ '', and '' @ last texts))))"

fun email_text :: "json \<Rightarrow> string result" where
  "email_text user = rbind (item user ''email'') (\<lambda>e. case e of JStr s \<Rightarrow> Inr s | _ \<Rightarrow> Inl TypeError)"

definition contact_admin_link :: "json \<Rightarrow> json result" where
  "contact_admin_link customer =
     rbind (item customer ''admin_users'') (\<lambda>admins.
     rbind (json_iter admins) (\<lambda>users.
     rbind (rmap email_text users) (\<lambda>emails. Inr (json_text (generate_mailto_link emails)))))"

definition portal_link :: "'x mail_env \<Rightarrow> json \<Rightarrow> json result" where
  "portal_link env customer =
     rbind (item customer ''slug'') (\<lambda>slug.
       Inr (JStr (me_learner_portal_url env @ ''/'' @ (case slug of JStr t \<Rightarrow> t | v \<Rightarrow> me_text env v))))"

text \<open>The earliest of the three dates at which the assignment expires.\<close>

definition action_required_by ::
    "'x mail_env \<Rightarrow> sender \<Rightarrow> course_page \<Rightarrow> json result" where
  "action_required_by env s m =
     rbind (me_subsidy_expiration env (sn_policy s)) (\<lambda>subsidy_expiration.
     rbind (get_automatic_expiration_date_and_reason (me_now env) subsidy_expiration (\<lambda>_. []) (me_requests env)
              (sn_assignment s) (Some (course_metadata.truncate m))) (\<lambda>(date, _).
       Inr (JStr (me_strftime env braze_timestamp_format date))))"

datatype trigger_property =
    contact_admin_link_property | organization | course_title | enrollment_deadline | start_date
  | course_partner | course_card_image | learner_portal_link | action_required_by_timestamp
  | enterprise_dashboard_url

fun property_name :: "trigger_property \<Rightarrow> string" where
  "property_name contact_admin_link_property = ''contact_admin_link''"
| "property_name organization = ''organization''"
| "property_name course_title = ''course_title''"
| "property_name enrollment_deadline = ''enrollment_deadline''"
| "property_name start_date = ''start_date''"
| "property_name course_partner = ''course_partner''"
| "property_name course_card_image = ''course_card_image''"
| "property_name learner_portal_link = ''learner_portal_link''"
| "property_name action_required_by_timestamp = ''action_required_by_timestamp''"
| "property_name enterprise_dashboard_url = ''enterprise_dashboard_url''"

text \<open>A property of the customer, of the course, or of the assignment alone.\<close>

definition of_customer ::
    "'x mail_env \<Rightarrow> sender \<Rightarrow> (json \<Rightarrow> json result) \<Rightarrow> 'x mail_world \<Rightarrow> 'x mail_world \<times> (sender \<times> json) result" where
  "of_customer env s f w =
     sbind (customer_data env s w) (\<lambda>(s, d) w. (w, rbind (f d) (\<lambda>v. Inr (s, v))))"

definition of_course ::
    "'x mail_env \<Rightarrow> sender \<Rightarrow> (course_page \<Rightarrow> json result) \<Rightarrow> 'x mail_world \<Rightarrow> 'x mail_world \<times> (sender \<times> json) result" where
  "of_course env s f w =
     sbind (course_metadata_of env s w) (\<lambda>(s, m) w. (w, rbind (f m) (\<lambda>v. Inr (s, v))))"

fun get_property ::
    "'x mail_env \<Rightarrow> sender \<Rightarrow> trigger_property \<Rightarrow> 'x mail_world \<Rightarrow> 'x mail_world \<times> (sender \<times> json) result" where
  "get_property env s contact_admin_link_property w = of_customer env s contact_admin_link w"
| "get_property env s organization w = of_customer env s (\<lambda>d. json_get d ''name'' JNull) w"
| "get_property env s course_title w = (w, Inr (s, json_text (lca_content_title (sn_assignment s))))"
| "get_property env s enrollment_deadline w =
     of_course env s (\<lambda>m. get_human_readable_date env
       (rmd_enroll_by_date (normalized_metadata (sn_assignment s) m)) default_strftime_pattern) w"
| "get_property env s start_date w =
     of_course env s (\<lambda>m.
       rbind (get_self_paced_normalized_start_date env
                (rmd_start_date (normalized_metadata (sn_assignment s) m)) (normalized_end_date (sn_assignment s) m)
                (get_course_run_metadata_for_assignment (sn_assignment s) m)) (\<lambda>d.
         get_human_readable_date env d braze_timestamp_format)) w"
| "get_property env s course_partner w = of_course env s get_course_partners w"
| "get_property env s course_card_image w = of_course env s (\<lambda>m. Inr (get_card_image_url m)) w"
| "get_property env s learner_portal_link w = of_customer env s (portal_link env) w"
| "get_property env s action_required_by_timestamp w = of_course env s (action_required_by env s) w"
| "get_property env s enterprise_dashboard_url w = of_customer env s (portal_link env) w"

fun get_properties ::
    "'x mail_env \<Rightarrow> sender \<Rightarrow> trigger_property list \<Rightarrow> 'x mail_world \<Rightarrow>
      'x mail_world \<times> (sender \<times> (string \<times> json) list) result" where
  "get_properties env s [] w = (w, Inr (s, []))"
| "get_properties env s (p # ps) w =
     sbind (get_property env s p w) (\<lambda>(s, v) w.
     sbind (get_properties env s ps w) (\<lambda>(s, vs) w. (w, Inr (s, (property_name p, v) # vs))))"

section \<open>Failing tasks\<close>

definition progress_state_on_failure ::
    "'x mail_env \<Rightarrow> learner_content_assignment \<Rightarrow> 'x mail_world \<Rightarrow> 'x mail_world \<times> unit result" where
  "progress_state_on_failure env a w =
     (case save_assignment (me_now env) (a\<lparr>lca_state := ERRORED, lca_errored_at := Some (me_now env)\<rparr>) (mw_assignments w) of
        Inl e \<Rightarrow> (w, Inl e)
      | Inr table \<Rightarrow> (w\<lparr>mw_assignments := table\<rparr>, Inr ()))"

text \<open>\<open>keeps\<close>: the class overrides \<open>progress_state_on_failure\<close> to leave the state alone.\<close>

definition task_failed ::
    "'x mail_env \<Rightarrow> bool \<Rightarrow> (string \<Rightarrow> learner_content_assignment \<Rightarrow> actions \<Rightarrow> actions) \<Rightarrow> uuid \<Rightarrow> py_error \<Rightarrow>
      'x mail_world \<Rightarrow> 'x mail_world \<times> unit result" where
  "task_failed env keeps add_errored_action arg e w =
     (case get_assignment_or_raise arg w of
        Inl err \<Rightarrow> (w, Inl err)
      | Inr a \<Rightarrow>
          sbind (if keeps then (w, Inr ()) else progress_state_on_failure env a w) (\<lambda>_ w.
            (w\<lparr>mw_actions := add_errored_action (me_traceback env e) a (mw_actions w)\<rparr>, Inr ())))"

section \<open>Tasks\<close>

definition link_learner :: "'x mail_env \<Rightarrow> uuid \<Rightarrow> 'x mail_world \<Rightarrow> 'x mail_world \<times> unit result" where
  "link_learner env u w =
     sbind (w, get_assignment_or_raise u w) (\<lambda>a w.
     sbind (w, configuration_of env a) (\<lambda>c w.
     sbind (on_services (create_pending_enterprise_users (me_api env)
              (me_uuid_text env (ac_enterprise_customer_uuid c)) [lca_learner_email a]) w) (\<lambda>_ w.
       (w\<lparr>mw_actions := add_successful_linked_action (me_now env) a (mw_actions w)\<rparr>, Inr ()))))"

definition create_pending_enterprise_learner_for_assignment_task ::
    "'x mail_env \<Rightarrow> uuid \<Rightarrow> 'x mail_world \<Rightarrow> 'x mail_world \<times> unit result" where
  "create_pending_enterprise_learner_for_assignment_task env u =
     run_task TASK_MAX_RETRIES (link_learner env u) (task_failed env False add_errored_linked_action u)"

text \<open>The common shape of the mails: properties, campaign, and the action of success, if any.\<close>

definition send_mail ::
    "'x mail_env \<Rightarrow> learner_content_assignment \<Rightarrow> trigger_property list \<Rightarrow> (string \<times> json) list \<Rightarrow>
      string \<Rightarrow> (learner_content_assignment \<Rightarrow> actions \<Rightarrow> actions) \<Rightarrow> 'x mail_world \<Rightarrow> 'x mail_world \<times> unit result" where
  "send_mail env a properties extra setting add_action w =
     sbind (w, braze_campaign_sender env a) (\<lambda>s w.
     sbind (get_properties env s properties w) (\<lambda>(s, vs) w.
     sbind (send_campaign_message env s (vs @ extra) (me_settings env setting) w) (\<lambda>_ w.
       (w\<lparr>mw_actions := add_action a (mw_actions w)\<rparr>, Inr ()))))"

definition mail_about ::
    "'x mail_env \<Rightarrow> trigger_property list \<Rightarrow> (string \<times> json) list \<Rightarrow> (learner_content_assignment \<Rightarrow> string) \<Rightarrow>
      (learner_content_assignment \<Rightarrow> actions \<Rightarrow> actions) \<Rightarrow> uuid \<Rightarrow> 'x mail_world \<Rightarrow> 'x mail_world \<times> unit result" where
  "mail_about env properties extra setting add_action u w =
     sbind (w, get_assignment_or_raise u w) (\<lambda>a w. send_mail env a properties extra (setting a) add_action w)"

definition short_properties :: "trigger_property list" where
  "short_properties = [contact_admin_link_property, organization, course_title]"

definition long_properties :: "trigger_property list" where
  "long_properties = [contact_admin_link_property, organization, course_title, enrollment_deadline, start_date,
     course_partner, course_card_image, learner_portal_link, action_required_by_timestamp]"

definition send_cancel_email_for_pending_assignment ::
    "'x mail_env \<Rightarrow> uuid \<Rightarrow> 'x mail_world \<Rightarrow> 'x mail_world \<times> unit result" where
  "send_cancel_email_for_pending_assignment env u =
     run_task TASK_MAX_RETRIES
       (mail_about env short_properties [] (\<lambda>_. ''BRAZE_ASSIGNMENT_CANCELLED_NOTIFICATION_CAMPAIGN'')
          (add_successful_cancel_action (me_now env)) u)
       (task_failed env False add_errored_cancel_action u)"

definition send_exec_ed_enrollment_warmer ::
    "'x mail_env \<Rightarrow> uuid \<Rightarrow> int \<Rightarrow> 'x mail_world \<Rightarrow> 'x mail_world \<times> unit result" where
  "send_exec_ed_enrollment_warmer env u days_before_course_start_date =
     run_task TASK_MAX_RETRIES
       (mail_about env [contact_admin_link_property, organization, course_title, start_date, course_partner,
            course_card_image, learner_portal_link]
          [(''days_before_course_start_date'', JNum days_before_course_start_date)]
          (\<lambda>_. ''BRAZE_ASSIGNMENT_NUDGE_EXEC_ED_ACCEPTED_ASSIGNMENT_CAMPAIGN'') (\<lambda>_ actions. actions) u)
       (task_failed env False add_errored_reminded_action u)"

definition send_reminder_email_for_pending_assignment ::
    "'x mail_env \<Rightarrow> uuid \<Rightarrow> 'x mail_world \<Rightarrow> 'x mail_world \<times> unit result" where
  "send_reminder_email_for_pending_assignment env u =
     run_task TASK_MAX_RETRIES
       (mail_about env long_properties []
          (\<lambda>a. if lca_lms_user_id a \<noteq> None then ''BRAZE_ASSIGNMENT_REMINDER_POST_LOGISTRATION_NOTIFICATION_CAMPAIGN''
               else ''BRAZE_ASSIGNMENT_REMINDER_NOTIFICATION_CAMPAIGN'')
          (add_successful_reminded_action (me_now env)) u)
       (task_failed env True add_errored_reminded_action u)"

definition send_email_for_new_assignment ::
    "'x mail_env \<Rightarrow> uuid \<Rightarrow> 'x mail_world \<Rightarrow> 'x mail_world \<times> unit result" where
  "send_email_for_new_assignment env u =
     run_task TASK_MAX_RETRIES
       (mail_about env long_properties [] (\<lambda>_. ''BRAZE_ASSIGNMENT_NOTIFICATION_CAMPAIGN'')
          (add_successful_notified_action (me_now env)) u)
       (task_failed env True add_errored_notified_action u)"

definition send_assignment_automatically_expired_email ::
    "'x mail_env \<Rightarrow> uuid \<Rightarrow> 'x mail_world \<Rightarrow> 'x mail_world \<times> unit result" where
  "send_assignment_automatically_expired_email env u =
     run_task TASK_MAX_RETRIES
       (mail_about env short_properties []
          (\<lambda>_. ''BRAZE_ASSIGNMENT_AUTOMATIC_CANCELLATION_NOTIFICATION_CAMPAIGN'')
          (add_successful_expiration_action (me_now env)) u)
       (task_failed env False add_errored_expiration_action u)"

text \<open>The argument of this task is a request, but its failure looks for an assignment of that key.\<close>

definition mail_bnr_expired :: "'x mail_env \<Rightarrow> uuid \<Rightarrow> 'x mail_world \<Rightarrow> 'x mail_world \<times> unit result" where
  "mail_bnr_expired env u w =
     (case find (\<lambda>r. sr_uuid r = u) (me_requests env) of
        None \<Rightarrow> (w, Inl DoesNotExist)
      | Some r \<Rightarrow>
          (case lcr_assignment r of
             None \<Rightarrow> (w, Inr ())
           | Some a \<Rightarrow> mail_about env (short_properties @ [learner_portal_link]) []
               (\<lambda>_. ''BRAZE_LEARNER_CREDIT_BNR_AUTOMATIC_EXPIRATION_NOTIFICATION_CAMPAIGN'') (\<lambda>_ actions. actions) a w))"

definition send_bnr_automatically_expired_email ::
    "'x mail_env \<Rightarrow> uuid \<Rightarrow> 'x mail_world \<Rightarrow> 'x mail_world \<times> unit result" where
  "send_bnr_automatically_expired_email env u =
     run_task TASK_MAX_RETRIES (mail_bnr_expired env u) (task_failed env False add_errored_expiration_action u)"

section \<open>Clearing personal data\<close>

text \<open>
  The rows with their history, and the summary so far. \<open>fetch\<close> is the catalog read of
  \<open>Assignment_Lifecycle\<close>, \<open>nonce\<close> the random part of a retired address.
\<close>

record pii_state =
  ps_table :: assignments
  ps_history :: assignments
  ps_cleared :: "uuid list"
  ps_skipped :: nat

record pii_env =
  pi_now :: datetime
  pi_policies :: "policy list"
  pi_actions :: actions
  pi_requests :: "learner_credit_request list"
  pi_subsidy_expiration :: "policy \<Rightarrow> date_string option result"
  pi_fetch :: "uuid \<Rightarrow> string list \<Rightarrow> course_metadata list"
  pi_nonce :: "uuid \<Rightarrow> string"

definition should_clear_pii_for_assignment ::
    "pii_env \<Rightarrow> policy \<Rightarrow> learner_content_assignment \<Rightarrow> course_metadata option \<Rightarrow> bool result" where
  "should_clear_pii_for_assignment env policy a content_metadata =
     (if get_last_successful_expiration_action (pi_actions env) a = None then Inr False
      else rbind (pi_subsidy_expiration env policy) (\<lambda>subsidy_expiration.
           rbind (get_automatic_expiration_date_and_reason (pi_now env) subsidy_expiration
                    (pi_fetch env (sap_catalog_uuid policy)) (pi_requests env) a content_metadata) (\<lambda>(_, reason).
             Inr (reason = NINETY_DAYS_PASSED))))"

definition retired_prefix :: string where
  "retired_prefix = ''retired_user''"

definition pii_candidate :: "assignment_configuration \<Rightarrow> learner_content_assignment \<Rightarrow> bool" where
  "pii_candidate c a \<longleftrightarrow>
     lca_assignment_configuration a = Some (ac_uuid c) \<and> lca_state a = EXPIRED \<and> lca_expired_at a \<noteq> None \<and>
     take (length retired_prefix) (lca_learner_email a) \<noteq> retired_prefix"

definition clear_one ::
    "pii_env \<Rightarrow> bool \<Rightarrow> policy \<Rightarrow> (string \<times> course_metadata option) list \<Rightarrow> learner_content_assignment \<Rightarrow>
      pii_state \<Rightarrow> pii_state \<times> unit result" where
  "clear_one env dry_run policy metadata a st =
     (case should_clear_pii_for_assignment env policy a
             (case map_of metadata (lca_content_key a) of None \<Rightarrow> None | Some m \<Rightarrow> m) of
        Inl e \<Rightarrow> (st, Inl e)
      | Inr False \<Rightarrow> (st\<lparr>ps_skipped := ps_skipped st + 1\<rparr>, Inr ())
      | Inr True \<Rightarrow>
          if dry_run then (st\<lparr>ps_cleared := ps_cleared st @ [lca_uuid a]\<rparr>, Inr ())
          else
            (case clear_pii (pi_nonce env (lca_uuid a)) a (ps_history st) of
               (a', history) \<Rightarrow>
                 (case save_assignment (pi_now env) a' (ps_table st) of
                    Inl e \<Rightarrow> (st\<lparr>ps_history := history\<rparr>, Inl e)
                  | Inr table \<Rightarrow> (st\<lparr>ps_table := table, ps_history := history,
                                    ps_cleared := ps_cleared st @ [lca_uuid a]\<rparr>, Inr ()))))"

fun clear_all ::
    "pii_env \<Rightarrow> bool \<Rightarrow> policy \<Rightarrow> (string \<times> course_metadata option) list \<Rightarrow> assignments \<Rightarrow>
      pii_state \<Rightarrow> pii_state \<times> unit result" where
  "clear_all env dry_run policy metadata [] st = (st, Inr ())"
| "clear_all env dry_run policy metadata (a # as) st =
     sbind (clear_one env dry_run policy metadata a st) (\<lambda>_ st. clear_all env dry_run policy metadata as st)"

definition clear_configuration ::
    "pii_env \<Rightarrow> bool \<Rightarrow> assignment_configuration \<Rightarrow> pii_state \<Rightarrow> pii_state \<times> unit result" where
  "clear_configuration env dry_run c st =
     (case find (\<lambda>p. map_option ac_uuid (sap_assignment_configuration p) = Some (ac_uuid c)) (pi_policies env) of
        None \<Rightarrow> (st, Inl AttributeError)
      | Some policy \<Rightarrow>
          (let expired = sort_key (\<lambda>a. the (lca_expired_at a)) (filter (pii_candidate c) (ps_table st))
           in clear_all env dry_run policy
                (get_content_metadata_for_assignments (pi_fetch env (sap_catalog_uuid policy)) expired) expired st))"

fun clear_configurations ::
    "pii_env \<Rightarrow> bool \<Rightarrow> assignment_configuration list \<Rightarrow> pii_state \<Rightarrow> pii_state \<times> unit result" where
  "clear_configurations env dry_run [] st = (st, Inr ())"
| "clear_configurations env dry_run (c # cs) st =
     sbind (clear_configuration env dry_run c st) (\<lambda>_ st. clear_configurations env dry_run cs st)"

definition clear_pii_for_expired_assignments ::
    "pii_env \<Rightarrow> bool \<Rightarrow> assignment_configuration list \<Rightarrow> assignments \<Rightarrow> assignments \<Rightarrow> pii_state \<times> unit result" where
  "clear_pii_for_expired_assignments env dry_run configurations table history =
     clear_configurations env dry_run (filter ac_active configurations)
       \<lparr>ps_table = table, ps_history = history, ps_cleared = [], ps_skipped = 0\<rparr>"

end
