(* ===== verification/Request_Tasks.thy ===== *)
theory Request_Tasks
  imports Assignment_Tasks Subsidy_Request
begin

text \<open>
  The Celery tasks of subsidy requests (\<^verbatim>\<open>subsidy_request/tasks.py\<close>): the course data of a new request,
  the digests of new requests for the admins, with the command that starts them, and the mails to learners
  about their learner credit requests.

  The mails to learners are sent by the campaign sender of \<^theory_text>\<open>Assignment_Tasks\<close>. The other tasks work on
  the requests and configurations below; \<open>rq_mail\<close> is the world of the services they call.
\<close>

section \<open>World\<close>

record dated_request = subsidy_request +
  dr_created :: datetime
  dr_modified :: datetime
  dr_config :: "uuid option"

record dated_configuration = customer_configuration +
  cc_last_remind_date :: "datetime option"

record digest =
  dg_campaign :: "string option"
  dg_recipients :: "json list"
  dg_properties :: "(string \<times> json) list"

record 'x request_world =
  rq_mail :: "'x mail_world"
  rq_rows :: "subsidy_type \<Rightarrow> dated_request list"
  rq_configurations :: "dated_configuration list"
  rq_digests :: "digest list"

text \<open>\<open>re_stamp\<close> is the time at the end of a task, \<open>re_mail\<close> holds the services and the settings.\<close>

record 'x request_env =
  re_mail :: "'x mail_env"
  re_stamp :: datetime
  re_links :: policy_links
  re_lcr_configurations :: "lcr_configuration list"
  re_admin_portal_url :: string
  re_send_campaign :: "digest \<Rightarrow> 'x \<Rightarrow> 'x \<times> unit result"

definition with_mail ::
    "('x mail_world \<Rightarrow> 'x mail_world \<times> 'a result) \<Rightarrow> 'x request_world \<Rightarrow> 'x request_world \<times> 'a result" where
  "with_mail call w = (case call (rq_mail w) of (m, r) \<Rightarrow> (w\<lparr>rq_mail := m\<rparr>, r))"

section \<open>Course data of a request\<close>

definition partner_row :: "json \<Rightarrow> json result" where
  "partner_row owner =
     rbind (json_get owner ''uuid'' JNull) (\<lambda>u.
     rbind (json_get owner ''name'' JNull) (\<lambda>n. Inr (JObj [(''uuid'', u), (''name'', n)])))"

definition request_course_partners :: "json \<Rightarrow> json result" where
  "request_course_partners course_data =
     rbind (json_get course_data ''owners'' JNull) (\<lambda>owners.
     rbind (json_iter (or_value owners (JList []))) (\<lambda>rows.
     rbind (rmap partner_row rows) (\<lambda>partners. Inr (JList partners))))"

text \<open>The title column holds the text of whatever the service calls a title.\<close>

definition title_column :: "'x mail_env \<Rightarrow> json \<Rightarrow> string option" where
  "title_column env j = (case j of JNull \<Rightarrow> None | JStr t \<Rightarrow> Some t | v \<Rightarrow> Some (me_text env v))"

definition write_course_info ::
    "datetime \<Rightarrow> subsidy_type \<Rightarrow> uuid \<Rightarrow> string option \<Rightarrow> json \<Rightarrow> dated_request list \<Rightarrow> dated_request list" where
  "write_course_info now ty u title partners rows =
     map (\<lambda>r. if sr_uuid r = u
              then r\<lparr>sr_course_title := title, sr_course_partners := Some partners,
                     dr_modified := (if ty = Learner_Credit_Subsidy then now else dr_modified r)\<rparr>
              else r) rows"

definition course_info ::
    "'x request_env \<Rightarrow> subsidy_type \<Rightarrow> uuid \<Rightarrow> 'x request_world \<Rightarrow> 'x request_world \<times> unit result" where
  "course_info env ty u w =
     (case find (\<lambda>r. sr_uuid r = u) (rq_rows w ty) of
        None \<Rightarrow> (w, Inl DoesNotExist)
      | Some r \<Rightarrow>
          sbind (with_mail (on_services (get_course_data (me_api (re_mail env))
                   (case sr_course_id r of None \<Rightarrow> ''None'' | Some k \<Rightarrow> k))) w) (\<lambda>course_data w.
          sbind (w, item course_data ''title'') (\<lambda>title w.
          sbind (w, request_course_partners course_data) (\<lambda>partners w.
            (w\<lparr>rq_rows := (rq_rows w)(ty := write_course_info (me_now (re_mail env)) ty u
                  (title_column (re_mail env) title) partners (rq_rows w ty))\<rparr>, Inr ())))))"

definition update_course_info_for_subsidy_request_task ::
    "'x request_env \<Rightarrow> subsidy_type \<Rightarrow> uuid \<Rightarrow> 'x request_world \<Rightarrow> 'x request_world \<times> unit result" where
  "update_course_info_for_subsidy_request_task env ty u =
     run_task TASK_MAX_RETRIES (course_info env ty u) (\<lambda>_ w. (w, Inr ()))"

section \<open>Digests for the admins\<close>

text \<open>What \<open>f'{slug}'\<close> makes of a slug.\<close>

definition slug_text :: "'x mail_env \<Rightarrow> json \<Rightarrow> string" where
  "slug_text env slug = (case slug of JStr t \<Rightarrow> t | v \<Rightarrow> me_text env v)"

definition get_manage_requests_url :: "'x request_env \<Rightarrow> subsidy_type \<Rightarrow> json \<Rightarrow> string" where
  "get_manage_requests_url env ty slug =
     re_admin_portal_url env @ ''/'' @ slug_text (re_mail env) slug @ ''/admin/'' @
       (if ty = License_Subsidy then ''subscriptions'' else ''coupons'') @ ''/manage-requests''"

definition request_row :: "dated_request \<Rightarrow> json" where
  "request_row r = JObj [(''user_email'', JStr (user_email (sr_user r))), (''course_title'', json_text (sr_course_title r))]"

definition newest_first :: "dated_request list \<Rightarrow> dated_request list" where
  "newest_first rows = sort_key (\<lambda>r. - dr_created r) rows"

text \<open>The requests that are open and, once a digest was sent, not older than it.\<close>

definition new_requests :: "dated_configuration \<Rightarrow> dated_request list \<Rightarrow> dated_request list" where
  "new_requests c rows =
     newest_first (filter (\<lambda>r. sr_enterprise_customer_uuid r = cc_enterprise_customer_uuid c \<and> sr_state r = SR_REQUESTED \<and>
       (case cc_last_remind_date c of None \<Rightarrow> True | Some d \<Rightarrow> d \<le> dr_created r)) rows)"

fun create_recipients ::
    "'x mail_env \<Rightarrow> json list \<Rightarrow> 'x mail_world \<Rightarrow> 'x mail_world \<times> json list result" where
  "create_recipients env [] w = (w, Inr [])"
| "create_recipients env (admin # admins) w =
     sbind (w, item admin ''email'') (\<lambda>address w.
     sbind (w, item admin ''lms_user_id'') (\<lambda>u w.
     sbind (create_recipient env address u w) (\<lambda>r w.
     sbind (create_recipients env admins w) (\<lambda>rs w. (w, Inr (r # rs))))))"

definition send_digest ::
    "'x request_env \<Rightarrow> digest \<Rightarrow> 'x request_world \<Rightarrow> 'x request_world \<times> unit result" where
  "send_digest env d w =
     sbind (with_mail (on_services (re_send_campaign env d)) w) (\<lambda>_ w. (w\<lparr>rq_digests := rq_digests w @ [d]\<rparr>, Inr ()))"

definition save_dated_configuration ::
    "'x request_env \<Rightarrow> dated_configuration \<Rightarrow> dated_configuration list \<Rightarrow> dated_configuration list result" where
  "save_dated_configuration env c configurations =
     rbind (clean_customer_configuration (re_links env) (re_lcr_configurations env) (customer_configuration.truncate c))
       (\<lambda>_. Inr (put_row cc_enterprise_customer_uuid c configurations))"

definition digest_of_customer ::
    "'x request_env \<Rightarrow> subsidy_type \<Rightarrow> dated_request list \<Rightarrow> uuid \<Rightarrow> 'x request_world \<Rightarrow> 'x request_world \<times> unit result" where
  "digest_of_customer env ty rows customer w =
     sbind (with_mail (on_services (get_enterprise_customer_data (me_api (re_mail env))
              (Some (me_uuid_text (re_mail env) customer)) None None)) w) (\<lambda>customer_json w.
     sbind (w, json_get customer_json ''slug'' JNull) (\<lambda>slug w.
     sbind (w, item customer_json ''admin_users'') (\<lambda>admin_users w.
     sbind (w, braze_api_client (re_mail env)) (\<lambda>_ w.
     sbind (w, json_iter admin_users) (\<lambda>admins w.
     sbind (with_mail (create_recipients (re_mail env) admins) w) (\<lambda>recipients w.
       send_digest env
         \<lparr>dg_campaign = me_settings (re_mail env) ''BRAZE_NEW_REQUESTS_NOTIFICATION_CAMPAIGN'', dg_recipients = recipients,
          dg_properties = [(''manage_requests_url'', JStr (get_manage_requests_url env ty slug)),
                           (''requests'', JList (map request_row rows))]\<rparr> w))))))"

definition admins_digest ::
    "'x request_env \<Rightarrow> uuid \<Rightarrow> 'x request_world \<Rightarrow> 'x request_world \<times> unit result" where
  "admins_digest env customer w =
     (case find (\<lambda>c. cc_enterprise_customer_uuid c = customer) (rq_configurations w) of
        None \<Rightarrow> (w, Inl DoesNotExist)
      | Some c \<Rightarrow>
          (case cc_subsidy_type c of
             None \<Rightarrow> (w, Inl AttributeError)
           | Some ty \<Rightarrow>
               (let rows = new_requests c (rq_rows w ty)
                in if rows = [] then (w, Inr ())
                   else sbind (digest_of_customer env ty rows customer w) (\<lambda>_ w.
                     (case save_dated_configuration env (c\<lparr>cc_last_remind_date := Some (re_stamp env)\<rparr>) (rq_configurations w) of
                        Inl e \<Rightarrow> (w, Inl e)
                      | Inr configurations \<Rightarrow> (w\<lparr>rq_configurations := configurations\<rparr>, Inr ()))))))"

definition send_admins_email_with_new_requests_task ::
    "'x request_env \<Rightarrow> uuid \<Rightarrow> 'x request_world \<Rightarrow> 'x request_world \<times> unit result" where
  "send_admins_email_with_new_requests_task env customer =
     run_task TASK_MAX_RETRIES (admins_digest env customer) (\<lambda>_ w. (w, Inr ()))"

text \<open>The command that starts a digest for every customer with requests enabled.\<close>

definition customers_to_remind :: "dated_configuration list \<Rightarrow> uuid list" where
  "customers_to_remind configurations =
     map cc_enterprise_customer_uuid (filter cc_subsidy_requests_enabled configurations)"

section \<open>The digest of learner credit requests\<close>

definition lcr_digest ::
    "'x request_env \<Rightarrow> uuid \<Rightarrow> uuid \<Rightarrow> uuid \<Rightarrow> 'x request_world \<Rightarrow> 'x request_world \<times> unit result" where
  "lcr_digest env policy config customer w =
     (let rows = filter (\<lambda>r. sr_enterprise_customer_uuid r = customer \<and> dr_config r = Some config \<and>
                             sr_state r = SR_REQUESTED) (rq_rows w Learner_Credit_Subsidy);
          latest = take 10 (newest_first rows)
      in if rows = [] then (w, Inr ())
         else
           sbind (with_mail (on_services (get_enterprise_customer_data (me_api (re_mail env))
                    (Some (me_uuid_text (re_mail env) customer)) None None)) w) (\<lambda>customer_json w.
           sbind (w, json_get customer_json ''slug'' JNull) (\<lambda>slug w.
           sbind (w, json_get customer_json ''name'' JNull) (\<lambda>name w.
           sbind (w, item customer_json ''admin_users'') (\<lambda>admin_users w.
             if \<not> json_truthy admin_users then (w, Inr ())
             else
               sbind (w, braze_api_client (re_mail env)) (\<lambda>_ w.
               sbind (w, json_iter admin_users) (\<lambda>admins w.
               sbind (with_mail (create_recipients (re_mail env) admins) w) (\<lambda>recipients w.
                 send_digest env
                   \<lparr>dg_campaign = me_settings (re_mail env) ''BRAZE_LEARNER_CREDIT_BNR_NEW_REQUESTS_NOTIFICATION_CAMPAIGN'',
                    dg_recipients = recipients,
                    dg_properties =
                      [(''manage_requests_url'', JStr (re_admin_portal_url env @ ''/'' @ slug_text (re_mail env) slug @
                          ''/admin/learner-credit/'' @ me_uuid_text (re_mail env) policy @ ''/requests'')),
                       (''requests'', JList (map request_row latest)),
                       (''total_requests'', JNum (int (length rows))), (''organization'', name)]\<rparr> w))))))))"

definition send_learner_credit_bnr_admins_email_with_new_requests_task ::
    "'x request_env \<Rightarrow> uuid \<Rightarrow> uuid \<Rightarrow> uuid \<Rightarrow> 'x request_world \<Rightarrow> 'x request_world \<times> unit result" where
  "send_learner_credit_bnr_admins_email_with_new_requests_task env policy config customer =
     run_task TASK_MAX_RETRIES (lcr_digest env policy config customer) (\<lambda>_ w. (w, Inr ()))"

section \<open>Mails to learners\<close>

text \<open>
  The failure handler of these tasks looks up the request of the assignment and logs; it writes nothing,
  also when the lookup raises.
\<close>

definition log_errored_request :: "'x mail_env \<Rightarrow> uuid \<Rightarrow> py_error \<Rightarrow> 'x mail_world \<Rightarrow> 'x mail_world \<times> unit result" where
  "log_errored_request env u e w =
     sbind (w, get_assignment_or_raise u w) (\<lambda>a w.
       (w, if find (\<lambda>r. lcr_assignment r = Some (lca_uuid a)) (me_requests env) = None then Inl AttributeError else Inr ()))"

definition learner_mail ::
    "'x mail_env \<Rightarrow> trigger_property list \<Rightarrow> string \<Rightarrow> uuid \<Rightarrow> 'x mail_world \<Rightarrow> 'x mail_world \<times> unit result" where
  "learner_mail env properties setting u =
     run_task TASK_MAX_RETRIES (mail_about env properties [] (\<lambda>_. setting) (\<lambda>_ actions. actions) u)
       (log_errored_request env u)"

definition send_learner_credit_bnr_request_approve_task ::
    "'x mail_env \<Rightarrow> uuid \<Rightarrow> 'x mail_world \<Rightarrow> 'x mail_world \<times> unit result" where
  "send_learner_credit_bnr_request_approve_task env =
     learner_mail env [contact_admin_link_property, organization, course_title, start_date, course_partner, course_card_image]
       ''BRAZE_LEARNER_CREDIT_BNR_APPROVED_NOTIFICATION_CAMPAIGN''"

definition send_reminder_email_for_pending_learner_credit_request ::
    "'x mail_env \<Rightarrow> uuid \<Rightarrow> 'x mail_world \<Rightarrow> 'x mail_world \<times> unit result" where
  "send_reminder_email_for_pending_learner_credit_request env =
     learner_mail env [contact_admin_link_property, organization, course_title, start_date, course_partner, course_card_image]
       ''BRAZE_LEARNER_CREDIT_BNR_REMIND_NOTIFICATION_CAMPAIGN''"

definition send_learner_credit_bnr_cancel_notification_task ::
    "'x mail_env \<Rightarrow> uuid \<Rightarrow> 'x mail_world \<Rightarrow> 'x mail_world \<times> unit result" where
  "send_learner_credit_bnr_cancel_notification_task env =
     learner_mail env [contact_admin_link_property, organization, course_title, enterprise_dashboard_url]
       ''BRAZE_LEARNER_CREDIT_BNR_CANCEL_NOTIFICATION_CAMPAIGN''"

text \<open>A declined request has no assignment: its mail is put together from the request.\<close>

definition decline_mail ::
    "'x request_env \<Rightarrow> uuid \<Rightarrow> 'x request_world \<Rightarrow> 'x request_world \<times> unit result" where
  "decline_mail env u w =
     (case find (\<lambda>r. sr_uuid r = u) (rq_rows w Learner_Credit_Subsidy) of
        None \<Rightarrow> (w, Inr ())
      | Some r \<Rightarrow>
          sbind (w, braze_api_client (re_mail env)) (\<lambda>_ w.
          sbind (with_mail (create_recipient (re_mail env) (JStr (user_email (sr_user r)))
                   (case user_lms_user_id (sr_user r) of None \<Rightarrow> JNull | Some i \<Rightarrow> JNum i)) w) (\<lambda>recipient w.
          sbind (with_mail (on_services (get_enterprise_customer_data (me_api (re_mail env))
                   (Some (me_uuid_text (re_mail env) (sr_enterprise_customer_uuid r))) None None)) w) (\<lambda>customer_json w.
          sbind (w, json_get customer_json ''name'' JNull) (\<lambda>name w.
          sbind (w, contact_admin_link customer_json) (\<lambda>link w.
          sbind (w, item customer_json ''slug'') (\<lambda>slug w.
            send_digest env
              \<lparr>dg_campaign = me_settings (re_mail env) ''BRAZE_LEARNER_CREDIT_BNR_DECLINE_NOTIFICATION_CAMPAIGN'',
               dg_recipients = [recipient],
               dg_properties =
                 [(''contact_admin_link'', link), (''organization'', name), (''course_title'', json_text (sr_course_title r)),
                  (''enterprise_dashboard_url'',
                     JStr (me_learner_portal_url (re_mail env) @ ''/'' @ slug_text (re_mail env) slug))]\<rparr> w)))))))"

definition send_learner_credit_bnr_decline_notification_task ::
    "'x request_env \<Rightarrow> uuid \<Rightarrow> 'x request_world \<Rightarrow> 'x request_world \<times> unit result" where
  "send_learner_credit_bnr_decline_notification_task env u =
     run_task TASK_MAX_RETRIES (decline_mail env u) (\<lambda>_ w. (w, Inr ()))"

end
