(* ===== verification/Assignment_Tasks_Properties.thy ===== *)
theory Assignment_Tasks_Properties
  imports Assignment_Tasks
begin

text \<open>
  What a run of an assignment task leaves behind, whatever Celery's retries and the services do:
  a notification reports itself exactly once and moves no assignment, a nudge that cannot be sent
  throws an accepted assignment back to the states from which it is allocated again, and personal data
  is cleared from expired rows only, and from exactly the rows that are reported.
\<close>

section \<open>Runs of a task\<close>

text \<open>
  A run that succeeds ends with a body that succeeds, and one that fails with the failure handler after a
  body that fails; what failing bodies keep holds in between.
\<close>

lemma run_task_outcome:
  assumes "run_task n body handler w = (w', r)" and "P w"
    and "\<And>v v' e. P v \<Longrightarrow> body v = (v', Inl e) \<Longrightarrow> P v'"
  shows "case r of Inr _ \<Rightarrow> (\<exists>v. P v \<and> body v = (w', Inr ())) | Inl e \<Rightarrow> (\<exists>v. P v \<and> w' = fst (handler e v))"
  using assms(1,2)
proof (induction n arbitrary: w)
  case 0
  then show ?case using assms(3) by (subst (asm) run_task.simps) (auto split: prod.splits sum.splits)
next
  case (Suc n)
  note step = Suc.prems(1) [unfolded run_task.simps [of "Suc n"], simplified]
  obtain v o1 where v: "body w = (v, o1)" by (cases "body w") auto
  show ?case
  proof (cases o1)
    case (Inl e)
    then have "P v" using Suc.prems(2) v assms(3) by blast
    then show ?thesis using step v Inl Suc.IH [of v] by (auto split: if_splits)
  next
    case (Inr y)
    then show ?thesis using step v Suc.prems(2) by auto
  qed
qed

section \<open>Bodies\<close>

text \<open>The parts of the world that only the end of a task writes.\<close>

definition rows_of :: "'x mail_world \<Rightarrow> assignments \<times> actions \<times> mail list" where
  "rows_of w = (mw_assignments w, mw_actions w, mw_mails w)"

lemma rows_of_services [simp]: "rows_of (w\<lparr>mw_services := x\<rparr>) = rows_of w"
  by (simp add: rows_of_def)

lemma on_services_rows [simp]: "rows_of (fst (on_services call w)) = rows_of w"
  by (simp add: on_services_def split: prod.splits)

lemma on_services_rowsD: "on_services call w = (w', r) \<Longrightarrow> rows_of w' = rows_of w"
  by (metis fst_conv on_services_rows)

lemma customer_data_rowsD: "customer_data env s w = (w', r) \<Longrightarrow> rows_of w' = rows_of w"
  by (auto simp: customer_data_def sbind_def split: if_splits prod.splits sum.splits dest: on_services_rowsD)

lemma course_metadata_rowsD: "course_metadata_of env s w = (w', r) \<Longrightarrow> rows_of w' = rows_of w"
  by (auto simp: course_metadata_of_def sbind_def split: option.splits prod.splits sum.splits dest: on_services_rowsD)

lemma of_customer_rowsD: "of_customer env s f w = (w', r) \<Longrightarrow> rows_of w' = rows_of w"
  by (auto simp: of_customer_def sbind_def split: prod.splits sum.splits dest: customer_data_rowsD)

lemma of_course_rowsD: "of_course env s f w = (w', r) \<Longrightarrow> rows_of w' = rows_of w"
  by (auto simp: of_course_def sbind_def split: prod.splits sum.splits dest: course_metadata_rowsD)

lemma get_property_rowsD: "get_property env s p w = (w', r) \<Longrightarrow> rows_of w' = rows_of w"
  by (cases p) (auto dest: of_customer_rowsD of_course_rowsD)

lemma get_properties_rowsD: "get_properties env s ps w = (w', r) \<Longrightarrow> rows_of w' = rows_of w"
proof (induction ps arbitrary: s w w' r)
  case (Cons p ps)
  then show ?case
    by (auto simp: sbind_def split: prod.splits sum.splits) (metis Cons.IH get_property_rowsD)+
qed simp

text \<open>The sender keeps its assignment while it fills its memos, and the values carry the names asked for.\<close>

lemma of_customer_sender: "of_customer env s f w = (w', Inr (s', v)) \<Longrightarrow> sn_assignment s' = sn_assignment s"
  by (auto simp: of_customer_def customer_data_def elim!: sbind_InrE rbind_InrE split: if_splits)

lemma of_course_sender: "of_course env s f w = (w', Inr (s', v)) \<Longrightarrow> sn_assignment s' = sn_assignment s"
  by (auto simp: of_course_def course_metadata_of_def elim!: sbind_InrE rbind_InrE split: option.splits)

lemma get_property_sender: "get_property env s p w = (w', Inr (s', v)) \<Longrightarrow> sn_assignment s' = sn_assignment s"
  by (cases p) (auto dest: of_customer_sender of_course_sender)

lemma get_properties_result:
  "get_properties env s ps w = (w', Inr (s', vs)) \<Longrightarrow>
    sn_assignment s' = sn_assignment s \<and> map fst vs = map property_name ps"
proof (induction ps arbitrary: s w w' s' vs)
  case (Cons p ps)
  from Cons.prems show ?case
    by (auto elim!: sbind_InrE dest!: Cons.IH get_property_sender)
qed simp

lemma create_recipient_rowsD: "create_recipient env address u w = (w', r) \<Longrightarrow> rows_of w' = rows_of w"
  by (auto simp: create_recipient_def sbind_def split: prod.splits sum.splits dest: on_services_rowsD)

text \<open>Sending: nothing is written unless Braze takes the mail.\<close>

definition addressed_to :: "learner_content_assignment \<Rightarrow> json \<Rightarrow> bool" where
  "addressed_to a recipient \<longleftrightarrow>
     rbind (item recipient ''attributes'') (\<lambda>attributes. item attributes ''email'') = Inr (JStr (lca_learner_email a))"

lemma create_recipient_addressed:
  "create_recipient env (JStr (lca_learner_email a)) u w = (w', Inr r) \<Longrightarrow> addressed_to a r"
  by (auto simp: create_recipient_def addressed_to_def item_def elim!: sbind_InrE)

lemma no_external_id_addressed: "addressed_to a (create_recipient_no_external_id (lca_learner_email a))"
  by (simp add: create_recipient_no_external_id_def addressed_to_def item_def)

lemma send_campaign_outcome:
  assumes "send_campaign_message env s vs campaign w = (w', r)"
  shows "case r of
      Inl _ \<Rightarrow> rows_of w' = rows_of w
    | Inr _ \<Rightarrow> \<exists>m. rows_of w' = (mw_assignments w, mw_actions w, mw_mails w @ [m]) \<and>
        campaign = Some (ml_campaign m) \<and> ml_properties m = vs \<and> addressed_to (sn_assignment s) (ml_recipient m)"
proof -
  define recipient where "recipient =
    (case lca_lms_user_id (sn_assignment s) of
       None \<Rightarrow> sbind (on_services (me_create_braze_alias env [lca_learner_email (sn_assignment s)] enterprise_braze_alias_label) w)
                 (\<lambda>_ w. (w, Inr (create_recipient_no_external_id (lca_learner_email (sn_assignment s)))))
     | Some u \<Rightarrow> create_recipient env (JStr (lca_learner_email (sn_assignment s))) (JNum u) w)"
  obtain v o1 where v: "recipient = (v, o1)" by (cases recipient) auto
  have rows: "rows_of v = rows_of w"
    using v by (auto simp: recipient_def sbind_def split: option.splits prod.splits sum.splits
      dest: on_services_rowsD create_recipient_rowsD)
  have to: "o1 = Inr j \<Longrightarrow> addressed_to (sn_assignment s) j" for j
    using v by (auto simp: recipient_def no_external_id_addressed elim!: sbind_InrE split: option.splits
      dest: create_recipient_addressed)
  show ?thesis
  proof (cases "truthy campaign")
    case False
    then show ?thesis using assms by (auto simp: send_campaign_message_def)
  next
    case True
    then obtain c where c: "campaign = Some c" by (cases campaign) (auto simp: truthy_def)
    show ?thesis
    proof (cases o1)
      case (Inl e)
      then show ?thesis using assms True v rows
        by (auto simp: send_campaign_message_def Let_def recipient_def [symmetric])
    next
      case (Inr j)
      define m where "m = \<lparr>ml_campaign = c, ml_recipient = j, ml_properties = vs\<rparr>"
      obtain v2 o2 where v2: "on_services (me_send_campaign env m) v = (v2, o2)"
        by (cases "on_services (me_send_campaign env m) v") auto
      have "send_campaign_message env s vs campaign w =
          sbind (v2, o2) (\<lambda>_ w. (w\<lparr>mw_mails := mw_mails w @ [m]\<rparr>, Inr ()))"
        using True v Inr v2 by (simp add: send_campaign_message_def Let_def recipient_def [symmetric] c m_def)
      then show ?thesis using assms rows on_services_rowsD [OF v2] to [OF Inr]
        by (cases o2) (auto simp: rows_of_def c m_def)
    qed
  qed
qed

text \<open>One attempt of a mail task.\<close>

definition mail_sent ::
    "'x mail_env \<Rightarrow> string list \<Rightarrow> string \<Rightarrow> learner_content_assignment \<Rightarrow> mail \<Rightarrow> bool" where
  "mail_sent env names setting a m \<longleftrightarrow>
     me_settings env setting = Some (ml_campaign m) \<and> map fst (ml_properties m) = names \<and>
     addressed_to a (ml_recipient m)"

lemma mail_about_outcome:
  assumes "mail_about env ps extra setting add_action u w = (w', r)"
  shows "case r of
      Inl _ \<Rightarrow> rows_of w' = rows_of w
    | Inr _ \<Rightarrow> \<exists>a m. find (\<lambda>a. lca_uuid a = u) (mw_assignments w) = Some a \<and>
        rows_of w' = (mw_assignments w, add_action a (mw_actions w), mw_mails w @ [m]) \<and>
        mail_sent env (map property_name ps @ map fst extra) (setting a) a m"
proof (cases "get_assignment_or_raise u w")
  case (Inl e)
  then show ?thesis using assms by (auto simp: mail_about_def)
next
  case (Inr a)
  then have a: "find (\<lambda>a. lca_uuid a = u) (mw_assignments w) = Some a"
    by (auto simp: get_assignment_or_raise_def split: option.splits)
  have run: "send_mail env a ps extra (setting a) add_action w = (w', r)"
    using assms Inr by (simp add: mail_about_def)
  show ?thesis
  proof (cases "braze_campaign_sender env a")
    case (Inl e)
    then show ?thesis using run by (auto simp: send_mail_def)
  next
    case sender: (Inr s)
    have sa: "sn_assignment s = a" using sender
      by (auto simp: braze_campaign_sender_def elim!: rbind_InrE split: get_result.splits)
    obtain v o1 where v: "get_properties env s ps w = (v, o1)" by (cases "get_properties env s ps w") auto
    note rows = get_properties_rowsD [OF v]
    show ?thesis
    proof (cases o1)
      case (Inl e)
      then show ?thesis using run sender v rows by (auto simp: send_mail_def)
    next
      case (Inr sv)
      obtain s2 vs where sv: "sv = (s2, vs)" by (cases sv) auto
      note got = get_properties_result [OF v [unfolded Inr sv]]
      obtain v2 o2 where v2: "send_campaign_message env s2 (vs @ extra) (me_settings env (setting a)) v = (v2, o2)"
        by (cases "send_campaign_message env s2 (vs @ extra) (me_settings env (setting a)) v") auto
      note sent = send_campaign_outcome [OF v2]
      have "(w', r) = sbind (v2, o2) (\<lambda>_ w. (w\<lparr>mw_actions := add_action a (mw_actions w)\<rparr>, Inr ()))"
        using run sender v Inr sv v2 by (simp add: send_mail_def)
      then show ?thesis using sent got rows a sa
        by (cases o2) (auto simp: rows_of_def mail_sent_def)
    qed
  qed
qed

text \<open>A whole run: retries write nothing, the end writes what a single attempt or the failure handler writes.\<close>

lemma mail_task_outcome:
  assumes "run_task n (mail_about env ps extra setting add_action u) (task_failed env keeps add_errored u) w = (w', r)"
    and a: "find (\<lambda>a. lca_uuid a = u) (mw_assignments w) = Some a"
  shows "case r of
      Inl e \<Rightarrow> \<exists>v. rows_of v = rows_of w \<and> w' = fst (task_failed env keeps add_errored u e v)
    | Inr _ \<Rightarrow> \<exists>m. rows_of w' = (mw_assignments w, add_action a (mw_actions w), mw_mails w @ [m]) \<and>
        mail_sent env (map property_name ps @ map fst extra) (setting a) a m"
proof -
  have keep: "rows_of v = rows_of w \<Longrightarrow> mail_about env ps extra setting add_action u v = (v', Inl e) \<Longrightarrow> rows_of v' = rows_of w"
    for v v' e using mail_about_outcome [of env ps extra setting add_action u v v' "Inl e"] by simp
  have out: "case r of Inr _ \<Rightarrow> (\<exists>v. rows_of v = rows_of w \<and> mail_about env ps extra setting add_action u v = (w', Inr ()))
    | Inl e \<Rightarrow> (\<exists>v. rows_of v = rows_of w \<and> w' = fst (task_failed env keeps add_errored u e v))"
    by (rule run_task_outcome [where P = "\<lambda>v. rows_of v = rows_of w", OF assms(1)]) (rule refl, erule (1) keep)
  show ?thesis
  proof (cases r)
    case (Inl e)
    then show ?thesis using out by simp
  next
    case (Inr y)
    then obtain v where v: "rows_of v = rows_of w" "mail_about env ps extra setting add_action u v = (w', Inr ())"
      using out by auto
    have "mw_assignments v = mw_assignments w" "mw_actions v = mw_actions w" "mw_mails v = mw_mails w"
      using v(1) by (simp_all add: rows_of_def)
    then show ?thesis using mail_about_outcome [OF v(2)] a Inr by auto
  qed
qed

section \<open>Notifications\<close>

text \<open>C32. However often the services fail and Celery retries, a run of the notification task moves no
  assignment and ends in one of two ways: the run succeeds, exactly one mail of the configured campaign
  went to the address of the assignment with all nine properties, and one notified action is recorded;
  or it fails, no mail went out, and one errored notified action with the last traceback is recorded.\<close>

theorem notification_reports_once:
  assumes "send_email_for_new_assignment env u w = (w', r)"
    and "find (\<lambda>a. lca_uuid a = u) (mw_assignments w) = Some a"
  shows "mw_assignments w' = mw_assignments w \<and>
    (case r of
       Inr _ \<Rightarrow> (\<exists>m. mw_mails w' = mw_mails w @ [m] \<and>
         mail_sent env (map property_name long_properties) ''BRAZE_ASSIGNMENT_NOTIFICATION_CAMPAIGN'' a m) \<and>
         mw_actions w' = add_successful_notified_action (me_now env) a (mw_actions w)
     | Inl e \<Rightarrow> mw_mails w' = mw_mails w \<and>
         mw_actions w' = add_errored_notified_action (me_traceback env e) a (mw_actions w))"
proof (cases r)
  case (Inr y)
  then show ?thesis
    using mail_task_outcome [OF assms(1) [unfolded send_email_for_new_assignment_def] assms(2)]
    by (auto simp: rows_of_def)
next
  case (Inl e)
  then obtain v where v: "rows_of v = rows_of w" "w' = fst (task_failed env True add_errored_notified_action u e v)"
    using mail_task_outcome [OF assms(1) [unfolded send_email_for_new_assignment_def] assms(2)] by auto
  then show ?thesis using assms(2) Inl by (auto simp: rows_of_def task_failed_def get_assignment_or_raise_def)
qed

section \<open>Nudges\<close>

lemma save_errored_assignment:
  assumes "distinct (map lca_uuid table)" and "unique_slots table" and "a \<in> set table"
  shows "save_assignment now (a\<lparr>lca_state := s, lca_errored_at := e\<rparr>) table =
    Inr (map (\<lambda>b. if b = a then a\<lparr>lca_state := s, lca_errored_at := e, lca_modified := now\<rparr> else b) table)"
proof -
  define f where "f b = (if b = a then a\<lparr>lca_state := s, lca_errored_at := e, lca_modified := now\<rparr> else b)" for b
  have "put_row lca_uuid (a\<lparr>lca_state := s, lca_errored_at := e, lca_modified := now\<rparr>) table = map f table"
    unfolding f_def by (rule put_row_unique [OF assms(1,3)]) simp
  moreover have "unique_slots (map f table) \<longleftrightarrow> unique_slots table"
    by (rule unique_slots_map) (simp_all add: f_def)
  ultimately show ?thesis using assms(2) by (simp add: save_assignment_def checked_table_def f_def)
qed

lemma failed_mail_errors_assignment:
  assumes "run_task n (mail_about env ps extra setting add_action u) (task_failed env False add_errored u) w = (w', Inl e)"
    and d: "distinct (map lca_uuid (mw_assignments w))" and un: "unique_slots (mw_assignments w)"
    and a: "a \<in> set (mw_assignments w)" and u: "lca_uuid a = u"
  shows "mw_assignments w' = map (\<lambda>b. if b = a
       then a\<lparr>lca_state := ERRORED, lca_errored_at := Some (me_now env), lca_modified := me_now env\<rparr> else b) (mw_assignments w) \<and>
    mw_mails w' = mw_mails w \<and> mw_actions w' = add_errored (me_traceback env e) a (mw_actions w)"
proof -
  have f: "find (\<lambda>a. lca_uuid a = u) (mw_assignments w) = Some a"
    using find_distinct_key [OF d a] u by simp
  obtain v where v: "rows_of v = rows_of w" "w' = fst (task_failed env False add_errored u e v)"
    using mail_task_outcome [OF assms(1) f] by auto
  then have "mw_assignments v = mw_assignments w" "mw_actions v = mw_actions w" "mw_mails v = mw_mails w"
    by (simp_all add: rows_of_def)
  then show ?thesis using v(2) f save_errored_assignment [OF d un a]
    by (simp add: task_failed_def get_assignment_or_raise_def progress_state_on_failure_def)
qed

text \<open>A learner whose executive education assignment is accepted and paid for loses it when the
  reminder of the course start cannot be mailed: the run that fails leaves the assignment errored, with
  its transaction still on it, and only it; errored assignments are allocated again and can be cancelled.\<close>

theorem unsent_nudge_reopens:
  assumes "send_exec_ed_enrollment_warmer env u n w = (w', Inl e)"
    and "distinct (map lca_uuid (mw_assignments w))" and "unique_slots (mw_assignments w)"
    and "a \<in> set (mw_assignments w)" and "lca_uuid a = u" and "lca_state a = ACCEPTED"
    and "lca_transaction_uuid a = Some tx"
  shows "\<exists>b. mw_assignments w' = map (\<lambda>x. if x = a then b else x) (mw_assignments w) \<and>
    lca_uuid b = u \<and> lca_state b = ERRORED \<and> lca_transaction_uuid b = Some tx \<and>
    lca_state b \<in> set reallocate_states \<inter> set cancelable_states \<and> lca_state a \<notin> set cancelable_states \<and>
    mw_mails w' = mw_mails w"
proof -
  from failed_mail_errors_assignment [OF assms(1) [unfolded send_exec_ed_enrollment_warmer_def] assms(2-5)]
  show ?thesis using assms(5-7) by (auto simp: reallocate_states_def cancelable_states_def)
qed

text \<open>
  Two rows; a service state that counts the mails, of which Braze takes the one that comes after
  \<open>refused\<close> attempts.
\<close>

definition demo_page :: course_page where
  "demo_page = \<lparr>cm_key = ''edX+D'', cm_course_type = None, cm_normalized_metadata = None,
     cm_normalized_metadata_by_run = [], pg_owners = [Some ''A''], pg_card_image_url = None, pg_image_url = None,
     pg_course_runs = [\<lparr>tr_key = None, tr_uuid = None, tr_pacing_type = None, tr_weeks_to_complete = None\<rparr>],
     pg_advertised_course_run_uuid = None, pg_end_date = None, pg_end_date_by_run = []\<rparr>"

definition demo_lms :: "nat api" where
  "demo_lms = \<lparr>api_send = (\<lambda>_ n. (n, Inr \<lparr>rs_status = 200,
       rs_body = Some (JObj [(''name'', JStr ''C''), (''slug'', JStr ''c''), (''admin_users'', JList [])])\<rparr>)),
     api_lms_url = '''', api_license_manager_url = '''', api_ecommerce_url = '''', api_discovery_url = '''',
     api_catalog_base_url = (\<lambda>s. s), api_site_domain = '''', api_default_catalog_query_id = JNull,
     api_for_internal_use_only = JNull, api_default_product_id = JNull, api_plan_is_active = JNull,
     api_force_remind_all = False, api_should_send_email_to_pecu = (\<lambda>_. Inr True), api_float = (\<lambda>j. Inr j)\<rparr>"

definition demo_mail_env :: "nat \<Rightarrow> nat mail_env" where
  "demo_mail_env refused = \<lparr>me_now = 500, me_traceback = (\<lambda>_. ''tb''), me_configurations = [demo_config],
     me_policies = [demo_policy], me_api = demo_lms, me_catalog = (\<lambda>_ _ n. (n, Inr [demo_page])),
     me_braze_configured = True, me_identify_users = (\<lambda>_ n. (n, Inr ())), me_create_braze_alias = (\<lambda>_ _ n. (n, Inr ())),
     me_send_campaign = (\<lambda>_ n. (n + 1, if n < refused then Inl BrazeClientError else Inr ())),
     me_settings = (\<lambda>_. Some ''campaign''), me_learner_portal_url = ''p'', me_subsidy_expiration = (\<lambda>_. Inr None),
     me_requests = [], me_uuid_text = (\<lambda>_. ''5''), me_text = (\<lambda>_. ''''), me_strftime = (\<lambda>_ _. ''d''),
     me_dateutil = (\<lambda>_. Inl ValueError)\<rparr>"

definition demo_mail_world :: "nat mail_world" where
  "demo_mail_world = \<lparr>mw_assignments = demo_rows, mw_actions = [], mw_mails = [], mw_services = 0\<rparr>"

lemma demo_notification_runs: "\<not> isl (snd (send_email_for_new_assignment (demo_mail_env 3) 11 demo_mail_world))"
  by code_simp

theorem notification_reports_once_witness:
  "\<exists>m. mw_mails (fst (send_email_for_new_assignment (demo_mail_env 3) 11 demo_mail_world)) = [m] \<and>
     ml_campaign m = ''campaign'' \<and> addressed_to demo_assignment (ml_recipient m)"
proof -
  obtain w' y where run: "send_email_for_new_assignment (demo_mail_env 3) 11 demo_mail_world = (w', Inr y)"
    using demo_notification_runs
    by (cases "send_email_for_new_assignment (demo_mail_env 3) 11 demo_mail_world"; cases "snd (send_email_for_new_assignment (demo_mail_env 3) 11 demo_mail_world)") auto
  have "find (\<lambda>a. lca_uuid a = 11) (mw_assignments demo_mail_world) = Some demo_assignment"
    by (simp add: demo_mail_world_def demo_rows_def demo_assignment_def)
  note outcome = notification_reports_once [OF run this]
  have "mw_mails demo_mail_world = []" "me_settings (demo_mail_env 3) = (\<lambda>_. Some ''campaign'')"
    by (simp_all add: demo_mail_world_def demo_mail_env_def)
  then show ?thesis unfolding run using outcome by (auto simp: mail_sent_def)
qed

lemma demo_nudge_fails:
  "isl (snd (send_exec_ed_enrollment_warmer (demo_mail_env 9) 12 14 demo_mail_world))"
  by code_simp

theorem unsent_nudge_reopens_witness:
  "\<exists>b. mw_assignments (fst (send_exec_ed_enrollment_warmer (demo_mail_env 9) 12 14 demo_mail_world)) = [demo_assignment, b] \<and>
     lca_state b = ERRORED \<and> lca_transaction_uuid b = Some 77"
proof -
  define a where "a = demo_assignment\<lparr>lca_uuid := 12, lca_learner_email := ''x@y.z'',
     lca_lms_user_id := None, lca_state := ACCEPTED, lca_transaction_uuid := Some 77\<rparr>"
  obtain w' e where run: "send_exec_ed_enrollment_warmer (demo_mail_env 9) 12 14 demo_mail_world = (w', Inl e)"
    using demo_nudge_fails
    by (cases "send_exec_ed_enrollment_warmer (demo_mail_env 9) 12 14 demo_mail_world"; cases "snd (send_exec_ed_enrollment_warmer (demo_mail_env 9) 12 14 demo_mail_world)") auto
  have rows: "mw_assignments demo_mail_world = [demo_assignment, a]"
    by (simp add: demo_mail_world_def demo_rows_def a_def)
  have "unique_slots [demo_assignment, a]"
    unfolding a_def by code_simp
  then have "distinct (map lca_uuid (mw_assignments demo_mail_world))" "unique_slots (mw_assignments demo_mail_world)"
    "a \<in> set (mw_assignments demo_mail_world)" "lca_uuid a = 12" "lca_state a = ACCEPTED" "lca_transaction_uuid a = Some 77"
    unfolding rows by (simp_all add: a_def demo_assignment_def)
  note opened = unsent_nudge_reopens [OF run this]
  have "demo_assignment \<noteq> a" by (simp add: a_def demo_assignment_def)
  then show ?thesis using opened by (auto simp: run rows)
qed

section \<open>Clearing personal data\<close>

text \<open>The cleared row, and what entitles the command to clear it.\<close>

definition retired_row :: "pii_env \<Rightarrow> learner_content_assignment \<Rightarrow> learner_content_assignment" where
  "retired_row env a =
     a\<lparr>lca_learner_email := retired_email_address (pi_nonce env (lca_uuid a)), lca_modified := pi_now env\<rparr>"

definition clearable :: "pii_env \<Rightarrow> assignment_configuration list \<Rightarrow> learner_content_assignment \<Rightarrow> bool" where
  "clearable env configurations a \<longleftrightarrow>
     (\<exists>c \<in> set configurations. ac_active c \<and> pii_candidate c a) \<and>
     get_last_successful_expiration_action (pi_actions env) a \<noteq> None \<and>
     (\<exists>policy m. should_clear_pii_for_assignment env policy a m = Inr True)"

text \<open>Each row is as it was, or it is reported and, unless the run is dry, retired.\<close>

definition reported_rows ::
    "pii_env \<Rightarrow> bool \<Rightarrow> assignment_configuration list \<Rightarrow> assignments \<Rightarrow> assignments \<Rightarrow> pii_state \<Rightarrow> bool" where
  "reported_rows env dry_run configurations table history st \<longleftrightarrow>
     ps_table st = map (\<lambda>a. if lca_uuid a \<in> set (ps_cleared st) \<and> \<not> dry_run then retired_row env a else a) table \<and>
     (\<forall>a \<in> set table. lca_uuid a \<in> set (ps_cleared st) \<longrightarrow> clearable env configurations a) \<and>
     (dry_run \<longrightarrow> ps_history st = history)"

lemma retired_row_uuid [simp]: "lca_uuid (retired_row env a) = lca_uuid a"
  by (simp add: retired_row_def)

lemma retired_row_no_candidate: "\<not> pii_candidate c (retired_row env a)"
  by (simp add: pii_candidate_def retired_row_def retired_email_address_def retired_prefix_def)

lemma candidate_untouched:
  assumes "reported_rows env dry_run configurations table history st" and "b \<in> set (ps_table st)" and "pii_candidate c b"
  shows "b \<in> set table"
  using assms by (auto simp: reported_rows_def retired_row_no_candidate split: if_splits)

lemma should_clear_expired:
  "should_clear_pii_for_assignment env policy a m = Inr True \<Longrightarrow>
    get_last_successful_expiration_action (pi_actions env) a \<noteq> None"
  by (auto simp: should_clear_pii_for_assignment_def split: if_splits)

lemma clear_one_reported:
  assumes run: "clear_one env dry_run policy metadata a st = (st', r)"
    and inv: "reported_rows env dry_run configurations table history st"
    and a: "a \<in> set table" "c \<in> set configurations" "ac_active c" "pii_candidate c a"
    and d: "distinct (map lca_uuid table)"
  shows "reported_rows env dry_run configurations table history st'"
proof (cases "should_clear_pii_for_assignment env policy a
    (case map_of metadata (lca_content_key a) of None \<Rightarrow> None | Some m \<Rightarrow> m)")
  case (Inl e)
  then show ?thesis using run inv by (simp add: clear_one_def)
next
  case (Inr due)
  show ?thesis
  proof (cases due)
    case False
    then show ?thesis using run inv Inr by (auto simp: clear_one_def reported_rows_def)
  next
    case True
    have same: "x \<in> set table \<Longrightarrow> lca_uuid x = lca_uuid a \<Longrightarrow> x = a" for x
      using distinct_key_inj [OF d _ a(1)] by blast
    have ok: "clearable env configurations a"
      using a(2-4) Inr \<open>due\<close> should_clear_expired [of env policy a] by (auto simp: clearable_def)
    then have all: "\<forall>x \<in> set table. lca_uuid x = lca_uuid a \<longrightarrow> clearable env configurations x" using same by blast
    show ?thesis
    proof (cases dry_run)
      case True
      then show ?thesis using run inv Inr \<open>due\<close> all by (auto simp: clear_one_def reported_rows_def)
    next
      case live: False
      define t where "t = put_row lca_uuid (retired_row env a) (ps_table st)"
      have t: "t = map (\<lambda>x. if lca_uuid x \<in> set (ps_cleared st @ [lca_uuid a]) then retired_row env x else x) table"
        using inv live same by (auto simp: t_def put_row_def reported_rows_def)
      have "r = Inr () \<and> ps_table st' = t \<and> ps_cleared st' = ps_cleared st @ [lca_uuid a] \<or>
          ps_table st' = ps_table st \<and> ps_cleared st' = ps_cleared st"
        using run Inr \<open>due\<close> live
        by (auto simp: clear_one_def clear_pii_def Let_def save_assignment_def checked_table_def retired_row_def t_def
          split: if_splits)
      then show ?thesis
      proof (elim disjE conjE)
        assume "ps_table st' = t" "ps_cleared st' = ps_cleared st @ [lca_uuid a]"
        then show ?thesis using t inv ok same live by (auto simp: reported_rows_def)
      next
        assume "ps_table st' = ps_table st" "ps_cleared st' = ps_cleared st"
        then show ?thesis using inv live by (simp add: reported_rows_def)
      qed
    qed
  qed
qed

lemma clear_all_reported:
  assumes "reported_rows env dry_run configurations table history st" and "distinct (map lca_uuid table)"
    and "c \<in> set configurations" and "ac_active c" and "\<forall>a \<in> set as. a \<in> set table \<and> pii_candidate c a"
  shows "reported_rows env dry_run configurations table history (fst (clear_all env dry_run policy metadata as st))"
  using assms(1,5)
proof (induction as arbitrary: st)
  case (Cons a as)
  have one: "clear_one env dry_run policy metadata a st = (st', r) \<Longrightarrow> reported_rows env dry_run configurations table history st'" for st' r
    using clear_one_reported [OF _ Cons.prems(1) _ assms(3,4) _ assms(2)] Cons.prems(2) by simp
  show ?case unfolding clear_all.simps
    by (rule sbind_keeps [where P = "reported_rows env dry_run configurations table history"])
      (use one Cons.IH Cons.prems(2) in \<open>auto intro!: one prod.collapse [symmetric]\<close>)
qed simp

lemma clear_configuration_reported:
  assumes "reported_rows env dry_run configurations table history st" and "distinct (map lca_uuid table)"
    and "c \<in> set configurations" and "ac_active c"
  shows "reported_rows env dry_run configurations table history (fst (clear_configuration env dry_run c st))"
proof (cases "find (\<lambda>p. map_option ac_uuid (sap_assignment_configuration p) = Some (ac_uuid c)) (pi_policies env)")
  case None
  then show ?thesis using assms(1) by (simp only: clear_configuration_def option.case fst_conv)
next
  case (Some policy)
  define expired where "expired = sort_key (\<lambda>a. the (lca_expired_at a)) (filter (pii_candidate c) (ps_table st))"
  have "\<forall>a \<in> set expired. a \<in> set table \<and> pii_candidate c a"
    using candidate_untouched [OF assms(1)] by (auto simp: expired_def)
  from clear_all_reported [OF assms this] show ?thesis
    by (simp only: clear_configuration_def Some option.case Let_def expired_def [symmetric])
qed

lemma clear_configurations_reported:
  assumes "reported_rows env dry_run configurations table history st" and "distinct (map lca_uuid table)"
    and "set cs \<subseteq> {c \<in> set configurations. ac_active c}"
  shows "reported_rows env dry_run configurations table history (fst (clear_configurations env dry_run cs st))"
  using assms(1,3)
proof (induction cs arbitrary: st)
  case (Cons c cs)
  have one: "reported_rows env dry_run configurations table history (fst (clear_configuration env dry_run c st))"
    using clear_configuration_reported [OF Cons.prems(1) assms(2)] Cons.prems(2) by simp
  show ?case unfolding clear_configurations.simps
  proof (rule sbind_keeps [where P = "reported_rows env dry_run configurations table history"])
    fix s x assume "clear_configuration env dry_run c st = (s, Inr x)"
    then show "reported_rows env dry_run configurations table history (fst (clear_configurations env dry_run cs s))"
      using one Cons.IH [of s] Cons.prems(2) by simp
  qed (rule one)
qed simp

text \<open>C33. The command that clears personal data, failing or not, changes exactly the rows it reports, and
  only by a retired address; every reported row is expired, of an active configuration, not retired
  before, told of its expiration, and ran into the 90 days; a dry run changes nothing, the history included.\<close>

theorem only_reported_rows_lose_their_address:
  assumes "clear_pii_for_expired_assignments env dry_run configurations table history = (st, r)"
    and "distinct (map lca_uuid table)"
  shows "ps_table st = map (\<lambda>a. if lca_uuid a \<in> set (ps_cleared st) \<and> \<not> dry_run then retired_row env a else a) table \<and>
    (\<forall>a \<in> set table. lca_uuid a \<in> set (ps_cleared st) \<longrightarrow> clearable env configurations a \<and> lca_state a = EXPIRED) \<and>
    (dry_run \<longrightarrow> ps_table st = table \<and> ps_history st = history)"
proof -
  have "reported_rows env dry_run configurations table history (fst (clear_configurations env dry_run (filter ac_active configurations)
      \<lparr>ps_table = table, ps_history = history, ps_cleared = [], ps_skipped = 0\<rparr>))"
    by (rule clear_configurations_reported) (auto simp: reported_rows_def assms(2))
  then show ?thesis using assms(1)
    by (auto simp: clear_pii_for_expired_assignments_def reported_rows_def clearable_def pii_candidate_def)
qed

definition demo_pii_env :: pii_env where
  "demo_pii_env = \<lparr>pi_now = days 200, pi_policies = [demo_policy], pi_actions = [demo_expiration], pi_requests = [],
     pi_subsidy_expiration = (\<lambda>_. Inr None), pi_fetch = (\<lambda>_ _. []), pi_nonce = (\<lambda>_. ''1'')\<rparr>"

definition demo_expired_rows :: assignments where
  "demo_expired_rows = [demo_assignment\<lparr>lca_state := EXPIRED, lca_expired_at := Some 5\<rparr>,
     demo_assignment\<lparr>lca_uuid := 12, lca_learner_email := ''x@y.z'', lca_lms_user_id := None, lca_state := EXPIRED, lca_expired_at := Some 5\<rparr>]"

lemma demo_clearing:
  "map lca_learner_email (ps_table (fst (clear_pii_for_expired_assignments demo_pii_env False [demo_config] demo_expired_rows [])))
     = [retired_email_address ''1'', ''x@y.z''] \<and>
   ps_cleared (fst (clear_pii_for_expired_assignments demo_pii_env False [demo_config] demo_expired_rows [])) = [11]"
  by code_simp

theorem only_reported_rows_lose_their_address_witness:
  "ps_cleared (fst (clear_pii_for_expired_assignments demo_pii_env False [demo_config] demo_expired_rows [])) = [11] \<and>
   clearable demo_pii_env [demo_config] (hd demo_expired_rows)"
proof -
  have d: "distinct (map lca_uuid demo_expired_rows)" by (simp add: demo_expired_rows_def demo_assignment_def)
  have "hd demo_expired_rows \<in> set demo_expired_rows" "lca_uuid (hd demo_expired_rows) = 11"
    by (simp_all add: demo_expired_rows_def demo_assignment_def)
  then show ?thesis
    using only_reported_rows_lose_their_address [OF prod.collapse [symmetric] d, of demo_pii_env False "[demo_config]" "[]"]
      demo_clearing by auto
qed

end
