(* ===== verification/Request_Tasks_Properties.thy ===== *)
theory Request_Tasks_Properties
  imports Request_Tasks Assignment_Tasks_Properties
begin

text \<open>
  What the digests for the admins cover: the outcome of one run for every answer of the services, the
  requests that two successive digests miss, and the digest that is mailed again and again.
\<close>

section \<open>Frames\<close>

text \<open>What the services cannot touch.\<close>

definition tables_of ::
    "'x request_world \<Rightarrow> (subsidy_type \<Rightarrow> dated_request list) \<times> dated_configuration list \<times> digest list" where
  "tables_of w = (rq_rows w, rq_configurations w, rq_digests w)"

lemma with_mail_tablesD: "with_mail call w = (w', r) \<Longrightarrow> tables_of w' = tables_of w"
  by (auto simp: with_mail_def tables_of_def split: prod.splits)

lemma send_digest_outcome:
  "send_digest env d w = (w', r) \<Longrightarrow>
    (case r of Inl _ \<Rightarrow> tables_of w' = tables_of w
     | Inr _ \<Rightarrow> tables_of w' = (rq_rows w, rq_configurations w, rq_digests w @ [d]))"
  unfolding send_digest_def
  by (cases "with_mail (on_services (re_send_campaign env d)) w"; cases "snd (with_mail (on_services (re_send_campaign env d)) w)")
    (auto dest!: with_mail_tablesD simp: tables_of_def)

definition digest_rows :: "digest \<Rightarrow> json option" where
  "digest_rows d = map_of (dg_properties d) ''requests''"

text \<open>A sequence of calls that leave the tables alone, up to its last step.\<close>

definition ends_in :: "('x request_world \<Rightarrow> bool) \<Rightarrow> 'x request_world \<Rightarrow> 'x request_world \<times> 'a result \<Rightarrow> bool" where
  "ends_in Q w m \<longleftrightarrow> (case m of (w', Inl _) \<Rightarrow> tables_of w' = tables_of w | (w', Inr _) \<Rightarrow> Q w')"

lemma ends_in_sbind:
  assumes "tables_of (fst m) = tables_of w"
    and "\<And>v x. m = (v, Inr x) \<Longrightarrow> tables_of v = tables_of w \<Longrightarrow> ends_in Q w (f x v)"
  shows "ends_in Q w (sbind m f)"
  using assms by (cases m; cases "snd m") (auto simp: ends_in_def)

lemma tables_of_with_mail [simp]: "tables_of (fst (with_mail call w)) = tables_of w"
  by (metis prod.collapse with_mail_tablesD)

lemma digest_of_customer_ends:
  "ends_in (\<lambda>w'. \<exists>d. tables_of w' = (rq_rows w, rq_configurations w, rq_digests w @ [d]) \<and>
      digest_rows d = Some (JList (map request_row rows))) w (digest_of_customer env ty rows customer w)"
  unfolding digest_of_customer_def
proof ((rule ends_in_sbind, simp)+, goal_cases)
  case (1 v1 j v2 slug v3 admin_users v4 u v5 admins v6 recipients)
  then have "tables_of v6 = tables_of w" by simp
  define d where "d = \<lparr>dg_campaign = me_settings (re_mail env) ''BRAZE_NEW_REQUESTS_NOTIFICATION_CAMPAIGN'', dg_recipients = recipients,
     dg_properties = [(''manage_requests_url'', JStr (get_manage_requests_url env ty slug)), (''requests'', JList (map request_row rows))]\<rparr>"
  obtain v7 r where s: "send_digest env d v6 = (v7, r)" by (cases "send_digest env d v6") auto
  have "digest_rows d = Some (JList (map request_row rows))" by (simp add: digest_rows_def d_def)
  then show ?case unfolding d_def [symmetric] s
    using send_digest_outcome [OF s] \<open>tables_of v6 = tables_of w\<close>
    by (auto simp: ends_in_def tables_of_def split: sum.splits)
qed

section \<open>One run of the digest\<close>

definition blocked :: "'x request_env \<Rightarrow> dated_configuration \<Rightarrow> bool" where
  "blocked env c \<longleftrightarrow>
     clean_customer_configuration (re_links env) (re_lcr_configurations env) (customer_configuration.truncate c) = Inl ValidationError"

lemma clean_customer_cases:
  "clean_customer_configuration links configs c = Inr () \<or> clean_customer_configuration links configs c = Inl ValidationError"
  by (simp add: clean_customer_configuration_def)

lemma truncate_stamped [simp]:
  "customer_configuration.truncate (c\<lparr>cc_last_remind_date := d\<rparr>) = customer_configuration.truncate c"
  by (simp add: customer_configuration.defs)

lemma save_dated_configuration_result:
  "save_dated_configuration env (c\<lparr>cc_last_remind_date := d\<rparr>) configurations =
    (if blocked env c then Inl ValidationError
     else Inr (put_row cc_enterprise_customer_uuid (c\<lparr>cc_last_remind_date := d\<rparr>) configurations))"
  using clean_customer_cases [of "re_links env" "re_lcr_configurations env" "customer_configuration.truncate c"]
  by (auto simp: save_dated_configuration_def blocked_def)

text \<open>What one attempt leaves behind; \<open>d\<close> is the digest that Braze took.\<close>

definition digest_attempt ::
    "'x request_env \<Rightarrow> dated_configuration \<Rightarrow> dated_request list \<Rightarrow> 'x request_world \<Rightarrow> 'x request_world \<Rightarrow> unit result \<Rightarrow> bool" where
  "digest_attempt env c rows w w' r \<longleftrightarrow>
     (case r of
        Inr _ \<Rightarrow> \<not> blocked env c \<and> (\<exists>d. digest_rows d = Some (JList (map request_row rows)) \<and>
          tables_of w' = (rq_rows w, put_row cc_enterprise_customer_uuid (c\<lparr>cc_last_remind_date := Some (re_stamp env)\<rparr>)
            (rq_configurations w), rq_digests w @ [d]))
      | Inl e \<Rightarrow> tables_of w' = tables_of w \<or>
          (e = ValidationError \<and> blocked env c \<and> (\<exists>d. digest_rows d = Some (JList (map request_row rows)) \<and>
             tables_of w' = (rq_rows w, rq_configurations w, rq_digests w @ [d]))))"

lemma admins_digest_outcome:
  assumes "admins_digest env customer w = (w', r)"
    and c: "find (\<lambda>c. cc_enterprise_customer_uuid c = customer) (rq_configurations w) = Some c"
    and ty: "cc_subsidy_type c = Some ty" and some: "new_requests c (rq_rows w ty) \<noteq> []"
  shows "digest_attempt env c (new_requests c (rq_rows w ty)) w w' r"
proof -
  obtain v r1 where v: "digest_of_customer env ty (new_requests c (rq_rows w ty)) customer w = (v, r1)"
    by (cases "digest_of_customer env ty (new_requests c (rq_rows w ty)) customer w") auto
  show ?thesis
  proof (cases r1)
    case (Inl e)
    then show ?thesis using assms v digest_of_customer_ends [of w "new_requests c (rq_rows w ty)" env ty customer]
      by (auto simp: admins_digest_def digest_attempt_def ends_in_def)
  next
    case (Inr y)
    then obtain d where d: "tables_of v = (rq_rows w, rq_configurations w, rq_digests w @ [d])"
      "digest_rows d = Some (JList (map request_row (new_requests c (rq_rows w ty))))"
      using v digest_of_customer_ends [of w "new_requests c (rq_rows w ty)" env ty customer] by (auto simp: ends_in_def)
    have "(w', r) = (if blocked env c then (v, Inl ValidationError)
        else (v\<lparr>rq_configurations := put_row cc_enterprise_customer_uuid (c\<lparr>cc_last_remind_date := Some (re_stamp env)\<rparr>)
                 (rq_configurations v)\<rparr>, Inr ()))"
      using assms v Inr by (cases "blocked env c") (simp_all add: admins_digest_def save_dated_configuration_result)
    then show ?thesis using d by (auto simp: digest_attempt_def tables_of_def split: if_splits)
  qed
qed

lemma digest_task_outcome:
  assumes "send_admins_email_with_new_requests_task env customer w = (w', r)"
    and "find (\<lambda>c. cc_enterprise_customer_uuid c = customer) (rq_configurations w) = Some c"
    and "cc_subsidy_type c = Some ty" and "new_requests c (rq_rows w ty) \<noteq> []"
  shows "digest_attempt env c (new_requests c (rq_rows w ty)) w w' r"
proof -
  define good where "good w1 o1 \<longleftrightarrow> digest_attempt env c (new_requests c (rq_rows w ty)) w w1 o1" for w1 o1
  have attempt: "good v' o1" if "tables_of v = tables_of w" "admins_digest env customer v = (v', o1)" for v v' o1
    using admins_digest_outcome [OF that(2), of c ty] that(1) assms(2-4)
    by (auto simp: good_def digest_attempt_def tables_of_def split: sum.splits)
  have "good w' r" if "tables_of v = tables_of w" "run_task n (admins_digest env customer) (\<lambda>_ w. (w, Inr ())) v = (w', r)" for n v
    using that
  proof (induction n arbitrary: v)
    case 0
    note step = "0.prems"(2) [unfolded run_task.simps [of 0], simplified]
    obtain v1 o1 where v1: "admins_digest env customer v = (v1, o1)" by (cases "admins_digest env customer v") auto
    then show ?case using attempt [OF "0.prems"(1) v1] step by (cases o1) auto
  next
    case (Suc n)
    obtain v1 o1 where v1: "admins_digest env customer v = (v1, o1)" by (cases "admins_digest env customer v") auto
    note step = Suc.prems(2) [unfolded run_task.simps [of "Suc n"], simplified v1, simplified]
    have g: "good v1 o1" using attempt [OF Suc.prems(1) v1] .
    show ?case
    proof (cases "\<exists>e. o1 = Inl e \<and> e \<in> set autoretry_for")
      case True
      then obtain e where e: "o1 = Inl e" "e \<in> set autoretry_for" by blast
      then have "e \<noteq> ValidationError" by (auto simp: autoretry_for_def)
      then have "tables_of v1 = tables_of w" using g e by (auto simp: good_def digest_attempt_def)
      then show ?thesis using Suc.IH step e by auto
    next
      case False
      then show ?thesis using g step by (cases o1) auto
    qed
  qed
  then have "good w' r" using assms(1) unfolding send_admins_email_with_new_requests_task_def by blast
  then show ?thesis by (simp add: good_def)
qed

text \<open>C34. A run of the digest task, retried or not, mails either one digest with exactly the open requests
  since the last one, newest first, and stamps the configuration, or it raises and stamps nothing. It
  raises after the mail was sent only when the configuration does not validate, which is the case while
  requests are enabled for a customer with an active learner credit configuration: then every later run
  mails the same requests again.\<close>

theorem digest_stamped_or_repeated:
  assumes "send_admins_email_with_new_requests_task env customer w = (w', r)"
    and "find (\<lambda>c. cc_enterprise_customer_uuid c = customer) (rq_configurations w) = Some c"
    and "cc_subsidy_type c = Some ty" and "new_requests c (rq_rows w ty) \<noteq> []"
  shows "case r of
      Inr _ \<Rightarrow> \<not> blocked env c \<and> (\<exists>d. digest_rows d = Some (JList (map request_row (new_requests c (rq_rows w ty)))) \<and>
        tables_of w' = (rq_rows w, put_row cc_enterprise_customer_uuid (c\<lparr>cc_last_remind_date := Some (re_stamp env)\<rparr>)
          (rq_configurations w), rq_digests w @ [d]))
    | Inl e \<Rightarrow> rq_configurations w' = rq_configurations w \<and> rq_rows w' = rq_rows w \<and>
        (rq_digests w' = rq_digests w \<or> e = ValidationError \<and> blocked env c \<and>
          (\<exists>d. digest_rows d = Some (JList (map request_row (new_requests c (rq_rows w ty)))) \<and>
             rq_digests w' = rq_digests w @ [d]))"
  using digest_task_outcome [OF assms] by (auto simp: digest_attempt_def tables_of_def split: sum.splits)

section \<open>Two runs\<close>

lemma in_new_requests:
  "r \<in> set (new_requests c rows) \<longleftrightarrow> r \<in> set rows \<and> sr_enterprise_customer_uuid r = cc_enterprise_customer_uuid c \<and>
     sr_state r = SR_REQUESTED \<and> (case cc_last_remind_date c of None \<Rightarrow> True | Some d \<Rightarrow> d \<le> dr_created r)"
  by (auto simp: new_requests_def newest_first_def)

text \<open>After a digest the next one, whatever the rows are by then, covers exactly the open requests that
  are not older than the stamp of the first: between the two, a request that was made while the first
  digest was being sent, after its rows were read, is mailed by neither of them.\<close>

theorem requests_between_query_and_stamp:
  assumes "send_admins_email_with_new_requests_task env customer w = (w', Inr ())"
    and "find (\<lambda>c. cc_enterprise_customer_uuid c = customer) (rq_configurations w) = Some c"
    and "cc_subsidy_type c = Some ty" and "new_requests c (rq_rows w ty) \<noteq> []"
  shows "\<exists>c'. find (\<lambda>c. cc_enterprise_customer_uuid c = customer) (rq_configurations w') = Some c' \<and>
    (\<forall>rows. \<forall>r \<in> set rows. sr_enterprise_customer_uuid r = customer \<longrightarrow> sr_state r = SR_REQUESTED \<longrightarrow>
       (r \<in> set (new_requests c (rq_rows w ty)) \<union> set (new_requests c' rows) \<longleftrightarrow>
        r \<in> set (new_requests c (rq_rows w ty)) \<or> re_stamp env \<le> dr_created r)) \<and>
    (\<forall>rows. \<forall>r \<in> set rows. r \<notin> set (rq_rows w ty) \<longrightarrow> dr_created r < re_stamp env \<longrightarrow>
       r \<notin> set (new_requests c (rq_rows w ty)) \<union> set (new_requests c' rows))"
proof -
  define c' where "c' = c\<lparr>cc_last_remind_date := Some (re_stamp env)\<rparr>"
  have k: "cc_enterprise_customer_uuid c = customer" using assms(2) by (auto simp: find_Some_iff)
  have "rq_configurations w' = put_row cc_enterprise_customer_uuid c' (rq_configurations w)"
    using digest_task_outcome [OF assms] by (auto simp: digest_attempt_def tables_of_def c'_def)
  moreover have "find (\<lambda>c. cc_enterprise_customer_uuid c = customer) (put_row cc_enterprise_customer_uuid c' rows) =
      (if find (\<lambda>c. cc_enterprise_customer_uuid c = customer) rows = None then None else Some c')" for rows
    using k by (induction rows) (auto simp: put_row_def c'_def)
  ultimately have "find (\<lambda>c. cc_enterprise_customer_uuid c = customer) (rq_configurations w') = Some c'"
    using assms(2) by simp
  moreover have "cc_last_remind_date c' = Some (re_stamp env)" "cc_enterprise_customer_uuid c' = customer"
    using k by (simp_all add: c'_def)
  ultimately show ?thesis by (intro exI [of _ c']) (auto simp: in_new_requests)
qed

section \<open>Mails to learners\<close>

text \<open>They write nothing but the mail, and that only when they succeed.\<close>

lemma learner_mail_outcome:
  assumes "learner_mail env ps setting u w = (w', r)"
  shows "mw_assignments w' = mw_assignments w \<and> mw_actions w' = mw_actions w \<and>
    (case r of
       Inl _ \<Rightarrow> mw_mails w' = mw_mails w
     | Inr _ \<Rightarrow> \<exists>a m. lca_uuid a = u \<and> mw_mails w' = mw_mails w @ [m] \<and> mail_sent env (map property_name ps) setting a m)"
proof -
  have keep: "rows_of v = rows_of w \<Longrightarrow> mail_about env ps [] (\<lambda>_. setting) (\<lambda>_ actions. actions) u v = (v', Inl e) \<Longrightarrow>
      rows_of v' = rows_of w" for v v' e
    using mail_about_outcome [of env ps "[]" "\<lambda>_. setting" "\<lambda>_ actions. actions" u v v' "Inl e"] by simp
  have handler: "fst (log_errored_request env u e v) = v" for e v
    by (auto simp: log_errored_request_def get_assignment_or_raise_def split: option.splits)
  have out: "case r of Inr _ \<Rightarrow> (\<exists>v. rows_of v = rows_of w \<and>
        mail_about env ps [] (\<lambda>_. setting) (\<lambda>_ actions. actions) u v = (w', Inr ()))
    | Inl e \<Rightarrow> (\<exists>v. rows_of v = rows_of w \<and> w' = fst (log_errored_request env u e v))"
    by (rule run_task_outcome [where P = "\<lambda>v. rows_of v = rows_of w", OF assms [unfolded learner_mail_def]])
      (rule refl, erule (1) keep)
  show ?thesis
  proof (cases r)
    case (Inl e)
    then show ?thesis using out by (auto simp: handler rows_of_def)
  next
    case (Inr y)
    then obtain v where v: "rows_of v = rows_of w"
      "mail_about env ps [] (\<lambda>_. setting) (\<lambda>_ actions. actions) u v = (w', Inr ())" using out by auto
    then show ?thesis using mail_about_outcome [OF v(2)] Inr
      by (auto simp: rows_of_def find_Some_iff)
  qed
qed

definition demo_dated_request :: dated_request where
  "demo_dated_request = \<lparr>sr_uuid = 1, sr_user = \<lparr>user_id = 7, user_email = ''a@b.c'', user_lms_user_id = Some 70\<rparr>,
     sr_course_id = Some ''edX+D'', sr_course_title = None, sr_course_partners = None, sr_enterprise_customer_uuid = 5,
     sr_state = SR_REQUESTED, sr_reviewed_at = None, sr_reviewer = None, sr_decline_reason = None,
     dr_created = 100, dr_modified = 100, dr_config = None\<rparr>"

definition demo_reminders :: dated_configuration where
  "demo_reminders = \<lparr>cc_enterprise_customer_uuid = 5, cc_subsidy_requests_enabled = True,
     cc_subsidy_type = Some License_Subsidy, cc_last_remind_date = None\<rparr>"

definition demo_request_world :: "nat request_world" where
  "demo_request_world = \<lparr>rq_mail = demo_mail_world, rq_rows = (\<lambda>_. [demo_dated_request]),
     rq_configurations = [demo_reminders], rq_digests = []\<rparr>"

definition demo_request_env :: "policy_links \<Rightarrow> nat request_env" where
  "demo_request_env links = \<lparr>re_mail = demo_mail_env 0, re_stamp = 600, re_links = links,
     re_lcr_configurations = [\<lparr>lcc_uuid = 8, lcc_active = True\<rparr>], re_admin_portal_url = ''a'',
     re_send_campaign = (\<lambda>_ n. (n + 1, Inr ()))\<rparr>"

lemma demo_new_requests: "new_requests demo_reminders (rq_rows demo_request_world License_Subsidy) = [demo_dated_request]"
  by code_simp

lemma demo_digest_runs:
  "snd (send_admins_email_with_new_requests_task (demo_request_env []) 5 demo_request_world) = Inr ()"
  by code_simp

lemma demo_digest_blocked:
  "snd (send_admins_email_with_new_requests_task (demo_request_env [(5, Some 8)]) 5 demo_request_world) = Inl ValidationError \<and>
   length (rq_digests (fst (send_admins_email_with_new_requests_task (demo_request_env [(5, Some 8)]) 5 demo_request_world))) = 1"
  by code_simp

theorem digest_stamped_or_repeated_witness:
  "rq_configurations (fst (send_admins_email_with_new_requests_task (demo_request_env [(5, Some 8)]) 5 demo_request_world))
     = [demo_reminders] \<and>
   map digest_rows (rq_digests (fst (send_admins_email_with_new_requests_task (demo_request_env [(5, Some 8)]) 5 demo_request_world)))
     = [Some (JList [request_row demo_dated_request])]"
proof -
  obtain w' where run: "send_admins_email_with_new_requests_task (demo_request_env [(5, Some 8)]) 5 demo_request_world
      = (w', Inl ValidationError)"
    using demo_digest_blocked by (metis prod.collapse)
  have "find (\<lambda>c. cc_enterprise_customer_uuid c = 5) (rq_configurations demo_request_world) = Some demo_reminders"
    "cc_subsidy_type demo_reminders = Some License_Subsidy"
    "new_requests demo_reminders (rq_rows demo_request_world License_Subsidy) \<noteq> []"
    by (simp_all add: demo_new_requests) (simp_all add: demo_request_world_def demo_reminders_def)
  note outcome = digest_stamped_or_repeated [OF run this]
  have "length (rq_digests w') = 1" "rq_digests demo_request_world = []" "rq_configurations demo_request_world = [demo_reminders]"
    using demo_digest_blocked by (simp_all add: run) (simp_all add: demo_request_world_def)
  then show ?thesis using outcome by (auto simp: run demo_new_requests)
qed

theorem requests_between_query_and_stamp_witness:
  "\<exists>c'. find (\<lambda>c. cc_enterprise_customer_uuid c = 5)
       (rq_configurations (fst (send_admins_email_with_new_requests_task (demo_request_env []) 5 demo_request_world))) = Some c' \<and>
     demo_dated_request\<lparr>sr_uuid := 2, dr_created := 550\<rparr>
       \<notin> set (new_requests c' [demo_dated_request, demo_dated_request\<lparr>sr_uuid := 2, dr_created := 550\<rparr>])"
proof -
  obtain w' where run: "send_admins_email_with_new_requests_task (demo_request_env []) 5 demo_request_world = (w', Inr ())"
    using demo_digest_runs by (metis prod.collapse)
  have pre: "find (\<lambda>c. cc_enterprise_customer_uuid c = 5) (rq_configurations demo_request_world) = Some demo_reminders"
    "cc_subsidy_type demo_reminders = Some License_Subsidy"
    "new_requests demo_reminders (rq_rows demo_request_world License_Subsidy) \<noteq> []"
    by (simp_all add: demo_new_requests) (simp_all add: demo_request_world_def demo_reminders_def)
  define late where "late = demo_dated_request\<lparr>sr_uuid := 2, dr_created := 550\<rparr>"
  have "late \<notin> set (rq_rows demo_request_world License_Subsidy)" "dr_created late < re_stamp (demo_request_env [])"
    by (simp_all add: late_def demo_request_world_def demo_request_env_def demo_dated_request_def)
  then show ?thesis using requests_between_query_and_stamp [OF run pre] unfolding run late_def [symmetric]
    by (metis UnI2 fst_conv list.set_intros(1) list.set_intros(2))
qed

end
