(* ===== verification/Group_Views.thy ===== *)
theory Group_Views
  imports Policy_Views_Properties "HOL-Library.Multiset"
begin

text \<open>
  The views over the groups of a policy (\<open>SubsidyAccessPolicyGroupViewset\<close> of
  \<^verbatim>\<open>api/v1/views/subsidy_access_policy.py\<close>): the members of a group with their
  enrollment counts, sorted and cut into pages, and the deletion of group associations. The members
  come from the LMS and the counts from the subsidy service; both answers are parameters here, the
  clients are in \<open>Api_Client\<close> and \<open>Subsidy_Api\<close>. A URL is taken apart into what precedes the query
  and the query itself.
\<close>

section \<open>Page links\<close>

record url =
  url_base :: string
  url_query :: "(string \<times> string list) list"

definition page_of_url :: "(string \<Rightarrow> int option) \<Rightarrow> url \<Rightarrow> int result" where
  "page_of_url parse_int u =
     (case map_of (url_query u) ''page'' of
        Some (p # _) \<Rightarrow> (case parse_int p of None \<Rightarrow> Inl ValueError | Some n \<Rightarrow> Inr n)
      | _ \<Rightarrow> Inl KeyError)"

text \<open>
  The parsed query gets the new page; \<open>_replace\<close> returns a new tuple with it, which is not kept, and
  the old tuple is put together again.
\<close>

definition replaced_query :: "url \<Rightarrow> int \<Rightarrow> url" where
  "replaced_query u n = u\<lparr>url_query := dict_put (url_query u) ''page'' [str_int n]\<rparr>"

definition group_members_with_aggregates_next_page :: "(string \<Rightarrow> int option) \<Rightarrow> url \<Rightarrow> url result" where
  "group_members_with_aggregates_next_page parse_int current_url =
     rbind (page_of_url parse_int current_url) (\<lambda>n.
       let _ = replaced_query current_url (n + 1) in Inr current_url)"

definition group_members_with_aggregates_previous_page :: "(string \<Rightarrow> int option) \<Rightarrow> url \<Rightarrow> url result" where
  "group_members_with_aggregates_previous_page parse_int current_url =
     rbind (page_of_url parse_int current_url) (\<lambda>n.
       let _ = replaced_query current_url (n - 1) in Inr current_url)"

section \<open>Members with enrollment counts\<close>

definition page_size :: nat where
  "page_size = 10"

definition zip_one :: "(json \<times> json) list \<Rightarrow> json \<Rightarrow> json result" where
  "zip_one aggregates member =
     rbind (json_get member ''lms_user_id'' JNull) (\<lambda>u.
       let n = (if json_truthy u then (case map_of aggregates u of None \<Rightarrow> JNum 0 | Some c \<Rightarrow> c) else JNum 0)
       in case member of
            JObj d \<Rightarrow> Inr (JObj (dict_put d ''enrollment_count'' n))
          | _ \<Rightarrow> Inl TypeError)"

definition zip_group_members_data_with_enrollment_count ::
    "json list \<Rightarrow> (json \<times> json) list \<Rightarrow> json list result" where
  "zip_group_members_data_with_enrollment_count members aggregates = rmap (zip_one aggregates) members"

text \<open>Sorting compares the counts, which must be numbers as soon as there are two members.\<close>

definition count_of :: "json \<Rightarrow> int result" where
  "count_of member =
     rbind (json_get member ''enrollment_count'' JNull) (\<lambda>c. case c of JNum n \<Rightarrow> Inr n | _ \<Rightarrow> Inl TypeError)"

definition the_count :: "json \<Rightarrow> int" where
  "the_count member = (case count_of member of Inr n \<Rightarrow> n | Inl _ \<Rightarrow> 0)"

definition sort_members :: "bool \<Rightarrow> json list \<Rightarrow> json list result" where
  "sort_members is_reversed members =
     (if length members \<le> 1 then Inr members
      else rbind (rmap count_of members) (\<lambda>_.
        Inr (sort_key (\<lambda>m. if is_reversed then the_count m else - the_count m) members)))"

definition cut_page :: "nat \<Rightarrow> json list \<Rightarrow> json list" where
  "cut_page page members = take page_size (drop ((page - 1) * page_size) members)"

definition num_pages :: "nat \<Rightarrow> nat" where
  "num_pages n = (n + page_size - 1) div page_size"

record members_reply =
  mr_results :: "json list"
  mr_next :: "url option"
  mr_previous :: "url option"
  mr_num_pages :: "nat option"

definition link_unless :: "bool \<Rightarrow> url option \<Rightarrow> url result \<Rightarrow> url option result" where
  "link_unless needed old new = (if needed then rbind new (\<lambda>u. Inr (Some u)) else Inr old)"

definition update_pagination_params_for_group_aggregates ::
    "(string \<Rightarrow> int option) \<Rightarrow> url \<Rightarrow> bool \<Rightarrow> bool \<Rightarrow> nat \<Rightarrow> nat \<Rightarrow> members_reply \<Rightarrow> members_reply result" where
  "update_pagination_params_for_group_aggregates parse_int current_url traverse_pagination
       sort_by_enrollment_count page_index_start num_member_results reply =
     rbind (if \<not> traverse_pagination
            then
              rbind (link_unless (mr_next reply \<noteq> None \<or>
                        (page_index_start + page_size < num_member_results \<and> sort_by_enrollment_count))
                      (mr_next reply) (group_members_with_aggregates_next_page parse_int current_url)) (\<lambda>next_url.
              rbind (link_unless (mr_previous reply \<noteq> None \<or> (page_index_start > 0 \<and> sort_by_enrollment_count))
                      (mr_previous reply) (group_members_with_aggregates_previous_page parse_int current_url)) (\<lambda>previous_url.
                Inr (reply\<lparr>mr_next := next_url, mr_previous := previous_url\<rparr>)))
            else Inr (reply\<lparr>mr_next := None, mr_previous := None\<rparr>)) (\<lambda>reply1.
       Inr (if sort_by_enrollment_count then reply1\<lparr>mr_num_pages := Some (num_pages num_member_results)\<rparr>
            else reply1))"

section \<open>The views\<close>

record group_query =
  gq_group_uuid :: "uuid option"
  gq_page :: "nat option"
  gq_traverse_pagination :: bool
  gq_sort_by :: "string option"
  gq_is_reversed :: bool
  gq_format_csv :: bool

text \<open>The serializer: exactly one of a page (which is at least 1) and the traversal of all pages.\<close>

definition valid_group_query :: "group_query \<Rightarrow> bool" where
  "valid_group_query q \<longleftrightarrow> gq_page q \<noteq> Some 0 \<and> ((gq_page q \<noteq> None) \<noteq> gq_traverse_pagination q)"

datatype members_answer = Csv "json list" | Members members_reply

text \<open>
  \<open>aggregates\<close> are the counts of a subsidy and policy, \<open>fetch\<close> the answer of the LMS for a group, a
  sort key, the traversal flag and a page. Which customer the group belongs to is not asked.
\<close>

definition get_group_member_data_with_aggregates ::
    "view_context \<Rightarrow> (string \<Rightarrow> int option) \<Rightarrow> (uuid \<Rightarrow> uuid \<Rightarrow> (json \<times> json) list result) \<Rightarrow>
      (uuid \<Rightarrow> string option \<Rightarrow> bool \<Rightarrow> nat option \<Rightarrow> members_reply result) \<Rightarrow> url \<Rightarrow> string \<Rightarrow> group_query \<Rightarrow>
      members_answer answer" where
  "get_group_member_data_with_aggregates vc parse_int aggregates fetch current_url policy_uuid q =
     (if \<not> permitted vc SUBSIDY_ACCESS_POLICY_READ_PERMISSION (Some (customer_of_policy vc policy_uuid))
      then Inl Forbidden
      else if \<not> valid_group_query q then Inl Bad_Request
      else case policy_of_text vc policy_uuid of
        None \<Rightarrow> Inl Not_Found
      | Some policy \<Rightarrow>
          (case (case gq_group_uuid q of
                   Some g \<Rightarrow> Some (Some g)
                 | None \<Rightarrow> map_option snd (find (\<lambda>(p, _). p = sap_uuid policy) (pe_groups (vc_env vc)))) of
             None \<Rightarrow> Inl Not_Found
           | Some None \<Rightarrow> Inl (Server_Error ValueError)
           | Some (Some group_uuid) \<Rightarrow>
               unhandled
                 (let by_count = (gq_sort_by q = Some ''enrollment_count'')
                  in rbind (aggregates (sap_subsidy_uuid policy) (sap_uuid policy)) (\<lambda>counts.
                     rbind (fetch group_uuid (if by_count then None else gq_sort_by q)
                              (gq_traverse_pagination q \<or> by_count) (if by_count then None else gq_page q)) (\<lambda>reply.
                     rbind (zip_group_members_data_with_enrollment_count (mr_results reply) counts) (\<lambda>zipped.
                     rbind (if by_count then sort_members (gq_is_reversed q) zipped else Inr zipped) (\<lambda>members.
                     case (if by_count then gq_page q else None) of
                       None \<Rightarrow>
                         if gq_format_csv q then Inr (Csv members)
                         else rbind (update_pagination_params_for_group_aggregates parse_int current_url
                                (gq_traverse_pagination q) by_count 0 0 (reply\<lparr>mr_results := members\<rparr>))
                                (\<lambda>r. Inr (Members r))
                     | Some page \<Rightarrow>
                         if gq_format_csv q then Inr (Csv (cut_page page members))
                         else rbind (update_pagination_params_for_group_aggregates parse_int current_url
                                (gq_traverse_pagination q) by_count ((page - 1) * page_size) (length members)
                                (reply\<lparr>mr_results := cut_page page members\<rparr>))
                                (\<lambda>r. Inr (Members r)))))))))"

text \<open>
  Deleting the associations of a group: the permission is for the customer named in the path, the rows
  are those of the group, of whatever policy. Deleting no row raises nothing.
\<close>

definition delete_policy_group_association ::
    "view_context \<Rightarrow> string \<Rightarrow> uuid \<Rightarrow> policy_env \<Rightarrow> policy_env \<times> unit answer" where
  "delete_policy_group_association vc enterprise_uuid group_uuid env =
     (if \<not> permitted vc SUBSIDY_ACCESS_POLICY_WRITE_PERMISSION (Some enterprise_uuid) then (env, Inl Forbidden)
      else (env\<lparr>pe_groups := filter (\<lambda>(_, g). g \<noteq> Some group_uuid) (pe_groups env)\<rparr>, Inr ()))"

section \<open>Lemmas\<close>

lemma take_drop_pages: "concat (map (\<lambda>i. take n (drop (i * n) xs)) [0..<m]) = take (m * n) xs"
proof (induction m)
  case (Suc m)
  have "take (Suc m * n) xs = take (m * n) xs @ take n (drop (m * n) xs)"
    using take_add [of "m * n" n xs] by (simp add: add.commute)
  with Suc show ?case by simp
qed simp

lemma num_pages_enough: "n \<le> num_pages n * page_size"
  by (simp add: num_pages_def page_size_def)

text \<open>The pages of a list put together.\<close>

lemma pages_cover: "concat (map (\<lambda>page. cut_page page xs) [1..<num_pages (length xs) + 1]) = xs"
proof -
  have "[1..<num_pages (length xs) + 1] = map Suc [0..<num_pages (length xs)]"
    by (simp add: map_Suc_upt)
  then have "concat (map (\<lambda>page. cut_page page xs) [1..<num_pages (length xs) + 1]) =
      concat (map (\<lambda>i. take page_size (drop (i * page_size) xs)) [0..<num_pages (length xs)])"
    by (simp add: cut_page_def comp_def del: upt_Suc)
  then show ?thesis using num_pages_enough [of "length xs"] by (simp add: take_drop_pages)
qed

text \<open>Page links. Wherever the link to the next or to the previous page can be built at all, it is
  the address of the page itself: a client that follows the links reads one page forever.\<close>

theorem page_links_do_not_move:
  "group_members_with_aggregates_next_page parse_int u = Inr v \<or>
   group_members_with_aggregates_previous_page parse_int u = Inr v \<Longrightarrow> v = u"
  by (auto simp: group_members_with_aggregates_next_page_def group_members_with_aggregates_previous_page_def
      rbind_Inr_iff)

theorem page_links_do_not_move_witness:
  "group_members_with_aggregates_next_page (\<lambda>_. Some 1) \<lparr>url_base = ''u'', url_query = [(''page'', [''1''])]\<rparr> =
     Inr \<lparr>url_base = ''u'', url_query = [(''page'', [''1''])]\<rparr>"
proof -
  have "\<exists>v. group_members_with_aggregates_next_page (\<lambda>_. Some 1) \<lparr>url_base = ''u'', url_query = [(''page'', [''1''])]\<rparr> = Inr v"
    by (simp add: group_members_with_aggregates_next_page_def page_of_url_def)
  then show ?thesis using page_links_do_not_move by metis
qed

lemma sort_members_keeps: "sort_members is_reversed xs = Inr ys \<Longrightarrow> mset ys = mset xs"
  by (auto simp: sort_members_def rbind_Inr_iff split: if_splits)

text \<open>The pages of a listing that is sorted by enrollment count.\<close>

definition counted_page ::
    "view_context \<Rightarrow> (string \<Rightarrow> int option) \<Rightarrow> (uuid \<Rightarrow> uuid \<Rightarrow> (json \<times> json) list result) \<Rightarrow>
      (uuid \<Rightarrow> string option \<Rightarrow> bool \<Rightarrow> nat option \<Rightarrow> members_reply result) \<Rightarrow> url \<Rightarrow> string \<Rightarrow> uuid \<Rightarrow> bool \<Rightarrow>
      nat \<Rightarrow> members_answer answer" where
  "counted_page vc parse_int aggregates fetch u policy_uuid g is_reversed page =
     get_group_member_data_with_aggregates vc parse_int aggregates fetch u policy_uuid
       \<lparr>gq_group_uuid = Some g, gq_page = Some page, gq_traverse_pagination = False,
        gq_sort_by = Some ''enrollment_count'', gq_is_reversed = is_reversed, gq_format_csv = False\<rparr>"

text \<open>C30. Sorting by enrollment count loses no member: the pages 1 to \<open>num_pages\<close>, asked for one by one,
  hold every member of the group exactly once, with their counts, in the order of the whole listing.\<close>

theorem counted_pages_cover:
  assumes allowed: "permitted vc SUBSIDY_ACCESS_POLICY_READ_PERMISSION (Some (customer_of_policy vc policy_uuid))"
    and policy: "policy_of_text vc policy_uuid = Some policy"
    and counts: "aggregates (sap_subsidy_uuid policy) (sap_uuid policy) = Inr counts"
    and reply: "fetch g None True None = Inr reply"
    and zipped: "zip_group_members_data_with_enrollment_count (mr_results reply) counts = Inr zipped"
    and members: "sort_members is_reversed zipped = Inr members"
    and page: "page_of_url parse_int u = Inr n"
  shows "\<exists>pages. (\<forall>i. \<exists>r. counted_page vc parse_int aggregates fetch u policy_uuid g is_reversed (Suc i) =
           Inr (Members r) \<and> mr_results r = pages i \<and> mr_num_pages r = Some (num_pages (length members))) \<and>
     concat (map pages [0..<num_pages (length members)]) = members \<and> mset members = mset zipped"
proof (rule exI [of _ "\<lambda>i. cut_page (Suc i) members"], intro conjI)
  show "concat (map (\<lambda>i. cut_page (Suc i) members) [0..<num_pages (length members)]) = members"
    using pages_cover [of members] by (simp add: map_Suc_upt [symmetric] comp_def del: upt_Suc)
  show "mset members = mset zipped" by (rule sort_members_keeps [OF members])
  show "\<forall>i. \<exists>r. counted_page vc parse_int aggregates fetch u policy_uuid g is_reversed (Suc i) = Inr (Members r) \<and>
      mr_results r = cut_page (Suc i) members \<and> mr_num_pages r = Some (num_pages (length members))"
    using allowed policy counts reply zipped members page
    by (simp add: counted_page_def get_group_member_data_with_aggregates_def valid_group_query_def Let_def
        update_pagination_params_for_group_aggregates_def link_unless_def
        group_members_with_aggregates_next_page_def group_members_with_aggregates_previous_page_def)
qed

definition demo_members :: "json list" where
  "demo_members = [JObj [(''lms_user_id'', JNum 1)], JObj [(''lms_user_id'', JNum 2)]]"

definition demo_counted :: "json list" where
  "demo_counted = [JObj [(''lms_user_id'', JNum 2), (''enrollment_count'', JNum 7)],
     JObj [(''lms_user_id'', JNum 1), (''enrollment_count'', JNum 0)]]"

definition demo_url :: url where
  "demo_url = \<lparr>url_base = ''u'', url_query = [(''page'', [''1''])]\<rparr>"

definition demo_reply :: members_reply where
  "demo_reply = \<lparr>mr_results = demo_members, mr_next = None, mr_previous = None, mr_num_pages = None\<rparr>"

theorem counted_pages_cover_witness:
  "\<exists>pages. (\<forall>i. \<exists>r. counted_page (demo_context False []) (\<lambda>_. Some 1) (\<lambda>_ _. Inr [(JNum 2, JNum 7)])
       (\<lambda>_ _ _ _. Inr demo_reply) demo_url ''p40'' 9 False (Suc i) = Inr (Members r) \<and> mr_results r = pages i) \<and>
     concat (map pages [0..<1]) = demo_counted"
proof -
  have "permitted (demo_context False []) SUBSIDY_ACCESS_POLICY_READ_PERMISSION
      (Some (customer_of_policy (demo_context False []) ''p40''))" by code_simp
  moreover have "policy_of_text (demo_context False []) ''p40'' = Some demo_group_policy" by code_simp
  moreover have "zip_group_members_data_with_enrollment_count (mr_results demo_reply) [(JNum 2, JNum 7)] =
      Inr (rev demo_counted)" by code_simp
  moreover have "sort_members False (rev demo_counted) = Inr demo_counted" by code_simp
  moreover have "page_of_url (\<lambda>_. Some 1) demo_url = Inr 1" by (simp add: page_of_url_def demo_url_def)
  ultimately have whole: "\<exists>pages. (\<forall>i. \<exists>r. counted_page (demo_context False []) (\<lambda>_. Some 1) (\<lambda>_ _. Inr [(JNum 2, JNum 7)])
       (\<lambda>_ _ _ _. Inr demo_reply) demo_url ''p40'' 9 False (Suc i) = Inr (Members r) \<and> mr_results r = pages i \<and>
        mr_num_pages r = Some (num_pages (length demo_counted))) \<and>
     concat (map pages [0..<num_pages (length demo_counted)]) = demo_counted \<and> mset demo_counted = mset (rev demo_counted)"
    by (intro counted_pages_cover) simp_all
  have one: "num_pages (length demo_counted) = 1" by code_simp
  from whole show ?thesis unfolding one by blast
qed

text \<open>C31. Opening a policy of another customer. Whoever may write the policies of one customer deletes,
  by naming that customer and any group, the associations of the group with the policies of every
  customer: a policy that was restricted to that group admits learners it refused before.\<close>

theorem stranger_opens_policy:
  assumes "permitted vc SUBSIDY_ACCESS_POLICY_WRITE_PERMISSION (Some mine)"
    and "filter (\<lambda>(q, _). q = sap_uuid p) (pe_groups env) = [(sap_uuid p, Some g)]"
    and "pe_learner_record env (sap_enterprise_customer_uuid p) u = Inr (Some learner)"
    and "g \<notin> set (lr_enterprise_groups learner)"
  shows "includes_learner env p u = Inr (False, Some REASON_LEARNER_NOT_IN_ENTERPRISE_GROUP) \<and>
    includes_learner (fst (delete_policy_group_association vc mine g env)) p u = Inr (True, None)"
proof -
  have "filter (\<lambda>(q, _). q = sap_uuid p) (filter (\<lambda>(_, h). h \<noteq> Some g) (pe_groups env)) =
      filter (\<lambda>(_, h). h \<noteq> Some g) (filter (\<lambda>(q, _). q = sap_uuid p) (pe_groups env))"
    by (simp add: conj_commute case_prod_beta)
  then show ?thesis
    using assms by (auto simp: includes_learner_def delete_policy_group_association_def Let_def)
qed

text \<open>An operator of one customer, and a policy of another that is for the members of group 9.\<close>

definition demo_operator :: view_context where
  "demo_operator = (demo_context False [])\<lparr>vc_access := rbac_of [(SYSTEM_ENTERPRISE_OPERATOR_ROLE, ''acme'')] []\<rparr>"

definition demo_other_policy :: policy where
  "demo_other_policy = demo_direct\<lparr>sap_enterprise_customer_uuid := 6\<rparr>"

theorem stranger_opens_policy_witness:
  "includes_learner (fst (delete_policy_group_association demo_operator ''acme'' 9 (vc_env demo_operator)))
     demo_other_policy 8 = Inr (True, None) \<and>
   \<not> permitted demo_operator SUBSIDY_ACCESS_POLICY_WRITE_PERMISSION (Some ''other'')"
proof
  have "permitted demo_operator SUBSIDY_ACCESS_POLICY_WRITE_PERMISSION (Some ''acme'')" by code_simp
  moreover have "filter (\<lambda>(q, _). q = sap_uuid demo_other_policy) (pe_groups (vc_env demo_operator)) =
      [(sap_uuid demo_other_policy, Some 9)]"
    by (simp add: demo_other_policy_def demo_operator_def demo_context_def demo_direct_def demo_policy_def)
  moreover have "pe_learner_record (vc_env demo_operator) (sap_enterprise_customer_uuid demo_other_policy) 8 =
      Inr (Some \<lparr>lr_enterprise_groups = []\<rparr>)"
    by (simp add: demo_operator_def demo_context_def)
  ultimately show "includes_learner (fst (delete_policy_group_association demo_operator ''acme'' 9
      (vc_env demo_operator))) demo_other_policy 8 = Inr (True, None)"
    using stranger_opens_policy [of demo_operator "''acme''" demo_other_policy "vc_env demo_operator" 9 8] by simp
  show "\<not> permitted demo_operator SUBSIDY_ACCESS_POLICY_WRITE_PERMISSION (Some ''other'')" by code_simp
qed

end
