(* ===== verification/Checkout_Intent.thy ===== *)
theory Checkout_Intent
  imports Prelude
begin

text \<open>
  The self-service checkout record, \<open>customer_billing/models.py\<close> (\<open>CheckoutIntent\<close>) and the
  transition table of \<open>customer_billing/constants.py\<close>.

  A row is a \<open>checkout_intent\<close>; the table is a list of rows. \<open>create_intent\<close> and
  \<open>cleanup_expired\<close> work on the table, the \<open>mark_as_...\<close> methods on one row
  (\<open>save\<close> writes it back). Clock readings (\<open>now\<close>), fresh keys and the rendering of a date in ISO
  format are arguments. The lemmas show that every operation respects the transition table, what
  each operation does on each branch, and when the reservation of a slug and a name stays unique.
\<close>

section \<open>Data\<close>

datatype checkout_intent_state =
    CI_CREATED
  | CI_PAID
  | CI_FULFILLED
  | CI_ERRORED_BACKOFFICE
  | CI_ERRORED_FULFILLMENT_STALLED
  | CI_ERRORED_PROVISIONING
  | CI_EXPIRED

fun allowed_checkout_intent_state_transitions ::
    "checkout_intent_state \<Rightarrow> checkout_intent_state list" where
  "allowed_checkout_intent_state_transitions CI_CREATED = [CI_PAID, CI_EXPIRED]"
| "allowed_checkout_intent_state_transitions CI_PAID =
     [CI_FULFILLED, CI_ERRORED_BACKOFFICE, CI_ERRORED_FULFILLMENT_STALLED,
      CI_ERRORED_PROVISIONING, CI_ERRORED_FULFILLMENT_STALLED]"
| "allowed_checkout_intent_state_transitions CI_ERRORED_BACKOFFICE = [CI_FULFILLED]"
| "allowed_checkout_intent_state_transitions CI_ERRORED_FULFILLMENT_STALLED = [CI_FULFILLED]"
| "allowed_checkout_intent_state_transitions CI_ERRORED_PROVISIONING = [CI_FULFILLED]"
| "allowed_checkout_intent_state_transitions CI_EXPIRED = [CI_CREATED]"
| "allowed_checkout_intent_state_transitions CI_FULFILLED = []"

text \<open>The keys of the table, in its order.\<close>

definition transition_keys :: "checkout_intent_state list" where
  "transition_keys =
     [CI_CREATED, CI_PAID, CI_ERRORED_BACKOFFICE, CI_ERRORED_FULFILLMENT_STALLED,
      CI_ERRORED_PROVISIONING, CI_EXPIRED, CI_FULFILLED]"

definition success_states :: "checkout_intent_state list" where
  "success_states = [CI_PAID, CI_FULFILLED]"

definition failure_states :: "checkout_intent_state list" where
  "failure_states =
     [CI_ERRORED_BACKOFFICE, CI_ERRORED_FULFILLMENT_STALLED, CI_ERRORED_PROVISIONING]"

definition non_expired_states :: "checkout_intent_state list" where
  "non_expired_states =
     [CI_CREATED, CI_PAID, CI_FULFILLED, CI_ERRORED_BACKOFFICE,
      CI_ERRORED_FULFILLMENT_STALLED, CI_ERRORED_PROVISIONING]"

type_synonym terms = "(string \<times> json) list"

record checkout_intent =
  ci_pk :: "nat option"
  ci_user :: nat
  ci_uuid :: uuid
  ci_state :: checkout_intent_state
  ci_enterprise_name :: "string option"
  ci_enterprise_slug :: "string option"
  ci_enterprise_uuid :: "uuid option"
  ci_stripe_customer_id :: "string option"
  ci_expires_at :: "datetime option"
  ci_stripe_checkout_session_id :: "string option"
  ci_quantity :: int
  ci_country :: "string option"
  ci_last_checkout_error :: "string option"
  ci_last_provisioning_error :: "string option"
  ci_workflow :: "uuid option"
  ci_terms_metadata :: "terms option"
  ci_modified :: datetime

section \<open>Operations on one record\<close>

definition FULFILLABLE_STATES :: "checkout_intent_state list" where
  "FULFILLABLE_STATES =
     filter (\<lambda>s. CI_FULFILLED \<in> set (allowed_checkout_intent_state_transitions s)) transition_keys"

definition is_valid_state_transition ::
    "checkout_intent_state \<Rightarrow> checkout_intent_state \<Rightarrow> bool" where
  "is_valid_state_transition current_state new_state =
     (if current_state = new_state then True
      else new_state \<in> set (allowed_checkout_intent_state_transitions current_state))"

definition mark_as_paid ::
    "string option \<Rightarrow> string option \<Rightarrow> datetime \<Rightarrow> checkout_intent \<Rightarrow> checkout_intent result" where
  "mark_as_paid stripe_session_id stripe_customer_id now self =
     (if \<not> is_valid_state_transition (ci_state self) CI_PAID then Inl ValueError
      else if truthy stripe_session_id \<and> ci_state self = CI_PAID \<and>
              stripe_session_id \<noteq> ci_stripe_checkout_session_id self then Inl ValueError
      else if truthy stripe_customer_id \<and> ci_state self = CI_PAID \<and>
              stripe_customer_id \<noteq> ci_stripe_customer_id self then Inl ValueError
      else Inr (self\<lparr>
        ci_state := CI_PAID,
        ci_stripe_checkout_session_id :=
          (if truthy stripe_session_id then stripe_session_id else ci_stripe_checkout_session_id self),
        ci_stripe_customer_id :=
          (if truthy stripe_customer_id then stripe_customer_id else ci_stripe_customer_id self),
        ci_modified := now\<rparr>))"

definition mark_as_fulfilled ::
    "uuid option \<Rightarrow> datetime \<Rightarrow> checkout_intent \<Rightarrow> checkout_intent result" where
  "mark_as_fulfilled workflow now self =
     (if \<not> is_valid_state_transition (ci_state self) CI_FULFILLED then Inl ValueError
      else Inr (self\<lparr>
        ci_state := CI_FULFILLED,
        ci_workflow := (if workflow \<noteq> None then workflow else ci_workflow self),
        ci_modified := now\<rparr>))"

definition mark_backoffice_error ::
    "string \<Rightarrow> datetime \<Rightarrow> checkout_intent \<Rightarrow> checkout_intent result" where
  "mark_backoffice_error error_message now self =
     (if \<not> is_valid_state_transition (ci_state self) CI_ERRORED_BACKOFFICE then Inl ValueError
      else Inr (self\<lparr>
        ci_state := CI_ERRORED_BACKOFFICE,
        ci_last_provisioning_error := Some error_message,
        ci_modified := now\<rparr>))"

definition mark_provisioning_error ::
    "string \<Rightarrow> uuid option \<Rightarrow> datetime \<Rightarrow> checkout_intent \<Rightarrow> checkout_intent result" where
  "mark_provisioning_error error_message workflow now self =
     (if \<not> is_valid_state_transition (ci_state self) CI_ERRORED_PROVISIONING then Inl ValueError
      else Inr (self\<lparr>
        ci_state := CI_ERRORED_PROVISIONING,
        ci_last_provisioning_error := Some error_message,
        ci_workflow := (if workflow \<noteq> None then workflow else ci_workflow self),
        ci_modified := now\<rparr>))"

definition is_expired :: "datetime \<Rightarrow> checkout_intent \<Rightarrow> bool option" where
  "is_expired now self =
     (case ci_expires_at self of
        None \<Rightarrow> None
      | Some t \<Rightarrow> Some (ci_state self = CI_CREATED \<and> now > t))"

definition admin_portal_url :: "string \<Rightarrow> checkout_intent \<Rightarrow> string option" where
  "admin_portal_url enterprise_admin_portal_url self =
     (if ci_state self = CI_FULFILLED
      then Some (enterprise_admin_portal_url @ ''/'' @
             (case ci_enterprise_slug self of None \<Rightarrow> ''None'' | Some s \<Rightarrow> s))
      else None)"

definition update_stripe_session_id ::
    "string option \<Rightarrow> datetime \<Rightarrow> checkout_intent \<Rightarrow> checkout_intent" where
  "update_stripe_session_id session_id now self =
     self\<lparr>ci_stripe_checkout_session_id := session_id, ci_modified := now\<rparr>"

definition update_stripe_identifiers ::
    "string option \<Rightarrow> string option \<Rightarrow> datetime \<Rightarrow> checkout_intent \<Rightarrow> checkout_intent" where
  "update_stripe_identifiers session_id customer_id now self =
     self\<lparr>
       ci_stripe_checkout_session_id :=
         (if truthy session_id then session_id else ci_stripe_checkout_session_id self),
       ci_stripe_customer_id :=
         (if truthy customer_id then customer_id else ci_stripe_customer_id self),
       ci_modified := now\<rparr>"

section \<open>Operations on the table\<close>

definition cleanup_expired :: "datetime \<Rightarrow> checkout_intent list \<Rightarrow> checkout_intent list" where
  "cleanup_expired now intents =
     (let expired_intent_records =
            filter (\<lambda>i. ci_state i = CI_CREATED \<and>
                        (case ci_expires_at i of None \<Rightarrow> False | Some t \<Rightarrow> t \<le> now)) intents
      in put_rows ci_pk (map (\<lambda>i. i\<lparr>ci_state := CI_EXPIRED\<rparr>) expired_intent_records) intents)"

definition microseconds :: "int \<Rightarrow> int" where
  "microseconds seconds = seconds * 1000000"

text \<open>
  The clock is read twice: \<open>now1\<close> for the threshold and \<open>now2\<close> for the reported time.
  The second component lists the primary keys as strings.
\<close>

definition find_stalled_fulfillment_intents ::
    "int \<Rightarrow> datetime \<Rightarrow> datetime \<Rightarrow> checkout_intent list
       \<Rightarrow> checkout_intent list \<times> string list \<times> datetime" where
  "find_stalled_fulfillment_intents stalled_threshold_seconds now1 now2 intents =
     (let threshold_time = now1 - microseconds stalled_threshold_seconds;
          stalled_intents = sort_key ci_modified
            (filter (\<lambda>i. ci_state i = CI_PAID \<and> ci_modified i \<le> threshold_time) intents)
      in if stalled_intents = [] then ([], [], now2)
         else (stalled_intents,
               map (\<lambda>i. case ci_pk i of None \<Rightarrow> ''None'' | Some n \<Rightarrow> str_int (int n)) stalled_intents,
               now2))"

definition stalled_message :: "(datetime \<Rightarrow> string) \<Rightarrow> int \<Rightarrow> datetime \<Rightarrow> datetime \<Rightarrow> string" where
  "stalled_message isoformat stalled_threshold_seconds current_time modified =
     ''Fulfillment stalled for '' @ str_int (trunc_div (current_time - modified) (microseconds 1)) @
     '' seconds (threshold: '' @ str_int stalled_threshold_seconds @ ''s). Last modified: '' @
     isoformat modified @ ''. Provisioning workflow may have failed without proper error handling.''"

text \<open>Each stalled row is saved on its own, at its own clock reading \<open>save_at pk\<close>.\<close>

definition mark_stalled_fulfillment_intents ::
    "(datetime \<Rightarrow> string) \<Rightarrow> int \<Rightarrow> datetime \<Rightarrow> datetime \<Rightarrow> (nat option \<Rightarrow> datetime)
       \<Rightarrow> checkout_intent list \<Rightarrow> checkout_intent list \<times> nat \<times> string list" where
  "mark_stalled_fulfillment_intents isoformat stalled_threshold_seconds now1 now2 save_at intents =
     (case find_stalled_fulfillment_intents stalled_threshold_seconds now1 now2 intents of
        (stalled_intents, updated_uuids, current_time) \<Rightarrow>
          if stalled_intents = [] then (intents, 0, [])
          else (put_rows ci_pk
                 (map (\<lambda>i. i\<lparr>
                    ci_state := CI_ERRORED_FULFILLMENT_STALLED,
                    ci_last_provisioning_error := Some (stalled_message isoformat
                      stalled_threshold_seconds current_time (ci_modified i)),
                    ci_modified := save_at (ci_pk i)\<rparr>) stalled_intents) intents,
                length stalled_intents, updated_uuids))"

text \<open>SQL equality: \<open>NULL\<close> is equal to nothing, so a falsy argument adds no disjunct.\<close>

definition filter_by_name_and_slug ::
    "string option \<Rightarrow> string option \<Rightarrow> checkout_intent list \<Rightarrow> checkout_intent list result" where
  "filter_by_name_and_slug slug name intents =
     (if \<not> (truthy slug \<or> truthy name) then Inl ValueError
      else Inr (filter (\<lambda>i. (truthy slug \<and> ci_enterprise_slug i = slug) \<or>
                            (truthy name \<and> ci_enterprise_name i = name)) intents))"

definition clean :: "checkout_intent list \<Rightarrow> checkout_intent \<Rightarrow> unit result" where
  "clean intents self =
     (if ci_pk self = None \<and>
         find (\<lambda>i. ci_user i = ci_user self \<and> ci_state i \<in> set non_expired_states) intents \<noteq> None
      then Inl ValidationError
      else rbind (filter_by_name_and_slug (ci_enterprise_slug self) (ci_enterprise_name self) intents)
        (\<lambda>found.
          let conflicts = filter (\<lambda>i. ci_state i \<in> set non_expired_states \<and>
                                      \<not> (ci_pk self \<noteq> None \<and> ci_pk i = ci_pk self)) found;
              name_conflicts = filter (\<lambda>c. ci_enterprise_name c = ci_enterprise_name self) conflicts;
              slug_conflicts = filter (\<lambda>c. ci_enterprise_slug c = ci_enterprise_slug self) conflicts
          in if name_conflicts \<noteq> [] then Inl ValidationError
             else if slug_conflicts \<noteq> [] then Inl ValidationError
             else Inr ()))"

definition can_reserve ::
    "string option \<Rightarrow> string option \<Rightarrow> nat option \<Rightarrow> checkout_intent list \<Rightarrow> bool result" where
  "can_reserve slug name exclude_user intents =
     rbind (filter_by_name_and_slug slug name intents) (\<lambda>queryset.
       let q1 = filter (\<lambda>i. ci_state i \<in> set non_expired_states) queryset;
           q2 = (case exclude_user of None \<Rightarrow> q1 | Some u \<Rightarrow> filter (\<lambda>i. ci_user i \<noteq> u) q1)
       in Inr (q2 = []))"

definition for_user :: "nat option \<Rightarrow> checkout_intent list \<Rightarrow> checkout_intent option" where
  "for_user authenticated_user intents =
     (case authenticated_user of
        None \<Rightarrow> None
      | Some u \<Rightarrow> find (\<lambda>i. ci_user i = u) intents)"

record create_args =
  ca_user :: nat
  ca_quantity :: int
  ca_slug :: "string option"
  ca_name :: "string option"
  ca_country :: "string option"
  ca_terms_metadata :: "terms option"

text \<open>
  \<open>now\<close> is the clock of the call, \<open>reservation_minutes\<close> the setting, \<open>new_pk\<close> and
  \<open>new_uuid\<close> the keys a new row gets. The body is one database transaction: on an exception the
  table, the clean-up included, is rolled back, so an error carries no table.
\<close>

definition should_reserve_new_slug :: "create_args \<Rightarrow> checkout_intent option \<Rightarrow> bool" where
  "should_reserve_new_slug args existing_intent =
     (if truthy (ca_slug args) then
        (case existing_intent of
           None \<Rightarrow> True
         | Some e \<Rightarrow> ca_slug args \<noteq> ci_enterprise_slug e \<or> ca_name args \<noteq> ci_enterprise_name e)
      else False)"

definition update_existing_intent ::
    "create_args \<Rightarrow> datetime \<Rightarrow> datetime \<Rightarrow> checkout_intent \<Rightarrow> checkout_intent" where
  "update_existing_intent args expires_at now e =
     e\<lparr>ci_state := CI_CREATED,
       ci_quantity := ca_quantity args,
       ci_expires_at := Some expires_at,
       ci_enterprise_slug := py_or (ca_slug args) (ci_enterprise_slug e),
       ci_enterprise_name := py_or (ca_name args) (ci_enterprise_name e),
       ci_country := py_or (ca_country args) (ci_country e),
       ci_terms_metadata := Some (dict_union
         (case ci_terms_metadata e of None \<Rightarrow> [] | Some d \<Rightarrow> d)
         (case ca_terms_metadata args of None \<Rightarrow> [] | Some d \<Rightarrow> d)),
       ci_modified := now\<rparr>"

definition new_intent ::
    "create_args \<Rightarrow> datetime \<Rightarrow> datetime \<Rightarrow> nat \<Rightarrow> uuid \<Rightarrow> checkout_intent" where
  "new_intent args expires_at now new_pk new_uuid =
     \<lparr>ci_pk = Some new_pk, ci_user = ca_user args, ci_uuid = new_uuid, ci_state = CI_CREATED,
      ci_enterprise_name = ca_name args, ci_enterprise_slug = ca_slug args,
      ci_enterprise_uuid = None, ci_stripe_customer_id = None, ci_expires_at = Some expires_at,
      ci_stripe_checkout_session_id = None, ci_quantity = ca_quantity args,
      ci_country = ca_country args, ci_last_checkout_error = None,
      ci_last_provisioning_error = None, ci_workflow = None,
      ci_terms_metadata = ca_terms_metadata args, ci_modified = now\<rparr>"

definition create_intent ::
    "int \<Rightarrow> datetime \<Rightarrow> nat \<Rightarrow> uuid \<Rightarrow> create_args \<Rightarrow> checkout_intent list
       \<Rightarrow> (checkout_intent list \<times> checkout_intent) result" where
  "create_intent reservation_minutes now new_pk new_uuid args intents0 =
     (let intents = cleanup_expired now intents0 in
      if truthy (ca_slug args) \<noteq> truthy (ca_name args) then Inl ValueError
      else
        let existing_intent = find (\<lambda>i. ci_user i = ca_user args) intents;
            expires_at = now + microseconds (60 * reservation_minutes);
            write =
              (case existing_intent of
                 Some e \<Rightarrow>
                   (let e' = update_existing_intent args expires_at now e
                    in (put_row ci_pk e' intents, e'))
               | None \<Rightarrow>
                   (let e' = new_intent args expires_at now new_pk new_uuid
                    in (intents @ [e'], e')));
            reserve_and_write =
              (if should_reserve_new_slug args existing_intent
               then rbind (can_reserve (ca_slug args) (ca_name args) (Some (ca_user args)) intents)
                      (\<lambda>free. if free then Inr write else Inl SlugReservationConflict)
               else Inr write)
        in case existing_intent of
             Some e \<Rightarrow>
               if ci_state e \<in> set success_states then Inr (intents, e)
               else if ci_state e \<in> set failure_states then Inl FailedCheckoutIntentConflict
               else reserve_and_write
           | None \<Rightarrow> reserve_and_write)"

section \<open>The state machine of one record\<close>

text \<open>The rows the clean-up selects.\<close>

definition due :: "datetime \<Rightarrow> checkout_intent \<Rightarrow> bool" where
  "due now i \<longleftrightarrow> ci_state i = CI_CREATED \<and>
     (case ci_expires_at i of None \<Rightarrow> False | Some t \<Rightarrow> t \<le> now)"

text \<open>The methods of the model class that save one row.\<close>

datatype ci_method =
    Mark_As_Paid "string option" "string option" datetime
  | Mark_As_Fulfilled "uuid option" datetime
  | Mark_Backoffice_Error string datetime
  | Mark_Provisioning_Error string "uuid option" datetime
  | Update_Stripe_Session_Id "string option" datetime
  | Update_Stripe_Identifiers "string option" "string option" datetime

fun call_method :: "ci_method \<Rightarrow> checkout_intent \<Rightarrow> checkout_intent result" where
  "call_method (Mark_As_Paid sid cid now) i = mark_as_paid sid cid now i"
| "call_method (Mark_As_Fulfilled w now) i = mark_as_fulfilled w now i"
| "call_method (Mark_Backoffice_Error msg now) i = mark_backoffice_error msg now i"
| "call_method (Mark_Provisioning_Error msg w now) i = mark_provisioning_error msg w now i"
| "call_method (Update_Stripe_Session_Id sid now) i = Inr (update_stripe_session_id sid now i)"
| "call_method (Update_Stripe_Identifiers sid cid now) i =
     Inr (update_stripe_identifiers sid cid now i)"

text \<open>What the operations of the code can do to a stored row, the bulk operations included.\<close>

inductive ci_moves :: "checkout_intent \<Rightarrow> checkout_intent \<Rightarrow> bool" where
  call: "call_method m i = Inr j \<Longrightarrow> ci_moves i j"
| expire: "due now i \<Longrightarrow> ci_moves i (i\<lparr>ci_state := CI_EXPIRED\<rparr>)"
| stall: "ci_state i = CI_PAID \<Longrightarrow>
    ci_moves i (i\<lparr>ci_state := CI_ERRORED_FULFILLMENT_STALLED, ci_last_provisioning_error := err,
                  ci_modified := now\<rparr>)"
| renew: "ci_state i \<in> {CI_CREATED, CI_EXPIRED} \<Longrightarrow>
    ci_moves i (update_existing_intent args expires_at now i)"

abbreviation ci_allowed :: "checkout_intent_state \<Rightarrow> checkout_intent_state \<Rightarrow> bool" where
  "ci_allowed s t \<equiv> t \<in> set (allowed_checkout_intent_state_transitions s)"

lemmas mark_defs =
  mark_as_paid_def mark_as_fulfilled_def mark_backoffice_error_def mark_provisioning_error_def

lemmas method_defs =
  mark_defs update_stripe_session_id_def update_stripe_identifiers_def

lemma call_method_allowed:
  "call_method m i = Inr j \<Longrightarrow> ci_state j = ci_state i \<or> ci_allowed (ci_state i) (ci_state j)"
  by (cases m) (auto simp: method_defs is_valid_state_transition_def split: if_splits)

lemma call_method_frame:
  "call_method m i = Inr j \<Longrightarrow> ci_pk j = ci_pk i \<and> ci_user j = ci_user i \<and>
     ci_enterprise_slug j = ci_enterprise_slug i \<and> ci_enterprise_name j = ci_enterprise_name i"
  by (cases m) (auto simp: method_defs split: if_splits)

lemma ci_moves_allowed: "ci_moves i j \<Longrightarrow> ci_state j = ci_state i \<or> ci_allowed (ci_state i) (ci_state j)"
  by (induction rule: ci_moves.induct)
    (auto simp: due_def update_existing_intent_def dest: call_method_allowed)

lemma ci_moves_frame: "ci_moves i j \<Longrightarrow> ci_pk j = ci_pk i \<and> ci_user j = ci_user i"
  by (induction rule: ci_moves.induct)
    (auto simp: update_existing_intent_def dest: call_method_frame)

lemma ci_moves_star_frame: "ci_moves\<^sup>*\<^sup>* i j \<Longrightarrow> ci_pk j = ci_pk i \<and> ci_user j = ci_user i"
  by (induction rule: rtranclp_induct) (auto dest: ci_moves_frame)

interpretation ci: guarded_transitions ci_allowed ci_state ci_moves
  by unfold_locales (rule ci_moves_allowed)

text \<open>The table of the constants module, row by row, against the documented life cycle.\<close>

lemma no_way_out_of_fulfilled: "\<not> ci_allowed CI_FULFILLED t"
  by simp

lemma settled_closed:
  "s \<in> {CI_PAID, CI_FULFILLED} \<union> set failure_states \<Longrightarrow> ci_allowed s t \<Longrightarrow>
   t \<in> {CI_PAID, CI_FULFILLED} \<union> set failure_states"
  by (cases s) (auto simp: failure_states_def)

section \<open>The table\<close>

text \<open>
  The database constraints: distinct primary keys and one row per user (\<open>OneToOneField\<close>).
\<close>

definition intents_wf :: "checkout_intent list \<Rightarrow> bool" where
  "intents_wf intents \<longleftrightarrow>
     distinct (map ci_pk intents) \<and> distinct (map ci_user intents) \<and> None \<notin> ci_pk ` set intents"

lemma intents_wfD:
  assumes "intents_wf intents"
  shows "distinct (map ci_pk intents)" and "distinct (map ci_user intents)" and "distinct intents"
  using assms by (auto simp: intents_wf_def distinct_map)

lemma cleanup_expired_map:
  assumes "intents_wf intents"
  shows "cleanup_expired now intents =
         map (\<lambda>i. if due now i then i\<lparr>ci_state := CI_EXPIRED\<rparr> else i) intents"
proof -
  have P: "(\<lambda>i. ci_state i = CI_CREATED \<and>
      (case ci_expires_at i of None \<Rightarrow> False | Some t \<Rightarrow> t \<le> now)) = due now"
    by (simp add: due_def fun_eq_iff)
  show ?thesis
    unfolding cleanup_expired_def Let_def P
    by (subst put_rows_map) (auto simp: intents_wfD [OF assms])
qed

lemma cleanup_expired_wf: "intents_wf intents \<Longrightarrow> intents_wf (cleanup_expired now intents)"
  by (auto simp: cleanup_expired_map intents_wf_def o_def if_distrib [of ci_pk]
      if_distrib [of ci_user] cong: if_cong split: if_splits)

lemma put_row_wf:
  assumes "intents_wf intents" and "e \<in> set intents"
    and "ci_pk e' = ci_pk e" and "ci_user e' = ci_user e"
  shows "intents_wf (put_row ci_pk e' intents)"
proof -
  have u: "map ci_user (put_row ci_pk e' intents) = map ci_user intents"
    using assms distinct_key_inj [OF intents_wfD(1) [OF assms(1)] _ assms(2)]
    by (auto simp: put_row_def)
  have "ci_pk ` set (put_row ci_pk e' intents) = ci_pk ` set intents"
    using map_key_put_row [of ci_pk e' intents] by (metis set_map)
  with u assms(1) show ?thesis by (simp add: intents_wf_def)
qed

lemma update_existing_intent_sel [simp]:
  "ci_pk (update_existing_intent args t now e) = ci_pk e"
  "ci_user (update_existing_intent args t now e) = ci_user e"
  "ci_state (update_existing_intent args t now e) = CI_CREATED"
  "ci_enterprise_slug (update_existing_intent args t now e) = py_or (ca_slug args) (ci_enterprise_slug e)"
  "ci_enterprise_name (update_existing_intent args t now e) = py_or (ca_name args) (ci_enterprise_name e)"
  by (simp_all add: update_existing_intent_def)

lemma new_intent_sel [simp]:
  "ci_pk (new_intent args t now pk u) = Some pk"
  "ci_user (new_intent args t now pk u) = ca_user args"
  "ci_state (new_intent args t now pk u) = CI_CREATED"
  "ci_enterprise_slug (new_intent args t now pk u) = ca_slug args"
  "ci_enterprise_name (new_intent args t now pk u) = ca_name args"
  by (simp_all add: new_intent_def)

text \<open>What a successful \<open>create_intent\<close> did: three cases.\<close>

lemma create_intent_cases:
  assumes "create_intent mins now pk u args intents0 = Inr (intents', i)"
  defines "intents \<equiv> cleanup_expired now intents0"
    and "ex \<equiv> find (\<lambda>i. ci_user i = ca_user args) (cleanup_expired now intents0)"
    and "t \<equiv> now + microseconds (60 * mins)"
  obtains (settled) "ex = Some i" and "ci_state i \<in> set success_states" and "intents' = intents"
    | (renewed) e where "ex = Some e" and "ci_state e \<in> {CI_CREATED, CI_EXPIRED}"
        and "i = update_existing_intent args t now e" and "intents' = put_row ci_pk i intents"
        and "truthy (ca_slug args) = truthy (ca_name args)"
        and "should_reserve_new_slug args ex \<Longrightarrow>
             can_reserve (ca_slug args) (ca_name args) (Some (ca_user args)) intents = Inr True"
    | (fresh) "ex = None" and "i = new_intent args t now pk u" and "intents' = intents @ [i]"
        and "truthy (ca_slug args) = truthy (ca_name args)"
        and "should_reserve_new_slug args ex \<Longrightarrow>
             can_reserve (ca_slug args) (ca_name args) (Some (ca_user args)) intents = Inr True"
proof (cases ex)
  case None
  with assms(1) show ?thesis
    by (intro fresh) (auto simp: create_intent_def Let_def rbind_Inr_iff assms(2-4) split: if_splits)
next
  case (Some e)
  show ?thesis
  proof (cases "ci_state e \<in> set success_states")
    case True
    with assms(1) Some show ?thesis
      by (intro settled) (auto simp: create_intent_def Let_def assms(2-4) split: if_splits)
  next
    case False
    with assms(1) Some have "ci_state e \<notin> set failure_states"
      by (auto simp: create_intent_def Let_def assms(2-4) split: if_splits)
    with False have "ci_state e \<in> {CI_CREATED, CI_EXPIRED}"
      by (cases "ci_state e") (auto simp: success_states_def failure_states_def)
    with assms(1) Some False \<open>ci_state e \<notin> set failure_states\<close> show ?thesis
      by (intro renewed) (auto simp: create_intent_def Let_def rbind_Inr_iff assms(2-4) split: if_splits)
  qed
qed

section \<open>Runs of the table\<close>

text \<open>
  One step of the table: a method call on a row, one of the two clean-up jobs, or a checkout
  page calling \<open>create_intent\<close> (a new row gets an unused key).
\<close>

inductive ci_table_step :: "checkout_intent list \<Rightarrow> checkout_intent list \<Rightarrow> bool" where
  call_row: "i \<in> set intents \<Longrightarrow> call_method m i = Inr j \<Longrightarrow>
    ci_table_step intents (put_row ci_pk j intents)"
| cleanup: "ci_table_step intents (cleanup_expired now intents)"
| stalled: "mark_stalled_fulfillment_intents fmt secs now1 now2 save_at intents = (intents', n, ids) \<Longrightarrow>
    ci_table_step intents intents'"
| create: "create_intent mins now pk u args intents = Inr (intents', i) \<Longrightarrow>
    Some pk \<notin> ci_pk ` set intents \<Longrightarrow> ci_table_step intents intents'"

definition is_stalled :: "int \<Rightarrow> datetime \<Rightarrow> checkout_intent \<Rightarrow> bool" where
  "is_stalled secs now1 i \<longleftrightarrow> ci_state i = CI_PAID \<and> ci_modified i \<le> now1 - microseconds secs"

definition stall_row ::
    "(datetime \<Rightarrow> string) \<Rightarrow> int \<Rightarrow> datetime \<Rightarrow> (nat option \<Rightarrow> datetime) \<Rightarrow> checkout_intent \<Rightarrow> checkout_intent" where
  "stall_row fmt secs now2 save_at i = i\<lparr>
     ci_state := CI_ERRORED_FULFILLMENT_STALLED,
     ci_last_provisioning_error := Some (stalled_message fmt secs now2 (ci_modified i)),
     ci_modified := save_at (ci_pk i)\<rparr>"

lemma stall_row_sel [simp]:
  "ci_pk (stall_row fmt secs now2 save_at i) = ci_pk i"
  "ci_user (stall_row fmt secs now2 save_at i) = ci_user i"
  "ci_state (stall_row fmt secs now2 save_at i) = CI_ERRORED_FULFILLMENT_STALLED"
  by (simp_all add: stall_row_def)

lemma mark_stalled_map:
  assumes "intents_wf intents"
    and "mark_stalled_fulfillment_intents fmt secs now1 now2 save_at intents = (intents', n, ids)"
  shows "intents' = map (\<lambda>i. if is_stalled secs now1 i then stall_row fmt secs now2 save_at i else i) intents"
    and "n = length (filter (is_stalled secs now1) intents)"
    and "length ids = n"
proof -
  let ?st = "sort_key ci_modified (filter (is_stalled secs now1) intents)"
  have st: "sort_key ci_modified (filter (\<lambda>i. ci_state i = CI_PAID \<and>
      ci_modified i \<le> now1 - microseconds secs) intents) = ?st"
    by (simp add: is_stalled_def [abs_def])
  have row: "(\<lambda>i. i\<lparr>ci_state := CI_ERRORED_FULFILLMENT_STALLED,
      ci_last_provisioning_error := Some (stalled_message fmt secs now2 (ci_modified i)),
      ci_modified := save_at (ci_pk i)\<rparr>) = stall_row fmt secs now2 save_at"
    by (simp add: stall_row_def fun_eq_iff)
  have res: "(if ?st = [] then (intents, 0, [])
      else (put_rows ci_pk (map (stall_row fmt secs now2 save_at) ?st) intents, length ?st,
            map (\<lambda>i. case ci_pk i of None \<Rightarrow> ''None'' | Some n \<Rightarrow> str_int (int n)) ?st)) = (intents', n, ids)"
    using assms(2)
    unfolding mark_stalled_fulfillment_intents_def find_stalled_fulfillment_intents_def Let_def st
    by (cases "?st = []") (simp_all add: row)
  have put: "put_rows ci_pk (map (stall_row fmt secs now2 save_at) ?st) intents =
      map (\<lambda>i. if is_stalled secs now1 i then stall_row fmt secs now2 save_at i else i) intents"
    using intents_wfD [OF assms(1)] by (subst put_rows_map) auto
  have none: "?st = [] \<Longrightarrow>
      map (\<lambda>i. if is_stalled secs now1 i then stall_row fmt secs now2 save_at i else i) intents = intents"
    by (auto simp: filter_empty_conv simp flip: set_empty intro!: map_idI)
  have tbl: "intents' = (if ?st = [] then intents
      else put_rows ci_pk (map (stall_row fmt secs now2 save_at) ?st) intents)"
    and num: "n = length ?st" and ids: "length ids = length ?st"
    using res by (cases "?st = []"; auto simp only: if_True if_False prod.inject list.size length_map)+
  show "intents' = map (\<lambda>i. if is_stalled secs now1 i then stall_row fmt secs now2 save_at i else i) intents"
    unfolding tbl put using none by (auto simp only: split: if_split)
  show "n = length (filter (is_stalled secs now1) intents)" and "length ids = n"
    using num ids by simp_all
qed

lemma stalled_wf:
  assumes "intents_wf intents"
  shows "intents_wf (map (\<lambda>i. if is_stalled secs now1 i then stall_row fmt secs now2 save_at i else i) intents)"
  using assms
  by (auto simp: intents_wf_def o_def if_distrib [of ci_pk] if_distrib [of ci_user] cong: if_cong
      split: if_splits)

text \<open>A written row: the other rows stay, the old one moves.\<close>

lemma put_row_progress:
  assumes "distinct (map ci_pk rows)" and "e \<in> set rows" and "ci_pk e' = ci_pk e"
    and "ci_moves\<^sup>*\<^sup>* e e'" and "i \<in> set rows"
  shows "\<exists>j \<in> set (put_row ci_pk e' rows). ci_moves\<^sup>*\<^sup>* i j"
proof (cases "ci_pk i = ci_pk e")
  case True
  then have "i = e" using distinct_key_inj [OF assms(1)] assms(2,5) by blast
  with assms show ?thesis by (auto simp: set_put_row)
next
  case False
  with assms(3,5) show ?thesis by (auto simp: set_put_row)
qed

lemma cleanup_progress:
  assumes "intents_wf intents" and "i \<in> set intents"
  shows "\<exists>j \<in> set (cleanup_expired now intents). ci_moves\<^sup>*\<^sup>* i j"
  using assms by (auto simp: cleanup_expired_map intro: ci_moves.expire)

lemma create_progress:
  assumes "intents_wf intents0" and "create_intent mins now pk u args intents0 = Inr (intents', e')"
    and "i \<in> set intents0"
  shows "\<exists>j \<in> set intents'. ci_moves\<^sup>*\<^sup>* i j"
proof -
  obtain k where k: "k \<in> set (cleanup_expired now intents0)" "ci_moves\<^sup>*\<^sup>* i k"
    using cleanup_progress [OF assms(1,3)] by blast
  note wf = intents_wfD(1) [OF cleanup_expired_wf [OF assms(1), of now]]
  show ?thesis
    using assms(2)
  proof (cases rule: create_intent_cases)
    case settled
    with k show ?thesis by blast
  next
    case (renewed e)
    have "ci_moves e e'" using renewed(2) unfolding renewed(3) by (rule ci_moves.renew)
    moreover have "e \<in> set (cleanup_expired now intents0)" using find_SomeD [OF renewed(1)] by simp
    ultimately obtain j where "j \<in> set intents'" "ci_moves\<^sup>*\<^sup>* k j"
      using put_row_progress [OF wf, of e e' k] k(1) renewed(3,4) by auto
    with k(2) show ?thesis by (meson rtranclp_trans)
  next
    case fresh
    with k show ?thesis by auto
  qed
qed

lemma create_wf:
  assumes "intents_wf intents0" and "create_intent mins now pk u args intents0 = Inr (intents', e')"
    and "Some pk \<notin> ci_pk ` set intents0"
  shows "intents_wf intents'"
  using assms(2)
proof (cases rule: create_intent_cases)
  case settled
  then show ?thesis using cleanup_expired_wf [OF assms(1)] by simp
next
  case (renewed e)
  have "e \<in> set (cleanup_expired now intents0)" using find_SomeD [OF renewed(1)] by simp
  then show ?thesis
    unfolding renewed(4) by (intro put_row_wf [where e = e] cleanup_expired_wf assms(1))
      (simp_all add: renewed(3))
next
  case fresh
  have "Some pk \<notin> ci_pk ` set (cleanup_expired now intents0)"
    using assms(1,3) by (auto simp: cleanup_expired_map)
  moreover have "ca_user args \<notin> ci_user ` set (cleanup_expired now intents0)"
    using fresh(1) by (auto simp: find_None_iff)
  ultimately show ?thesis
    using cleanup_expired_wf [OF assms(1)] fresh(2,3) by (auto simp: intents_wf_def)
qed

lemma ci_table_step_wf: "ci_table_step intents intents' \<Longrightarrow> intents_wf intents \<Longrightarrow> intents_wf intents'"
proof (induction rule: ci_table_step.induct)
  case (call_row i intents m j)
  then show ?case by (intro put_row_wf [of intents i]) (auto dest: call_method_frame)
next
  case (cleanup intents now)
  then show ?case by (simp add: cleanup_expired_wf)
next
  case (stalled fmt secs now1 now2 save_at intents intents' n ids)
  then show ?case
    unfolding mark_stalled_map(1) [OF stalled(2,1)] by (intro stalled_wf)
next
  case (create mins now pk u args intents intents' i)
  show ?case by (rule create_wf [OF create(3,1,2)])
qed

lemma ci_table_step_progress:
  "ci_table_step intents intents' \<Longrightarrow> intents_wf intents \<Longrightarrow> i \<in> set intents \<Longrightarrow>
   \<exists>j \<in> set intents'. ci_moves\<^sup>*\<^sup>* i j"
proof (induction rule: ci_table_step.induct)
  case (call_row k intents m j)
  have "ci_moves k j" using call_row(2) by (rule ci_moves.call)
  with call_row show ?case
    by (intro put_row_progress [of _ k]) (auto dest: call_method_frame intents_wfD)
next
  case (cleanup intents now)
  then show ?case by (intro cleanup_progress)
next
  case (stalled fmt secs now1 now2 save_at intents intents' n ids)
  let ?f = "\<lambda>i. if is_stalled secs now1 i then stall_row fmt secs now2 save_at i else i"
  have "ci_moves i (stall_row fmt secs now2 save_at i)" if "is_stalled secs now1 i"
    using that unfolding stall_row_def by (intro ci_moves.stall) (simp add: is_stalled_def)
  then have "ci_moves\<^sup>*\<^sup>* i (?f i)" by (simp add: r_into_rtranclp)
  moreover have "?f i \<in> set intents'"
    unfolding mark_stalled_map(1) [OF stalled(2,1)] set_map using stalled(3) by (rule imageI)
  ultimately show ?case by (rule bexI [where P = "\<lambda>j. ci_moves\<^sup>*\<^sup>* i j"])
next
  case (create mins now pk u args intents intents' k)
  then show ?case using create_progress by blast
qed

lemma ci_table_steps_progress:
  "ci_table_step\<^sup>*\<^sup>* intents intents' \<Longrightarrow> intents_wf intents \<Longrightarrow> i \<in> set intents \<Longrightarrow>
   intents_wf intents' \<and> (\<exists>j \<in> set intents'. ci_moves\<^sup>*\<^sup>* i j)"
proof (induction rule: rtranclp_induct)
  case base
  then show ?case by blast
next
  case (step y z)
  then show ?case
    using ci_table_step_wf ci_table_step_progress by (meson rtranclp_trans)
qed

section \<open>Reservations\<close>

definition holds_reservation :: "checkout_intent \<Rightarrow> bool" where
  "holds_reservation i \<longleftrightarrow> ci_state i \<in> set non_expired_states"

definition reserved_as :: "string option \<Rightarrow> string option \<Rightarrow> checkout_intent \<Rightarrow> bool" where
  "reserved_as slug name i \<longleftrightarrow>
     truthy slug \<and> ci_enterprise_slug i = slug \<or> truthy name \<and> ci_enterprise_name i = name"

text \<open>No two users hold a non-expired intent with the same slug or the same name.\<close>

definition reservations_unique :: "checkout_intent list \<Rightarrow> bool" where
  "reservations_unique intents \<longleftrightarrow>
     (\<forall>i \<in> set intents. \<forall>j \<in> set intents.
        ci_user i \<noteq> ci_user j \<longrightarrow> holds_reservation i \<longrightarrow> holds_reservation j \<longrightarrow>
        \<not> reserved_as (ci_enterprise_slug i) (ci_enterprise_name i) j)"

lemma holds_reservation_iff: "holds_reservation i \<longleftrightarrow> ci_state i \<noteq> CI_EXPIRED"
  by (cases "ci_state i") (auto simp: holds_reservation_def non_expired_states_def)

lemma reserved_as_sym:
  "reserved_as (ci_enterprise_slug i) (ci_enterprise_name i) j \<longleftrightarrow>
   reserved_as (ci_enterprise_slug j) (ci_enterprise_name j) i"
  by (auto simp: reserved_as_def)

lemma can_reserve_iff:
  "can_reserve slug name (Some u) intents = Inr True \<longleftrightarrow>
     (truthy slug \<or> truthy name) \<and>
     (\<forall>i \<in> set intents. ci_user i \<noteq> u \<longrightarrow> holds_reservation i \<longrightarrow> \<not> reserved_as slug name i)"
  by (auto simp: can_reserve_def filter_by_name_and_slug_def Let_def filter_empty_conv
      holds_reservation_def reserved_as_def)

lemma can_reserve_total:
  "truthy slug \<or> truthy name \<Longrightarrow> can_reserve slug name eu intents \<in> {Inr True, Inr False}"
  by (auto simp: can_reserve_def filter_by_name_and_slug_def Let_def)

lemma cleanup_keeps_unique:
  assumes "intents_wf intents" and "reservations_unique intents"
  shows "reservations_unique (cleanup_expired now intents)"
  using assms(2)
  by (auto simp: cleanup_expired_map [OF assms(1)] reservations_unique_def holds_reservation_iff
      reserved_as_def)

text \<open>A row that shares nothing with the other users' rows may be written or added.\<close>

lemma put_row_keeps_unique:
  assumes "intents_wf intents" and "reservations_unique intents"
    and "e \<in> set intents" and "ci_pk e' = ci_pk e" and "ci_user e' = ci_user e"
    and free: "\<And>j. j \<in> set intents \<Longrightarrow> ci_user j \<noteq> ci_user e \<Longrightarrow> holds_reservation j \<Longrightarrow>
      \<not> reserved_as (ci_enterprise_slug e') (ci_enterprise_name e') j"
  shows "reservations_unique (put_row ci_pk e' intents)"
proof -
  have row: "i = e' \<or> i \<in> set intents" if "i \<in> set (put_row ci_pk e' intents)" for i
    using that by (auto simp: set_put_row split: if_splits)
  show ?thesis
    unfolding reservations_unique_def
    using assms(2) free reserved_as_sym assms(5)
    by (auto simp: reservations_unique_def dest!: row)
qed

lemma add_row_keeps_unique:
  assumes "reservations_unique intents"
    and free: "\<And>j. j \<in> set intents \<Longrightarrow> ci_user j \<noteq> ci_user e \<Longrightarrow> holds_reservation j \<Longrightarrow>
      \<not> reserved_as (ci_enterprise_slug e) (ci_enterprise_name e) j"
  shows "reservations_unique (intents @ [e])"
  using assms reserved_as_sym by (auto simp: reservations_unique_def)

text \<open>The reservation of a written or a new row, when a check was made or was not needed.\<close>

lemma reserve_free:
  assumes "should_reserve_new_slug args ex \<Longrightarrow>
      can_reserve (ca_slug args) (ca_name args) (Some (ca_user args)) intents = Inr True"
    and "truthy (ca_slug args)" and "should_reserve_new_slug args ex"
    and "j \<in> set intents" and "ci_user j \<noteq> ca_user args" and "holds_reservation j"
  shows "\<not> reserved_as (ca_slug args) (ca_name args) j"
  using assms by (simp add: can_reserve_iff)

section \<open>Properties\<close>

text \<open>
  C10. \<open>create_intent\<close> keeps slugs and names reserved by at most one user: if the table had no two
  users sharing a reserved slug or name, it has none afterwards, provided that a user whose own
  intent has expired asks for a slug or name that differs from the expired one (so that
  the reservation check of the code is made).
\<close>

theorem create_intent_keeps_reservations_unique:
  assumes wf: "intents_wf intents0" and unique: "reservations_unique intents0"
    and renewal: "\<forall>e \<in> set (cleanup_expired now intents0).
      ci_user e = ca_user args \<longrightarrow> ci_state e = CI_EXPIRED \<longrightarrow> should_reserve_new_slug args (Some e)"
    and ok: "create_intent mins now pk u args intents0 = Inr (intents', i)"
  shows "reservations_unique intents'"
  using ok
proof (cases rule: create_intent_cases)
  case settled
  with cleanup_keeps_unique [OF wf unique] show ?thesis by simp
next
  case (renewed e)
  let ?tbl = "cleanup_expired now intents0"
  have e: "e \<in> set ?tbl" "ci_user e = ca_user args" using find_SomeD [OF renewed(1)] by simp_all
  note wf' = cleanup_expired_wf [OF wf, of now] and unique' = cleanup_keeps_unique [OF wf unique, of now]
  have "\<not> reserved_as (ci_enterprise_slug i) (ci_enterprise_name i) j"
    if j: "j \<in> set ?tbl" "ci_user j \<noteq> ci_user e" "holds_reservation j" for j
  proof (cases "should_reserve_new_slug args (Some e)")
    case True
    then have "truthy (ca_slug args)" by (auto simp: should_reserve_new_slug_def split: if_splits)
    moreover from this renewed(5) have "truthy (ca_name args)" by simp
    ultimately show ?thesis
      using reserve_free [of args "Some e" ?tbl j] True j e renewed(1,6) by (simp add: renewed(3) py_or_def)
  next
    case False
    with renewal e renewed(2) have "holds_reservation e" by (auto simp: holds_reservation_iff)
    moreover from False renewed(5) have
      "ci_enterprise_slug i = ci_enterprise_slug e" "ci_enterprise_name i = ci_enterprise_name e"
      by (auto simp: renewed(3) py_or_def should_reserve_new_slug_def split: if_splits)
    ultimately show ?thesis using unique' e j by (auto simp: reservations_unique_def)
  qed
  then show ?thesis
    unfolding renewed(4) using e by (intro put_row_keeps_unique [OF wf' unique']) (auto simp: renewed(3))
next
  case fresh
  have "\<not> reserved_as (ci_enterprise_slug i) (ci_enterprise_name i) j"
    if j: "j \<in> set (cleanup_expired now intents0)" "ci_user j \<noteq> ci_user i" "holds_reservation j" for j
  proof (cases "truthy (ca_slug args)")
    case True
    then have "should_reserve_new_slug args None" by (simp add: should_reserve_new_slug_def)
    with True fresh(1,5) j show ?thesis
      using reserve_free [of args None _ j] by (simp add: fresh(2))
  next
    case False
    with fresh(4) show ?thesis by (simp add: fresh(2) reserved_as_def)
  qed
  then show ?thesis
    unfolding fresh(3) by (intro add_row_keeps_unique cleanup_keeps_unique wf unique) auto
qed

definition acme_args :: "nat \<Rightarrow> create_args" where
  "acme_args user = \<lparr>ca_user = user, ca_quantity = 7, ca_slug = Some ''acme'', ca_name = Some ''Acme'',
     ca_country = None, ca_terms_metadata = None\<rparr>"

definition acme_row :: "nat \<Rightarrow> nat \<Rightarrow> checkout_intent_state \<Rightarrow> datetime \<Rightarrow> checkout_intent" where
  "acme_row pk user st expires =
     (new_intent (acme_args user) expires 0 pk 100)\<lparr>ci_state := st\<rparr>"

lemmas acme_simps =
  acme_args_def acme_row_def new_intent_def update_existing_intent_def create_intent_def
  cleanup_expired_def due_def put_row_def should_reserve_new_slug_def can_reserve_def
  filter_by_name_and_slug_def success_states_def failure_states_def non_expired_states_def
  microseconds_def py_or_def reservations_unique_def holds_reservation_def reserved_as_def
  intents_wf_def

theorem create_intent_keeps_reservations_unique_witness:
  "\<exists>intents' i. create_intent 1440 5 2 200 (acme_args 8) [acme_row 1 7 CI_CREATED 3] = Inr (intents', i)
     \<and> reservations_unique intents'"
proof -
  have "\<exists>intents' i. create_intent 1440 5 2 200 (acme_args 8) [acme_row 1 7 CI_CREATED 3] = Inr (intents', i)"
    by (simp add: acme_simps)
  then obtain intents' i where
    ok: "create_intent 1440 5 2 200 (acme_args 8) [acme_row 1 7 CI_CREATED 3] = Inr (intents', i)"
    by blast
  have "reservations_unique intents'"
    by (rule create_intent_keeps_reservations_unique [OF _ _ _ ok]) (simp_all add: acme_simps)
  with ok show ?thesis by blast
qed

text \<open>
  An expired intent is revived without a check of its reservation: when a user's intent has
  expired, another user may reserve the same slug and name; if the first user then asks for
  the same slug and name again (or for none), \<open>create_intent\<close> succeeds, skips \<open>can_reserve\<close>,
  and two users hold the slug.
\<close>

theorem expired_intent_revived_over_reservation:
  assumes wf: "intents_wf intents0"
    and e: "find (\<lambda>i. ci_user i = ca_user args) (cleanup_expired now intents0) = Some e"
      "ci_state e = CI_EXPIRED" "truthy (ci_enterprise_slug e)"
    and same: "ca_slug args = ci_enterprise_slug e \<and> ca_name args = ci_enterprise_name e \<and>
                 truthy (ci_enterprise_name e)
               \<or> \<not> truthy (ca_slug args) \<and> \<not> truthy (ca_name args)"
    and j: "j \<in> set (cleanup_expired now intents0)" "ci_user j \<noteq> ca_user args" "holds_reservation j"
      "ci_enterprise_slug j = ci_enterprise_slug e"
  shows "\<exists>intents' i. create_intent mins now pk u args intents0 = Inr (intents', i)
           \<and> \<not> reservations_unique intents'"
proof -
  let ?tbl = "cleanup_expired now intents0"
  let ?e' = "update_existing_intent args (now + microseconds (60 * mins)) now e"
  have eset: "e \<in> set ?tbl" "ci_user e = ca_user args" using find_SomeD [OF e(1)] by simp_all
  have slug: "ci_enterprise_slug ?e' = ci_enterprise_slug e"
    using same by (auto simp: py_or_def)
  have "\<not> should_reserve_new_slug args (Some e)"
    using same by (auto simp: should_reserve_new_slug_def)
  moreover have "truthy (ca_slug args) = truthy (ca_name args)" using same e(3) by auto
  ultimately have ok: "create_intent mins now pk u args intents0 = Inr (put_row ci_pk ?e' ?tbl, ?e')"
    using e by (simp add: create_intent_def Let_def success_states_def failure_states_def)
  have "ci_pk j \<noteq> ci_pk e"
    using distinct_key_inj [OF intents_wfD(1) [OF cleanup_expired_wf [OF wf, of now]]] eset j(1,2) by auto
  then have "?e' \<in> set (put_row ci_pk ?e' ?tbl)" "j \<in> set (put_row ci_pk ?e' ?tbl)"
    using eset j(1) by (auto simp: set_put_row)
  moreover have "holds_reservation ?e'" by (simp add: holds_reservation_iff)
  moreover have "reserved_as (ci_enterprise_slug ?e') (ci_enterprise_name ?e') j"
    unfolding reserved_as_def slug using e(3) j(4) by simp
  moreover have "ci_user ?e' \<noteq> ci_user j" using eset j(2) by simp
  ultimately have "\<not> reservations_unique (put_row ci_pk ?e' ?tbl)"
    using j(3) unfolding reservations_unique_def by blast
  with ok show ?thesis by blast
qed

theorem expired_intent_revived_over_reservation_witness:
  "\<exists>intents' i. create_intent 1440 5 3 300 (acme_args 7)
       [acme_row 1 7 CI_EXPIRED 3, acme_row 2 8 CI_CREATED 9] = Inr (intents', i)
     \<and> \<not> reservations_unique intents'"
  by (rule expired_intent_revived_over_reservation
      [where e = "acme_row 1 7 CI_EXPIRED 3" and j = "acme_row 2 8 CI_CREATED 9"])
    (simp_all add: acme_simps)



text \<open>
  \<open>create_intent\<close> refuses a reservation exactly when it should: it raises
  \<open>SlugReservationConflict\<close> if and only if a slug and a name are both given, the user has no
  paid, fulfilled or failed intent, the pair differs from the user's own, and another user holds
  a non-expired intent (after the clean-up) with that slug or that name.
\<close>

theorem create_intent_conflict_iff:
  "create_intent mins now pk u args intents0 = Inl SlugReservationConflict \<longleftrightarrow>
     (let tbl = cleanup_expired now intents0; ex = find (\<lambda>i. ci_user i = ca_user args) tbl
      in truthy (ca_slug args) \<and> truthy (ca_name args) \<and>
         (case ex of None \<Rightarrow> True | Some e \<Rightarrow> ci_state e \<in> {CI_CREATED, CI_EXPIRED} \<and>
            (ca_slug args \<noteq> ci_enterprise_slug e \<or> ca_name args \<noteq> ci_enterprise_name e)) \<and>
         (\<exists>i \<in> set tbl. ci_user i \<noteq> ca_user args \<and> holds_reservation i \<and>
            reserved_as (ca_slug args) (ca_name args) i))"
proof -
  let ?tbl = "cleanup_expired now intents0"
  let ?ex = "find (\<lambda>i. ci_user i = ca_user args) ?tbl"
  let ?can = "can_reserve (ca_slug args) (ca_name args) (Some (ca_user args)) ?tbl"
  have fresh: "ci_state e \<in> {CI_CREATED, CI_EXPIRED} \<longleftrightarrow>
      ci_state e \<notin> set success_states \<and> ci_state e \<notin> set failure_states" for e
    by (cases "ci_state e") (simp_all add: success_states_def failure_states_def)
  have can: "?can = Inr False \<longleftrightarrow> (\<exists>i \<in> set ?tbl. ci_user i \<noteq> ca_user args \<and> holds_reservation i \<and>
            reserved_as (ca_slug args) (ca_name args) i)" "?can \<noteq> Inl e"
    if "truthy (ca_slug args)" for e
  proof -
    have "?can = Inr True \<or> ?can = Inr False"
      using that can_reserve_total [of "ca_slug args" "ca_name args" "Some (ca_user args)" ?tbl] by simp
    with that can_reserve_iff [of "ca_slug args" "ca_name args" "ca_user args" ?tbl] show
      "?can = Inr False \<longleftrightarrow> (\<exists>i \<in> set ?tbl. ci_user i \<noteq> ca_user args \<and> holds_reservation i \<and>
            reserved_as (ca_slug args) (ca_name args) i)" "?can \<noteq> Inl e"
      by auto
  qed
  show ?thesis
  proof (cases "truthy (ca_slug args) \<and> truthy (ca_name args)")
    case True
    note can' = can(1) can(2) [of SlugReservationConflict]
    show ?thesis
    proof (cases ?ex)
      case None
      with True can' show ?thesis
        by (auto simp: create_intent_def Let_def rbind_Inl_iff should_reserve_new_slug_def)
    next
      case (Some e)
      show ?thesis
      proof (cases "ci_state e \<in> {CI_CREATED, CI_EXPIRED}")
        case st: True
        with fresh have "ci_state e \<notin> set success_states" "ci_state e \<notin> set failure_states"
          by blast+
        with True can' Some st show ?thesis
          by (auto simp: create_intent_def Let_def rbind_Inl_iff should_reserve_new_slug_def)
      next
        case False
        with fresh have "ci_state e \<in> set success_states \<or> ci_state e \<in> set failure_states"
          by blast
        with Some False show ?thesis by (auto simp: create_intent_def Let_def)
      qed
    qed
  next
    case False
    then show ?thesis
      by (auto simp: create_intent_def Let_def should_reserve_new_slug_def split: option.splits)
  qed
qed

theorem create_intent_conflict_iff_witness:
  "create_intent 1440 5 2 200 (acme_args 8) [acme_row 1 7 CI_PAID 3] = Inl SlugReservationConflict"
  by (subst create_intent_conflict_iff) (simp add: acme_simps)

text \<open>
  What a successful \<open>create_intent\<close> leaves behind: the returned intent is stored, belongs to
  the user and holds a reservation; a paid or fulfilled one is returned as it was, any other
  is \<open>created\<close> with the requested quantity and a full reservation period ahead, and carries the
  requested slug and name if they were given; every row of another user is as the clean-up left it.
\<close>

theorem create_intent_result:
  assumes wf: "intents_wf intents0"
    and ok: "create_intent mins now pk u args intents0 = Inr (intents', i)"
  shows "i \<in> set intents' \<and> ci_user i = ca_user args \<and> holds_reservation i \<and>
    (ci_state i \<in> set success_states \<and> i \<in> set intents0 \<or>
     ci_state i = CI_CREATED \<and> ci_quantity i = ca_quantity args \<and>
     ci_expires_at i = Some (now + microseconds (60 * mins)) \<and>
     (truthy (ca_slug args) \<longrightarrow> ci_enterprise_slug i = ca_slug args \<and> ci_enterprise_name i = ca_name args)) \<and>
    {r \<in> set intents'. ci_user r \<noteq> ca_user args} =
      {r \<in> set (cleanup_expired now intents0). ci_user r \<noteq> ca_user args}"
  using ok
proof (cases rule: create_intent_cases)
  case settled
  have "ci_state i \<noteq> CI_EXPIRED" using settled(2) by (auto simp: success_states_def)
  with settled find_SomeD [OF settled(1)] show ?thesis
    by (auto simp: holds_reservation_iff cleanup_expired_map [OF wf] split: if_splits)
next
  case (renewed e)
  let ?tbl = "cleanup_expired now intents0"
  have e: "e \<in> set ?tbl" "ci_user e = ca_user args" using find_SomeD [OF renewed(1)] by simp_all
  have "ci_user r = ca_user args" if "r \<in> set ?tbl" "ci_pk r = ci_pk e" for r
    using distinct_key_inj [OF intents_wfD(1) [OF cleanup_expired_wf [OF wf, of now]] that(1) e(1)] that e
    by auto
  moreover have "ci_quantity i = ca_quantity args" "ci_expires_at i = Some (now + microseconds (60 * mins))"
    by (simp_all add: renewed(3) update_existing_intent_def)
  ultimately show ?thesis
    using e renewed(3,4,5) by (auto simp: holds_reservation_iff set_put_row py_or_def)
next
  case fresh
  then show ?thesis
    using find_NoneD [OF fresh(1)] by (auto simp: holds_reservation_iff new_intent_def)
qed

theorem create_intent_result_witness:
  "\<exists>intents' i. create_intent 1440 5 2 200 (acme_args 8) [acme_row 1 7 CI_EXPIRED 3] = Inr (intents', i)
     \<and> i \<in> set intents' \<and> ci_user i = 8 \<and> holds_reservation i"
proof -
  have "\<exists>intents' i. create_intent 1440 5 2 200 (acme_args 8) [acme_row 1 7 CI_EXPIRED 3] = Inr (intents', i)"
    by (simp add: acme_simps)
  then obtain intents' i where
    ok: "create_intent 1440 5 2 200 (acme_args 8) [acme_row 1 7 CI_EXPIRED 3] = Inr (intents', i)"
    by blast
  from create_intent_result [OF _ ok] have "i \<in> set intents' \<and> ci_user i = 8 \<and> holds_reservation i"
    by (simp add: acme_simps)
  with ok show ?thesis by blast
qed

text \<open>
  The guards of the four state-changing methods: \<open>mark_as_paid\<close> succeeds from \<open>created\<close>, and
  from \<open>paid\<close> only with the identifiers already stored; \<open>mark_as_fulfilled\<close> succeeds from the
  \<open>FULFILLABLE_STATES\<close> and from \<open>fulfilled\<close>; the two error methods succeed from \<open>paid\<close> and from
  their own state. Otherwise each raises \<open>ValueError\<close>.
\<close>

theorem mark_methods_guards:
  "(mark_as_paid sid cid now i \<noteq> Inl ValueError \<longleftrightarrow>
      ci_state i = CI_CREATED \<or>
      ci_state i = CI_PAID \<and> sid \<in> {None, Some [], ci_stripe_checkout_session_id i} \<and>
        cid \<in> {None, Some [], ci_stripe_customer_id i}) \<and>
   (mark_as_fulfilled w now i \<noteq> Inl ValueError \<longleftrightarrow> ci_state i \<in> insert CI_FULFILLED (set FULFILLABLE_STATES)) \<and>
   (mark_backoffice_error msg now i \<noteq> Inl ValueError \<longleftrightarrow> ci_state i \<in> {CI_PAID, CI_ERRORED_BACKOFFICE}) \<and>
   (mark_provisioning_error msg w now i \<noteq> Inl ValueError \<longleftrightarrow>
      ci_state i \<in> {CI_PAID, CI_ERRORED_PROVISIONING})"
  by (cases "ci_state i")
    (auto simp: mark_defs is_valid_state_transition_def FULFILLABLE_STATES_def transition_keys_def truthy_def)

text \<open>
  The clean-up job expires exactly the created intents whose reservation period is over and
  changes nothing else of the table; afterwards no stored intent is expired by
  \<open>is_expired\<close> at that time, and a second run at the same time changes nothing.
\<close>

theorem cleanup_expired_exact:
  assumes "intents_wf intents"
  shows "cleanup_expired now intents = map (\<lambda>i. if due now i then i\<lparr>ci_state := CI_EXPIRED\<rparr> else i) intents
    \<and> (\<forall>i \<in> set (cleanup_expired now intents). is_expired now i \<noteq> Some True)
    \<and> cleanup_expired now (cleanup_expired now intents) = cleanup_expired now intents"
proof -
  have "cleanup_expired now (cleanup_expired now intents) = cleanup_expired now intents"
    unfolding cleanup_expired_map [OF cleanup_expired_wf [OF assms]]
    by (simp add: cleanup_expired_map [OF assms] due_def)
  then show ?thesis
    by (auto simp: cleanup_expired_map [OF assms] is_expired_def due_def split: option.splits)
qed

theorem cleanup_expired_exact_witness:
  "cleanup_expired 5 [acme_row 1 7 CI_CREATED 3, acme_row 2 8 CI_PAID 3]
     = [(acme_row 1 7 CI_CREATED 3)\<lparr>ci_state := CI_EXPIRED\<rparr>, acme_row 2 8 CI_PAID 3]"
proof -
  have "intents_wf [acme_row 1 7 CI_CREATED 3, acme_row 2 8 CI_PAID 3]" by (simp add: acme_simps)
  from cleanup_expired_exact [OF this, of 5] show ?thesis by (simp add: acme_simps)
qed

text \<open>
  The stalled-fulfillment job turns exactly the intents that have been paid for at least the
  threshold into \<open>errored_fulfillment_stalled\<close>, leaves every other row alone and reports their
  number; a search with the same threshold then finds no stalled intent.
\<close>

theorem mark_stalled_exact:
  assumes "intents_wf intents"
    and "mark_stalled_fulfillment_intents fmt secs now1 now2 save_at intents = (intents', n, ids)"
  shows "intents' = map (\<lambda>i. if is_stalled secs now1 i then stall_row fmt secs now2 save_at i else i) intents
    \<and> n = length (filter (is_stalled secs now1) intents) \<and> length ids = n
    \<and> find_stalled_fulfillment_intents secs now1 now2 intents' = ([], [], now2)"
proof -
  note st = mark_stalled_map [OF assms]
  have "\<not> is_stalled secs now1 j" if "j \<in> set intents'" for j
    using that by (auto simp: st(1) is_stalled_def split: if_splits)
  then have "filter (\<lambda>i. ci_state i = CI_PAID \<and> ci_modified i \<le> now1 - microseconds secs) intents' = []"
    by (auto simp: filter_empty_conv is_stalled_def)
  then have "find_stalled_fulfillment_intents secs now1 now2 intents' = ([], [], now2)"
    by (simp add: find_stalled_fulfillment_intents_def)
  with st show ?thesis by blast
qed

theorem mark_stalled_exact_witness:
  "\<exists>intents' ids. mark_stalled_fulfillment_intents str_int 180 200000000 200000001 (\<lambda>_. 200000002)
      [acme_row 1 7 CI_PAID 3, acme_row 2 8 CI_CREATED 3] = (intents', 1, ids)
    \<and> map ci_state intents' = [CI_ERRORED_FULFILLMENT_STALLED, CI_CREATED]"
proof -
  let ?tbl = "[acme_row 1 7 CI_PAID 3, acme_row 2 8 CI_CREATED 3]"
  have "\<exists>intents' ids. mark_stalled_fulfillment_intents str_int 180 200000000 200000001 (\<lambda>_. 200000002) ?tbl
      = (intents', 1, ids)"
    by (simp add: acme_simps mark_stalled_fulfillment_intents_def find_stalled_fulfillment_intents_def)
  then obtain intents' ids where eq: "mark_stalled_fulfillment_intents str_int 180 200000000 200000001
      (\<lambda>_. 200000002) ?tbl = (intents', 1, ids)"
    by blast
  have "intents_wf ?tbl" by (simp add: acme_simps)
  from mark_stalled_exact [OF this eq] have "map ci_state intents' = [CI_ERRORED_FULFILLMENT_STALLED, CI_CREATED]"
    by (simp add: acme_simps is_stalled_def)
  with eq show ?thesis by (intro exI conjI)
qed

text \<open>
  The model validation \<open>clean\<close> accepts an intent exactly when it names a slug or a name, no
  other non-expired intent holds either, and (for a new intent) the user has no non-expired
  intent; adding an accepted new intent keeps the reservations unique.
\<close>

theorem clean_exact:
  "clean intents self = Inr () \<longleftrightarrow>
     (ci_pk self = None \<longrightarrow> (\<forall>i \<in> set intents. ci_user i = ci_user self \<longrightarrow> \<not> holds_reservation i)) \<and>
     (truthy (ci_enterprise_slug self) \<or> truthy (ci_enterprise_name self)) \<and>
     (\<forall>i \<in> set intents. holds_reservation i \<longrightarrow> (ci_pk self = None \<or> ci_pk i \<noteq> ci_pk self) \<longrightarrow>
        \<not> reserved_as (ci_enterprise_slug self) (ci_enterprise_name self) i)"
proof -
  let ?own = "find (\<lambda>i. ci_user i = ci_user self \<and> ci_state i \<in> set non_expired_states) intents"
  have own: "?own = None \<longleftrightarrow> (\<forall>i \<in> set intents. ci_user i = ci_user self \<longrightarrow> \<not> holds_reservation i)"
    by (auto simp: find_None_iff holds_reservation_def)
  let ?named = "truthy (ci_enterprise_slug self) \<or> truthy (ci_enterprise_name self)"
  let ?conflicts = "filter (\<lambda>i. ci_state i \<in> set non_expired_states \<and>
      \<not> (ci_pk self \<noteq> None \<and> ci_pk i = ci_pk self))
      (filter (reserved_as (ci_enterprise_slug self) (ci_enterprise_name self)) intents)"
  have res: "reserved_as (ci_enterprise_slug self) (ci_enterprise_name self) =
      (\<lambda>i. truthy (ci_enterprise_slug self) \<and> ci_enterprise_slug i = ci_enterprise_slug self \<or>
           truthy (ci_enterprise_name self) \<and> ci_enterprise_name i = ci_enterprise_name self)"
    by (simp add: reserved_as_def fun_eq_iff)
  have parts: "clean intents self = Inr () \<longleftrightarrow> \<not> (ci_pk self = None \<and> ?own \<noteq> None) \<and> ?named \<and>
      filter (\<lambda>c. ci_enterprise_name c = ci_enterprise_name self) ?conflicts = [] \<and>
      filter (\<lambda>c. ci_enterprise_slug c = ci_enterprise_slug self) ?conflicts = []"
  proof (cases "ci_pk self = None \<and> ?own \<noteq> None")
    case True
    then show ?thesis by (simp add: clean_def)
  next
    case ok: False
    have found: "filter_by_name_and_slug (ci_enterprise_slug self) (ci_enterprise_name self) intents =
        (if ?named then Inr (filter (reserved_as (ci_enterprise_slug self) (ci_enterprise_name self)) intents)
         else Inl ValueError)"
      by (simp add: filter_by_name_and_slug_def res)
    show ?thesis
    proof (cases ?named)
      case True
      show ?thesis
        unfolding clean_def if_not_P [OF ok] found if_P [OF True] rbind.simps Let_def raise_if_found
        by (simp only: ok True simp_thms)
    qed (simp add: clean_def found)
  qed
  have conflicts: "filter (\<lambda>c. ci_enterprise_name c = ci_enterprise_name self) ?conflicts = [] \<and>
      filter (\<lambda>c. ci_enterprise_slug c = ci_enterprise_slug self) ?conflicts = [] \<longleftrightarrow>
      (\<forall>i \<in> set intents. holds_reservation i \<longrightarrow> (ci_pk self = None \<or> ci_pk i \<noteq> ci_pk self) \<longrightarrow>
        \<not> reserved_as (ci_enterprise_slug self) (ci_enterprise_name self) i)"
    unfolding filter_empty_conv by (auto simp: holds_reservation_def reserved_as_def)
  show ?thesis unfolding parts conflicts own by (simp only: not_not de_Morgan_conj imp_conv_disj)
qed

theorem clean_exact_witness:
  "clean [acme_row 1 7 CI_EXPIRED 3] ((acme_row 2 8 CI_CREATED 3)\<lparr>ci_pk := None\<rparr>) = Inr ()"
  by (subst clean_exact) (simp add: acme_simps)

end
