(* ===== verification/Stripe_Api.thy ===== *)
theory Stripe_Api
  imports Checkout_Intent
begin

text \<open>
  The calls of the Stripe package (\<open>customer_billing/stripe_api.py\<close>) and their cache. The package and
  the service behind it are one parameter: the answer to a \<open>stripe_call\<close> in a state \<open>'x\<close> of the
  services, an exception of the package being \<open>StripeError\<close>. The cache is the map from keys to the
  values that are stored and not older than the timeout.
\<close>

section \<open>Calls\<close>

datatype stripe_call =
    Retrieve_Session string
  | Retrieve_Payment_Intent string
  | Retrieve_Invoice string
  | Retrieve_Payment_Method string
  | Retrieve_Customer string
  | Retrieve_Subscription string
  | List_Subscriptions string string int
  | Preview_Invoice string string
  | Modify_Subscription json string
  | Search_Customers string
  | Create_Session "(string \<times> json) list"
  | Create_Portal_Session "string option" string
  | Retrieve_Price string
  | List_Prices

type_synonym 'x stripe = "stripe_call \<Rightarrow> 'x \<Rightarrow> 'x \<times> json result"

section \<open>The cache\<close>

type_synonym stripe_store = "string \<Rightarrow> json option"

definition stripe_cache_key :: "string \<Rightarrow> string \<Rightarrow> string" where
  "stripe_cache_key func_name resource_id = ''stripe_'' @ func_name @ ''_'' @ resource_id"

text \<open>The wrapper: \<open>call\<close> is the wrapped function with all its arguments.\<close>

definition stripe_cache ::
    "string \<Rightarrow> string \<Rightarrow> ('x \<Rightarrow> 'x \<times> json result) \<Rightarrow> stripe_store \<times> 'x \<Rightarrow> (stripe_store \<times> 'x) \<times> json result" where
  "stripe_cache func_name resource_id call s =
     (case s of
        (cache, x) \<Rightarrow>
          (case cache (stripe_cache_key func_name resource_id) of
             Some v \<Rightarrow> (s, Inr v)
           | None \<Rightarrow>
               (case call x of
                  (x1, Inl e) \<Rightarrow> ((cache, x1), Inl e)
                | (x1, Inr v) \<Rightarrow>
                    ((if json_truthy v then cache(stripe_cache_key func_name resource_id \<mapsto> v) else cache, x1), Inr v))))"

definition get_stripe_checkout_session :: "'x stripe \<Rightarrow> string \<Rightarrow> stripe_store \<times> 'x \<Rightarrow> (stripe_store \<times> 'x) \<times> json result" where
  "get_stripe_checkout_session st session_id =
     stripe_cache ''get_stripe_checkout_session'' session_id (st (Retrieve_Session session_id))"

definition get_stripe_payment_intent :: "'x stripe \<Rightarrow> string \<Rightarrow> stripe_store \<times> 'x \<Rightarrow> (stripe_store \<times> 'x) \<times> json result" where
  "get_stripe_payment_intent st payment_intent_id =
     stripe_cache ''get_stripe_payment_intent'' payment_intent_id (st (Retrieve_Payment_Intent payment_intent_id))"

definition get_stripe_invoice :: "'x stripe \<Rightarrow> string \<Rightarrow> stripe_store \<times> 'x \<Rightarrow> (stripe_store \<times> 'x) \<times> json result" where
  "get_stripe_invoice st invoice_id = stripe_cache ''get_stripe_invoice'' invoice_id (st (Retrieve_Invoice invoice_id))"

definition get_stripe_payment_method :: "'x stripe \<Rightarrow> string \<Rightarrow> stripe_store \<times> 'x \<Rightarrow> (stripe_store \<times> 'x) \<times> json result" where
  "get_stripe_payment_method st payment_method_id =
     stripe_cache ''get_stripe_payment_method'' payment_method_id (st (Retrieve_Payment_Method payment_method_id))"

definition get_stripe_customer :: "'x stripe \<Rightarrow> string \<Rightarrow> stripe_store \<times> 'x \<Rightarrow> (stripe_store \<times> 'x) \<times> json result" where
  "get_stripe_customer st customer_id = stripe_cache ''get_stripe_customer'' customer_id (st (Retrieve_Customer customer_id))"

definition get_stripe_subscription :: "'x stripe \<Rightarrow> string \<Rightarrow> stripe_store \<times> 'x \<Rightarrow> (stripe_store \<times> 'x) \<times> json result" where
  "get_stripe_subscription st subscription_id =
     stripe_cache ''get_stripe_subscription'' subscription_id (st (Retrieve_Subscription subscription_id))"

text \<open>The listing is an object with the attribute \<open>data\<close>; the result is its first entry.\<close>

definition get_stripe_trialing_subscription ::
    "'x stripe \<Rightarrow> string \<Rightarrow> string \<Rightarrow> stripe_store \<times> 'x \<Rightarrow> (stripe_store \<times> 'x) \<times> json result" where
  "get_stripe_trialing_subscription st stripe_customer_id status =
     stripe_cache ''get_stripe_trialing_subscription'' stripe_customer_id (\<lambda>x.
       sbind (st (List_Subscriptions stripe_customer_id status 1) x) (\<lambda>subscription_list x1.
         (x1, rbind (attr subscription_list ''data'') (\<lambda>data.
              if json_truthy data then json_first data else Inr JNull))))"

definition get_upcoming_invoice ::
    "'x stripe \<Rightarrow> string \<Rightarrow> string \<Rightarrow> stripe_store \<times> 'x \<Rightarrow> (stripe_store \<times> 'x) \<times> json result" where
  "get_upcoming_invoice st stripe_customer_id stripe_subscription_id =
     stripe_cache ''get_upcoming_invoice'' stripe_customer_id
       (st (Preview_Invoice stripe_customer_id stripe_subscription_id))"

section \<open>Creating a checkout session\<close>

record checkout_input =
  ki_admin_email :: string
  ki_enterprise_slug :: string
  ki_company_name :: string
  ki_quantity :: int
  ki_stripe_price_id :: string

text \<open>
  \<open>trial_days\<close> is the setting \<open>SSP_TRIAL_PERIOD_DAYS\<close>, \<open>uuid_text\<close> is \<open>str\<close> on UUIDs; the intent is
  saved, so it has a key.
\<close>

definition checkout_session_kwargs ::
    "int \<Rightarrow> (uuid \<Rightarrow> string) \<Rightarrow> checkout_input \<Rightarrow> int option \<Rightarrow> checkout_intent \<Rightarrow> (string \<times> json) list" where
  "checkout_session_kwargs trial_days uuid_text input lms_user_id i =
     [(''mode'', JStr ''subscription''),
      (''ui_mode'', JStr ''custom''),
      (''line_items'', JList [JObj [(''price'', JStr (ki_stripe_price_id input)), (''quantity'', JNum (ki_quantity input))]]),
      (''subscription_data'', JObj
         [(''trial_period_days'', JNum trial_days),
          (''trial_settings'', JObj [(''end_behavior'', JObj [(''missing_payment_method'', JStr ''cancel'')])]),
          (''metadata'', JObj
             [(''enterprise_customer_name'', JStr (ki_company_name input)),
              (''enterprise_customer_slug'', JStr (ki_enterprise_slug input)),
              (''lms_user_id'', JStr (case lms_user_id of None \<Rightarrow> ''None'' | Some n \<Rightarrow> str_int n)),
              (''checkout_intent_id'', JStr (case ci_pk i of None \<Rightarrow> ''None'' | Some k \<Rightarrow> str_int (int k))),
              (''checkout_intent_uuid'', JStr (uuid_text (ci_uuid i)))])]),
      (''payment_method_collection'', JStr ''always''),
      (''payment_method_types'', JList [JStr ''card''])]"

text \<open>The character 39 is the quote around the address in the query.\<close>

definition create_subscription_checkout_session ::
    "'x stripe \<Rightarrow> int \<Rightarrow> (uuid \<Rightarrow> string) \<Rightarrow> checkout_input \<Rightarrow> int option \<Rightarrow> checkout_intent \<Rightarrow> 'x \<Rightarrow> 'x \<times> json result" where
  "create_subscription_checkout_session st trial_days uuid_text input lms_user_id i x =
     (let kwargs = checkout_session_kwargs trial_days uuid_text input lms_user_id i in
      sbind (st (Search_Customers (''email: '' @ [char_of (39 :: nat)] @ ki_admin_email input @ [char_of (39 :: nat)])) x) (\<lambda>found x1.
      sbind (x1, rbind (attr found ''data'') (\<lambda>data. if json_truthy data then json_first data else Inr JNull)) (\<lambda>customer x1.
      sbind (x1, if json_truthy customer
                 then rbind (item customer ''id'') (\<lambda>id. Inr (''customer'', id))
                 else Inr (''customer_email'', JStr (ki_admin_email input))) (\<lambda>entry x1.
        st (Create_Session (kwargs @ [entry])) x1))))"

section \<open>What a cached read answers\<close>

text \<open>
  A stored answer is returned for every call that shares the key, whatever its further arguments
  are: the key holds the name of the function and its first argument only.
\<close>

lemma stripe_cache_hit:
  "cache (stripe_cache_key f r) = Some v \<Longrightarrow> stripe_cache f r call (cache, x) = ((cache, x), Inr v)"
  by (simp add: stripe_cache_def)

lemma stripe_cache_miss:
  "cache (stripe_cache_key f r) = None \<Longrightarrow> call x = (x1, Inr v) \<Longrightarrow> json_truthy v \<Longrightarrow>
   stripe_cache f r call (cache, x) = ((cache(stripe_cache_key f r \<mapsto> v), x1), Inr v)"
  by (simp add: stripe_cache_def)

lemma stripe_cache_twice:
  assumes "cache (stripe_cache_key f r) = None" and "call x = (x1, Inr v)" and "json_truthy v"
  shows "sbind (stripe_cache f r call (cache, x)) (\<lambda>_. stripe_cache f r call') =
         ((cache(stripe_cache_key f r \<mapsto> v), x1), Inr v)"
  using assms by (simp add: stripe_cache_def)

end
