(* ===== verification/Pricing.thy ===== *)
theory Pricing
  imports Stripe_Api
begin

text \<open>
  Prices of the self-service products (\<open>customer_billing/pricing_api.py\<close>). An amount in dollars is the
  exact number of hundredths, which is what the quotient of the whole number of cents by 100 holds.
  The two caches hold what is stored and not older than the timeout; \<open>show\<close> is the text of a value in
  an f-string.
\<close>

section \<open>Serialized prices\<close>

record price_data =
  pd_id :: json
  pd_currency :: string
  pd_unit_amount :: int
  pd_unit_amount_decimal :: int
  pd_lookup_key :: json
  pd_recurring :: "(json \<times> json \<times> json) option"
  pd_product :: "(json \<times> json \<times> json \<times> json) option"

record ssp_price = price_data +
  sp_ssp_product_key :: string
  sp_quantity_range :: "(int \<times> int) option"

record ssp_config =
  cfg_lookup_key :: "string option"
  cfg_quantity_range :: "(int \<times> int) option"

record price_store =
  ps_all :: "(json \<times> price_data) list option"
  ps_one :: "string \<Rightarrow> price_data option"

definition present :: "json \<Rightarrow> string \<Rightarrow> bool" where
  "present v k \<longleftrightarrow> getattr v k JNull \<noteq> JNull"

definition unless :: "bool \<Rightarrow> unit result" where
  "unless ok = (if ok then Inr () else Inl StripePricingError)"

definition is_int :: "json \<Rightarrow> bool" where
  "is_int v \<longleftrightarrow> (case v of JNum _ \<Rightarrow> True | JBool _ \<Rightarrow> True | _ \<Rightarrow> False)"

definition validate_stripe_price_schema :: "json \<Rightarrow> unit result" where
  "validate_stripe_price_schema price =
     rbind (unless (\<forall>k \<in> set [''id'', ''currency'', ''unit_amount'', ''type'']. present price k)) (\<lambda>_.
     rbind (attr price ''currency'') (\<lambda>currency.
     rbind (unless (case currency of JStr _ \<Rightarrow> True | _ \<Rightarrow> False)) (\<lambda>_.
     rbind (attr price ''unit_amount'') (\<lambda>unit_amount.
     rbind (unless (is_int unit_amount)) (\<lambda>_.
     rbind (attr price ''active'') (\<lambda>active.
     rbind (unless (json_truthy active)) (\<lambda>_.
     rbind (attr price ''billing_scheme'') (\<lambda>billing_scheme.
     rbind (unless (billing_scheme = JStr ''per_unit'')) (\<lambda>_.
     rbind (attr price ''type'') (\<lambda>kind.
     rbind (unless (kind = JStr ''recurring'')) (\<lambda>_.
     rbind (attr price ''recurring'') (\<lambda>recurring.
     if \<not> json_truthy recurring then Inr ()
     else
       rbind (unless (json_truthy (getattr recurring ''interval'' JNull))) (\<lambda>_.
       rbind (unless (present recurring ''interval_count'')) (\<lambda>_.
       rbind (attr recurring ''usage_type'') (\<lambda>usage_type.
         unless (usage_type = JStr ''licensed''))))))))))))))))"

definition as_cents :: "json \<Rightarrow> int" where
  "as_cents v = (case v of JNum n \<Rightarrow> n | JBool b \<Rightarrow> of_bool b | _ \<Rightarrow> 0)"

definition serialize_basic_format :: "json \<Rightarrow> price_data result" where
  "serialize_basic_format price =
     rbind (attr price ''currency'') (\<lambda>currency.
     rbind (case currency of JStr s \<Rightarrow> Inr (lower s) | _ \<Rightarrow> Inl AttributeError) (\<lambda>currency.
     rbind (attr price ''unit_amount'') (\<lambda>unit_amount.
     rbind (attr price ''id'') (\<lambda>id.
     rbind (attr price ''recurring'') (\<lambda>recurring.
     rbind (if \<not> json_truthy recurring then Inr None
            else
              rbind (attr recurring ''interval'') (\<lambda>interval.
              rbind (attr recurring ''interval_count'') (\<lambda>interval_count.
              rbind (attr recurring ''usage_type'') (\<lambda>usage_type. Inr (Some (interval, interval_count, usage_type)))))) (\<lambda>recurring.
     rbind (attr price ''product'') (\<lambda>product.
     rbind (if \<not> json_truthy product then Inr None
            else
              rbind (attr product ''id'') (\<lambda>product_id.
              rbind (attr product ''name'') (\<lambda>name.
              rbind (attr product ''description'') (\<lambda>description.
              rbind (attr product ''metadata'') (\<lambda>metadata. Inr (Some (product_id, name, description, metadata))))))) (\<lambda>product.
       Inr \<lparr>pd_id = id, pd_currency = currency, pd_unit_amount = as_cents unit_amount,
         pd_unit_amount_decimal = as_cents unit_amount, pd_lookup_key = getattr price ''lookup_key'' JNull,
         pd_recurring = recurring, pd_product = product\<rparr>))))))))"

text \<open>Every exception of a read becomes a pricing error.\<close>

definition as_pricing_error :: "'a result \<Rightarrow> 'a result" where
  "as_pricing_error r = (case r of Inl _ \<Rightarrow> Inl StripePricingError | Inr v \<Rightarrow> Inr v)"

section \<open>Reading prices\<close>

definition get_stripe_price_data :: "'x stripe \<Rightarrow> string \<Rightarrow> price_store \<times> 'x \<Rightarrow> (price_store \<times> 'x) \<times> price_data result" where
  "get_stripe_price_data st price_id s =
     (case s of (store, x) \<Rightarrow>
        (case ps_one store price_id of
           Some d \<Rightarrow> (s, Inr d)
         | None \<Rightarrow>
             (case st (Retrieve_Price price_id) x of
                (x1, r) \<Rightarrow>
                  (case rbind r (\<lambda>price. rbind (validate_stripe_price_schema price) (\<lambda>_. serialize_basic_format price)) of
                     Inl _ \<Rightarrow> ((store, x1), Inl StripePricingError)
                   | Inr d \<Rightarrow> ((store\<lparr>ps_one := (ps_one store)(price_id \<mapsto> d)\<rparr>, x1), Inr d)))))"

text \<open>The loop over the pages of active prices; keys that are no text are not modelled apart.\<close>

fun prices_by_lookup_key :: "json list \<Rightarrow> (json \<times> price_data) list \<Rightarrow> (json \<times> price_data) list result" where
  "prices_by_lookup_key [] d = Inr d"
| "prices_by_lookup_key (price # prices) d =
     rbind (attr price ''type'') (\<lambda>kind.
     if kind \<noteq> JStr ''recurring'' then prices_by_lookup_key prices d
     else
       rbind (validate_stripe_price_schema price) (\<lambda>_.
       if \<not> json_truthy (getattr price ''lookup_key'' JNull) then prices_by_lookup_key prices d
       else
         rbind (serialize_basic_format price) (\<lambda>data.
           prices_by_lookup_key prices (dict_put d (getattr price ''lookup_key'' JNull) data))))"

definition get_all_stripe_prices :: "'x stripe \<Rightarrow> price_store \<times> 'x \<Rightarrow> (price_store \<times> 'x) \<times> (json \<times> price_data) list result" where
  "get_all_stripe_prices st s =
     (case s of (store, x) \<Rightarrow>
        (case ps_all store of
           Some d \<Rightarrow> (s, Inr d)
         | None \<Rightarrow>
             (case st List_Prices x of
                (x1, r) \<Rightarrow>
                  (case rbind r (\<lambda>v. rbind (json_iter v) (\<lambda>prices. prices_by_lookup_key prices [])) of
                     Inl _ \<Rightarrow> ((store, x1), Inl StripePricingError)
                   | Inr d \<Rightarrow> ((store\<lparr>ps_all := Some d\<rparr>, x1), Inr d)))))"

definition ssp_price_of :: "string \<Rightarrow> ssp_config \<Rightarrow> price_data \<Rightarrow> ssp_price" where
  "ssp_price_of product_key config d =
     price_data.extend d \<lparr>sp_ssp_product_key = product_key, sp_quantity_range = cfg_quantity_range config\<rparr>"

fun ssp_pricing :: "(json \<times> price_data) list \<Rightarrow> (string \<times> ssp_config) list \<Rightarrow> (string \<times> ssp_price) list result" where
  "ssp_pricing all_prices [] = Inr []"
| "ssp_pricing all_prices ((product_key, config) # products) =
     (if \<not> truthy (cfg_lookup_key config) then Inl StripePricingError
      else
        case map_of all_prices (JStr (the (cfg_lookup_key config))) of
          None \<Rightarrow> Inl StripePricingError
        | Some d \<Rightarrow>
            rbind (ssp_pricing all_prices products) (\<lambda>rest. Inr ((product_key, ssp_price_of product_key config d) # rest)))"

text \<open>\<open>ssp_products\<close> is the setting: a dictionary, so its keys are distinct.\<close>

definition get_ssp_product_pricing ::
    "'x stripe \<Rightarrow> (string \<times> ssp_config) list \<Rightarrow> price_store \<times> 'x \<Rightarrow> (price_store \<times> 'x) \<times> (string \<times> ssp_price) list result" where
  "get_ssp_product_pricing st ssp_products s =
     sbind (get_all_stripe_prices st s) (\<lambda>all_prices s. (s, ssp_pricing all_prices ssp_products))"

section \<open>Subtotals and display\<close>

record subtotal =
  st_subtotal_cents :: int
  st_subtotal_decimal :: int
  st_currency :: string
  st_quantity :: int
  st_unit_amount_cents :: int
  st_unit_amount_decimal :: int
  st_billing_period :: "(json \<times> json) option"

definition calculate_subtotal :: "'p price_data_scheme \<Rightarrow> int \<Rightarrow> subtotal" where
  "calculate_subtotal price_data quantity =
     \<lparr>st_subtotal_cents = pd_unit_amount price_data * quantity,
      st_subtotal_decimal = pd_unit_amount_decimal price_data * quantity,
      st_currency = pd_currency price_data, st_quantity = quantity,
      st_unit_amount_cents = pd_unit_amount price_data, st_unit_amount_decimal = pd_unit_amount_decimal price_data,
      st_billing_period =
        (case pd_recurring price_data of
           None \<Rightarrow> None
         | Some (interval, interval_count, _) \<Rightarrow> if json_truthy interval then Some (interval, interval_count) else None)\<rparr>"

text \<open>Two decimals of a number of hundredths.\<close>

definition two_decimals :: "int \<Rightarrow> string" where
  "two_decimals n =
     (if n < 0 then ''-'' else []) @ digits (nat (\<bar>n\<bar> div 100)) @ ''.'' @
     (let c = nat (\<bar>n\<bar> mod 100) in (if c < 10 then ''0'' else []) @ digits c)"

definition upper :: "string \<Rightarrow> string" where
  "upper s = map (\<lambda>c. let n = of_char c :: nat in if 97 \<le> n \<and> n \<le> 122 then char_of (n - 32) else c) s"

definition format_price_display :: "(json \<Rightarrow> string) \<Rightarrow> 'p price_data_scheme \<Rightarrow> string \<Rightarrow> bool \<Rightarrow> string" where
  "format_price_display show price_data currency include_currency_symbol =
     (if currency \<noteq> pd_currency price_data then ''Price unavailable''
      else
        let amount = two_decimals (pd_unit_amount_decimal price_data);
            formatted = (if include_currency_symbol \<and> lower currency = ''usd'' then ''$'' @ amount
                         else amount @ '' '' @ upper currency)
        in case pd_recurring price_data of
             None \<Rightarrow> formatted
           | Some (interval, interval_count, _) \<Rightarrow>
               formatted @
               (if interval_count = JNum 1 \<or> interval_count = JBool True then ''/'' @ show interval
                else ''/every '' @ show interval_count @ '' '' @ show interval @ ''s''))"

section \<open>What is read\<close>

lemma map_of_prices:
  assumes "prices_by_lookup_key prices d = Inr d'"
  shows "map_of d' k =
    (case find (\<lambda>p. getattr p ''type'' JNull = JStr ''recurring'' \<and> getattr p ''lookup_key'' JNull = k \<and> json_truthy k) (rev prices) of
       None \<Rightarrow> map_of d k
     | Some p \<Rightarrow> Some (projr (serialize_basic_format p)))"
  using assms
proof (induction prices d rule: prices_by_lookup_key.induct)
  case (2 price prices d)
  have find_snoc: "find P (xs @ [x]) = (case find P xs of None \<Rightarrow> if P x then Some x else None | Some y \<Rightarrow> Some y)" for P xs and x :: json
    by (induction xs) simp_all
  from 2 show ?case
    by (auto simp: find_snoc getattr_def elim!: rbind_InrE split: option.split if_split_asm)
qed simp

lemma ssp_pricing_exact:
  "ssp_pricing all_prices products = Inr r \<longleftrightarrow>
   (\<forall>(key, config) \<in> set products. truthy (cfg_lookup_key config) \<and> map_of all_prices (JStr (the (cfg_lookup_key config))) \<noteq> None) \<and>
   r = map (\<lambda>(key, config). (key, ssp_price_of key config (the (map_of all_prices (JStr (the (cfg_lookup_key config))))))) products"
proof (induction products arbitrary: r)
  case (Cons p ps)
  show ?case
    by (cases p) (auto simp: rbind_Inr_iff Cons split: option.splits)
qed auto

end
