(* ===== verification/Checkout_Session.thy ===== *)
theory Checkout_Session
  imports Pricing Api_Client
begin

text \<open>
  Validating the form of a prospective customer and creating the checkout session
  (\<open>customer_billing/api.py\<close>).

  The input of the validators is a dictionary: its keys in order, and its values. Parameters are the
  validators of addresses and slugs of Django, the users, the settings, the clock and the next keys,
  the Stripe package and the HTTP clients.
\<close>

section \<open>Input and error codes\<close>

record form_data =
  fd_keys :: "string list"
  fd_user :: "core_user option"
  fd_admin_email :: "string option"
  fd_full_name :: "string option"
  fd_company_name :: "string option"
  fd_enterprise_slug :: "string option"
  fd_quantity :: "int option"
  fd_stripe_price_id :: "string option"

definition CHECKOUT_SESSION_ERROR_CODES :: "(string \<times> (string \<times> string \<times> string) list) list" where
  "CHECKOUT_SESSION_ERROR_CODES =
     [(''common'', [(''INCOMPLETE_DATA'', ''incomplete_data'', ''Not enough parameters were given.'')]),
      (''admin_email'',
         [(''INVALID_FORMAT'', ''invalid_format'', ''Invalid format for given email address.''),
          (''NOT_REGISTERED'', ''not_registered'', ''Given email address does not correspond to an existing user.'')]),
      (''user'',
         [(''IS_NULL'', ''is_null'', ''The user object cannot be null''),
          (''ADMIN_EMAIL_MISMATCH'', ''admin_email_mismatch'',
           ''The provided admin_email differs from an existing user making the request.'')]),
      (''full_name'', [(''IS_NULL'', ''is_null'', ''The user object cannot be null'')]),
      (''company_name'',
         [(''IS_NULL'', ''is_null'', ''Company name cannot be empty.''),
          (''EXISTING_ENTERPRISE_CUSTOMER'', ''existing_enterprise_customer'',
           ''An enterprise customer with this name already exists.'')]),
      (''enterprise_slug'',
         [(''INVALID_FORMAT'', ''invalid_format'', ''Invalid format for given slug.''),
          (''EXISTING_ENTERPRISE_CUSTOMER'', ''existing_enterprise_customer'', ''The slug conflicts with an existing customer.''),
          (''EXISTING_ENTERPRISE_CUSTOMER_FOR_ADMIN'', ''existing_enterprise_customer'',
           ''The slug conflicts with an existing customer.''),
          (''SLUG_RESERVED'', ''slug_reserved'', ''The slug is currently reserved by another user.'')]),
      (''quantity'',
         [(''INVALID_FORMAT'', ''invalid_format'', ''Must be a positive integer.''),
          (''RANGE_EXCEEDED'', ''range_exceeded'', ''Exceeded allowed range for given stripe_price_id.'')]),
      (''stripe_price_id'',
         [(''INVALID_FORMAT'', ''invalid_format'', ''Must be a non-empty string.''),
          (''DOES_NOT_EXIST'', ''does_not_exist'', ''This stripe_price_id has not been configured.'')])]"

text \<open>A decision is \<open>None\<close> for a valid field, else the code and the message.\<close>

type_synonym decision = "(string \<times> string) option"

definition error_for :: "string \<Rightarrow> string \<Rightarrow> decision result" where
  "error_for field_name key =
     (case map_of CHECKOUT_SESSION_ERROR_CODES field_name of
        None \<Rightarrow> Inl KeyError
      | Some codes \<Rightarrow> (case map_of codes key of None \<Rightarrow> Inl KeyError | Some code \<Rightarrow> Inr (Some code)))"

record 'x checkout_env =
  ke_api :: "'x api"
  ke_stripe :: "'x stripe"
  ke_not_found :: bool
  ke_valid_email :: "string \<Rightarrow> bool"
  ke_valid_slug :: "string \<Rightarrow> bool"
  ke_str :: "json \<Rightarrow> string"
  ke_int :: "json \<Rightarrow> int result"
  ke_uuid_text :: "uuid \<Rightarrow> string"
  ke_users :: "core_user list"
  ke_ssp_products :: "(string \<times> ssp_config) list"
  ke_reservation_minutes :: int
  ke_trial_days :: int
  ke_now :: datetime
  ke_new_pk :: nat
  ke_new_uuid :: uuid

record 'x checkout =
  kw_services :: 'x
  kw_prices :: price_store
  kw_intents :: "checkout_intent list"

text \<open>The input, the user found for the address by the first handler that asks, and the world.\<close>

record 'x validator = "'x checkout" +
  va_input :: form_data
  va_lms_user_id :: "json option"

type_synonym 'x handler = "'x checkout_env \<Rightarrow> 'x validator \<Rightarrow> 'x validator \<times> decision result"

section \<open>The validators\<close>

definition customer_data ::
    "'x checkout_env \<Rightarrow> string option \<Rightarrow> string option \<Rightarrow> 'x validator \<Rightarrow> 'x validator \<times> json result" where
  "customer_data env slug name v =
     (case get_enterprise_customer_data (ke_api env) None slug name (kw_services v) of (x, r) \<Rightarrow> (v\<lparr>kw_services := x\<rparr>, r))"

definition fetch_lms_user_id :: "'x checkout_env \<Rightarrow> string option \<Rightarrow> 'x \<Rightarrow> 'x \<times> json result" where
  "fetch_lms_user_id env email x =
     (if \<not> truthy email then (x, Inr JNull)
      else
        case get_lms_user_account (ke_api env) None email x of
          (x1, Inl e) \<Rightarrow> (x1, if e = HTTPError then Inr JNull else Inl e)
        | (x1, Inr user_data) \<Rightarrow>
            (x1, if \<not> json_truthy user_data then Inr JNull
                 else rbind (json_first user_data) (\<lambda>u. json_get u ''id'' JNull)))"

definition get_lms_user_id :: "'x checkout_env \<Rightarrow> string option \<Rightarrow> 'x validator \<Rightarrow> 'x validator \<times> json result" where
  "get_lms_user_id env email v =
     (case va_lms_user_id v of
        Some u \<Rightarrow> (v, Inr u)
      | None \<Rightarrow>
          (case fetch_lms_user_id env email (kw_services v) of
             (x, Inl e) \<Rightarrow> (v\<lparr>kw_services := x\<rparr>, Inl e)
           | (x, Inr u) \<Rightarrow> (v\<lparr>kw_services := x, va_lms_user_id := Some u\<rparr>, Inr u)))"

definition handle_admin_email :: "'x handler" where
  "handle_admin_email env v =
     (let admin_email = fd_admin_email (va_input v) in
      if \<not> truthy admin_email then (v, error_for ''admin_email'' ''INVALID_FORMAT'')
      else if \<not> ke_valid_email env (the admin_email) then (v, error_for ''admin_email'' ''INVALID_FORMAT'')
      else
        sbind (get_lms_user_id env admin_email v) (\<lambda>lms_user_id v.
          (v, if \<not> json_truthy lms_user_id then error_for ''admin_email'' ''NOT_REGISTERED'' else Inr None)))"

text \<open>
  \<open>ke_not_found\<close>: the response of a caught \<open>HTTPError\<close> has the status 404.
\<close>

definition admin_emails :: "json \<Rightarrow> json list result" where
  "admin_emails customer =
     rbind (rbind (json_get customer ''admin_users'' (JList [])) json_iter) (rmap (\<lambda>admin. item admin ''email''))"

definition handle_enterprise_slug :: "'x handler" where
  "handle_enterprise_slug env v =
     (let admin_email = fd_admin_email (va_input v); slug = fd_enterprise_slug (va_input v) in
      if \<not> (truthy admin_email \<and> truthy slug) then (v, error_for ''common'' ''INCOMPLETE_DATA'')
      else if \<not> ke_valid_slug env (the slug) then (v, error_for ''enterprise_slug'' ''INVALID_FORMAT'')
      else
        sbind (v, can_reserve slug None (map_option user_id (fd_user (va_input v))) (kw_intents v)) (\<lambda>free v.
        if \<not> free then (v, error_for ''enterprise_slug'' ''SLUG_RESERVED'')
        else
          sbind (case customer_data env slug None v of
                   (v, r) \<Rightarrow> (v, if r = Inl HTTPError \<and> ke_not_found env then Inr JNull else r)) (\<lambda>existing v.
          if json_truthy existing then
            sbind (v, admin_emails existing) (\<lambda>emails v.
              (v, if JStr (the admin_email) \<in> set emails
                  then error_for ''enterprise_slug'' ''EXISTING_ENTERPRISE_CUSTOMER_FOR_ADMIN''
                  else error_for ''enterprise_slug'' ''EXISTING_ENTERPRISE_CUSTOMER''))
          else (v, Inr None))))"

definition product_pricing :: "'x checkout_env \<Rightarrow> 'x validator \<Rightarrow> 'x validator \<times> (string \<times> ssp_price) list result" where
  "product_pricing env v =
     (case get_ssp_product_pricing (ke_stripe env) (ke_ssp_products env) (kw_prices v, kw_services v) of
        ((store, x), r) \<Rightarrow> (v\<lparr>kw_prices := store, kw_services := x\<rparr>, r))"

definition handle_quantity :: "'x handler" where
  "handle_quantity env v =
     (let quantity = fd_quantity (va_input v); price_id = fd_stripe_price_id (va_input v) in
      if \<not> (truthy_int quantity \<and> truthy price_id) then (v, error_for ''common'' ''INCOMPLETE_DATA'')
      else if the quantity < 1 then (v, error_for ''quantity'' ''INVALID_FORMAT'')
      else
        case product_pricing env v of
          (v, Inl _) \<Rightarrow> (v, error_for ''common'' ''INCOMPLETE_DATA'')
        | (v, Inr pricing) \<Rightarrow>
            (v, case find (\<lambda>(_, d). pd_id d = JStr (the price_id)) pricing of
                  None \<Rightarrow> error_for ''common'' ''INCOMPLETE_DATA''
                | Some (_, matching_product) \<Rightarrow>
                    (case sp_quantity_range matching_product of
                       None \<Rightarrow> error_for ''common'' ''INCOMPLETE_DATA''
                     | Some (min_quantity, max_quantity) \<Rightarrow>
                         if the quantity < min_quantity \<or> the quantity > max_quantity
                         then error_for ''quantity'' ''RANGE_EXCEEDED'' else Inr None)))"

definition handle_stripe_price_id :: "'x handler" where
  "handle_stripe_price_id env v =
     (let price_id = fd_stripe_price_id (va_input v) in
      if \<not> truthy price_id then (v, error_for ''stripe_price_id'' ''INVALID_FORMAT'')
      else
        case product_pricing env v of
          (v, Inl _) \<Rightarrow> (v, error_for ''stripe_price_id'' ''DOES_NOT_EXIST'')
        | (v, Inr pricing) \<Rightarrow>
            (v, if \<exists>(_, d) \<in> set pricing. pd_id d = JStr (the price_id) then Inr None
                else error_for ''stripe_price_id'' ''DOES_NOT_EXIST''))"

text \<open>\<open>User.objects.filter(lms_user_id=None)\<close> finds the users without one.\<close>

definition user_with_lms_id :: "'x checkout_env \<Rightarrow> json \<Rightarrow> core_user option result" where
  "user_with_lms_id env lms_user_id =
     rbind (case lms_user_id of JNull \<Rightarrow> Inr None | JNum n \<Rightarrow> Inr (Some n) | _ \<Rightarrow> rbind (ke_int env lms_user_id) (\<lambda>n. Inr (Some n)))
       (\<lambda>n. Inr (find (\<lambda>u. user_lms_user_id u = n) (ke_users env)))"

definition handle_user :: "'x handler" where
  "handle_user env v =
     (if fd_user (va_input v) \<noteq> None then (v, Inr None)
      else
        sbind (get_lms_user_id env (fd_admin_email (va_input v)) v) (\<lambda>lms_user_id v.
        sbind (v, user_with_lms_id env lms_user_id) (\<lambda>user_record v.
        case user_record of
          None \<Rightarrow> (v, error_for ''user'' ''IS_NULL'')
        | Some u \<Rightarrow>
            (case fd_admin_email (va_input v) of
               None \<Rightarrow> (v, Inl AttributeError)
             | Some admin_email \<Rightarrow>
                 if lower (user_email u) \<noteq> lower admin_email then (v, error_for ''user'' ''ADMIN_EMAIL_MISMATCH'')
                 else (v\<lparr>va_input := (va_input v)\<lparr>fd_user := Some u\<rparr>\<rparr>, Inr None)))))"

definition handle_full_name :: "'x handler" where
  "handle_full_name env v =
     (v, if \<not> truthy (fd_full_name (va_input v)) then error_for ''full_name'' ''IS_NULL'' else Inr None)"

definition handle_company_name :: "'x handler" where
  "handle_company_name env v =
     (let company_name = fd_company_name (va_input v) in
      if \<not> truthy company_name then (v, error_for ''company_name'' ''IS_NULL'')
      else
        sbind (v, can_reserve None company_name (map_option user_id (fd_user (va_input v))) (kw_intents v)) (\<lambda>free v.
        if \<not> free then (v, error_for ''company_name'' ''EXISTING_ENTERPRISE_CUSTOMER'')
        else
          case customer_data env None company_name v of
            (v, Inl e) \<Rightarrow>
              (v, if e = HTTPError then (if ke_not_found env then Inr None else error_for ''common'' ''API_ERROR'') else Inl e)
          | (v, Inr existing) \<Rightarrow>
              (v, if json_truthy existing then error_for ''company_name'' ''EXISTING_ENTERPRISE_CUSTOMER'' else Inr None)))"

definition validation_handlers :: "'x checkout_env \<Rightarrow> (string \<times> ('x validator \<Rightarrow> 'x validator \<times> decision result)) list" where
  "validation_handlers env =
     [(''admin_email'', handle_admin_email env), (''full_name'', handle_full_name env),
      (''company_name'', handle_company_name env), (''enterprise_slug'', handle_enterprise_slug env),
      (''quantity'', handle_quantity env), (''stripe_price_id'', handle_stripe_price_id env), (''user'', handle_user env)]"

fun run_handlers ::
    "'x checkout_env \<Rightarrow> string list \<Rightarrow> 'x validator \<Rightarrow> 'x validator \<times> (string \<times> decision) list result" where
  "run_handlers env [] v = (v, Inr [])"
| "run_handlers env (k # ks) v =
     (case map_of (validation_handlers env) k of
        None \<Rightarrow> (v, Inl KeyError)
      | Some h \<Rightarrow>
          sbind (h v) (\<lambda>decision v.
          sbind (run_handlers env ks v) (\<lambda>decisions v. (v, Inr ((k, decision) # decisions)))))"

text \<open>The errors of the fields that are not valid.\<close>

definition validate :: "'x checkout_env \<Rightarrow> 'x validator \<Rightarrow> 'x validator \<times> (string \<times> string \<times> string) list result" where
  "validate env v =
     sbind (run_handlers env (fd_keys (va_input v)) v) (\<lambda>decisions v.
       (v, Inr (List.map_filter (\<lambda>(k, decision). map_option (\<lambda>d. (k, d)) decision) decisions)))"

definition new_validator :: "form_data \<Rightarrow> 'x checkout \<Rightarrow> 'x validator" where
  "new_validator input w = checkout.extend w \<lparr>va_input = input, va_lms_user_id = None\<rparr>"

definition validate_free_trial_checkout_session ::
    "'x checkout_env \<Rightarrow> form_data \<Rightarrow> 'x checkout \<Rightarrow> 'x checkout \<times> (string \<times> string \<times> string) list result" where
  "validate_free_trial_checkout_session env input w =
     (case validate env (new_validator input w) of (v, r) \<Rightarrow> (checkout.truncate v, r))"

section \<open>Creating a session\<close>

definition text_of :: "'x checkout_env \<Rightarrow> json \<Rightarrow> string option" where
  "text_of env v = (case v of JNull \<Rightarrow> None | JStr s \<Rightarrow> Some s | _ \<Rightarrow> Some (ke_str env v))"

definition as_session_conflict :: "'a result \<Rightarrow> 'a result" where
  "as_session_conflict r =
     (case r of
        Inl SlugReservationConflict \<Rightarrow> Inl CreateCheckoutSessionSlugReservationConflict
      | Inl FailedCheckoutIntentConflict \<Rightarrow> Inl CreateCheckoutSessionFailedConflict
      | _ \<Rightarrow> r)"

text \<open>
  The errors of the fields travel with \<open>CreateCheckoutSessionValidationError\<close>, so the second component of
  the result is the list of errors. Creating an intent without a user breaks its column.
\<close>

definition create_free_trial_checkout_session ::
    "'x checkout_env \<Rightarrow> form_data \<Rightarrow> 'x checkout \<Rightarrow> 'x checkout \<times> json result" where
  "create_free_trial_checkout_session env input w =
     (case validate env (new_validator input w) of
        (v, Inl e) \<Rightarrow> (checkout.truncate v, Inl e)
      | (v, Inr validation_errors) \<Rightarrow>
          (let w = checkout.truncate v; input = va_input v in
           if validation_errors \<noteq> [] then (w, Inl CreateCheckoutSessionValidationError)
           else if ''user'' \<notin> set (fd_keys input) then (w, Inl KeyError)
           else
             case fd_user input of
               None \<Rightarrow> (w, Inl IntegrityError)
             | Some user \<Rightarrow>
                 sbind (w, as_session_conflict
                   (create_intent (ke_reservation_minutes env) (ke_now env) (ke_new_pk env) (ke_new_uuid env)
                      \<lparr>ca_user = user_id user, ca_quantity = the (fd_quantity input), ca_slug = fd_enterprise_slug input,
                       ca_name = fd_company_name input, ca_country = None, ca_terms_metadata = None\<rparr> (kw_intents w)))
                   (\<lambda>(intents, intent) w.
                 let w = w\<lparr>kw_intents := intents\<rparr> in
                 case create_subscription_checkout_session (ke_stripe env) (ke_trial_days env) (ke_uuid_text env)
                        \<lparr>ki_admin_email = the (fd_admin_email input), ki_enterprise_slug = the (fd_enterprise_slug input),
                         ki_company_name = the (fd_company_name input), ki_quantity = the (fd_quantity input),
                         ki_stripe_price_id = the (fd_stripe_price_id input)\<rparr>
                        (user_lms_user_id user) intent (kw_services w) of
                   (x, r) \<Rightarrow>
                     sbind (w\<lparr>kw_services := x\<rparr>, r) (\<lambda>checkout_session w.
                     sbind (w, item checkout_session ''id'') (\<lambda>session_id w.
                     sbind (w, json_get checkout_session ''customer'' JNull) (\<lambda>customer_id w.
                       (w\<lparr>kw_intents := put_row ci_pk
                            (update_stripe_identifiers (text_of env session_id) (text_of env customer_id) (ke_now env) intent)
                            (kw_intents w)\<rparr>,
                        Inr checkout_session)))))))"

definition create_stripe_billing_portal_session ::
    "'x stripe \<Rightarrow> checkout_intent \<Rightarrow> string \<Rightarrow> 'x \<Rightarrow> 'x \<times> json result" where
  "create_stripe_billing_portal_session st i return_url x =
     (if \<not> truthy (ci_stripe_customer_id i) then (x, Inl ValueError)
      else sbind (st (Create_Portal_Session (ci_stripe_customer_id i) return_url) x) (\<lambda>session x.
             (x, rbind (attr session ''id'') (\<lambda>_. Inr session))))"

end
