(* ===== verification/Workflow.thy ===== *)
theory Workflow
  imports Prelude
begin

text \<open>
  The workflow engine, \<open>workflow/models.py\<close>: units of work, their steps, and workflows as lists of
  step classes.

  A step class is a record of what the engine uses of it: the keys of its input and output class, the
  two conversions of each (\<open>from_dict\<close> and \<open>to_dict\<close>), its \<open>process_input\<close>, which may change the
  world \<open>'w\<close> also when it raises, and the exception class. The text of an exception is the
  exception. The tables of all step classes are one list of rows that carry the name of their class.
\<close>

section \<open>Units of work\<close>

record unit_of_work =
  uw_uuid :: uuid
  uw_input_data :: json
  uw_output_data :: "json option"
  uw_succeeded_at :: "datetime option"
  uw_failed_at :: "datetime option"
  uw_exception_message :: "py_error option"
  uw_is_removed :: bool

record workflow_step = unit_of_work +
  ws_class :: string
  ws_workflow_record_uuid :: uuid
  ws_preceding_step_uuid :: "uuid option"

text \<open>\<open>output_object\<close>: an empty output is no output.\<close>

definition output_object :: "(json \<Rightarrow> 'o result) \<Rightarrow> 'a unit_of_work_scheme \<Rightarrow> 'o option result" where
  "output_object from_dict self =
     (case uw_output_data self of
        None \<Rightarrow> Inr None
      | Some d \<Rightarrow> if json_truthy d then rbind (from_dict d) (\<lambda>x. Inr (Some x)) else Inr None)"

text \<open>
  What \<open>execute\<close> stores of the result of \<open>process_input\<close>: the row that its \<open>finally\<close> clause saves,
  and the result or the exception of the class.
\<close>

definition record_result ::
    "datetime \<Rightarrow> py_error \<Rightarrow> ('o \<Rightarrow> json result) \<Rightarrow> 'a unit_of_work_scheme \<Rightarrow> 'o result
       \<Rightarrow> 'a unit_of_work_scheme \<times> 'o result" where
  "record_result now exception_class to_dict self outcome =
     (case rbind outcome (\<lambda>x. rbind (to_dict x) (\<lambda>d. Inr (x, d))) of
        Inl e \<Rightarrow> (self\<lparr>uw_failed_at := Some now, uw_exception_message := Some e\<rparr>, Inl exception_class)
      | Inr (x, d) \<Rightarrow> (self\<lparr>uw_output_data := Some d, uw_succeeded_at := Some now\<rparr>, Inr x))"

section \<open>Workflows\<close>

type_synonym 'o accumulated = "string \<Rightarrow> 'o option"

record ('i, 'o, 'w) step_class =
  sc_name :: string
  sc_input_key :: string
  sc_output_key :: string
  sc_input_from_dict :: "json \<Rightarrow> 'i result"
  sc_input_to_dict :: "'i \<Rightarrow> json result"
  sc_output_from_dict :: "json \<Rightarrow> 'o result"
  sc_output_to_dict :: "'o \<Rightarrow> json result"
  sc_process_input :: "workflow_step \<Rightarrow> 'o accumulated \<Rightarrow> 'w \<Rightarrow> 'w \<times> 'o result"
  sc_exception_class :: py_error

text \<open>The clock and the key of the next row of a table.\<close>

record workflow_env =
  we_now :: datetime
  we_fresh :: "workflow_step list \<Rightarrow> uuid"

record 'w workflow_run =
  wr_world :: 'w
  wr_steps :: "workflow_step list"

text \<open>
  The object of the generated input class has an attribute per step, \<open>None\<close> where the dictionary has
  no entry; converting it fails as a whole when one entry does.
\<close>

definition input_attributes :: "(string \<times> (json \<Rightarrow> 'i result)) list \<Rightarrow> json \<Rightarrow> (string \<times> 'i option) list result" where
  "input_attributes classes data =
     (case data of
        JObj entries \<Rightarrow>
          rmap (\<lambda>(key, from_dict). case map_of entries key of
              None \<Rightarrow> Inr (key, None)
            | Some d \<Rightarrow> rbind (from_dict d) (\<lambda>x. Inr (key, Some x))) classes
      | _ \<Rightarrow> Inl TypeError)"

definition input_object ::
    "('i, 'o, 'w) step_class list \<Rightarrow> 'a unit_of_work_scheme \<Rightarrow> (string \<times> 'i option) list result" where
  "input_object classes self =
     input_attributes (map (\<lambda>c. (sc_input_key c, sc_input_from_dict c)) classes) (uw_input_data self)"

definition get_input_object_for_step_type ::
    "('i, 'o, 'w) step_class list \<Rightarrow> 'a unit_of_work_scheme \<Rightarrow> ('i, 'o, 'w) step_class \<Rightarrow> 'i option result" where
  "get_input_object_for_step_type classes self c =
     rbind (input_object classes self) (\<lambda>attributes. Inr (Option.bind (map_of attributes (sc_input_key c)) id))"

definition step_input_data ::
    "('i, 'o, 'w) step_class list \<Rightarrow> 'a unit_of_work_scheme \<Rightarrow> ('i, 'o, 'w) step_class \<Rightarrow> json result" where
  "step_input_data classes self c =
     rbind (get_input_object_for_step_type classes self c) (\<lambda>found.
       case found of None \<Rightarrow> Inr (JObj []) | Some x \<Rightarrow> sc_input_to_dict c x)"

text \<open>The rows of a step class that belong to a workflow; soft-deleted rows are hidden.\<close>

definition step_rows :: "string \<Rightarrow> uuid \<Rightarrow> workflow_step list \<Rightarrow> workflow_step list" where
  "step_rows name workflow_uuid table =
     filter (\<lambda>r. ws_class r = name \<and> ws_workflow_record_uuid r = workflow_uuid \<and> \<not> uw_is_removed r) table"

definition get_or_create_step ::
    "workflow_env \<Rightarrow> string \<Rightarrow> uuid \<Rightarrow> json \<Rightarrow> uuid option \<Rightarrow> workflow_step list
       \<Rightarrow> (workflow_step list \<times> workflow_step) result" where
  "get_or_create_step env name workflow_uuid input_data preceding table =
     (case get_one (step_rows name workflow_uuid table) of
        Found r \<Rightarrow> Inr (table, r)
      | Multiple_Objects \<Rightarrow> Inl MultipleObjectsReturned
      | Does_Not_Exist \<Rightarrow>
          (let r = \<lparr>uw_uuid = we_fresh env table, uw_input_data = input_data, uw_output_data = None,
                    uw_succeeded_at = None, uw_failed_at = None, uw_exception_message = None, uw_is_removed = False,
                    ws_class = name, ws_workflow_record_uuid = workflow_uuid, ws_preceding_step_uuid = preceding\<rparr>
           in Inr (table @ [r], r)))"

definition step_key :: "workflow_step \<Rightarrow> string \<times> uuid" where
  "step_key r = (ws_class r, uw_uuid r)"

text \<open>\<open>execute\<close> of a step: the row is saved in any case.\<close>

definition execute_step ::
    "workflow_env \<Rightarrow> ('i, 'o, 'w) step_class \<Rightarrow> workflow_step \<Rightarrow> 'o accumulated \<Rightarrow> 'w workflow_run
       \<Rightarrow> 'w workflow_run \<times> 'o result" where
  "execute_step env c self accumulated run =
     (let (world, outcome) = sc_process_input c self accumulated (wr_world run);
          (self', result) = record_result (we_now env) (sc_exception_class c) (sc_output_to_dict c) self outcome
      in (\<lparr>wr_world = world, wr_steps = put_row step_key self' (wr_steps run)\<rparr>, result))"

text \<open>
  \<open>process_input\<close> of a workflow: one pass of the loop, with the key of the step and the accumulated
  output, and the loop.
\<close>

definition run_step ::
    "workflow_env \<Rightarrow> ('i, 'o, 'w) step_class list \<Rightarrow> 'a unit_of_work_scheme \<Rightarrow> ('i, 'o, 'w) step_class
       \<Rightarrow> uuid option \<Rightarrow> 'o accumulated \<Rightarrow> 'w workflow_run \<Rightarrow> 'w workflow_run \<times> (uuid \<times> 'o accumulated) result" where
  "run_step env classes self c preceding accumulated run =
     (case rbind (step_input_data classes self c) (\<lambda>input_data.
             get_or_create_step env (sc_name c) (uw_uuid self) input_data preceding (wr_steps run)) of
        Inl e \<Rightarrow> (run, Inl e)
      | Inr (table, r) \<Rightarrow>
          if uw_succeeded_at r \<noteq> None
          then (run\<lparr>wr_steps := table\<rparr>,
                rbind (output_object (sc_output_from_dict c) r) (\<lambda>x. Inr (uw_uuid r, accumulated(sc_output_key c := x))))
          else (case execute_step env c r accumulated (run\<lparr>wr_steps := table\<rparr>) of
                  (run', result) \<Rightarrow>
                    (run', rbind result (\<lambda>x. Inr (uw_uuid r, accumulated(sc_output_key c := Some x))))))"

fun process_steps ::
    "workflow_env \<Rightarrow> ('i, 'o, 'w) step_class list \<Rightarrow> 'a unit_of_work_scheme \<Rightarrow> ('i, 'o, 'w) step_class list
       \<Rightarrow> uuid option \<Rightarrow> 'o accumulated \<Rightarrow> 'w workflow_run \<Rightarrow> 'w workflow_run \<times> 'o accumulated result" where
  "process_steps env classes self [] preceding accumulated run = (run, Inr accumulated)"
| "process_steps env classes self (c # cs) preceding accumulated run =
     (case run_step env classes self c preceding accumulated run of
        (run', Inl e) \<Rightarrow> (run', Inl e)
      | (run', Inr (step, accumulated')) \<Rightarrow> process_steps env classes self cs (Some step) accumulated' run')"

text \<open>\<open>to_dict\<close> of the generated output class.\<close>

definition output_to_dict :: "('i, 'o, 'w) step_class list \<Rightarrow> 'o accumulated \<Rightarrow> json result" where
  "output_to_dict classes accumulated =
     rbind (rmap (\<lambda>c. case accumulated (sc_output_key c) of
           None \<Rightarrow> Inr (sc_output_key c, JNull)
         | Some x \<Rightarrow> rbind (sc_output_to_dict c x) (\<lambda>d. Inr (sc_output_key c, d))) classes) (\<lambda>entries.
       Inr (JObj entries))"

text \<open>\<open>execute\<close> of a workflow; \<open>process_input\<close> of one that has succeeded returns \<open>None\<close>.\<close>

definition execute_workflow ::
    "workflow_env \<Rightarrow> ('i, 'o, 'w) step_class list \<Rightarrow> 'a unit_of_work_scheme \<Rightarrow> 'w workflow_run
       \<Rightarrow> 'w workflow_run \<times> 'a unit_of_work_scheme \<times> 'o accumulated option result" where
  "execute_workflow env classes self run =
     (let (run', outcome) =
            (if uw_succeeded_at self \<noteq> None then (run, Inr None)
             else case process_steps env classes self classes None (\<lambda>_. None) run of
                    (run1, r) \<Rightarrow> (run1, rbind r (\<lambda>x. Inr (Some x))));
          (self', result) = record_result (we_now env) UnitOfWorkException
            (\<lambda>x. case x of None \<Rightarrow> Inl AttributeError | Some accumulated \<Rightarrow> output_to_dict classes accumulated)
            self outcome
      in (run', self', result))"

section \<open>The tables of the steps\<close>

definition fresh_steps :: "workflow_env \<Rightarrow> bool" where
  "fresh_steps env \<longleftrightarrow> (\<forall>table. we_fresh env table \<notin> uw_uuid ` set table)"

text \<open>A step that has run, in the table before (\<open>table\<close>, with its row) and after.\<close>

lemma get_or_create_step_row:
  assumes "get_or_create_step env name flow d prev table = Inr (table', r)" and "distinct (map step_key table)" and "fresh_steps env"
  shows "distinct (map step_key table')" and "step_rows name flow table' = [r]" and "r \<in> set table'" and "ws_class r = name"
    and "other \<noteq> name \<Longrightarrow> step_rows other w table' = step_rows other w table"
proof -
  consider (found) "get_one (step_rows name flow table) = Found r" "table' = table"
    | (new) "step_rows name flow table = []" "table' = table @ [r]" "uw_uuid r = we_fresh env table" "ws_class r = name"
        "ws_workflow_record_uuid r = flow" "\<not> uw_is_removed r"
    using assms(1) by (cases "step_rows name flow table" rule: get_one.cases) (auto simp: get_or_create_step_def Let_def)
  then have "distinct (map step_key table') \<and> step_rows name flow table' = [r] \<and> r \<in> set table' \<and> ws_class r = name \<and>
    (other \<noteq> name \<longrightarrow> step_rows other w table' = step_rows other w table)"
  proof cases
    case found
    then have r: "step_rows name flow table = [r]" by (simp add: get_one_Found)
    then have "r \<in> set (step_rows name flow table)" by simp
    then have "r \<in> set table" "ws_class r = name" by (simp_all add: step_rows_def)
    then show ?thesis using r found assms(2) by simp
  next
    case new
    have "step_key r \<notin> step_key ` set table"
      using assms(3) new(3) by (auto simp: step_key_def fresh_steps_def image_iff)
    then show ?thesis using assms(2) new by (auto simp: step_rows_def)
  qed
  then show "distinct (map step_key table')" and "step_rows name flow table' = [r]" and "r \<in> set table'" and "ws_class r = name"
    and "other \<noteq> name \<Longrightarrow> step_rows other w table' = step_rows other w table" by blast+
qed

lemma put_step_rows:
  assumes "distinct (map step_key table)" and "step_rows name flow table = [r]"
    and "step_key r' = step_key r" "ws_workflow_record_uuid r' = ws_workflow_record_uuid r" "uw_is_removed r' = uw_is_removed r"
  shows "step_rows name flow (put_row step_key r' table) = [r']"
    and "other \<noteq> name \<Longrightarrow> step_rows other w (put_row step_key r' table) = step_rows other w table"
proof -
  have "r \<in> set (step_rows name flow table)" using assms(2) by simp
  then have r: "r \<in> set table" "ws_class r = name" "ws_workflow_record_uuid r = flow" "\<not> uw_is_removed r"
    by (auto simp: step_rows_def)
  have r': "ws_class r' = name" using assms(3) r(2) by (simp add: step_key_def)
  have p: "put_row step_key r' table = map (\<lambda>x. if x = r then r' else x) table"
    using assms(1,3) r(1) distinct_key_inj [OF assms(1) _ r(1)] by (auto simp: put_row_def)
  have "step_rows name flow (map (\<lambda>x. if x = r then r' else x) xs) = map (\<lambda>x. if x = r then r' else x) (step_rows name flow xs)" for xs
    using r r' assms(4,5) by (induction xs) (auto simp: step_rows_def)
  then show "step_rows name flow (put_row step_key r' table) = [r']" using assms(2) by (simp add: p)
  have "step_rows other w (map (\<lambda>x. if x = r then r' else x) xs) = step_rows other w xs" if "other \<noteq> name" for xs
    using that r(2) r' by (induction xs) (auto simp: step_rows_def)
  then show "other \<noteq> name \<Longrightarrow> step_rows other w (put_row step_key r' table) = step_rows other w table" by (simp add: p)
qed

lemma record_result_row:
  assumes "record_result now ex f self m = (self', res)"
  shows "uw_uuid self' = uw_uuid self" "uw_is_removed self' = uw_is_removed self" "uw_input_data self' = uw_input_data self"
    "unit_of_work.more self' = unit_of_work.more self"
  using assms by (auto simp: record_result_def split: sum.splits)

lemma record_result_step:
  assumes "record_result now ex f (self :: workflow_step) m = (self', res)"
  shows "step_key self' = step_key self" "ws_workflow_record_uuid self' = ws_workflow_record_uuid self"
    "uw_is_removed self' = uw_is_removed self"
  using assms by (auto simp: record_result_def step_key_def split: sum.splits)

text \<open>
  What a step returns survives being stored: it reads back as the object that was written, and its
  dictionary is not empty.
\<close>

definition durable :: "('i, 'o, 'w) step_class \<Rightarrow> bool" where
  "durable c \<longleftrightarrow> (\<forall>row acc w w' x d. sc_process_input c row acc w = (w', Inr x) \<longrightarrow> sc_output_to_dict c x = Inr d \<longrightarrow>
     sc_output_from_dict c d = Inr x \<and> json_truthy d)"

text \<open>One pass of the loop: the row it leaves, and the rows it leaves alone.\<close>

lemma run_step_frame:
  assumes "run_step env classes self c prev acc run = (run', res)" and "distinct (map step_key (wr_steps run))" and "fresh_steps env"
  shows "distinct (map step_key (wr_steps run')) \<and>
    (other \<noteq> sc_name c \<longrightarrow> step_rows other w (wr_steps run') = step_rows other w (wr_steps run))"
proof (cases "rbind (step_input_data classes self c) (\<lambda>input_data.
    get_or_create_step env (sc_name c) (uw_uuid self) input_data prev (wr_steps run))")
  case (Inl e)
  then show ?thesis using assms by (auto simp: run_step_def)
next
  case (Inr y)
  obtain table r where y: "y = (table, r)" by (cases y)
  obtain d where got: "get_or_create_step env (sc_name c) (uw_uuid self) d prev (wr_steps run) = Inr (table, r)"
    using Inr unfolding y by (cases "step_input_data classes self c") auto
  note row = get_or_create_step_row [OF got assms(2,3)]
  show ?thesis
  proof (cases "uw_succeeded_at r = None")
    case False
    then show ?thesis using assms(1) Inr row by (auto simp: run_step_def y)
  next
    case True
    obtain w1 m where p: "sc_process_input c r acc (wr_world run) = (w1, m)" by fastforce
    obtain r' out where rr: "record_result (we_now env) (sc_exception_class c) (sc_output_to_dict c) r m = (r', out)" by fastforce
    have "wr_steps run' = put_row step_key r' table"
      using assms(1) Inr True by (auto simp: run_step_def y execute_step_def p rr)
    then show ?thesis using put_step_rows [OF row(1,2) record_result_step [OF rr]] row by simp
  qed
qed

lemma run_step_success:
  assumes "run_step env classes self c prev acc run = (run', Inr (u, acc'))" and "distinct (map step_key (wr_steps run))"
    and "fresh_steps env"
  shows "\<exists>r d. step_rows (sc_name c) (uw_uuid self) (wr_steps run') = [r] \<and> uw_succeeded_at r \<noteq> None \<and> uw_uuid r = u \<and>
    step_input_data classes self c = Inr d \<and>
    (\<exists>x. acc' = acc(sc_output_key c := x) \<and> (durable c \<longrightarrow> output_object (sc_output_from_dict c) r = Inr x))"
proof -
  obtain d table r where d: "step_input_data classes self c = Inr d"
    and got: "get_or_create_step env (sc_name c) (uw_uuid self) d prev (wr_steps run) = Inr (table, r)"
    using assms(1) by (cases "step_input_data classes self c";
        cases "get_or_create_step env (sc_name c) (uw_uuid self) (projr (step_input_data classes self c)) prev (wr_steps run)")
      (auto simp: run_step_def)
  note row = get_or_create_step_row [OF got assms(2,3)]
  show ?thesis
  proof (cases "uw_succeeded_at r = None")
    case False
    then obtain x where "output_object (sc_output_from_dict c) r = Inr x" "acc' = acc(sc_output_key c := x)" "u = uw_uuid r"
      "wr_steps run' = table"
      using assms(1) d got by (cases "output_object (sc_output_from_dict c) r") (auto simp: run_step_def)
    then show ?thesis using row(2) False d by (intro exI [of _ r] exI [of _ d]) auto
  next
    case True
    obtain w1 m where p: "sc_process_input c r acc (wr_world run) = (w1, m)" by fastforce
    obtain r' out where rr: "record_result (we_now env) (sc_exception_class c) (sc_output_to_dict c) r m = (r', out)" by fastforce
    obtain x where x: "out = Inr x" "acc' = acc(sc_output_key c := Some x)" "u = uw_uuid r" "wr_steps run' = put_row step_key r' table"
      using assms(1) d got True by (cases out) (auto simp: run_step_def execute_step_def p rr)
    obtain d' where d': "m = Inr x" "sc_output_to_dict c x = Inr d'" "uw_output_data r' = Some d'" "uw_succeeded_at r' \<noteq> None"
      using rr x(1) by (auto simp: record_result_def rbind_Inr_iff split: sum.splits)
    have "durable c \<longrightarrow> output_object (sc_output_from_dict c) r' = Inr (Some x)"
      using d' p by (auto simp: durable_def output_object_def)
    then show ?thesis
      using put_step_rows(1) [OF row(1,2) record_result_step [OF rr]] x d d'(4) record_result_row(1) [OF rr]
      by (intro exI [of _ r'] exI [of _ d]) auto
  qed
qed

text \<open>A step without a row is executed, on a row of this workflow.\<close>

lemma run_step_new:
  assumes "run_step env classes self c prev acc run = (run', Inr (u, acc'))"
    and "step_rows (sc_name c) (uw_uuid self) (wr_steps run) = []"
  shows "\<exists>r x. ws_workflow_record_uuid r = uw_uuid self \<and> sc_process_input c r acc (wr_world run) = (wr_world run', Inr x)"
proof -
  obtain d table r where d: "step_input_data classes self c = Inr d"
    and got: "get_or_create_step env (sc_name c) (uw_uuid self) d prev (wr_steps run) = Inr (table, r)"
    using assms(1) by (cases "step_input_data classes self c";
        cases "get_or_create_step env (sc_name c) (uw_uuid self) (projr (step_input_data classes self c)) prev (wr_steps run)")
      (auto simp: run_step_def)
  have r: "uw_succeeded_at r = None" "ws_workflow_record_uuid r = uw_uuid self"
    using got assms(2) by (auto simp: get_or_create_step_def Let_def)
  obtain w1 m where p: "sc_process_input c r acc (wr_world run) = (w1, m)" by fastforce
  obtain r' out where rr: "record_result (we_now env) (sc_exception_class c) (sc_output_to_dict c) r m = (r', out)" by fastforce
  have "run' = \<lparr>wr_world = w1, wr_steps = put_row step_key r' table\<rparr> \<and> isl out = False"
    using assms(1) d got r(1) by (cases out) (auto simp: run_step_def execute_step_def p rr)
  moreover from this rr obtain x where "m = Inr x" by (cases m) (auto simp: record_result_def)
  ultimately show ?thesis using p r(2) by auto
qed

text \<open>A step that has succeeded is not executed again; its output is read from its row.\<close>

lemma run_step_again:
  assumes "run_step env classes self c prev acc run = (run', Inr (u, acc'))" and "distinct (map step_key (wr_steps run))"
    and "fresh_steps env" and "durable c"
    and "step_rows (sc_name c) (uw_uuid self) (wr_steps later) = step_rows (sc_name c) (uw_uuid self) (wr_steps run')"
  shows "run_step env' classes self c prev acc later = (later, Inr (u, acc'))"
proof -
  obtain r d x where r: "step_rows (sc_name c) (uw_uuid self) (wr_steps run') = [r]" "uw_succeeded_at r \<noteq> None" "uw_uuid r = u"
    and d: "step_input_data classes self c = Inr d" and x: "acc' = acc(sc_output_key c := x)"
    "output_object (sc_output_from_dict c) r = Inr x"
    using run_step_success [OF assms(1-3)] assms(4) by blast
  have "get_or_create_step env' (sc_name c) (uw_uuid self) d prev (wr_steps later) = Inr (wr_steps later, r)"
    by (simp add: get_or_create_step_def assms(5) r(1))
  then show ?thesis using r(2,3) d x by (simp add: run_step_def)
qed

lemma process_steps_frame:
  assumes "process_steps env classes self cs prev acc run = (run', res)" and "distinct (map step_key (wr_steps run))" and "fresh_steps env"
  shows "distinct (map step_key (wr_steps run')) \<and>
    (other \<notin> sc_name ` set cs \<longrightarrow> step_rows other w (wr_steps run') = step_rows other w (wr_steps run))"
  using assms
proof (induction cs arbitrary: prev acc run)
  case (Cons c cs)
  obtain run1 r1 where one: "run_step env classes self c prev acc run = (run1, r1)" by fastforce
  note frame = run_step_frame [OF one Cons.prems(2,3)]
  show ?case
  proof (cases r1)
    case (Inl e)
    then show ?thesis using Cons.prems one frame by auto
  next
    case (Inr y)
    obtain u acc1 where y: "y = (u, acc1)" by (cases y)
    have "process_steps env classes self cs (Some u) acc1 run1 = (run', res)" using Cons.prems(1) one by (simp add: Inr y)
    from Cons.IH [OF this] frame Cons.prems(3) show ?thesis by auto
  qed
qed simp

section \<open>Resuming\<close>

text \<open>
  The step classes of a workflow have names of their own, and the output of every step but the last
  one survives being stored.
\<close>

locale resumable =
  fixes classes :: "('i, 'o, 'w) step_class list"
  assumes names: "distinct (map sc_name classes)"
    and stored: "c \<in> set (butlast classes) \<Longrightarrow> durable c"
begin

lemma resume_steps:
  assumes "process_steps env classes self cs prev acc run = (run', Inl e)" and "distinct (map step_key (wr_steps run))"
    and "fresh_steps env" and "distinct (map sc_name cs)" and "\<And>c. c \<in> set (butlast cs) \<Longrightarrow> durable c"
  shows "\<exists>pre c post prev' acc' reached. cs = pre @ c # post \<and>
    process_steps env classes self pre prev acc run = (reached, Inr acc') \<and>
    process_steps env classes self [c] prev' acc' reached = (run', Inl e) \<and>
    (\<forall>env' world. process_steps env' classes self cs prev acc (run'\<lparr>wr_world := world\<rparr>) =
       process_steps env' classes self (c # post) prev' acc' (run'\<lparr>wr_world := world\<rparr>))"
  using assms
proof (induction cs arbitrary: prev acc run)
  case Nil
  then show ?case by simp
next
  case (Cons c cs)
  obtain run1 r1 where one: "run_step env classes self c prev acc run = (run1, r1)" by fastforce
  show ?case
  proof (cases r1)
    case (Inl e')
    then have "run' = run1" "e = e'" using Cons.prems(1) one by simp_all
    then show ?thesis using one Inl
      by (intro exI [of _ "[]"] exI [of _ c] exI [of _ cs] exI [of _ prev] exI [of _ acc] exI [of _ run]) simp
  next
    case (Inr y)
    obtain u acc1 where y: "y = (u, acc1)" by (cases y)
    have rest: "process_steps env classes self cs (Some u) acc1 run1 = (run', Inl e)" using Cons.prems(1) one by (simp add: Inr y)
    then have ne: "cs \<noteq> []" by auto
    have keys: "distinct (map step_key (wr_steps run1))" using run_step_frame [OF one Cons.prems(2,3)] by blast
    have names_cs: "distinct (map sc_name cs)" using Cons.prems(4) by simp
    have stored_cs: "durable x" if "x \<in> set (butlast cs)" for x using Cons.prems(5) [of x] that ne by simp
    obtain pre k post prev' acc' reached where split: "cs = pre @ k # post"
      and pre: "process_steps env classes self pre (Some u) acc1 run1 = (reached, Inr acc')"
      and failed: "process_steps env classes self [k] prev' acc' reached = (run', Inl e)"
      and retry: "\<And>env' world. process_steps env' classes self cs (Some u) acc1 (run'\<lparr>wr_world := world\<rparr>) =
        process_steps env' classes self (k # post) prev' acc' (run'\<lparr>wr_world := world\<rparr>)"
      using Cons.IH [OF rest keys Cons.prems(3)] names_cs stored_cs by blast
    have own: "step_rows (sc_name c) (uw_uuid self) (wr_steps run') = step_rows (sc_name c) (uw_uuid self) (wr_steps run1)"
      using process_steps_frame [OF rest keys Cons.prems(3)] Cons.prems(4) by auto
    have "run_step env' classes self c prev acc (run'\<lparr>wr_world := world\<rparr>) = (run'\<lparr>wr_world := world\<rparr>, Inr (u, acc1))" for env' world
      using run_step_again [OF one [unfolded Inr y] Cons.prems(2,3), of "run'\<lparr>wr_world := world\<rparr>"] own Cons.prems(5) ne by simp
    then have "process_steps env' classes self (c # cs) prev acc (run'\<lparr>wr_world := world\<rparr>) =
        process_steps env' classes self (k # post) prev' acc' (run'\<lparr>wr_world := world\<rparr>)" for env' world
      using retry by simp
    then show ?thesis using split pre failed one
      by (intro exI [of _ "c # pre"] exI [of _ k] exI [of _ post] exI [of _ prev'] exI [of _ acc'] exI [of _ reached])
        (simp add: Inr y)
  qed
qed

lemma resume:
  assumes "process_steps env classes self classes None acc run = (run', Inl e)" and "distinct (map step_key (wr_steps run))"
    and "fresh_steps env"
  shows "\<exists>pre c post prev' acc' reached. classes = pre @ c # post \<and>
    process_steps env classes self pre None acc run = (reached, Inr acc') \<and>
    process_steps env classes self [c] prev' acc' reached = (run', Inl e) \<and>
    (\<forall>env' world. process_steps env' classes self classes None acc (run'\<lparr>wr_world := world\<rparr>) =
       process_steps env' classes self (c # post) prev' acc' (run'\<lparr>wr_world := world\<rparr>))"
  by (rule resume_steps [OF assms names stored])

text \<open>After a success every step has exactly one row, which has succeeded, and a further call does nothing.\<close>

lemma completed:
  assumes "process_steps env classes self cs prev acc run = (run', Inr acc')" and "distinct (map step_key (wr_steps run))"
    and "fresh_steps env" and "distinct (map sc_name cs)" and "c \<in> set cs"
  shows "\<exists>r. step_rows (sc_name c) (uw_uuid self) (wr_steps run') = [r] \<and> uw_succeeded_at r \<noteq> None"
  using assms
proof (induction cs arbitrary: prev acc run)
  case (Cons k cs)
  obtain run1 u acc1 where one: "run_step env classes self k prev acc run = (run1, Inr (u, acc1))"
    and rest: "process_steps env classes self cs (Some u) acc1 run1 = (run', Inr acc')"
    using Cons.prems(1) by (auto split: prod.splits sum.splits)
  have keys: "distinct (map step_key (wr_steps run1))" using run_step_frame [OF one Cons.prems(2,3)] by blast
  show ?case
  proof (cases "c \<in> set cs")
    case True
    then show ?thesis using Cons.IH [OF rest keys Cons.prems(3)] Cons.prems(4) by simp
  next
    case False
    then have "c = k" "sc_name c \<notin> sc_name ` set cs" using Cons.prems(4,5) by auto
    then show ?thesis
      using run_step_success [OF one Cons.prems(2,3)] process_steps_frame [OF rest keys Cons.prems(3)] by auto
  qed
qed simp

lemma all_completed:
  assumes "process_steps env classes self classes None acc run = (run', Inr acc')" and "distinct (map step_key (wr_steps run))"
    and "fresh_steps env" and "c \<in> set classes"
  shows "\<exists>r. step_rows (sc_name c) (uw_uuid self) (wr_steps run') = [r] \<and> uw_succeeded_at r \<noteq> None"
  by (rule completed [OF assms(1-3) names assms(4)])

end

text \<open>Executing a workflow again after it has succeeded.\<close>

lemma execute_succeeded:
  assumes "uw_succeeded_at self \<noteq> None"
  shows "execute_workflow env classes self run =
    (run, self\<lparr>uw_failed_at := Some (we_now env), uw_exception_message := Some AttributeError\<rparr>, Inl UnitOfWorkException)"
  using assms by (simp add: execute_workflow_def record_result_def)

end
