(* ===== verification/Text_Forms.thy ===== *)
theory Text_Forms
  imports Prelude "HOL-Library.Monad_Syntax"
begin

text \<open>
  The texts that \<open>workflow/serialization.py\<close> writes and reads: \<open>str\<close> of a UUID and \<open>uuid.UUID\<close> of a
  text, \<open>isoformat\<close> of a time and \<open>parse_datetime\<close> of a text. A UUID is its 128-bit number. A time is
  the \<open>datetime\<close> of Python, with its parts and its UTC offset in microseconds (\<open>None\<close>: naive); the
  offset of a parsed time is fixed.
\<close>

section \<open>Digits\<close>

definition digit_char :: "nat \<Rightarrow> char" where
  "digit_char d = char_of (if d < 10 then d + 48 else d + 87)"

definition digit_value :: "nat \<Rightarrow> char \<Rightarrow> nat option" where
  "digit_value b c =
     (let n = of_char c :: nat;
          d = (if 48 \<le> n \<and> n \<le> 57 then n - 48
               else if 97 \<le> n \<and> n \<le> 122 then n - 87
               else if 65 \<le> n \<and> n \<le> 90 then n - 55 else b)
      in if d < b then Some d else None)"

text \<open>The last \<open>w\<close> digits of a number, and the number of a row of digits.\<close>

fun padded :: "nat \<Rightarrow> nat \<Rightarrow> nat \<Rightarrow> string" where
  "padded b 0 n = []"
| "padded b (Suc w) n =
     (if n = 0 then replicate (Suc w) CHR ''0'' else padded b w (n div b) @ [digit_char (n mod b)])"

declare padded.simps(2) [simp del]

lemma padded_Suc [simp]: "padded b (Suc w) n = padded b w (n div b) @ [digit_char (n mod b)]"
proof -
  have zero: "padded b w 0 = replicate w CHR ''0''" for w by (cases w) (simp_all add: padded.simps(2))
  have "digit_char 0 = CHR ''0''" by code_simp
  then show ?thesis by (simp add: padded.simps(2) zero replicate_append_same)
qed

fun digits_number :: "nat \<Rightarrow> string \<Rightarrow> nat \<Rightarrow> nat option" where
  "digits_number b [] n = Some n"
| "digits_number b (c # s) n = Option.bind (digit_value b c) (\<lambda>d. digits_number b s (n * b + d))"

lemma digit_value_char: "d < b \<Longrightarrow> b \<le> 16 \<Longrightarrow> digit_value b (digit_char d) = Some d"
  by (auto simp: digit_value_def digit_char_def Let_def)

lemma digits_number_append: "digits_number b (s @ t) n = Option.bind (digits_number b s n) (digits_number b t)"
  by (induction s arbitrary: n) (simp_all split: bind_split)

lemma length_padded [simp]: "length (padded b w n) = w"
  by (induction w arbitrary: n) simp_all

lemma padded_number: "n < b ^ w \<Longrightarrow> 0 < b \<Longrightarrow> b \<le> 16 \<Longrightarrow> digits_number b (padded b w n) k = Some (k * b ^ w + n)"
proof (induction w arbitrary: n)
  case (Suc w)
  have "n div b < b ^ w" using Suc.prems by (simp add: less_mult_imp_div_less mult.commute)
  with Suc have "digits_number b (padded b w (n div b)) k = Some (k * b ^ w + n div b)" by blast
  with Suc.prems show ?case by (simp add: digits_number_append digit_value_char algebra_simps)
qed simp

lemma digit_char_range: "d < 16 \<Longrightarrow> of_char (digit_char d) \<in> {48..57} \<union> {97..(102 :: nat)}"
  by (auto simp: digit_char_def)

lemma padded_range: "c \<in> set (padded b w n) \<Longrightarrow> 0 < b \<Longrightarrow> b \<le> 16 \<Longrightarrow> of_char c \<in> {48..57} \<union> {97..(102 :: nat)}"
proof (induction w arbitrary: n)
  case (Suc w)
  have "n mod b < 16" using Suc.prems by (meson mod_less_divisor order_less_le_trans)
  with Suc digit_char_range show ?case by fastforce
qed simp

lemma padded_no:
  assumes "of_char c \<notin> {48..57} \<union> {97..(102 :: nat)}" and "0 < b" and "b \<le> 16"
  shows "c \<notin> set (padded b w n)"
  using assms padded_range by blast

section \<open>UUIDs\<close>

text \<open>\<open>str(u)\<close>: 32 hexadecimal digits in groups of 8, 4, 4, 4 and 12.\<close>

definition uuid_text :: "nat \<Rightarrow> string" where
  "uuid_text u =
     (let h = padded 16 32 u
      in take 8 h @ ''-'' @ take 4 (drop 8 h) @ ''-'' @ take 4 (drop 12 h) @ ''-'' @ take 4 (drop 16 h) @ ''-'' @ drop 20 h)"

text \<open>\<open>s.replace(old, '')\<close> and \<open>s.strip(chars)\<close>.\<close>

function remove_text :: "string \<Rightarrow> string \<Rightarrow> string" where
  "remove_text old [] = []"
| "remove_text old (c # s) =
     (if old \<noteq> [] \<and> take (length old) (c # s) = old then remove_text old (drop (length old) (c # s))
      else c # remove_text old s)"
  by pat_completeness auto
termination by (relation "measure (\<lambda>(_, s). length s)") auto

declare remove_text.simps(2) [simp del]

definition strip_chars :: "string \<Rightarrow> string \<Rightarrow> string" where
  "strip_chars chars s = rev (dropWhile (\<lambda>c. c \<in> set chars) (rev (dropWhile (\<lambda>c. c \<in> set chars) s)))"

text \<open>
  \<open>int(s, 16)\<close>: white space around, a sign, a prefix \<open>0x\<close>, and single underscores between digits (also
  one after the prefix). The result is the sign (\<open>True\<close>: negative) and the magnitude.
\<close>

definition white_space :: string where
  "white_space = map char_of [9, 10, 11, 12, 13, 32 :: nat]"

fun underscores_single :: "string \<Rightarrow> bool" where
  "underscores_single [] = False"
| "underscores_single [c] = (c \<noteq> CHR ''_'')"
| "underscores_single (c # d # s) = (\<not> (c = CHR ''_'' \<and> d = CHR ''_'') \<and> underscores_single (d # s))"

definition unsigned_hex :: "string \<Rightarrow> nat option" where
  "unsigned_hex s =
     (let prefixed = take 2 s \<in> {''0x'', ''0X''};
          t = (if prefixed then drop 2 s else s);
          u = (if prefixed \<and> take 1 t = ''_'' then drop 1 t else t)
      in if u = [] \<or> hd u = CHR ''_'' \<or> \<not> underscores_single u then None
         else digits_number 16 (filter (\<lambda>c. c \<noteq> CHR ''_'') u) 0)"

definition hex_int :: "string \<Rightarrow> (bool \<times> nat) option" where
  "hex_int s =
     (case strip_chars white_space s of
        [] \<Rightarrow> None
      | c # t \<Rightarrow>
          if c = CHR ''-'' then map_option (Pair True) (unsigned_hex t)
          else map_option (Pair False) (unsigned_hex (if c = CHR ''+'' then t else c # t)))"

text \<open>\<open>uuid.UUID(s)\<close>.\<close>

definition parse_uuid :: "string \<Rightarrow> nat result" where
  "parse_uuid s =
     (let h = filter (\<lambda>c. c \<noteq> CHR ''-'') (strip_chars ''{}'' (remove_text ''uuid:'' (remove_text ''urn:'' s)))
      in if length h \<noteq> 32 then Inl ValueError
         else case hex_int h of
                None \<Rightarrow> Inl ValueError
              | Some (negative, n) \<Rightarrow> if (negative \<longrightarrow> n = 0) \<and> int n < 2 ^ 128 then Inr n else Inl ValueError)"

lemma parse_uuid_bound: "parse_uuid s = Inr u \<Longrightarrow> u < 2 ^ 128"
  by (auto simp: parse_uuid_def Let_def split: if_splits option.splits)

lemma remove_text_absent: "CHR ''u'' \<notin> set s \<Longrightarrow> remove_text (CHR ''u'' # old) s = s"
proof (induction s)
  case (Cons c s)
  then have "take (length (CHR ''u'' # old)) (c # s) \<noteq> CHR ''u'' # old" by auto
  then have "remove_text (CHR ''u'' # old) (c # s) = c # remove_text (CHR ''u'' # old) s"
    by (simp only: remove_text.simps if_False simp_thms)
  with Cons show ?case by simp
qed simp

lemma strip_absent: "set s \<inter> set chars = {} \<Longrightarrow> strip_chars chars s = s"
proof -
  assume none: "set s \<inter> set chars = {}"
  have drop: "dropWhile (\<lambda>c. c \<in> set chars) t = t" if "set t = set s" for t
    using that none by (cases t) auto
  have "dropWhile (\<lambda>c. c \<in> set chars) s = s" "dropWhile (\<lambda>c. c \<in> set chars) (rev s) = rev s" by (simp_all add: drop)
  then show ?thesis by (simp add: strip_chars_def)
qed

lemma underscores_absent: "CHR ''_'' \<notin> set s \<Longrightarrow> s \<noteq> [] \<Longrightarrow> underscores_single s"
  by (induction s rule: underscores_single.induct) auto

text \<open>The text of a UUID is read back as the same UUID.\<close>

lemma unsigned_hex_plain:
  assumes "set s \<inter> set ''_xX'' = {}" and "s \<noteq> []"
  shows "unsigned_hex s = digits_number 16 s 0"
proof -
  have "t \<noteq> take 2 s" if "CHR ''x'' \<in> set t \<or> CHR ''X'' \<in> set t" for t
    using that assms(1) in_set_takeD [of _ 2 s] by fastforce
  from this [of "''0x''"] this [of "''0X''"] have "take 2 s \<notin> {''0x'', ''0X''}" by auto
  moreover have "filter (\<lambda>c. c \<noteq> CHR ''_'') s = s" using assms(1) by (auto simp: filter_id_conv)
  ultimately show ?thesis using assms underscores_absent [of s]
    by (cases s) (auto simp: unsigned_hex_def Let_def)
qed

lemma hex_int_plain:
  assumes "set s \<inter> (set white_space \<union> set ''+-_xX'') = {}" and "s \<noteq> []"
  shows "hex_int s = map_option (Pair False) (digits_number 16 s 0)"
proof -
  have "strip_chars white_space s = s" by (rule strip_absent) (use assms(1) in blast)
  moreover have "unsigned_hex s = digits_number 16 s 0" by (rule unsigned_hex_plain) (use assms in auto)
  ultimately show ?thesis using assms by (cases s) (auto simp: hex_int_def)
qed

lemma uuid_text_digits: "filter (\<lambda>c. c \<noteq> CHR ''-'') (uuid_text u) = padded 16 32 u"
  (is "filter ?p _ = ?h")
proof -
  have id: "filter ?p t = t" if "set t \<subseteq> set ?h" for t
    using that padded_no [of "CHR ''-''" 16 32 u] by (auto simp: filter_id_conv)
  have "filter ?p (uuid_text u) =
      take 8 ?h @ take 4 (drop 8 ?h) @ take 4 (drop 12 ?h) @ take 4 (drop 16 ?h) @ drop 20 ?h"
    by (simp add: uuid_text_def Let_def id subset_trans [OF set_take_subset] set_drop_subset)
  also have "\<dots> = take 8 ?h @ take 12 (drop 8 ?h) @ drop 20 ?h"
    using take_add [of 4 8 "drop 8 ?h"] take_add [of 4 4 "drop 12 ?h"] by simp
  also have "\<dots> = ?h" using take_add [of 8 12 ?h] append_take_drop_id [of 20 ?h] by simp
  finally show ?thesis .
qed

lemma uuid_text_set: "set (uuid_text u) \<subseteq> insert CHR ''-'' (set (padded 16 32 u))"
  by (auto simp: uuid_text_def Let_def dest: in_set_takeD in_set_dropD)

lemma parse_uuid_text: "u < 2 ^ 128 \<Longrightarrow> parse_uuid (uuid_text u) = Inr u"
proof -
  assume u: "u < 2 ^ 128"
  have plain: "set (padded 16 32 u) \<inter> (set white_space \<union> set ''+-_xXu{}'') = {}"
  proof -
    have "\<forall>c \<in> set white_space \<union> set ''+-_xXu{}''. of_char c \<notin> {48..57} \<union> {97..(102 :: nat)}"
      by (simp add: white_space_def)
    moreover have "\<forall>c \<in> set (padded 16 32 u). of_char c \<in> {48..57} \<union> {97..(102 :: nat)}"
      using padded_range [of _ 16 32 u] by simp
    ultimately show ?thesis by blast
  qed
  then have "CHR ''u'' \<notin> set (uuid_text u)" "set (uuid_text u) \<inter> set ''{}'' = {}" using uuid_text_set [of u] by auto
  then have "filter (\<lambda>c. c \<noteq> CHR ''-'') (strip_chars ''{}'' (remove_text ''uuid:'' (remove_text ''urn:'' (uuid_text u)))) =
      padded 16 32 u"
    by (simp add: remove_text_absent strip_absent uuid_text_digits)
  moreover have "hex_int (padded 16 32 u) = Some (False, u)"
  proof -
    have "digits_number 16 (padded 16 32 u) 0 = Some u" using padded_number [of u 16 32 0] u by simp
    moreover have "padded 16 32 u \<noteq> []" using length_padded [of 16 32 u] by fastforce
    ultimately show ?thesis using plain by (subst hex_int_plain) auto
  qed
  ultimately show ?thesis using u by (simp add: parse_uuid_def Let_def)
qed

section \<open>Times\<close>

record py_datetime =
  dt_year :: nat
  dt_month :: nat
  dt_day :: nat
  dt_hour :: nat
  dt_minute :: nat
  dt_second :: nat
  dt_microsecond :: nat
  dt_utcoffset :: "int option"

definition days_in_month :: "nat \<Rightarrow> nat \<Rightarrow> nat" where
  "days_in_month y m =
     (if m = 2 then (if y mod 4 = 0 \<and> (y mod 100 \<noteq> 0 \<or> y mod 400 = 0) then 29 else 28)
      else if m \<in> {4, 6, 9, 11} then 30 else 31)"

text \<open>What every \<open>datetime\<close> object satisfies; its constructor raises \<open>ValueError\<close> otherwise.\<close>

definition valid_datetime :: "py_datetime \<Rightarrow> bool" where
  "valid_datetime t \<longleftrightarrow>
     1 \<le> dt_year t \<and> dt_year t \<le> 9999 \<and> 1 \<le> dt_month t \<and> dt_month t \<le> 12 \<and>
     1 \<le> dt_day t \<and> dt_day t \<le> days_in_month (dt_year t) (dt_month t) \<and>
     dt_hour t < 24 \<and> dt_minute t < 60 \<and> dt_second t < 60 \<and> int (dt_microsecond t) < 1000000 \<and>
     (case dt_utcoffset t of None \<Rightarrow> True | Some z \<Rightarrow> \<bar>z\<bar> < 86400000000)"

definition new_datetime :: "py_datetime \<Rightarrow> py_datetime result" where
  "new_datetime t = (if valid_datetime t then Inr t else Inl ValueError)"

text \<open>\<open>isoformat()\<close>: microseconds and the seconds of the offset only when there are any.\<close>

definition fraction_text :: "nat \<Rightarrow> string" where
  "fraction_text us = (if us = 0 then [] else ''.'' @ padded 10 6 us)"

definition offset_text :: "int \<Rightarrow> string" where
  "offset_text z =
     (let us = nat (\<bar>z\<bar> mod 1000000); seconds = nat (\<bar>z\<bar> div 1000000);
          ss = seconds mod 60; mm = seconds div 60 mod 60; hh = seconds div 3600
      in (if z < 0 then ''-'' else ''+'') @ padded 10 2 hh @ '':'' @ padded 10 2 mm @
         (if ss = 0 \<and> us = 0 then [] else '':'' @ padded 10 2 ss @ fraction_text us))"

definition isoformat :: "py_datetime \<Rightarrow> string" where
  "isoformat t =
     padded 10 4 (dt_year t) @ ''-'' @ padded 10 2 (dt_month t) @ ''-'' @ padded 10 2 (dt_day t) @ ''T'' @
     padded 10 2 (dt_hour t) @ '':'' @ padded 10 2 (dt_minute t) @ '':'' @ padded 10 2 (dt_second t) @
     fraction_text (dt_microsecond t) @
     (case dt_utcoffset t of None \<Rightarrow> [] | Some z \<Rightarrow> offset_text z)"

text \<open>Scanners: a number of \<open>w\<close> decimal digits, one of some characters, an optional fraction of six digits.\<close>

definition scan_number :: "nat \<Rightarrow> string \<Rightarrow> (nat \<times> string) option" where
  "scan_number w s =
     (if length s < w then None else map_option (\<lambda>n. (n, drop w s)) (digits_number 10 (take w s) 0))"

definition scan_char :: "string \<Rightarrow> string \<Rightarrow> string option" where
  "scan_char cs s = (case s of [] \<Rightarrow> None | c # t \<Rightarrow> if c \<in> set cs then Some t else None)"

definition scan_fraction :: "string \<Rightarrow> (nat \<times> string) option" where
  "scan_fraction s = (if take 1 s = ''.'' then scan_number 6 (drop 1 s) else Some (0, s))"

text \<open>The offset: nothing, \<open>Z\<close>, or a sign, hours and minutes, perhaps seconds and microseconds.\<close>

definition scan_offset :: "string \<Rightarrow> int option option" where
  "scan_offset s =
     (if s = [] then Some None else if s = ''Z'' then Some (Some 0)
      else do {
        t \<leftarrow> scan_char ''+-'' s;
        (hh, t) \<leftarrow> scan_number 2 t;
        t \<leftarrow> scan_char '':'' t;
        (mm, t) \<leftarrow> scan_number 2 t;
        (ss, us) \<leftarrow> (if t = [] then Some (0, 0)
          else do {
            t \<leftarrow> scan_char '':'' t;
            (ss, t) \<leftarrow> scan_number 2 t;
            (us, t) \<leftarrow> scan_fraction t;
            if t = [] then Some (ss, us) else None
          });
        if mm < 60 \<and> ss < 60
        then Some (Some ((if hd s = CHR ''-'' then -1 else 1) * (((int hh * 60 + int mm) * 60 + int ss) * 1000000 + int us)))
        else None
      })"

text \<open>A text of the form that \<open>isoformat\<close> writes, with \<open>T\<close> or a space before the time, and its offset as it stands.\<close>

definition scan_iso :: "string \<Rightarrow> (py_datetime \<times> string) option" where
  "scan_iso s =
     do {
       (year, s) \<leftarrow> scan_number 4 s;
       s \<leftarrow> scan_char ''-'' s;
       (month, s) \<leftarrow> scan_number 2 s;
       s \<leftarrow> scan_char ''-'' s;
       (day, s) \<leftarrow> scan_number 2 s;
       s \<leftarrow> scan_char ''T '' s;
       (hour, s) \<leftarrow> scan_number 2 s;
       s \<leftarrow> scan_char '':'' s;
       (minute, s) \<leftarrow> scan_number 2 s;
       s \<leftarrow> scan_char '':'' s;
       (second, s) \<leftarrow> scan_number 2 s;
       (us, zone) \<leftarrow> scan_fraction s;
       z \<leftarrow> scan_offset zone;
       Some (\<lparr>dt_year = year, dt_month = month, dt_day = day, dt_hour = hour, dt_minute = minute, dt_second = second,
              dt_microsecond = us, dt_utcoffset = z\<rparr>, zone)
     }"

text \<open>
  \<open>parse_datetime\<close> of Django: \<open>datetime.fromisoformat\<close>, and when that raises \<open>ValueError\<close> a regular
  expression whose parts are given to the constructor. A text of the form above whose parts are out of range fails in both;
  only an offset with seconds does not match the expression, and then there is no time. The parts of a
  text of another form, \<open>None\<close> when it has no time, are \<open>others\<close>.
\<close>

definition parse_datetime :: "(string \<Rightarrow> py_datetime option result) \<Rightarrow> string \<Rightarrow> py_datetime option result" where
  "parse_datetime others s =
     (case scan_iso s of
        None \<Rightarrow> rbind (others s) (\<lambda>parts. case parts of None \<Rightarrow> Inr None | Some t \<Rightarrow> rbind (new_datetime t) (\<lambda>t. Inr (Some t)))
      | Some (t, zone) \<Rightarrow>
          if valid_datetime t then Inr (Some t)
          else if length zone \<le> 6 then Inl ValueError else Inr None)"

lemma parse_datetime_valid: "parse_datetime others s = Inr (Some t) \<Longrightarrow> valid_datetime t"
  by (auto simp: parse_datetime_def new_datetime_def rbind_Inr_iff split: option.splits if_splits)

text \<open>A time is read back from its text.\<close>

lemma scan_number_padded: "n < 10 ^ w \<Longrightarrow> scan_number w (padded 10 w n @ s) = Some (n, s)"
  using padded_number [of n 10 w 0] by (simp add: scan_number_def)

lemma scan_char_Cons: "scan_char cs (c # s) = (if c \<in> set cs then Some s else None)"
  by (simp add: scan_char_def)

lemma scan_fraction_text:
  "us < 1000000 \<Longrightarrow> take 1 s \<noteq> ''.'' \<Longrightarrow> scan_fraction (fraction_text us @ s) = Some (us, s)"
  using scan_number_padded [of us 6 s] by (simp add: scan_fraction_def fraction_text_def)

lemma scan_offset_text:
  assumes "\<bar>z\<bar> < 86400000000"
  shows "scan_offset (offset_text z) = Some (Some z)"
proof -
  define a where "a = nat \<bar>z\<bar>"
  define q where "q = a div 1000000"
  define us where "us = a mod 1000000"
  have a: "a = q * 1000000 + us" "us < 1000000" by (simp_all add: q_def us_def)
  have "q < 86400" using assms a unfolding a_def by linarith
  then have small: "q div 3600 < 100" "q div 60 mod 60 < 100" "q mod 60 < 100" "q div 60 mod 60 < 60" "q mod 60 < 60"
    by (simp_all add: less_mult_imp_div_less)
  have "q div 3600 = q div 60 div 60" by (simp add: div_mult2_eq)
  then have q: "(q div 3600 * 60 + q div 60 mod 60) * 60 + q mod 60 = q"
    by (simp add: mult.commute [of _ 60])
  define h where "h = padded 10 2 (q div 3600)"
  define m where "m = padded 10 2 (q div 60 mod 60)"
  define rest where "rest = (if q mod 60 = 0 \<and> us = 0 then [] else '':'' @ padded 10 2 (q mod 60) @ fraction_text us)"
  have shape: "offset_text z = (if z < 0 then ''-'' else ''+'') @ h @ '':'' @ m @ rest"
    by (simp add: offset_text_def Let_def h_def m_def rest_def us_def q_def a_def nat_div_distrib nat_mod_distrib)
  have hour: "scan_number 2 (h @ t) = Some (q div 3600, t)" and minute: "scan_number 2 (m @ t) = Some (q div 60 mod 60, t)" for t
    using small by (simp_all add: h_def m_def scan_number_padded)
  have second: "scan_number 2 (padded 10 2 (q mod 60) @ t) = Some (q mod 60, t)" for t
    using small by (simp add: scan_number_padded)
  have fraction: "scan_fraction (fraction_text us) = Some (us, [])"
    using scan_fraction_text [of us "[]"] a(2) by simp
  have seconds: "(if rest = [] then Some (0, 0)
      else do { t \<leftarrow> scan_char '':'' rest; (ss, t) \<leftarrow> scan_number 2 t; (us, t) \<leftarrow> scan_fraction t;
                if t = [] then Some (ss, us) else None }) = Some (q mod 60, us)"
    by (simp add: rest_def scan_char_Cons second fraction)
  have "((int (q div 3600) * 60 + int (q div 60 mod 60)) * 60 + int (q mod 60)) * 1000000 + int us = int a"
    unfolding a(1) using arg_cong [OF q, of int] by (simp add: of_nat_mult del: of_nat_mod of_nat_div zmod_int zdiv_int)
  then have sign: "(if z < 0 then - 1 else 1) * (((int (q div 3600) * 60 + int (q div 60 mod 60)) * 60 + int (q mod 60)) * 1000000 + int us) = z"
    unfolding a_def by simp
  show ?thesis
    unfolding shape scan_offset_def using seconds small(4,5) sign
    by (auto simp: scan_char_Cons hour minute simp del: of_nat_mod of_nat_div)
qed

lemma scan_iso_isoformat:
  assumes "valid_datetime t"
  shows "\<exists>zone. scan_iso (isoformat t) = Some (t, zone)"
proof -
  define zone where "zone = (case dt_utcoffset t of None \<Rightarrow> [] | Some z \<Rightarrow> offset_text z)"
  have "scan_offset zone = Some (dt_utcoffset t)"
  proof (cases "dt_utcoffset t")
    case None
    then show ?thesis by (simp add: zone_def scan_offset_def)
  next
    case (Some z)
    then show ?thesis using assms scan_offset_text [of z] by (simp add: zone_def valid_datetime_def)
  qed
  moreover have "take 1 zone \<noteq> ''.''" by (auto simp: zone_def offset_text_def Let_def split: option.split)
  moreover have "days_in_month (dt_year t) (dt_month t) \<le> 31" by (simp add: days_in_month_def)
  then have "dt_day t < 100" using assms by (simp add: valid_datetime_def)
  ultimately have "scan_iso (isoformat t) = Some (t, zone)"
    using assms unfolding isoformat_def scan_iso_def zone_def [symmetric] valid_datetime_def
    by (simp add: scan_number_padded scan_char_Cons scan_fraction_text)
  then show ?thesis ..
qed

lemma parse_isoformat: "valid_datetime t \<Longrightarrow> parse_datetime others (isoformat t) = Inr (Some t)"
  using scan_iso_isoformat [of t] by (auto simp: parse_datetime_def)

lemma texts_nonempty [simp]: "uuid_text u \<noteq> []" "isoformat t \<noteq> []"
  by (simp_all add: uuid_text_def isoformat_def Let_def)

end
