(* ===== verification/Provisioning_Data.thy ===== *)
theory Provisioning_Data
  imports Workflow Text_Forms
begin

text \<open>
  The inputs and outputs of the provisioning steps, the attrs classes of \<open>provisioning/models.py\<close>, and
  their conversions from and to dictionaries, \<open>workflow/serialization.py\<close>.

  In a document, a UUID and a time are texts; their forms are in \<open>Text_Forms\<close>. What Python makes of
  a value of another type (\<open>str(5)\<close>, \<open>int('5')\<close>), the parts that \<open>parse_datetime\<close> finds in a text that is
  not of the form \<open>isoformat\<close> writes, the list of countries and the check of an e-mail address are the
  parameters \<open>converter\<close>.
\<close>

section \<open>Conversions\<close>

record converter =
  cv_str :: "json \<Rightarrow> string"
  cv_int :: "json \<Rightarrow> int result"
  cv_parse_datetime :: "string \<Rightarrow> py_datetime option result"
  cv_countries :: "string list"
  cv_valid_email :: "string \<Rightarrow> bool"

text \<open>The hooks of \<open>serialization.py\<close>: an empty value is \<open>None\<close>; the parsers take a text.\<close>

definition uuid_structure_hook :: "json \<Rightarrow> uuid option result" where
  "uuid_structure_hook v =
     (if \<not> json_truthy v then Inr None
      else case v of JStr s \<Rightarrow> rbind (parse_uuid s) (\<lambda>u. Inr (Some u)) | _ \<Rightarrow> Inl AttributeError)"

definition uuid_unstructure_hook :: "uuid option \<Rightarrow> json" where
  "uuid_unstructure_hook v = (case v of None \<Rightarrow> JNull | Some u \<Rightarrow> JStr (uuid_text u))"

definition datetime_structure_hook :: "converter \<Rightarrow> json \<Rightarrow> py_datetime option result" where
  "datetime_structure_hook cv v =
     (if \<not> json_truthy v then Inr None
      else case v of JStr s \<Rightarrow> parse_datetime (cv_parse_datetime cv) s | _ \<Rightarrow> Inl TypeError)"

definition datetime_unstructure_hook :: "py_datetime option \<Rightarrow> json" where
  "datetime_unstructure_hook v = (case v of None \<Rightarrow> JNull | Some t \<Rightarrow> JStr (isoformat t))"

text \<open>The conversions of the primitive types, and iteration over a value.\<close>

definition structure_str :: "converter \<Rightarrow> json \<Rightarrow> string result" where
  "structure_str cv v = (case v of JStr s \<Rightarrow> Inr s | _ \<Rightarrow> Inr (cv_str cv v))"

definition structure_int :: "converter \<Rightarrow> json \<Rightarrow> int result" where
  "structure_int cv v = (case v of JNum n \<Rightarrow> Inr n | _ \<Rightarrow> cv_int cv v)"

definition structure_bool :: "json \<Rightarrow> bool result" where
  "structure_bool v = Inr (json_truthy v)"

definition structure_dict :: "json \<Rightarrow> (string \<times> json) list result" where
  "structure_dict v = (case v of JObj d \<Rightarrow> Inr d | _ \<Rightarrow> Inl TypeError)"

text \<open>A validator \<open>instance_of\<close> after a hook that may give \<open>None\<close>.\<close>

definition instance_of :: "('a option \<Rightarrow> 'a result)" where
  "instance_of v = (case v of None \<Rightarrow> Inl TypeError | Some x \<Rightarrow> Inr x)"

definition structure_uuid :: "json \<Rightarrow> uuid result" where
  "structure_uuid v = rbind (uuid_structure_hook v) instance_of"

definition structure_datetime :: "converter \<Rightarrow> json \<Rightarrow> py_datetime result" where
  "structure_datetime cv v = rbind (datetime_structure_hook cv v) instance_of"

text \<open>Attributes of a class: required, with a default, and optional ones (\<open>None\<close> passes the validator).\<close>

definition required :: "(string \<times> json) list \<Rightarrow> string \<Rightarrow> (json \<Rightarrow> 'a result) \<Rightarrow> 'a result" where
  "required d k f = (case map_of d k of None \<Rightarrow> Inl KeyError | Some v \<Rightarrow> f v)"

definition defaulted :: "(string \<times> json) list \<Rightarrow> string \<Rightarrow> 'a \<Rightarrow> (json \<Rightarrow> 'a result) \<Rightarrow> 'a result" where
  "defaulted d k x f = (case map_of d k of None \<Rightarrow> Inr x | Some v \<Rightarrow> f v)"

definition structure_optional :: "(json \<Rightarrow> 'a result) \<Rightarrow> json \<Rightarrow> 'a option result" where
  "structure_optional f v = (if v = JNull then Inr None else rbind (f v) (\<lambda>x. Inr (Some x)))"

definition optional_str :: "converter \<Rightarrow> (string \<times> json) list \<Rightarrow> string \<Rightarrow> string option result" where
  "optional_str cv d k = defaulted d k None (structure_optional (structure_str cv))"

definition optional_int :: "converter \<Rightarrow> (string \<times> json) list \<Rightarrow> string \<Rightarrow> int option result" where
  "optional_int cv d k = defaulted d k None (structure_optional (structure_int cv))"

definition optional_uuid :: "(string \<times> json) list \<Rightarrow> string \<Rightarrow> uuid option result" where
  "optional_uuid d k = defaulted d k None (\<lambda>v. if v = JNull then Inr None else uuid_structure_hook v)"

definition optional_datetime :: "converter \<Rightarrow> (string \<times> json) list \<Rightarrow> string \<Rightarrow> py_datetime option result" where
  "optional_datetime cv d k = defaulted d k None (\<lambda>v. if v = JNull then Inr None else datetime_structure_hook cv v)"

definition unstructure_optional :: "('a \<Rightarrow> json) \<Rightarrow> 'a option \<Rightarrow> json" where
  "unstructure_optional f v = (case v of None \<Rightarrow> JNull | Some x \<Rightarrow> f x)"

definition json_uuid :: "uuid \<Rightarrow> json" where "json_uuid u = uuid_unstructure_hook (Some u)"
definition json_datetime :: "py_datetime \<Rightarrow> json" where "json_datetime t = datetime_unstructure_hook (Some t)"

section \<open>Inputs\<close>

record customer_input =
  ci_name :: string
  ci_slug :: string
  ci_country_code :: string

record catalog_input =
  kti_title :: "string option"
  kti_catalog_query_id :: "int option"

record trial_plan_input =
  tpi_title :: string
  tpi_salesforce_opportunity_line_item :: string
  tpi_start_date :: py_datetime
  tpi_expiration_date :: py_datetime
  tpi_desired_num_licenses :: int
  tpi_product_id :: int
  tpi_enterprise_catalog_uuid :: "uuid option"

record paid_plan_input =
  ppi_title :: string
  ppi_product_id :: int
  ppi_start_date :: "py_datetime option"
  ppi_expiration_date :: "py_datetime option"
  ppi_salesforce_opportunity_line_item :: "string option"
  ppi_enterprise_catalog_uuid :: "uuid option"

datatype step_input =
    Customer_Input customer_input
  | Admin_Users_Input "string list"
  | Catalog_Input catalog_input
  | Agreement_Input "uuid option"
  | Trial_Plan_Input trial_plan_input
  | Paid_Plan_Input paid_plan_input
  | Renewal_Input
  | Notification_Input

definition customer_input_from_dict :: "converter \<Rightarrow> json \<Rightarrow> step_input result" where
  "customer_input_from_dict cv v =
     rbind (structure_dict v) (\<lambda>d.
     rbind (required d ''name'' (structure_str cv)) (\<lambda>name.
     rbind (required d ''slug'' (structure_str cv)) (\<lambda>slug.
     rbind (required d ''country'' (structure_str cv)) (\<lambda>country.
       if country \<in> set (cv_countries cv)
       then Inr (Customer_Input \<lparr>ci_name = name, ci_slug = slug, ci_country_code = country\<rparr>)
       else Inl ValueError))))"

definition admin_users_input_from_dict :: "converter \<Rightarrow> json \<Rightarrow> step_input result" where
  "admin_users_input_from_dict cv v =
     rbind (structure_dict v) (\<lambda>d.
     rbind (required d ''user_emails'' (\<lambda>xs. rbind (json_iter xs) (rmap (structure_str cv)))) (\<lambda>emails.
       if list_all (cv_valid_email cv) emails then Inr (Admin_Users_Input emails) else Inl ValidationError))"

definition catalog_input_from_dict :: "converter \<Rightarrow> json \<Rightarrow> step_input result" where
  "catalog_input_from_dict cv v =
     rbind (structure_dict v) (\<lambda>d.
     rbind (optional_str cv d ''title'') (\<lambda>title.
     rbind (optional_int cv d ''catalog_query_id'') (\<lambda>query.
       Inr (Catalog_Input \<lparr>kti_title = title, kti_catalog_query_id = query\<rparr>))))"

definition agreement_input_from_dict :: "json \<Rightarrow> step_input result" where
  "agreement_input_from_dict v =
     rbind (structure_dict v) (\<lambda>d.
     rbind (optional_uuid d ''default_catalog_uuid'') (\<lambda>u. Inr (Agreement_Input u)))"

definition trial_plan_input_from_dict :: "converter \<Rightarrow> json \<Rightarrow> step_input result" where
  "trial_plan_input_from_dict cv v =
     rbind (structure_dict v) (\<lambda>d.
     rbind (required d ''title'' (structure_str cv)) (\<lambda>title.
     rbind (required d ''salesforce_opportunity_line_item'' (structure_str cv)) (\<lambda>oli.
     rbind (required d ''start_date'' (structure_datetime cv)) (\<lambda>start.
     rbind (required d ''expiration_date'' (structure_datetime cv)) (\<lambda>expiration.
     rbind (required d ''desired_num_licenses'' (structure_int cv)) (\<lambda>licenses.
     rbind (required d ''product_id'' (structure_int cv)) (\<lambda>product.
     rbind (optional_uuid d ''enterprise_catalog_uuid'') (\<lambda>catalog.
       Inr (Trial_Plan_Input \<lparr>tpi_title = title, tpi_salesforce_opportunity_line_item = oli, tpi_start_date = start,
         tpi_expiration_date = expiration, tpi_desired_num_licenses = licenses, tpi_product_id = product,
         tpi_enterprise_catalog_uuid = catalog\<rparr>)))))))))"

definition paid_plan_input_from_dict :: "converter \<Rightarrow> json \<Rightarrow> step_input result" where
  "paid_plan_input_from_dict cv v =
     rbind (structure_dict v) (\<lambda>d.
     rbind (required d ''title'' (structure_str cv)) (\<lambda>title.
     rbind (required d ''product_id'' (structure_int cv)) (\<lambda>product.
     rbind (optional_datetime cv d ''start_date'') (\<lambda>start.
     rbind (optional_datetime cv d ''expiration_date'') (\<lambda>expiration.
     rbind (optional_str cv d ''salesforce_opportunity_line_item'') (\<lambda>oli.
     rbind (optional_uuid d ''enterprise_catalog_uuid'') (\<lambda>catalog.
       Inr (Paid_Plan_Input \<lparr>ppi_title = title, ppi_product_id = product, ppi_start_date = start,
         ppi_expiration_date = expiration, ppi_salesforce_opportunity_line_item = oli,
         ppi_enterprise_catalog_uuid = catalog\<rparr>))))))))"

fun input_to_dict :: "step_input \<Rightarrow> json result" where
  "input_to_dict (Customer_Input x) =
     Inr (JObj [(''name'', JStr (ci_name x)), (''slug'', JStr (ci_slug x)), (''country'', JStr (ci_country_code x))])"
| "input_to_dict (Admin_Users_Input emails) = Inr (JObj [(''user_emails'', JList (map JStr emails))])"
| "input_to_dict (Catalog_Input x) =
     Inr (JObj [(''title'', unstructure_optional JStr (kti_title x)),
                (''catalog_query_id'', unstructure_optional JNum (kti_catalog_query_id x))])"
| "input_to_dict (Agreement_Input u) = Inr (JObj [(''default_catalog_uuid'', uuid_unstructure_hook u)])"
| "input_to_dict (Trial_Plan_Input x) =
     Inr (JObj [(''title'', JStr (tpi_title x)),
                (''salesforce_opportunity_line_item'', JStr (tpi_salesforce_opportunity_line_item x)),
                (''start_date'', json_datetime (tpi_start_date x)),
                (''expiration_date'', json_datetime (tpi_expiration_date x)),
                (''desired_num_licenses'', JNum (tpi_desired_num_licenses x)),
                (''product_id'', JNum (tpi_product_id x)),
                (''enterprise_catalog_uuid'', uuid_unstructure_hook (tpi_enterprise_catalog_uuid x))])"
| "input_to_dict (Paid_Plan_Input x) =
     Inr (JObj [(''title'', JStr (ppi_title x)),
                (''product_id'', JNum (ppi_product_id x)),
                (''start_date'', datetime_unstructure_hook (ppi_start_date x)),
                (''expiration_date'', datetime_unstructure_hook (ppi_expiration_date x)),
                (''salesforce_opportunity_line_item'', unstructure_optional JStr (ppi_salesforce_opportunity_line_item x)),
                (''enterprise_catalog_uuid'', uuid_unstructure_hook (ppi_enterprise_catalog_uuid x))])"
| "input_to_dict Renewal_Input = Inr (JObj [])"
| "input_to_dict Notification_Input = Inr (JObj [])"

section \<open>Outputs\<close>

record customer_output =
  cu_uuid :: uuid
  cu_name :: string
  cu_slug :: string
  cu_country :: string

record admin_users_output =
  au_enterprise_customer_uuid :: uuid
  au_created_admins :: "string list"
  au_existing_admins :: "string list"

record catalog_output =
  kt_uuid :: uuid
  kt_enterprise_customer_uuid :: uuid
  kt_title :: string
  kt_catalog_query_id :: int

record agreement_output =
  ag_uuid :: uuid
  ag_enterprise_customer_uuid :: uuid
  ag_subscriptions :: "(string \<times> json) list list"
  ag_default_catalog_uuid :: "uuid option"

text \<open>The trial plan must have a line item, the first paid plan need not.\<close>

record plan_output =
  pl_uuid :: uuid
  pl_title :: string
  pl_salesforce_opportunity_line_item :: "string option"
  pl_created :: py_datetime
  pl_start_date :: py_datetime
  pl_expiration_date :: py_datetime
  pl_is_active :: bool
  pl_is_current :: bool
  pl_plan_type :: string
  pl_enterprise_catalog_uuid :: uuid
  pl_product :: "int option"

record renewal_output =
  rn_id :: int
  rn_prior_subscription_plan :: uuid
  rn_renewed_subscription_plan :: uuid
  rn_number_of_licenses :: int
  rn_effective_date :: py_datetime
  rn_renewed_expiration_date :: py_datetime
  rn_salesforce_opportunity_line_item_id :: "string option"

datatype step_output =
    Customer_Output customer_output
  | Admin_Users_Output admin_users_output
  | Catalog_Output catalog_output
  | Agreement_Output agreement_output
  | Trial_Plan_Output plan_output
  | Paid_Plan_Output plan_output
  | Renewal_Output renewal_output
  | Notification_Output

definition customer_output_from_dict :: "converter \<Rightarrow> json \<Rightarrow> step_output result" where
  "customer_output_from_dict cv v =
     rbind (structure_dict v) (\<lambda>d.
     rbind (required d ''uuid'' structure_uuid) (\<lambda>uuid.
     rbind (required d ''name'' (structure_str cv)) (\<lambda>name.
     rbind (required d ''slug'' (structure_str cv)) (\<lambda>slug.
     rbind (required d ''country'' (structure_str cv)) (\<lambda>country.
       if country \<in> set (cv_countries cv)
       then Inr (Customer_Output \<lparr>cu_uuid = uuid, cu_name = name, cu_slug = slug, cu_country = country\<rparr>)
       else Inl ValueError)))))"

definition user_email_record :: "converter \<Rightarrow> json \<Rightarrow> string result" where
  "user_email_record cv v = rbind (structure_dict v) (\<lambda>d. required d ''user_email'' (structure_str cv))"

definition admin_users_output_from_dict :: "converter \<Rightarrow> json \<Rightarrow> step_output result" where
  "admin_users_output_from_dict cv v =
     rbind (structure_dict v) (\<lambda>d.
     rbind (required d ''enterprise_customer_uuid'' structure_uuid) (\<lambda>customer.
     rbind (required d ''created_admins'' (\<lambda>xs. rbind (json_iter xs) (rmap (user_email_record cv)))) (\<lambda>created.
     rbind (required d ''existing_admins'' (\<lambda>xs. rbind (json_iter xs) (rmap (user_email_record cv)))) (\<lambda>existing.
       Inr (Admin_Users_Output \<lparr>au_enterprise_customer_uuid = customer, au_created_admins = created,
         au_existing_admins = existing\<rparr>)))))"

definition catalog_output_from_dict :: "converter \<Rightarrow> json \<Rightarrow> step_output result" where
  "catalog_output_from_dict cv v =
     rbind (structure_dict v) (\<lambda>d.
     rbind (required d ''uuid'' structure_uuid) (\<lambda>uuid.
     rbind (required d ''enterprise_customer_uuid'' structure_uuid) (\<lambda>customer.
     rbind (required d ''title'' (structure_str cv)) (\<lambda>title.
     rbind (required d ''catalog_query_id'' (structure_int cv)) (\<lambda>query.
       Inr (Catalog_Output \<lparr>kt_uuid = uuid, kt_enterprise_customer_uuid = customer, kt_title = title,
         kt_catalog_query_id = query\<rparr>))))))"

definition agreement_output_from_dict :: "json \<Rightarrow> step_output result" where
  "agreement_output_from_dict v =
     rbind (structure_dict v) (\<lambda>d.
     rbind (required d ''uuid'' structure_uuid) (\<lambda>uuid.
     rbind (required d ''enterprise_customer_uuid'' structure_uuid) (\<lambda>customer.
     rbind (defaulted d ''subscriptions'' [] (\<lambda>xs. rbind (json_iter xs) (rmap structure_dict))) (\<lambda>subscriptions.
     rbind (defaulted d ''default_catalog_uuid'' None uuid_structure_hook) (\<lambda>catalog.
       Inr (Agreement_Output \<lparr>ag_uuid = uuid, ag_enterprise_customer_uuid = customer,
         ag_subscriptions = subscriptions, ag_default_catalog_uuid = catalog\<rparr>))))))"

definition plan_from_dict :: "converter \<Rightarrow> ((string \<times> json) list \<Rightarrow> string option result) \<Rightarrow> json \<Rightarrow> plan_output result" where
  "plan_from_dict cv line_item v =
     rbind (structure_dict v) (\<lambda>d.
     rbind (required d ''uuid'' structure_uuid) (\<lambda>uuid.
     rbind (required d ''title'' (structure_str cv)) (\<lambda>title.
     rbind (line_item d) (\<lambda>oli.
     rbind (required d ''created'' (structure_datetime cv)) (\<lambda>created.
     rbind (required d ''start_date'' (structure_datetime cv)) (\<lambda>start.
     rbind (required d ''expiration_date'' (structure_datetime cv)) (\<lambda>expiration.
     rbind (required d ''is_active'' structure_bool) (\<lambda>active.
     rbind (required d ''is_current'' structure_bool) (\<lambda>current.
     rbind (required d ''plan_type'' (structure_str cv)) (\<lambda>plan_type.
     rbind (required d ''enterprise_catalog_uuid'' structure_uuid) (\<lambda>catalog.
     rbind (optional_int cv d ''product'') (\<lambda>product.
       Inr \<lparr>pl_uuid = uuid, pl_title = title, pl_salesforce_opportunity_line_item = oli, pl_created = created,
         pl_start_date = start, pl_expiration_date = expiration, pl_is_active = active, pl_is_current = current,
         pl_plan_type = plan_type, pl_enterprise_catalog_uuid = catalog, pl_product = product\<rparr>))))))))))))"

definition trial_plan_output_from_dict :: "converter \<Rightarrow> json \<Rightarrow> step_output result" where
  "trial_plan_output_from_dict cv v =
     rbind (plan_from_dict cv (\<lambda>d. rbind (required d ''salesforce_opportunity_line_item'' (structure_str cv)) (\<lambda>s. Inr (Some s))) v)
       (\<lambda>p. Inr (Trial_Plan_Output p))"

definition paid_plan_output_from_dict :: "converter \<Rightarrow> json \<Rightarrow> step_output result" where
  "paid_plan_output_from_dict cv v =
     rbind (plan_from_dict cv (\<lambda>d. optional_str cv d ''salesforce_opportunity_line_item'') v) (\<lambda>p. Inr (Paid_Plan_Output p))"

definition renewal_output_from_dict :: "converter \<Rightarrow> json \<Rightarrow> step_output result" where
  "renewal_output_from_dict cv v =
     rbind (structure_dict v) (\<lambda>d.
     rbind (required d ''id'' (structure_int cv)) (\<lambda>id.
     rbind (required d ''prior_subscription_plan'' structure_uuid) (\<lambda>prior.
     rbind (required d ''renewed_subscription_plan'' structure_uuid) (\<lambda>renewed.
     rbind (required d ''number_of_licenses'' (structure_int cv)) (\<lambda>licenses.
     rbind (required d ''effective_date'' (structure_datetime cv)) (\<lambda>effective.
     rbind (required d ''renewed_expiration_date'' (structure_datetime cv)) (\<lambda>expiration.
     rbind (optional_str cv d ''salesforce_opportunity_line_item_id'') (\<lambda>oli.
       Inr (Renewal_Output \<lparr>rn_id = id, rn_prior_subscription_plan = prior, rn_renewed_subscription_plan = renewed,
         rn_number_of_licenses = licenses, rn_effective_date = effective, rn_renewed_expiration_date = expiration,
         rn_salesforce_opportunity_line_item_id = oli\<rparr>)))))))))"

definition plan_to_dict :: "plan_output \<Rightarrow> json" where
  "plan_to_dict x =
     JObj [(''uuid'', json_uuid (pl_uuid x)), (''title'', JStr (pl_title x)),
           (''salesforce_opportunity_line_item'', unstructure_optional JStr (pl_salesforce_opportunity_line_item x)),
           (''created'', json_datetime (pl_created x)), (''start_date'', json_datetime (pl_start_date x)),
           (''expiration_date'', json_datetime (pl_expiration_date x)), (''is_active'', JBool (pl_is_active x)),
           (''is_current'', JBool (pl_is_current x)), (''plan_type'', JStr (pl_plan_type x)),
           (''enterprise_catalog_uuid'', json_uuid (pl_enterprise_catalog_uuid x)),
           (''product'', unstructure_optional JNum (pl_product x))]"

fun output_dict :: "step_output \<Rightarrow> json" where
  "output_dict (Customer_Output x) =
     JObj [(''uuid'', json_uuid (cu_uuid x)), (''name'', JStr (cu_name x)), (''slug'', JStr (cu_slug x)),
           (''country'', JStr (cu_country x))]"
| "output_dict (Admin_Users_Output x) =
     JObj [(''enterprise_customer_uuid'', json_uuid (au_enterprise_customer_uuid x)),
           (''created_admins'', JList (map (\<lambda>e. JObj [(''user_email'', JStr e)]) (au_created_admins x))),
           (''existing_admins'', JList (map (\<lambda>e. JObj [(''user_email'', JStr e)]) (au_existing_admins x)))]"
| "output_dict (Catalog_Output x) =
     JObj [(''uuid'', json_uuid (kt_uuid x)), (''enterprise_customer_uuid'', json_uuid (kt_enterprise_customer_uuid x)),
           (''title'', JStr (kt_title x)), (''catalog_query_id'', JNum (kt_catalog_query_id x))]"
| "output_dict (Agreement_Output x) =
     JObj [(''uuid'', json_uuid (ag_uuid x)), (''enterprise_customer_uuid'', json_uuid (ag_enterprise_customer_uuid x)),
           (''subscriptions'', JList (map JObj (ag_subscriptions x))),
           (''default_catalog_uuid'', uuid_unstructure_hook (ag_default_catalog_uuid x))]"
| "output_dict (Trial_Plan_Output x) = plan_to_dict x"
| "output_dict (Paid_Plan_Output x) = plan_to_dict x"
| "output_dict (Renewal_Output x) =
     JObj [(''id'', JNum (rn_id x)), (''prior_subscription_plan'', json_uuid (rn_prior_subscription_plan x)),
           (''renewed_subscription_plan'', json_uuid (rn_renewed_subscription_plan x)),
           (''number_of_licenses'', JNum (rn_number_of_licenses x)),
           (''effective_date'', json_datetime (rn_effective_date x)),
           (''renewed_expiration_date'', json_datetime (rn_renewed_expiration_date x)),
           (''salesforce_opportunity_line_item_id'', unstructure_optional JStr (rn_salesforce_opportunity_line_item_id x))]"
| "output_dict Notification_Output = JObj []"

section \<open>Round trips\<close>

named_theorems conversions \<open>conversions of attributes\<close>

text \<open>What a hook has made of a value, the hooks convert to a text and back.\<close>

lemma uuid_again: "uuid_structure_hook v = Inr u \<Longrightarrow> uuid_structure_hook (uuid_unstructure_hook u) = Inr u"
  using parse_uuid_text
  by (auto simp: uuid_structure_hook_def uuid_unstructure_hook_def rbind_Inr_iff split: json.splits if_splits option.split
      dest!: parse_uuid_bound)

lemma datetime_again:
  assumes "datetime_structure_hook cv v = Inr t"
  shows "datetime_structure_hook cv (datetime_unstructure_hook t) = Inr t"
proof (cases t)
  case (Some x)
  then have "valid_datetime x"
    using assms by (auto simp: datetime_structure_hook_def split: json.splits if_splits
        elim!: parse_datetime_valid)
  then show ?thesis by (simp add: Some datetime_structure_hook_def datetime_unstructure_hook_def parse_isoformat)
qed (simp add: datetime_structure_hook_def datetime_unstructure_hook_def)

lemma structure_uuid_again: "required d k structure_uuid = Inr u \<Longrightarrow> structure_uuid (json_uuid u) = Inr u"
  by (auto simp: required_def structure_uuid_def json_uuid_def rbind_Inr_iff instance_of_def
      split: option.splits dest: uuid_again)

lemma structure_datetime_again:
  "required d k (structure_datetime cv) = Inr t \<Longrightarrow>
   structure_datetime cv (json_datetime t) = Inr t"
  by (auto simp: required_def structure_datetime_def json_datetime_def rbind_Inr_iff instance_of_def
      split: option.splits dest: datetime_again)

lemma defaulted_uuid_again:
  "defaulted d k None uuid_structure_hook = Inr u \<Longrightarrow> uuid_structure_hook (uuid_unstructure_hook u) = Inr u"
  by (cases "map_of d k")
    (auto simp: defaulted_def uuid_again, simp add: uuid_structure_hook_def uuid_unstructure_hook_def)

lemmas again = structure_uuid_again structure_datetime_again defaulted_uuid_again

lemma attribute_conversions [conversions]:
  "structure_str cv (JStr s) = Inr s" "structure_int cv (JNum n) = Inr n" "structure_bool (JBool b) = Inr b"
  "structure_dict (JObj d) = Inr d" "json_iter (JList xs) = Inr xs"
  "structure_optional (structure_str cv) (unstructure_optional JStr so) = Inr so"
  "structure_optional (structure_int cv) (unstructure_optional JNum no) = Inr no"
  by (simp_all add: structure_str_def structure_int_def structure_bool_def structure_dict_def json_iter_def
      structure_optional_def unstructure_optional_def split: option.split)

lemma rmap_map_Inr [conversions]: "(\<And>x. f (g x) = Inr (h x)) \<Longrightarrow> rmap f (map g xs) = Inr (map h xs)"
  by (induction xs) simp_all

lemma email_records [conversions]: "rmap (user_email_record cv) (map (\<lambda>e. JObj [(''user_email'', JStr e)]) xs) = Inr xs"
  by (induction xs) (simp_all add: user_email_record_def required_def attribute_conversions)

lemma dict_list [conversions]: "rmap structure_dict (map JObj ds) = Inr ds"
  by (induction ds) (simp_all add: structure_dict_def)

lemma plan_round_trip:
  assumes "plan_from_dict cv line_item' v = Inr x"
    and "line_item (case plan_to_dict x of JObj d \<Rightarrow> d | _ \<Rightarrow> []) = Inr (pl_salesforce_opportunity_line_item x)"
  shows "plan_from_dict cv line_item (plan_to_dict x) = Inr x"
proof -
  have "structure_uuid (json_uuid (pl_uuid x)) = Inr (pl_uuid x)"
    "structure_uuid (json_uuid (pl_enterprise_catalog_uuid x)) = Inr (pl_enterprise_catalog_uuid x)"
    "structure_datetime cv (json_datetime (pl_created x)) = Inr (pl_created x)"
    "structure_datetime cv (json_datetime (pl_start_date x)) = Inr (pl_start_date x)"
    "structure_datetime cv (json_datetime (pl_expiration_date x)) = Inr (pl_expiration_date x)"
    using assms(1) by (auto simp: plan_from_dict_def rbind_Inr_iff dest: again)
  with assms(2) show ?thesis
    by (simp add: plan_from_dict_def plan_to_dict_def required_def defaulted_def optional_int_def attribute_conversions)
qed

definition notification_output_from_dict :: "json \<Rightarrow> step_output result" where
  "notification_output_from_dict v = rbind (structure_dict v) (\<lambda>_. Inr Notification_Output)"

text \<open>The eight output classes, in the order of the steps.\<close>

definition output_conversions :: "converter \<Rightarrow> (json \<Rightarrow> step_output result) list" where
  "output_conversions cv =
     [customer_output_from_dict cv, admin_users_output_from_dict cv, catalog_output_from_dict cv,
      agreement_output_from_dict, trial_plan_output_from_dict cv, paid_plan_output_from_dict cv,
      renewal_output_from_dict cv, notification_output_from_dict]"

lemma customer_round_trip:
  assumes "customer_output_from_dict cv v = Inr x"
  shows "customer_output_from_dict cv (output_dict x) = Inr x"
proof -
  obtain y where "x = Customer_Output y" "cu_country y \<in> set (cv_countries cv)"
    "structure_uuid (json_uuid (cu_uuid y)) = Inr (cu_uuid y)"
    using assms by (auto simp: customer_output_from_dict_def rbind_Inr_iff split: if_splits dest!: again)
  then show ?thesis by (simp add: customer_output_from_dict_def required_def attribute_conversions)
qed

lemma trial_round_trip:
  assumes "trial_plan_output_from_dict cv v = Inr x"
  shows "trial_plan_output_from_dict cv (output_dict x) = Inr x"
proof -
  let ?oli = "\<lambda>d. rbind (required d ''salesforce_opportunity_line_item'' (structure_str cv)) (\<lambda>s. Inr (Some s))"
  obtain y where x: "x = Trial_Plan_Output y" and y: "plan_from_dict cv ?oli v = Inr y"
    using assms by (auto simp: trial_plan_output_from_dict_def rbind_Inr_iff)
  obtain s where s: "pl_salesforce_opportunity_line_item y = Some s"
    using y by (auto simp: plan_from_dict_def rbind_Inr_iff)
  have "plan_from_dict cv ?oli (plan_to_dict y) = Inr y"
    by (rule plan_round_trip [OF y])
      (simp add: s plan_to_dict_def required_def unstructure_optional_def attribute_conversions)
  then show ?thesis by (simp add: x trial_plan_output_from_dict_def)
qed

lemma paid_round_trip:
  assumes "paid_plan_output_from_dict cv v = Inr x"
  shows "paid_plan_output_from_dict cv (output_dict x) = Inr x"
proof -
  let ?oli = "\<lambda>d. optional_str cv d ''salesforce_opportunity_line_item''"
  obtain y where x: "x = Paid_Plan_Output y" and y: "plan_from_dict cv ?oli v = Inr y"
    using assms by (auto simp: paid_plan_output_from_dict_def rbind_Inr_iff)
  have "plan_from_dict cv ?oli (plan_to_dict y) = Inr y"
    by (rule plan_round_trip [OF y]) (simp add: plan_to_dict_def optional_str_def defaulted_def attribute_conversions)
  then show ?thesis by (simp add: x paid_plan_output_from_dict_def)
qed

lemma conversions_round_trip:
  assumes "from_dict \<in> set (output_conversions cv)" and read: "from_dict v = Inr x"
  shows "from_dict (output_dict x) = Inr x"
proof -
  consider "from_dict = customer_output_from_dict cv" | "from_dict = admin_users_output_from_dict cv"
    | "from_dict = catalog_output_from_dict cv" | "from_dict = agreement_output_from_dict"
    | "from_dict = trial_plan_output_from_dict cv" | "from_dict = paid_plan_output_from_dict cv"
    | "from_dict = renewal_output_from_dict cv" | "from_dict = notification_output_from_dict"
    using assms(1) by (auto simp: output_conversions_def)
  then show ?thesis
  proof cases
    case 1
    then show ?thesis using read customer_round_trip by simp
  next
    case 2
    then show ?thesis using read
      by (auto simp: admin_users_output_from_dict_def rbind_Inr_iff dest!: again)
        (simp add: required_def attribute_conversions email_records)
  next
    case 3
    then show ?thesis using read
      by (auto simp: catalog_output_from_dict_def rbind_Inr_iff dest!: again)
        (simp add: required_def attribute_conversions)
  next
    case 4
    then show ?thesis using read
      by (auto simp: agreement_output_from_dict_def rbind_Inr_iff dest!: again)
        (simp add: required_def defaulted_def attribute_conversions dict_list)
  next
    case 5
    then show ?thesis using read trial_round_trip by simp
  next
    case 6
    then show ?thesis using read paid_round_trip by simp
  next
    case 7
    then show ?thesis using read
      by (auto simp: renewal_output_from_dict_def rbind_Inr_iff dest!: again)
        (simp add: required_def optional_str_def defaulted_def attribute_conversions)
  next
    case 8
    then show ?thesis using read by (auto simp: notification_output_from_dict_def rbind_Inr_iff attribute_conversions)
  qed
qed

lemma output_dict_truthy: "x \<noteq> Notification_Output \<Longrightarrow> json_truthy (output_dict x)"
  by (cases x) (simp_all add: plan_to_dict_def)

text \<open>
  C17. The output of a step survives storage: whatever the conversion of an output class made of a
  response, its dictionary, in which every UUID is its hexadecimal text and every time its ISO text,
  is converted back to the same object, with the same UUIDs and the same parts, microseconds and UTC
  offset of every time. A resumed workflow relies on this.
\<close>

theorem step_output_round_trip:
  assumes "from_dict \<in> set (output_conversions cv)" and "from_dict v = Inr x"
  shows "from_dict (output_dict x) = Inr x"
  by (rule conversions_round_trip [OF assms])

definition demo_converter :: converter where
  "demo_converter = \<lparr>cv_str = (\<lambda>_. ''?''), cv_int = (\<lambda>_. Inl ValueError), cv_parse_datetime = (\<lambda>_. Inr None),
     cv_countries = [''US''], cv_valid_email = (\<lambda>_. True)\<rparr>"

definition demo_customer :: json where
  "demo_customer = JObj [(''uuid'', JStr ''00000000-0000-0000-0000-000000000007''), (''name'', JStr ''Acme''), (''slug'', JStr ''acme''),
     (''country'', JStr ''US''), (''extra'', JNull)]"

text \<open>A renewal as the license manager answers it, with times in the form of its own serializer.\<close>

definition demo_renewal :: json where
  "demo_renewal = JObj [(''id'', JNum 5), (''prior_subscription_plan'', JStr ''{0000000000000000000000000000001F}''),
     (''renewed_subscription_plan'', JStr ''urn:uuid:00000000-0000-0000-0000-0000000000ab''), (''number_of_licenses'', JNum 3),
     (''effective_date'', JStr ''2024-02-29T10:30:00Z''), (''renewed_expiration_date'', JStr ''2025-03-01 00:00:00.000250-05:30'')]"

definition demo_renewal_output :: step_output where
  "demo_renewal_output = Renewal_Output \<lparr>rn_id = 5, rn_prior_subscription_plan = 31, rn_renewed_subscription_plan = 171,
     rn_number_of_licenses = 3,
     rn_effective_date = \<lparr>dt_year = 2024, dt_month = 2, dt_day = 29, dt_hour = 10, dt_minute = 30, dt_second = 0,
       dt_microsecond = 0, dt_utcoffset = Some 0\<rparr>,
     rn_renewed_expiration_date = \<lparr>dt_year = 2025, dt_month = 3, dt_day = 1, dt_hour = 0, dt_minute = 0, dt_second = 0,
       dt_microsecond = 250, dt_utcoffset = Some (- 19800000000)\<rparr>,
     rn_salesforce_opportunity_line_item_id = None\<rparr>"

theorem step_output_round_trip_witness:
  "renewal_output_from_dict demo_converter (output_dict demo_renewal_output) = Inr demo_renewal_output"
proof (rule step_output_round_trip)
  show "renewal_output_from_dict demo_converter \<in> set (output_conversions demo_converter)" by (simp add: output_conversions_def)
  show "renewal_output_from_dict demo_converter demo_renewal = Inr demo_renewal_output" by code_simp
qed

end
