(* ===== verification/Provisioning.thy ===== *)
theory Provisioning
  imports Provisioning_Data Checkout_Intent "HOL-Library.List_Lexorder" "HOL-Library.Char_ord"
begin

text \<open>
  Provisioning of a new customer: \<open>provisioning/api.py\<close> and the steps of \<open>provisioning/models.py\<close>.

  The LMS and the license manager are one state \<open>'x\<close>, which the clients of \<open>clients\<close> read and change;
  the rest of the world are the clock, the checkout intents, the summaries of Stripe events, the renewal tracking
  records and the e-mails that were queued.
\<close>

section \<open>The world\<close>

record event_summary =
  es_event_id :: string
  es_checkout_intent :: "nat option"
  es_stripe_subscription_id :: "string option"
  es_stripe_event_created_at :: "datetime option"

record renewal_tracking =
  sw_checkout_intent :: "nat option"
  sw_subscription_plan_renewal_id :: int
  sw_prior_subscription_plan_uuid :: "uuid option"
  sw_renewed_subscription_plan_uuid :: "uuid option"
  sw_stripe_event_data :: string
  sw_stripe_subscription_id :: "string option"
  sw_processed_at :: "datetime option"

type_synonym signup_email = "py_datetime \<times> py_datetime \<times> int \<times> string \<times> string"

record 'x prov_world =
  pw_now :: datetime
  pw_services :: 'x
  pw_workflows :: "unit_of_work list"
  pw_intents :: "checkout_intent list"
  pw_summaries :: "event_summary list"
  pw_renewals :: "renewal_tracking list"
  pw_emails :: "signup_email list"

record plan_request =
  pr_customer_agreement_uuid :: uuid
  pr_title :: string
  pr_salesforce_opportunity_line_item :: "string option"
  pr_start_date :: py_datetime
  pr_expiration_date :: py_datetime
  pr_desired_num_licenses :: int
  pr_enterprise_catalog_uuid :: uuid
  pr_product_id :: int

record renewal_request =
  rr_prior_subscription_plan_uuid :: uuid
  rr_renewed_subscription_plan_uuid :: uuid
  rr_salesforce_opportunity_line_item_id :: "string option"
  rr_effective_date :: py_datetime
  rr_renewed_expiration_date :: py_datetime
  rr_number_of_licenses :: int

text \<open>An exception of a call of the LMS: an API error with the status of its cause, or another one.\<close>

datatype api_failure = Api_Failure int | Other_Failure py_error

text \<open>
  An admin record is its e-mail address, \<open>None\<close> when the record has none. \<open>cl_add_year\<close> is the addition
  of a \<open>relativedelta\<close> of a year, \<open>cl_product_query_ids\<close> the mapping of the settings, and
  \<open>cl_error_text\<close> the text of an exception.
\<close>

record 'x clients =
  cl_customer_data :: "string \<Rightarrow> 'x \<Rightarrow> json result"
  cl_create_customer :: "string \<Rightarrow> string \<Rightarrow> string \<Rightarrow> 'x \<Rightarrow> 'x \<times> json result"
  cl_admin_users :: "uuid \<Rightarrow> 'x \<Rightarrow> string option list result"
  cl_create_admin :: "uuid \<Rightarrow> string \<Rightarrow> 'x \<Rightarrow> 'x \<times> (api_failure + json)"
  cl_create_pending_admin :: "uuid \<Rightarrow> string \<Rightarrow> 'x \<Rightarrow> 'x \<times> (api_failure + json)"
  cl_catalogs :: "uuid \<Rightarrow> int \<Rightarrow> 'x \<Rightarrow> json list result"
  cl_create_catalog :: "uuid \<Rightarrow> string \<Rightarrow> int \<Rightarrow> 'x \<Rightarrow> 'x \<times> json result"
  cl_customer_agreement :: "uuid \<Rightarrow> 'x \<Rightarrow> json result"
  cl_create_customer_agreement :: "uuid \<Rightarrow> string \<Rightarrow> uuid option \<Rightarrow> 'x \<Rightarrow> 'x \<times> json result"
  cl_create_plan :: "plan_request \<Rightarrow> 'x \<Rightarrow> 'x \<times> json result"
  cl_create_renewal :: "renewal_request \<Rightarrow> 'x \<Rightarrow> 'x \<times> json result"
  cl_add_year :: "py_datetime \<Rightarrow> py_datetime"
  cl_product_query_ids :: "(int \<times> int) list"
  cl_error_text :: "py_error \<Rightarrow> string"

section \<open>Get or create\<close>

definition get_or_create_enterprise_customer ::
    "'x clients \<Rightarrow> string \<Rightarrow> string \<Rightarrow> string \<Rightarrow> 'x \<Rightarrow> 'x \<times> json result" where
  "get_or_create_enterprise_customer cl name slug country x =
     (case cl_customer_data cl slug x of
        Inl e \<Rightarrow> (x, Inl e)
      | Inr existing \<Rightarrow>
          if json_truthy existing then (x, rbind (is_dict existing) (\<lambda>_. Inr existing))
          else cl_create_customer cl name slug country x)"

text \<open>An admin that the LMS does not know becomes a pending one; another API error is passed over.\<close>

fun create_admins :: "'x clients \<Rightarrow> uuid \<Rightarrow> string list \<Rightarrow> string list \<Rightarrow> 'x \<Rightarrow> 'x \<times> string list result" where
  "create_admins cl customer [] created x = (x, Inr created)"
| "create_admins cl customer (email # emails) created x =
     (case cl_create_admin cl customer email x of
        (x1, Inr _) \<Rightarrow> create_admins cl customer emails (created @ [email]) x1
      | (x1, Inl (Other_Failure e)) \<Rightarrow> (x1, Inl e)
      | (x1, Inl (Api_Failure status)) \<Rightarrow>
          if status \<noteq> 404 then create_admins cl customer emails created x1
          else (case cl_create_pending_admin cl customer email x1 of
                  (x2, Inr response) \<Rightarrow>
                    create_admins cl customer emails (if json_truthy response then created @ [email] else created) x2
                | (x2, Inl (Other_Failure e)) \<Rightarrow> (x2, Inl e)
                | (x2, Inl (Api_Failure _)) \<Rightarrow> create_admins cl customer emails created x2))"

definition email_dicts :: "string list \<Rightarrow> json" where
  "email_dicts emails = JList (map (\<lambda>e. JObj [(''user_email'', JStr e)]) (sort emails))"

definition get_or_create_enterprise_admin_users ::
    "'x clients \<Rightarrow> uuid \<Rightarrow> string list \<Rightarrow> 'x \<Rightarrow> 'x \<times> json result" where
  "get_or_create_enterprise_admin_users cl customer user_emails x =
     (case rbind (cl_admin_users cl customer x) (rmap (\<lambda>a. case a of None \<Rightarrow> Inl KeyError | Some e \<Rightarrow> Inr e)) of
        Inl e \<Rightarrow> (x, Inl e)
      | Inr found \<Rightarrow>
          (let existing = remdups found
           in case create_admins cl customer (filter (\<lambda>e. e \<notin> set existing) (remdups user_emails)) [] x of
                (x1, Inl e) \<Rightarrow> (x1, Inl e)
              | (x1, Inr created) \<Rightarrow>
                  (x1, Inr (JObj [(''created_admins'', email_dicts created), (''existing_admins'', email_dicts existing)]))))"

definition get_or_create_enterprise_catalog ::
    "'x clients \<Rightarrow> uuid \<Rightarrow> string \<Rightarrow> int \<Rightarrow> 'x \<Rightarrow> 'x \<times> json result" where
  "get_or_create_enterprise_catalog cl customer title query_id x =
     (case cl_catalogs cl customer query_id x of
        Inl e \<Rightarrow> (x, Inl e)
      | Inr (c # _) \<Rightarrow> (x, rbind (is_dict c) (\<lambda>_. Inr c))
      | Inr [] \<Rightarrow>
          (case cl_create_catalog cl customer title query_id x of
             (x1, r) \<Rightarrow> (x1, rbind r (\<lambda>c. rbind (is_dict c) (\<lambda>_. Inr c)))))"

definition get_or_create_customer_agreement ::
    "'x clients \<Rightarrow> uuid \<Rightarrow> string \<Rightarrow> uuid option \<Rightarrow> 'x \<Rightarrow> 'x \<times> json result" where
  "get_or_create_customer_agreement cl customer slug default_catalog x =
     (case cl_customer_agreement cl customer x of
        Inl e \<Rightarrow> (x, Inl e)
      | Inr existing \<Rightarrow>
          if json_truthy existing then (x, rbind (is_dict existing) (\<lambda>_. Inr existing))
          else (case cl_create_customer_agreement cl customer slug default_catalog x of
                  (x1, r) \<Rightarrow> (x1, rbind r (\<lambda>a. rbind (is_dict a) (\<lambda>_. Inr a)))))"

text \<open>The log lines read items of the response, and raise when they are missing.\<close>

definition get_or_create_subscription_plan ::
    "'x clients \<Rightarrow> (string \<times> json) list list \<Rightarrow> plan_request \<Rightarrow> 'x \<Rightarrow> 'x \<times> json result" where
  "get_or_create_subscription_plan cl existing_subscription_list request x =
     (let oli = pr_salesforce_opportunity_line_item request;
          matching = find (\<lambda>s. get_item s ''salesforce_opportunity_line_item'' = unstructure_optional JStr oli)
            existing_subscription_list
      in case matching of
           Some (e # es) \<Rightarrow>
             (let found = JObj (e # es)
              in (x, rbind (item found ''uuid'') (\<lambda>_.
                     rbind (item found ''salesforce_opportunity_line_item'') (\<lambda>_.
                     rbind (if truthy oli then Inr JNull else item found ''start_date'') (\<lambda>_. Inr found)))))
         | _ \<Rightarrow>
             (case cl_create_plan cl request x of
                (x1, r) \<Rightarrow> (x1, rbind r (\<lambda>created. rbind (item created ''uuid'') (\<lambda>_. Inr created)))))"

definition get_or_create_subscription_plan_renewal ::
    "'x clients \<Rightarrow> renewal_request \<Rightarrow> 'x \<Rightarrow> 'x \<times> json result" where
  "get_or_create_subscription_plan_renewal cl request x =
     (case cl_create_renewal cl request x of
        (x1, r) \<Rightarrow> (x1, rbind r (\<lambda>created.
            rbind (item created ''id'') (\<lambda>_.
            rbind (item created ''salesforce_opportunity_id'') (\<lambda>_.
            rbind (item created ''prior_subscription_plan'') (\<lambda>_.
            rbind (item created ''renewed_subscription_plan'') (\<lambda>_. Inr created)))))))"

section \<open>The checkout intent of a workflow\<close>

definition provisioning_inputs :: "converter \<Rightarrow> (string \<times> (json \<Rightarrow> step_input result)) list" where
  "provisioning_inputs cv =
     [(''create_customer_input'', customer_input_from_dict cv),
      (''create_enterprise_admin_users_input'', admin_users_input_from_dict cv),
      (''create_catalog_input'', catalog_input_from_dict cv),
      (''create_customer_agreement_input'', agreement_input_from_dict),
      (''create_trial_subscription_plan_input'', trial_plan_input_from_dict cv),
      (''create_first_paid_subscription_plan_input'', paid_plan_input_from_dict cv),
      (''create_subscription_plan_renewal_input'', \<lambda>v. rbind (structure_dict v) (\<lambda>_. Inr Renewal_Input)),
      (''notification_input'', \<lambda>v. rbind (structure_dict v) (\<lambda>_. Inr Notification_Input))]"

text \<open>\<open>get_workflow_record\<close> of the eight steps, and an attribute of its \<open>input_object\<close>.\<close>

definition get_workflow_record :: "workflow_step \<Rightarrow> 'x prov_world \<Rightarrow> unit_of_work option" where
  "get_workflow_record self w =
     find (\<lambda>wf. uw_uuid wf = ws_workflow_record_uuid self \<and> \<not> uw_is_removed wf) (pw_workflows w)"

definition workflow_input :: "converter \<Rightarrow> workflow_step \<Rightarrow> 'x prov_world \<Rightarrow> string \<Rightarrow> step_input option result" where
  "workflow_input cv self w key =
     (case get_workflow_record self w of
        None \<Rightarrow> Inl AttributeError
      | Some flow \<Rightarrow> rbind (input_attributes (provisioning_inputs cv) (uw_input_data flow)) (\<lambda>attributes.
          Inr (Option.bind (map_of attributes key) id)))"

definition customer_slug_input :: "converter \<Rightarrow> workflow_step \<Rightarrow> 'x prov_world \<Rightarrow> string result" where
  "customer_slug_input cv self w =
     rbind (workflow_input cv self w ''create_customer_input'') (\<lambda>found.
       case found of Some (Customer_Input c) \<Rightarrow> Inr (ci_slug c) | _ \<Rightarrow> Inl AttributeError)"

definition trial_input :: "converter \<Rightarrow> workflow_step \<Rightarrow> 'x prov_world \<Rightarrow> trial_plan_input result" where
  "trial_input cv self w =
     rbind (workflow_input cv self w ''create_trial_subscription_plan_input'') (\<lambda>found.
       case found of Some (Trial_Plan_Input p) \<Rightarrow> Inr p | _ \<Rightarrow> Inl AttributeError)"

definition get_fulfillable_checkout_intent_via_slug ::
    "converter \<Rightarrow> workflow_step \<Rightarrow> 'x prov_world \<Rightarrow> checkout_intent result" where
  "get_fulfillable_checkout_intent_via_slug cv self w =
     rbind (customer_slug_input cv self w) (\<lambda>slug.
     rbind (filter_by_name_and_slug (Some slug) None (pw_intents w)) (\<lambda>found.
       case filter (\<lambda>i. ci_state i \<in> set FULFILLABLE_STATES) found of
         [] \<Rightarrow> Inl DoesNotExist | i # _ \<Rightarrow> Inr i))"

definition get_linked_checkout_intent :: "workflow_step \<Rightarrow> 'x prov_world \<Rightarrow> checkout_intent result" where
  "get_linked_checkout_intent self w =
     (case get_one (filter (\<lambda>i. ci_workflow i = map_option uw_uuid (get_workflow_record self w)) (pw_intents w)) of
        Found i \<Rightarrow> Inr i | Multiple_Objects \<Rightarrow> Inl MultipleObjectsReturned | Does_Not_Exist \<Rightarrow> Inl DoesNotExist)"

text \<open>\<open>save\<close> of an intent; a workflow belongs to at most one intent.\<close>

definition save_intent :: "checkout_intent \<Rightarrow> 'x prov_world \<Rightarrow> 'x prov_world result" where
  "save_intent i w =
     (if ci_workflow i \<noteq> None \<and> filter (\<lambda>j. ci_workflow j = ci_workflow i \<and> ci_pk j \<noteq> ci_pk i) (pw_intents w) \<noteq> []
      then Inl IntegrityError
      else Inr (w\<lparr>pw_intents := put_row ci_pk (i\<lparr>ci_modified := pw_now w\<rparr>) (pw_intents w)\<rparr>))"

text \<open>A value saved in a UUID field of a model: a text or a number is given to the constructor.\<close>

definition uuid_field :: "json \<Rightarrow> uuid option result" where
  "uuid_field v =
     (case v of
        JNull \<Rightarrow> Inr None
      | JStr s \<Rightarrow> (case parse_uuid s of Inl _ \<Rightarrow> Inl ValidationError | Inr u \<Rightarrow> Inr (Some u))
      | JNum n \<Rightarrow> if 0 \<le> n \<and> n < 2 ^ 128 then Inr (Some (nat n)) else Inl ValidationError
      | JBool b \<Rightarrow> Inr (Some (of_bool b))
      | _ \<Rightarrow> Inl ValidationError)"

definition link_checkout_intent ::
    "converter \<Rightarrow> workflow_step \<Rightarrow> json \<Rightarrow> 'x prov_world \<Rightarrow> 'x prov_world result" where
  "link_checkout_intent cv self customer_uuid w =
     rbind (get_fulfillable_checkout_intent_via_slug cv self w) (\<lambda>i.
       case uuid_field customer_uuid of
         Inl e \<Rightarrow> Inl e
       | Inr u \<Rightarrow>
           save_intent (i\<lparr>ci_workflow := map_option uw_uuid (get_workflow_record self w), ci_enterprise_uuid := u\<rparr>) w)"

definition error_checkout_intent ::
    "'x clients \<Rightarrow> workflow_step \<Rightarrow> py_error \<Rightarrow> 'x prov_world \<Rightarrow> 'x prov_world result" where
  "error_checkout_intent cl self exc w =
     rbind (get_linked_checkout_intent self w) (\<lambda>i.
       save_intent (i\<lparr>ci_last_provisioning_error := Some (cl_error_text cl exc), ci_state := CI_ERRORED_PROVISIONING\<rparr>) w)"

definition fulfill_checkout_intent :: "workflow_step \<Rightarrow> 'x prov_world \<Rightarrow> 'x prov_world result" where
  "fulfill_checkout_intent self w =
     rbind (get_linked_checkout_intent self w) (\<lambda>i. save_intent (i\<lparr>ci_state := CI_FULFILLED\<rparr>) w)"

section \<open>The steps\<close>

text \<open>
  \<open>process_input\<close> of each step. An operation on the services or on the intents that fails leaves the
  world as it is at that point.
\<close>

type_synonym 'x step_process =
  "workflow_step \<Rightarrow> step_output accumulated \<Rightarrow> 'x prov_world \<Rightarrow> 'x prov_world \<times> step_output result"

definition on_services :: "('x \<Rightarrow> 'x \<times> 'a) \<Rightarrow> 'x prov_world \<Rightarrow> 'x prov_world \<times> 'a" where
  "on_services f w = (case f (pw_services w) of (x, r) \<Rightarrow> (w\<lparr>pw_services := x\<rparr>, r))"

definition with_intents ::
    "'x prov_world \<times> json result \<Rightarrow> (json \<Rightarrow> 'x prov_world \<Rightarrow> 'x prov_world result) \<Rightarrow> 'x prov_world \<times> json result" where
  "with_intents m f =
     (case m of
        (w, Inl e) \<Rightarrow> (w, Inl e)
      | (w, Inr response) \<Rightarrow> (case f response w of Inl e \<Rightarrow> (w, Inl e) | Inr w' \<Rightarrow> (w', Inr response)))"

definition customer_of :: "step_output accumulated \<Rightarrow> customer_output result" where
  "customer_of acc = (case acc ''create_customer_output'' of Some (Customer_Output c) \<Rightarrow> Inr c | _ \<Rightarrow> Inl AttributeError)"

definition catalog_of :: "step_output accumulated \<Rightarrow> catalog_output result" where
  "catalog_of acc = (case acc ''create_catalog_output'' of Some (Catalog_Output c) \<Rightarrow> Inr c | _ \<Rightarrow> Inl AttributeError)"

definition agreement_of :: "step_output accumulated \<Rightarrow> agreement_output result" where
  "agreement_of acc =
     (case acc ''create_customer_agreement_output'' of Some (Agreement_Output a) \<Rightarrow> Inr a | _ \<Rightarrow> Inl AttributeError)"

definition trial_plan_of :: "step_output accumulated \<Rightarrow> plan_output result" where
  "trial_plan_of acc =
     (case acc ''create_trial_subscription_plan_output'' of Some (Trial_Plan_Output p) \<Rightarrow> Inr p | _ \<Rightarrow> Inl AttributeError)"

definition paid_plan_of :: "step_output accumulated \<Rightarrow> plan_output result" where
  "paid_plan_of acc =
     (case acc ''create_first_paid_subscription_plan_output'' of Some (Paid_Plan_Output p) \<Rightarrow> Inr p | _ \<Rightarrow> Inl AttributeError)"

text \<open>\<open>from_dict\<close> of the response, the last statement of every step.\<close>

definition returning :: "(json \<Rightarrow> step_output result) \<Rightarrow> 'x prov_world \<times> json result \<Rightarrow> 'x prov_world \<times> step_output result" where
  "returning from_dict m = (case m of (w, r) \<Rightarrow> (w, rbind r from_dict))"

definition process_customer :: "'x clients \<Rightarrow> converter \<Rightarrow> 'x step_process" where
  "process_customer cl cv self acc w =
     (case customer_input_from_dict cv (uw_input_data self) of
        Inr (Customer_Input c) \<Rightarrow>
          returning (customer_output_from_dict cv)
            (with_intents
              (on_services (get_or_create_enterprise_customer cl (ci_name c) (ci_slug c) (ci_country_code c)) w)
              (\<lambda>response w1. rbind (item response ''uuid'') (\<lambda>u. link_checkout_intent cv self u w1)))
      | Inr _ \<Rightarrow> (w, Inl AttributeError)
      | Inl e \<Rightarrow> (w, Inl e))"

definition admin_users_response :: "uuid \<Rightarrow> json \<Rightarrow> json result" where
  "admin_users_response customer response =
     (case response of
        JObj d \<Rightarrow> Inr (JObj (dict_put d ''enterprise_customer_uuid'' (json_uuid customer)))
      | _ \<Rightarrow> Inl TypeError)"

definition process_admin_users :: "'x clients \<Rightarrow> converter \<Rightarrow> 'x step_process" where
  "process_admin_users cl cv self acc w =
     (case rbind (admin_users_input_from_dict cv (uw_input_data self)) (\<lambda>i.
             case i of Admin_Users_Input emails \<Rightarrow> rbind (customer_of acc) (\<lambda>c. Inr (emails, cu_uuid c))
                     | _ \<Rightarrow> Inl AttributeError) of
        Inl e \<Rightarrow> (w, Inl e)
      | Inr (emails, customer) \<Rightarrow>
          (case on_services (get_or_create_enterprise_admin_users cl customer emails) w of
             (w1, r) \<Rightarrow>
               returning (admin_users_output_from_dict cv)
                 (w1, rbind r (admin_users_response customer))))"

definition get_catalog_title :: "catalog_input \<Rightarrow> step_input option \<Rightarrow> string \<Rightarrow> string" where
  "get_catalog_title self trial customer_name =
     (if truthy (kti_title self) then the (kti_title self)
      else customer_name @ (case trial of Some (Trial_Plan_Input _) \<Rightarrow> '' Subscription'' | _ \<Rightarrow> []) @ '' Catalog'')"

definition get_catalog_query_id :: "'x clients \<Rightarrow> catalog_input \<Rightarrow> step_input option \<Rightarrow> int result" where
  "get_catalog_query_id cl self trial =
     (if truthy_int (kti_catalog_query_id self) then Inr (the (kti_catalog_query_id self))
      else case trial of
             Some (Trial_Plan_Input p) \<Rightarrow>
               (case map_of (cl_product_query_ids cl) (tpi_product_id p) of
                  Some q \<Rightarrow> Inr q | None \<Rightarrow> Inl UnitOfWorkException)
           | _ \<Rightarrow> Inl AttributeError)"

definition process_catalog :: "'x clients \<Rightarrow> converter \<Rightarrow> 'x step_process" where
  "process_catalog cl cv self acc w =
     (case rbind (customer_of acc) (\<lambda>c.
           rbind (workflow_input cv self w ''create_trial_subscription_plan_input'') (\<lambda>trial.
           rbind (catalog_input_from_dict cv (uw_input_data self)) (\<lambda>i.
             case i of
               Catalog_Input k \<Rightarrow>
                 rbind (get_catalog_query_id cl k trial) (\<lambda>q. Inr (cu_uuid c, get_catalog_title k trial (cu_name c), q))
             | _ \<Rightarrow> Inl AttributeError))) of
        Inl e \<Rightarrow> (w, Inl e)
      | Inr (customer, title, query_id) \<Rightarrow>
          (case on_services (get_or_create_enterprise_catalog cl customer title query_id) w of
             (w1, r) \<Rightarrow>
               returning (catalog_output_from_dict cv)
                 (w1, rbind r (\<lambda>response.
                      rbind (item response ''enterprise_customer'') (\<lambda>u.
                      rbind (item response ''enterprise_catalog_query'') (\<lambda>q.
                      case response of
                        JObj d \<Rightarrow> Inr (JObj (dict_put (dict_put d ''enterprise_customer_uuid'' u) ''catalog_query_id'' q))
                      | _ \<Rightarrow> Inl TypeError))))))"

definition process_agreement :: "'x clients \<Rightarrow> converter \<Rightarrow> 'x step_process" where
  "process_agreement cl cv self acc w =
     (case rbind (customer_of acc) (\<lambda>c.
           rbind (agreement_input_from_dict (uw_input_data self)) (\<lambda>i.
             case i of Agreement_Input u \<Rightarrow> Inr (c, u) | _ \<Rightarrow> Inl AttributeError)) of
        Inl e \<Rightarrow> (w, Inl e)
      | Inr (c, default_catalog) \<Rightarrow>
          returning agreement_output_from_dict
            (on_services (get_or_create_customer_agreement cl (cu_uuid c) (cu_slug c) default_catalog) w))"

text \<open>The \<open>except\<close> block of the plan and renewal steps: a missing intent is logged only.\<close>

definition provisioning_failed ::
    "'x clients \<Rightarrow> workflow_step \<Rightarrow> py_error \<Rightarrow> 'x prov_world \<Rightarrow> 'x prov_world \<times> json result" where
  "provisioning_failed cl self exc w =
     (case error_checkout_intent cl self exc w of
        Inr w' \<Rightarrow> (w', Inl UnitOfWorkException)
      | Inl e \<Rightarrow> (w, Inl (if e = DoesNotExist then UnitOfWorkException else e)))"

definition guarded_call ::
    "'x clients \<Rightarrow> workflow_step \<Rightarrow> ('x \<Rightarrow> 'x \<times> json result) \<Rightarrow> 'x prov_world \<Rightarrow> 'x prov_world \<times> json result" where
  "guarded_call cl self f w =
     (case on_services f w of
        (w1, Inl e) \<Rightarrow> provisioning_failed cl self e w1
      | (w1, Inr response) \<Rightarrow> (w1, Inr response))"

definition plan_catalog_uuid :: "uuid option \<Rightarrow> step_output accumulated \<Rightarrow> uuid result" where
  "plan_catalog_uuid own acc = (case own of Some u \<Rightarrow> Inr u | None \<Rightarrow> rbind (catalog_of acc) (\<lambda>c. Inr (kt_uuid c)))"

definition trial_plan_request :: "converter \<Rightarrow> workflow_step \<Rightarrow> step_output accumulated
    \<Rightarrow> ((string \<times> json) list list \<times> plan_request) result" where
  "trial_plan_request cv self acc =
     rbind (trial_plan_input_from_dict cv (uw_input_data self)) (\<lambda>i.
       case i of
         Trial_Plan_Input p \<Rightarrow>
           rbind (plan_catalog_uuid (tpi_enterprise_catalog_uuid p) acc) (\<lambda>catalog.
           rbind (agreement_of acc) (\<lambda>a.
             Inr (ag_subscriptions a,
               \<lparr>pr_customer_agreement_uuid = ag_uuid a, pr_title = tpi_title p,
                pr_salesforce_opportunity_line_item = Some (tpi_salesforce_opportunity_line_item p),
                pr_start_date = tpi_start_date p, pr_expiration_date = tpi_expiration_date p,
                pr_desired_num_licenses = tpi_desired_num_licenses p, pr_enterprise_catalog_uuid = catalog,
                pr_product_id = tpi_product_id p\<rparr>)))
       | _ \<Rightarrow> Inl AttributeError)"

definition process_trial_plan :: "'x clients \<Rightarrow> converter \<Rightarrow> 'x step_process" where
  "process_trial_plan cl cv self acc w =
     (case trial_plan_request cv self acc of
        Inl e \<Rightarrow> (w, Inl e)
      | Inr (existing, request) \<Rightarrow>
          returning (trial_plan_output_from_dict cv)
            (guarded_call cl self (get_or_create_subscription_plan cl existing request) w))"

definition paid_plan_request :: "'x clients \<Rightarrow> converter \<Rightarrow> workflow_step \<Rightarrow> step_output accumulated \<Rightarrow> 'x prov_world
    \<Rightarrow> ((string \<times> json) list list \<times> plan_request) result" where
  "paid_plan_request cl cv self acc w =
     rbind (paid_plan_input_from_dict cv (uw_input_data self)) (\<lambda>i.
       case i of
         Paid_Plan_Input p \<Rightarrow>
           rbind (plan_catalog_uuid (ppi_enterprise_catalog_uuid p) acc) (\<lambda>catalog.
           rbind (agreement_of acc) (\<lambda>a.
           rbind (case ppi_start_date p of
                    Some t \<Rightarrow> Inr t | None \<Rightarrow> rbind (trial_plan_of acc) (\<lambda>t. Inr (pl_expiration_date t))) (\<lambda>start.
           rbind (trial_input cv self w) (\<lambda>trial.
             Inr (ag_subscriptions a,
               \<lparr>pr_customer_agreement_uuid = ag_uuid a, pr_title = ppi_title p,
                pr_salesforce_opportunity_line_item = ppi_salesforce_opportunity_line_item p,
                pr_start_date = start,
                pr_expiration_date = (case ppi_expiration_date p of Some t \<Rightarrow> t | None \<Rightarrow> cl_add_year cl start),
                pr_desired_num_licenses = tpi_desired_num_licenses trial, pr_enterprise_catalog_uuid = catalog,
                pr_product_id = ppi_product_id p\<rparr>)))))
       | _ \<Rightarrow> Inl AttributeError)"

definition process_paid_plan :: "'x clients \<Rightarrow> converter \<Rightarrow> 'x step_process" where
  "process_paid_plan cl cv self acc w =
     (case paid_plan_request cl cv self acc w of
        Inl e \<Rightarrow> (w, Inl e)
      | Inr (existing, request) \<Rightarrow>
          returning (paid_plan_output_from_dict cv)
            (guarded_call cl self (get_or_create_subscription_plan cl existing request) w))"

text \<open>The newest summary of an intent that names a subscription; rows without a time come last.\<close>

definition get_latest_for_checkout_intent :: "event_summary list \<Rightarrow> checkout_intent \<Rightarrow> event_summary option" where
  "get_latest_for_checkout_intent summaries i =
     (let found = filter (\<lambda>s. es_checkout_intent s = ci_pk i \<and> es_stripe_subscription_id s \<noteq> None) summaries
      in case sort_key (\<lambda>s. - the (es_stripe_event_created_at s)) (filter (\<lambda>s. es_stripe_event_created_at s \<noteq> None) found)
              @ filter (\<lambda>s. es_stripe_event_created_at s = None) found of
           [] \<Rightarrow> None | s # _ \<Rightarrow> Some s)"

text \<open>\<open>update_or_create\<close>; an event belongs to at most one tracking record.\<close>

definition track_renewal ::
    "checkout_intent \<Rightarrow> int \<Rightarrow> uuid option \<Rightarrow> uuid option \<Rightarrow> event_summary \<Rightarrow> renewal_tracking list \<Rightarrow> renewal_tracking list result" where
  "track_renewal i renewal_id prior renewed summary rows =
     (let key = (\<lambda>r. (sw_checkout_intent r, sw_subscription_plan_renewal_id r));
          taken = filter (\<lambda>r. key r \<noteq> (ci_pk i, renewal_id) \<and> sw_stripe_event_data r = es_event_id summary) rows \<noteq> [];
          put = (\<lambda>r. r\<lparr>sw_stripe_subscription_id := es_stripe_subscription_id summary,
                        sw_stripe_event_data := es_event_id summary, sw_prior_subscription_plan_uuid := prior,
                        sw_renewed_subscription_plan_uuid := renewed\<rparr>)
      in case get_one (filter (\<lambda>r. key r = (ci_pk i, renewal_id)) rows) of
           Multiple_Objects \<Rightarrow> Inl MultipleObjectsReturned
         | Found r \<Rightarrow> if taken then Inl IntegrityError else Inr (put_row key (put r) rows)
         | Does_Not_Exist \<Rightarrow>
             if taken then Inl IntegrityError
             else Inr (rows @ [put \<lparr>sw_checkout_intent = ci_pk i, sw_subscription_plan_renewal_id = renewal_id,
                    sw_prior_subscription_plan_uuid = None, sw_renewed_subscription_plan_uuid = None,
                    sw_stripe_event_data = [], sw_stripe_subscription_id = None, sw_processed_at = None\<rparr>]))"

definition renewal_plan_request :: "converter \<Rightarrow> workflow_step \<Rightarrow> step_output accumulated \<Rightarrow> 'x prov_world \<Rightarrow> renewal_request result" where
  "renewal_plan_request cv self acc w =
     rbind (trial_plan_of acc) (\<lambda>trial.
     rbind (paid_plan_of acc) (\<lambda>paid.
     rbind (trial_input cv self w) (\<lambda>input.
       Inr \<lparr>rr_prior_subscription_plan_uuid = pl_uuid trial, rr_renewed_subscription_plan_uuid = pl_uuid paid,
            rr_salesforce_opportunity_line_item_id = None, rr_effective_date = pl_expiration_date trial,
            rr_renewed_expiration_date = pl_expiration_date paid,
            rr_number_of_licenses = tpi_desired_num_licenses input\<rparr>)))"

definition save_renewal_tracking :: "workflow_step \<Rightarrow> json \<Rightarrow> 'x prov_world \<Rightarrow> 'x prov_world result" where
  "save_renewal_tracking self response w =
     rbind (get_linked_checkout_intent self w) (\<lambda>i.
       case get_latest_for_checkout_intent (pw_summaries w) i of
         None \<Rightarrow> Inl UnitOfWorkException
       | Some summary \<Rightarrow>
           rbind (item response ''id'') (\<lambda>id.
           rbind (item response ''prior_subscription_plan'') (\<lambda>prior.
           rbind (item response ''renewed_subscription_plan'') (\<lambda>renewed.
           case (id, uuid_field prior, uuid_field renewed) of
             (JNum n, Inr p, Inr q) \<Rightarrow>
               rbind (track_renewal i n p q summary (pw_renewals w)) (\<lambda>rows. Inr (w\<lparr>pw_renewals := rows\<rparr>))
           | _ \<Rightarrow> Inl ValidationError))))"

definition process_renewal :: "'x clients \<Rightarrow> converter \<Rightarrow> 'x step_process" where
  "process_renewal cl cv self acc w =
     (case renewal_plan_request cv self acc w of
        Inl e \<Rightarrow> (w, Inl e)
      | Inr request \<Rightarrow>
          returning (renewal_output_from_dict cv)
            (with_intents (guarded_call cl self (get_or_create_subscription_plan_renewal cl request) w)
              (save_renewal_tracking self)))"

definition process_notification :: "'x clients \<Rightarrow> converter \<Rightarrow> 'x step_process" where
  "process_notification cl cv self acc w =
     (case fulfill_checkout_intent self w of
        Inl e \<Rightarrow> (w, Inl (if e = DoesNotExist then UnitOfWorkException else e))
      | Inr w1 \<Rightarrow>
          (w1\<lparr>pw_emails := pw_emails w1 @
             (case rbind (trial_input cv self w1) (\<lambda>input. rbind (trial_plan_of acc) (\<lambda>trial. rbind (customer_of acc) (\<lambda>c.
                     Inr (pl_start_date trial, pl_expiration_date trial, tpi_desired_num_licenses input, cu_name c, cu_slug c)))) of
                Inl _ \<Rightarrow> [] | Inr mail \<Rightarrow> [mail])\<rparr>,
           rbind (trial_input cv self w1) (\<lambda>_. rbind (trial_plan_of acc) (\<lambda>_. rbind (customer_of acc) (\<lambda>_.
             notification_output_from_dict (JObj []))))))"

section \<open>The workflow\<close>

definition provisioning_step ::
    "string \<Rightarrow> (json \<Rightarrow> step_input result) \<Rightarrow> (json \<Rightarrow> step_output result) \<Rightarrow> 'x step_process
       \<Rightarrow> (step_input, step_output, 'x prov_world) step_class" where
  "provisioning_step key from_input from_output process =
     \<lparr>sc_name = key, sc_input_key = key @ ''_input'', sc_output_key = key @ ''_output'',
      sc_input_from_dict = from_input, sc_input_to_dict = input_to_dict,
      sc_output_from_dict = from_output, sc_output_to_dict = (\<lambda>x. Inr (output_dict x)),
      sc_process_input = process, sc_exception_class = UnitOfWorkException\<rparr>"

definition steps ::
    "'x clients \<Rightarrow> converter \<Rightarrow> (step_input, step_output, 'x prov_world) step_class list" where
  "steps cl cv =
     [provisioning_step ''create_customer'' (customer_input_from_dict cv) (customer_output_from_dict cv)
        (process_customer cl cv),
      provisioning_step ''create_enterprise_admin_users'' (admin_users_input_from_dict cv) (admin_users_output_from_dict cv)
        (process_admin_users cl cv),
      provisioning_step ''create_catalog'' (catalog_input_from_dict cv) (catalog_output_from_dict cv)
        (process_catalog cl cv),
      provisioning_step ''create_customer_agreement'' agreement_input_from_dict agreement_output_from_dict
        (process_agreement cl cv),
      provisioning_step ''create_trial_subscription_plan'' (trial_plan_input_from_dict cv) (trial_plan_output_from_dict cv)
        (process_trial_plan cl cv),
      provisioning_step ''create_first_paid_subscription_plan'' (paid_plan_input_from_dict cv) (paid_plan_output_from_dict cv)
        (process_paid_plan cl cv),
      provisioning_step ''create_subscription_plan_renewal'' (\<lambda>v. rbind (structure_dict v) (\<lambda>_. Inr Renewal_Input))
        (renewal_output_from_dict cv) (process_renewal cl cv),
      provisioning_step ''notification'' (\<lambda>v. rbind (structure_dict v) (\<lambda>_. Inr Notification_Input))
        notification_output_from_dict (process_notification cl cv)]"

definition generate_input_dict ::
    "json \<Rightarrow> string list \<Rightarrow> json option \<Rightarrow> json option \<Rightarrow> json \<Rightarrow> json \<Rightarrow> json" where
  "generate_input_dict customer admin_emails catalog agreement trial_plan paid_plan =
     (let or_empty = (\<lambda>v. case v of Some d \<Rightarrow> if json_truthy d then d else JObj [] | None \<Rightarrow> JObj [])
      in JObj [(''create_customer_input'', customer),
               (''create_enterprise_admin_users_input'', JObj [(''user_emails'', JList (map JStr admin_emails))]),
               (''create_catalog_input'', or_empty catalog),
               (''create_customer_agreement_input'', or_empty agreement),
               (''create_trial_subscription_plan_input'', trial_plan),
               (''create_first_paid_subscription_plan_input'', paid_plan),
               (''create_subscription_plan_renewal_input'', JObj []),
               (''notification_input'', JObj [])])"

section \<open>Resuming provisioning\<close>

lemma returning_Inr: "returning f m = (w, Inr x) \<Longrightarrow> \<exists>d. f d = Inr x"
  by (cases m) (auto simp: returning_def rbind_Inr_iff)

text \<open>What a step returns is the conversion of a response.\<close>

lemma processed_outputs:
  "process_customer cl cv r acc w = (w', Inr x) \<Longrightarrow> \<exists>d. customer_output_from_dict cv d = Inr x"
  "process_admin_users cl cv r acc w = (w', Inr x) \<Longrightarrow> \<exists>d. admin_users_output_from_dict cv d = Inr x"
  "process_catalog cl cv r acc w = (w', Inr x) \<Longrightarrow> \<exists>d. catalog_output_from_dict cv d = Inr x"
  "process_agreement cl cv r acc w = (w', Inr x) \<Longrightarrow> \<exists>d. agreement_output_from_dict d = Inr x"
  "process_trial_plan cl cv r acc w = (w', Inr x) \<Longrightarrow> \<exists>d. trial_plan_output_from_dict cv d = Inr x"
  "process_paid_plan cl cv r acc w = (w', Inr x) \<Longrightarrow> \<exists>d. paid_plan_output_from_dict cv d = Inr x"
  "process_renewal cl cv r acc w = (w', Inr x) \<Longrightarrow> \<exists>d. renewal_output_from_dict cv d = Inr x"
  by (auto simp: process_customer_def process_admin_users_def process_catalog_def process_agreement_def
      process_trial_plan_def process_paid_plan_def process_renewal_def split: sum.splits step_input.splits prod.splits
      dest!: returning_Inr)

lemma provisioning_step_durable:
  assumes "from_output \<in> set (output_conversions cv)"
    and "\<And>r acc w w' x. process r acc w = (w', Inr x) \<Longrightarrow> (\<exists>d. from_output d = Inr x) \<and> x \<noteq> Notification_Output"
  shows "durable (provisioning_step key from_input from_output process)"
  using assms(2) conversions_round_trip [OF assms(1)] output_dict_truthy
  by (fastforce simp: durable_def provisioning_step_def)

lemma conversions_not_empty:
  "customer_output_from_dict cv d = Inr x \<Longrightarrow> x \<noteq> Notification_Output"
  "admin_users_output_from_dict cv d = Inr x \<Longrightarrow> x \<noteq> Notification_Output"
  "catalog_output_from_dict cv d = Inr x \<Longrightarrow> x \<noteq> Notification_Output"
  "agreement_output_from_dict d = Inr x \<Longrightarrow> x \<noteq> Notification_Output"
  "trial_plan_output_from_dict cv d = Inr x \<Longrightarrow> x \<noteq> Notification_Output"
  "paid_plan_output_from_dict cv d = Inr x \<Longrightarrow> x \<noteq> Notification_Output"
  "renewal_output_from_dict cv d = Inr x \<Longrightarrow> x \<noteq> Notification_Output"
  by (auto simp: customer_output_from_dict_def admin_users_output_from_dict_def catalog_output_from_dict_def
      agreement_output_from_dict_def trial_plan_output_from_dict_def paid_plan_output_from_dict_def
      renewal_output_from_dict_def rbind_Inr_iff split: if_splits)

lemma steps_durable:
  assumes "c \<in> set (butlast (steps cl cv))"
  shows "durable c"
proof -
  have "durable (provisioning_step ''create_customer'' (customer_input_from_dict cv) (customer_output_from_dict cv) (process_customer cl cv))"
    "durable (provisioning_step ''create_enterprise_admin_users'' (admin_users_input_from_dict cv) (admin_users_output_from_dict cv)
        (process_admin_users cl cv))"
    "durable (provisioning_step ''create_catalog'' (catalog_input_from_dict cv) (catalog_output_from_dict cv) (process_catalog cl cv))"
    "durable (provisioning_step ''create_customer_agreement'' agreement_input_from_dict agreement_output_from_dict (process_agreement cl cv))"
    "durable (provisioning_step ''create_trial_subscription_plan'' (trial_plan_input_from_dict cv) (trial_plan_output_from_dict cv)
        (process_trial_plan cl cv))"
    "durable (provisioning_step ''create_first_paid_subscription_plan'' (paid_plan_input_from_dict cv) (paid_plan_output_from_dict cv)
        (process_paid_plan cl cv))"
    "durable (provisioning_step ''create_subscription_plan_renewal'' (\<lambda>v. rbind (structure_dict v) (\<lambda>_. Inr Renewal_Input))
        (renewal_output_from_dict cv) (process_renewal cl cv))"
    by (rule provisioning_step_durable [where cv = cv], simp add: output_conversions_def,
        blast dest: processed_outputs conversions_not_empty)+
  then show ?thesis using assms unfolding steps_def by auto
qed

interpretation provisioning: resumable "steps cl cv" for cl cv
proof
  show "distinct (map sc_name (steps cl cv))" by (simp add: steps_def provisioning_step_def)
qed (rule steps_durable)

end
