(* ===== verification/Stripe_Events.thy ===== *)
theory Stripe_Events
  imports Stripe_Api Provisioning Api_Client
begin

text \<open>
  The events of Stripe: \<open>stripe_event_handlers.py\<close>, the models \<open>StripeEventData\<close>,
  \<open>StripeEventSummary\<close> and \<open>SelfServiceSubscriptionRenewal\<close> of \<open>customer_billing/models.py\<close>, and the
  signal of \<open>signals.py\<close> that keeps the summaries.

  The object of an event is a document, and a Stripe object is a dictionary whose entries are also its
  attributes. Every save commits by itself. Parameters are the clock, Python's \<open>int\<close>, \<open>str\<close> and
  \<open>Decimal\<close> on values of the document (\<open>Decimal\<close> as a number of \<open>10\<^sup>-\<^sup>1\<^sup>2\<close>, the precision of the
  column), \<open>str\<close> on UUIDs, the conversions of the provisioning steps, the Stripe package and the HTTP
  clients. Lengths of columns and the range of \<open>datetime\<close> are not modelled.
\<close>

section \<open>Events, their data and their summaries\<close>

record stripe_event =
  ev_id :: string
  ev_type :: string
  ev_created :: int
  ev_object :: json
  ev_rest :: "(string \<times> json) list"

definition event_dict :: "stripe_event \<Rightarrow> json" where
  "event_dict e =
     JObj ([(''id'', JStr (ev_id e)), (''type'', JStr (ev_type e)), (''created'', JNum (ev_created e)),
            (''data'', JObj [(''object'', ev_object e)])] @ ev_rest e)"

record stripe_event_data =
  sd_event_id :: string
  sd_event_type :: string
  sd_checkout_intent :: "nat option"
  sd_data :: json
  sd_handled_at :: "datetime option"

record stripe_event_summary =
  ss_stripe_event_data :: string
  ss_event_id :: string
  ss_event_type :: string
  ss_stripe_event_created_at :: "datetime option"
  ss_checkout_intent :: "nat option"
  ss_subscription_plan_uuid :: "uuid option"
  ss_currency :: "string option"
  ss_stripe_object_type :: "string option"
  ss_stripe_subscription_id :: "string option"
  ss_stripe_invoice_id :: "string option"
  ss_subscription_status :: "string option"
  ss_subscription_period_start :: "datetime option"
  ss_subscription_period_end :: "datetime option"
  ss_invoice_amount_paid :: "int option"
  ss_invoice_unit_amount :: "int option"
  ss_invoice_unit_amount_decimal :: "int option"
  ss_invoice_quantity :: "int option"
  ss_invoice_currency :: "string option"
  ss_upcoming_invoice_amount_due :: "int option"

definition new_summary :: "stripe_event_data \<Rightarrow> stripe_event_summary" where
  "new_summary d =
     \<lparr>ss_stripe_event_data = sd_event_id d, ss_event_id = [], ss_event_type = [], ss_stripe_event_created_at = None,
      ss_checkout_intent = None, ss_subscription_plan_uuid = None, ss_currency = None, ss_stripe_object_type = None,
      ss_stripe_subscription_id = None, ss_stripe_invoice_id = None, ss_subscription_status = None,
      ss_subscription_period_start = None, ss_subscription_period_end = None, ss_invoice_amount_paid = None,
      ss_invoice_unit_amount = None, ss_invoice_unit_amount_decimal = None, ss_invoice_quantity = None,
      ss_invoice_currency = None, ss_upcoming_invoice_amount_due = None\<rparr>"

datatype billing_mail =
    Payment_Receipt json json "string option" "string option"
  | Trial_Ending_Reminder "nat option"
  | Trial_End_And_Subscription_Started json "nat option"
  | Trial_Cancellation "nat option" json
  | Billing_Error "nat option"

record 'x billing_env =
  be_now :: datetime
  be_graceful :: bool
  be_int :: "json \<Rightarrow> int result"
  be_str :: "json \<Rightarrow> string"
  be_decimal :: "json \<Rightarrow> int result"
  be_uuid_text :: "uuid \<Rightarrow> string"
  be_converter :: converter
  be_stripe :: "'x stripe"
  be_api :: "'x api"

record 'x billing =
  bw_services :: "stripe_store \<times> 'x"
  bw_intents :: "checkout_intent list"
  bw_events :: "stripe_event_data list"
  bw_summaries :: "stripe_event_summary list"
  bw_renewals :: "renewal_tracking list"
  bw_steps :: "workflow_step list"
  bw_mails :: "billing_mail list"

text \<open>Values on their way to a text or an integer column, \<open>None\<close> staying \<open>None\<close>, and to \<open>int(x)\<close>.\<close>

definition text_column :: "'x billing_env \<Rightarrow> json \<Rightarrow> string option" where
  "text_column env v = (case v of JNull \<Rightarrow> None | JStr s \<Rightarrow> Some s | _ \<Rightarrow> Some (be_str env v))"

definition to_int :: "'x billing_env \<Rightarrow> json \<Rightarrow> int result" where
  "to_int env v = (case v of JNum n \<Rightarrow> Inr n | _ \<Rightarrow> be_int env v)"

definition int_column :: "'x billing_env \<Rightarrow> json \<Rightarrow> int option result" where
  "int_column env v = (if v = JNull then Inr None else rbind (to_int env v) (\<lambda>n. Inr (Some n)))"

definition starts_with :: "string \<Rightarrow> string \<Rightarrow> bool" where
  "starts_with prefix s \<longleftrightarrow> take (length prefix) s = prefix"

definition datetime_from_timestamp :: "int \<Rightarrow> datetime" where
  "datetime_from_timestamp t = t * 1000000"

definition timestamp_to_datetime :: "json \<Rightarrow> datetime option result" where
  "timestamp_to_datetime v =
     (if \<not> json_truthy v then Inr None
      else case v of
        JNum n \<Rightarrow> Inr (Some (datetime_from_timestamp n))
      | JBool b \<Rightarrow> Inr (Some (datetime_from_timestamp 1))
      | _ \<Rightarrow> Inl TypeError)"

section \<open>The summary of an event\<close>

definition intent_with_pk :: "'x billing \<Rightarrow> nat option \<Rightarrow> checkout_intent option" where
  "intent_with_pk w pk = (if pk = None then None else find (\<lambda>i. ci_pk i = pk) (bw_intents w))"

text \<open>The plan of the trial step of the workflow of an intent, if its output can be read.\<close>

definition trial_plan_uuid :: "'x billing_env \<Rightarrow> 'x billing \<Rightarrow> checkout_intent option \<Rightarrow> uuid option" where
  "trial_plan_uuid env w i =
     (case Option.bind i ci_workflow of
        None \<Rightarrow> None
      | Some workflow \<Rightarrow>
          (case sort_key uw_uuid (step_rows ''create_trial_subscription_plan'' workflow (bw_steps w)) of
             [] \<Rightarrow> None
           | s # _ \<Rightarrow>
               (case output_object (trial_plan_output_from_dict (be_converter env)) s of
                  Inr (Some (Trial_Plan_Output p)) \<Rightarrow> Some (pl_uuid p)
                | _ \<Rightarrow> None)))"

definition populate_subscription ::
    "'x billing_env \<Rightarrow> json \<Rightarrow> stripe_event_summary \<Rightarrow> stripe_event_summary result" where
  "populate_subscription env subscription_obj s =
     rbind (attr subscription_obj ''id'') (\<lambda>id.
     rbind (json_get subscription_obj ''status'' JNull) (\<lambda>status.
     rbind (json_get subscription_obj ''currency'' JNull) (\<lambda>currency.
     let s = s\<lparr>ss_stripe_subscription_id := text_column env id, ss_subscription_status := text_column env status,
               ss_currency := text_column env currency\<rparr> in
     rbind (json_contains subscription_obj ''items'') (\<lambda>has_items.
     rbind (if has_items then rbind (item subscription_obj ''items'') (\<lambda>items. json_get items ''data'' (JList [])) else Inr JNull) (\<lambda>data.
     if \<not> json_truthy data then Inr s
     else
       rbind (json_first data) (\<lambda>first_item.
       rbind (rbind (json_get first_item ''current_period_start'' JNull) timestamp_to_datetime) (\<lambda>start.
       rbind (rbind (json_get first_item ''current_period_end'' JNull) timestamp_to_datetime) (\<lambda>stop.
         Inr (s\<lparr>ss_subscription_period_start := start, ss_subscription_period_end := stop\<rparr>)))))))))"

definition populate_invoice ::
    "'x billing_env \<Rightarrow> json \<Rightarrow> stripe_event_summary \<Rightarrow> stripe_event_summary result" where
  "populate_invoice env invoice_obj s =
     rbind (attr invoice_obj ''id'') (\<lambda>id.
     let s = s\<lparr>ss_stripe_invoice_id := text_column env id\<rparr>;
         subscription = rbind (attr invoice_obj ''parent'') (\<lambda>p. rbind (attr p ''subscription_details'') (\<lambda>d. attr d ''subscription''));
         s = (case subscription of Inl _ \<Rightarrow> s | Inr v \<Rightarrow> s\<lparr>ss_stripe_subscription_id := text_column env v\<rparr>) in
     rbind (rbind (json_get invoice_obj ''amount_paid'' JNull) (int_column env)) (\<lambda>amount_paid.
     rbind (json_get invoice_obj ''currency'' JNull) (\<lambda>currency.
     let s = s\<lparr>ss_invoice_amount_paid := amount_paid, ss_invoice_currency := text_column env currency\<rparr> in
     rbind (rbind (json_get invoice_obj ''lines'' (JObj [])) (\<lambda>lines. json_get lines ''data'' (JList []))) (\<lambda>lines.
     if \<not> json_truthy lines then Inr s
     else
       rbind (json_first lines) (\<lambda>primary_line.
       rbind (attr primary_line ''pricing'') (\<lambda>pricing.
       rbind (rbind (attr pricing ''unit_amount_decimal'') (be_decimal env)) (\<lambda>unit_amount_decimal.
       rbind (rbind (attr primary_line ''quantity'') (int_column env)) (\<lambda>quantity.
       rbind (int_column env (getattr pricing ''unit_amount'' JNull)) (\<lambda>unit_amount.
         Inr (s\<lparr>ss_invoice_unit_amount_decimal := Some unit_amount_decimal, ss_invoice_quantity := quantity,
                ss_invoice_unit_amount :=
                  (case unit_amount of None \<Rightarrow> Some (trunc_div unit_amount_decimal (10 ^ 12)) | Some n \<Rightarrow> Some n)\<rparr>))))))))))"

definition populate_with_summary_data ::
    "'x billing_env \<Rightarrow> 'x billing \<Rightarrow> stripe_event_data \<Rightarrow> stripe_event_summary \<Rightarrow> stripe_event_summary result" where
  "populate_with_summary_data env w d s =
     (let s = s\<lparr>ss_event_id := sd_event_id d, ss_event_type := sd_event_type d, ss_checkout_intent := sd_checkout_intent d\<rparr>;
          event_data = sd_data d in
      rbind (json_contains event_data ''created'') (\<lambda>has_created.
      rbind (if has_created then rbind (item event_data ''created'') timestamp_to_datetime
             else Inr (ss_stripe_event_created_at s)) (\<lambda>created_at.
      let s = s\<lparr>ss_stripe_event_created_at := created_at\<rparr>;
          s = (case trial_plan_uuid env w (intent_with_pk w (sd_checkout_intent d)) of
                 None \<Rightarrow> s | Some u \<Rightarrow> s\<lparr>ss_subscription_plan_uuid := Some u\<rparr>) in
      rbind (rbind (json_get event_data ''data'' (JObj [])) (\<lambda>v. json_get v ''object'' (JObj []))) (\<lambda>stripe_object_data.
      rbind (item stripe_object_data ''object'') (\<lambda>object_type.
      rbind (rbind (item event_data ''data'') (\<lambda>v. item v ''object'')) (\<lambda>stripe_object.
      let s = s\<lparr>ss_stripe_object_type := text_column env object_type\<rparr> in
      if object_type = JStr ''subscription'' \<or> starts_with ''customer.subscription'' (sd_event_type d)
      then populate_subscription env stripe_object s
      else if object_type = JStr ''invoice'' \<or> starts_with ''invoice'' (sd_event_type d)
      then populate_invoice env stripe_object s
      else Inr s))))))"

text \<open>
  The signal after a save: a summary that cannot be computed is left as it was, or missing.
\<close>

definition create_stripe_event_summary ::
    "'x billing_env \<Rightarrow> stripe_event_data \<Rightarrow> bool \<Rightarrow> 'x billing \<Rightarrow> 'x billing" where
  "create_stripe_event_summary env d created w =
     (case if created then None else find (\<lambda>s. ss_stripe_event_data s = sd_event_id d) (bw_summaries w) of
        None \<Rightarrow>
          (case populate_with_summary_data env w d (new_summary d) of
             Inl _ \<Rightarrow> w
           | Inr s \<Rightarrow> w\<lparr>bw_summaries := bw_summaries w @ [s]\<rparr>)
      | Some s0 \<Rightarrow>
          (case populate_with_summary_data env w d s0 of
             Inl _ \<Rightarrow> w
           | Inr s \<Rightarrow> w\<lparr>bw_summaries := put_row ss_stripe_event_data s (bw_summaries w)\<rparr>))"

definition insert_event_data :: "'x billing_env \<Rightarrow> stripe_event_data \<Rightarrow> 'x billing \<Rightarrow> 'x billing" where
  "insert_event_data env d w = create_stripe_event_summary env d True (w\<lparr>bw_events := bw_events w @ [d]\<rparr>)"

definition save_event_data :: "'x billing_env \<Rightarrow> stripe_event_data \<Rightarrow> 'x billing \<Rightarrow> 'x billing" where
  "save_event_data env d w = create_stripe_event_summary env d False (w\<lparr>bw_events := put_row sd_event_id d (bw_events w)\<rparr>)"

text \<open>Newest first; rows without a time come last.\<close>

definition newest_first :: "stripe_event_summary list \<Rightarrow> stripe_event_summary list" where
  "newest_first rows =
     sort_key (\<lambda>s. - the (ss_stripe_event_created_at s)) (filter (\<lambda>s. ss_stripe_event_created_at s \<noteq> None) rows)
       @ filter (\<lambda>s. ss_stripe_event_created_at s = None) rows"

definition first_row :: "'r list \<Rightarrow> 'r option" where
  "first_row rows = (case rows of [] \<Rightarrow> None | r # _ \<Rightarrow> Some r)"

definition previous_summary :: "stripe_event \<Rightarrow> checkout_intent \<Rightarrow> stripe_event_summary list \<Rightarrow> stripe_event_summary option" where
  "previous_summary e self rows =
     first_row (newest_first (filter (\<lambda>s.
       ss_checkout_intent s = ci_pk self \<and>
       (case ss_stripe_event_created_at s of None \<Rightarrow> False | Some t \<Rightarrow> t < datetime_from_timestamp (ev_created e))) rows))"

definition get_latest_summary ::
    "checkout_intent \<Rightarrow> (stripe_event_summary \<Rightarrow> bool) \<Rightarrow> stripe_event_summary list \<Rightarrow> stripe_event_summary option" where
  "get_latest_summary i filter_kwargs rows =
     first_row (newest_first (filter (\<lambda>s. ss_checkout_intent s = ci_pk i \<and> filter_kwargs s) rows))"

definition get_latest_invoice_paid :: "string \<Rightarrow> stripe_event_summary list \<Rightarrow> stripe_event_summary option" where
  "get_latest_invoice_paid invoice_id rows =
     first_row (newest_first (filter (\<lambda>s. ss_stripe_invoice_id s = Some invoice_id \<and> ss_event_type s = ''invoice.paid'') rows))"

definition update_upcoming_invoice_amount_due ::
    "'x billing_env \<Rightarrow> stripe_event_summary \<Rightarrow> 'x billing \<Rightarrow> 'x billing \<times> unit result" where
  "update_upcoming_invoice_amount_due env self w =
     (case intent_with_pk w (ss_checkout_intent self) of
        None \<Rightarrow> (w, Inr ())
      | Some i \<Rightarrow>
          (case (ss_stripe_subscription_id self, ci_stripe_customer_id i) of
             (Some subscription, Some customer) \<Rightarrow>
               if subscription = [] \<or> customer = [] then (w, Inr ())
               else
                 (case get_upcoming_invoice (be_stripe env) customer subscription (bw_services w) of
                    (x, r) \<Rightarrow>
                      sbind (w\<lparr>bw_services := x\<rparr>, r) (\<lambda>upcoming_invoice w.
                      if \<not> json_truthy upcoming_invoice then (w, Inr ())
                      else
                        sbind (w, rbind (item upcoming_invoice ''amount_due'') (int_column env)) (\<lambda>amount_due w.
                          (w\<lparr>bw_summaries := put_row ss_stripe_event_data
                               (self\<lparr>ss_upcoming_invoice_amount_due := amount_due\<rparr>) (bw_summaries w)\<rparr>, Inr ()))))
           | _ \<Rightarrow> (w, Inr ())))"

section \<open>Helpers of the handlers\<close>

definition get_invoice_and_subscription :: "stripe_event \<Rightarrow> (json \<times> json) result" where
  "get_invoice_and_subscription e =
     rbind (attr (ev_object e) ''parent'') (\<lambda>parent.
     rbind (attr parent ''subscription_details'') (\<lambda>details. Inr (ev_object e, details)))"

definition get_checkout_intent_id_from_subscription :: "'x billing_env \<Rightarrow> json \<Rightarrow> int option result" where
  "get_checkout_intent_id_from_subscription env stripe_subscription =
     rbind (attr stripe_subscription ''metadata'') (\<lambda>metadata.
     rbind (json_contains metadata ''checkout_intent_id'') (\<lambda>present.
     if \<not> present then Inr None
     else rbind (rbind (item metadata ''checkout_intent_id'') (to_int env)) (\<lambda>n. Inr (Some n))))"

definition has_id :: "int option \<Rightarrow> checkout_intent \<Rightarrow> bool" where
  "has_id n i \<longleftrightarrow> (case (n, ci_pk i) of (Some n, Some k) \<Rightarrow> int k = n | _ \<Rightarrow> False)"

definition persist_stripe_event ::
    "'x billing_env \<Rightarrow> stripe_event \<Rightarrow> 'x billing \<Rightarrow> 'x billing \<times> stripe_event_data option result" where
  "persist_stripe_event env e w =
     sbind (w, if ev_type e = ''invoice.paid'' then rbind (get_invoice_and_subscription e) (\<lambda>(_, d). Inr d)
               else if starts_with ''customer.subscription'' (ev_type e) then Inr (ev_object e)
               else Inr JNull) (\<lambda>stripe_subscription w.
     if \<not> json_truthy stripe_subscription then (w, Inr None)
     else
       sbind (w, get_checkout_intent_id_from_subscription env stripe_subscription) (\<lambda>checkout_intent_id w.
       sbind (w, json_get (ev_object e) ''customer'' JNull) (\<lambda>customer w.
       let intent = find (\<lambda>i. has_id checkout_intent_id i \<and> ci_stripe_customer_id i = text_column env customer) (bw_intents w) in
       case find (\<lambda>d. sd_event_id d = ev_id e) (bw_events w) of
         Some d \<Rightarrow> (w, Inr (Some d))
       | None \<Rightarrow>
           (let d = \<lparr>sd_event_id = ev_id e, sd_event_type = ev_type e, sd_checkout_intent = Option.bind intent ci_pk,
                     sd_data = event_dict e, sd_handled_at = None\<rparr>
            in (insert_event_data env d w, Inr (Some d))))))"

definition get_checkout_intent_or_raise :: "int option \<Rightarrow> 'x billing \<Rightarrow> 'x billing \<times> checkout_intent result" where
  "get_checkout_intent_or_raise checkout_intent_id w =
     (w, case get_one (filter (has_id checkout_intent_id) (bw_intents w)) of
           Does_Not_Exist \<Rightarrow> Inl DoesNotExist
         | Multiple_Objects \<Rightarrow> Inl MultipleObjectsReturned
         | Found i \<Rightarrow> Inr i)"

definition get_event_data :: "stripe_event \<Rightarrow> 'x billing \<Rightarrow> 'x billing \<times> stripe_event_data result" where
  "get_event_data e w =
     (w, case get_one (filter (\<lambda>d. sd_event_id d = ev_id e) (bw_events w)) of
           Does_Not_Exist \<Rightarrow> Inl DoesNotExist
         | Multiple_Objects \<Rightarrow> Inl MultipleObjectsReturned
         | Found d \<Rightarrow> Inr d)"

definition link_event_data_to_checkout_intent ::
    "'x billing_env \<Rightarrow> stripe_event \<Rightarrow> checkout_intent \<Rightarrow> 'x billing \<Rightarrow> 'x billing \<times> unit result" where
  "link_event_data_to_checkout_intent env e i w =
     sbind (get_event_data e w) (\<lambda>d w.
       if sd_checkout_intent d = None then (save_event_data env (d\<lparr>sd_checkout_intent := ci_pk i\<rparr>) w, Inr ())
       else (w, Inr ()))"

text \<open>The positions of the unprocessed renewals of an intent, newest first.\<close>

definition unprocessed_renewals :: "checkout_intent \<Rightarrow> renewal_tracking list \<Rightarrow> nat list" where
  "unprocessed_renewals i rows =
     filter (\<lambda>k. sw_checkout_intent (rows ! k) = ci_pk i \<and> sw_processed_at (rows ! k) = None) (rev [0..<length rows])"

definition on_external :: "('x \<Rightarrow> 'x \<times> 'a) \<Rightarrow> 'x billing \<Rightarrow> 'x billing \<times> 'a" where
  "on_external call w =
     (case call (snd (bw_services w)) of (x, r) \<Rightarrow> (w\<lparr>bw_services := (fst (bw_services w), x)\<rparr>, r))"

fun deactivate_plans :: "'x billing_env \<Rightarrow> renewal_tracking list \<Rightarrow> 'x billing \<Rightarrow> 'x billing \<times> unit result" where
  "deactivate_plans env [] w = (w, Inr ())"
| "deactivate_plans env (r # rs) w =
     sbind (on_external (update_subscription_plan (be_api env)
              (case sw_renewed_subscription_plan_uuid r of None \<Rightarrow> ''None'' | Some u \<Rightarrow> be_uuid_text env u)
              JNull [(''is_active'', JBool False)]) w) (\<lambda>_. deactivate_plans env rs)"

definition cancel_all_future_plans :: "'x billing_env \<Rightarrow> checkout_intent \<Rightarrow> 'x billing \<Rightarrow> 'x billing \<times> unit result" where
  "cancel_all_future_plans env i w =
     deactivate_plans env (map (\<lambda>k. bw_renewals w ! k) (unprocessed_renewals i (bw_renewals w))) w"

definition mark_as_processed :: "datetime \<Rightarrow> renewal_tracking \<Rightarrow> renewal_tracking" where
  "mark_as_processed now self = self\<lparr>sw_processed_at := Some now\<rparr>"

text \<open>
  An event belongs to at most one renewal and a renewal has a subscription: a save that breaks this raises.
\<close>

definition process_trial_to_paid_renewal ::
    "'x billing_env \<Rightarrow> checkout_intent \<Rightarrow> json \<Rightarrow> stripe_event \<Rightarrow> 'x billing \<Rightarrow> 'x billing \<times> unit result" where
  "process_trial_to_paid_renewal env i stripe_subscription_id e w =
     (case unprocessed_renewals i (bw_renewals w) of
        [] \<Rightarrow> (w, Inr ())
      | k # _ \<Rightarrow>
          sbind (get_event_data e w) (\<lambda>d w.
          let rows = bw_renewals w;
              r = (rows ! k)\<lparr>sw_stripe_event_data := sd_event_id d,
                             sw_stripe_subscription_id := text_column env stripe_subscription_id\<rparr>;
              taken = (\<exists>j \<in> set [0..<length rows]. j \<noteq> k \<and> sw_stripe_event_data (rows ! j) = sd_event_id d)
          in if taken \<or> sw_stripe_subscription_id r = None then (w, Inl IntegrityError)
             else
               sbind (on_external (process_subscription_plan_renewal (be_api env) (sw_subscription_plan_renewal_id r))
                        (w\<lparr>bw_renewals := rows[k := r]\<rparr>)) (\<lambda>_ w.
                 (w\<lparr>bw_renewals := (bw_renewals w)[k := mark_as_processed (be_now env) r]\<rparr>, Inr ()))))"

section \<open>The handlers\<close>

definition queue_mail :: "billing_mail \<Rightarrow> 'x billing \<Rightarrow> 'x billing" where
  "queue_mail m w = w\<lparr>bw_mails := bw_mails w @ [m]\<rparr>"

text \<open>\<open>except CheckoutIntent.DoesNotExist: return\<close>.\<close>

definition unless_missing ::
    "'x billing \<times> checkout_intent result \<Rightarrow> (checkout_intent \<Rightarrow> 'x billing \<Rightarrow> 'x billing \<times> unit result) \<Rightarrow> 'x billing \<times> unit result" where
  "unless_missing found k = (case found of (w, Inl DoesNotExist) \<Rightarrow> (w, Inr ()) | _ \<Rightarrow> sbind found k)"

definition invoice_paid :: "'x billing_env \<Rightarrow> stripe_event \<Rightarrow> 'x billing \<Rightarrow> 'x billing \<times> unit result" where
  "invoice_paid env e w =
     sbind (w, get_invoice_and_subscription e) (\<lambda>(invoice, subscription_details) w.
     sbind (w, item invoice ''customer'') (\<lambda>stripe_customer_id w.
     sbind (w, get_checkout_intent_id_from_subscription env subscription_details) (\<lambda>checkout_intent_id w.
     unless_missing (get_checkout_intent_or_raise checkout_intent_id w) (\<lambda>i w.
     case mark_as_paid None (text_column env stripe_customer_id) (be_now env) i of
       Inl exc \<Rightarrow> (w, rbind (attr invoice ''id'') (\<lambda>_. if be_graceful env then Inr () else Inl exc))
     | Inr i \<Rightarrow>
         sbind (w\<lparr>bw_intents := put_row ci_pk i (bw_intents w)\<rparr>, attr invoice ''id'') (\<lambda>invoice_id w.
         sbind (link_event_data_to_checkout_intent env e i w) (\<lambda>_ w.
           (queue_mail (Payment_Receipt invoice_id invoice (ci_enterprise_name i) (ci_enterprise_slug i)) w, Inr ())))))))"

definition trial_will_end :: "'x billing_env \<Rightarrow> stripe_event \<Rightarrow> 'x billing \<Rightarrow> 'x billing \<times> unit result" where
  "trial_will_end env e w =
     sbind (w, get_checkout_intent_id_from_subscription env (ev_object e)) (\<lambda>checkout_intent_id w.
     unless_missing (get_checkout_intent_or_raise checkout_intent_id w) (\<lambda>i w.
     sbind (link_event_data_to_checkout_intent env e i w) (\<lambda>_ w.
     sbind (w, attr (ev_object e) ''id'') (\<lambda>_ w.
       (queue_mail (Trial_Ending_Reminder (ci_pk i)) w, Inr ())))))"

definition payment_method_attached :: "'x billing_env \<Rightarrow> stripe_event \<Rightarrow> 'x billing \<Rightarrow> 'x billing \<times> unit result" where
  "payment_method_attached env e w = (w, Inr ())"

definition get_summary :: "stripe_event \<Rightarrow> 'x billing \<Rightarrow> 'x billing \<times> stripe_event_summary result" where
  "get_summary e w =
     (w, case get_one (filter (\<lambda>s. ss_event_id s = ev_id e) (bw_summaries w)) of
           Does_Not_Exist \<Rightarrow> Inl DoesNotExist
         | Multiple_Objects \<Rightarrow> Inl MultipleObjectsReturned
         | Found s \<Rightarrow> Inr s)"

definition subscription_created :: "'x billing_env \<Rightarrow> stripe_event \<Rightarrow> 'x billing \<Rightarrow> 'x billing \<times> unit result" where
  "subscription_created env e w =
     sbind (w, get_checkout_intent_id_from_subscription env (ev_object e)) (\<lambda>checkout_intent_id w.
     sbind (get_checkout_intent_or_raise checkout_intent_id w) (\<lambda>i w.
     sbind (link_event_data_to_checkout_intent env e i w) (\<lambda>_ w.
     sbind (w, attr (ev_object e) ''id'') (\<lambda>subscription_id w.
     sbind (case on_external (be_stripe env (Modify_Subscription subscription_id ''pending_if_incomplete'')) w of
              (w, r) \<Rightarrow> (w, if r = Inl StripeError then Inr JNull else r)) (\<lambda>_ w.
     sbind (get_summary e w) (\<lambda>summary w.
     case update_upcoming_invoice_amount_due env summary w of
       (w, r) \<Rightarrow> (w, if r = Inl StripeError \<and> be_graceful env then Inr () else r)))))))"

text \<open>\<open>subscription.id\<close> is read by the messages of the branches that are taken.\<close>

definition handle_pending_update :: "stripe_event \<Rightarrow> 'x billing \<Rightarrow> 'x billing \<times> unit result" where
  "handle_pending_update e w =
     (w, if json_truthy (getattr (ev_object e) ''pending_update'' JNull)
         then rbind (attr (ev_object e) ''id'') (\<lambda>_. Inr ()) else Inr ())"

definition trial_to_paid ::
    "'x billing_env \<Rightarrow> stripe_event \<Rightarrow> checkout_intent \<Rightarrow> string option \<Rightarrow> json \<Rightarrow> 'x billing \<Rightarrow> 'x billing \<times> unit result" where
  "trial_to_paid env e i prior_status current_status w =
     (if prior_status = Some ''trialing'' \<and> current_status = JStr ''active'' then
        sbind (w, attr (ev_object e) ''id'') (\<lambda>subscription_id w.
        sbind (process_trial_to_paid_renewal env i subscription_id e w) (\<lambda>_ w.
          (queue_mail (Trial_End_And_Subscription_Started subscription_id (ci_pk i)) w, Inr ())))
      else (w, Inr ()))"

definition trial_cancelled ::
    "stripe_event \<Rightarrow> checkout_intent \<Rightarrow> string option \<Rightarrow> json \<Rightarrow> 'x billing \<Rightarrow> 'x billing \<times> unit result" where
  "trial_cancelled e i prior_status current_status w =
     (if current_status = JStr ''canceled'' \<and> prior_status \<noteq> Some ''canceled'' then
        sbind (w, attr (ev_object e) ''id'') (\<lambda>_ w.
        sbind (w, json_get (ev_object e) ''trial_end'' JNull) (\<lambda>trial_end w.
          (if json_truthy trial_end then queue_mail (Trial_Cancellation (ci_pk i) trial_end) w else w, Inr ())))
      else (w, Inr ()))"

definition past_due ::
    "'x billing_env \<Rightarrow> stripe_event \<Rightarrow> checkout_intent \<Rightarrow> string option \<Rightarrow> json \<Rightarrow> 'x billing \<Rightarrow> 'x billing \<times> unit result" where
  "past_due env e i prior_status current_status w =
     (if current_status = JStr ''past_due'' \<and> prior_status \<noteq> Some ''past_due'' then
        sbind (if ci_enterprise_uuid i \<noteq> None then cancel_all_future_plans env i w
               else (w, rbind (attr (ev_object e) ''id'') (\<lambda>_. Inr ()))) (\<lambda>_ w.
          (queue_mail (Billing_Error (ci_pk i)) w, Inr ()))
      else (w, Inr ()))"

definition subscription_updated :: "'x billing_env \<Rightarrow> stripe_event \<Rightarrow> 'x billing \<Rightarrow> 'x billing \<times> unit result" where
  "subscription_updated env e w =
     sbind (w, get_checkout_intent_id_from_subscription env (ev_object e)) (\<lambda>checkout_intent_id w.
     sbind (get_checkout_intent_or_raise checkout_intent_id w) (\<lambda>i w.
     sbind (link_event_data_to_checkout_intent env e i w) (\<lambda>_ w.
     sbind (handle_pending_update e w) (\<lambda>_ w.
     sbind (w, json_get (ev_object e) ''status'' JNull) (\<lambda>current_status w.
     let prior_status = Option.bind (previous_summary e i (bw_summaries w)) ss_subscription_status in
     sbind (trial_to_paid env e i prior_status current_status w) (\<lambda>_ w.
     sbind (trial_cancelled e i prior_status current_status w) (\<lambda>_ w.
       past_due env e i prior_status current_status w)))))))"

definition subscription_deleted :: "'x billing_env \<Rightarrow> stripe_event \<Rightarrow> 'x billing \<Rightarrow> 'x billing \<times> unit result" where
  "subscription_deleted env e w = (w, Inr ())"

section \<open>Dispatch\<close>

definition mark_as_handled :: "'x billing_env \<Rightarrow> stripe_event_data \<Rightarrow> 'x billing \<Rightarrow> 'x billing" where
  "mark_as_handled env self w = save_event_data env (self\<lparr>sd_handled_at := Some (be_now env)\<rparr>) w"

text \<open>The wrapper of every handler; \<open>refresh_from_db\<close> reads the row again.\<close>

definition on_stripe_event ::
    "('x billing_env \<Rightarrow> stripe_event \<Rightarrow> 'x billing \<Rightarrow> 'x billing \<times> unit result) \<Rightarrow> 'x billing_env \<Rightarrow> stripe_event
       \<Rightarrow> 'x billing \<Rightarrow> 'x billing \<times> unit result" where
  "on_stripe_event handler_method env e w =
     sbind (persist_stripe_event env e w) (\<lambda>event_record w.
     sbind (handler_method env e w) (\<lambda>_ w.
     if event_record = None then (w, Inr ())
     else sbind (get_event_data e w) (\<lambda>d w. (mark_as_handled env d w, Inr ()))))"

definition handlers_by_type ::
    "'x billing_env \<Rightarrow> (string \<times> (stripe_event \<Rightarrow> 'x billing \<Rightarrow> 'x billing \<times> unit result)) list" where
  "handlers_by_type env =
     [(''invoice.paid'', on_stripe_event invoice_paid env),
      (''customer.subscription.trial_will_end'', on_stripe_event trial_will_end env),
      (''payment_method.attached'', on_stripe_event payment_method_attached env),
      (''customer.subscription.created'', on_stripe_event subscription_created env),
      (''customer.subscription.updated'', on_stripe_event subscription_updated env),
      (''customer.subscription.deleted'', on_stripe_event subscription_deleted env)]"

definition dispatch :: "'x billing_env \<Rightarrow> stripe_event \<Rightarrow> 'x billing \<Rightarrow> 'x billing \<times> unit result" where
  "dispatch env e w =
     (case map_of (handlers_by_type env) (ev_type e) of None \<Rightarrow> (w, Inr ()) | Some handler \<Rightarrow> handler e w)"

end
