(* ===== verification/Billing_Views.thy ===== *)
theory Billing_Views
  imports Checkout_Session Stripe_Events
begin

text \<open>
  The views over checkout sessions, checkout intents, portal sessions and event summaries
  (\<open>api/v1/views/customer_billing.py\<close>) and the checks of their serializers
  (\<open>api/serializers/customer_billing.py\<close>). A response is its status; its rendering is left out. The
  parsers of UUIDs and integers, the decisions of \<open>edx_rbac\<close> and the fields of a request are
  parameters; request data is what the field serializers of Django REST let through.
\<close>

type_synonym status = int

section \<open>Looking up an intent\<close>

record lookup =
  lk_uuid :: "string \<Rightarrow> uuid option"
  lk_int :: "string \<Rightarrow> int option"

text \<open>UUID first, then integer; \<open>None\<close> when the text is neither.\<close>

definition find_by_pk :: "lookup \<Rightarrow> string \<Rightarrow> checkout_intent list \<Rightarrow> checkout_intent option option" where
  "find_by_pk lk pk intents =
     (case lk_uuid lk pk of
        Some u \<Rightarrow> Some (find (\<lambda>i. ci_uuid i = u) intents)
      | None \<Rightarrow>
          (case lk_int lk pk of
             Some n \<Rightarrow> Some (find (has_id (Some n)) intents)
           | None \<Rightarrow> None))"

definition has_permission :: "lookup \<Rightarrow> string \<Rightarrow> string \<Rightarrow> nat \<Rightarrow> checkout_intent list \<Rightarrow> bool" where
  "has_permission lk action pk user intents =
     (if action \<noteq> ''create_checkout_portal_session'' then True
      else
        case find_by_pk lk pk intents of
          Some (Some intent_record) \<Rightarrow> ci_user intent_record = user
        | _ \<Rightarrow> False)"

section \<open>Sessions\<close>

text \<open>
  The serializer of the failure response knows no argument \<open>errors\<close>: building it for a conflict raises.
  A secret is valid when it is a text that is not empty.
\<close>

definition create_checkout_session ::
    "'x checkout_env \<Rightarrow> core_user \<Rightarrow> form_data option \<Rightarrow> 'x checkout \<Rightarrow> 'x checkout \<times> status result" where
  "create_checkout_session env user validated w =
     (case validated of
        None \<Rightarrow> (w, Inr 400)
      | Some input \<Rightarrow>
          (case create_free_trial_checkout_session env
                  (input\<lparr>fd_keys := ''user'' # fd_keys input, fd_user := Some user\<rparr>) w of
             (w, Inr session) \<Rightarrow>
               (w, rbind (attr session ''client_secret'') (\<lambda>secret.
                     case secret of JStr s \<Rightarrow> Inr (if s = [] then 500 else 201) | _ \<Rightarrow> Inr 500))
           | (w, Inl e) \<Rightarrow>
               (w, if e = CreateCheckoutSessionValidationError then Inr 422
                   else if e = CreateCheckoutSessionSlugReservationConflict \<or> e = CreateCheckoutSessionFailedConflict
                   then Inl TypeError
                   else Inl e)))"

definition or_none :: "string option \<Rightarrow> string" where
  "or_none s = (case s of None \<Rightarrow> ''None'' | Some t \<Rightarrow> t)"

text \<open>Every exception of the call of Stripe is answered with 422.\<close>

definition portal_session :: "'x stripe \<Rightarrow> string option \<Rightarrow> string \<Rightarrow> 'x \<Rightarrow> 'x \<times> status result" where
  "portal_session st customer return_url x =
     (case st (Create_Portal_Session customer return_url) x of
        (x, Inl _) \<Rightarrow> (x, Inr 422)
      | (x, Inr _) \<Rightarrow> (x, Inr 200))"

definition create_enterprise_admin_portal_session ::
    "'x stripe \<Rightarrow> lookup \<Rightarrow> bool \<Rightarrow> string option \<Rightarrow> string option \<Rightarrow> checkout_intent list \<Rightarrow> 'x \<Rightarrow> 'x \<times> status result" where
  "create_enterprise_admin_portal_session st lk permitted enterprise_uuid origin_url intents x =
     (if \<not> permitted then (x, Inl PermissionDenied)
      else if \<not> truthy enterprise_uuid then (x, Inr 400)
      else
        case lk_uuid lk (the enterprise_uuid) of
          None \<Rightarrow> (x, Inl ValidationError)
        | Some u \<Rightarrow>
            (case find (\<lambda>i. ci_enterprise_uuid i = Some u) intents of
               None \<Rightarrow> (x, Inr 404)
             | Some i \<Rightarrow>
                 if \<not> (truthy (ci_stripe_customer_id i) \<or> truthy (ci_enterprise_slug i)) then (x, Inr 404)
                 else portal_session st (ci_stripe_customer_id i)
                        (or_none origin_url @ ''/'' @ or_none (ci_enterprise_slug i)) x))"

definition create_checkout_portal_session ::
    "'x stripe \<Rightarrow> lookup \<Rightarrow> string \<Rightarrow> nat \<Rightarrow> string option \<Rightarrow> checkout_intent list \<Rightarrow> 'x \<Rightarrow> 'x \<times> status result" where
  "create_checkout_portal_session st lk pk user origin_url intents x =
     (if \<not> has_permission lk ''create_checkout_portal_session'' pk user intents then (x, Inl PermissionDenied)
      else
        case find_by_pk lk pk intents of
          None \<Rightarrow> (x, Inr 400)
        | Some None \<Rightarrow> (x, Inr 404)
        | Some (Some i) \<Rightarrow>
            if \<not> truthy (ci_stripe_customer_id i) then (x, Inr 404)
            else portal_session st (ci_stripe_customer_id i) (or_none origin_url @ ''/billing-details/success'') x)"

section \<open>Checkout intents\<close>

definition intent_queryset :: "nat \<Rightarrow> bool \<Rightarrow> checkout_intent list \<Rightarrow> checkout_intent list" where
  "intent_queryset user is_staff intents = (if is_staff then intents else filter (\<lambda>i. ci_user i = user) intents)"

definition get_object :: "lookup \<Rightarrow> string \<Rightarrow> checkout_intent list \<Rightarrow> checkout_intent result" where
  "get_object lk lookup_value queryset =
     rbind (case lk_uuid lk lookup_value of
              Some u \<Rightarrow> Inr (filter (\<lambda>i. ci_uuid i = u) queryset)
            | None \<Rightarrow>
                (case lk_int lk lookup_value of
                   Some n \<Rightarrow> Inr (filter (has_id (Some n)) queryset)
                 | None \<Rightarrow> Inl ValidationError)) (\<lambda>found.
       case get_one found of
         Does_Not_Exist \<Rightarrow> Inl NotFound
       | Multiple_Objects \<Rightarrow> Inl MultipleObjectsReturned
       | Found i \<Rightarrow> Inr i)"

text \<open>The entries of a patch that are given; \<open>None\<close> inside is an explicit null.\<close>

record intent_patch =
  pt_state :: "checkout_intent_state option"
  pt_country :: "string option option"
  pt_terms_metadata :: "json option"

definition validate_state :: "checkout_intent \<Rightarrow> checkout_intent_state \<Rightarrow> checkout_intent_state result" where
  "validate_state self value =
     (if ci_state self \<noteq> value \<and> value \<notin> set (allowed_checkout_intent_state_transitions (ci_state self))
      then Inl ValidationError else Inr value)"

definition validate_country :: "string list \<Rightarrow> string option \<Rightarrow> string option result" where
  "validate_country embargoed value =
     (if truthy value \<and> the value \<in> set embargoed then Inl ValidationError else Inr value)"

definition validate_terms_metadata :: "json \<Rightarrow> terms option result" where
  "validate_terms_metadata value =
     (case value of JNull \<Rightarrow> Inr None | JObj d \<Rightarrow> Inr (Some d) | _ \<Rightarrow> Inl ValidationError)"

definition optionally :: "('a \<Rightarrow> 'b result) \<Rightarrow> 'a option \<Rightarrow> 'b option result" where
  "optionally f v = (case v of None \<Rightarrow> Inr None | Some x \<Rightarrow> rbind (f x) (\<lambda>y. Inr (Some y)))"

definition update_intent :: "datetime \<Rightarrow> string list \<Rightarrow> intent_patch \<Rightarrow> checkout_intent \<Rightarrow> checkout_intent result" where
  "update_intent now embargoed patch self =
     rbind (optionally (validate_state self) (pt_state patch)) (\<lambda>state.
     rbind (optionally (validate_country embargoed) (pt_country patch)) (\<lambda>country.
     rbind (optionally validate_terms_metadata (pt_terms_metadata patch)) (\<lambda>terms_metadata.
       Inr (self\<lparr>ci_state := (case state of None \<Rightarrow> ci_state self | Some s \<Rightarrow> s),
                 ci_country := (case country of None \<Rightarrow> ci_country self | Some c \<Rightarrow> c),
                 ci_terms_metadata := (case terms_metadata of None \<Rightarrow> ci_terms_metadata self | Some t \<Rightarrow> t),
                 ci_modified := now\<rparr>))))"

definition partial_update_intent ::
    "datetime \<Rightarrow> string list \<Rightarrow> lookup \<Rightarrow> string \<Rightarrow> nat \<Rightarrow> bool \<Rightarrow> intent_patch \<Rightarrow> checkout_intent list
       \<Rightarrow> checkout_intent list \<times> status result" where
  "partial_update_intent now embargoed lk lookup_value user is_staff patch intents =
     (case rbind (get_object lk lookup_value (intent_queryset user is_staff intents)) (update_intent now embargoed patch) of
        Inl e \<Rightarrow> (intents, Inl e)
      | Inr i \<Rightarrow> (put_row ci_pk i intents, Inr 200))"

text \<open>The fields of a new intent, with the bounds of its quantity.\<close>

record intent_form =
  nf_enterprise_slug :: "string option"
  nf_enterprise_name :: "string option"
  nf_quantity :: int
  nf_country :: "string option"
  nf_terms_metadata :: "json option"

definition validate_intent_form :: "intent_form \<Rightarrow> terms option result" where
  "validate_intent_form f =
     (if nf_quantity f < 1 \<or> nf_quantity f > 1000 then Inl ValidationError
      else
        rbind (case nf_terms_metadata f of None \<Rightarrow> Inr None | Some v \<Rightarrow> validate_terms_metadata v) (\<lambda>terms_metadata.
        if truthy (nf_enterprise_slug f) \<and> \<not> truthy (nf_enterprise_name f) then Inl ValidationError
        else if truthy (nf_enterprise_name f) \<and> \<not> truthy (nf_enterprise_slug f) then Inl ValidationError
        else Inr terms_metadata))"

definition create_checkout_intent ::
    "'x checkout_env \<Rightarrow> nat \<Rightarrow> intent_form \<Rightarrow> checkout_intent list \<Rightarrow> checkout_intent list \<times> status result" where
  "create_checkout_intent env user f intents =
     (case rbind (validate_intent_form f) (\<lambda>terms_metadata.
             create_intent (ke_reservation_minutes env) (ke_now env) (ke_new_pk env) (ke_new_uuid env)
               \<lparr>ca_user = user, ca_quantity = nf_quantity f, ca_slug = nf_enterprise_slug f, ca_name = nf_enterprise_name f,
                ca_country = nf_country f, ca_terms_metadata = terms_metadata\<rparr> intents) of
        Inl e \<Rightarrow> (intents, Inl (if e = SlugReservationConflict \<or> e = FailedCheckoutIntentConflict then RecordConflictError else e))
      | Inr (intents, i) \<Rightarrow> (intents, Inr 201))"

section \<open>Event summaries\<close>

definition summaries_of_plan :: "lookup \<Rightarrow> string \<Rightarrow> stripe_event_summary list \<Rightarrow> stripe_event_summary list result" where
  "summaries_of_plan lk plan rows =
     (case lk_uuid lk plan of
        None \<Rightarrow> Inl ValidationError
      | Some u \<Rightarrow> Inr (filter (\<lambda>s. ss_subscription_plan_uuid s = Some u) rows))"

definition stripe_event_summary_permission_detail_fn ::
    "lookup \<Rightarrow> string option \<Rightarrow> 'x billing \<Rightarrow> uuid option result" where
  "stripe_event_summary_permission_detail_fn lk subs_plan_uuid w =
     (if \<not> truthy subs_plan_uuid then Inl ValidationError
      else
        rbind (summaries_of_plan lk (the subs_plan_uuid) (bw_summaries w)) (\<lambda>found.
          Inr (Option.bind (first_row found) (\<lambda>summary.
               Option.bind (intent_with_pk w (ss_checkout_intent summary)) ci_enterprise_uuid))))"

definition list_summaries ::
    "lookup \<Rightarrow> (uuid option \<Rightarrow> bool) \<Rightarrow> string option \<Rightarrow> 'x billing \<Rightarrow> stripe_event_summary list result" where
  "list_summaries lk permitted subscription_plan_uuid w =
     rbind (stripe_event_summary_permission_detail_fn lk subscription_plan_uuid w) (\<lambda>context.
     if \<not> permitted context then Inl PermissionDenied
     else if \<not> truthy subscription_plan_uuid then Inl ValidationError
     else summaries_of_plan lk (the subscription_plan_uuid) (bw_summaries w))"

text \<open>The answer is empty, or the amount due and the currency.\<close>

definition first_upcoming_invoice_amount_due ::
    "lookup \<Rightarrow> string option \<Rightarrow> stripe_event_summary list \<Rightarrow> (int option \<times> string option) option result" where
  "first_upcoming_invoice_amount_due lk subscription_plan_uuid rows =
     rbind (case subscription_plan_uuid of
              None \<Rightarrow> Inr (filter (\<lambda>s. ss_subscription_plan_uuid s = None) rows)
            | Some plan \<Rightarrow> summaries_of_plan lk plan rows) (\<lambda>found.
       case (truthy subscription_plan_uuid, first_row (filter (\<lambda>s. ss_event_type s = ''customer.subscription.created'') found)) of
         (True, Some summary) \<Rightarrow> Inr (Some (ss_upcoming_invoice_amount_due summary, ss_currency summary))
       | _ \<Rightarrow> Inr None)"

section \<open>The webhook\<close>

definition stripe_webhook :: "'x billing_env \<Rightarrow> stripe_event option \<Rightarrow> 'x billing \<Rightarrow> 'x billing \<times> status result" where
  "stripe_webhook env event w =
     (case event of None \<Rightarrow> (w, Inr 400) | Some e \<Rightarrow> sbind (dispatch env e w) (\<lambda>_ w. (w, Inr 200)))"

end
