(* ===== verification/Stripe_Events_Properties.thy ===== *)
theory Stripe_Events_Properties
  imports Stripe_Events
begin

text \<open>
  What the handlers of Stripe events guarantee: the log of events and their summaries stays consistent,
  an event processes at most one renewal, and three ways in which an event is lost.
\<close>

section \<open>What the operations on the log leave alone\<close>

named_theorems billing_frame \<open>tables an operation does not touch\<close>

lemma create_summary_frame [billing_frame]:
  "bw_services (create_stripe_event_summary env d c w) = bw_services w"
  "bw_intents (create_stripe_event_summary env d c w) = bw_intents w"
  "bw_events (create_stripe_event_summary env d c w) = bw_events w"
  "bw_renewals (create_stripe_event_summary env d c w) = bw_renewals w"
  "bw_mails (create_stripe_event_summary env d c w) = bw_mails w"
  by (simp_all add: create_stripe_event_summary_def split: option.split sum.split)

lemma insert_event_frame [billing_frame]:
  "bw_services (insert_event_data env d w) = bw_services w"
  "bw_intents (insert_event_data env d w) = bw_intents w"
  "bw_events (insert_event_data env d w) = bw_events w @ [d]"
  "bw_renewals (insert_event_data env d w) = bw_renewals w"
  "bw_mails (insert_event_data env d w) = bw_mails w"
  by (simp_all add: insert_event_data_def billing_frame)

lemma save_event_frame [billing_frame]:
  "bw_services (save_event_data env d w) = bw_services w"
  "bw_intents (save_event_data env d w) = bw_intents w"
  "bw_events (save_event_data env d w) = put_row sd_event_id d (bw_events w)"
  "bw_renewals (save_event_data env d w) = bw_renewals w"
  "bw_mails (save_event_data env d w) = bw_mails w"
  by (simp_all add: save_event_data_def billing_frame)

lemma mark_as_handled_frame [billing_frame]:
  "bw_services (mark_as_handled env d w) = bw_services w"
  "bw_intents (mark_as_handled env d w) = bw_intents w"
  "bw_renewals (mark_as_handled env d w) = bw_renewals w"
  "bw_mails (mark_as_handled env d w) = bw_mails w"
  by (simp_all add: mark_as_handled_def billing_frame)

text \<open>Only the log, the events and their summaries, may differ.\<close>

definition only_log :: "'x billing \<Rightarrow> 'x billing \<Rightarrow> bool" where
  "only_log w w' \<longleftrightarrow>
     bw_services w' = bw_services w \<and> bw_intents w' = bw_intents w \<and> bw_renewals w' = bw_renewals w \<and>
     bw_mails w' = bw_mails w"

lemma only_log_refl [simp]: "only_log w w"
  by (simp add: only_log_def)

lemma only_log_trans: "only_log w w' \<Longrightarrow> only_log w' w'' \<Longrightarrow> only_log w w''"
  by (simp add: only_log_def)

lemma insert_only_log: "only_log w (insert_event_data env d w)"
  by (simp add: only_log_def billing_frame)

lemma persist_only_log: "only_log w (fst (persist_stripe_event env e w))"
  unfolding persist_stripe_event_def Let_def
proof (rule sbind_value_keeps [where P = "only_log w"])
  fix sub
  show "only_log w (fst (if \<not> json_truthy sub then (w, Inr None)
     else sbind (w, get_checkout_intent_id_from_subscription env sub) (\<lambda>n w.
          sbind (w, json_get (ev_object e) ''customer'' JNull) (\<lambda>c w.
            case find (\<lambda>d. sd_event_id d = ev_id e) (bw_events w) of
              None \<Rightarrow> (insert_event_data env \<lparr>sd_event_id = ev_id e, sd_event_type = ev_type e,
                  sd_checkout_intent = find (\<lambda>i. has_id n i \<and> ci_stripe_customer_id i = text_column env c) (bw_intents w) \<bind> ci_pk,
                  sd_data = event_dict e, sd_handled_at = None\<rparr> w,
                Inr (Some \<lparr>sd_event_id = ev_id e, sd_event_type = ev_type e,
                  sd_checkout_intent = find (\<lambda>i. has_id n i \<and> ci_stripe_customer_id i = text_column env c) (bw_intents w) \<bind> ci_pk,
                  sd_data = event_dict e, sd_handled_at = None\<rparr>))
            | Some d \<Rightarrow> (w, Inr (Some d))))))"
    by (cases "json_truthy sub"; cases "get_checkout_intent_id_from_subscription env sub";
        cases "json_get (ev_object e) ''customer'' JNull"; cases "find (\<lambda>d. sd_event_id d = ev_id e) (bw_events w)")
       (simp_all add: insert_only_log)
qed simp

lemma link_only_log: "only_log w (fst (link_event_data_to_checkout_intent env e i w))"
  unfolding link_event_data_to_checkout_intent_def get_event_data_def
  by (rule sbind_value_keeps [where P = "only_log w"]) (simp_all add: only_log_def billing_frame)

lemma handled_only_log: "only_log w (mark_as_handled env d w)"
  by (simp add: only_log_def billing_frame)

lemma reads_keep [simp]:
  "fst (get_event_data e w) = w"
  "fst (get_summary e w) = w"
  "fst (get_checkout_intent_or_raise n w) = w"
  "fst (handle_pending_update e w) = w"
  by (simp_all add: get_event_data_def get_summary_def get_checkout_intent_or_raise_def handle_pending_update_def)

lemma reads_same:
  "get_event_data e w = (w', r) \<Longrightarrow> w' = w"
  "get_summary e w = (w', s) \<Longrightarrow> w' = w"
  "get_checkout_intent_or_raise n w = (w', i) \<Longrightarrow> w' = w"
  "handle_pending_update e w = (w', u) \<Longrightarrow> w' = w"
  by (simp_all add: get_event_data_def get_summary_def get_checkout_intent_or_raise_def handle_pending_update_def)

lemma get_event_data_found: "get_event_data e w = (w', Inr d) \<Longrightarrow> w' = w \<and> d \<in> set (bw_events w) \<and> sd_event_id d = ev_id e"
proof -
  assume a: "get_event_data e w = (w', Inr d)"
  then have "get_one (filter (\<lambda>d. sd_event_id d = ev_id e) (bw_events w)) = Found d"
    by (simp add: get_event_data_def split: get_result.splits)
  then have "d \<in> set (filter (\<lambda>d. sd_event_id d = ev_id e) (bw_events w))" by (simp add: get_one_Found)
  with a show ?thesis by (auto dest: reads_same)
qed

text \<open>The frame of a handler between persisting its event and marking it handled.\<close>

lemma on_stripe_event_keeps:
  assumes handler: "\<And>w'. only_log w w' \<Longrightarrow> fst (persist_stripe_event env e w) = w' \<Longrightarrow> P (fst (handler_method env e w'))"
    and persisted: "P (fst (persist_stripe_event env e w))"
    and handled: "\<And>w' d. P w' \<Longrightarrow> d \<in> set (bw_events w') \<Longrightarrow> P (mark_as_handled env d w')"
  shows "P (fst (on_stripe_event handler_method env e w))"
  unfolding on_stripe_event_def
proof (rule sbind_keeps [where P = P, OF persisted])
  fix w1 :: "'a billing" and event_record
  assume "persist_stripe_event env e w = (w1, Inr event_record)"
  then have w1: "fst (persist_stripe_event env e w) = w1" by simp
  then have h: "P (fst (handler_method env e w1))"
    using handler [of w1] persist_only_log [of w env e] by simp
  show "P (fst (sbind (handler_method env e w1) (\<lambda>_ w. if event_record = None then (w, Inr ())
          else sbind (get_event_data e w) (\<lambda>d w. (mark_as_handled env d w, Inr ())))))"
  proof (rule sbind_keeps [where P = P, OF h])
    fix w2 and u :: unit
    assume "handler_method env e w1 = (w2, Inr u)"
    with h have p2: "P w2" by simp
    show "P (fst (if event_record = None then (w2, Inr ())
            else sbind (get_event_data e w2) (\<lambda>d w. (mark_as_handled env d w, Inr ()))))"
    proof (cases "event_record = None")
      case True
      with p2 show ?thesis by simp
    next
      case False
      have "P (fst (sbind (get_event_data e w2) (\<lambda>d w. (mark_as_handled env d w, Inr ()))))"
        by (rule sbind_keeps [where P = P]) (auto simp: p2 dest!: get_event_data_found intro: handled)
      then show ?thesis unfolding if_not_P [OF False] .
    qed
  qed
qed

section \<open>Earlier summaries\<close>

text \<open>
  The stored copy of an event and its summary carry the event's own time, so handling the event never
  changes what came before it.
\<close>

definition time_of :: "stripe_event \<Rightarrow> datetime" where
  "time_of e = datetime_from_timestamp (ev_created e)"

definition earlier :: "stripe_event \<Rightarrow> stripe_event_summary \<Rightarrow> bool" where
  "earlier e s \<longleftrightarrow> (case ss_stripe_event_created_at s of None \<Rightarrow> False | Some t \<Rightarrow> t < time_of e)"

definition stored_as_sent :: "stripe_event \<Rightarrow> 'x billing \<Rightarrow> bool" where
  "stored_as_sent e w \<longleftrightarrow>
     (\<forall>d \<in> set (bw_events w). sd_event_id d = ev_id e \<longrightarrow> sd_data d = event_dict e) \<and>
     (\<forall>s \<in> set (bw_summaries w). ss_stripe_event_data s = ev_id e \<longrightarrow> \<not> earlier e s)"

lemma event_dict_created:
  "json_contains (event_dict e) ''created'' = Inr True"
  "item (event_dict e) ''created'' = Inr (JNum (ev_created e))"
  by (simp_all add: event_dict_def json_contains_def item_def)

lemma timestamp_not_earlier:
  "timestamp_to_datetime (JNum (ev_created e)) = Inr t \<Longrightarrow> t = None \<or> t = Some (time_of e)"
  by (simp add: timestamp_to_datetime_def time_of_def split: if_splits)

lemma populate_subscription_base:
  "populate_subscription env obj s = Inr s' \<Longrightarrow>
   ss_stripe_event_data s' = ss_stripe_event_data s \<and> ss_stripe_event_created_at s' = ss_stripe_event_created_at s"
  unfolding populate_subscription_def Let_def by (auto elim!: rbind_InrE split: if_split_asm)

lemma populate_invoice_base:
  "populate_invoice env obj s = Inr s' \<Longrightarrow>
   ss_stripe_event_data s' = ss_stripe_event_data s \<and> ss_stripe_event_created_at s' = ss_stripe_event_created_at s"
  unfolding populate_invoice_def Let_def by (auto elim!: rbind_InrE split: if_split_asm sum.split_asm)

lemma populate_base:
  assumes "populate_with_summary_data env w d s = Inr s'" and "sd_data d = event_dict e"
  shows "ss_stripe_event_data s' = ss_stripe_event_data s \<and> \<not> earlier e s'"
proof -
  have "timestamp_to_datetime (JNum (ev_created e)) = Inr (ss_stripe_event_created_at s') \<and>
      ss_stripe_event_data s' = ss_stripe_event_data s"
    using assms(1) unfolding populate_with_summary_data_def Let_def assms(2) event_dict_created
    by (auto elim!: rbind_InrE dest!: populate_subscription_base populate_invoice_base split: if_split_asm option.split_asm)
  then show ?thesis
    by (auto simp: earlier_def dest!: timestamp_not_earlier)
qed

lemma create_summary_earlier:
  assumes "sd_event_id d = ev_id e" and "sd_data d = event_dict e"
    and "\<forall>s \<in> set (bw_summaries w). ss_stripe_event_data s = ev_id e \<longrightarrow> \<not> earlier e s"
  shows "filter (earlier e) (bw_summaries (create_stripe_event_summary env d c w)) = filter (earlier e) (bw_summaries w)
    \<and> (\<forall>s \<in> set (bw_summaries (create_stripe_event_summary env d c w)). ss_stripe_event_data s = ev_id e \<longrightarrow> \<not> earlier e s)"
proof (cases "if c then None else find (\<lambda>s. ss_stripe_event_data s = sd_event_id d) (bw_summaries w)")
  case None
  show ?thesis
  proof (cases "populate_with_summary_data env w d (new_summary d)")
    case (Inl x)
    then show ?thesis using None assms(3) by (simp add: create_stripe_event_summary_def)
  next
    case (Inr s)
    then show ?thesis using None assms(3) populate_base [OF Inr assms(2)]
      by (simp add: create_stripe_event_summary_def)
  qed
next
  case (Some s0)
  then have s0: "ss_stripe_event_data s0 = ev_id e" by (auto simp: assms(1) dest!: find_SomeD split: if_splits)
  show ?thesis
  proof (cases "populate_with_summary_data env w d s0")
    case (Inl x)
    then show ?thesis using Some assms(3) by (simp add: create_stripe_event_summary_def)
  next
    case (Inr s)
    have s: "ss_stripe_event_data s = ev_id e" "\<not> earlier e s" using populate_base [OF Inr assms(2)] s0 by simp_all
    have "filter (earlier e) (put_row ss_stripe_event_data s rows) = filter (earlier e) rows"
      if "\<forall>s \<in> set rows. ss_stripe_event_data s = ev_id e \<longrightarrow> \<not> earlier e s" for rows
      using that by (induction rows) (auto simp: put_row_def s)
    then show ?thesis using Some Inr assms(3) s by (auto simp: create_stripe_event_summary_def put_row_def)
  qed
qed

text \<open>Handling an event keeps the summaries before it and stores it as it was sent.\<close>

definition past_kept :: "stripe_event \<Rightarrow> 'x billing \<Rightarrow> 'x billing \<Rightarrow> bool" where
  "past_kept e w w' \<longleftrightarrow>
     only_log w w' \<and> stored_as_sent e w' \<and> filter (earlier e) (bw_summaries w') = filter (earlier e) (bw_summaries w)"

lemma insert_past_kept:
  assumes "stored_as_sent e w" and "sd_event_id d = ev_id e" and "sd_data d = event_dict e"
  shows "past_kept e w (insert_event_data env d w)"
  using assms create_summary_earlier [of d e "w\<lparr>bw_events := bw_events w @ [d]\<rparr>" env True]
  by (auto simp: past_kept_def only_log_def stored_as_sent_def billing_frame insert_event_data_def)

lemma save_past_kept:
  assumes "stored_as_sent e w" and "sd_event_id d = ev_id e" and "sd_data d = event_dict e"
  shows "past_kept e w (save_event_data env d w)"
  using assms create_summary_earlier [of d e "w\<lparr>bw_events := put_row sd_event_id d (bw_events w)\<rparr>" env False]
  by (auto simp: past_kept_def only_log_def stored_as_sent_def billing_frame save_event_data_def set_put_row split: if_splits)

lemma past_kept_refl: "stored_as_sent e w \<Longrightarrow> past_kept e w w"
  by (simp add: past_kept_def)

lemma past_kept_trans: "past_kept e w w' \<Longrightarrow> past_kept e w' w'' \<Longrightarrow> past_kept e w w''"
  by (auto simp: past_kept_def intro: only_log_trans)

lemma previous_summary_kept:
  assumes "past_kept e w w'"
  shows "previous_summary e i (bw_summaries w') = previous_summary e i (bw_summaries w)"
proof -
  have split: "filter (\<lambda>s. ss_checkout_intent s = ci_pk i \<and>
      (case ss_stripe_event_created_at s of None \<Rightarrow> False | Some t \<Rightarrow> t < datetime_from_timestamp (ev_created e))) rows =
      filter (\<lambda>s. ss_checkout_intent s = ci_pk i) (filter (earlier e) rows)" for rows
    by (simp only: filter_filter earlier_def time_of_def conj_commute)
  show ?thesis using assms unfolding previous_summary_def split past_kept_def by simp
qed

lemma persist_cases:
  obtains (unstored) r where "persist_stripe_event env e w = (w, r)" and "\<And>d. r = Inr (Some d) \<Longrightarrow> find (\<lambda>d. sd_event_id d = ev_id e) (bw_events w) = Some d"
  | (stored) d where "persist_stripe_event env e w = (insert_event_data env d w, Inr (Some d))"
      and "find (\<lambda>d. sd_event_id d = ev_id e) (bw_events w) = None" and "sd_event_id d = ev_id e" and "sd_data d = event_dict e"
proof (cases "if ev_type e = ''invoice.paid'' then rbind (get_invoice_and_subscription e) (\<lambda>(_, d). Inr d)
               else if starts_with ''customer.subscription'' (ev_type e) then Inr (ev_object e)
               else Inr JNull")
  case (Inl x)
  then show ?thesis using unstored unfolding persist_stripe_event_def by simp
next
  case (Inr sub)
  note sub = this
  show ?thesis
  proof (cases "json_truthy sub")
    case False
    then show ?thesis using unstored unfolding persist_stripe_event_def sub by simp
  next
    case True
    show ?thesis
    proof (cases "get_checkout_intent_id_from_subscription env sub")
      case (Inl x)
      then show ?thesis using unstored True unfolding persist_stripe_event_def sub by simp
    next
      case (Inr n)
      note n = this
      show ?thesis
      proof (cases "json_get (ev_object e) ''customer'' JNull")
        case (Inl x)
        then show ?thesis using unstored True n unfolding persist_stripe_event_def sub by simp
      next
        case (Inr c)
        show ?thesis
        proof (cases "find (\<lambda>d. sd_event_id d = ev_id e) (bw_events w)")
          case None
          then show ?thesis using stored True n Inr unfolding persist_stripe_event_def sub Let_def by simp
        next
          case (Some d)
          then show ?thesis using unstored True n Inr unfolding persist_stripe_event_def sub Let_def by simp
        qed
      qed
    qed
  qed
qed

lemma persist_past_kept:
  assumes "stored_as_sent e w"
  shows "past_kept e w (fst (persist_stripe_event env e w))"
  by (cases rule: persist_cases [of env e w]) (simp_all add: insert_past_kept past_kept_refl assms)

lemma link_past_kept:
  assumes "past_kept e w w'"
  shows "past_kept e w (fst (link_event_data_to_checkout_intent env e i w'))"
  unfolding link_event_data_to_checkout_intent_def
proof (rule sbind_keeps [where P = "past_kept e w"])
  fix s d assume d: "get_event_data e w' = (s, Inr d)"
  have w': "stored_as_sent e w'" using assms by (simp add: past_kept_def)
  from get_event_data_found [OF d] w' have "past_kept e w' (save_event_data env (d\<lparr>sd_checkout_intent := ci_pk i\<rparr>) w')"
    by (intro save_past_kept) (auto simp: stored_as_sent_def)
  with assms show "past_kept e w (fst (if sd_checkout_intent d = None then (save_event_data env (d\<lparr>sd_checkout_intent := ci_pk i\<rparr>) s, Inr ()) else (s, Inr ())))"
    using get_event_data_found [OF d] by (auto intro: past_kept_trans)
qed (simp add: assms)

section \<open>A renewal that is not processed\<close>

definition event_about :: "'x billing_env \<Rightarrow> stripe_event \<Rightarrow> checkout_intent \<Rightarrow> 'x billing \<Rightarrow> bool" where
  "event_about env e i w \<longleftrightarrow>
     (case get_checkout_intent_id_from_subscription env (ev_object e) of
        Inl _ \<Rightarrow> False | Inr n \<Rightarrow> get_one (filter (has_id n) (bw_intents w)) = Found i)"

definition prior_status :: "stripe_event \<Rightarrow> checkout_intent \<Rightarrow> 'x billing \<Rightarrow> string option" where
  "prior_status e i w = Option.bind (previous_summary e i (bw_summaries w)) ss_subscription_status"

text \<open>
  What an update does once its intent is known, in a world with the same past: the transitions only.
\<close>

lemma subscription_updated_keeps:
  assumes about: "event_about env e i w" and w1: "past_kept e w w1"
    and status: "json_get (ev_object e) ''status'' JNull = Inr (JStr ''active'')"
    and base: "\<And>w'. past_kept e w w' \<Longrightarrow> P w'"
    and paid: "\<And>w'. past_kept e w w' \<Longrightarrow> P (fst (trial_to_paid env e i (prior_status e i w) (JStr ''active'') w'))"
  shows "P (fst (subscription_updated env e w1))"
proof -
  obtain n where n: "get_checkout_intent_id_from_subscription env (ev_object e) = Inr n"
    "get_one (filter (has_id n) (bw_intents w)) = Found i"
    using about by (auto simp: event_about_def split: sum.splits)
  have i: "get_checkout_intent_or_raise n w1 = (w1, Inr i)"
    using w1 n(2) by (simp add: get_checkout_intent_or_raise_def past_kept_def only_log_def)
  have "P (fst (sbind (link_event_data_to_checkout_intent env e i w1) (\<lambda>_ w.
     sbind (handle_pending_update e w) (\<lambda>_ w.
     let prior = Option.bind (previous_summary e i (bw_summaries w)) ss_subscription_status in
     sbind (trial_to_paid env e i prior (JStr ''active'') w) (\<lambda>_ w.
     sbind (trial_cancelled e i prior (JStr ''active'') w) (\<lambda>_ w.
       past_due env e i prior (JStr ''active'') w))))))" (is "P (fst (sbind _ ?rest))")
  proof (rule sbind_keeps [where P = P])
    show "P (fst (link_event_data_to_checkout_intent env e i w1))" by (rule base [OF link_past_kept [OF w1]])
  next
    fix w2 and u :: unit
    assume "link_event_data_to_checkout_intent env e i w1 = (w2, Inr u)"
    then have w2: "past_kept e w w2" using link_past_kept [OF w1, of env i] by simp
    have "P (fst (trial_to_paid env e i (prior_status e i w) (JStr ''active'') w2))" by (rule paid [OF w2])
    moreover have "sbind m (\<lambda>_ w'. sbind (trial_cancelled e i q (JStr ''active'') w') (\<lambda>_. past_due env e i q (JStr ''active''))) = m"
      for q and m :: "'a billing \<times> unit result"
      by (cases m; cases "snd m") (auto simp: trial_cancelled_def past_due_def)
    ultimately show "P (fst (?rest u w2))"
      using base [OF w2] w2
      by (cases "snd (handle_pending_update e w2)")
        (simp_all add: handle_pending_update_def previous_summary_kept prior_status_def)
  qed
  then show ?thesis by (simp add: subscription_updated_def n(1) i status)
qed

lemma updated_dispatch_keeps:
  assumes type: "ev_type e = ''customer.subscription.updated''"
    and about: "event_about env e i w" and sent: "stored_as_sent e w"
    and status: "json_get (ev_object e) ''status'' JNull = Inr (JStr ''active'')"
    and base: "\<And>w'. past_kept e w w' \<Longrightarrow> P w'"
    and paid: "\<And>w'. past_kept e w w' \<Longrightarrow> P (fst (trial_to_paid env e i (prior_status e i w) (JStr ''active'') w'))"
    and handled: "\<And>w' d. P w' \<Longrightarrow> P (mark_as_handled env d w')"
  shows "P (fst (dispatch env e w))"
proof -
  have "dispatch env e w = on_stripe_event subscription_updated env e w"
    by (simp add: dispatch_def handlers_by_type_def type)
  moreover have "P (fst (on_stripe_event subscription_updated env e w))"
    by (rule on_stripe_event_keeps [where P = P])
      (auto intro: handled base persist_past_kept [OF sent]
        subscription_updated_keeps [OF about _ status, where P = P] paid)
  ultimately show ?thesis by simp
qed

text \<open>
  An update to \<open>active\<close> whose previous summary does not say \<open>trialing\<close> processes no renewal and sends
  no mail, whatever renewals are open: the summary of an invoice, which has no subscription status,
  is such a summary, so an \<open>invoice.paid\<close> event created between the two subscription events makes the
  transition from trial to paid invisible.
\<close>

theorem trial_end_missed:
  assumes "ev_type e = ''customer.subscription.updated''"
    and "event_about env e i w" and "stored_as_sent e w"
    and "json_get (ev_object e) ''status'' JNull = Inr (JStr ''active'')"
    and "prior_status e i w \<noteq> Some ''trialing''"
  shows "only_log w (fst (dispatch env e w))"
proof (rule updated_dispatch_keeps [OF assms(1-4), where P = "only_log w"])
  fix w' assume w': "past_kept e w w'"
  then show "only_log w w'" by (simp add: past_kept_def)
  show "only_log w (fst (trial_to_paid env e i (prior_status e i w) (JStr ''active'') w'))"
    using w' assms(5) by (simp add: trial_to_paid_def past_kept_def)
qed (rule only_log_trans [OF _ handled_only_log])

text \<open>
  C22. An event that processed a renewal never processes another one: when it is delivered again,
  neither the renewals nor the license manager are touched, also when the intent has further open
  renewals.
\<close>

theorem event_renews_once:
  assumes "ev_type e = ''customer.subscription.updated''"
    and "event_about env e i w" and "stored_as_sent e w"
    and "json_get (ev_object e) ''status'' JNull = Inr (JStr ''active'')"
    and "r \<in> set (bw_renewals w)" and "sw_stripe_event_data r = ev_id e" and "sw_processed_at r \<noteq> None"
  shows "bw_renewals (fst (dispatch env e w)) = bw_renewals w \<and> bw_services (fst (dispatch env e w)) = bw_services w"
proof (rule updated_dispatch_keeps [OF assms(1-4), where P = "\<lambda>w'. bw_renewals w' = bw_renewals w \<and> bw_services w' = bw_services w"])
  fix w' assume "past_kept e w w'"
  then have w': "bw_renewals w' = bw_renewals w" "bw_services w' = bw_services w"
    by (simp_all add: past_kept_def only_log_def)
  then show "bw_renewals w' = bw_renewals w \<and> bw_services w' = bw_services w" by simp
  obtain j where j: "j < length (bw_renewals w)" "bw_renewals w ! j = r" using assms(5) by (auto simp: in_set_conv_nth)
  have "fst (process_trial_to_paid_renewal env i sub e w') = w'" for sub
  proof (cases "unprocessed_renewals i (bw_renewals w')")
    case Nil
    then show ?thesis by (simp add: process_trial_to_paid_renewal_def)
  next
    case (Cons k ks)
    then have "k \<in> set (unprocessed_renewals i (bw_renewals w'))" by simp
    then have "sw_processed_at (bw_renewals w ! k) = None" by (simp add: unprocessed_renewals_def w')
    with j assms(7) have jk: "j \<noteq> k" by auto
    show ?thesis
    proof (cases "snd (get_event_data e w')")
      case (Inl x)
      then have "get_event_data e w' = (w', Inl x)" by (simp add: get_event_data_def)
      then show ?thesis by (simp add: process_trial_to_paid_renewal_def Cons)
    next
      case (Inr d)
      then have d: "get_event_data e w' = (w', Inr d)" by (simp add: get_event_data_def)
      have "\<exists>j \<in> set [0..<length (bw_renewals w)]. j \<noteq> k \<and> sw_stripe_event_data (bw_renewals w ! j) = sd_event_id d"
        using j jk assms(6) get_event_data_found [OF d] by (intro bexI [of _ j]) auto
      then show ?thesis by (simp add: process_trial_to_paid_renewal_def Cons [unfolded w'] d w' Let_def)
    qed
  qed
  note same = this
  have after: "s = w'" if "process_trial_to_paid_renewal env i sub e w' = (s, u)" for sub s u
    using same [of sub] that by simp
  show "bw_renewals (fst (trial_to_paid env e i (prior_status e i w) (JStr ''active'') w')) = bw_renewals w \<and>
      bw_services (fst (trial_to_paid env e i (prior_status e i w) (JStr ''active'') w')) = bw_services w"
    unfolding trial_to_paid_def
    by (cases "attr (ev_object e) ''id''")
      (auto simp: w' same queue_mail_def dest!: after intro!: sbind_keeps [where P = "\<lambda>w'. bw_renewals w' = bw_renewals w \<and> bw_services w' = bw_services w"])
qed (simp add: billing_frame)

section \<open>An invoice for a fulfilled intent\<close>

text \<open>
  Once an intent is fulfilled, the event of its next paid invoice writes no receipt mail and changes
  no intent: in the graceful mode the event is marked as handled all the same, in the other mode every
  delivery fails.
\<close>

theorem fulfilled_invoice_lost:
  assumes "ev_type e = ''invoice.paid''" and "get_invoice_and_subscription e = Inr (invoice, details)"
    and "json_truthy details" and "get_checkout_intent_id_from_subscription env details = Inr n"
    and "get_one (filter (has_id n) (bw_intents w)) = Found i" and "ci_state i = CI_FULFILLED"
    and "item invoice ''customer'' = Inr customer" and "attr invoice ''id'' = Inr invoice_id"
    and "distinct (map sd_event_id (bw_events w))"
  shows "only_log w (fst (dispatch env e w)) \<and>
    snd (dispatch env e w) = (if be_graceful env then Inr () else Inl ValueError) \<and>
    (be_graceful env \<longrightarrow> (\<exists>d \<in> set (bw_events (fst (dispatch env e w))). sd_event_id d = ev_id e \<and> sd_handled_at d = Some (be_now env)))"
proof -
  have dispatch: "dispatch env e w = on_stripe_event invoice_paid env e w"
    by (simp add: dispatch_def handlers_by_type_def assms(1))
  obtain obj where obj: "ev_object e = JObj obj"
    using assms(2) by (cases "ev_object e") (simp_all add: get_invoice_and_subscription_def attr_def)
  obtain w1 d where persist: "persist_stripe_event env e w = (w1, Inr (Some d))"
    and w1: "d \<in> set (bw_events w1)" "sd_event_id d = ev_id e" "distinct (map sd_event_id (bw_events w1))"
  proof (cases rule: persist_cases [of env e w])
    case (unstored r)
    have "\<exists>r. snd (persist_stripe_event env e w) = Inr (Some r)"
      using assms(3) by (auto simp: persist_stripe_event_def assms(1,2,4) obj json_get_def Let_def split: option.split)
    with unstored(1) obtain d where d: "r = Inr (Some d)" by auto
    show ?thesis
      using that [of w d] unstored(1) find_SomeD [OF unstored(2) [OF d]] assms(9) by (simp add: d)
  next
    case (stored d)
    show ?thesis
      using that [of "insert_event_data env d w" d] stored assms(9)
      by (simp add: billing_frame find_key_None)
  qed
  have "get_one (filter (has_id n) (bw_intents w1)) = Found i"
    using persist_only_log [of w env e] assms(5) by (simp add: persist only_log_def)
  moreover have "mark_as_paid None c t i = Inl ValueError" for c t
    by (simp add: mark_as_paid_def is_valid_state_transition_def assms(6))
  ultimately have handler: "invoice_paid env e w1 = (w1, if be_graceful env then Inr () else Inl ValueError)"
    by (simp add: invoice_paid_def assms(2,4,7,8) get_checkout_intent_or_raise_def unless_missing_def)
  have same: "filter (\<lambda>d. sd_event_id d = ev_id e) (bw_events w1) = [d]"
    by (rule filter_singleton) (use w1 in \<open>auto dest: distinct_of_keys distinct_key_inj\<close>)
  have run: "dispatch env e w = (if be_graceful env then (mark_as_handled env d w1, Inr ()) else (w1, Inl ValueError))"
    by (simp add: dispatch on_stripe_event_def persist handler get_event_data_def same)
  have "only_log w w1" using persist_only_log [of w env e] by (simp add: persist)
  moreover have "d\<lparr>sd_handled_at := Some (be_now env)\<rparr> \<in> set (bw_events (mark_as_handled env d w1))"
    using w1(1) by (auto simp: mark_as_handled_def billing_frame set_put_row)
  ultimately show ?thesis
    using w1(2) by (auto simp: run intro: only_log_trans [OF _ handled_only_log] intro!: bexI [of _ "d\<lparr>sd_handled_at := Some (be_now env)\<rparr>"])
qed

section \<open>The state of the log\<close>

text \<open>
  The keys of the tables: an event is stored once and has at most one summary, a summary belongs to a
  stored event, and an event belongs to at most one renewal.
\<close>

definition log_wf :: "'x billing \<Rightarrow> bool" where
  "log_wf w \<longleftrightarrow>
     distinct (map sd_event_id (bw_events w)) \<and> distinct (map ss_stripe_event_data (bw_summaries w)) \<and>
     set (map ss_stripe_event_data (bw_summaries w)) \<subseteq> set (map sd_event_id (bw_events w))"

definition billing_wf :: "'x billing \<Rightarrow> bool" where
  "billing_wf w \<longleftrightarrow> log_wf w \<and> distinct (map sw_stripe_event_data (bw_renewals w))"

lemma log_wf_other [simp]:
  "log_wf (w\<lparr>bw_services := x\<rparr>) = log_wf w"
  "log_wf (w\<lparr>bw_intents := is\<rparr>) = log_wf w"
  "log_wf (w\<lparr>bw_renewals := rs\<rparr>) = log_wf w"
  by (simp_all add: log_wf_def)

lemma populate_key: "populate_with_summary_data env w d s = Inr s' \<Longrightarrow> ss_stripe_event_data s' = ss_stripe_event_data s"
  unfolding populate_with_summary_data_def Let_def
  by (auto elim!: rbind_InrE dest!: populate_subscription_base populate_invoice_base split: if_split_asm option.split_asm)

lemma create_summary_wf:
  assumes "billing_wf w" and "sd_event_id d \<in> set (map sd_event_id (bw_events w))"
    and "c \<Longrightarrow> sd_event_id d \<notin> set (map ss_stripe_event_data (bw_summaries w))"
  shows "billing_wf (create_stripe_event_summary env d c w)"
proof (cases "if c then None else find (\<lambda>s. ss_stripe_event_data s = sd_event_id d) (bw_summaries w)")
  case None
  then have fresh: "sd_event_id d \<notin> ss_stripe_event_data ` set (bw_summaries w)"
    using assms(3) by (cases c) (simp_all add: find_key_None)
  show ?thesis
  proof (cases "populate_with_summary_data env w d (new_summary d)")
    case (Inl x)
    then show ?thesis using None assms(1) by (simp add: create_stripe_event_summary_def)
  next
    case (Inr s)
    have "ss_stripe_event_data s = sd_event_id d" using populate_key [OF Inr] by (simp add: new_summary_def)
    then show ?thesis
      using None Inr assms(1,2) fresh by (simp add: create_stripe_event_summary_def billing_wf_def log_wf_def)
  qed
next
  case (Some s0)
  then show ?thesis
    using assms(1)
    by (cases "populate_with_summary_data env w d s0")
      (auto simp: create_stripe_event_summary_def billing_wf_def log_wf_def simp flip: set_map)
qed

lemma insert_event_wf:
  assumes "billing_wf w" and "sd_event_id d \<notin> set (map sd_event_id (bw_events w))"
  shows "billing_wf (insert_event_data env d w)"
  unfolding insert_event_data_def
  by (rule create_summary_wf) (use assms in \<open>auto simp: billing_wf_def log_wf_def\<close>)

lemma save_event_wf:
  assumes "billing_wf w" and "sd_event_id d \<in> set (map sd_event_id (bw_events w))"
  shows "billing_wf (save_event_data env d w)"
  unfolding save_event_data_def
  by (rule create_summary_wf) (use assms in \<open>simp_all add: billing_wf_def log_wf_def del: set_map\<close>)

lemma persist_wf: "billing_wf w \<Longrightarrow> billing_wf (fst (persist_stripe_event env e w))"
  by (cases rule: persist_cases [of env e w]) (simp_all add: insert_event_wf find_key_None)

lemma link_wf: "billing_wf w \<Longrightarrow> billing_wf (fst (link_event_data_to_checkout_intent env e i w))"
  unfolding link_event_data_to_checkout_intent_def
proof (rule sbind_keeps [where P = billing_wf])
  fix w1 d assume w: "billing_wf w" and "get_event_data e w = (w1, Inr d)"
  note found = get_event_data_found [OF this(2)]
  then have "sd_event_id (d\<lparr>sd_checkout_intent := ci_pk i\<rparr>) \<in> set (map sd_event_id (bw_events w))"
    using imageI [of d "set (bw_events w)" sd_event_id] by simp
  from found save_event_wf [OF w this] w
  show "billing_wf (fst (if sd_checkout_intent d = None then (save_event_data env (d\<lparr>sd_checkout_intent := ci_pk i\<rparr>) w1, Inr ())
      else (w1, Inr ())))"
    by simp
qed simp

lemma billing_wf_other [simp]:
  "billing_wf (w\<lparr>bw_services := x\<rparr>) = billing_wf w"
  "billing_wf (w\<lparr>bw_intents := is\<rparr>) = billing_wf w"
  "billing_wf (queue_mail m w) = billing_wf w"
  "billing_wf (fst (on_external call w)) = billing_wf w"
  by (simp_all add: billing_wf_def log_wf_def queue_mail_def on_external_def split_beta)

lemma on_external_frame [simp]:
  "bw_renewals (fst (on_external call w)) = bw_renewals w"
  "log_wf (fst (on_external call w)) = log_wf w"
  by (simp_all add: log_wf_def on_external_def split_beta)

lemma external_wf: "on_external call w = (w', r) \<Longrightarrow> billing_wf w' = billing_wf w \<and> bw_renewals w' = bw_renewals w"
proof -
  assume "on_external call w = (w', r)"
  then have "w' = fst (on_external call w)" by simp
  then show ?thesis by simp
qed

lemma deactivate_wf: "billing_wf w \<Longrightarrow> billing_wf (fst (deactivate_plans env rs w))"
proof (induction rs arbitrary: w)
  case (Cons r rs)
  show ?case unfolding deactivate_plans.simps
    by (rule sbind_keeps [where P = billing_wf]) (auto simp: Cons dest!: external_wf)
qed simp

lemma distinct_update:
  "distinct (map f rows) \<Longrightarrow> \<forall>j \<in> set [0..<length rows]. j \<noteq> k \<longrightarrow> f (rows ! j) \<noteq> f r \<Longrightarrow> distinct (map f (rows[k := r]))"
  by (cases "k < length rows") (auto simp: distinct_conv_nth nth_list_update)

lemma process_renewal_wf:
  assumes "billing_wf w"
  shows "billing_wf (fst (process_trial_to_paid_renewal env i sub e w))"
proof (cases "unprocessed_renewals i (bw_renewals w)")
  case Nil
  then show ?thesis using assms by (simp add: process_trial_to_paid_renewal_def)
next
  case (Cons k ks)
  show ?thesis
    unfolding process_trial_to_paid_renewal_def Cons list.case
  proof (rule sbind_keeps [where P = billing_wf])
    fix w1 d assume "get_event_data e w = (w1, Inr d)"
    then have w1: "w1 = w" by (rule reads_same)
    let ?r = "(bw_renewals w ! k)\<lparr>sw_stripe_event_data := sd_event_id d, sw_stripe_subscription_id := text_column env sub\<rparr>"
    show "billing_wf (fst (let rows = bw_renewals w1;
              r = (rows ! k)\<lparr>sw_stripe_event_data := sd_event_id d, sw_stripe_subscription_id := text_column env sub\<rparr>;
              taken = (\<exists>j \<in> set [0..<length rows]. j \<noteq> k \<and> sw_stripe_event_data (rows ! j) = sd_event_id d)
          in if taken \<or> sw_stripe_subscription_id r = None then (w1, Inl IntegrityError)
             else sbind (on_external (process_subscription_plan_renewal (be_api env) (sw_subscription_plan_renewal_id r))
                        (w1\<lparr>bw_renewals := rows[k := r]\<rparr>)) (\<lambda>_ w.
                 (w\<lparr>bw_renewals := (bw_renewals w)[k := mark_as_processed (be_now env) r]\<rparr>, Inr ()))))"
    proof (cases "\<exists>j \<in> set [0..<length (bw_renewals w)]. j \<noteq> k \<and> sw_stripe_event_data (bw_renewals w ! j) = sd_event_id d")
      case True
      then show ?thesis using assms by (simp add: w1 Let_def)
    next
      case False
      have d: "distinct (map sw_stripe_event_data ((bw_renewals w)[k := x]))" if "sw_stripe_event_data x = sd_event_id d" for x
        by (rule distinct_update) (use assms False that in \<open>auto simp: billing_wf_def\<close>)
      have "billing_wf (w\<lparr>bw_renewals := (bw_renewals w)[k := ?r]\<rparr>)" using assms d [of ?r] by (simp add: billing_wf_def)
      then have "billing_wf (fst (sbind (on_external (process_subscription_plan_renewal (be_api env) (sw_subscription_plan_renewal_id ?r))
                        (w\<lparr>bw_renewals := (bw_renewals w)[k := ?r]\<rparr>)) (\<lambda>_ w.
                 (w\<lparr>bw_renewals := (bw_renewals w)[k := mark_as_processed (be_now env) ?r]\<rparr>, Inr ()))))"
        using d [of "mark_as_processed (be_now env) ?r"]
        by (intro sbind_keeps [where P = billing_wf]) (auto simp: billing_wf_def mark_as_processed_def dest!: external_wf)
      with False show ?thesis using assms by (simp add: w1 Let_def)
    qed
  qed (simp add: assms)
qed

lemma upcoming_wf:
  assumes "billing_wf w"
  shows "billing_wf (fst (update_upcoming_invoice_amount_due env s w))"
proof -
  have row: "billing_wf (v\<lparr>bw_summaries := put_row ss_stripe_event_data r (bw_summaries v)\<rparr>)" if "billing_wf v" for r and v :: "'a billing"
    using that by (simp add: billing_wf_def log_wf_def flip: set_map)
  have calls: "billing_wf (fst (sbind (v, r) (\<lambda>u v. if \<not> json_truthy u then (v, Inr ())
      else sbind (v, f u) (\<lambda>a v. (v\<lparr>bw_summaries := put_row ss_stripe_event_data (g a) (bw_summaries v)\<rparr>, Inr ())))))"
    if "billing_wf v" for v :: "'a billing" and r f and g :: "'c \<Rightarrow> stripe_event_summary"
    by (rule sbind_value_keeps [where P = billing_wf]) (auto simp: that row intro!: sbind_value_keeps [where P = billing_wf])
  show ?thesis
    using assms unfolding update_upcoming_invoice_amount_due_def
    by (auto simp: calls split: option.split prod.split)
qed

lemma transitions_wf:
  assumes "billing_wf w"
  shows "billing_wf (fst (trial_to_paid env e i q st w))"
    and "billing_wf (fst (trial_cancelled e i q st w))"
    and "billing_wf (fst (past_due env e i q st w))"
proof -
  show "billing_wf (fst (trial_to_paid env e i q st w))"
    unfolding trial_to_paid_def
    by (auto simp: assms intro!: sbind_value_keeps [where P = billing_wf] sbind_keeps [where P = billing_wf] process_renewal_wf)
       (metis assms fst_conv process_renewal_wf)
  show "billing_wf (fst (trial_cancelled e i q st w))"
    unfolding trial_cancelled_def
    by (auto simp: assms intro!: sbind_value_keeps [where P = billing_wf])
  have cancel: "billing_wf (fst (cancel_all_future_plans env i w))"
    unfolding cancel_all_future_plans_def by (rule deactivate_wf [OF assms])
  show "billing_wf (fst (past_due env e i q st w))"
    unfolding past_due_def
    by (auto simp: assms cancel intro!: sbind_keeps [where P = billing_wf] sbind_value_keeps [where P = billing_wf])
       (metis cancel fst_conv)
qed

lemma unless_missing_keeps:
  assumes "P (fst m)" and "\<And>s x. m = (s, Inr x) \<Longrightarrow> P (fst (f x s))"
  shows "P (fst (unless_missing m f))"
  using assms by (cases m; cases "snd m") (auto simp: unless_missing_def split: py_error.split)

lemma handlers_wf:
  assumes "billing_wf w"
  shows "billing_wf (fst (invoice_paid env e w))"
    and "billing_wf (fst (trial_will_end env e w))"
    and "billing_wf (fst (subscription_created env e w))"
    and "billing_wf (fst (subscription_updated env e w))"
proof -
  note step = sbind_keeps [where P = billing_wf] sbind_value_keeps [where P = billing_wf]
    unless_missing_keeps [where P = billing_wf]
  have link: "link_event_data_to_checkout_intent env e i v = (v', r) \<Longrightarrow> billing_wf v \<Longrightarrow> billing_wf v'" for i v v' r
    using link_wf [of v env e i] by simp
  have external: "on_external call v = (v', r) \<Longrightarrow> billing_wf v \<Longrightarrow> billing_wf v'" for call and v v' :: "'a billing" and r :: "json result"
    using external_wf [of call v v' r] by simp
  have modify: "(case on_external call v of (v1, r) \<Rightarrow> (v1, g r)) = (v', y) \<Longrightarrow> billing_wf v \<Longrightarrow> billing_wf v'"
    for call and g :: "json result \<Rightarrow> json result" and v v' :: "'a billing" and y
    by (cases "on_external call v") (auto dest: external)
  have upcoming: "update_upcoming_invoice_amount_due env s v = (v', r) \<Longrightarrow> billing_wf v \<Longrightarrow> billing_wf v'" for s v v' r
    using upcoming_wf [of v env s] by simp
  have transitions: "trial_to_paid env e i q st v = (v', r) \<Longrightarrow> billing_wf v \<Longrightarrow> billing_wf v'"
    "trial_cancelled e i q st v = (v', r) \<Longrightarrow> billing_wf v \<Longrightarrow> billing_wf v'" for i q st v v' r
    using transitions_wf [of v] by (metis fst_conv)+
  show "billing_wf (fst (invoice_paid env e w))"
    unfolding invoice_paid_def
    by (auto simp: assms link_wf split: sum.split intro!: step dest!: reads_same link)
  show "billing_wf (fst (trial_will_end env e w))"
    unfolding trial_will_end_def
    by (auto simp: assms link_wf intro!: step dest!: reads_same link)
  show "billing_wf (fst (subscription_created env e w))"
    unfolding subscription_created_def
    by (auto simp: assms link_wf split: prod.split intro!: step dest!: reads_same link modify upcoming dest: external)
  show "billing_wf (fst (subscription_updated env e w))"
    unfolding subscription_updated_def Let_def
    by (auto simp: assms link_wf transitions_wf intro!: step dest!: reads_same link transitions)
qed

text \<open>
  C23. However often and in whatever order events arrive, and whether their handlers succeed or fail: an
  event is stored once and has at most one summary, every summary belongs to a stored event, and no two
  renewals are linked to the same event.
\<close>

theorem log_stays_consistent:
  assumes "billing_wf w"
  shows "billing_wf (fold (\<lambda>e w. fst (dispatch env e w)) es w)"
proof -
  have handled: "billing_wf (mark_as_handled env d v)" if "billing_wf v" "d \<in> set (bw_events v)" for d v
    unfolding mark_as_handled_def by (rule save_event_wf) (use that in simp_all)
  have wrapped: "billing_wf (fst (on_stripe_event h env e v))"
    if v: "billing_wf v" and h: "\<And>u. billing_wf u \<Longrightarrow> billing_wf (fst (h env e u))" for h e v
  proof (rule on_stripe_event_keeps [where P = billing_wf])
    fix u assume "fst (persist_stripe_event env e v) = u"
    then show "billing_wf (fst (h env e u))" using persist_wf [OF v, of env e] h by simp
  qed (simp_all add: persist_wf v handled)
  have "billing_wf (fst (dispatch env e v))" if v: "billing_wf v" for e v
  proof (cases "map_of (handlers_by_type env) (ev_type e)")
    case None
    then show ?thesis using v by (simp add: dispatch_def)
  next
    case (Some h)
    have "h \<in> (\<lambda>f. on_stripe_event f env) ` {invoice_paid, trial_will_end, payment_method_attached, subscription_created,
        subscription_updated, subscription_deleted}"
      using map_of_SomeD [OF Some] by (auto simp: handlers_by_type_def)
    then have "billing_wf (fst (h e v))"
      by (auto intro!: wrapped v handlers_wf simp: payment_method_attached_def subscription_deleted_def)
    with Some show ?thesis by (simp add: dispatch_def)
  qed
  then show ?thesis using assms by (induction es arbitrary: w) simp_all
qed

section \<open>Concrete runs\<close>

text \<open>
  A trial: its creation, an invoice of zero, and its update to \<open>active\<close>. The services answer every call
  and count the requests of the license manager.
\<close>

definition demo_billing_env :: "nat billing_env" where
  "demo_billing_env =
     \<lparr>be_now = 1000, be_graceful = True, be_int = (\<lambda>v. if v = JStr ''5'' then Inr 5 else Inl ValueError),
      be_str = (\<lambda>_. ''?''), be_decimal = (\<lambda>_. Inr 0), be_uuid_text = (\<lambda>_. ''uuid''), be_converter = demo_converter,
      be_stripe = (\<lambda>_ x. (x, Inr (JObj [(''amount_due'', JNum 100)]))),
      be_api = \<lparr>api_send = (\<lambda>q x. (Suc x, Inr \<lparr>rs_status = 200, rs_body = Some (JObj [])\<rparr>)),
        api_lms_url = ''lms'', api_license_manager_url = ''lm'', api_ecommerce_url = ''e'', api_discovery_url = ''d'',
        api_catalog_base_url = (\<lambda>_. ''c''), api_site_domain = ''s'', api_default_catalog_query_id = JNull,
        api_for_internal_use_only = JNull, api_default_product_id = JNull, api_plan_is_active = JNull,
        api_force_remind_all = False, api_should_send_email_to_pecu = (\<lambda>_. Inr False), api_float = Inr\<rparr>\<rparr>"

definition demo_subscription :: "string \<Rightarrow> string \<Rightarrow> string \<Rightarrow> int \<Rightarrow> stripe_event" where
  "demo_subscription key kind status t =
     \<lparr>ev_id = key, ev_type = ''customer.subscription.'' @ kind, ev_created = t,
      ev_object = JObj [(''object'', JStr ''subscription''), (''id'', JStr ''sub''), (''status'', JStr status),
        (''customer'', JStr ''cus''), (''metadata'', JObj [(''checkout_intent_id'', JStr ''5'')])],
      ev_rest = []\<rparr>"

definition demo_invoice :: "string \<Rightarrow> int \<Rightarrow> stripe_event" where
  "demo_invoice key t =
     \<lparr>ev_id = key, ev_type = ''invoice.paid'', ev_created = t,
      ev_object = JObj [(''object'', JStr ''invoice''), (''id'', JStr ''inv''), (''customer'', JStr ''cus''), (''amount_paid'', JNum 0),
        (''parent'', JObj [(''subscription_details'', JObj [(''subscription'', JStr ''sub''),
           (''metadata'', JObj [(''checkout_intent_id'', JStr ''5'')])])])],
      ev_rest = []\<rparr>"

definition demo_intent :: "checkout_intent_state \<Rightarrow> checkout_intent" where
  "demo_intent state = (acme_row 5 7 state 3)\<lparr>ci_stripe_customer_id := Some ''cus''\<rparr>"

definition demo_renewal :: "int \<Rightarrow> renewal_tracking" where
  "demo_renewal n = \<lparr>sw_checkout_intent = Some 5, sw_subscription_plan_renewal_id = n, sw_prior_subscription_plan_uuid = None,
     sw_renewed_subscription_plan_uuid = None, sw_stripe_event_data = digits (nat n), sw_stripe_subscription_id = Some ''sub'',
     sw_processed_at = None\<rparr>"

definition demo_billing :: "checkout_intent_state \<Rightarrow> nat billing" where
  "demo_billing state = \<lparr>bw_services = (Map.empty, 0), bw_intents = [demo_intent state], bw_events = [], bw_summaries = [],
     bw_renewals = [demo_renewal 1, demo_renewal 2], bw_steps = [], bw_mails = []\<rparr>"

definition demo_deliver :: "stripe_event list \<Rightarrow> checkout_intent_state \<Rightarrow> nat billing" where
  "demo_deliver es state = fold (\<lambda>e w. fst (dispatch demo_billing_env e w)) es (demo_billing state)"

definition demo_created :: stripe_event where "demo_created = demo_subscription ''evt1'' ''created'' ''trialing'' 100"
definition demo_updated :: stripe_event where "demo_updated = demo_subscription ''evt3'' ''updated'' ''active'' 300"

text \<open>Without the invoice the same update processes the newest open renewal.\<close>

theorem trial_end_missed_witness:
  "only_log (demo_deliver [demo_created, demo_invoice ''evt2'' 200] CI_PAID)
     (fst (dispatch demo_billing_env demo_updated (demo_deliver [demo_created, demo_invoice ''evt2'' 200] CI_PAID)))
   \<and> snd (bw_services (demo_deliver [demo_created] CI_PAID)) = 0
   \<and> snd (bw_services (demo_deliver [demo_created, demo_updated] CI_PAID)) = 1
   \<and> map sw_processed_at (bw_renewals (demo_deliver [demo_created, demo_updated] CI_PAID)) = [None, Some 1000]"
proof (intro conjI)
  show "only_log (demo_deliver [demo_created, demo_invoice ''evt2'' 200] CI_PAID)
     (fst (dispatch demo_billing_env demo_updated (demo_deliver [demo_created, demo_invoice ''evt2'' 200] CI_PAID)))"
  proof (rule trial_end_missed)
    show "ev_type demo_updated = ''customer.subscription.updated''" by code_simp
    show "event_about demo_billing_env demo_updated ((demo_intent CI_PAID)\<lparr>ci_modified := 1000\<rparr>) (demo_deliver [demo_created, demo_invoice ''evt2'' 200] CI_PAID)"
      by code_simp
  qed code_simp+
qed code_simp+

text \<open>The same update again: the older renewal stays open, and the delivery fails.\<close>

theorem event_renews_once_witness:
  "bw_renewals (fst (dispatch demo_billing_env demo_updated (demo_deliver [demo_created, demo_updated] CI_PAID))) =
     bw_renewals (demo_deliver [demo_created, demo_updated] CI_PAID)
   \<and> unprocessed_renewals (demo_intent CI_PAID) (bw_renewals (demo_deliver [demo_created, demo_updated] CI_PAID)) = [0]
   \<and> snd (dispatch demo_billing_env demo_updated (demo_deliver [demo_created, demo_updated] CI_PAID)) = Inl IntegrityError"
proof (intro conjI)
  let ?w = "demo_deliver [demo_created, demo_updated] CI_PAID"
  let ?r = "(demo_renewal 2)\<lparr>sw_stripe_event_data := ''evt3'', sw_processed_at := Some 1000\<rparr>"
  have "bw_renewals (fst (dispatch demo_billing_env demo_updated ?w)) = bw_renewals ?w \<and>
      bw_services (fst (dispatch demo_billing_env demo_updated ?w)) = bw_services ?w"
  proof (rule event_renews_once)
    show "ev_type demo_updated = ''customer.subscription.updated''" by code_simp
    show "event_about demo_billing_env demo_updated (demo_intent CI_PAID) ?w" by code_simp
    show "?r \<in> set (bw_renewals ?w)" by code_simp
  qed code_simp+
  then show "bw_renewals (fst (dispatch demo_billing_env demo_updated ?w)) = bw_renewals ?w" by (rule conjunct1)
qed code_simp+

theorem fulfilled_invoice_lost_witness:
  "only_log (demo_billing CI_FULFILLED) (fst (dispatch demo_billing_env (demo_invoice ''evt2'' 200) (demo_billing CI_FULFILLED)))
   \<and> snd (dispatch demo_billing_env (demo_invoice ''evt2'' 200) (demo_billing CI_FULFILLED)) = Inr ()
   \<and> bw_mails (demo_deliver [demo_invoice ''evt2'' 200] CI_FULFILLED) = []
   \<and> length (bw_mails (demo_deliver [demo_invoice ''evt2'' 200] CI_PAID)) = 1"
proof -
  let ?e = "demo_invoice ''evt2'' 200" and ?w = "demo_billing CI_FULFILLED"
  let ?details = "JObj [(''subscription'', JStr ''sub''), (''metadata'', JObj [(''checkout_intent_id'', JStr ''5'')])]"
  have "only_log ?w (fst (dispatch demo_billing_env ?e ?w)) \<and>
    snd (dispatch demo_billing_env ?e ?w) = (if be_graceful demo_billing_env then Inr () else Inl ValueError) \<and>
    (be_graceful demo_billing_env \<longrightarrow> (\<exists>d \<in> set (bw_events (fst (dispatch demo_billing_env ?e ?w))).
       sd_event_id d = ev_id ?e \<and> sd_handled_at d = Some (be_now demo_billing_env)))"
  proof (rule fulfilled_invoice_lost)
    show "ev_type ?e = ''invoice.paid''" by code_simp
    show "get_invoice_and_subscription ?e = Inr (ev_object ?e, ?details)" by code_simp
    show "json_truthy ?details" by code_simp
    show "get_checkout_intent_id_from_subscription demo_billing_env ?details = Inr (Some 5)" by code_simp
    show "get_one (filter (has_id (Some 5)) (bw_intents ?w)) = Found (demo_intent CI_FULFILLED)" by code_simp
    show "item (ev_object ?e) ''customer'' = Inr (JStr ''cus'')" by code_simp
    show "attr (ev_object ?e) ''id'' = Inr (JStr ''inv'')" by code_simp
  qed code_simp+
  moreover have "bw_mails (demo_deliver [?e] CI_FULFILLED) = []" "length (bw_mails (demo_deliver [?e] CI_PAID)) = 1"
    by code_simp+
  ultimately show ?thesis by (simp add: demo_billing_env_def)
qed

theorem log_stays_consistent_witness:
  "billing_wf (demo_deliver [demo_created, demo_updated, demo_invoice ''evt2'' 200, demo_updated] CI_PAID)
   \<and> length (bw_events (demo_deliver [demo_created, demo_updated, demo_invoice ''evt2'' 200, demo_updated] CI_PAID)) = 3"
proof
  show "billing_wf (demo_deliver [demo_created, demo_updated, demo_invoice ''evt2'' 200, demo_updated] CI_PAID)"
    unfolding demo_deliver_def by (rule log_stays_consistent) code_simp
qed code_simp

section \<open>The preview of another subscription\<close>

text \<open>
  After the upcoming invoice of one subscription was read, the upcoming invoice of every other
  subscription of the customer is answered with it while the entry lives, without a call: the key of
  the cache leaves out the subscription.
\<close>

theorem upcoming_invoice_of_other_subscription:
  assumes "cache (stripe_cache_key ''get_upcoming_invoice'' customer) = None"
    and "st (Preview_Invoice customer subscription) x = (x1, Inr invoice)" and "json_truthy invoice"
  shows "sbind (get_upcoming_invoice st customer subscription (cache, x)) (\<lambda>_. get_upcoming_invoice st customer other) =
    ((cache(stripe_cache_key ''get_upcoming_invoice'' customer \<mapsto> invoice), x1), Inr invoice)"
  unfolding get_upcoming_invoice_def by (rule stripe_cache_twice) (fact assms)+

theorem upcoming_invoice_of_other_subscription_witness:
  "snd (sbind (get_upcoming_invoice (\<lambda>c n. (Suc n, Inr (if c = Preview_Invoice ''cus'' ''one'' then JNum 100 else JNum 200)))
     ''cus'' ''one'' (Map.empty, 0 :: nat)) (\<lambda>_. get_upcoming_invoice (\<lambda>c n. (Suc n, Inr (if c = Preview_Invoice ''cus'' ''one'' then JNum 100 else JNum 200)))
     ''cus'' ''two'')) = Inr (JNum 100)"
  by (subst upcoming_invoice_of_other_subscription) simp_all

end
