(* ===== verification/Billing_Views_Properties.thy ===== *)
theory Billing_Views_Properties
  imports Billing_Views Stripe_Events_Properties
begin

text \<open>
  What the checkout of a customer guarantees: a session is created for a valid form only; what it stores
  for a user who has bought already; how failures of the LMS and conflicts are answered; and what the
  update of an intent may do.
\<close>

section \<open>The validators\<close>

lemma error_for_known [simp]:
  "error_for ''admin_email'' ''INVALID_FORMAT'' = Inr (Some (''invalid_format'', ''Invalid format for given email address.''))"
  "error_for ''admin_email'' ''NOT_REGISTERED'' = Inr (Some (''not_registered'', ''Given email address does not correspond to an existing user.''))"
  "error_for ''common'' ''INCOMPLETE_DATA'' = Inr (Some (''incomplete_data'', ''Not enough parameters were given.''))"
  "error_for ''common'' ''API_ERROR'' = Inl KeyError"
  "error_for ''enterprise_slug'' ''INVALID_FORMAT'' = Inr (Some (''invalid_format'', ''Invalid format for given slug.''))"
  "error_for ''enterprise_slug'' ''SLUG_RESERVED'' = Inr (Some (''slug_reserved'', ''The slug is currently reserved by another user.''))"
  "error_for ''enterprise_slug'' ''EXISTING_ENTERPRISE_CUSTOMER'' = Inr (Some (''existing_enterprise_customer'', ''The slug conflicts with an existing customer.''))"
  "error_for ''enterprise_slug'' ''EXISTING_ENTERPRISE_CUSTOMER_FOR_ADMIN'' = Inr (Some (''existing_enterprise_customer'', ''The slug conflicts with an existing customer.''))"
  "error_for ''company_name'' ''IS_NULL'' = Inr (Some (''is_null'', ''Company name cannot be empty.''))"
  "error_for ''company_name'' ''EXISTING_ENTERPRISE_CUSTOMER'' = Inr (Some (''existing_enterprise_customer'', ''An enterprise customer with this name already exists.''))"
  "error_for ''quantity'' ''INVALID_FORMAT'' = Inr (Some (''invalid_format'', ''Must be a positive integer.''))"
  "error_for ''quantity'' ''RANGE_EXCEEDED'' = Inr (Some (''range_exceeded'', ''Exceeded allowed range for given stripe_price_id.''))"
  "error_for ''stripe_price_id'' ''INVALID_FORMAT'' = Inr (Some (''invalid_format'', ''Must be a non-empty string.''))"
  "error_for ''stripe_price_id'' ''DOES_NOT_EXIST'' = Inr (Some (''does_not_exist'', ''This stripe_price_id has not been configured.''))"
  "error_for ''user'' ''IS_NULL'' = Inr (Some (''is_null'', ''The user object cannot be null''))"
  "error_for ''full_name'' ''IS_NULL'' = Inr (Some (''is_null'', ''The user object cannot be null''))"
  by (simp_all add: error_for_def CHECKOUT_SESSION_ERROR_CODES_def)

text \<open>No handler writes an intent, and none changes the input of a user who is known.\<close>

definition same_form :: "'x validator \<Rightarrow> 'x validator \<Rightarrow> bool" where
  "same_form v v' \<longleftrightarrow>
     kw_intents v' = kw_intents v \<and> (fd_user (va_input v) \<noteq> None \<longrightarrow> va_input v' = va_input v) \<and>
     fd_keys (va_input v') = fd_keys (va_input v)"

lemma same_form_refl [simp]: "same_form v v"
  by (simp add: same_form_def)

lemma same_form_trans: "same_form u v \<Longrightarrow> same_form v w \<Longrightarrow> same_form u w"
  by (auto simp: same_form_def)

lemma same_form_services [simp]:
  "same_form v (u\<lparr>kw_services := x\<rparr>) = same_form v u"
  "same_form v (u\<lparr>kw_prices := p\<rparr>) = same_form v u"
  "same_form v (u\<lparr>va_lms_user_id := n\<rparr>) = same_form v u"
  by (simp_all add: same_form_def)

lemma reads_same_form:
  "customer_data env slug name v = (v', r) \<Longrightarrow> same_form v v'"
  "product_pricing env v = (v', r1) \<Longrightarrow> same_form v v'"
  "get_lms_user_id env email v = (v', r2) \<Longrightarrow> same_form v v'"
  by (auto simp: customer_data_def product_pricing_def get_lms_user_id_def split: prod.splits option.splits sum.splits)

lemma handlers_same_form:
  "same_form v (fst (handle_admin_email env v))"
  "same_form v (fst (handle_enterprise_slug env v))"
  "same_form v (fst (handle_quantity env v))"
  "same_form v (fst (handle_stripe_price_id env v))"
  "same_form v (fst (handle_user env v))"
  "same_form v (fst (handle_full_name env v))"
  "same_form v (fst (handle_company_name env v))"
proof -
  note step = sbind_keeps [where P = "same_form v"] sbind_value_keeps [where P = "same_form v"]
  have lms: "same_form v (fst (get_lms_user_id env email v))" for email
    using reads_same_form(3) [of env email v] by (cases "get_lms_user_id env email v") simp
  show "same_form v (fst (handle_admin_email env v))"
    unfolding handle_admin_email_def Let_def by (auto intro!: step simp: lms dest: reads_same_form)
  show "same_form v (fst (handle_user env v))"
    unfolding handle_user_def
    by (auto intro!: step simp: lms split: option.split dest!: reads_same_form(3)) (auto simp: same_form_def)
  have customer: "same_form v (fst (case customer_data env s n v of (v, r) \<Rightarrow> (v, f r)))" for s n and f :: "json result \<Rightarrow> json result"
    by (cases "customer_data env s n v") (auto dest: reads_same_form)
  then have after: "(case customer_data env s n v of (v, r) \<Rightarrow> (v, f r)) = (v', y) \<Longrightarrow> same_form v v'" for s n v' y and f :: "json result \<Rightarrow> json result"
    by (metis fst_conv)
  show "same_form v (fst (handle_enterprise_slug env v))"
    unfolding handle_enterprise_slug_def Let_def by (auto intro!: step simp: customer dest!: after)
  show "same_form v (fst (handle_quantity env v))"
    unfolding handle_quantity_def Let_def by (auto split: prod.split sum.split dest!: reads_same_form(2))
  show "same_form v (fst (handle_stripe_price_id env v))"
    unfolding handle_stripe_price_id_def Let_def by (auto split: prod.split sum.split dest!: reads_same_form(2))
  show "same_form v (fst (handle_full_name env v))"
    by (simp add: handle_full_name_def)
  show "same_form v (fst (handle_company_name env v))"
    unfolding handle_company_name_def Let_def by (auto intro!: step split: prod.split sum.split dest!: reads_same_form(1))
qed

lemma validation_handlers_same_form:
  "map_of (validation_handlers env) k = Some h \<Longrightarrow> same_form v (fst (h v))"
  by (drule map_of_SomeD) (auto simp: validation_handlers_def handlers_same_form)

lemma run_handlers_decisions:
  assumes "run_handlers env ks v = (v', Inr ds)"
  shows "same_form v v' \<and> map fst ds = ks \<and>
    (\<forall>(k, d) \<in> set ds. \<exists>h u u'. map_of (validation_handlers env) k = Some h \<and> same_form v u \<and> h u = (u', Inr d))"
  using assms
proof (induction ks arbitrary: v ds)
  case (Cons k ks)
  then obtain h where h: "map_of (validation_handlers env) k = Some h" by (auto split: option.splits)
  with Cons.prems obtain v1 d ds1 where hv: "h v = (v1, Inr d)" and run: "run_handlers env ks v1 = (v', Inr ds1)" and ds: "ds = (k, d) # ds1"
    by (auto elim!: sbind_InrE)
  have v1: "same_form v v1" using validation_handlers_same_form [OF h, of v] by (simp add: hv)
  note ih = Cons.IH [OF run]
  have "\<exists>h u u'. map_of (validation_handlers env) k' = Some h \<and> same_form v u \<and> h u = (u', Inr d')"
    if "(k', d') \<in> set ds" for k' d'
  proof (cases "(k', d') = (k, d)")
    case True
    with h hv show ?thesis by (intro exI [of _ h] exI [of _ v] exI [of _ v1]) simp
  next
    case False
    with that ds have "(k', d') \<in> set ds1" by auto
    with ih obtain h u u' where "map_of (validation_handlers env) k' = Some h" "same_form v1 u" "h u = (u', Inr d')" by blast
    with same_form_trans [OF v1] show ?thesis by blast
  qed
  with ih same_form_trans [OF v1] show ?case by (auto simp: ds)
qed simp

text \<open>Every field of an accepted form was found valid, in a state that differs in the services only.\<close>

lemma accepted_field:
  assumes "validate env v = (v', Inr [])" and "k \<in> set (fd_keys (va_input v))"
  obtains h u u' where "map_of (validation_handlers env) k = Some h" and "same_form v u" and "h u = (u', Inr None)"
proof -
  obtain ds where run: "run_handlers env (fd_keys (va_input v)) v = (v', Inr ds)"
    and none: "List.map_filter (\<lambda>(k, d). map_option (\<lambda>d. (k, d)) d) ds = []"
    using assms(1) by (auto simp: validate_def elim!: sbind_InrE)
  have "k \<in> set (map fst ds)" using run_handlers_decisions [OF run] assms(2) by simp
  then obtain d where d: "(k, d) \<in> set ds" by auto
  moreover have "d = None" using none d by (cases d) (auto simp: List.map_filter_def filter_empty_conv)
  moreover have "\<forall>(k, d) \<in> set ds. \<exists>h u u'. map_of (validation_handlers env) k = Some h \<and> same_form v u \<and> h u = (u', Inr d)"
    using run_handlers_decisions [OF run] by simp
  from bspec [OF this d] obtain h u u' where "map_of (validation_handlers env) k = Some h" "same_form v u" "h u = (u', Inr d)"
    by auto
  ultimately show ?thesis using that by simp
qed

section \<open>A session needs a valid form\<close>

lemma accepted_admin_email:
  "handle_admin_email env u = (u', Inr None) \<Longrightarrow> truthy (fd_admin_email (va_input u)) \<and> ke_valid_email env (the (fd_admin_email (va_input u)))"
  by (auto simp: handle_admin_email_def Let_def split: if_split_asm)

lemma accepted_slug:
  "handle_enterprise_slug env u = (u', Inr None) \<Longrightarrow>
   ke_valid_slug env (the (fd_enterprise_slug (va_input u))) \<and>
   can_reserve (fd_enterprise_slug (va_input u)) None (map_option user_id (fd_user (va_input u))) (kw_intents u) = Inr True"
  unfolding handle_enterprise_slug_def Let_def
  by (cases "can_reserve (fd_enterprise_slug (va_input u)) None (map_option user_id (fd_user (va_input u))) (kw_intents u)")
     (auto split: if_split_asm)

lemma accepted_name:
  "handle_company_name env u = (u', Inr None) \<Longrightarrow>
   can_reserve None (fd_company_name (va_input u)) (map_option user_id (fd_user (va_input u))) (kw_intents u) = Inr True"
  unfolding handle_company_name_def Let_def
  by (cases "can_reserve None (fd_company_name (va_input u)) (map_option user_id (fd_user (va_input u))) (kw_intents u)")
     (auto split: if_split_asm)

lemma priced_product:
  assumes "product_pricing env u = (u', Inr pricing)" and "(key, d) \<in> set pricing"
  shows "\<exists>config. (key, config) \<in> set (ke_ssp_products env) \<and> sp_quantity_range d = cfg_quantity_range config"
proof -
  obtain all_prices where "ssp_pricing all_prices (ke_ssp_products env) = Inr pricing"
    using assms(1)
    by (cases "snd (get_all_stripe_prices (ke_stripe env) (kw_prices u, kw_services u))";
        cases "get_all_stripe_prices (ke_stripe env) (kw_prices u, kw_services u)")
       (auto simp: product_pricing_def get_ssp_product_pricing_def)
  then have "pricing = map (\<lambda>(key, config). (key, ssp_price_of key config (the (map_of all_prices (JStr (the (cfg_lookup_key config))))))) (ke_ssp_products env)"
    by (simp add: ssp_pricing_exact)
  with assms(2) show ?thesis by (auto simp: ssp_price_of_def price_data.defs)
qed

lemma accepted_quantity:
  assumes "handle_quantity env u = (u', Inr None)"
  shows "\<exists>key config lo hi. (key, config) \<in> set (ke_ssp_products env) \<and> cfg_quantity_range config = Some (lo, hi) \<and>
           lo \<le> the (fd_quantity (va_input u)) \<and> the (fd_quantity (va_input u)) \<le> hi"
proof -
  obtain v pricing where pricing: "product_pricing env u = (v, Inr pricing)"
    using assms by (auto simp: handle_quantity_def Let_def split: if_split_asm prod.splits sum.splits)
  obtain key d where d: "find (\<lambda>(_, d). pd_id d = JStr (the (fd_stripe_price_id (va_input u)))) pricing = Some (key, d)"
    using assms by (auto simp: handle_quantity_def Let_def pricing split: if_split_asm option.splits)
  have range: "\<exists>lo hi. sp_quantity_range d = Some (lo, hi) \<and> lo \<le> the (fd_quantity (va_input u)) \<and> the (fd_quantity (va_input u)) \<le> hi"
    using assms by (auto simp: handle_quantity_def Let_def pricing d split: if_split_asm option.splits)
  from priced_product [OF pricing] find_SomeD [OF d] range show ?thesis by fastforce
qed

text \<open>
  C24. A checkout session is created for a known user only when the form was valid: the address and the
  slug are well formed, neither the slug nor the name is reserved by another user, and the quantity lies
  in the range of a configured product.
\<close>

theorem session_only_for_valid_form:
  assumes "create_free_trial_checkout_session env input w = (w', Inr session)"
    and "fd_user input = Some user"
    and "{''admin_email'', ''enterprise_slug'', ''company_name'', ''quantity''} \<subseteq> set (fd_keys input)"
  shows "ke_valid_email env (the (fd_admin_email input)) \<and> ke_valid_slug env (the (fd_enterprise_slug input)) \<and>
    can_reserve (fd_enterprise_slug input) None (Some (user_id user)) (kw_intents w) = Inr True \<and>
    can_reserve None (fd_company_name input) (Some (user_id user)) (kw_intents w) = Inr True \<and>
    (\<exists>key config lo hi. (key, config) \<in> set (ke_ssp_products env) \<and> cfg_quantity_range config = Some (lo, hi) \<and>
       lo \<le> the (fd_quantity input) \<and> the (fd_quantity input) \<le> hi)"
proof -
  let ?v = "new_validator input w"
  have v: "va_input ?v = input" "kw_intents ?v = kw_intents w" by (simp_all add: new_validator_def checkout.defs)
  obtain v' where valid: "validate env ?v = (v', Inr [])"
    using assms(1) by (auto simp: create_free_trial_checkout_session_def Let_def split: prod.splits sum.splits if_split_asm)
  have field: "\<exists>u u'. h u = (u', Inr None) \<and> va_input u = input \<and> kw_intents u = kw_intents w"
    if "k \<in> set (fd_keys input)" and h: "map_of (validation_handlers env) k = Some h" for k h
  proof (rule accepted_field [OF valid])
    show "k \<in> set (fd_keys (va_input ?v))" using that(1) by (simp add: v)
    fix h' u u'
    assume a: "map_of (validation_handlers env) k = Some h'" "same_form ?v u" "h' u = (u', Inr None)"
    then show "\<exists>u u'. h u = (u', Inr None) \<and> va_input u = input \<and> kw_intents u = kw_intents w"
      using h assms(2) by (auto simp: same_form_def v)
  qed
  have "\<exists>key config lo hi. (key, config) \<in> set (ke_ssp_products env) \<and> cfg_quantity_range config = Some (lo, hi) \<and>
       lo \<le> the (fd_quantity input) \<and> the (fd_quantity input) \<le> hi"
    using field [of "''quantity''" "handle_quantity env"] assms(3)
    by (auto simp: validation_handlers_def dest!: accepted_quantity)
  then show ?thesis
    using field [of "''admin_email''" "handle_admin_email env"] field [of "''enterprise_slug''" "handle_enterprise_slug env"]
      field [of "''company_name''" "handle_company_name env"] assms(2,3)
    by (simp add: validation_handlers_def) (auto dest!: accepted_admin_email accepted_slug accepted_name)
qed

section \<open>A user who has bought already\<close>


section \<open>Failures of the LMS\<close>

lemma customer_data_fails:
  assumes "\<And>q x. \<exists>x1 resp. api_send (ke_api env) q x = (x1, Inr resp) \<and> 400 \<le> rs_status resp \<and> rs_status resp < 600"
    and "truthy slug \<or> truthy name"
  shows "snd (customer_data env slug name v) = Inl APIClientException"
proof -
  have "snd (call_api (ke_api env) q x) = Inl HTTPError" for q x
    using assms(1) [of q x] by (auto simp: call_api_def raise_for_status_def)
  with assms(2) show ?thesis
    by (auto simp: customer_data_def get_enterprise_customer_data_def Let_def as_api_exception_def split_beta)
qed

text \<open>
  When the LMS answers with an error, 404 included, checking a well-formed slug or a name raises the
  exception of the client: neither the error code \<open>API_ERROR\<close> nor the acceptance on 404 is ever reached.
\<close>

theorem lms_failure_not_reported:
  assumes "\<And>q x. \<exists>x1 resp. api_send (ke_api env) q x = (x1, Inr resp) \<and> 400 \<le> rs_status resp \<and> rs_status resp < 600"
    and "truthy (fd_admin_email (va_input v))" and "ke_valid_slug env (the (fd_enterprise_slug (va_input v)))"
    and "can_reserve (fd_enterprise_slug (va_input v)) None (map_option user_id (fd_user (va_input v))) (kw_intents v) = Inr True"
    and "can_reserve None (fd_company_name (va_input v)) (map_option user_id (fd_user (va_input v))) (kw_intents v) = Inr True"
  shows "snd (handle_enterprise_slug env v) = Inl APIClientException \<and> snd (handle_company_name env v) = Inl APIClientException"
proof -
  have "truthy (fd_enterprise_slug (va_input v))" "truthy (fd_company_name (va_input v))"
    using assms(4,5) by (auto simp: can_reserve_def filter_by_name_and_slug_def rbind_Inr_iff split: if_split_asm)
  moreover from this have
      "customer_data env (fd_enterprise_slug (va_input v)) None v = (fst (customer_data env (fd_enterprise_slug (va_input v)) None v), Inl APIClientException)"
      "customer_data env None (fd_company_name (va_input v)) v = (fst (customer_data env None (fd_company_name (va_input v)) v), Inl APIClientException)"
    by (simp_all add: prod_eq_iff customer_data_fails [OF assms(1)])
  then obtain v1 v2 where "customer_data env (fd_enterprise_slug (va_input v)) None v = (v1, Inl APIClientException)"
      "customer_data env None (fd_company_name (va_input v)) v = (v2, Inl APIClientException)" by blast
  ultimately show ?thesis
    using assms(2-5) by (simp add: handle_enterprise_slug_def handle_company_name_def Let_def)
qed

section \<open>Updates of an intent\<close>

lemma update_intent_moves:
  assumes "update_intent now embargoed patch i = Inr j"
  shows "ci_state j = ci_state i \<or> ci_allowed (ci_state i) (ci_state j)"
proof -
  obtain state where "optionally (validate_state i) (pt_state patch) = Inr state"
    and j: "ci_state j = (case state of None \<Rightarrow> ci_state i | Some s \<Rightarrow> s)"
    using assms unfolding update_intent_def by (auto elim!: rbind_InrE)
  then show ?thesis
    by (auto simp: optionally_def validate_state_def rbind_Inr_iff split: option.splits if_split_asm)
qed

text \<open>A user's updates keep to the transition table as the operations of the model do.\<close>

interpretation patched: guarded_transitions ci_allowed ci_state "\<lambda>i j. \<exists>now embargoed patch. update_intent now embargoed patch i = Inr j"
  by unfold_locales (auto dest: update_intent_moves)

lemma patched_fulfilled_stays:
  "(\<lambda>i j. \<exists>now embargoed patch. update_intent now embargoed patch i = Inr j)\<^sup>*\<^sup>* i j \<Longrightarrow> ci_state i = CI_FULFILLED \<Longrightarrow> ci_state j = CI_FULFILLED"
  by (rule patched.moves_terminal [OF no_way_out_of_fulfilled])

text \<open>
  The owner of an expired intent can set it back to created with a patch that nobody checks against
  the reservations made in the meantime: two users then hold the same slug.
\<close>

theorem patch_revives_over_reservation:
  assumes "intents_wf intents" and "i \<in> set intents" and "j \<in> set intents" and "ci_user j \<noteq> ci_user i"
    and "ci_state i = CI_EXPIRED" and "ci_state j \<in> set non_expired_states"
    and "ci_enterprise_slug i = Some slug" and "ci_enterprise_slug j = Some slug" and "slug \<noteq> []"
    and "lk_uuid lk pk = Some (ci_uuid i)" and "\<forall>k \<in> set intents. ci_uuid k = ci_uuid i \<longrightarrow> k = i"
  shows "snd (partial_update_intent now embargoed lk pk (ci_user i) False
            \<lparr>pt_state = Some CI_CREATED, pt_country = None, pt_terms_metadata = None\<rparr> intents) = Inr 200 \<and>
    \<not> reservations_unique (fst (partial_update_intent now embargoed lk pk (ci_user i) False
            \<lparr>pt_state = Some CI_CREATED, pt_country = None, pt_terms_metadata = None\<rparr> intents))"
proof -
  have d: "distinct intents" "distinct (map ci_pk intents)" using assms(1) by (auto simp: intents_wf_def distinct_map)
  have "filter (\<lambda>k. ci_uuid k = ci_uuid i) (filter (\<lambda>k. ci_user k = ci_user i) intents) = [i]"
    by (rule filter_singleton) (use assms(2,11) d in auto)
  then have run: "partial_update_intent now embargoed lk pk (ci_user i) False
        \<lparr>pt_state = Some CI_CREATED, pt_country = None, pt_terms_metadata = None\<rparr> intents =
      (put_row ci_pk (i\<lparr>ci_state := CI_CREATED, ci_modified := now\<rparr>) intents, Inr 200)"
    by (simp add: partial_update_intent_def get_object_def intent_queryset_def assms(5,10) update_intent_def optionally_def validate_state_def)
  let ?i = "i\<lparr>ci_state := CI_CREATED, ci_modified := now\<rparr>"
  have "ci_pk j \<noteq> ci_pk i" using distinct_key_inj [OF d(2) assms(3,2)] assms(4) by auto
  then have "j \<in> set (put_row ci_pk ?i intents)" "?i \<in> set (put_row ci_pk ?i intents)"
    using assms(2,3) by (auto simp: set_put_row)
  moreover have "holds_reservation j" "holds_reservation ?i" "reserved_as (ci_enterprise_slug j) (ci_enterprise_name j) ?i"
    using assms(6-9) by (simp_all add: holds_reservation_iff reserved_as_def) (auto simp: non_expired_states_def)
  moreover have "ci_user j \<noteq> ci_user ?i" using assms(4) by simp
  ultimately show ?thesis unfolding run reservations_unique_def by fastforce
qed

section \<open>Concrete runs\<close>

definition demo_price :: json where
  "demo_price = JObj [(''id'', JStr ''price''), (''currency'', JStr ''USD''), (''unit_amount'', JNum 500), (''type'', JStr ''recurring''),
     (''active'', JBool True), (''billing_scheme'', JStr ''per_unit''), (''lookup_key'', JStr ''yearly''),
     (''recurring'', JObj [(''interval'', JStr ''year''), (''interval_count'', JNum 1), (''usage_type'', JStr ''licensed'')]),
     (''product'', JNull)]"

definition demo_stripe :: "nat stripe" where
  "demo_stripe c x = (Suc x, Inr (case c of
      List_Prices \<Rightarrow> JList [demo_price]
    | Search_Customers _ \<Rightarrow> JObj [(''data'', JList [])]
    | _ \<Rightarrow> JObj [(''id'', JStr ''session''), (''client_secret'', JStr ''secret''), (''customer'', JStr ''cus2'')]))"

definition demo_lms :: "int \<Rightarrow> nat api" where
  "demo_lms status = (be_api demo_billing_env)\<lparr>api_send := (\<lambda>q x. (Suc x, Inr \<lparr>rs_status = status, rs_body = Some
     (case q of Http_get url params \<Rightarrow> if params = [] then JObj [] else JList [JObj [(''id'', JNum 77)]] | _ \<Rightarrow> JNull)\<rparr>))\<rparr>"

definition demo_checkout_env :: "int \<Rightarrow> nat checkout_env" where
  "demo_checkout_env status = \<lparr>ke_api = demo_lms status, ke_stripe = demo_stripe, ke_not_found = True, ke_valid_email = (\<lambda>s. CHR ''@'' \<in> set s),
     ke_valid_slug = (\<lambda>s. CHR '' '' \<notin> set s), ke_str = (\<lambda>_. ''?''), ke_int = (\<lambda>_. Inl ValueError), ke_uuid_text = (\<lambda>_. ''uuid''),
     ke_users = [], ke_ssp_products = [(''plan'', \<lparr>cfg_lookup_key = Some ''yearly'', cfg_quantity_range = Some (5, 30)\<rparr>)],
     ke_reservation_minutes = 1440, ke_trial_days = 14, ke_now = 5, ke_new_pk = 9, ke_new_uuid = 90\<rparr>"

definition demo_form :: form_data where
  "demo_form = \<lparr>fd_keys = [''user'', ''admin_email'', ''enterprise_slug'', ''company_name'', ''quantity'', ''stripe_price_id''],
     fd_user = Some \<lparr>user_id = 7, user_email = ''a@b'', user_lms_user_id = Some 77\<rparr>, fd_admin_email = Some ''a@b'',
     fd_full_name = None, fd_company_name = Some ''Beta'', fd_enterprise_slug = Some ''beta'', fd_quantity = Some 8,
     fd_stripe_price_id = Some ''price''\<rparr>"

definition demo_shop :: "checkout_intent list \<Rightarrow> nat checkout" where
  "demo_shop intents = \<lparr>kw_services = 0, kw_prices = \<lparr>ps_all = None, ps_one = Map.empty\<rparr>, kw_intents = intents\<rparr>"

definition demo_session :: json where
  "demo_session = JObj [(''id'', JStr ''session''), (''client_secret'', JStr ''secret''), (''customer'', JStr ''cus2'')]"

definition demo_run :: "checkout_intent list \<Rightarrow> nat checkout \<times> json result" where
  "demo_run intents = create_free_trial_checkout_session (demo_checkout_env 200) demo_form (demo_shop intents)"

lemma demo_run_succeeds:
  "snd (demo_run []) = Inr demo_session" "snd (demo_run [demo_intent CI_FULFILLED]) = Inr demo_session"
  by code_simp+

lemma demo_session_created:
  "create_free_trial_checkout_session (demo_checkout_env 200) demo_form (demo_shop []) = (fst (demo_run []), Inr demo_session)"
  "create_free_trial_checkout_session (demo_checkout_env 200) demo_form (demo_shop [demo_intent CI_FULFILLED]) =
     (fst (demo_run [demo_intent CI_FULFILLED]), Inr demo_session)"
  using demo_run_succeeds by (simp_all add: demo_run_def prod_eq_iff)

theorem session_only_for_valid_form_witness:
  "can_reserve (Some ''beta'') None (Some 7) [] = Inr True \<and> map ci_enterprise_slug (kw_intents (fst (demo_run []))) = [Some ''beta'']"
proof
  have "fd_user demo_form = Some \<lparr>user_id = 7, user_email = ''a@b'', user_lms_user_id = Some 77\<rparr>" by (simp add: demo_form_def)
  from session_only_for_valid_form [OF demo_session_created(1) this] show "can_reserve (Some ''beta'') None (Some 7) [] = Inr True"
    by (simp add: demo_form_def demo_shop_def)
qed code_simp


theorem lms_failure_not_reported_witness:
  "snd (handle_enterprise_slug (demo_checkout_env 404) (new_validator demo_form (demo_shop []))) = Inl APIClientException"
  by (rule lms_failure_not_reported [THEN conjunct1])
     (simp_all add: demo_checkout_env_def demo_lms_def demo_form_def demo_shop_def new_validator_def checkout.defs can_reserve_def filter_by_name_and_slug_def)

theorem patch_revives_over_reservation_witness:
  "\<not> reservations_unique (fst (partial_update_intent 9 [] \<lparr>lk_uuid = (\<lambda>s. if s = ''u1'' then Some 1 else None), lk_int = (\<lambda>_. None)\<rparr> ''u1'' 7 False
     \<lparr>pt_state = Some CI_CREATED, pt_country = None, pt_terms_metadata = None\<rparr>
     [(acme_row 1 7 CI_EXPIRED 3)\<lparr>ci_uuid := 1\<rparr>, (acme_row 2 8 CI_PAID 30)\<lparr>ci_uuid := 2\<rparr>]))"
proof -
  let ?i = "(acme_row 1 7 CI_EXPIRED 3)\<lparr>ci_uuid := 1\<rparr>" and ?j = "(acme_row 2 8 CI_PAID 30)\<lparr>ci_uuid := 2\<rparr>"
  have "\<not> reservations_unique (fst (partial_update_intent 9 [] \<lparr>lk_uuid = (\<lambda>s. if s = ''u1'' then Some 1 else None), lk_int = (\<lambda>_. None)\<rparr> ''u1'' (ci_user ?i) False
     \<lparr>pt_state = Some CI_CREATED, pt_country = None, pt_terms_metadata = None\<rparr> [?i, ?j]))"
    by (rule patch_revives_over_reservation [where j = ?j and slug = "''acme''", THEN conjunct2]) (simp_all add: acme_simps)
  then show ?thesis by (simp add: acme_simps)
qed

end
