(* ===== verification/License_Requests_Properties.thy ===== *)
theory License_Requests_Properties
  imports License_Requests
begin

text \<open>
  What becomes of license and coupon code requests: the outcome of an approved batch, the codes a
  batch can lose, the decline that nobody guards, and the change of the kind of requests that cannot
  decline what it is meant to decline.
\<close>

section \<open>Reviewing a list\<close>

text \<open>A review that never fails reviews every row.\<close>

lemma review_all_ok:
  assumes "\<And>r. r \<in> set rs \<Longrightarrow> f r = Inr (g r, t r)"
  shows "review_all f rs = (map g rs, concat (map t rs), Inr ())"
  using assms by (induction rs) auto

lemma review_all_stops:
  assumes "\<And>q. q \<in> set pre \<Longrightarrow> f q = Inr (g q, t q)" and "f r = Inl e"
  shows "review_all f (pre @ r # post) = (map g pre, concat (map t pre), Inl e)"
  using assms by (induction pre) auto

lemma in_put_rows:
  "x \<in> set (put_rows key new rows) \<Longrightarrow>
     (x \<in> set new \<and> key x \<in> key ` set rows) \<or> (x \<in> set rows \<and> key x \<notin> key ` set new)"
proof (induction new arbitrary: rows)
  case (Cons r new)
  from Cons.IH [of "put_row key r rows"] Cons.prems show ?case by (auto simp: set_put_row split: if_splits)
qed simp

lemma put_rows_keeps: "key x \<notin> key ` set new \<Longrightarrow> x \<in> set rows \<Longrightarrow> x \<in> set (put_rows key new rows)"
  by (induction new arbitrary: rows) (auto simp: set_put_row)

section \<open>Licenses\<close>

lemma clean_license_iff:
  "clean_license r = Inr () \<longleftrightarrow>
     (sr_state r = SR_APPROVED \<longrightarrow> lr_subscription_plan_uuid r \<noteq> None \<and> lr_license_uuid r \<noteq> None) \<and> reviewed r"
  by (auto simp: clean_license_def clean_request_iff)

definition pending_license :: "view_env \<Rightarrow> license_request \<Rightarrow> license_request" where
  "pending_license env r = r\<lparr>sr_reviewer := Some (ve_user env), sr_state := SR_PENDING, sr_reviewed_at := Some (ve_now env)\<rparr>"

lemma approve_license_ok:
  "approve_license (ve_user env) (ve_now env) r =
     Inr (pending_license env r, update_course_info_for_subsidy_request ''LicenseRequest'' (pending_license env r))"
  by (simp add: approve_license_def save_license_def clean_license_def clean_request_def pending_license_def)

lemma error_statuses:
  "validate_subsidy_request_uuids env us = Inl status \<Longrightarrow> status = 400"
  "validate_subscription_plan_uuid env p = Inl status \<Longrightarrow> status = 400"
  "verify_subsidies_remaining env api plan uuids x = (x1, Inr (Some status)) \<Longrightarrow> status = 500 \<or> status = 422"
  by (auto simp: validate_subsidy_request_uuids_def validate_subscription_plan_uuid_def verify_subsidies_remaining_def
      rbind_Inr_iff split: option.splits if_splits prod.splits sum.splits)

lemma approved_licenses:
  assumes "approve_license_requests env api data rows x = ((rows1, ts, Inr \<lparr>rp_status = 200, rp_uuids = uuids\<rparr>), x1)"
  shows "\<exists>rs. set rs \<subseteq> set rows \<and> uuids = map sr_uuid rs \<and> rows1 = put_rows sr_uuid (map (pending_license env) rs) rows"
proof -
  have key: "sr_uuid \<circ> pending_license env = sr_uuid" by (auto simp: pending_license_def)
  from assms obtain customer us where
    "rows1 = put_rows sr_uuid (map (pending_license env) (open_requests (requests_of us customer rows))) rows"
    "uuids = map sr_uuid (open_requests (requests_of us customer rows))"
    unfolding approve_license_requests_def Let_def
    by (auto simp: review_all_ok [OF approve_license_ok] key dest: error_statuses split: sum.splits prod.splits option.splits if_splits)
  then show ?thesis by (intro exI [of _ "open_requests (requests_of us customer rows)"]) (auto simp: open_requests_def requests_of_def)
qed

lemma licensed_clean:
  assumes "licensed env assigned plan r = Inr r'" and "reviewed r" and "sr_state r = SR_PENDING"
  shows "sr_uuid r' = sr_uuid r \<and> clean_license r' = Inr () \<and>
    (sr_state r' = SR_ERROR \<or> sr_state r' = SR_APPROVED \<and> lr_subscription_plan_uuid r' = Some plan \<and> lr_license_uuid r' \<noteq> None)"
  using assms unfolding licensed_def
  by (auto simp: clean_license_iff reviewed_def split: option.splits if_splits json.splits)


definition demo_env :: view_env where
  "demo_env = \<lparr>ve_user = 9, ve_lms_user_id = 90, ve_now = 50, ve_permitted = (\<lambda>_ _. True),
     ve_uuid = (\<lambda>s. Some (length s)), ve_uuid_text = (\<lambda>u. replicate u CHR ''u''), ve_fresh = 77\<rparr>"

definition demo_open :: "uuid \<Rightarrow> string \<Rightarrow> subsidy_request" where
  "demo_open u address = \<lparr>sr_uuid = u, sr_user = \<lparr>user_id = u, user_email = address, user_lms_user_id = Some (int u)\<rparr>,
     sr_course_id = Some ''c'', sr_course_title = Some ''t'', sr_course_partners = Some (JList [JNull]),
     sr_enterprise_customer_uuid = 3, sr_state = SR_REQUESTED, sr_reviewed_at = None, sr_reviewer = None,
     sr_decline_reason = None\<rparr>"

definition demo_license :: "uuid \<Rightarrow> string \<Rightarrow> license_request" where
  "demo_license u address = subsidy_request.extend (demo_open u address) \<lparr>lr_subscription_plan_uuid = None, lr_license_uuid = None\<rparr>"

definition demo_coupon :: "uuid \<Rightarrow> string \<Rightarrow> coupon_code_request" where
  "demo_coupon u address = subsidy_request.extend (demo_open u address) \<lparr>cr_coupon_id = None, cr_coupon_code = None\<rparr>"

definition demo_review :: review_data where
  "demo_review = \<lparr>rd_enterprise_customer_uuid = Some ''ccc'', rd_subsidy_request_uuids = Some [''u'', ''uu''],
     rd_subscription_plan_uuid = Some ''plan'', rd_coupon_id = 5, rd_send_notification = False,
     rd_unlink_users_from_enterprise = False\<rparr>"

text \<open>A license manager with two licenses left that assigns one of them.\<close>

definition demo_manager :: "nat api" where
  "demo_manager = \<lparr>api_send = (\<lambda>q x. (Suc x, Inr \<lparr>rs_status = 200, rs_body = Some (case q of
        Http_get _ _ \<Rightarrow> JList [JObj [(''status'', JStr ''unassigned''), (''count'', JNum 2)]]
      | _ \<Rightarrow> JObj [(''license_assignments'', JList [JObj [(''user_email'', JStr ''a''), (''license'', JStr ''key'')]])])\<rparr>)),
     api_lms_url = ''L'', api_license_manager_url = ''M'', api_ecommerce_url = ''E'', api_discovery_url = ''D'',
     api_catalog_base_url = (\<lambda>v. v), api_site_domain = ''s'', api_default_catalog_query_id = JNum 1,
     api_for_internal_use_only = JBool False, api_default_product_id = JNum 1, api_plan_is_active = JBool True,
     api_force_remind_all = False, api_should_send_email_to_pecu = (\<lambda>_. Inr False), api_float = (\<lambda>v. Inr v)\<rparr>"

definition demo_approved :: "uuid \<Rightarrow> string \<Rightarrow> license_request" where
  "demo_approved u address = pending_license demo_env (demo_license u address)"

lemma demo_license_run:
  "approve_license_requests demo_env demo_manager demo_review [demo_license 1 ''a'', demo_license 2 ''b''] 0 =
     (([demo_approved 1 ''a'', demo_approved 2 ''b''], [Assign_Licenses [1, 2] 4 False], Inr \<lparr>rp_status = 200, rp_uuids = [1, 2]\<rparr>), 1)"
  "assign_licenses_task demo_env demo_manager [1, 2] 4 [demo_approved 1 ''a'', demo_approved 2 ''b''] 1 =
     (2, Inr (Some ([1, 2], [(JStr ''a'', JStr ''key'')], 4)))"
  "update_license_requests_after_assignments_task demo_env (Some ([1, 2], [(JStr ''a'', JStr ''key'')], 4))
       [demo_approved 1 ''a'', demo_approved 2 ''b''] =
     ([(demo_approved 1 ''a'')\<lparr>sr_state := SR_APPROVED, lr_subscription_plan_uuid := Some 4, lr_license_uuid := Some 3\<rparr>,
       (demo_approved 2 ''b'')\<lparr>sr_state := SR_ERROR\<rparr>], Inr ())"
  by code_simp+


section \<open>Coupon codes\<close>

text \<open>
  A batch can lose its coupon codes. When the answer of the e-commerce service names no code for
  one learner of an approved batch, the task fails with a \<open>KeyError\<close> and writes nothing: every
  request of the batch stays as it is, those included whose codes have been assigned.
\<close>

theorem missing_code_loses_the_batch:
  assumes "r \<in> set rows" and "sr_uuid r \<in> set uuids" and "map_of assigned (JStr (user_email (sr_user r))) = None"
  shows "update_coupon_code_requests_after_assignments_task text_of (Some (uuids, assigned, coupon_id)) rows = (rows, Inl KeyError)"
proof -
  have "rmap (coupon_assigned text_of assigned coupon_id) rs = Inl KeyError"
    if "\<exists>r \<in> set rs. map_of assigned (JStr (user_email (sr_user r))) = None" for rs
    using that by (induction rs) (auto simp: coupon_assigned_def rbind_Inl_iff split: option.splits)
  then have "rmap (coupon_assigned text_of assigned coupon_id) (filter (\<lambda>r. sr_uuid r \<in> set uuids) rows) = Inl KeyError"
    by (rule) (use assms in auto)
  then show ?thesis by (simp add: update_coupon_code_requests_after_assignments_task_def)
qed

theorem missing_code_loses_the_batch_witness:
  "update_coupon_code_requests_after_assignments_task (\<lambda>_. Some ''code'') (Some ([1, 2], [(JStr ''a'', JStr ''code'')], 5))
     [demo_coupon 1 ''a'', demo_coupon 2 ''b''] = ([demo_coupon 1 ''a'', demo_coupon 2 ''b''], Inl KeyError)"
  by (rule missing_code_loses_the_batch [where r = "demo_coupon 2 ''b''"])
    (simp_all add: demo_coupon_def demo_open_def subsidy_request.defs)

text \<open>
  Nobody guards the decline of coupon code requests: its outcome does not depend on the permissions
  of the user, so a user who may do nothing declines the open requests of any customer, while the
  decline of license requests changes nothing for such a user.
\<close>

theorem coupon_decline_unguarded:
  "decline_coupon_requests (env\<lparr>ve_permitted := permitted\<rparr>) data rows = decline_coupon_requests env data rows \<and>
   (\<exists>e. decline_license_requests (env\<lparr>ve_permitted := \<lambda>_ _. False\<rparr>) data licenses = (licenses, [], Inl e))"
proof -
  have "decline_coupon_requests (env\<lparr>ve_permitted := permitted\<rparr>) data rows = decline_coupon_requests env data rows"
  proof -
    have "get_enterprise_uuid_from_request_data (env\<lparr>ve_permitted := permitted\<rparr>) = get_enterprise_uuid_from_request_data env"
        "validate_subsidy_request_uuids (env\<lparr>ve_permitted := permitted\<rparr>) = validate_subsidy_request_uuids env"
        "ve_user (env\<lparr>ve_permitted := permitted\<rparr>) = ve_user env" "ve_now (env\<lparr>ve_permitted := permitted\<rparr>) = ve_now env"
      by (simp_all add: fun_eq_iff get_enterprise_uuid_from_request_data_def validate_subsidy_request_uuids_def split: option.splits)
    then show ?thesis unfolding decline_coupon_requests_def by (simp only:)
  qed
  moreover have "\<exists>e. decline_license_requests (env\<lparr>ve_permitted := \<lambda>_ _. False\<rparr>) data licenses = (licenses, [], Inl e)"
  proof (cases "get_enterprise_uuid_from_request_data env (rd_enterprise_customer_uuid data)")
    case (Inl e)
    then show ?thesis
      by (simp add: decline_license_requests_def permission_required_def get_enterprise_uuid_from_request_data_def split: if_splits option.splits)
  next
    case (Inr c)
    then show ?thesis
      by (simp add: decline_license_requests_def permission_required_def get_enterprise_uuid_from_request_data_def split: if_splits option.splits)
  qed
  ultimately show ?thesis by blast
qed

section \<open>Changing the kind of requests\<close>

text \<open>
  The task that declines the open requests of a customer whose kind of requests changes cannot
  decline a request nobody has reviewed: it sets neither a reviewer nor the time of a review, so the
  save of the first such request raises a \<open>ValidationError\<close>. The requests before it are declined, that
  request and all after it stay open.
\<close>

theorem type_change_cannot_decline:
  assumes "filter (\<lambda>r. sr_uuid r \<in> set uuids) rows = pre @ r # post"
    and "\<forall>q \<in> set pre. sr_reviewed_at q \<noteq> None \<and> sr_reviewer q \<noteq> None"
    and "sr_reviewed_at r = None \<or> sr_reviewer r = None" and "distinct (map sr_uuid rows)"
  shows "\<exists>ts. decline_enterprise_license_requests_task uuids rows =
      (put_rows sr_uuid (map decline_for_type_change pre) rows, ts, Inl ValidationError) \<and>
    set (r # post) \<subseteq> set (put_rows sr_uuid (map decline_for_type_change pre) rows)"
proof -
  have key: "sr_uuid (decline_for_type_change q) = sr_uuid q" for q :: license_request
    by (simp add: decline_for_type_change_def)
  have "save_license (decline_for_type_change q) =
      Inr (decline_for_type_change q, update_course_info_for_subsidy_request ''LicenseRequest'' (decline_for_type_change q))"
    if "q \<in> set pre" for q
    using that assms(2) by (simp add: save_license_def clean_license_def clean_request_def decline_for_type_change_def)
  moreover have "save_license (decline_for_type_change r) = Inl ValidationError"
    using assms(3) by (auto simp: save_license_def clean_license_def clean_request_def decline_for_type_change_def)
  ultimately have "\<exists>ts. review_all (\<lambda>r. save_license (decline_for_type_change r)) (pre @ r # post) =
      (map decline_for_type_change pre, ts, Inl ValidationError)"
    by (intro exI, rule review_all_stops) auto
  then have "\<exists>ts. decline_enterprise_license_requests_task uuids rows =
      (put_rows sr_uuid (map decline_for_type_change pre) rows, ts, Inl ValidationError)"
    by (auto simp: decline_enterprise_license_requests_task_def assms(1))
  moreover have "q \<in> set (put_rows sr_uuid (map decline_for_type_change pre) rows)" if "q \<in> set (r # post)" for q
  proof -
    have "distinct (map sr_uuid (pre @ r # post))"
      unfolding assms(1) [symmetric] using assms(4) by (rule distinct_map_filter)
    with that have "sr_uuid q \<notin> sr_uuid ` set (map decline_for_type_change pre)"
      by (auto simp: key image_iff)
    moreover have "q \<in> set (filter (\<lambda>r. sr_uuid r \<in> set uuids) rows)" unfolding assms(1) using that by auto
    then have "q \<in> set rows" by simp
    ultimately show ?thesis by (rule put_rows_keeps)
  qed
  ultimately show ?thesis by blast
qed

theorem type_change_cannot_decline_witness:
  "\<exists>ts. decline_enterprise_license_requests_task [1, 2] [demo_approved 1 ''a'', demo_license 2 ''b''] =
      (put_rows sr_uuid [decline_for_type_change (demo_approved 1 ''a'')] [demo_approved 1 ''a'', demo_license 2 ''b''], ts, Inl ValidationError) \<and>
    set [demo_license 2 ''b''] \<subseteq> set (put_rows sr_uuid [decline_for_type_change (demo_approved 1 ''a'')] [demo_approved 1 ''a'', demo_license 2 ''b''])"
  using type_change_cannot_decline [of "[1, 2]" "[demo_approved 1 ''a'', demo_license 2 ''b'']" "[demo_approved 1 ''a'']" "demo_license 2 ''b''" "[]"]
  by (simp add: demo_approved_def pending_license_def demo_license_def demo_open_def subsidy_request.defs)

end
