(* ===== verification/Lcr_Views_Properties.thy ===== *)
theory Lcr_Views_Properties
  imports Lcr_Views License_Requests_Properties "HOL-Library.Multiset"
begin

text \<open>
  What the views of learner credit requests do and do not promise: the completeness of the audit
  trail of an approval, requests that are approved in vain, and reviews across customers.
\<close>

section \<open>The audit trail of an approval\<close>

text \<open>The checks of a policy split a batch: no request is lost, none is counted twice.\<close>

lemma split_by_flags:
  assumes "length oks = length rs"
  shows "mset (map fst (filter snd (zip rs oks))) + mset (map fst (filter (\<lambda>(_, ok). \<not> ok) (zip rs oks))) = mset rs"
  using assms by (induction oks rs rule: list_induct2) auto

lemma mset_named: "mset (concat (map snd (named reason rs))) = mset rs"
  by (simp add: named_def)

lemma can_allocate_all_splits:
  assumes "can_allocate_all env table self requests = Inr (Approvable valid failed)"
  shows "mset valid + mset (concat (map snd failed)) = mset requests"
proof -
  from assms obtain all_metadata failed_price where
      valid: "validate_learner_credit_requests_allocation_prices env (filter (in_catalog all_metadata) requests) all_metadata = Inr (valid, failed_price)"
      and failed: "failed = named ''content_not_in_catalog'' (filter (\<lambda>r. \<not> in_catalog all_metadata r) requests) @ named ''PriceValidationError'' failed_price"
    unfolding can_allocate_all_def Let_def
    by (auto simp: rbind_Inr_iff split: if_splits option.splits prod.splits)
  from valid obtain oks where oks: "rmap (request_price_acceptable env all_metadata) (filter (in_catalog all_metadata) requests) = Inr oks"
      and split: "valid = map fst (filter snd (zip (filter (in_catalog all_metadata) requests) oks))"
        "failed_price = map fst (filter (\<lambda>(_, ok). \<not> ok) (zip (filter (in_catalog all_metadata) requests) oks))"
    unfolding validate_learner_credit_requests_allocation_prices_def by (auto simp: rbind_Inr_iff)
  have whole: "mset valid + mset failed_price = mset (filter (in_catalog all_metadata) requests)"
    unfolding split by (rule split_by_flags [OF rmap_Inr_length [OF oks]])
  have "mset valid + mset (concat (map snd failed)) =
      (mset valid + mset failed_price) + mset (filter (\<lambda>r. \<not> in_catalog all_metadata r) requests)"
    by (simp add: failed mset_named)
  also have "\<dots> = mset requests" unfolding whole by (simp add: multiset_partition [symmetric])
  finally show ?thesis .
qed

lemma can_approve_splits:
  "can_approve env table self requests = Inr (Approvable valid failed) \<Longrightarrow>
     mset valid + mset (concat (map snd failed)) = mset requests"
  by (auto simp: can_approve_def dest: can_allocate_all_splits split: if_splits)

lemma dict_put_new: "k \<notin> fst ` set d \<Longrightarrow> dict_put d k v = d @ [(k, v)]"
  by (induction d) auto

lemma dict_of_distinct_pairs: "distinct (map fst ps) \<Longrightarrow> dict_of_pairs ps = ps"
proof -
  have "fold (\<lambda>(k, v) d. dict_put d k v) ps d = d @ ps" if "distinct (map fst (d @ ps))" for d
    using that by (induction ps arbitrary: d) (auto simp: dict_put_new)
  then show "distinct (map fst ps) \<Longrightarrow> dict_of_pairs ps = ps" by (simp add: dict_of_pairs_def)
qed

text \<open>An approval through a policy covers the batch.\<close>

lemma approval_splits:
  assumes "approve_learner_credit_requests_via_policy env policies locked policy_uuid requests table = (table', Inr (approvals, failed))"
    and "distinct (map sr_uuid requests)"
  shows "mset (map fst approvals) + mset (map sr_uuid (concat (map snd failed))) = mset (map sr_uuid requests) \<and>
    (\<forall>(u, r, a) \<in> set approvals. sr_uuid r = u)"
proof -
  from assms(1) obtain policy valid where approvable: "can_approve env table policy requests = Inr (Approvable valid failed)"
      and got: "valid = [] \<and> approvals = [] \<or>
        (\<exists>m ps. rmap (\<lambda>r. case Option.bind (map_of m (sr_uuid r)) id of
           None \<Rightarrow> Inl SubisidyAccessPolicyRequestApprovalError | Some a \<Rightarrow> Inr (sr_uuid r, r, a)) valid = Inr ps \<and>
         approvals = dict_of_pairs ps)"
    unfolding approve_learner_credit_requests_via_policy_def
    by (auto simp: rbind_Inr_iff as_approval_error_def split: option.splits if_splits sum.splits approval_check.splits prod.splits)
  note whole = can_approve_splits [OF approvable]
  have "mset (map sr_uuid valid) + mset (map sr_uuid (concat (map snd failed))) = mset (map sr_uuid requests)"
    using arg_cong [OF whole, of "image_mset sr_uuid"] by simp
  moreover from this assms(2) have "distinct (map sr_uuid valid)"
    by (metis distinct_append mset_append mset_eq_imp_distinct_iff)
  moreover have "map fst approvals = map sr_uuid valid \<and> (\<forall>(u, r, a) \<in> set approvals. sr_uuid r = u)"
    using got
  proof (elim disjE conjE exE)
    fix m ps
    assume ps: "rmap (\<lambda>r. case Option.bind (map_of m (sr_uuid r)) id of
           None \<Rightarrow> Inl SubisidyAccessPolicyRequestApprovalError | Some a \<Rightarrow> Inr (sr_uuid r, r, a)) valid = Inr ps"
      and approvals: "approvals = dict_of_pairs ps"
    from ps have "map fst ps = map sr_uuid valid \<and> (\<forall>(u, r, a) \<in> set ps. sr_uuid r = u)"
      by (induction valid arbitrary: ps) (auto simp: rbind_Inr_iff split: option.splits)
    with \<open>distinct (map sr_uuid valid)\<close> show ?thesis by (simp add: approvals dict_of_distinct_pairs)
  qed simp
  ultimately show ?thesis by simp
qed

lemma bulk_update_keys:
  assumes "\<And>r row. sr_uuid (copy r row) = sr_uuid row"
  shows "map sr_uuid (bulk_update_lcr copy now to_update rows) = map sr_uuid rows"
  unfolding bulk_update_lcr_def using assms by (induction rows) (auto split: option.splits)

lemma refreshed_keys:
  assumes "distinct (map sr_uuid rows)" and "distinct (map sr_uuid to_update)" and "sr_uuid ` set to_update \<subseteq> sr_uuid ` set rows"
  shows "mset (map sr_uuid (snd (update_and_refresh_requests now to_update rows))) = mset (map sr_uuid to_update)"
proof (cases "to_update = []")
  case False
  let ?rows = "bulk_update_lcr approval_fields now to_update rows"
  have keys: "map sr_uuid ?rows = map sr_uuid rows" by (rule bulk_update_keys) (simp add: approval_fields_def)
  have unique: "distinct (map sr_uuid (filter (\<lambda>r. sr_uuid r \<in> sr_uuid ` set to_update) ?rows))"
    using assms(1) unfolding keys [symmetric] by (rule distinct_map_filter)
  have same: "sr_uuid ` set ?rows = sr_uuid ` set rows" using keys by (metis set_map)
  have "set (map sr_uuid (filter (\<lambda>r. sr_uuid r \<in> sr_uuid ` set to_update) ?rows)) =
      sr_uuid ` set ?rows \<inter> sr_uuid ` set to_update" by auto
  also have "\<dots> = set (map sr_uuid to_update)" unfolding same using assms(3) by auto
  finally have "set (map sr_uuid (filter (\<lambda>r. sr_uuid r \<in> sr_uuid ` set to_update) ?rows)) = set (map sr_uuid to_update)" .
  with unique show ?thesis
    using assms(2) False unfolding update_and_refresh_requests_def Let_def by (simp only: set_eq_iff_mset_eq_distinct [symmetric] if_False snd_conv)
qed (simp add: update_and_refresh_requests_def)

text \<open>
  C20. The audit trail of an approved batch is complete: whenever the approval answers, whatever the
  policy decided, the trail gets exactly one new entry for every request of the batch that was
  requested or in error, and no entry for any other request.
\<close>

theorem approval_recorded_once:
  assumes "approve_learner_credit_requests env now reviewer policy_uuid requests w = (w', Inr response)"
    and "set requests \<subseteq> set (lw_requests w)" and "distinct (map sr_uuid requests)" and "distinct (map sr_uuid (lw_requests w))"
  shows "\<exists>recorded. lw_actions w' = lw_actions w @ recorded \<and>
    mset (map act_learner_credit_request recorded) =
      mset (map (\<lambda>r. Some (sr_uuid r)) (filter (\<lambda>r. sr_state r \<in> {SR_REQUESTED, SR_ERROR}) requests))"
proof -
  define todo where "todo = filter (\<lambda>r. sr_state r \<in> {SR_REQUESTED, SR_ERROR}) requests"
  have todo: "distinct (map sr_uuid todo)" "set todo \<subseteq> set (lw_requests w)"
    using assms(2,3) by (auto simp: todo_def distinct_map_filter)
  note run = assms(1) [unfolded approve_learner_credit_requests_def Let_def, folded todo_def]
  have failing: "map act_learner_credit_request (map (failed_action now tb) rs) = map (\<lambda>r. Some (sr_uuid r)) rs" for tb rs
    by (simp add: failed_action_def)
  have approving: "map act_learner_credit_request (map (approved_action now) rs) = map Some (map sr_uuid rs)" for rs
    by (simp add: approved_action_def)
  show ?thesis
  proof (cases "todo = []")
    case True
    with run have "lw_actions w' = lw_actions w" by simp
    with True show ?thesis unfolding todo_def [symmetric] by (intro exI [of _ "[]"]) simp
  next
    case False
    obtain table outcome where via: "approve_learner_credit_requests_via_policy (le_policy_env env) (le_policies env) (le_locked env)
        policy_uuid todo (lw_assignments w) = (table, outcome)" by (cases "approve_learner_credit_requests_via_policy (le_policy_env env)
        (le_policies env) (le_locked env) policy_uuid todo (lw_assignments w)")
    show ?thesis
    proof (cases outcome)
      case (Inl e)
      with run False via have "lw_actions w' = lw_actions w @ map (failed_action now ''traceback'') todo"
        by (auto simp: update_and_refresh_requests_def split: if_splits)
      then show ?thesis unfolding todo_def [symmetric]
        by (intro exI [of _ "map (failed_action now ''traceback'') todo"]) (simp add: failing [unfolded map_map] del: mset_map)
    next
      case (Inr pair)
      obtain approvals failed where pair: "pair = (approvals, failed)" by (cases pair)
      note split = approval_splits [OF via [unfolded Inr pair] todo(1)]
      define approved where "approved = prepare_requests_for_update reviewer now approvals"
      define failures where "failures = snd (prepare_failed_requests_and_actions now failed)"
      define refreshed where "refreshed = snd (update_and_refresh_requests now approved (lw_requests w))"
      have actions: "lw_actions w' = lw_actions w @ (failures @ map (approved_action now) refreshed)"
        using run False via
        by (auto simp: Inr pair approved_def failures_def refreshed_def
            prepare_failed_requests_and_actions_def split: prod.splits)
      have keys: "map sr_uuid approved = map fst approvals"
        using split by (auto simp: approved_def prepare_requests_for_update_def)
      from split have whole: "mset (map fst approvals @ map sr_uuid (concat (map snd failed))) = mset (map sr_uuid todo)" by simp
      then have "distinct (map fst approvals)" and within: "set (map fst approvals) \<subseteq> set (map sr_uuid todo)"
        using todo(1) by (metis distinct_append mset_eq_imp_distinct_iff, metis Un_iff mset_eq_setD set_append subsetI)
      have "sr_uuid ` set approved = set (map fst approvals)" by (simp only: set_map [symmetric] keys)
      also have "\<dots> \<subseteq> sr_uuid ` set (lw_requests w)" using within todo(2) by fastforce
      finally have "mset (map sr_uuid refreshed) = mset (map fst approvals)"
        using \<open>distinct (map fst approvals)\<close> unfolding refreshed_def keys [symmetric] by (intro refreshed_keys [OF assms(4)])
      moreover have "map act_learner_credit_request failures = map Some (map sr_uuid (concat (map snd failed)))"
        by (simp add: failures_def prepare_failed_requests_and_actions_def map_concat case_prod_beta comp_def failed_action_def)
      ultimately have "mset (map act_learner_credit_request (failures @ map (approved_action now) refreshed)) =
          image_mset Some (mset (map sr_uuid (concat (map snd failed))) + mset (map fst approvals))"
        unfolding map_append approving mset_append by (simp only: mset_map image_mset_union)
      also have "\<dots> = image_mset Some (mset (map sr_uuid todo))" using split by (simp add: add.commute)
      finally show ?thesis unfolding todo_def [symmetric] using actions by (auto simp: multiset.map_comp comp_def)
    qed
  qed
qed

definition demo_lcr_env :: lcr_env where
  "demo_lcr_env = \<lparr>le_policy_env = demo_policy_env, le_policies = [], le_locked = False\<rparr>"

definition demo_lcr_world :: lcr_world where
  "demo_lcr_world = \<lparr>lw_requests = [demo_request], lw_actions = [], lw_assignments = [], lw_tasks = []\<rparr>"

lemma demo_lcr_run:
  "approve_learner_credit_requests demo_lcr_env 5 9 60 [demo_request] demo_lcr_world =
     (demo_lcr_world\<lparr>lw_actions := [failed_action 5 ''traceback'' demo_request]\<rparr>,
      Inr \<lparr>ar_approved = [], ar_failed_approval = Some [demo_request], ar_error_message = True\<rparr>)"
  by (simp add: approve_learner_credit_requests_def approve_learner_credit_requests_via_policy_def demo_lcr_env_def
      get_subsidy_access_policy_def update_and_refresh_requests_def demo_lcr_world_def demo_request_def Let_def)

theorem approval_recorded_once_witness:
  "\<exists>recorded. [failed_action 5 ''traceback'' demo_request] = recorded \<and>
     mset (map act_learner_credit_request recorded) = {#Some 1#}"
  using approval_recorded_once [OF demo_lcr_run] by (simp add: demo_lcr_world_def demo_request_def)

section \<open>Approving in vain\<close>

text \<open>
  Approving requests that cannot be approved is answered like a success: when every request the
  admin named has been decided already, the view changes nothing, approves nothing and answers
  \<open>200\<close>. (The approval returns its failures under the key \<open>failed\<close>, the view looks for
  \<open>failed_approval\<close>.)
\<close>

theorem approving_nothing_succeeds:
  assumes "permission_required venv admin_access (ad_enterprise_customer_uuid data) = Inr customer"
    and "validate_subsidy_request_uuids venv (Some (ad_learner_credit_request_uuids data)) = Inr uuids"
    and "ve_uuid venv (ad_policy_uuid data) = Some policy_uuid"
    and "length (filter (\<lambda>r. sr_uuid r \<in> set uuids \<and> of_policy env policy_uuid r) (lw_requests w)) = length (remdups uuids)"
    and "\<forall>r \<in> set (lw_requests w). sr_uuid r \<in> set uuids \<longrightarrow> sr_state r \<notin> {SR_REQUESTED, SR_ERROR}"
  shows "approve_view venv env data w = (w, Inr 200)"
proof -
  have none: "filter (\<lambda>r. sr_state r \<in> {SR_REQUESTED, SR_ERROR})
      (filter (\<lambda>r. sr_uuid r \<in> set uuids \<and> of_policy env policy_uuid r) (lw_requests w)) = []"
    using assms(5) by (simp add: filter_empty_conv)
  have "approve_learner_credit_requests env (ve_now venv) (ve_user venv) policy_uuid
      (filter (\<lambda>r. sr_uuid r \<in> set uuids \<and> of_policy env policy_uuid r) (lw_requests w)) w =
        (w, Inr \<lparr>ar_approved = [], ar_failed_approval = None, ar_error_message = False\<rparr>)"
    unfolding approve_learner_credit_requests_def none by simp
  then show ?thesis by (simp add: approve_view_def assms(1-4) approval_reply_def)
qed

definition demo_bnr_policy :: policy where
  "demo_bnr_policy = demo_policy\<lparr>sap_learner_credit_request_config := Some \<lparr>lcc_uuid = 6, lcc_active = True\<rparr>\<rparr>"

theorem approving_nothing_succeeds_witness:
  "approve_view demo_env (demo_lcr_env\<lparr>le_policies := [demo_bnr_policy]\<rparr>)
     \<lparr>ad_enterprise_customer_uuid = Some ''ccc'', ad_learner_credit_request_uuids = [''u''],
      ad_policy_uuid = replicate (sap_uuid demo_policy) CHR ''p''\<rparr>
     (demo_lcr_world\<lparr>lw_requests := [demo_request\<lparr>sr_state := SR_DECLINED, lcr_config := Some 6\<rparr>]\<rparr>) =
   (demo_lcr_world\<lparr>lw_requests := [demo_request\<lparr>sr_state := SR_DECLINED, lcr_config := Some 6\<rparr>]\<rparr>, Inr 200)"
  by (rule approving_nothing_succeeds [where uuids = "[1]" and customer = "Some 3" and policy_uuid = "sap_uuid demo_policy"])
    (simp_all add: demo_env_def permission_required_def get_enterprise_uuid_from_request_data_def validate_subsidy_request_uuids_def
      of_policy_def demo_lcr_env_def demo_bnr_policy_def demo_lcr_world_def demo_request_def)

section \<open>Reviews across customers\<close>

text \<open>
  An admin of one customer decides on the requests of another. The permission is checked for the
  customer the request body names, the learner credit request is found by its key alone: an admin of
  any customer declines any open request.
\<close>

theorem declined_by_a_stranger:
  assumes "permission_required venv admin_access (ld_enterprise_customer_uuid data) = Inr customer"
    and "ve_uuid venv (ld_request_uuid data) = Some (sr_uuid r)"
    and "r \<in> set (lw_requests w)" and "sr_state r = SR_REQUESTED" and "lcr_table_ok (lw_requests w)"
    and "\<not> ld_send_notification data" and "\<not> ld_disassociate_from_org data"
  shows "\<exists>w' r'. decline_view venv queue_ok data w = (w', Inr 200) \<and> r' \<in> set (lw_requests w') \<and> sr_uuid r' = sr_uuid r \<and>
    sr_state r' = SR_DECLINED \<and> sr_enterprise_customer_uuid r' = sr_enterprise_customer_uuid r"
proof -
  have found: "validate_decline venv (ld_request_uuid data) w = Some r"
    using assms(2-5) by (simp add: validate_decline_def validate_request_uuid_def find_request_def find_distinct_key lcr_table_ok_def)
  obtain action where action: "start_action (ve_now venv) r ''declined'' ''declined'' = Inr action"
    by (simp add: start_action_def create_action_def full_clean_action_def get_action_choice_def get_user_message_choice_def
        learner_credit_request_action_choices_def subsidy_request_states_choices_def learner_credit_request_user_messages_def)
  define declined where "declined = r\<lparr>sr_reviewer := Some (ve_user venv), sr_state := SR_DECLINED,
      sr_decline_reason := None, sr_reviewed_at := Some (ve_now venv)\<rparr>"
  have "full_clean_lcr (lw_requests w) declined = Inr ()"
    using assms(3,5) unfolding full_clean_lcr_iff
    by (auto simp: declined_def reviewed_def compatible_def lcr_constrained_def lcr_table_ok_def)
  then have saved: "decline_lcr (ve_user venv) None (ve_now venv) (lw_requests w) r =
      Inr (upsert_lcr (declined\<lparr>lcr_modified := ve_now venv\<rparr>) (lw_requests w), declined\<lparr>lcr_modified := ve_now venv\<rparr>,
        update_course_info_for_subsidy_request ''LearnerCreditRequest'' (declined\<lparr>lcr_modified := ve_now venv\<rparr>))"
    unfolding decline_lcr_def declined_def [symmetric] by (simp add: save_lcr_def Let_def)
  let ?r' = "declined\<lparr>lcr_modified := ve_now venv\<rparr>"
  obtain w' where run: "decline_view venv queue_ok data w = (w', Inr 200)" and rows: "lw_requests w' = upsert_lcr ?r' (lw_requests w)"
    by (simp add: decline_view_def assms(1,6,7) found action Let_def add_action_def store_review_def saved)
  moreover have "?r' \<in> set (lw_requests w')" by (simp add: rows set_upsert_lcr)
  ultimately show ?thesis
    by (intro exI [of _ w'] exI [of _ ?r']) (simp add: declined_def)
qed

theorem declined_by_a_stranger_witness:
  "\<exists>w' r'. decline_view (demo_env\<lparr>ve_permitted := \<lambda>_ c. c = Some 3\<rparr>) True
       \<lparr>ld_enterprise_customer_uuid = Some ''ccc'', ld_request_uuid = ''u'', ld_send_notification = False, ld_disassociate_from_org = False\<rparr>
       (demo_lcr_world\<lparr>lw_requests := [demo_request\<lparr>sr_enterprise_customer_uuid := 8\<rparr>]\<rparr>) = (w', Inr 200) \<and>
     r' \<in> set (lw_requests w') \<and> sr_state r' = SR_DECLINED \<and> sr_enterprise_customer_uuid r' = 8"
  using declined_by_a_stranger [of "demo_env\<lparr>ve_permitted := \<lambda>_ c. c = Some 3\<rparr>"
      "\<lparr>ld_enterprise_customer_uuid = Some ''ccc'', ld_request_uuid = ''u'', ld_send_notification = False, ld_disassociate_from_org = False\<rparr>"
      "Some 3" "demo_request\<lparr>sr_enterprise_customer_uuid := 8\<rparr>"
      "demo_lcr_world\<lparr>lw_requests := [demo_request\<lparr>sr_enterprise_customer_uuid := 8\<rparr>]\<rparr>" True]
  by (auto simp: demo_env_def permission_required_def get_enterprise_uuid_from_request_data_def lcr_table_ok_def reviewed_def demo_request_def
      demo_lcr_world_def)

end
