(* ===== verification/Paging.thy ===== *)
theory Paging
  imports Api_Client
begin

text \<open>
  The loops over pages end exactly when the service serves a finite chain of pages, and then they have
  collected the rows of those pages in order; a service whose pages name each other in a circle is
  asked forever. The contract of a reader of pages is the locale \<open>page_reader\<close>; the readers of the
  clients are its interpretations.
\<close>

section \<open>Chains of pages\<close>

text \<open>The bodies a service serves from a URL on, up to the page that names no next one.\<close>

fun served ::
    "(string \<Rightarrow> 'x \<Rightarrow> 'x \<times> json result) \<Rightarrow> (json \<Rightarrow> bool) \<Rightarrow> (json \<Rightarrow> json) \<Rightarrow> json \<Rightarrow> 'x \<Rightarrow> json list \<Rightarrow> 'x \<Rightarrow> bool" where
  "served fetch readable nxt url x [] x' \<longleftrightarrow> \<not> json_truthy url \<and> x' = x"
| "served fetch readable nxt url x (body # bodies) x' \<longleftrightarrow>
     (case url of
        JStr u \<Rightarrow> u \<noteq> [] \<and>
          (case fetch u x of (x1, r) \<Rightarrow> r = Inr body \<and> readable body \<and> served fetch readable nxt (nxt body) x1 bodies x')
      | _ \<Rightarrow> False)"

locale page_reader =
  fixes page :: "json \<Rightarrow> 'r list \<Rightarrow> 'r list \<times> json result"
    and readable :: "json \<Rightarrow> bool"
    and rows :: "json \<Rightarrow> 'r list"
    and nxt :: "json \<Rightarrow> json"
  assumes read: "readable body \<Longrightarrow> page body acc = (acc @ rows body, Inr (nxt body))"
    and unread: "\<not> readable body \<Longrightarrow> \<exists>acc' e. page body acc = (acc', Inl e)"
begin

lemma served_followed:
  "served fetch readable nxt url x bodies x' \<Longrightarrow>
     follow_pages fetch page url acc x = Some (x', acc @ concat (map rows bodies), Inr ())"
proof (induction bodies arbitrary: url x acc)
  case Nil
  then show ?case by (simp add: follow_pages.simps)
next
  case (Cons body bodies)
  from Cons.prems obtain u x1 where u: "url = JStr u" "u \<noteq> []" and f: "fetch u x = (x1, Inr body)" "readable body"
      and rest: "served fetch readable nxt (nxt body) x1 bodies x'"
    by (auto split: json.splits prod.splits)
  from Cons.IH [OF rest, of "acc @ rows body"] show ?case
    by (subst follow_pages.simps) (simp add: u f read)
qed

lemma followed_served:
  fixes x :: 'x
  assumes "follow_pages fetch page url acc x = Some (x', acc', Inr ())"
  shows "\<exists>bodies. served fetch readable nxt url x bodies x' \<and> acc' = acc @ concat (map rows bodies)"
proof -
  define P where "P = (\<lambda>f p url acc x (y :: 'x \<times> 'r list \<times> unit result). f = fetch \<longrightarrow> p = page \<longrightarrow> (\<forall>x' acc'. y = (x', acc', Inr ()) \<longrightarrow>
    (\<exists>bodies. served fetch readable nxt url x bodies x' \<and> acc' = acc @ concat (map rows bodies))))"
  have "P fetch page url acc x (x', acc', Inr ())"
  proof (rule follow_pages.raw_induct [where P = P and xa = "((((fetch, page), url), acc), x)", unfolded prod.case, OF _ assms])
    fix follow f p url acc x y
    assume IH: "\<And>f p url acc x y. follow f p url acc x = Some y \<Longrightarrow> P f p url acc x y"
      and step: "(if \<not> json_truthy url then Some (x, acc, Inr ())
        else case url of
          JStr u \<Rightarrow>
            (case f u x of
               (x1, Inl e) \<Rightarrow> Some (x1, acc, Inl e)
             | (x1, Inr body) \<Rightarrow>
                 (case p body acc of
                    (acc1, Inl e) \<Rightarrow> Some (x1, acc1, Inl e)
                  | (acc1, Inr url1) \<Rightarrow> follow f p url1 acc1 x1))
        | _ \<Rightarrow> Some (x, acc, Inl MissingSchema)) = Some y"
    show "P f p url acc x y"
      unfolding P_def
    proof (intro impI allI)
      fix x' acc' assume f: "f = fetch" and p: "p = page" and y: "y = (x', acc', Inr ())"
      show "\<exists>bodies. served fetch readable nxt url x bodies x' \<and> acc' = acc @ concat (map rows bodies)"
      proof (cases "json_truthy url")
        case False
        with step y show ?thesis by (intro exI [of _ "[]"]) simp
      next
        case True
        with step y obtain u x1 body acc1 url1 where u: "url = JStr u" and fetched: "fetch u x = (x1, Inr body)"
            and paged: "page body acc = (acc1, Inr url1)" and rest: "follow fetch page url1 acc1 x1 = Some (x', acc', Inr ())"
          by (auto simp: f p split: json.splits prod.splits sum.splits)
        from unread [of body acc] paged have ok: "readable body" by auto
        with read [OF this, of acc] paged have "acc1 = acc @ rows body" "url1 = nxt body" by auto
        with IH [OF rest] obtain bodies where "served fetch readable nxt (nxt body) x1 bodies x'"
            "acc' = acc @ rows body @ concat (map rows bodies)"
          unfolding P_def by auto
        with True u fetched ok show ?thesis by (intro exI [of _ "body # bodies"]) simp
      qed
    qed
  qed
  then show ?thesis by (simp add: P_def)
qed

theorem follow_pages_ends:
  "follow_pages fetch page url acc x = Some (x', acc', Inr ()) \<longleftrightarrow>
     (\<exists>bodies. served fetch readable nxt url x bodies x' \<and> acc' = acc @ concat (map rows bodies))"
  using followed_served [of fetch url acc x x' acc'] served_followed [of fetch url x _ x' acc] by metis

end

text \<open>A set of URLs and states that no page leads out of: the loop asks forever.\<close>

lemma follow_pages_never:
  fixes x :: 'x and acc :: 'a
  assumes stays: "\<And>url x acc. I url x \<Longrightarrow> \<exists>u x1 body acc1 url1. url = JStr u \<and> u \<noteq> [] \<and> fetch u x = (x1, Inr body) \<and>
      page body acc = (acc1, Inr url1) \<and> I url1 x1"
    and start: "I url x"
  shows "follow_pages fetch page url acc x = None"
proof (rule ccontr)
  define P where "P = (\<lambda>f p url (acc :: 'a) x (y :: 'x \<times> 'a \<times> unit result). f = fetch \<longrightarrow> p = page \<longrightarrow> \<not> I url x)"
  assume "follow_pages fetch page url acc x \<noteq> None"
  then obtain y where y: "follow_pages fetch page url acc x = Some y" by blast
  have "P fetch page url acc x y"
  proof (rule follow_pages.raw_induct [where P = P and xa = "((((fetch, page), url), acc), x)", unfolded prod.case, OF _ y])
    fix follow f p url acc x y
    assume IH: "\<And>f p url acc x y. follow f p url acc x = Some y \<Longrightarrow> P f p url acc x y"
      and step: "(if \<not> json_truthy url then Some (x, acc, Inr ())
        else case url of
          JStr u \<Rightarrow>
            (case f u x of
               (x1, Inl e) \<Rightarrow> Some (x1, acc, Inl e)
             | (x1, Inr body) \<Rightarrow>
                 (case p body acc of
                    (acc1, Inl e) \<Rightarrow> Some (x1, acc1, Inl e)
                  | (acc1, Inr url1) \<Rightarrow> follow f p url1 acc1 x1))
        | _ \<Rightarrow> Some (x, acc, Inl MissingSchema)) = Some y"
    show "P f p url acc x y"
      unfolding P_def
    proof (intro impI notI)
      assume f: "f = fetch" and p: "p = page" and I: "I url x"
      from stays [OF I, of acc] obtain u x1 body acc1 url1 where "url = JStr u" "u \<noteq> []" "fetch u x = (x1, Inr body)"
          "page body acc = (acc1, Inr url1)" and I1: "I url1 x1"
        by blast
      with step f p have "follow fetch page url1 acc1 x1 = Some y" by simp
      from IH [OF this] I1 show False by (simp add: P_def)
    qed
  qed
  with start show False by (simp add: P_def)
qed

section \<open>The readers of the clients\<close>

definition page_readable :: "(json \<Rightarrow> json result) \<Rightarrow> (json \<Rightarrow> json list result) \<Rightarrow> json \<Rightarrow> bool" where
  "page_readable next_url f body \<longleftrightarrow>
     \<not> isl (next_url body) \<and> \<not> isl (rbind (rbind (item body ''results'') json_iter) (rmap f))"

definition page_rows :: "(json \<Rightarrow> json list result) \<Rightarrow> json \<Rightarrow> json list" where
  "page_rows f body = concat (projr (rbind (rbind (item body ''results'') json_iter) (rmap f)))"

definition listing_readable :: "bool \<Rightarrow> json \<Rightarrow> bool" where
  "listing_readable traverse_pagination body \<longleftrightarrow> \<not> isl (rbind (json_get body ''results'' (JList [])) json_iter)"

definition listing_rows :: "json \<Rightarrow> json list" where
  "listing_rows body = projr (rbind (json_get body ''results'' (JList [])) json_iter)"

definition listing_next :: "bool \<Rightarrow> json \<Rightarrow> json" where
  "listing_next traverse_pagination body = (if traverse_pagination then projr (json_get body ''next'' JNull) else JNull)"

lemma convert_rows_Inr:
  "rmap f rs = Inr yss \<Longrightarrow> convert_rows f rs acc = (acc @ concat yss, Inr ())"
  by (induction rs arbitrary: acc yss) (auto simp: rbind_Inr_iff split: sum.splits)

lemma convert_rows_Inl:
  "rmap f rs = Inl e \<Longrightarrow> \<exists>acc'. convert_rows f rs acc = (acc', Inl e)"
  by (induction rs arbitrary: acc) (auto simp: rbind_Inl_iff split: sum.splits)

lemma converting_pages: "page_reader (converting_page n f) (page_readable n f) (page_rows f) (\<lambda>b. projr (n b))"
proof
  fix body acc
  assume "page_readable n f body"
  then obtain u rs yss where "n body = Inr u" "rbind (item body ''results'') json_iter = Inr rs" "rmap f rs = Inr yss"
    unfolding page_readable_def by (cases "n body"; cases "rbind (item body ''results'') json_iter"; cases "rmap f (projr (rbind (item body ''results'') json_iter))") auto
  then show "converting_page n f body acc = (acc @ page_rows f body, Inr (projr (n body)))"
    by (simp add: converting_page_def page_rows_def convert_rows_Inr)
next
  fix body acc
  assume unreadable: "\<not> page_readable n f body"
  show "\<exists>acc' e. converting_page n f body acc = (acc', Inl e)"
  proof (cases "n body")
    case (Inr u)
    show ?thesis
    proof (cases "rbind (item body ''results'') json_iter")
      case (Inr rs)
      with unreadable \<open>n body = Inr u\<close> obtain e where "rmap f rs = Inl e" by (cases "rmap f rs") (auto simp: page_readable_def)
      from convert_rows_Inl [OF this] obtain acc' where "convert_rows f rs acc = (acc', Inl e)" by blast
      with Inr \<open>n body = Inr u\<close> show ?thesis by (simp add: converting_page_def)
    qed (simp add: converting_page_def Inr)
  qed (simp add: converting_page_def)
qed

interpretation admins: page_reader "converting_page (\<lambda>b. item b ''next'') admin_row" "page_readable (\<lambda>b. item b ''next'') admin_row"
    "page_rows admin_row" "\<lambda>b. projr (item b ''next'')"
  by (rule converting_pages)

interpretation memberships: page_reader "converting_page (\<lambda>b. json_get b ''next'' JNull) (pending_membership_row api)"
    "page_readable (\<lambda>b. json_get b ''next'' JNull) (pending_membership_row api)" "page_rows (pending_membership_row api)"
    "\<lambda>b. projr (json_get b ''next'' JNull)" for api
  by (rule converting_pages)

interpretation listing: page_reader "extending_page t" "listing_readable t" listing_rows "listing_next t" for t
proof
  fix body acc
  show "listing_readable t body \<Longrightarrow> extending_page t body acc = (acc @ listing_rows body, Inr (listing_next t body))"
    and "\<not> listing_readable t body \<Longrightarrow> \<exists>acc' e. extending_page t body acc = (acc', Inl e)"
    by (cases body; auto simp: listing_readable_def listing_rows_def listing_next_def extending_page_def json_get_def
        split: sum.splits option.splits)+
qed

section \<open>Calls that are repeated\<close>

text \<open>The outcome of the first attempt whose connection does not fail, and the number of attempts before it.\<close>

fun attempts :: "('x \<Rightarrow> 'x \<times> 'b result) \<Rightarrow> nat \<Rightarrow> 'x \<Rightarrow> 'x \<times> 'b result \<Rightarrow> bool" where
  "attempts f 0 x y \<longleftrightarrow> f x = y \<and> (\<forall>e \<in> set autoretry_for_exceptions. snd y \<noteq> Inl e)"
| "attempts f (Suc n) x y \<longleftrightarrow> (\<exists>e \<in> set autoretry_for_exceptions. snd (f x) = Inl e) \<and> attempts f n (fst (f x)) y"

lemma attempts_on_exception: "attempts f n x y \<Longrightarrow> on_exception f x = Some y"
proof (induction n arbitrary: x)
  case 0
  then show ?case by (subst on_exception.simps) (cases y, auto split: sum.splits)
next
  case (Suc n)
  then obtain e x1 where "f x = (x1, Inl e)" "e \<in> set autoretry_for_exceptions" by (cases "f x") auto
  with Suc show ?case by (subst on_exception.simps) simp
qed

lemma on_exception_attempts:
  assumes "on_exception f x = Some y"
  shows "\<exists>n. attempts f n x y"
proof (rule on_exception.raw_induct [where P = "\<lambda>f x y. \<exists>n. attempts f n x y" and xa = "(f, x)", unfolded prod.case, OF _ assms])
  fix again f x y
  assume IH: "\<And>f x y. again f x = Some y \<Longrightarrow> \<exists>n. attempts f n x y"
    and step: "(case f x of
        (x1, Inl e) \<Rightarrow> if e \<in> set autoretry_for_exceptions then again f x1 else Some (x1, Inl e)
      | (x1, Inr y) \<Rightarrow> Some (x1, Inr y)) = Some y"
  show "\<exists>n. attempts f n x y"
  proof (cases "\<exists>e \<in> set autoretry_for_exceptions. snd (f x) = Inl e")
    case True
    then obtain x1 e where fx: "f x = (x1, Inl e)" "e \<in> set autoretry_for_exceptions" by (cases "f x") auto
    with step have "again f x1 = Some y" by simp
    from IH [OF this] obtain n where "attempts f n x1 y" by blast
    with fx True show ?thesis by (intro exI [of _ "Suc n"]) simp
  next
    case False
    with step have "f x = y" by (cases "f x") (auto split: sum.splits)
    with False show ?thesis by (intro exI [of _ 0]) auto
  qed
qed

lemma on_exception_iff: "on_exception f x = Some y \<longleftrightarrow> (\<exists>n. attempts f n x y)"
  using attempts_on_exception on_exception_attempts by metis

section \<open>Termination of the clients\<close>

lemma api_listing_Inr:
  "map_option (\<lambda>p. case page_result p of (x1, r) \<Rightarrow> (x1, as_api_exception r)) m = Some (x', Inr v) \<longleftrightarrow>
     (\<exists>rows. m = Some (x', rows, Inr ()) \<and> v = JList rows)"
proof (cases m)
  case (Some p)
  obtain x rows r where "p = (x, rows, r)" by (cases p)
  with Some show ?thesis by (cases r) (auto simp: page_result_def as_api_exception_def)
qed simp

text \<open>
  C18. Reading the admins of a customer ends with a list of users exactly when the LMS serves a finite
  chain of readable pages, from the URL of the customer to a page that names no next one; the users
  are then those of all pages, in order, each with the id and the creation time of its record.
\<close>

theorem admin_users_of_all_pages:
  "get_enterprise_admin_users api customer x = Some (x', Inr users) \<longleftrightarrow>
     (\<exists>bodies. served (\<lambda>u. call_api api (Http_get u [])) (page_readable (\<lambda>b. item b ''next'') admin_row)
        (\<lambda>b. projr (item b ''next''))
        (JStr (lms_api api @ ''enterprise-learner/'' @ ''?enterprise_customer_uuid='' @ customer @ ''&role=enterprise_admin''))
        x bodies x' \<and> users = JList (concat (map (page_rows admin_row) bodies)))"
  unfolding get_enterprise_admin_users_def api_listing_Inr admins.follow_pages_ends by auto

text \<open>
  A listing whose pages name each other in a circle is read forever: when every URL of a set is
  answered with a readable page whose next URL is in the set again, reading the group memberships
  of a learner from there does not return (the loop has no bound of its own).
\<close>

theorem circle_of_pages_never_ends:
  assumes "lms_api api @ ''enterprise-group-membership/'' \<in> urls" and "[] \<notin> urls"
    and "\<And>u x. u \<in> urls \<Longrightarrow> \<exists>x1 body v. v \<in> urls \<and> json_get body ''next'' JNull = Inr (JStr v) \<and> listing_readable True body \<and>
      call_api api (Http_get u [(''enterprise_uuid'', JStr enterprise), (''lms_user_id'', JNum lms_user_id)]) x = (x1, Inr body)"
  shows "get_enterprise_group_memberships_for_learner api enterprise lms_user_id True x = None"
proof -
  let ?fetch = "\<lambda>u. call_api api (Http_get u [(''enterprise_uuid'', JStr enterprise), (''lms_user_id'', JNum lms_user_id)])"
  define I where "I = (\<lambda>url (x :: 'a). \<exists>u \<in> urls. url = JStr u)"
  have "follow_pages ?fetch (extending_page True) (JStr (lms_api api @ ''enterprise-group-membership/'')) [] x = None"
  proof (rule follow_pages_never [where I = I])
    fix url x and acc :: "json list"
    assume "I url x"
    then obtain u where u: "u \<in> urls" "url = JStr u" by (auto simp: I_def)
    from assms(3) [OF u(1), of x] obtain x1 body v where v: "v \<in> urls" "json_get body ''next'' JNull = Inr (JStr v)"
        "listing_readable True body" "?fetch u x = (x1, Inr body)" by blast
    from listing.read [OF v(3), of acc] have "extending_page True body acc = (acc @ listing_rows body, Inr (JStr v))"
      by (simp add: listing_next_def v)
    with u v assms(2) show "\<exists>u x1 body acc1 url1. url = JStr u \<and> u \<noteq> [] \<and> ?fetch u x = (x1, Inr body) \<and>
        extending_page True body acc = (acc1, Inr url1) \<and> I url1 x1"
      unfolding I_def by blast
  next
    show "I (JStr (lms_api api @ ''enterprise-group-membership/'')) x" using assms(1) by (auto simp: I_def)
  qed
  then show ?thesis by (simp add: get_enterprise_group_memberships_for_learner_def)
qed

definition circular_api :: "nat api" where
  "circular_api = \<lparr>api_send = (\<lambda>q x. (Suc x, Inr \<lparr>rs_status = 200, rs_body =
       Some (JObj [(''results'', JList []), (''next'', JStr ''L/enterprise/api/v1/enterprise-group-membership/'')])\<rparr>)),
     api_lms_url = ''L'', api_license_manager_url = ''M'', api_ecommerce_url = ''E'', api_discovery_url = ''D'',
     api_catalog_base_url = (\<lambda>v. v), api_site_domain = ''s'', api_default_catalog_query_id = JNum 1,
     api_for_internal_use_only = JBool False, api_default_product_id = JNum 1, api_plan_is_active = JBool True,
     api_force_remind_all = False, api_should_send_email_to_pecu = (\<lambda>_. Inr False), api_float = (\<lambda>v. Inr v)\<rparr>"

theorem circle_of_pages_never_ends_witness:
  "get_enterprise_group_memberships_for_learner circular_api ''e'' 5 True 0 = None"
  by (rule circle_of_pages_never_ends [where urls = "{''L/enterprise/api/v1/enterprise-group-membership/''}"])
    (simp_all add: circular_api_def lms_api_def call_api_def raise_for_status_def response_json_def json_get_def
       listing_readable_def json_iter_def)

text \<open>
  Asking the catalog whether it contains some content returns exactly when some attempt gets
  through to the service, and then with the outcome of the first attempt that does: connection
  failures and timeouts are retried without a limit, every other error ends the call.
\<close>

theorem catalog_call_returns:
  "contains_content_items api catalog content_ids x = Some y \<longleftrightarrow>
     (\<exists>n. attempts (\<lambda>x.
        case call_api api (Http_get (catalog_endpoint api catalog @ ''/contains_content_items/'')
               [(''course_run_ids'', JList (map JStr content_ids))]) x of
          (x1, r) \<Rightarrow> (x1, rbind r (\<lambda>body. json_get body ''contains_content_items'' (JBool False)))) n x y)"
  unfolding contains_content_items_def by (rule on_exception_iff)

text \<open>A catalog that is reached at the third attempt.\<close>

lemma catalog_call_example:
  "contains_content_items (circular_api\<lparr>api_send := \<lambda>q x. (Suc x, if x < 2 then Inl Timeout
      else Inr \<lparr>rs_status = 200, rs_body = Some (JObj [(''contains_content_items'', JBool True)])\<rparr>)\<rparr>) ''c'' [''k''] 0 =
    Some (3, Inr (JBool True))"
  by (simp add: contains_content_items_def on_exception.simps call_api_def raise_for_status_def response_json_def json_get_def
      autoretry_for_exceptions_def)

end
