(* ===== verification/Policy_Redemption_Properties.thy ===== *)
theory Policy_Redemption_Properties
  imports Policy_Redemption "HOL-Library.Countable"
begin

text \<open>
  Properties of redemptions: when \<open>can_redeem\<close> says yes, what \<open>redeem\<close> does to an assignment and to the
  request behind it, and which redemptions the ledger takes for the same one.
\<close>

section \<open>When a learner can redeem\<close>

lemma copy_fields [simp]:
  "sap_uuid (copy_context_to self) = sap_uuid self"
  "sap_enterprise_customer_uuid (copy_context_to self) = sap_enterprise_customer_uuid self"
  "sap_active (copy_context_to self) = sap_active self"
  "sap_retired (copy_context_to self) = sap_retired self"
  "sap_catalog_uuid (copy_context_to self) = sap_catalog_uuid self"
  "sap_subsidy_uuid (copy_context_to self) = sap_subsidy_uuid self"
  "sap_access_method (copy_context_to self) = DIRECT"
  "sap_spend_limit (copy_context_to self) = sap_spend_limit self"
  "sap_assignment_configuration (copy_context_to self) = sap_assignment_configuration self"
  "sap_late_redemption_allowed_until (copy_context_to self) = sap_late_redemption_allowed_until self"
  by (simp_all add: copy_context_to_def)

lemma copy_facts:
  "is_redemption_enabled (copy_context_to self) = is_redemption_enabled self"
  "includes_learner env (copy_context_to self) u = includes_learner env self u"
  "catalog_contains_content_key env (copy_context_to self) k = catalog_contains_content_key env self k"
  "get_content_metadata env (copy_context_to self) k = get_content_metadata env self k"
  "is_late_redemption_allowed env (copy_context_to self) = is_late_redemption_allowed env self"
  "will_exceed_spend_limit env (copy_context_to self) k m = will_exceed_spend_limit env self k m"
  unfolding is_redemption_enabled_def includes_learner_def
      catalog_contains_content_key_def get_content_metadata_def is_late_redemption_allowed_def
      will_exceed_spend_limit_def get_content_price_def total_redeemed_def copy_fields by (rule refl)+

lemma can_redeem_base_copy [simp]:
  "can_redeem_base env (copy_context_to self) u k su sd = can_redeem_base env self u k su sd"
  unfolding can_redeem_base_def copy_facts copy_fields ..

lemma get_assignment_copy [simp]: "get_assignment env table (copy_context_to self) u k = get_assignment env table self u k"
  by (simp add: get_assignment_def)

text \<open>What the class of a policy adds to the general checks.\<close>

definition class_allows :: "policy_env \<Rightarrow> assignments \<Rightarrow> policy \<Rightarrow> int \<Rightarrow> string \<Rightarrow> bool" where
  "class_allows env table self u k =
     (let assigned = (\<exists>a. get_assignment env table self u k = Inr (Some a) \<and> lca_state a = ALLOCATED)
      in case sap_policy_type self of
           ASSIGNED_LEARNER_CREDIT \<Rightarrow> assigned
         | PER_LEARNER_ENROLLMENT_CREDIT \<Rightarrow>
             (case sap_per_learner_enrollment_limit self of
                None \<Rightarrow> True
              | Some limit \<Rightarrow> \<exists>mine spent. transactions_for_learner env self u = Inr (mine, spent) \<and> int (length mine) < limit)
         | PER_LEARNER_SPEND_CREDIT \<Rightarrow>
             if bnr_enabled self then assigned
             else (case sap_per_learner_spend_limit self of
                     None \<Rightarrow> True
                   | Some limit \<Rightarrow> \<exists>mine spent price. transactions_for_learner env self u = Inr (mine, spent) \<and>
                       get_content_price env self k None = Inr price \<and> spent \<le> 0 \<and> price - spent \<le> limit))"

lemma can_redeem_assigned_iff:
  "can_redeem_assigned env table self u k su sd = Inr (True, r, txs) \<longleftrightarrow>
     (\<exists>r'. can_redeem_base env self u k su sd = Inr (True, r', txs)) \<and> r = None \<and>
     (\<exists>a. get_assignment env table self u k = Inr (Some a) \<and> lca_state a = ALLOCATED)"
proof (cases "can_redeem_base env self u k su sd")
  case (Inr y)
  obtain ok r' ts where y: "y = (ok, r', ts)" by (cases y)
  show ?thesis
  proof (cases ok)
    case True
    show ?thesis
    proof (cases "get_assignment env table self u k")
      case found: (Inr o')
      show ?thesis
        by (cases o') (auto simp: can_redeem_assigned_def Inr y True found)
    qed (simp add: can_redeem_assigned_def Inr y True)
  qed (simp add: can_redeem_assigned_def Inr y)
qed (simp add: can_redeem_assigned_def)

lemma can_redeem_enrollment_iff:
  "can_redeem_enrollment env self u k su sd = Inr (True, r, txs) \<longleftrightarrow>
     (\<exists>r'. can_redeem_base env self u k su sd = Inr (True, r', txs)) \<and> r = None \<and>
     (case sap_per_learner_enrollment_limit self of
        None \<Rightarrow> True
      | Some limit \<Rightarrow> \<exists>mine spent. transactions_for_learner env self u = Inr (mine, spent) \<and> int (length mine) < limit)"
proof (cases "can_redeem_base env self u k su sd")
  case (Inr y)
  obtain ok r' ts where y: "y = (ok, r', ts)" by (cases y)
  show ?thesis
  proof (cases ok)
    case True
    show ?thesis
    proof (cases "sap_per_learner_enrollment_limit self")
      case (Some limit)
      show ?thesis
        by (cases "transactions_for_learner env self u")
          (auto simp: can_redeem_enrollment_def Inr y True Some split: if_splits)
    qed (auto simp: can_redeem_enrollment_def Inr y True)
  qed (simp add: can_redeem_enrollment_def Inr y)
qed (simp add: can_redeem_enrollment_def)

lemma can_redeem_direct_spend_iff:
  assumes "\<not> bnr_enabled self"
  shows "can_redeem_spend env table self u k su sd = Inr (True, r, txs) \<longleftrightarrow>
     (\<exists>r'. can_redeem_base env self u k su sd = Inr (True, r', txs)) \<and> r = None \<and>
     (case sap_per_learner_spend_limit self of
        None \<Rightarrow> True
      | Some limit \<Rightarrow> \<exists>mine spent price. transactions_for_learner env self u = Inr (mine, spent) \<and>
          get_content_price env self k None = Inr price \<and> spent \<le> 0 \<and> price - spent \<le> limit)"
proof (cases "can_redeem_base env self u k su sd")
  case (Inr y)
  obtain ok r' ts where y: "y = (ok, r', ts)" by (cases y)
  show ?thesis
  proof (cases ok)
    case True
    show ?thesis
    proof (cases "sap_per_learner_spend_limit self")
      case (Some limit)
      show ?thesis
      proof (cases "transactions_for_learner env self u")
        case mine: (Inr z)
        show ?thesis
        proof (cases "get_content_price env self k None")
          case price: (Inr p)
          show ?thesis
            by (cases z) (auto simp: can_redeem_spend_def assms Inr y True Some mine price content_would_exceed_limit_def)
        qed (cases z, simp add: can_redeem_spend_def assms Inr y True Some mine)
      qed (simp add: can_redeem_spend_def assms Inr y True Some)
    qed (auto simp: can_redeem_spend_def assms Inr y True)
  qed (simp add: can_redeem_spend_def assms Inr y)
qed (simp add: can_redeem_spend_def assms)

lemma can_redeem_by_class:
  "can_redeem env table self u k False False = Inr (True, r, txs) \<longleftrightarrow>
     (\<exists>r'. can_redeem_base env self u k False False = Inr (True, r', txs)) \<and> r = None \<and> class_allows env table self u k"
proof (cases "sap_policy_type self")
  case PER_LEARNER_ENROLLMENT_CREDIT
  then show ?thesis by (simp add: can_redeem_def can_redeem_enrollment_iff class_allows_def)
next
  case PER_LEARNER_SPEND_CREDIT
  show ?thesis
  proof (cases "bnr_enabled self")
    case True
    then show ?thesis
      by (simp add: can_redeem_def PER_LEARNER_SPEND_CREDIT can_redeem_spend_def assignment_request_can_redeem_def
        can_redeem_assigned_iff class_allows_def)
  next
    case False
    then show ?thesis
      by (simp add: can_redeem_def PER_LEARNER_SPEND_CREDIT can_redeem_direct_spend_iff class_allows_def)
  qed
next
  case ASSIGNED_LEARNER_CREDIT
  then show ?thesis by (simp add: can_redeem_def can_redeem_assigned_iff class_allows_def)
qed

text \<open>
  C4. Exactly when a policy is redeemable: it is active and not retired, the learner belongs to the
  customer and to one of the groups of the policy, the catalog has the content and its metadata are
  there, the enrollment deadline is not over (unless late redemption is allowed), the subsidy is active
  and says yes, the price fits into the spend limit, and the class agrees: an allocated assignment, a
  free enrollment, or a price within what is left to the learner. The answer then has no reason.
\<close>

theorem can_redeem_exact:
  "can_redeem env table self u k False False = Inr (True, r, txs) \<longleftrightarrow>
     r = None \<and> class_allows env table self u k \<and>
     is_redemption_enabled self \<and> (\<exists>x. includes_learner env self u = Inr (True, x)) \<and>
     catalog_contains_content_key env self k = Inr True \<and>
     (\<exists>m payload. get_content_metadata env self k = Inr (Some m) \<and>
        (is_late_redemption_allowed env self \<or> beyond_deadline env m = Inr False) \<and>
        pe_can_redeem env (sap_subsidy_uuid self) u k = Inr payload \<and>
        scr_active payload = Some True \<and> scr_can_redeem payload = Some True \<and>
        will_exceed_spend_limit env self k (Some m) = Inr False \<and>
        txs = (case scr_all_transactions payload of None \<Rightarrow> [] | Some ts \<Rightarrow> ts))"
  unfolding can_redeem_by_class can_redeem_base_True_iff by blast

section \<open>Redeeming an assignment\<close>

lemma save_over_row:
  assumes "distinct (map lca_uuid table)" and "unique_slots table" and "b \<in> set table" and "lca_uuid a = lca_uuid b"
    and "lca_assignment_configuration a = lca_assignment_configuration b" "lca_content_key a = lca_content_key b"
      "lca_learner_email a = lca_learner_email b" "lca_lms_user_id a = lca_lms_user_id b"
  shows "save_assignment now a table = Inr (map (\<lambda>x. if x = b then a\<lparr>lca_modified := now\<rparr> else x) table)"
proof -
  have "put_row lca_uuid (a\<lparr>lca_modified := now\<rparr>) table = map (\<lambda>x. if x = b then a\<lparr>lca_modified := now\<rparr> else x) table"
    by (rule put_row_unique [OF assms(1,3)]) (simp add: assms(4))
  moreover have "unique_slots (map (\<lambda>x. if x = b then a\<lparr>lca_modified := now\<rparr> else x) table) \<longleftrightarrow> unique_slots table"
    by (rule unique_slots_map) (simp_all add: assms(4-8))
  ultimately show ?thesis using assms(2) by (simp add: save_assignment_def checked_table_def)
qed

text \<open>
  C5. What redeeming an assignment writes. The ledger is asked for exactly the price the assignment
  was allocated at. If it accepts, the row becomes accepted, with the chosen content key, the
  transaction, cleared times and a successful action; if it answers with an HTTP error, the row
  becomes errored, with an errored action, and \<open>SubsidyAPIHTTPError\<close> is raised; any other error leaves
  the row allocated. The row with the key of the assignment is overwritten as a whole, whatever it
  has become since the request read it, cancelled, say.
\<close>

theorem redeem_assigned_outcome:
  assumes "get_assignment env seen self u k = Inr (Some a)" and "lca_state a = ALLOCATED"
    and "sap_access_method self \<in> {DIRECT, ASSIGNED}" and d: "distinct (map lca_uuid table)" and un: "unique_slots table"
    and b: "b \<in> set table" "lca_uuid b = lca_uuid a"
    and slot: "lca_assignment_configuration b = lca_assignment_configuration a" "lca_content_key b = lca_content_key a"
      "lca_learner_email b = lca_learner_email a" "lca_lms_user_id b = lca_lms_user_id a"
  shows "redeem_assigned env tb seen self u k txs metadata table actions =
    (case pe_create_transaction env (transaction_payload env self u k txs metadata (Some (- lca_content_quantity a))) of
       Inr tx \<Rightarrow> \<lparr>rd_result = Inr tx,
         rd_table = map (\<lambda>x. if x = b
           then a\<lparr>lca_state := ACCEPTED, lca_preferred_course_run_key := Some k, lca_accepted_at := Some (pe_now env),
                  lca_errored_at := None, lca_cancelled_at := None, lca_expired_at := None,
                  lca_transaction_uuid := Some (tx_uuid tx), lca_modified := pe_now env\<rparr>
           else x) table,
         rd_actions = add_successful_redeemed_action (pe_now env) a actions\<rparr>
     | Inl e \<Rightarrow> if e = HTTPError \<or> e = SubsidyAPIHTTPError
         then \<lparr>rd_result = Inl SubsidyAPIHTTPError,
           rd_table = map (\<lambda>x. if x = b
             then a\<lparr>lca_state := ERRORED, lca_errored_at := Some (pe_now env), lca_modified := pe_now env\<rparr> else x) table,
           rd_actions = add_errored_redeemed_action tb a actions\<rparr>
         else \<lparr>rd_result = Inl e, rd_table = table, rd_actions = actions\<rparr>)"
proof -
  let ?payload = "transaction_payload env self u k txs metadata (Some (- lca_content_quantity a))"
  have errored: "save_assignment (pe_now env) (errored_assignment env a) table =
      Inr (map (\<lambda>x. if x = b then (errored_assignment env a)\<lparr>lca_modified := pe_now env\<rparr> else x) table)"
    by (rule save_over_row [OF d un b(1)]) (simp_all add: errored_assignment_def b(2) slot)
  have accepted: "save_assignment (pe_now env) (accepted_assignment env k tx a) table =
      Inr (map (\<lambda>x. if x = b then (accepted_assignment env k tx a)\<lparr>lca_modified := pe_now env\<rparr> else x) table)" for tx
    by (rule save_over_row [OF d un b(1)]) (simp_all add: accepted_assignment_def b(2) slot)
  have rows: "add_successful_redeemed_action now (accepted_assignment env k tx a) actions = add_successful_redeemed_action now a actions"
    "add_errored_redeemed_action tb (errored_assignment env a) actions = add_errored_redeemed_action tb a actions" for now tx
    by (simp_all add: add_successful_redeemed_action_def add_errored_redeemed_action_def create_assignment_action_def
        accepted_assignment_def errored_assignment_def)
  have written: "(errored_assignment env a)\<lparr>lca_modified := pe_now env\<rparr> =
      a\<lparr>lca_state := ERRORED, lca_errored_at := Some (pe_now env), lca_modified := pe_now env\<rparr>"
    "(accepted_assignment env k tx a)\<lparr>lca_modified := pe_now env\<rparr> =
      a\<lparr>lca_state := ACCEPTED, lca_preferred_course_run_key := Some k, lca_accepted_at := Some (pe_now env),
        lca_errored_at := None, lca_cancelled_at := None, lca_expired_at := None,
        lca_transaction_uuid := Some (tx_uuid tx), lca_modified := pe_now env\<rparr>" for tx
    by (simp_all add: errored_assignment_def accepted_assignment_def)
  have asked: "redeem_base env self u k txs metadata (Some (-1 * lca_content_quantity a)) =
      (case pe_create_transaction env ?payload of
         Inl e \<Rightarrow> Inl (if e = HTTPError then SubsidyAPIHTTPError else e) | Inr tx \<Rightarrow> Inr tx)"
    using assms(3) by (simp add: redeem_base_def)
  show ?thesis
    using assms(1,2) asked by (cases "pe_create_transaction env ?payload") (simp_all add: redeem_assigned_def errored accepted rows written)
qed

theorem redeem_assigned_outcome_witness:
  "map lca_state (rd_table (redeem_assigned demo_policy_env ''tb'' [demo_assignment] demo_policy 70 ''edX+D'' [] None
     [demo_assignment\<lparr>lca_state := CANCELLED\<rparr>] [])) = [ACCEPTED]"
proof -
  have "get_assignment demo_policy_env [demo_assignment] demo_policy 70 ''edX+D'' = Inr (Some demo_assignment)" by code_simp
  from redeem_assigned_outcome [OF this, of "[demo_assignment\<lparr>lca_state := CANCELLED\<rparr>]" "demo_assignment\<lparr>lca_state := CANCELLED\<rparr>"
      "''tb''" "[]" None "[]"]
  show ?thesis by (simp add: demo_assignment_def demo_policy_def demo_policy_env_def accepted_assignment_def)
qed

section \<open>Redeeming a request\<close>

lemma started_request_redemption:
  assumes "get_assignment env seen self u k = Inr (Some a)" and "credit_request_of requests a = Some r"
  shows "start_request_redemption env seen self requests u k =
    Inr (r, \<lparr>act_learner_credit_request = Some (sr_uuid r), act_recent_action = Some ''accepted'',
      act_status = Some ''accepted'', act_error_reason = None, act_traceback = None, act_created = pe_now env\<rparr>)"
proof -
  have keys: "get_action_choice ''accepted'' = Some ''accepted''"
    "get_user_message_choice ''accepted'' = Some ''accepted''" by code_simp+
  show ?thesis
    unfolding start_request_redemption_def assms keys create_action_def Let_def full_clean_action_def
    by (simp add: assms learner_credit_request_action_choices_def subsidy_request_states_choices_def
        learner_credit_request_user_messages_def)
qed

text \<open>
  C6. What becomes of a request when its assignment is redeemed. Without an assignment, or without a
  request behind it, nothing is charged and nothing changes, and the error is an
  \<open>UnboundLocalError\<close>, whatever went wrong. Otherwise the assignment is redeemed and exactly one action
  is added, which carries \<open>failed_redemption\<close> just when an error is raised. The request is then
  accepted, or, after an error, untouched; an error of its own save leaves the ledger charged and the
  assignment accepted all the same.
\<close>

theorem request_redemption_outcome:
  assumes "sap_policy_type self = PER_LEARNER_SPEND_CREDIT" and "bnr_enabled self"
    and "out = redeem env tb seen self u k txs metadata table actions requests request_actions"
    and "rd = redeem_assigned env tb seen (copy_context_to self) u k txs metadata table actions"
  shows "case Option.bind (case_sum (\<lambda>_. None) id (get_assignment env seen self u k)) (credit_request_of requests) of
      None \<Rightarrow> out = \<lparr>rd_result = Inl UnboundLocalError, rd_table = table, rd_actions = actions,
        rd_requests = requests, rd_request_actions = request_actions, rd_tasks = []\<rparr>
    | Some r \<Rightarrow>
        rd_table out = rd_table rd \<and> rd_actions out = rd_actions rd \<and>
        (\<exists>act. rd_request_actions out = request_actions @ [act] \<and> act_learner_credit_request act = Some (sr_uuid r) \<and>
           (case rd_result out of
              Inl e \<Rightarrow> act_error_reason act = Some ''failed_redemption'' \<and> act_status act = Some ''approved'' \<and>
                rd_requests out = requests \<and>
                (rd_result rd = Inl e \<or> full_clean_lcr requests (r\<lparr>sr_state := SR_ACCEPTED\<rparr>) = Inl e)
            | Inr tx \<Rightarrow> act_error_reason act = None \<and> act_status act = Some ''accepted'' \<and> rd_result rd = Inr tx \<and>
                rd_requests out = upsert_lcr (r\<lparr>sr_state := SR_ACCEPTED, lcr_modified := pe_now env\<rparr>) requests))"
proof -
  have keys: "get_action_choice ''approved'' = Some ''approved''"
    "get_error_reason_choice ''failed_redemption'' = Some ''failed_redemption''" by code_simp+
  have run: "out = assignment_request_redeem env tb seen self u k txs metadata table actions requests request_actions"
    using assms(1-3) by (simp add: redeem_def)
  show ?thesis
  proof (cases "Option.bind (case_sum (\<lambda>_. None) id (get_assignment env seen self u k)) (credit_request_of requests)")
    case None
    then show ?thesis unfolding run assignment_request_redeem_def Let_def
      by (cases "get_assignment env seen self u k") (simp_all add: start_request_redemption_def)
  next
    case (Some r)
    then obtain a where a: "get_assignment env seen (copy_context_to self) u k = Inr (Some a)"
      and r: "credit_request_of requests a = Some r"
      by (cases "get_assignment env seen self u k") (auto simp: bind_eq_Some_conv)
    note out = run [unfolded assignment_request_redeem_def Let_def started_request_redemption [OF a r], folded assms(4)]
    show ?thesis
    proof (cases "rd_result rd")
      case (Inl e)
      then show ?thesis unfolding Some by (simp add: out request_redemption_failed_def keys)
    next
      case (Inr tx)
      show ?thesis
      proof (cases "full_clean_lcr requests (r\<lparr>sr_state := SR_ACCEPTED\<rparr>)")
        case clean: (Inl e)
        then show ?thesis unfolding Some by (simp add: out Inr request_redemption_failed_def keys save_lcr_def)
      next
        case clean: (Inr _)
        then show ?thesis unfolding Some by (simp add: out Inr save_lcr_def Let_def)
      qed
    qed
  qed
qed

definition demo_bnr :: policy where
  "demo_bnr = demo_direct\<lparr>sap_assignment_configuration := Some demo_config,
     sap_learner_credit_request_config := Some \<lparr>lcc_uuid = 3, lcc_active = True\<rparr>\<rparr>"

definition demo_approved :: learner_credit_request where
  "demo_approved = demo_request\<lparr>lcr_assignment := Some 11, sr_state := SR_APPROVED, sr_reviewer := Some 9,
     sr_reviewed_at := Some 4\<rparr>"

theorem request_redemption_outcome_witness:
  "rd_requests (redeem demo_policy_env ''tb'' [demo_assignment] demo_bnr 70 ''edX+D'' [] None [demo_assignment] []
     [demo_approved] []) =
   [demo_approved\<lparr>sr_state := SR_ACCEPTED, lcr_modified := 500\<rparr>]"
proof -
  let ?r = "demo_approved"
  let ?out = "redeem demo_policy_env ''tb'' [demo_assignment] demo_bnr 70 ''edX+D'' [] None [demo_assignment] [] [?r] []"
  have "sap_policy_type demo_bnr = PER_LEARNER_SPEND_CREDIT" "bnr_enabled demo_bnr"
    by (simp_all add: demo_bnr_def demo_direct_def bnr_enabled_def)
  note claim = request_redemption_outcome [OF this refl refl, of demo_policy_env "''tb''" "[demo_assignment]" 70 "''edX+D''"
      "[]" None "[demo_assignment]" "[]" "[?r]" "[]"]
  have found: "Option.bind (case_sum (\<lambda>_. None) id (get_assignment demo_policy_env [demo_assignment] demo_bnr 70 ''edX+D''))
      (credit_request_of [?r]) = Some ?r" by code_simp
  have "isl (rd_result ?out) = False" by code_simp
  then obtain tx where tx: "rd_result ?out = Inr tx" by (cases "rd_result ?out") auto
  have "rd_requests ?out = upsert_lcr (?r\<lparr>sr_state := SR_ACCEPTED, lcr_modified := pe_now demo_policy_env\<rparr>) [?r]"
    using claim unfolding found tx by auto
  also have "\<dots> = [demo_approved\<lparr>sr_state := SR_ACCEPTED, lcr_modified := 500\<rparr>]" by code_simp
  finally show ?thesis .
qed

section \<open>Redeeming again\<close>

text \<open>
  C7. When the ledger takes a redemption for the same one. The key of a request depends on the
  learner, the content, the policy and the transactions that failed or were reversed: a transaction
  that is pending or committed leaves the key as it is, so that a repeated click charges nothing, and
  one that failed or was reversed for good gives a fresh key, unless the digest of the two happens
  to collide; the metadata and the price play no part.
\<close>

theorem idempotency_key_exact:
  assumes "inj_on (pe_digest env) {(u, k, sap_uuid self, redemptions_for_idempotency_key txs),
    (u, k, sap_uuid self, redemptions_for_idempotency_key (txs @ [t]))}"
  shows "tr_idempotency_key (transaction_payload env self u k (txs @ [t]) metadata price) =
      tr_idempotency_key (transaction_payload env self u k txs metadata' price') \<longleftrightarrow>
    tx_state t \<noteq> TX_FAILED \<and> tx_reversal t \<noteq> Some (Some TX_COMMITTED)"
  using assms by (auto simp: transaction_payload_def create_idempotency_key_for_transaction_def
      redemptions_for_idempotency_key_def)

theorem idempotency_key_exact_witness:
  "tr_idempotency_key (transaction_payload (demo_policy_env\<lparr>pe_digest := \<lambda>(_, _, _, h). replicate (length h) CHR ''x''\<rparr>)
      demo_policy 70 ''edX+D'' [demo_tx\<lparr>tx_state := TX_FAILED\<rparr>] None None) \<noteq>
   tr_idempotency_key (transaction_payload (demo_policy_env\<lparr>pe_digest := \<lambda>(_, _, _, h). replicate (length h) CHR ''x''\<rparr>)
      demo_policy 70 ''edX+D'' [] None None)"
  using idempotency_key_exact [of "demo_policy_env\<lparr>pe_digest := \<lambda>(_, _, _, h). replicate (length h) CHR ''x''\<rparr>" 70 "''edX+D''"
      demo_policy "[]" "demo_tx\<lparr>tx_state := TX_FAILED\<rparr>" None None None None]
  by (simp add: inj_on_def redemptions_for_idempotency_key_def)

end
