(* ===== verification/Budget.thy ===== *)
theory Budget
  imports Policy_Allocation Assignment_Tasks
begin

text \<open>
  The budget of a policy: what every operation on its assignments and its ledger does to the sum of
  money that is spent or promised. \<open>budget_step\<close> collects the operations of the model, each guarded
  the way the callers guard it under the lock of the policy; \<open>budget_spec\<close> is the specification, a
  single number that is lowered within the limit or raised.
\<close>

section \<open>Sound tables\<close>

definition books_ok :: "assignments \<Rightarrow> bool" where
  "books_ok table \<longleftrightarrow> distinct (map lca_uuid table) \<and> unique_slots table \<and>
     (\<forall>a \<in> set table. lca_content_quantity a \<le> 0)"

lemma books_ok_map:
  assumes "books_ok table" and "unique_slots (map f table)"
    and "\<And>a. a \<in> set table \<Longrightarrow> lca_uuid (f a) = lca_uuid a"
    and "\<And>a. a \<in> set table \<Longrightarrow> lca_content_quantity (f a) \<le> 0"
  shows "books_ok (map f table)"
proof -
  have m: "map lca_uuid (map f table) = map lca_uuid table" using assms(3) by simp
  show ?thesis unfolding books_ok_def m using assms(1,2,4) by (simp add: books_ok_def)
qed

lemma allocated_quantity_mono:
  assumes "\<And>a. a \<in> set table \<Longrightarrow> allocated_share config a \<le> allocated_share config (f a)"
  shows "get_allocated_quantity_for_configuration table config \<le>
    get_allocated_quantity_for_configuration (map f table) config"
  unfolding allocated_quantity_sum map_map o_def by (rule sum_list_mono) (rule assms)

lemma allocated_share_nonpos: "lca_content_quantity a \<le> 0 \<Longrightarrow> allocated_share config a \<le> 0"
  by (simp add: allocated_share_def)

lemma allocated_share_closed: "lca_state a \<noteq> ALLOCATED \<Longrightarrow> allocated_share config a = 0"
  by (simp add: allocated_share_def)

lemma allocated_quantity_nonpos: "books_ok table \<Longrightarrow> get_allocated_quantity_for_configuration table config \<le> 0"
  unfolding allocated_quantity_sum books_ok_def by (intro sum_list_nonpos) (auto simp: allocated_share_def)

lemma save_assignment_map:
  assumes "save_assignment now a' table = Inr t'" and "distinct (map lca_uuid table)"
    and "a \<in> set table" and "lca_uuid a' = lca_uuid a"
  shows "t' = map (\<lambda>b. if b = a then a'\<lparr>lca_modified := now\<rparr> else b) table \<and> unique_slots t'"
proof -
  have "put_row lca_uuid (a'\<lparr>lca_modified := now\<rparr>) table =
      map (\<lambda>b. if b = a then a'\<lparr>lca_modified := now\<rparr> else b) table"
    by (rule put_row_unique [OF assms(2,3)]) (simp add: assms(4))
  then show ?thesis using assms(1) by (simp add: save_assignment_def checked_table_Inr)
qed

text \<open>Saving a row that is no longer allocated releases what it held.\<close>

lemma save_releases:
  assumes "save_assignment now a' table = Inr t'" and ok: "books_ok table"
    and a: "a \<in> set table" and u: "lca_uuid a' = lca_uuid a" and s: "lca_state a' \<noteq> ALLOCATED"
    and q: "lca_content_quantity a' = lca_content_quantity a"
  shows "books_ok t' \<and> get_allocated_quantity_for_configuration t' config =
    get_allocated_quantity_for_configuration table config - allocated_share config a"
proof -
  define f where "f b = (if b = a then a'\<lparr>lca_modified := now\<rparr> else b)" for b
  have d: "distinct (map lca_uuid table)" and n: "\<And>b. b \<in> set table \<Longrightarrow> lca_content_quantity b \<le> 0"
    using ok by (auto simp: books_ok_def)
  have t: "t' = map f table" using save_assignment_map [OF assms(1) d a u] by (simp add: f_def [abs_def])
  have un: "unique_slots t'" using save_assignment_map [OF assms(1) d a u] by (elim conjE)
  have "books_ok t'" unfolding t
    by (rule books_ok_map [OF ok un [unfolded t]]) (simp_all add: f_def u q n a)
  moreover have "get_allocated_quantity_for_configuration (map f table) config =
      get_allocated_quantity_for_configuration table config
        + (- allocated_share config a) * int (length (filter (\<lambda>b. b = a) table))"
    by (rule allocated_quantity_map) (simp add: f_def allocated_share_def s)
  moreover have "filter (\<lambda>b. b = a) table = [a]"
    by (rule filter_singleton [OF _ a]) (use d distinct_map in auto)
  ultimately show ?thesis by (simp add: t)
qed

section \<open>Allocations\<close>

lemma allocate_keeps_books:
  assumes run: "allocate_assignments env table config les k p admin known = Inr al"
    and ok: "books_ok table" and fresh: "fresh_uuids env table"
  shows "books_ok (al_table al) \<and> 0 \<le> p"
proof -
  define emails where "emails = deduplicate_learner_emails_to_allocate les"
  obtain ids ebi where le: "allocation_learners (ae_users env) emails known = (ids, ebi)" by fastforce
  define existing where "existing = get_existing_assignments_for_allocation table config emails k ids"
  have d: "distinct (map lca_uuid table)" and n: "\<And>a. a \<in> set table \<Longrightarrow> lca_content_quantity a \<le> 0"
    using ok by (auto simp: books_ok_def)
  obtain s P where p: "0 \<le> p" and
    P: "\<And>a. a \<in> set existing \<Longrightarrow> prepare_existing_assignment env table (- p) s k ids ebi a = Inr (P a)"
    and c: "al_created al = map (new_assignment env config (- p) s k ids admin)
      (enumerate 0 (filter (\<lambda>e. lower e \<notin> (\<lambda>a. lower (lca_learner_email (fst (P a)))) ` set existing) emails))"
    and t: "al_table al = map (after_allocation (ae_now env) P existing) table @ al_created al"
    and un: "unique_slots (al_table al)" and dt: "distinct (map lca_uuid (al_table al))"
    using allocate_effect [OF run d fresh emails_def le existing_def] by blast
  have "lca_content_quantity r \<le> 0" if r: "r \<in> set (al_table al)" for r
  proof -
    consider b where "b \<in> set table" "r = after_allocation (ae_now env) P existing b" | "r \<in> set (al_created al)"
      using r unfolding t set_append set_map by blast
    then show ?thesis
    proof cases
      case 1
      from after_allocation_facts(5) [OF P 1(2)] n [OF 1(1)] p show ?thesis by simp
    next
      case 2
      then show ?thesis using p unfolding c by auto
    qed
  qed
  then show ?thesis using un dt p by (simp add: books_ok_def)
qed

text \<open>A price per learner is enough for a batch of addresses.\<close>

definition addresses_current :: "alloc_env \<Rightarrow> assignments \<Rightarrow> assignment_configuration \<Rightarrow> string \<Rightarrow> string list \<Rightarrow> bool" where
  "addresses_current env table config k les \<longleftrightarrow>
     (\<forall>a \<in> set table. \<forall>u \<in> set (ae_users env).
        lca_assignment_configuration a = Some (ac_uuid config) \<and> lca_content_key a = k \<and> lca_state a \<noteq> EXPIRED \<and>
        lower (user_email u) \<in> lower ` set les \<and> user_lms_user_id u \<noteq> None \<and>
        lca_lms_user_id a = user_lms_user_id u \<longrightarrow> lower (lca_learner_email a) \<in> lower ` set les)"

lemma allocation_cost:
  assumes run: "allocate_assignments env table config les k p admin [] = Inr al"
    and ok: "books_ok table" and fresh: "fresh_uuids env table" and ne: "les \<noteq> []"
    and cur: "addresses_current env table config k les"
  shows "get_allocated_quantity_for_configuration (al_table al) config \<ge>
    get_allocated_quantity_for_configuration table config - int (length les) * p"
    and "get_allocated_quantity_for_configuration (al_table al) config \<le>
    get_allocated_quantity_for_configuration table config"
proof -
  have d: "distinct (map lca_uuid table)" using ok by (simp add: books_ok_def)
  have p: "0 \<le> p" using allocate_keeps_books [OF run ok fresh] by simp
  have "length (al_created al) + length (reallocated table al) \<le> card (lower ` set les)"
    by (rule allocation_row_count [OF run d fresh ne]) (use cur in \<open>auto simp: addresses_current_def\<close>)
  also have "\<dots> \<le> length les" using card_image_le [of "set les" lower] card_length [of les] by simp
  finally have "int (length (al_created al) + length (reallocated table al)) \<le> int (length les)" by linarith
  from mult_left_mono [OF this p] allocation_debit [OF run d fresh]
  show "get_allocated_quantity_for_configuration (al_table al) config \<ge>
      get_allocated_quantity_for_configuration table config - int (length les) * p"
    by (simp add: mult.commute)
  show "get_allocated_quantity_for_configuration (al_table al) config \<le>
      get_allocated_quantity_for_configuration table config"
    using p allocation_debit [OF run d fresh] by simp
qed

lemma allocation_cost_twice:
  assumes run: "allocate_assignments env table config les k p admin [] = Inr al"
    and ok: "books_ok table" and fresh: "fresh_uuids env table" and ne: "les \<noteq> []"
  shows "get_allocated_quantity_for_configuration (al_table al) config \<ge>
    get_allocated_quantity_for_configuration table config - 2 * (int (length les) * p)"
proof -
  have d: "distinct (map lca_uuid table)" and un: "unique_slots table" using ok by (auto simp: books_ok_def)
  have p: "0 \<le> p" using allocate_keeps_books [OF run ok fresh] by simp
  have "length (al_created al) + length (reallocated table al) \<le> 2 * card (lower ` set les)"
    by (rule allocation_row_count_twice [OF run d fresh ne un])
  also have "\<dots> \<le> 2 * length les" using card_image_le [of "set les" lower] card_length [of les] by simp
  finally have "int (length (al_created al) + length (reallocated table al)) \<le> 2 * int (length les)" by linarith
  from mult_left_mono [OF this p] allocation_debit [OF run d fresh] show ?thesis by (simp add: mult.commute)
qed


section \<open>Allocations for credit requests\<close>

text \<open>
  A bulk update with several records for one row uses the first; so as long as no record adds, the
  changes sum up to no less than what the records hold.
\<close>

lemma sum_find_ge:
  assumes "distinct (map key rows)" and "\<And>r. r \<in> set rs \<Longrightarrow> w r \<le> (0::int)"
  shows "sum_list (map w rs) \<le> sum_list (map (\<lambda>x. case find (\<lambda>r. key r = key x) rs of None \<Rightarrow> 0 | Some r \<Rightarrow> w r) rows)"
  using assms(2)
proof (induction rs)
  case (Cons r rs)
  define g where "g rs x = (case find (\<lambda>r. key r = key x) rs of None \<Rightarrow> 0 | Some r \<Rightarrow> w r)" for rs x
  have g0: "g rs x \<le> 0" for x
    using Cons.prems by (auto simp: g_def dest!: find_SomeD split: option.splits)
  have le: "sum_list (map (\<lambda>x. if key x = key r then w r else 0) rows) \<ge> w r"
  proof -
    have "length (filter (\<lambda>x. key x = key r) rows) \<le> 1"
    proof -
      have "length (filter (\<lambda>x. key x = key r) rows) = card (set (map key (filter (\<lambda>x. key x = key r) rows)))"
        unfolding distinct_card [OF distinct_map_filter [OF assms(1)]] by simp
      also have "\<dots> \<le> card {key r}" by (rule card_mono) auto
      finally show ?thesis by simp
    qed
    then show ?thesis
      using Cons.prems [of r] by (cases "length (filter (\<lambda>x. key x = key r) rows)") (simp_all add: sum_list_if)
  qed
  have "w r + sum_list (map (g rs) rows) \<le>
      sum_list (map (\<lambda>x. if key x = key r then w r else 0) rows) + sum_list (map (g rs) rows)"
    using le by simp
  also have "\<dots> = sum_list (map (\<lambda>x. (if key x = key r then w r else 0) + g rs x) rows)"
    by (simp add: sum_list_addf)
  also have "\<dots> \<le> sum_list (map (g (r # rs)) rows)"
    by (rule sum_list_mono) (use g0 in \<open>auto simp: g_def\<close>)
  finally show ?case using Cons.IH Cons.prems by (simp add: g_def [abs_def])
qed simp

lemma request_rows:
  assumes "rmap (\<lambda>r. reallocate_for_request env table metadata r (the (lookup r))) rs = Inr xs"
    and "\<And>r. r \<in> set rs \<Longrightarrow> 0 \<le> or_zero (lcr_course_price r)"
  shows "sum_list (map lca_content_quantity xs) = - sum_prices rs"
    and "x \<in> set xs \<Longrightarrow> lca_content_quantity x \<le> 0 \<and> lca_state x = ALLOCATED \<and>
      (\<exists>r \<in> set rs. lca_uuid x = lca_uuid (the (lookup r)))"
proof -
  have one: "lca_content_quantity x = - or_zero (lcr_course_price r) \<and> lca_state x = ALLOCATED \<and>
      lca_uuid x = lca_uuid (the (lookup r))"
    if "reallocate_for_request env table metadata r (the (lookup r)) = Inr x" for r x
    using that by (auto simp: reallocate_for_request_def rbind_Inr_iff negated_price_def or_zero_def
        split: option.splits dest!: reallocate_facts)
  have "list_all2 (\<lambda>r x. reallocate_for_request env table metadata r (the (lookup r)) = Inr x) rs xs"
    using assms(1) by (simp add: rmap_Inr_iff)
  then show "sum_list (map lca_content_quantity xs) = - sum_prices rs"
    by (induction rule: list_all2_induct) (auto simp: sum_prices_def dest!: one)
  show "x \<in> set xs \<Longrightarrow> lca_content_quantity x \<le> 0 \<and> lca_state x = ALLOCATED \<and>
      (\<exists>r \<in> set rs. lca_uuid x = lca_uuid (the (lookup r)))"
    using assms rmap_projr [OF assms(1)] one by fastforce
qed


lemma existing_for_requests:
  assumes "map_of (get_existing_assignments_for_requests table config requests) key = Some a"
  shows "a \<in> set table" and "lca_assignment_configuration a = Some (ac_uuid config)" and "lca_state a \<noteq> ALLOCATED"
proof -
  have "(key, a) \<in> set (get_existing_assignments_for_requests table config requests)"
    using assms by (rule map_of_SomeD)
  then have "a \<in> set table \<and> lca_assignment_configuration a = Some (ac_uuid config) \<and> lca_state a \<in> set reallocate_states"
    using dict_put_loop(1) [where d = "[]"]
    unfolding get_existing_assignments_for_requests_def dict_of_pairs_def Let_def by (fastforce split: if_splits)
  then show "a \<in> set table" and "lca_assignment_configuration a = Some (ac_uuid config)" and "lca_state a \<noteq> ALLOCATED"
    by (auto simp: in_reallocate_states)
qed

text \<open>The update of re-allocated rows, none of which was allocated before.\<close>

lemma update_cost:
  assumes up: "update_and_refresh_assignments assignment_reallocation_fields now xs table = Inr (table1, updated)"
    and ok: "books_ok table"
    and xs: "\<And>x. x \<in> set xs \<Longrightarrow> lca_content_quantity x \<le> 0 \<and> lca_state x = ALLOCATED \<and>
      (\<exists>a \<in> set table. lca_uuid x = lca_uuid a \<and> lca_assignment_configuration a = Some (ac_uuid config) \<and> lca_state a \<noteq> ALLOCATED)"
  shows "books_ok table1" and "map lca_uuid table1 = map lca_uuid table"
    and "get_allocated_quantity_for_configuration table config + sum_list (map lca_content_quantity xs) \<le>
      get_allocated_quantity_for_configuration table1 config"
proof -
  define f where "f row = (case find (\<lambda>r. lca_uuid r = lca_uuid row) xs of None \<Rightarrow> row
      | Some r \<Rightarrow> (assignment_reallocation_fields r row)\<lparr>lca_modified := now\<rparr>)" for row
  have d: "distinct (map lca_uuid table)" using ok by (simp add: books_ok_def)
  have t: "table1 = map f table" and un: "unique_slots (map f table)"
    using up by (auto simp: update_and_refresh_assignments_def bulk_update_assignments_def rbind_Inr_iff
        checked_table_Inr f_def [abs_def])
  have u: "lca_uuid (f a) = lca_uuid a" for a
    by (simp add: f_def assignment_reallocation_fields_def split: option.split)
  show "books_ok table1" unfolding t
    by (rule books_ok_map [OF ok un u])
      (use ok xs in \<open>auto simp: f_def assignment_reallocation_fields_def books_ok_def split: option.split dest!: find_SomeD\<close>)
  show "map lca_uuid table1 = map lca_uuid table" by (simp add: t u)
  define g where "g row = (case find (\<lambda>r. lca_uuid r = lca_uuid row) xs of None \<Rightarrow> 0 | Some r \<Rightarrow> lca_content_quantity r)"
    for row :: learner_content_assignment
  have "allocated_share config (f row) = allocated_share config row + g row" if row: "row \<in> set table" for row
  proof (cases "find (\<lambda>r. lca_uuid r = lca_uuid row) xs")
    case None
    then show ?thesis by (simp add: f_def g_def)
  next
    case (Some x)
    then obtain a where "x \<in> set xs" "lca_uuid x = lca_uuid row" "lca_state x = ALLOCATED" "a \<in> set table" "lca_uuid x = lca_uuid a"
      "lca_assignment_configuration a = Some (ac_uuid config)" "lca_state a \<noteq> ALLOCATED"
      using xs find_SomeD [OF Some] by blast
    moreover from this have "a = row" using distinct_key_inj [OF d _ row] by metis
    ultimately show ?thesis
      by (simp add: f_def g_def Some allocated_share_def assignment_reallocation_fields_def)
  qed
  then have "get_allocated_quantity_for_configuration table1 config =
      sum_list (map (\<lambda>row. allocated_share config row + g row) table)"
    unfolding allocated_quantity_sum t by (simp add: o_def cong: map_cong)
  also have "\<dots> = get_allocated_quantity_for_configuration table config + sum_list (map g table)"
    by (simp add: allocated_quantity_sum sum_list_addf)
  finally show "get_allocated_quantity_for_configuration table config + sum_list (map lca_content_quantity xs) \<le>
      get_allocated_quantity_for_configuration table1 config"
    using sum_find_ge [OF d, of xs lca_content_quantity] xs by (simp add: g_def [abs_def])
qed

lemma request_creation_cost:
  assumes run: "create_new_assignments_for_requests env table config rs metadata = Inr (table', created)"
    and ok: "books_ok table" and fresh: "fresh_uuids env table"
    and p: "\<And>r. r \<in> set rs \<Longrightarrow> 0 \<le> or_zero (lcr_course_price r)"
  shows "books_ok table'" and "get_allocated_quantity_for_configuration table' config =
      get_allocated_quantity_for_configuration table config - sum_prices rs"
proof -
  have *: "books_ok table' \<and> get_allocated_quantity_for_configuration table' config =
      get_allocated_quantity_for_configuration table config - sum_prices rs"
  proof (cases "rs = []")
    case True
    then show ?thesis using run ok by (simp add: create_new_assignments_for_requests_def sum_prices_def)
  next
    case False
    then obtain news where news: "rmap (new_assignment_for_request env config metadata) (enumerate 0 rs) = Inr news"
      and t: "table' = table @ news" and un: "unique_slots (table @ news)"
      using run by (auto simp: create_new_assignments_for_requests_def rbind_Inr_iff bulk_create_assignments_def checked_table_Inr)
    have one: "lca_uuid x = ae_fresh_uuid env (fst ir) \<and> lca_content_quantity x = - or_zero (lcr_course_price (snd ir)) \<and>
        allocated_share config x = - or_zero (lcr_course_price (snd ir))"
      if "new_assignment_for_request env config metadata ir = Inr x" for ir x
      using that by (auto simp: new_assignment_for_request_def rbind_Inr_iff negated_price_def or_zero_def
          allocated_share_def split: prod.splits option.splits)
    have "list_all2 (\<lambda>ir x. new_assignment_for_request env config metadata ir = Inr x) (enumerate 0 rs) news"
      using news by (simp add: rmap_Inr_iff)
    then have l: "list_all2 (\<lambda>ir x. lca_uuid x = ae_fresh_uuid env (fst ir) \<and>
        lca_content_quantity x = - or_zero (lcr_course_price (snd ir)) \<and>
        allocated_share config x = - or_zero (lcr_course_price (snd ir))) (enumerate 0 rs) news"
      by (rule list_all2_mono) (rule one)
    have us: "map lca_uuid news = map (\<lambda>ir. ae_fresh_uuid env (fst ir)) (enumerate 0 rs)"
      and qs: "map lca_content_quantity news = map (\<lambda>ir. - or_zero (lcr_course_price (snd ir))) (enumerate 0 rs)"
      and sh: "map (allocated_share config) news = map (\<lambda>ir. - or_zero (lcr_course_price (snd ir))) (enumerate 0 rs)"
      using l by (induction rule: list_all2_induct) simp_all
    have snd: "map (\<lambda>ir. - or_zero (lcr_course_price (snd ir))) (enumerate 0 rs) = map (\<lambda>r. - or_zero (lcr_course_price r)) rs"
      by (metis (mono_tags, lifting) map_map map_snd_enumerate comp_apply list.map_cong)
    have "distinct (map lca_uuid news)"
      using inj_on_subset [of "ae_fresh_uuid env" UNIV] fresh unfolding us fresh_uuids_def
        map_fst_enumerate_cong [where g = "ae_fresh_uuid env"] by (simp add: distinct_map)
    moreover have "lca_uuid ` set table \<inter> lca_uuid ` set news = {}"
    proof (rule equals0I)
      fix u assume u: "u \<in> lca_uuid ` set table \<inter> lca_uuid ` set news"
      then have "u \<in> set (map lca_uuid news)" by simp
      then obtain i where "u = ae_fresh_uuid env i" unfolding us by auto
      then show False using fresh u unfolding fresh_uuids_def by force
    qed
    moreover have "lca_content_quantity x \<le> 0" if "x \<in> set news" for x
    proof -
      have "lca_content_quantity x \<in> set (map lca_content_quantity news)" using that by simp
      then show ?thesis using p unfolding qs snd by auto
    qed
    ultimately have "books_ok table'" using ok un unfolding books_ok_def t by auto
    moreover have "sum_list (map (allocated_share config) news) = - sum_prices rs"
      unfolding sh snd sum_prices_def by (simp add: uminus_sum_list_map o_def)
    ultimately show ?thesis by (simp add: t allocated_quantity_append) (simp add: allocated_quantity_sum)
  qed
  show "books_ok table'" by (rule conjunct1 [OF *])
  show "get_allocated_quantity_for_configuration table' config =
      get_allocated_quantity_for_configuration table config - sum_prices rs" by (rule conjunct2 [OF *])
qed


lemma sum_prices_partition: "sum_prices (filter P rs) + sum_prices (filter (\<lambda>r. \<not> P r) rs) = sum_prices rs"
  by (induction rs) (simp_all add: sum_prices_def)

lemma approval_cost:
  assumes run: "allocate_assignment_for_requests env table config catalog rs = Inr (table', m)"
    and ok: "books_ok table" and fresh: "fresh_uuids env table"
    and p: "\<And>r. r \<in> set rs \<Longrightarrow> 0 \<le> or_zero (lcr_course_price r)"
  shows "books_ok table'"
    and "get_allocated_quantity_for_configuration table config - sum_prices rs \<le>
      get_allocated_quantity_for_configuration table' config"
proof -
  define lookup where "lookup r = Option.bind (sr_course_id r)
      (\<lambda>k. map_of (get_existing_assignments_for_requests table config rs) (lower (user_email (sr_user r)), k))"
    for r :: learner_credit_request
  obtain metadata xs table1 updated created where
    re: "rmap (\<lambda>r. reallocate_for_request env table metadata r (the (lookup r))) (filter (\<lambda>r. lookup r \<noteq> None) rs) = Inr xs"
    and up: "update_and_refresh_assignments assignment_reallocation_fields (ae_now env) (rev xs) table = Inr (table1, updated)"
    and cr: "create_new_assignments_for_requests env table1 config (filter (\<lambda>r. lookup r = None) rs) metadata = Inr (table', created)"
    using run unfolding allocate_assignment_for_requests_def Let_def lookup_def [symmetric] rbind_Inr_iff
    by (auto simp: rbind_Inr_iff simp del: not_None_eq)
  have q: "sum_list (map lca_content_quantity (rev xs)) = - sum_prices (filter (\<lambda>r. lookup r \<noteq> None) rs)"
    using request_rows(1) [OF re] p by (simp add: rev_map [symmetric] sum_list_rev)
  have x: "lca_content_quantity x \<le> 0 \<and> lca_state x = ALLOCATED \<and>
      (\<exists>a \<in> set table. lca_uuid x = lca_uuid a \<and> lca_assignment_configuration a = Some (ac_uuid config) \<and> lca_state a \<noteq> ALLOCATED)"
    if xs: "x \<in> set (rev xs)" for x
  proof -
    obtain r where r: "lookup r \<noteq> None" "lca_uuid x = lca_uuid (the (lookup r))" "lca_content_quantity x \<le> 0" "lca_state x = ALLOCATED"
      using request_rows(2) [OF re, of x] xs p by auto
    then obtain k where "map_of (get_existing_assignments_for_requests table config rs) (lower (user_email (sr_user r)), k) = Some (the (lookup r))"
      by (cases "sr_course_id r") (auto simp: lookup_def)
    from existing_for_requests [OF this] r show ?thesis by blast
  qed
  note u = update_cost [OF up ok x]
  have fresh1: "fresh_uuids env table1"
    using fresh arg_cong [OF u(2), of set] unfolding fresh_uuids_def by (metis (no_types, lifting) image_iff set_map)
  have p': "0 \<le> or_zero (lcr_course_price r)" if "r \<in> set (filter (\<lambda>r. lookup r = None) rs)" for r
    using that p by simp
  note c = request_creation_cost [OF cr u(1) fresh1 p']
  show "books_ok table'" by (rule c(1))
  show "get_allocated_quantity_for_configuration table config - sum_prices rs \<le>
      get_allocated_quantity_for_configuration table' config"
    using u(3) q c(2) sum_prices_partition [of "\<lambda>r. lookup r = None" rs] by simp
qed


section \<open>The budget\<close>

text \<open>The specification: money is reserved up to the limit and released without one.\<close>

inductive budget_spec :: "int \<Rightarrow> int \<Rightarrow> int \<Rightarrow> bool" for limit where
  reserve: "0 \<le> x \<Longrightarrow> - (c - x) \<le> limit \<Longrightarrow> budget_spec limit c (c - x)"
| release: "c \<le> c' \<Longrightarrow> budget_spec limit c c'"

record budget =
  bg_table :: assignments
  bg_redeemed :: int

text \<open>The abstraction: what is spent and what is promised, a negative number of cents.\<close>

definition committed :: "assignment_configuration \<Rightarrow> budget \<Rightarrow> int" where
  "committed config b = bg_redeemed b + get_allocated_quantity_for_configuration (bg_table b) config"

definition budget_ok :: "budget \<Rightarrow> bool" where
  "budget_ok b \<longleftrightarrow> books_ok (bg_table b) \<and> bg_redeemed b \<le> 0"

text \<open>
  The operations on the assignments and the ledger of a policy \<open>self\<close>. A step that reads the ledger
  sees its total (\<open>total_redeemed\<close>). The ledger is charged at most the requested price of a redeemed
  assignment (less when the idempotency key finds a former transaction), and not at all when the
  service answers with an error; a reversal gives money back. A failing task marks its row as errored
  (\<open>task_fails\<close>; the other writes of a task go to the actions), a saved user links rows
  (\<open>link_user\<close>), and the daily command clears addresses (\<open>clear_pii\<close>).

  \<open>current\<close> tells which allocations are allowed: only those that find no row of a requested user under
  an address that is not requested (\<open>addresses_current\<close>), or all of them. No caller checks this
  condition.
\<close>

inductive budget_step :: "bool \<Rightarrow> policy \<Rightarrow> assignment_configuration \<Rightarrow> budget \<Rightarrow> budget \<Rightarrow> bool"
    for current self config where
  allocate: "total_redeemed env self = Inr (bg_redeemed b) \<Longrightarrow>
    can_allocate env (bg_table b) self (length emails) k price = Inr (True, None) \<Longrightarrow>
    allocate env (bg_table b) self emails k price admin = Inr al \<Longrightarrow>
    emails \<noteq> [] \<Longrightarrow> fresh_uuids (pe_alloc env) (bg_table b) \<Longrightarrow>
    (current \<Longrightarrow> addresses_current (pe_alloc env) (bg_table b) config k emails) \<Longrightarrow>
    budget_step current self config b (b\<lparr>bg_table := al_table al\<rparr>)"
| approve: "total_redeemed env self = Inr (bg_redeemed b) \<Longrightarrow>
    can_approve env (bg_table b) self requests = Inr (Approvable valid failed) \<Longrightarrow>
    approve env (bg_table b) self valid = Inr (table', m) \<Longrightarrow>
    fresh_uuids (pe_alloc env) (bg_table b) \<Longrightarrow>
    budget_step current self config b (b\<lparr>bg_table := table'\<rparr>)"
| redeem: "policy \<in> {self, copy_context_to self} \<Longrightarrow>
    get_assignment env (bg_table b) policy u k = Inr (Some a) \<Longrightarrow>
    redeem_assigned env tb (bg_table b) policy u k txs metadata (bg_table b) actions = rd \<Longrightarrow>
    rd_result rd = Inr tx \<Longrightarrow> bg_redeemed b + lca_content_quantity a \<le> spent \<Longrightarrow> spent \<le> 0 \<Longrightarrow>
    budget_step current self config b \<lparr>bg_table = rd_table rd, bg_redeemed = spent\<rparr>"
| redeem_fails: "policy \<in> {self, copy_context_to self} \<Longrightarrow>
    redeem_assigned env tb (bg_table b) policy u k txs metadata (bg_table b) actions = rd \<Longrightarrow>
    rd_result rd = Inl e \<Longrightarrow> budget_step current self config b (b\<lparr>bg_table := rd_table rd\<rparr>)"
| cancel: "cancel_assignments now (bg_table b) given send = Inr r \<Longrightarrow> set given \<subseteq> set (bg_table b) \<Longrightarrow>
    budget_step current self config b (b\<lparr>bg_table := cn_table r\<rparr>)"
| expire: "expire_assignment now date fetch (bg_table b) requests a m True = Inr e \<Longrightarrow> a \<in> set (bg_table b) \<Longrightarrow>
    budget_step current self config b (b\<lparr>bg_table := ex_table e\<rparr>)"
| refund: "bg_redeemed b \<le> spent \<Longrightarrow> spent \<le> 0 \<Longrightarrow> budget_step current self config b (b\<lparr>bg_redeemed := spent\<rparr>)"
| reverse: "update_assignment_status_for_reversed_transaction now tb tx st = Inr st' \<Longrightarrow>
    rv_table st = bg_table b \<Longrightarrow> budget_step current self config b (b\<lparr>bg_table := rv_table st'\<rparr>)"
| remind: "remind_assignments now (bg_table b) given = Inr r \<Longrightarrow> set given \<subseteq> set (bg_table b) \<Longrightarrow>
    budget_step current self config b (b\<lparr>bg_table := rm_table r\<rparr>)"
| task_fails: "progress_state_on_failure (env :: unit mail_env) a w = (w', res) \<Longrightarrow> mw_assignments w = bg_table b \<Longrightarrow>
    a \<in> set (bg_table b) \<Longrightarrow> budget_step current self config b (b\<lparr>bg_table := mw_assignments w'\<rparr>)"
| link_user: "update_assignment_lms_user_id_from_user_email now user (bg_table b) = Inr t' \<Longrightarrow>
    budget_step current self config b (b\<lparr>bg_table := t'\<rparr>)"
| clear_pii: "clear_one env dry_run self metadata a st = (st', res) \<Longrightarrow> ps_table st = bg_table b \<Longrightarrow>
    a \<in> set (bg_table b) \<Longrightarrow> lca_state a = EXPIRED \<Longrightarrow> budget_step current self config b (b\<lparr>bg_table := ps_table st'\<rparr>)"

lemma check_limits_None:
  assumes "check_limits env table self cost = Inr None" and "total_redeemed env self = Inr spent"
    and "sap_assignment_configuration self = Some config" and "sap_spend_limit self = Some limit"
  shows "- (spent + get_allocated_quantity_for_configuration table config) + cost \<le> limit"
  using assms by (auto simp: check_limits_def rbind_Inr_iff allocated_quantity_def content_would_exceed_limit_def
      Let_def split: if_splits)

lemma can_allocate_True:
  "can_allocate env table self n k price = Inr (True, None) \<Longrightarrow>
     check_limits env table self (int n * price) = Inr None \<and> 0 \<le> price"
  by (auto simp: can_allocate_def rbind_Inr_iff validate_requested_allocation_price_def split: if_splits)

lemma can_allocate_all_Approvable:
  assumes "can_allocate_all env table self requests = Inr (Approvable valid failed)"
  shows "valid = [] \<or> check_limits env table self (sum_prices valid) = Inr None"
    and "r \<in> set valid \<Longrightarrow> 0 \<le> or_zero (lcr_course_price r)"
proof -
  have price: "0 \<le> or_zero (lcr_course_price r)"
    if val: "validate_learner_credit_requests_allocation_prices env rs md = Inr (v, f)" and r: "r \<in> set v" for rs md v f r
  proof -
    obtain oks where oks: "rmap (request_price_acceptable env md) rs = Inr oks" and v: "v = map fst (filter snd (zip rs oks))"
      using val by (auto simp: validate_learner_credit_requests_allocation_prices_def rbind_Inr_iff)
    then have "(r, True) \<in> set (zip rs oks)" using r by force
    then have "request_price_acceptable env md r = Inr True"
      using oks by (auto simp: rmap_Inr_iff list_all2_iff)
    then show ?thesis by (auto simp: request_price_acceptable_def or_zero_def split: option.splits if_splits)
  qed
  show "valid = [] \<or> check_limits env table self (sum_prices valid) = Inr None"
    using assms by (auto simp: can_allocate_all_def rbind_Inr_iff Let_def split: if_splits option.splits)
  show "r \<in> set valid \<Longrightarrow> 0 \<le> or_zero (lcr_course_price r)"
    using assms price by (auto simp: can_allocate_all_def rbind_Inr_iff Let_def split: if_splits option.splits)
qed

lemma get_assignment_Some:
  assumes "get_assignment env table self u k = Inr (Some a)" and "sap_assignment_configuration self = Some config"
  shows "a \<in> set table \<and> lca_assignment_configuration a = Some (ac_uuid config)"
proof -
  have g: "a \<in> set table \<and> lca_assignment_configuration a = Some (ac_uuid config)"
    if "get_one (get_assignments_for_configuration table config P) = Found a" for P
  proof -
    have "a \<in> set (get_assignments_for_configuration table config P)"
      using that by (simp add: get_one_Found)
    then show ?thesis by (simp add: get_assignments_for_configuration_def)
  qed
  have run: "get_assignment_for_learner (pe_alloc env) table config u k = Inr (Some a)"
    using assms by (simp add: get_assignment_def)
  show ?thesis
  proof (cases "get_one (get_assignments_for_configuration table config
      (\<lambda>a. (lca_content_key a = k \<or> lca_parent_content_key a = Some k) \<and> lca_lms_user_id a = Some u))")
    case Does_Not_Exist
    then obtain key where key: "(case get_one (get_assignments_for_configuration table config
        (\<lambda>a. lca_content_key a = the key \<and> lca_lms_user_id a = Some u)) of
          Found a \<Rightarrow> Inr (Some a) | Multiple_Objects \<Rightarrow> Inl MultipleObjectsReturned | Does_Not_Exist \<Rightarrow> Inr None) = Inr (Some a)"
      using run by (auto simp: get_assignment_for_learner_def rbind_Inr_iff split: if_splits)
    show ?thesis
      by (cases "get_one (get_assignments_for_configuration table config
          (\<lambda>a. lca_content_key a = the key \<and> lca_lms_user_id a = Some u))") (use key g in auto)
  next
    case (Found b)
    then show ?thesis using run g by (simp add: get_assignment_for_learner_def)
  next
    case Multiple_Objects
    then show ?thesis using run by (simp add: get_assignment_for_learner_def)
  qed
qed


text \<open>What a redemption leaves in the table.\<close>

lemma redeem_assigned_Inr:
  assumes "redeem_assigned env tb table self u k txs metadata table actions = rd" and "rd_result rd = Inr tx"
    and "get_assignment env table self u k = Inr (Some a)"
  shows "\<exists>tx'. save_assignment (pe_now env) (accepted_assignment env k tx' a) table = Inr (rd_table rd) \<and> lca_state a = ALLOCATED"
  using assms by (auto simp: redeem_assigned_def Let_def split: if_splits sum.splits)

lemma redeem_assigned_Inl:
  assumes "redeem_assigned env tb table self u k txs metadata table actions = rd" and "rd_result rd = Inl e"
  shows "rd_table rd = table \<or>
    (\<exists>a. get_assignment env table self u k = Inr (Some a) \<and>
      save_assignment (pe_now env) (errored_assignment env a) table = Inr (rd_table rd))"
  using assms by (auto simp: redeem_assigned_def Let_def split: if_splits sum.splits option.splits)

text \<open>What a reversal leaves in the table.\<close>

lemma reversal_failed_table [simp]: "rv_table (reversal_failed tb act st) = rv_table st"
  by (simp add: reversal_failed_def split: option.split)

lemma reversal_table:
  assumes "update_assignment_status_for_reversed_transaction now tb tx st = Inr st'"
  shows "rv_table st' = rv_table st \<or>
    (\<exists>a \<in> set (rv_table st). save_assignment now (a\<lparr>lca_state := REVERSED, lca_reversed_at := Some now\<rparr>) (rv_table st) =
       Inr (rv_table st'))"
proof -
  have *: "rv_table (reverse_assignment now tb a r act st1) = rv_table st1 \<or>
      save_assignment now (a\<lparr>lca_state := REVERSED, lca_reversed_at := Some now\<rparr>) (rv_table st1) =
        Inr (rv_table (reverse_assignment now tb a r act st1))" for a r act st1
    by (auto simp: reverse_assignment_def Let_def split: sum.split option.split)
  define st1 where "st1 act = st\<lparr>rv_request_actions := rv_request_actions st @ [act]\<rparr>" for act
  have st1: "rv_table (st1 act) = rv_table st" for act by (simp add: st1_def)
  show ?thesis
  proof (cases "get_one (filter (\<lambda>a. lca_transaction_uuid a = Some tx) (rv_table st))")
    case (Found a)
    then have a: "a \<in> set (rv_table st)" by (auto simp: get_one_Found filter_eq_Cons_iff)
    have "st' = st \<or> (\<exists>r. st' = reverse_assignment now tb a r None st) \<or>
        (\<exists>r act. st' = reverse_assignment now tb a r (Some act) (st1 act))"
      using assms Found unfolding update_assignment_status_for_reversed_transaction_def st1_def
      by (auto simp: rbind_Inr_iff split: if_splits option.splits)
    then show ?thesis using * [of a] a st1 by metis
  qed (use assms in \<open>simp_all add: update_assignment_status_for_reversed_transaction_def\<close>)
qed


lemma release_step:
  assumes "budget_ok b" and "books_ok t'"
    and "get_allocated_quantity_for_configuration (bg_table b) config \<le> get_allocated_quantity_for_configuration t' config"
  shows "budget_ok (b\<lparr>bg_table := t'\<rparr>) \<and> budget_spec limit (committed config b) (committed config (b\<lparr>bg_table := t'\<rparr>))"
  using assms by (auto simp: budget_ok_def committed_def intro: budget_spec.release)

lemma save_release_step:
  assumes "budget_ok b" and "save_assignment now a' (bg_table b) = Inr t'" and "a \<in> set (bg_table b)"
    and "lca_uuid a' = lca_uuid a" "lca_state a' \<noteq> ALLOCATED" "lca_content_quantity a' = lca_content_quantity a"
  shows "budget_ok (b\<lparr>bg_table := t'\<rparr>) \<and> budget_spec limit (committed config b) (committed config (b\<lparr>bg_table := t'\<rparr>))"
proof (rule release_step [OF assms(1)])
  have ok: "books_ok (bg_table b)" using assms(1) by (simp add: budget_ok_def)
  note r = save_releases [OF assms(2) ok assms(3-6)]
  have "allocated_share config a \<le> 0" using ok assms(3) by (auto simp: books_ok_def allocated_share_def)
  with r show "books_ok t'" "get_allocated_quantity_for_configuration (bg_table b) config \<le> get_allocated_quantity_for_configuration t' config"
    by auto
qed

text \<open>Writes that keep the money of every row and allocate none.\<close>

lemma frame_step:
  assumes "budget_ok b" and t: "t' = map f (bg_table b)" and "unique_slots t'"
    and f: "\<And>a. a \<in> set (bg_table b) \<Longrightarrow> lca_uuid (f a) = lca_uuid a \<and>
      lca_content_quantity (f a) = lca_content_quantity a \<and>
      lca_assignment_configuration (f a) = lca_assignment_configuration a \<and>
      (lca_state (f a) = ALLOCATED \<longrightarrow> lca_state a = ALLOCATED)"
  shows "budget_ok (b\<lparr>bg_table := t'\<rparr>) \<and> budget_spec limit (committed config b) (committed config (b\<lparr>bg_table := t'\<rparr>))"
proof (rule release_step [OF assms(1)])
  have ok: "books_ok (bg_table b)" using assms(1) by (simp add: budget_ok_def)
  then have q: "lca_content_quantity a \<le> 0" if "a \<in> set (bg_table b)" for a
    using that by (simp add: books_ok_def)
  show "books_ok t'" unfolding t by (rule books_ok_map [OF ok assms(3) [unfolded t]]) (use f q in auto)
  show "get_allocated_quantity_for_configuration (bg_table b) config \<le> get_allocated_quantity_for_configuration t' config"
    unfolding t by (rule allocated_quantity_mono) (use f q in \<open>auto simp: allocated_share_def\<close>)
qed

lemma remind_step:
  assumes run: "remind_assignments now (bg_table b) given = Inr r" and sub: "set given \<subseteq> set (bg_table b)" and ok: "budget_ok b"
  shows "budget_ok (b\<lparr>bg_table := rm_table r\<rparr>) \<and> budget_spec limit (committed config b) (committed config (b\<lparr>bg_table := rm_table r\<rparr>))"
proof -
  define f where "f a = (if a \<in> set given \<and> lca_state a = ALLOCATED then a\<lparr>lca_modified := now\<rparr> else a)" for a
  have d: "distinct (map lca_uuid (bg_table b))" "unique_slots (bg_table b)" using ok by (auto simp: budget_ok_def books_ok_def)
  have t: "rm_table r = map f (bg_table b)" using reminded_rows [OF d sub, of now] run by (auto simp: f_def [abs_def])
  have "unique_slots (map f (bg_table b))" using unique_slots_map [of f "bg_table b"] d(2) by (auto simp: f_def)
  from frame_step [OF ok t this [folded t]] show ?thesis by (simp add: f_def)
qed

lemma save_frame_step:
  assumes ok: "budget_ok b" and sv: "save_assignment now a' (bg_table b) = Inr t'" and a: "a \<in> set (bg_table b)"
    and f: "lca_uuid a' = lca_uuid a" "lca_content_quantity a' = lca_content_quantity a"
      "lca_assignment_configuration a' = lca_assignment_configuration a" "lca_state a' \<noteq> ALLOCATED"
  shows "budget_ok (b\<lparr>bg_table := t'\<rparr>) \<and> budget_spec limit (committed config b) (committed config (b\<lparr>bg_table := t'\<rparr>))"
proof -
  have d: "distinct (map lca_uuid (bg_table b))" using ok by (simp add: budget_ok_def books_ok_def)
  define g where "g r = (if r = a then a'\<lparr>lca_modified := now\<rparr> else r)" for r
  have "t' = map g (bg_table b)" "unique_slots t'"
    using save_assignment_map [OF sv d a f(1)] by (auto simp: g_def [abs_def])
  then show ?thesis by (rule frame_step [OF ok]) (simp add: g_def f)
qed

lemma link_step:
  assumes "update_assignment_lms_user_id_from_user_email now user (bg_table b) = Inr t'" and ok: "budget_ok b"
  shows "budget_ok (b\<lparr>bg_table := t'\<rparr>) \<and> budget_spec limit (committed config b) (committed config (b\<lparr>bg_table := t'\<rparr>))"
proof (cases "truthy_int (user_lms_user_id user)")
  case False
  then show ?thesis using assms by (auto simp: update_assignment_lms_user_id_from_user_email_def intro: budget_spec.release)
next
  case True
  define f where "f row = (case find (\<lambda>r. lca_uuid r = lca_uuid row)
      (map (\<lambda>a. a\<lparr>lca_lms_user_id := user_lms_user_id user\<rparr>)
        (filter (\<lambda>a. iexact (lca_learner_email a) (user_email user) \<and> lca_lms_user_id a = None) (bg_table b))) of
      None \<Rightarrow> row | Some r \<Rightarrow> (lms_user_id_field r row)\<lparr>lca_modified := now\<rparr>)" for row
  have "t' = map f (bg_table b) \<and> unique_slots t'"
    using assms(1) True by (auto simp: update_assignment_lms_user_id_from_user_email_def bulk_update_assignments_def
        f_def [abs_def] checked_table_Inr)
  then have t: "t' = map f (bg_table b)" "unique_slots t'" by blast+
  show ?thesis by (rule frame_step [OF ok t]) (auto simp: f_def lms_user_id_field_def split: option.split)
qed

lemma clear_pii_step:
  assumes "clear_one env dry_run self metadata a st = (st', res)" and "ps_table st = bg_table b"
    and a: "a \<in> set (bg_table b)" and s: "lca_state a = EXPIRED" and ok: "budget_ok b"
  shows "budget_ok (b\<lparr>bg_table := ps_table st'\<rparr>) \<and> budget_spec limit (committed config b) (committed config (b\<lparr>bg_table := ps_table st'\<rparr>))"
proof -
  define a' where "a' = a\<lparr>lca_learner_email := retired_email_address (pi_nonce env (lca_uuid a))\<rparr>"
  have "ps_table st' = bg_table b \<or> save_assignment (pi_now env) a' (bg_table b) = Inr (ps_table st')"
    using assms(1,2) by (auto simp: clear_one_def clear_pii_def Let_def a'_def split: sum.splits bool.splits if_splits)
  then show ?thesis
  proof
    assume sv: "save_assignment (pi_now env) a' (bg_table b) = Inr (ps_table st')"
    show ?thesis by (rule save_frame_step [OF ok sv a]) (simp_all add: a'_def s)
  qed (use ok in \<open>auto intro: budget_spec.release\<close>)
qed

lemma task_fails_step:
  assumes "progress_state_on_failure env a w = (w', res)" and "mw_assignments w = bg_table b"
    and a: "a \<in> set (bg_table b)" and ok: "budget_ok b"
  shows "budget_ok (b\<lparr>bg_table := mw_assignments w'\<rparr>) \<and>
    budget_spec limit (committed config b) (committed config (b\<lparr>bg_table := mw_assignments w'\<rparr>))"
proof (cases "save_assignment (me_now env) (a\<lparr>lca_state := ERRORED, lca_errored_at := Some (me_now env)\<rparr>) (bg_table b)")
  case (Inl e)
  then show ?thesis using assms by (auto simp: progress_state_on_failure_def intro: budget_spec.release)
next
  case (Inr t')
  have "mw_assignments w' = t'" using Inr assms(1,2) by (auto simp: progress_state_on_failure_def)
  then show ?thesis using save_frame_step [OF ok Inr a] by simp
qed

text \<open>Room for twice as much.\<close>

lemma committed_nonpos: "budget_ok b \<Longrightarrow> committed config b \<le> 0"
  using allocated_quantity_nonpos [of "bg_table b" config] by (auto simp: committed_def budget_ok_def)

lemma budget_spec_double:
  assumes "budget_spec limit c c'" and "c \<le> 0"
  shows "budget_spec (2 * limit) c c'"
  using assms(1)
proof cases
  case (reserve x)
  then show ?thesis using assms(2) by (auto intro: budget_spec.reserve)
qed (auto intro: budget_spec.release)

text \<open>A reservation within the limit.\<close>

lemma reserve_step:
  assumes "budget_ok b" and "books_ok t'"
    and "get_allocated_quantity_for_configuration (bg_table b) config - cost \<le> get_allocated_quantity_for_configuration t' config"
    and "- (bg_redeemed b + get_allocated_quantity_for_configuration (bg_table b) config) + cost \<le> limit"
  shows "budget_ok (b\<lparr>bg_table := t'\<rparr>) \<and> budget_spec limit (committed config b) (committed config (b\<lparr>bg_table := t'\<rparr>))"
proof -
  define x where "x = committed config b - committed config (b\<lparr>bg_table := t'\<rparr>)"
  have c: "committed config (b\<lparr>bg_table := t'\<rparr>) = committed config b - x" by (simp add: x_def)
  have "budget_spec limit (committed config b) (committed config b - x)"
  proof (cases "0 \<le> x")
    case True
    then show ?thesis using assms(3,4) by (intro budget_spec.reserve) (auto simp: x_def committed_def)
  qed (auto intro: budget_spec.release)
  then show ?thesis using assms(1,2) unfolding c by (simp add: budget_ok_def)
qed

lemma expire_release_step:
  assumes "expire_assignment now date fetch (bg_table b) requests a m True = Inr e" and "a \<in> set (bg_table b)" and "budget_ok b"
  shows "budget_ok (b\<lparr>bg_table := ex_table e\<rparr>) \<and> budget_spec limit (committed config b) (committed config (b\<lparr>bg_table := ex_table e\<rparr>))"
proof (rule release_step [OF assms(3)])
  define f where "f b = (if b = a then a\<lparr>lca_state := EXPIRED, lca_expired_at := Some now, lca_modified := now\<rparr> else b)" for b
  have ok: "books_ok (bg_table b)" using assms(3) by (simp add: budget_ok_def)
  then have d: "distinct (map lca_uuid (bg_table b))" "unique_slots (bg_table b)" and q: "\<And>a. a \<in> set (bg_table b) \<Longrightarrow> lca_content_quantity a \<le> 0"
    by (auto simp: books_ok_def)
  have t: "ex_table e = bg_table b \<or> ex_table e = map f (bg_table b)"
    using expired_row [OF assms(1) d assms(2)] unfolding f_def [abs_def] by presburger
  have un: "unique_slots (map f (bg_table b))"
    using unique_slots_map [of f "bg_table b"] d(2) by (auto simp: f_def)
  show "books_ok (ex_table e)"
    using t ok books_ok_map [OF ok un] q [OF assms(2)] q by (auto simp: f_def split: if_splits)
  have "allocated_share config x \<le> allocated_share config (f x)" for x
    using q [OF assms(2)] by (auto simp: f_def allocated_share_def)
  then show "get_allocated_quantity_for_configuration (bg_table b) config \<le> get_allocated_quantity_for_configuration (ex_table e) config"
    using t allocated_quantity_mono [of "bg_table b" config f] by auto
qed

lemma cancel_release_step:
  assumes "cancel_assignments now (bg_table b) given send = Inr r" and "set given \<subseteq> set (bg_table b)" and "budget_ok b"
  shows "budget_ok (b\<lparr>bg_table := cn_table r\<rparr>) \<and> budget_spec limit (committed config b) (committed config (b\<lparr>bg_table := cn_table r\<rparr>))"
proof (rule release_step [OF assms(3)])
  define f where "f = cancelled_row now given"
  have ok: "books_ok (bg_table b)" using assms(3) by (simp add: budget_ok_def)
  then have d: "distinct (map lca_uuid (bg_table b))" "unique_slots (bg_table b)" and q: "\<And>a. a \<in> set (bg_table b) \<Longrightarrow> lca_content_quantity a \<le> 0"
    by (auto simp: books_ok_def)
  have t: "cn_table r = map f (bg_table b)"
    using cancelled_rows [OF assms(1) d(1) assms(2)] by (simp add: f_def cancelled_row_def [abs_def])
  have un: "unique_slots (map f (bg_table b))"
    using unique_slots_map [of f "bg_table b"] d(2) by (auto simp: f_def cancelled_row_def)
  show "books_ok (cn_table r)"
    unfolding t by (rule books_ok_map [OF ok un]) (use q in \<open>auto simp: f_def cancelled_row_def\<close>)
  show "get_allocated_quantity_for_configuration (bg_table b) config \<le> get_allocated_quantity_for_configuration (cn_table r) config"
    unfolding t by (rule allocated_quantity_mono) (use q in \<open>auto simp: f_def cancelled_row_def allocated_share_def\<close>)
qed


lemma budget_step_effect:
  assumes "budget_step current self config b b'" and conf: "sap_assignment_configuration self = Some config"
    and limit: "sap_spend_limit self = Some limit" and ok: "budget_ok b"
  shows "budget_ok b' \<and> budget_spec (if current then limit else 2 * limit) (committed config b) (committed config b')"
  using assms(1)
proof cases
  case (allocate env emails k price admin al)
  have run: "allocate_assignments (pe_alloc env) (bg_table b) config emails k price admin [] = Inr al"
    using allocate(4) conf by (simp add: allocate_def)
  have bk: "books_ok (bg_table b)" using ok by (simp add: budget_ok_def)
  note c = can_allocate_True [OF allocate(3)]
  note within = check_limits_None [OF conjunct1 [OF c] allocate(2) conf limit]
  note keeps = conjunct1 [OF allocate_keeps_books [OF run bk allocate(6)]]
  show ?thesis
  proof (cases current)
    case True
    then show ?thesis unfolding allocate(1)
      using reserve_step [OF ok keeps allocation_cost(1) [OF run bk allocate(6,5) allocate(7)] within] by simp
  next
    case False
    have "- (bg_redeemed b + get_allocated_quantity_for_configuration (bg_table b) config)
        + 2 * (int (length emails) * price) \<le> 2 * limit"
      using within committed_nonpos [OF ok, of config] by (simp add: committed_def)
    from reserve_step [OF ok keeps allocation_cost_twice [OF run bk allocate(6,5)] this] False
    show ?thesis unfolding allocate(1) by simp
  qed
next
  case (approve env requests valid failed table' m)
  have copy: "sap_assignment_configuration (copy_context_to self) = Some config"
    "sap_spend_limit (copy_context_to self) = Some limit"
    "total_redeemed env (copy_context_to self) = Inr (bg_redeemed b)"
    using conf limit approve(2) by (simp_all add: copy_context_to_def total_redeemed_def)
  have bk: "books_ok (bg_table b)" using ok by (simp add: budget_ok_def)
  have can: "can_allocate_all env (bg_table b) (copy_context_to self) requests = Inr (Approvable valid failed)"
    using approve(3) by (auto simp: can_approve_def split: if_splits)
  have run: "allocate_assignment_for_requests (pe_alloc env) (bg_table b) config (sap_catalog_uuid self) valid = Inr (table', m)"
    using approve(4) conf by (simp add: approve_def)
  note cost = approval_cost [OF run bk approve(5) can_allocate_all_Approvable(2) [OF can]]
  show ?thesis
  proof (cases "valid = []")
    case True
    then show ?thesis unfolding approve(1) using cost by (intro release_step [OF ok]) (simp_all add: sum_prices_def)
  next
    case False
    then have "check_limits env (bg_table b) (copy_context_to self) (sum_prices valid) = Inr None"
      using can_allocate_all_Approvable(1) [OF can] by simp
    from reserve_step [OF ok cost check_limits_None [OF this copy(3,1,2)]] show ?thesis
      unfolding approve(1) using budget_spec_double committed_nonpos [OF ok] by simp
  qed
next
  case (redeem policy env u k a tb txs metadata actions rd tx spent)
  have c: "sap_assignment_configuration policy = Some config"
    using redeem(2) conf by (auto simp: copy_context_to_def)
  note a = get_assignment_Some [OF redeem(3) c]
  obtain tx' where sv: "save_assignment (pe_now env) (accepted_assignment env k tx' a) (bg_table b) = Inr (rd_table rd)"
    and s: "lca_state a = ALLOCATED"
    using redeem_assigned_Inr [OF redeem(4,5,3)] by blast
  have bk: "books_ok (bg_table b)" using ok by (simp add: budget_ok_def)
  have "books_ok (rd_table rd) \<and> get_allocated_quantity_for_configuration (rd_table rd) config =
      get_allocated_quantity_for_configuration (bg_table b) config - lca_content_quantity a"
    using save_releases [OF sv bk conjunct1 [OF a], of config] a s
    by (simp add: accepted_assignment_def allocated_share_def)
  then show ?thesis unfolding redeem(1) using redeem(6,7)
    by (auto simp: budget_ok_def committed_def intro: budget_spec.release)
next
  case (redeem_fails policy env tb u k txs metadata actions rd e)
  have c: "sap_assignment_configuration policy = Some config"
    using redeem_fails(2) conf by (auto simp: copy_context_to_def)
  from redeem_assigned_Inl [OF redeem_fails(3,4)] show ?thesis
  proof (elim disjE exE conjE)
    assume "rd_table rd = bg_table b"
    then show ?thesis unfolding redeem_fails(1) using ok by (auto intro: budget_spec.release)
  next
    fix a assume ga: "get_assignment env (bg_table b) policy u k = Inr (Some a)"
      and sv: "save_assignment (pe_now env) (errored_assignment env a) (bg_table b) = Inr (rd_table rd)"
    show ?thesis unfolding redeem_fails(1)
      by (rule save_release_step [OF ok sv conjunct1 [OF get_assignment_Some [OF ga c]]]) (simp_all add: errored_assignment_def)
  qed
next
  case (cancel now given send r)
  then show ?thesis using cancel_release_step ok by blast
next
  case (expire now date fetch requests a m e)
  then show ?thesis using expire_release_step ok by blast
next
  case (refund spent)
  then show ?thesis using ok by (auto simp: budget_ok_def committed_def intro: budget_spec.release)
next
  case (reverse now tb tx st st')
  from reversal_table [OF reverse(2)] show ?thesis
  proof (elim disjE bexE)
    assume "rv_table st' = rv_table st"
    then show ?thesis unfolding reverse(1) using reverse(3) ok by (auto intro: budget_spec.release)
  next
    fix a assume a: "a \<in> set (rv_table st)"
      and sv: "save_assignment now (a\<lparr>lca_state := REVERSED, lca_reversed_at := Some now\<rparr>) (rv_table st) = Inr (rv_table st')"
    show ?thesis unfolding reverse(1)
      by (rule save_release_step [OF ok sv [unfolded reverse(3)] a [unfolded reverse(3)]]) simp_all
  qed
next
  case (remind now given r)
  then show ?thesis using remind_step ok by blast
next
  case (task_fails env a w w' res)
  then show ?thesis using task_fails_step ok by blast
next
  case (link_user now user t')
  then show ?thesis using link_step ok by blast
next
  case (clear_pii env dry_run metadata a st st' res)
  then show ?thesis using clear_pii_step ok by blast
qed


section \<open>Limits\<close>

text \<open>
  The interface of everything that is limited: operations that keep what is sound and only reserve
  within the limit keep the limit, in whatever order they come.
\<close>

locale reservations =
  fixes ok :: "'s \<Rightarrow> bool"
    and step :: "'p \<Rightarrow> 's \<Rightarrow> 's \<Rightarrow> bool"
    and amount :: "'p \<Rightarrow> 's \<Rightarrow> int"
    and limit :: "'p \<Rightarrow> int"
  assumes step_ok: "step p s s' \<Longrightarrow> ok s \<Longrightarrow> ok s'"
    and step_spec: "step p s s' \<Longrightarrow> ok s \<Longrightarrow> budget_spec (limit p) (amount p s) (amount p s')"
begin

lemma step_within: "step p s s' \<Longrightarrow> ok s \<Longrightarrow> - amount p s \<le> limit p \<Longrightarrow> - amount p s' \<le> limit p"
  using step_spec [of p s s'] by (auto elim: budget_spec.cases)

lemma run_within:
  "(step p)\<^sup>*\<^sup>* s s' \<Longrightarrow> ok s \<Longrightarrow> - amount p s \<le> limit p \<Longrightarrow> ok s' \<and> - amount p s' \<le> limit p"
  by (induction rule: rtranclp_induct) (auto intro: step_ok dest: step_within)

end

text \<open>A policy with its configuration and its spend limit, and whether its allocations find current
  addresses only.\<close>

definition limited_step :: "bool \<times> policy \<times> assignment_configuration \<times> int \<Rightarrow> budget \<Rightarrow> budget \<Rightarrow> bool" where
  "limited_step p b b' = (case p of (current, self, config, limit) \<Rightarrow>
     sap_assignment_configuration self = Some config \<and> sap_spend_limit self = Some limit \<and>
     budget_step current self config b b')"

interpretation assigned: reservations budget_ok limited_step "\<lambda>(_, _, config, _). committed config"
  "\<lambda>(current, _, _, limit). if current then limit else 2 * limit"
  by unfold_locales (auto simp: limited_step_def dest: budget_step_effect)

text \<open>
  Direct redemptions, seen from the ledger: the total of the policy, and the total of one learner
  under a per-learner spend limit. The service charges at most the canonical price.
\<close>

inductive direct_step :: "policy \<Rightarrow> int \<Rightarrow> int \<Rightarrow> bool" for self where
  redeem: "total_redeemed env self = Inr spent \<Longrightarrow> can_redeem env table self u k su sd = Inr (True, reason, txs) \<Longrightarrow>
    get_content_price env self k None = Inr price \<Longrightarrow> redeem_base env self u k txs metadata None = Inr tx \<Longrightarrow>
    0 \<le> price \<Longrightarrow> spent - price \<le> spent' \<Longrightarrow> spent' \<le> 0 \<Longrightarrow> direct_step self spent spent'"
| refund: "spent \<le> spent' \<Longrightarrow> spent' \<le> 0 \<Longrightarrow> direct_step self spent spent'"

inductive learner_step :: "policy \<Rightarrow> int \<Rightarrow> int \<Rightarrow> bool" for self where
  redeem: "transactions_for_learner env self u = Inr (mine, spent) \<Longrightarrow>
    can_redeem env table self u k su sd = Inr (True, reason, txs) \<Longrightarrow>
    get_content_price env self k None = Inr price \<Longrightarrow> redeem_base env self u k txs metadata None = Inr tx \<Longrightarrow>
    0 \<le> price \<Longrightarrow> spent - price \<le> spent' \<Longrightarrow> spent' \<le> 0 \<Longrightarrow> learner_step self spent spent'"
| refund: "spent \<le> spent' \<Longrightarrow> spent' \<le> 0 \<Longrightarrow> learner_step self spent spent'"

lemma can_redeem_base_True:
  assumes "can_redeem_base env self u k su sd = Inr (True, reason, txs)"
  shows "is_redemption_enabled self" and "catalog_contains_content_key env self k = Inr True"
    and "\<exists>m. get_content_metadata env self k = Inr (Some m) \<and> will_exceed_spend_limit env self k (Some m) = Inr False"
  using assms unfolding can_redeem_base_True_iff by blast+

lemma can_redeem_True:
  assumes "can_redeem env table self u k su sd = Inr (True, reason, txs)"
  shows "\<exists>p. sap_uuid p = sap_uuid self \<and> sap_subsidy_uuid p = sap_subsidy_uuid self \<and> sap_spend_limit p = sap_spend_limit self \<and>
    sap_enterprise_customer_uuid p = sap_enterprise_customer_uuid self \<and> (\<exists>r. can_redeem_base env p u k su sd = Inr (True, r, txs))"
proof (cases "sap_policy_type self = PER_LEARNER_SPEND_CREDIT \<and> bnr_enabled self")
  case True
  then show ?thesis using assms
    by (intro exI [of _ "copy_context_to self"])
      (auto simp: can_redeem_def can_redeem_spend_def assignment_request_can_redeem_def can_redeem_assigned_def
        rbind_Inr_iff copy_context_to_def split: if_splits)
next
  case False
  then show ?thesis using assms
    by (intro exI [of _ self])
      (auto simp: can_redeem_def can_redeem_spend_def can_redeem_enrollment_def can_redeem_assigned_def
        rbind_Inr_iff split: policy_type.splits if_splits option.splits)
qed

text \<open>A redeemable price fits into what is left of the spend limit.\<close>

lemma can_redeem_fits:
  assumes "can_redeem env table self u k su sd = Inr (True, reason, txs)" and "sap_spend_limit self = Some limit"
    and "total_redeemed env self = Inr spent" and "get_content_price env self k None = Inr price"
  shows "- (spent - price) \<le> limit"
proof -
  obtain p r where p: "sap_uuid p = sap_uuid self" "sap_subsidy_uuid p = sap_subsidy_uuid self"
    "sap_spend_limit p = sap_spend_limit self" "sap_enterprise_customer_uuid p = sap_enterprise_customer_uuid self"
    and base: "can_redeem_base env p u k su sd = Inr (True, r, txs)"
    using can_redeem_True [OF assms(1)] by blast
  obtain m where m: "get_content_metadata env p k = Inr (Some m)" "will_exceed_spend_limit env p k (Some m) = Inr False"
    using can_redeem_base_True(3) [OF base] by blast
  have "get_content_price env p k (Some m) = Inr price"
    using assms(4) m(1) p(4) by (simp add: get_content_price_def get_content_metadata_def)
  moreover have "total_redeemed env p = Inr spent" using assms(3) p by (simp add: total_redeemed_def)
  ultimately show ?thesis using m(2) assms(2) p(3)
    by (auto simp: will_exceed_spend_limit_def content_would_exceed_limit_def split: if_splits)
qed


lemma can_redeem_fits_learner:
  assumes "can_redeem env table self u k su sd = Inr (True, reason, txs)" and "sap_policy_type self = PER_LEARNER_SPEND_CREDIT"
    and "\<not> bnr_enabled self" and "sap_per_learner_spend_limit self = Some limit"
    and "transactions_for_learner env self u = Inr (mine, spent)" and "get_content_price env self k None = Inr price"
  shows "- (spent - price) \<le> limit"
  using assms by (auto simp: can_redeem_def can_redeem_spend_def rbind_Inr_iff content_would_exceed_limit_def split: if_splits)

lemma charge_spec: "spent - price \<le> spent' \<Longrightarrow> - (spent - price) \<le> limit \<Longrightarrow> budget_spec limit spent spent'"
  using budget_spec.reserve [of "spent - spent'" spent limit] budget_spec.release [of spent spent' limit]
  by (cases "spent \<le> spent'") auto

definition limited_direct_step :: "policy \<times> int \<Rightarrow> int \<Rightarrow> int \<Rightarrow> bool" where
  "limited_direct_step p s s' = (case p of (self, limit) \<Rightarrow> sap_spend_limit self = Some limit \<and> direct_step self s s')"

definition limited_learner_step :: "policy \<times> int \<Rightarrow> int \<Rightarrow> int \<Rightarrow> bool" where
  "limited_learner_step p s s' = (case p of (self, limit) \<Rightarrow>
     sap_policy_type self = PER_LEARNER_SPEND_CREDIT \<and> \<not> bnr_enabled self \<and>
     sap_per_learner_spend_limit self = Some limit \<and> learner_step self s s')"

interpretation direct: reservations "\<lambda>s. s \<le> 0" limited_direct_step "\<lambda>_ s. s" snd
proof
  show "s' \<le> 0" if "limited_direct_step p s s'" "s \<le> 0" for p s s'
    using that by (auto simp: limited_direct_step_def elim: direct_step.cases)
  show "budget_spec (snd p) s s'" if "limited_direct_step p s s'" "s \<le> 0" for p s s'
    using that by (auto simp: limited_direct_step_def elim!: direct_step.cases
        intro: budget_spec.release charge_spec [OF _ can_redeem_fits])
qed

interpretation learner: reservations "\<lambda>s. s \<le> 0" limited_learner_step "\<lambda>_ s. s" snd
proof
  show "s' \<le> 0" if "limited_learner_step p s s'" "s \<le> 0" for p s s'
    using that by (auto simp: limited_learner_step_def elim: learner_step.cases)
  show "budget_spec (snd p) s s'" if "limited_learner_step p s s'" "s \<le> 0" for p s s'
    using that by (auto simp: limited_learner_step_def elim!: learner_step.cases
        intro: budget_spec.release charge_spec [OF _ can_redeem_fits_learner])
qed



text \<open>
  C3. Direct redemptions keep their limits, too: under any sequence of redemptions that \<open>can_redeem\<close>
  allows and of refunds, the total of a policy never exceeds its spend limit, and the total of a
  learner under a per-learner spend policy never exceeds the per-learner limit.
\<close>

theorem redemptions_within_limits:
  assumes "spent \<le> 0" and "- spent \<le> limit"
  shows "((limited_direct_step (self, limit))\<^sup>*\<^sup>* spent spent' \<longrightarrow> - spent' \<le> limit) \<and>
    ((limited_learner_step (self, limit))\<^sup>*\<^sup>* spent spent' \<longrightarrow> - spent' \<le> limit)"
  using direct.run_within [of "(self, limit)" spent spent'] learner.run_within [of "(self, limit)" spent spent'] assms
  by auto

section \<open>Examples\<close>

definition demo_before :: budget where
  "demo_before = \<lparr>bg_table = demo_table, bg_redeemed = - 600\<rparr>"

definition demo_after :: budget where
  "demo_after = \<lparr>bg_table = al_table demo_allocation, bg_redeemed = - 600\<rparr>"

lemma demo_budget_ok: "budget_ok demo_before"
  by (simp add: budget_ok_def books_ok_def demo_before_def demo_table_def demo_assignment_def)

lemma demo_step: "limited_step (True, demo_policy, demo_config, 2000) demo_before demo_after"
proof -
  have "budget_step True demo_policy demo_config demo_before (demo_before\<lparr>bg_table := al_table demo_allocation\<rparr>)"
  proof (rule budget_step.allocate [where env = demo_policy_env and emails = "[''a@b.c'', ''x@y.z'', ''X@y.z'']" and
        k = "''edX+D''" and price = 300 and admin = None])
    show "total_redeemed demo_policy_env demo_policy = Inr (bg_redeemed demo_before)"
      by (simp add: total_redeemed_def demo_policy_env_def demo_before_def or_zero_def)
    have "can_allocate demo_policy_env demo_table demo_policy 3 ''edX+D'' 300 = Inr (True, None)"
      by code_simp
    then show "can_allocate demo_policy_env (bg_table demo_before) demo_policy (length [''a@b.c'', ''x@y.z'', ''X@y.z'']) ''edX+D'' 300 = Inr (True, None)"
      by (simp add: demo_before_def numeral_3_eq_3)
    show "allocate demo_policy_env (bg_table demo_before) demo_policy [''a@b.c'', ''x@y.z'', ''X@y.z''] ''edX+D'' 300 None = Inr demo_allocation"
      using demo_run by (simp add: allocate_def demo_policy_def demo_before_def demo_policy_env_def)
    show "fresh_uuids (pe_alloc demo_policy_env) (bg_table demo_before)"
      using demo_fresh by (simp add: demo_policy_env_def demo_before_def)
    show "addresses_current (pe_alloc demo_policy_env) (bg_table demo_before) demo_config ''edX+D'' [''a@b.c'', ''x@y.z'', ''X@y.z'']"
      by (simp add: addresses_current_def demo_before_def demo_table_def demo_assignment_def)
  qed simp
  then show ?thesis by (simp add: limited_step_def demo_policy_def demo_before_def demo_after_def)
qed



text \<open>
  The condition of the first half of C1 and C2 cannot be dropped. The user of the requested address has
  a cancelled assignment under a former address, and the address itself has another one, which was
  linked to a former user: one requested learner debits the price twice, past the limit.
\<close>

definition demo_stale :: budget where
  "demo_stale = \<lparr>bg_table =
     [demo_assignment\<lparr>lca_uuid := 31, lca_learner_email := ''old@b.c'', lca_state := CANCELLED\<rparr>,
      demo_assignment\<lparr>lca_uuid := 32, lca_lms_user_id := Some 80, lca_state := CANCELLED\<rparr>], bg_redeemed = - 600\<rparr>"

definition demo_tight :: policy where
  "demo_tight = demo_policy\<lparr>sap_spend_limit := Some 1000\<rparr>"

definition demo_debited :: budget where
  "demo_debited = demo_stale\<lparr>bg_table :=
     al_table (projr (allocate demo_policy_env (bg_table demo_stale) demo_tight [''a@b.c''] ''edX+D'' 300 None))\<rparr>"

theorem address_debited_twice:
  "limited_step (False, demo_tight, demo_config, 1000) demo_stale demo_debited \<and> budget_ok demo_stale \<and>
   - committed demo_config demo_stale = 600 \<and> - committed demo_config demo_debited = 1200"
proof (intro conjI)
  have run: "isl (allocate demo_policy_env (bg_table demo_stale) demo_tight [''a@b.c''] ''edX+D'' 300 None) = False"
    by code_simp
  have "budget_step False demo_tight demo_config demo_stale demo_debited"
    unfolding demo_debited_def
  proof (rule budget_step.allocate [where env = demo_policy_env and emails = "[''a@b.c'']" and
        k = "''edX+D''" and price = 300 and admin = None])
    show "total_redeemed demo_policy_env demo_tight = Inr (bg_redeemed demo_stale)" by code_simp
    have "can_allocate demo_policy_env (bg_table demo_stale) demo_tight 1 ''edX+D'' 300 = Inr (True, None)" by code_simp
    then show "can_allocate demo_policy_env (bg_table demo_stale) demo_tight (length [''a@b.c'']) ''edX+D'' 300 = Inr (True, None)"
      by simp
    show "allocate demo_policy_env (bg_table demo_stale) demo_tight [''a@b.c''] ''edX+D'' 300 None =
      Inr (projr (allocate demo_policy_env (bg_table demo_stale) demo_tight [''a@b.c''] ''edX+D'' 300 None))"
      using run by simp
    show "fresh_uuids (pe_alloc demo_policy_env) (bg_table demo_stale)"
      using demo_fresh by (simp add: fresh_uuids_def demo_policy_env_def demo_stale_def demo_env_def demo_assignment_def)
  qed simp_all
  then show "limited_step (False, demo_tight, demo_config, 1000) demo_stale demo_debited"
    by (simp add: limited_step_def demo_tight_def demo_policy_def)
  have "unique_slots (bg_table demo_stale)" by code_simp
  then show "budget_ok demo_stale"
    by (simp add: budget_ok_def books_ok_def) (simp add: demo_stale_def demo_assignment_def)
  show "- committed demo_config demo_stale = 600" by code_simp
  show "- committed demo_config demo_debited = 1200" by code_simp
qed

theorem redemptions_within_limits_witness:
  "(limited_direct_step (demo_direct, 2000))\<^sup>*\<^sup>* (- 600) (- 900) \<and> - (- 900) \<le> (2000 :: int)"
proof -
  have "total_redeemed demo_policy_env demo_direct = Inr (- 600)"
    "can_redeem demo_policy_env [] demo_direct 70 ''edX+D'' False False = Inr (True, None, [])"
    "get_content_price demo_policy_env demo_direct ''edX+D'' None = Inr 300"
    "redeem_base demo_policy_env demo_direct 70 ''edX+D'' [] None None = Inr demo_tx" by code_simp+
  from direct_step.redeem [OF this, of "- 900"] have "limited_direct_step (demo_direct, 2000) (- 600) (- 900)"
    by (simp add: limited_direct_step_def demo_direct_def demo_policy_def)
  then have run: "(limited_direct_step (demo_direct, 2000))\<^sup>*\<^sup>* (- 600) (- 900)" by blast
  with redemptions_within_limits [of "- 600" 2000 demo_direct "- 900"] show ?thesis by simp
qed

end
