(* ===== verification/Provisioning_Properties.thy ===== *)
theory Provisioning_Properties
  imports Provisioning
begin

text \<open>
  What provisioning promises: a failed workflow resumes where it failed, a successful one leaves its
  checkout intent fulfilled; and what it does not: plans are created again by a retry, admins may be
  skipped, and a fulfilled intent may be put back into an error state.
\<close>

section \<open>Success\<close>

lemma process_steps_snoc:
  assumes "process_steps env classes self (xs @ [c]) prev acc run = (run', Inr acc')"
  shows "\<exists>prev1 acc1 run1. process_steps env classes self xs prev acc run = (run1, Inr acc1) \<and>
    process_steps env classes self [c] prev1 acc1 run1 = (run', Inr acc')"
  using assms
proof (induction xs arbitrary: prev acc run)
  case Nil
  then show ?case by (metis append_Nil process_steps.simps(1))
next
  case (Cons x xs)
  obtain run1 u acc1 where one: "run_step env classes self x prev acc run = (run1, Inr (u, acc1))"
    and rest: "process_steps env classes self (xs @ [c]) (Some u) acc1 run1 = (run', Inr acc')"
    using Cons.prems by (auto split: prod.splits sum.splits)
  show ?case using Cons.IH [OF rest] one by simp
qed

lemma fulfilled:
  assumes "process_notification cl cv self acc w = (w', Inr x)"
  shows "\<exists>i \<in> set (pw_intents w'). ci_workflow i = Some (ws_workflow_record_uuid self) \<and> ci_state i = CI_FULFILLED"
proof -
  obtain w1 where w1: "fulfill_checkout_intent self w = Inr w1" "pw_intents w' = pw_intents w1"
    using assms by (auto simp: process_notification_def split: sum.splits)
  obtain t where t: "trial_input cv self w1 = Inr t"
    using assms w1(1) by (auto simp: process_notification_def rbind_Inr_iff)
  obtain i where i: "get_linked_checkout_intent self w = Inr i" and s: "save_intent (i\<lparr>ci_state := CI_FULFILLED\<rparr>) w = Inr w1"
    using w1(1) by (auto simp: fulfill_checkout_intent_def rbind_Inr_iff)
  have flows: "pw_workflows w1 = pw_workflows w"
    and intents: "pw_intents w1 = put_row ci_pk (i\<lparr>ci_state := CI_FULFILLED, ci_modified := pw_now w\<rparr>) (pw_intents w)"
    using s by (auto simp: save_intent_def split: if_splits)
  obtain flow where flow: "get_workflow_record self w1 = Some flow"
    using t by (cases "get_workflow_record self w1") (auto simp: trial_input_def workflow_input_def)
  then have "get_workflow_record self w = Some flow" "uw_uuid flow = ws_workflow_record_uuid self"
    using flows find_SomeD [of _ "pw_workflows w1" flow] by (auto simp: get_workflow_record_def)
  moreover have "filter (\<lambda>i. ci_workflow i = map_option uw_uuid (get_workflow_record self w)) (pw_intents w) = [i]"
    using i by (auto simp: get_linked_checkout_intent_def get_one_Found split: get_result.splits)
  then have "i \<in> set (filter (\<lambda>i. ci_workflow i = map_option uw_uuid (get_workflow_record self w)) (pw_intents w))" by simp
  ultimately have "ci_workflow i = Some (ws_workflow_record_uuid self)" "i \<in> set (pw_intents w)" by simp_all
  then show ?thesis unfolding w1(2) intents
    by (intro bexI [of _ "i\<lparr>ci_state := CI_FULFILLED, ci_modified := pw_now w\<rparr>"]) (auto simp: put_row_def)
qed

lemma steps_snoc: "steps cl cv = butlast (steps cl cv) @
    [provisioning_step ''notification'' (\<lambda>v. rbind (structure_dict v) (\<lambda>_. Inr Notification_Input))
        notification_output_from_dict (process_notification cl cv)]"
  by (simp add: steps_def)

lemma workflow_fulfills:
  assumes run: "process_steps env (steps cl cv) self (steps cl cv) None acc run = (run', Inr acc')"
    and keys: "distinct (map step_key (wr_steps run))" and fresh: "fresh_steps env"
    and new: "step_rows ''notification'' (uw_uuid self) (wr_steps run) = []"
  shows "\<exists>i \<in> set (pw_intents (wr_world run')). ci_workflow i = Some (uw_uuid self) \<and> ci_state i = CI_FULFILLED"
proof -
  let ?c = "provisioning_step ''notification'' (\<lambda>v. rbind (structure_dict v) (\<lambda>_. Inr Notification_Input))
        notification_output_from_dict (process_notification cl cv)"
  obtain prev1 acc1 run1 where front: "process_steps env (steps cl cv) self (butlast (steps cl cv)) None acc run = (run1, Inr acc1)"
    and one: "process_steps env (steps cl cv) self [?c] prev1 acc1 run1 = (run', Inr acc')"
    using process_steps_snoc [of env "steps cl cv" self "butlast (steps cl cv)" ?c] run steps_snoc by metis
  have "''notification'' \<notin> sc_name ` set (butlast (steps cl cv))" by (simp add: steps_def provisioning_step_def)
  then have none: "step_rows ''notification'' (uw_uuid self) (wr_steps run1) = []"
    using process_steps_frame [OF front keys fresh] new by simp
  obtain u where step: "run_step env (steps cl cv) self ?c prev1 acc1 run1 = (run', Inr (u, acc'))"
    using one by (auto split: prod.splits sum.splits)
  have name: "sc_name ?c = ''notification''" and process: "sc_process_input ?c = process_notification cl cv"
    by (simp_all add: provisioning_step_def)
  obtain r x where "ws_workflow_record_uuid r = uw_uuid self"
    and p: "process_notification cl cv r acc1 (wr_world run1) = (wr_world run', Inr x)"
    using run_step_new [OF step] none unfolding name process by blast
  then show ?thesis using fulfilled [OF p] by simp
qed

section \<open>Examples\<close>

text \<open>
  A license manager that creates a plan on every request but whose answer is lost unless \<open>ok\<close>; its
  state is the number of plans.
\<close>

definition demo_plan :: "plan_request \<Rightarrow> nat \<Rightarrow> json" where
  "demo_plan request n =
     JObj [(''uuid'', if n = 0 then JStr ''00000000-0000-0000-0000-000000000032'' else JStr ''00000000-0000-0000-0000-000000000033''), (''title'', JStr (pr_title request)),
           (''salesforce_opportunity_line_item'', unstructure_optional JStr (pr_salesforce_opportunity_line_item request)),
           (''created'', JStr ''2025-01-01T00:00:00Z''), (''start_date'', JStr ''2025-01-01T00:00:00Z''),
           (''expiration_date'', JStr ''2025-01-15T00:00:00Z''), (''is_active'', JBool True), (''is_current'', JBool True),
           (''plan_type'', JStr ''Trial''), (''enterprise_catalog_uuid'', JStr ''00000000-0000-0000-0000-000000000008''),
           (''product'', JNum (pr_product_id request))]"

definition demo_clients :: "bool \<Rightarrow> nat clients" where
  "demo_clients ok = \<lparr>
     cl_customer_data = (\<lambda>_ _. Inr JNull), cl_create_customer = (\<lambda>_ _ _ n. (n, Inr demo_customer)),
     cl_admin_users = (\<lambda>_ _. Inr []), cl_create_admin = (\<lambda>_ _ n. (n, Inl (Api_Failure 500))),
     cl_create_pending_admin = (\<lambda>_ _ n. (n, Inr JNull)),
     cl_catalogs = (\<lambda>_ _ _. Inr []),
     cl_create_catalog = (\<lambda>_ title q n. (n, Inr (JObj [(''uuid'', JStr ''00000000-0000-0000-0000-000000000008''), (''enterprise_customer'', JStr ''00000000-0000-0000-0000-000000000007''),
        (''enterprise_catalog_query'', JNum q), (''title'', JStr title)]))),
     cl_customer_agreement = (\<lambda>_ _. Inr JNull),
     cl_create_customer_agreement = (\<lambda>_ _ _ n. (n, Inr (JObj [(''uuid'', JStr ''00000000-0000-0000-0000-000000000009''), (''enterprise_customer_uuid'', JStr ''00000000-0000-0000-0000-000000000007'')]))),
     cl_create_plan = (\<lambda>request n. (Suc n, if ok then Inr (demo_plan request n) else Inl HTTPError)),
     cl_create_renewal = (\<lambda>request n. (n, Inr (JObj [(''id'', JNum 5), (''salesforce_opportunity_id'', JNull),
        (''prior_subscription_plan'', JStr ''00000000-0000-0000-0000-000000000032''), (''renewed_subscription_plan'', JStr ''00000000-0000-0000-0000-000000000033''), (''number_of_licenses'', JNum 3),
        (''effective_date'', JStr ''2025-01-15T00:00:00Z''), (''renewed_expiration_date'', JStr ''2026-01-15T00:00:00Z'')]))),
     cl_add_year = (\<lambda>t. t\<lparr>dt_year := Suc (dt_year t)\<rparr>), cl_product_query_ids = [(2, 2)], cl_error_text = (\<lambda>_. ''error'')\<rparr>"

definition demo_time :: "nat \<Rightarrow> py_datetime" where
  "demo_time d = \<lparr>dt_year = 2025, dt_month = 1, dt_day = d, dt_hour = 0, dt_minute = 0, dt_second = 0, dt_microsecond = 0,
     dt_utcoffset = Some 0\<rparr>"

definition demo_workflow :: unit_of_work where
  "demo_workflow = \<lparr>uw_uuid = 30, uw_input_data = generate_input_dict
       (JObj [(''name'', JStr ''Acme''), (''slug'', JStr ''acme''), (''country'', JStr ''US'')]) [''a''] None None
       (JObj [(''title'', JStr ''T''), (''salesforce_opportunity_line_item'', JStr ''L''), (''start_date'', JStr ''2025-01-01T00:00:00Z''),
              (''expiration_date'', JStr ''2025-01-15T00:00:00Z''), (''desired_num_licenses'', JNum 3), (''product_id'', JNum 2)])
       (JObj [(''title'', JStr ''P''), (''product_id'', JNum 1)]),
     uw_output_data = None, uw_succeeded_at = None, uw_failed_at = None, uw_exception_message = None, uw_is_removed = False\<rparr>"

definition demo_intent :: checkout_intent where
  "demo_intent = (acme_row 1 7 CI_PAID 9)\<lparr>ci_enterprise_slug := Some ''acme''\<rparr>"

definition demo_run :: "nat prov_world workflow_run" where
  "demo_run = \<lparr>wr_world = \<lparr>pw_now = 70, pw_services = 0, pw_workflows = [demo_workflow], pw_intents = [demo_intent],
     pw_summaries = [\<lparr>es_event_id = ''evt'', es_checkout_intent = Some 1, es_stripe_subscription_id = Some ''sub'',
       es_stripe_event_created_at = Some 5\<rparr>], pw_renewals = [], pw_emails = []\<rparr>, wr_steps = []\<rparr>"

definition demo_workflow_env :: workflow_env where
  "demo_workflow_env = \<lparr>we_now = 70, we_fresh = (\<lambda>table. Suc (sum_list (map uw_uuid table)))\<rparr>"

lemma demo_fresh_steps: "fresh_steps demo_workflow_env"
proof -
  have "uw_uuid r \<le> sum_list (map uw_uuid table)" if "r \<in> set table" for r :: workflow_step and table
    using that by (simp add: member_le_sum_list)
  then show ?thesis by (force simp: fresh_steps_def demo_workflow_env_def)
qed

section \<open>Properties\<close>

text \<open>
  C15. A provisioning that failed is resumed where it failed. The first call has run a prefix of the
  steps and accumulated their outputs, and the next step raised; in whatever world and at whatever time
  \<open>process_input\<close> is called again on the rows that are left, it does exactly what the loop does from that
  step on, with the same outputs: no earlier step calls a service again.
\<close>

theorem provisioning_resumes:
  assumes "process_steps env (steps cl cv) self (steps cl cv) None acc run = (run', Inl e)"
    and "distinct (map step_key (wr_steps run))" and "fresh_steps env"
  shows "\<exists>pre c post prev' acc' reached. steps cl cv = pre @ c # post \<and>
    process_steps env (steps cl cv) self pre None acc run = (reached, Inr acc') \<and>
    process_steps env (steps cl cv) self [c] prev' acc' reached = (run', Inl e) \<and>
    (\<forall>env' world. process_steps env' (steps cl cv) self (steps cl cv) None acc (run'\<lparr>wr_world := world\<rparr>) =
       process_steps env' (steps cl cv) self (c # post) prev' acc' (run'\<lparr>wr_world := world\<rparr>))"
  by (rule provisioning.resume [OF assms])

abbreviation demo_failing :: "(step_input, step_output, nat prov_world) step_class list" where
  "demo_failing \<equiv> steps (demo_clients False) demo_converter"

abbreviation demo_working :: "(step_input, step_output, nat prov_world) step_class list" where
  "demo_working \<equiv> steps (demo_clients True) demo_converter"

theorem provisioning_resumes_witness:
  "\<exists>pre c post prev' acc' run'. demo_failing = pre @ c # post \<and>
     fst (process_steps demo_workflow_env demo_failing demo_workflow demo_failing None (\<lambda>_. None) demo_run) = run' \<and>
     process_steps demo_workflow_env demo_failing demo_workflow demo_failing None (\<lambda>_. None) run' =
     process_steps demo_workflow_env demo_failing demo_workflow (c # post) prev' acc' run'"
proof -
  let ?m = "process_steps demo_workflow_env demo_failing demo_workflow demo_failing None (\<lambda>_. None) demo_run"
  have "isl (snd ?m) = True" by code_simp
  then obtain run' e where m: "?m = (run', Inl e)" by (cases ?m; cases "snd ?m") auto
  have "distinct (map step_key (wr_steps demo_run))" by (simp add: demo_run_def)
  from provisioning_resumes [OF m this demo_fresh_steps] obtain pre c post prev' acc' where
    split: "demo_failing = pre @ c # post" and again: "\<forall>env' world.
      process_steps env' demo_failing demo_workflow demo_failing None (\<lambda>_. None) (run'\<lparr>wr_world := world\<rparr>) =
      process_steps env' demo_failing demo_workflow (c # post) prev' acc' (run'\<lparr>wr_world := world\<rparr>)" by blast
  have "process_steps demo_workflow_env demo_failing demo_workflow demo_failing None (\<lambda>_. None) run' =
      process_steps demo_workflow_env demo_failing demo_workflow (c # post) prev' acc' run'"
    using again [rule_format, of demo_workflow_env "wr_world run'"] by simp
  with split show ?thesis unfolding m fst_conv
    by (intro exI [of _ pre] exI [of _ c] exI [of _ post] exI [of _ prev'] exI [of _ acc'] exI [of _ run'] conjI refl)
qed

text \<open>
  C16. A provisioning that succeeds leaves the checkout intent of its workflow fulfilled, if the
  notification step has not run before.
\<close>

theorem provisioning_fulfills:
  assumes "execute_workflow env (steps cl cv) self run = (run', self', Inr result)"
    and "distinct (map step_key (wr_steps run))" and "fresh_steps env"
    and "step_rows ''notification'' (uw_uuid self) (wr_steps run) = []"
  shows "uw_succeeded_at self' = Some (we_now env) \<and>
    (\<exists>i \<in> set (pw_intents (wr_world run')). ci_workflow i = Some (uw_uuid self) \<and> ci_state i = CI_FULFILLED)"
proof -
  have "uw_succeeded_at self = None"
    using assms(1) execute_succeeded [of self env "steps cl cv" run] by (cases "uw_succeeded_at self = None") auto
  moreover obtain run1 r where m: "process_steps env (steps cl cv) self (steps cl cv) None (\<lambda>_. None) run = (run1, r)"
    by fastforce
  ultimately obtain acc' where "r = Inr acc'" "run' = run1" "uw_succeeded_at self' = Some (we_now env)"
    using assms(1) by (cases r) (auto simp: execute_workflow_def record_result_def split: sum.splits)
  then show ?thesis using workflow_fulfills [OF m [unfolded \<open>r = Inr acc'\<close>] assms(2-4)] by simp
qed

theorem provisioning_fulfills_witness:
  "\<exists>i \<in> set (pw_intents (wr_world (fst (execute_workflow demo_workflow_env demo_working demo_workflow demo_run)))).
     ci_workflow i = Some 30 \<and> ci_state i = CI_FULFILLED"
proof -
  let ?m = "execute_workflow demo_workflow_env demo_working demo_workflow demo_run"
  have "isl (snd (snd ?m)) = False" by code_simp
  then obtain run' self' x where m: "?m = (run', self', Inr x)" by (cases ?m; cases "snd (snd ?m)") auto
  have "distinct (map step_key (wr_steps demo_run))" "step_rows ''notification'' (uw_uuid demo_workflow) (wr_steps demo_run) = []"
    by (simp_all add: demo_run_def step_rows_def)
  from provisioning_fulfills [OF m this(1) demo_fresh_steps this(2)] have
    "\<exists>i \<in> set (pw_intents (wr_world run')). ci_workflow i = Some (uw_uuid demo_workflow) \<and> ci_state i = CI_FULFILLED" by blast
  moreover have "uw_uuid demo_workflow = 30" by (simp add: demo_workflow_def)
  ultimately show ?thesis unfolding m fst_conv by simp
qed

text \<open>
  Get or create a plan is no such thing across retries. The plans it looks through are those of the
  stored output of the agreement step, so unless one of them has the line item, every execution of the
  step asks the license manager for a new plan, also when an earlier one has created it and failed
  afterwards.
\<close>

theorem plan_created_by_every_retry:
  assumes "trial_plan_request cv self acc = Inr (existing, request)"
    and "\<And>s. s \<in> set existing \<Longrightarrow>
      get_item s ''salesforce_opportunity_line_item'' \<noteq> unstructure_optional JStr (pr_salesforce_opportunity_line_item request)"
  shows "pw_services (fst (process_trial_plan cl cv self acc w)) = fst (cl_create_plan cl request (pw_services w))"
proof -
  have "find (\<lambda>s. get_item s ''salesforce_opportunity_line_item'' =
      unstructure_optional JStr (pr_salesforce_opportunity_line_item request)) existing = None"
    using assms(2) by (auto simp: find_None_iff)
  then have get: "get_or_create_subscription_plan cl existing request x =
      (case cl_create_plan cl request x of (x1, r) \<Rightarrow> (x1, rbind r (\<lambda>created. rbind (item created ''uuid'') (\<lambda>_. Inr created))))" for x
    by (simp add: get_or_create_subscription_plan_def)
  have keep: "pw_services w2 = pw_services w1" if "provisioning_failed cl self e w1 = (w2, r)" for e w1 w2 r
    using that by (auto simp: provisioning_failed_def error_checkout_intent_def save_intent_def rbind_Inr_iff
        split: sum.splits if_splits)
  show ?thesis
    using assms(1) by (auto simp: process_trial_plan_def returning_def guarded_call_def on_services_def get
        split: prod.splits sum.splits dest: keep)
qed

theorem plan_created_by_every_retry_witness:
  "pw_services (wr_world (fst (process_steps demo_workflow_env demo_failing demo_workflow demo_failing None (\<lambda>_. None)
     (fst (process_steps demo_workflow_env demo_failing demo_workflow demo_failing None (\<lambda>_. None) demo_run))))) = 2 \<and>
   (\<forall>w. pw_services (fst (process_trial_plan (demo_clients False) demo_converter
      \<lparr>uw_uuid = 1, uw_input_data = JObj [(''title'', JStr ''T''), (''salesforce_opportunity_line_item'', JStr ''L''),
         (''start_date'', JStr ''2025-01-01T00:00:00Z''), (''expiration_date'', JStr ''2025-01-15T00:00:00Z''), (''desired_num_licenses'', JNum 3),
         (''product_id'', JNum 2), (''enterprise_catalog_uuid'', JStr ''00000000-0000-0000-0000-000000000008'')], uw_output_data = None, uw_succeeded_at = None,
       uw_failed_at = None, uw_exception_message = None, uw_is_removed = False, ws_class = [], ws_workflow_record_uuid = 30,
       ws_preceding_step_uuid = None\<rparr>
      ((\<lambda>_. None)(''create_customer_agreement_output'' \<mapsto> Agreement_Output \<lparr>ag_uuid = 9, ag_enterprise_customer_uuid = 7,
         ag_subscriptions = [], ag_default_catalog_uuid = None\<rparr>)) w)) = Suc (pw_services w))"
proof
  show "pw_services (wr_world (fst (process_steps demo_workflow_env demo_failing demo_workflow demo_failing None (\<lambda>_. None)
     (fst (process_steps demo_workflow_env demo_failing demo_workflow demo_failing None (\<lambda>_. None) demo_run))))) = 2"
    by code_simp
next
  let ?row = "\<lparr>uw_uuid = 1, uw_input_data = JObj [(''title'', JStr ''T''), (''salesforce_opportunity_line_item'', JStr ''L''),
         (''start_date'', JStr ''2025-01-01T00:00:00Z''), (''expiration_date'', JStr ''2025-01-15T00:00:00Z''), (''desired_num_licenses'', JNum 3),
         (''product_id'', JNum 2), (''enterprise_catalog_uuid'', JStr ''00000000-0000-0000-0000-000000000008'')], uw_output_data = None, uw_succeeded_at = None,
       uw_failed_at = None, uw_exception_message = None, uw_is_removed = False, ws_class = [], ws_workflow_record_uuid = 30,
       ws_preceding_step_uuid = None\<rparr>"
  let ?acc = "(\<lambda>_. None)(''create_customer_agreement_output'' \<mapsto> Agreement_Output \<lparr>ag_uuid = 9, ag_enterprise_customer_uuid = 7,
         ag_subscriptions = [], ag_default_catalog_uuid = None\<rparr>)"
  have "trial_plan_request demo_converter ?row ?acc = Inr ([],
      \<lparr>pr_customer_agreement_uuid = 9, pr_title = ''T'', pr_salesforce_opportunity_line_item = Some ''L'', pr_start_date = demo_time 1,
       pr_expiration_date = demo_time 15, pr_desired_num_licenses = 3, pr_enterprise_catalog_uuid = 8, pr_product_id = 2\<rparr>)"
    by code_simp
  from plan_created_by_every_retry [OF this, where cl = "demo_clients False"] have asked: "pw_services (fst (process_trial_plan (demo_clients False) demo_converter
      ?row ?acc w)) = fst (cl_create_plan (demo_clients False) \<lparr>pr_customer_agreement_uuid = 9, pr_title = ''T'', pr_salesforce_opportunity_line_item = Some ''L'', pr_start_date = demo_time 1,
       pr_expiration_date = demo_time 15, pr_desired_num_licenses = 3, pr_enterprise_catalog_uuid = 8, pr_product_id = 2\<rparr> (pw_services w))" for w
    by simp
  show "\<forall>w. pw_services (fst (process_trial_plan (demo_clients False) demo_converter
      ?row ?acc w)) = Suc (pw_services w)" unfolding asked by (simp add: demo_clients_def)
qed

lemma create_admins_lost:
  assumes "\<And>e x. cl_create_admin cl customer e x = (x, Inl (Api_Failure status))" and "status \<noteq> 404"
  shows "create_admins cl customer emails created x = (x, Inr created)"
  by (induction emails) (simp_all add: assms)

text \<open>
  Admins may be lost silently. When the LMS answers every request to create an admin with an error
  other than \<open>404\<close>, the step still succeeds, with no created admin; as it has succeeded, a retry of
  the workflow does not try again.
\<close>

theorem admins_lost:
  assumes "\<And>e x. cl_create_admin cl customer e x = (x, Inl (Api_Failure status))" and "status \<noteq> 404"
    and "cl_admin_users cl customer x = Inr (map Some existing)"
  shows "get_or_create_enterprise_admin_users cl customer user_emails x =
    (x, Inr (JObj [(''created_admins'', JList []), (''existing_admins'', email_dicts (remdups existing))]))"
proof -
  have "rmap (\<lambda>a. case a of None \<Rightarrow> Inl KeyError | Some e \<Rightarrow> Inr e) (map Some existing) = Inr existing"
    by (induction existing) simp_all
  then show ?thesis
    by (simp add: get_or_create_enterprise_admin_users_def assms(3) create_admins_lost [OF assms(1,2)] Let_def email_dicts_def)
qed

theorem admins_lost_witness:
  "get_or_create_enterprise_admin_users (demo_clients True) 7 [''a''] 0 =
    (0, Inr (JObj [(''created_admins'', JList []), (''existing_admins'', JList [])]))"
  using admins_lost [of "demo_clients True" 7 500 0 "[]" "[''a'']"] by (simp add: demo_clients_def email_dicts_def)

text \<open>
  A failing plan or renewal step puts the intent of its workflow into the provisioning error state
  from any state, without the check of \<open>mark_provisioning_error\<close>: a fulfilled intent, which that method
  refuses to change and which the transition table calls final, is no longer fulfilled afterwards.
\<close>

theorem fulfilled_intent_errored:
  assumes "get_linked_checkout_intent self w = Inr i" and "ci_state i = CI_FULFILLED"
  shows "mark_provisioning_error message flow now i = Inl ValueError \<and>
    (\<exists>w'. error_checkout_intent cl self exc w = Inr w' \<and>
       (\<exists>j \<in> set (pw_intents w'). ci_pk j = ci_pk i \<and> ci_user j = ci_user i \<and> ci_state j = CI_ERRORED_PROVISIONING))"
proof
  show "mark_provisioning_error message flow now i = Inl ValueError"
    by (simp add: mark_provisioning_error_def is_valid_state_transition_def assms(2))
  let ?flow = "map_option uw_uuid (get_workflow_record self w)"
  let ?i = "i\<lparr>ci_last_provisioning_error := Some (cl_error_text cl exc), ci_state := CI_ERRORED_PROVISIONING\<rparr>"
  have only: "filter (\<lambda>i. ci_workflow i = ?flow) (pw_intents w) = [i]"
    using assms(1) by (auto simp: get_linked_checkout_intent_def get_one_Found split: get_result.splits)
  have in_only: "j \<in> set (pw_intents w) \<and> ci_workflow j = ?flow \<longleftrightarrow> j = i" for j
    using arg_cong [OF only, of set] by auto
  have same: "x = i" if "x \<in> set (pw_intents w)" "ci_workflow x = ci_workflow i" for x
    using in_only [of x] in_only [of i] that by simp
  have "filter (\<lambda>j. ci_workflow j = ci_workflow ?i \<and> ci_pk j \<noteq> ci_pk ?i) (pw_intents w) = []"
    using same by (auto simp: filter_empty_conv)
  then have "save_intent ?i w = Inr (w\<lparr>pw_intents := put_row ci_pk (?i\<lparr>ci_modified := pw_now w\<rparr>) (pw_intents w)\<rparr>)"
    unfolding save_intent_def by simp
  moreover have "?i\<lparr>ci_modified := pw_now w\<rparr> \<in> set (put_row ci_pk (?i\<lparr>ci_modified := pw_now w\<rparr>) (pw_intents w))"
    using in_only [of i] by (auto simp: put_row_def image_iff intro!: bexI [of _ i])
  ultimately show "\<exists>w'. error_checkout_intent cl self exc w = Inr w' \<and>
       (\<exists>j \<in> set (pw_intents w'). ci_pk j = ci_pk i \<and> ci_user j = ci_user i \<and> ci_state j = CI_ERRORED_PROVISIONING)"
    by (intro exI [of _ "w\<lparr>pw_intents := put_row ci_pk (?i\<lparr>ci_modified := pw_now w\<rparr>) (pw_intents w)\<rparr>"])
      (auto simp: error_checkout_intent_def assms(1) intro!: bexI [of _ "?i\<lparr>ci_modified := pw_now w\<rparr>"])
qed

definition demo_step_row :: workflow_step where
  "demo_step_row = \<lparr>uw_uuid = 1, uw_input_data = JNull, uw_output_data = None, uw_succeeded_at = None, uw_failed_at = None,
     uw_exception_message = None, uw_is_removed = False, ws_class = [], ws_workflow_record_uuid = 30,
     ws_preceding_step_uuid = None\<rparr>"

definition demo_fulfilled :: "nat prov_world" where
  "demo_fulfilled = (wr_world demo_run)\<lparr>pw_intents := [demo_intent\<lparr>ci_state := CI_FULFILLED, ci_workflow := Some 30\<rparr>]\<rparr>"

theorem fulfilled_intent_errored_witness:
  "\<exists>w'. error_checkout_intent (demo_clients True) demo_step_row HTTPError demo_fulfilled = Inr w' \<and>
     (\<exists>j \<in> set (pw_intents w'). ci_user j = 7 \<and> ci_state j = CI_ERRORED_PROVISIONING)"
proof -
  let ?i = "demo_intent\<lparr>ci_state := CI_FULFILLED, ci_workflow := Some 30\<rparr>"
  have linked: "get_linked_checkout_intent demo_step_row demo_fulfilled = Inr ?i" by code_simp
  have "ci_state ?i = CI_FULFILLED" "ci_user ?i = 7" by (simp_all add: demo_intent_def acme_simps)
  with fulfilled_intent_errored [OF linked, where message = "[]" and flow = None and now = 0 and cl = "demo_clients True" and exc = HTTPError] show ?thesis by auto
qed

end
