(* ===== verification/Spec2Isabelle.thy ===== *)
theory Spec2Isabelle
  imports Assignment_Views_Properties Portal_Properties Request_Tasks_Properties Group_Views Billing_Views_Properties Stripe_Events_Properties Lcr_Views Lcr_Views_Properties License_Requests License_Requests_Properties Paging Subsidy_Api Checkout_Intent Subsidy_Request Content_Assignment Content_Metadata Assignment_Api Assignment_Lifecycle
    Policy_Model Policy_Redemption Policy_Allocation Policy_Lock Policy_Save Policy_Redemption_Properties Budget
    Workflow Provisioning_Data Provisioning Provisioning_Properties
begin

text \<open>
  Verification of the core logic of enterprise-access, the Django service that decides who in an
  enterprise customer may spend subsidy money on which course, and that turns a self-service
  checkout into a provisioned customer.

  \<^bold>\<open>Parts of the program and how they interact.\<close> A learner redeems a \<^emph>\<open>subsidy access policy\<close>
  (\<open>apps/subsidy_access_policy\<close>) and the service writes a transaction to the ledger of an external
  subsidy service. An administrator may first \<^emph>\<open>allocate\<close> content to learners
  (\<open>apps/content_assignments\<close>), which reserves budget, or learners may \<^emph>\<open>request\<close> licenses, coupon
  codes or learner credit (\<open>apps/subsidy_request\<close>), which an administrator approves or declines
  through the views of \<open>apps/api/v1/views/browse_and_request.py\<close> and the tasks of \<open>apps/api/tasks.py\<close>;
  the approval of a learner credit request allocates an assignment. \<open>apps/customer_billing\<close> keeps
  the \<^emph>\<open>checkout intents\<close> of prospective customers, which hold a reservation on a slug and a name
  and follow the events of Stripe; a paid intent is provisioned by the workflow of
  \<open>apps/provisioning\<close>, which runs on the engine of \<open>apps/workflow\<close>. The views of
  \<open>apps/api/v1/views\<close> guard these operations by the rules of \<open>apps/core/rules.py\<close>; Celery tasks
  and daily commands send the mails and write down what became of them. \<open>apps/bffs\<close> builds the page
  of the learner portal and, on the way, activates and assigns licenses and enrolls. The clients of
  \<open>apps/api_client\<close> call the LMS, the license manager, the catalog, e-commerce and discovery.

  \<^bold>\<open>How the model is written.\<close> A database table is a list of rows in primary-key order, a row is a
  record with the columns of the Django model, a choice field is a datatype or a string with
  the constants of the source. A handler takes the world (a record of the tables, the outbox of Celery tasks, counters and
  caches it touches) and returns the world after it together with a value of \<open>'a result\<close>, the sum
  of \<open>py_error\<close> and its return value, so that the writes that precede an exception stay written where
  the source has no transaction around them and are undone where it has one. Clocks, fresh
  identifiers, the answers of other services, parsers of addresses, dates and UUIDs, and third-party
  libraries are arguments or fields of environment records. Money is in integer cents as in the code,
  Python integers are \<open>int\<close>, and strings are lists of characters.

  \<^bold>\<open>Theories.\<close>
  \<^item> \<open>Prelude\<close>: types, Python errors and truthiness, JSON values, the result monad, tables, and the
    locale of guarded state machines with its reachability lemmas.
  \<^item> \<open>Content_Metadata\<close>: prices, content summaries and the cached catalog read.
  \<^item> \<open>Content_Assignment\<close>, \<open>Assignment_Api\<close>, \<open>Assignment_Lifecycle\<close>: the assignment models, their
    allocation (\<open>allocate_assignments\<close> and everything it calls) and their life cycle (cancel, remind,
    nudge, expire, reverse). The lemmas say which rows an operation changes, that a re-allocation
    debits each row once and that learners reached by an allocation hold the content.
  \<^item> \<open>Policy_Model\<close>, \<open>Policy_Redemption\<close>, \<open>Policy_Allocation\<close>, \<open>Policy_Lock\<close>, \<open>Policy_Save\<close>,
    \<open>Policy_Redemption_Properties\<close>: the three classes of policies: redeemability, redemption,
    allocation and approval, the lock, deposits and \<open>clean\<close>/\<open>save\<close>.
  \<^item> \<open>Budget\<close>: an abstract account that reserves and spends within a limit, and the proof that the
    operations of the previous theories refine it, so that no run of them passes the spend limit.
  \<^item> \<open>Subsidy_Api\<close>: the reads of the ledger and the mapping from content to redemptions.
  \<^item> \<open>Subsidy_Request\<close>, \<open>License_Requests\<close>, \<open>Lcr_Views\<close> with their property theories: the request
    models, the license and coupon code views with their tasks, and the learner credit views with the
    batch approval.
  \<^item> \<open>Checkout_Intent\<close>: the transition table of checkout intents, reservations, the mutations.
  \<^item> \<open>Workflow\<close>, \<open>Provisioning_Data\<close>, \<open>Provisioning\<close>, \<open>Provisioning_Properties\<close>: the engine that runs and
    resumes steps, the inputs and outputs of the steps of provisioning and the steps themselves.
  \<^item> \<open>Api_Client\<close>, \<open>Paging\<close>: the HTTP clients and the loops that follow pages or retry.
  \<^item> \<open>Access_Rules\<close>: the roles, the permissions and the predicates of \<open>apps/core/rules.py\<close>, with the
    exact condition under which a request passes each permission.
  \<^item> \<open>Policy_Views\<close>, \<open>Group_Views\<close> with their property theories: what the views over policies offer,
    redeem and allocate under the lock, in which order policies are tried, and the views over the
    groups of a policy. The lemmas compare what is offered with what is then redeemable.
  \<^item> \<open>Assignment_Tasks\<close>, \<open>Assignment_Views\<close> with their property theories: the tasks that mail
    learners and mark rows as failed, the views over assignments and configurations, and the commands
    that expire and nudge. The lemmas say what a bulk operation writes and answers, which rows lose
    their address, and how many overdue rows a run of the expiration passes over.
  \<^item> \<open>Request_Tasks\<close> with its property theory: the digests of new requests sent to admins, and
    which requests two successive digests cover.
  \<^item> \<open>Stripe_Api\<close>, \<open>Stripe_Events\<close> with its property theory: the cached calls of Stripe, the handlers of
    its events and the summaries they write. The lemmas say that the log stays consistent and that
    an event renews a subscription once.
  \<^item> \<open>Pricing\<close>, \<open>Checkout_Session\<close>, \<open>Billing_Views\<close> with its property theory: the prices of the
    self-service products, the validation of the checkout form and the views that create and
    change intents and sessions.
  \<^item> \<open>Learner_Portal\<close>, \<open>Portal_Handlers\<close>, \<open>Portal_Properties\<close>: the context of a portal page with its
    caches, and the handlers that activate, apply and show licenses and enroll by default.

  \<^bold>\<open>Interfaces.\<close> Locales state what a client needs of a provider and are interpreted on the
  definitions of the model: \<open>guarded_transitions\<close> for the state machines, \<open>reservations\<close> for the account
  of a budget, \<open>page_reader\<close> for listings read page by page, \<open>resumable\<close> for steps that are run again.

  \<^bold>\<open>Termination and bounds.\<close> The loops of the model are structural recursions, except those whose end
  depends on another service: following the \<open>next\<close> links of a listing and retrying a call are
  \<open>partial_function (option)\<close>, with \<open>None\<close> for the run that never ends, and theorems say exactly when they
  return. No fuel is used. The size of a page is a parameter of the daily expiration, so that its
  theorem holds for every size; the command uses 100.

  \<^bold>\<open>Not modelled.\<close> Rendering of responses and request serializers except the checks that decide
  what is written; the ordering of listings; the pages of the checkout (\<open>apps/bffs/checkout\<close>) and the
  profile of a learner, which only read; the mails about billing and group membership
  (\<open>customer_billing/tasks.py\<close>, \<open>apps/enterprise_groups\<close>), which are modelled as far as they are
  queued; forced redemptions; Django admin, settings, URL configuration, migrations and the commands
  that repeat modelled operations over stored rows; analytics and the event bus (\<open>apps/track\<close>,
  \<open>apps/events\<close>) but for the redemption event; the text of messages and e-mails.
\<close>

end
